(* ===== verification/Privana_Prelude.thy ===== *)
theory Privana_Prelude
  imports Main "HOL-Library.Word"
begin

text \<open>
  What every component theory shares.

  \<^item> Python exceptions as values (\<open>exn\<close>), with the two questions the code asks of
    them: is it an \<open>Exception\<close> (so \<open>except Exception\<close> sees it), and what is its text.
  \<^item> The state-and-exception reading of a coroutine: \<open>('s, 'a) py\<close> takes the state and
    returns a result or an exception together with the state reached so far. Exceptions do
    not roll the state back, as in Python.
  \<^item> A weakest precondition \<open>wp\<close> for such programs: one simp rule per construct, so that a
    property of a handler is computed from its text.
  \<^item> The string and hex helpers the code takes from the standard library.

  Texts of messages are abridged: the values the code interpolates are left out. What the
  code can observe of a text (whether it is empty, which contract error it names) is kept.
\<close>

section \<open>Exceptions\<close>

text \<open>The kinds of \<open>OnRampError\<close>, the subclass of \<open>ValueError\<close> the on-ramp services raise.\<close>

datatype onramp_error =
    Refused | Unconfigured | ProviderFailed | RateLimited "int option" | WebhookUnverified

datatype exn =
    ValueError string
  | KeyError string
  | TimeoutError string
  | TransactionNotFound string
  | TransactionReverted "string option" string
  | SweepCreditPending string
  | NotConfigured string
  | OtherError string
  | OSErr string
  | ClientError string
  | Web3Exception string
  | ContractLogic string
  | DiscoveryRPCError string
  | JwtExpired string
  | JwtInvalid string
  | SiweAuth string int
  | HttpError int string
  | OutcomeUnknown string
  | OnRampError onramp_error string
  | Cancelled
  | OutOfFuel

text \<open>
  \<open>Cancelled\<close> is \<open>asyncio.CancelledError\<close> (a \<open>BaseException\<close>): it can arrive at any
  \<open>await\<close> and passes through every \<open>except Exception\<close>. \<open>OutOfFuel\<close> is not an
  exception of the program: it marks a loop cut off by the model's bound, and it is caught by
  nothing.
\<close>

fun is_exception :: "exn \<Rightarrow> bool" where
  "is_exception Cancelled = False"
| "is_exception OutOfFuel = False"
| "is_exception _ = True"

fun str_exn :: "exn \<Rightarrow> string" where
  "str_exn (ValueError m) = m"
| "str_exn (KeyError m) = m"
| "str_exn (TimeoutError m) = m"
| "str_exn (TransactionNotFound m) = m"
| "str_exn (TransactionReverted n m) = m"
| "str_exn (SweepCreditPending m) = ''Deposit swept successfully but credit pending''"
| "str_exn (NotConfigured m) = m"
| "str_exn (OtherError m) = m"
| "str_exn (OSErr m) = m"
| "str_exn (ClientError m) = m"
| "str_exn (Web3Exception m) = m"
| "str_exn (ContractLogic m) = m"
| "str_exn (DiscoveryRPCError m) = m"
| "str_exn (JwtExpired m) = m"
| "str_exn (JwtInvalid m) = m"
| "str_exn (SiweAuth m code) = m"
| "str_exn (HttpError code m) = m"
| "str_exn (OutcomeUnknown m) = m"
| "str_exn (OnRampError k m) = m"
| "str_exn Cancelled = []"
| "str_exn OutOfFuel = []"

fun is_value_error :: "exn \<Rightarrow> bool" where
  "is_value_error (ValueError m) = True"
| "is_value_error (OnRampError k m) = True"
| "is_value_error _ = False"

text \<open>\<open>jwt.InvalidTokenError\<close>: expired signatures are one of its kinds.\<close>

fun is_jwt_error :: "exn \<Rightarrow> bool" where
  "is_jwt_error (JwtExpired m) = True"
| "is_jwt_error (JwtInvalid m) = True"
| "is_jwt_error _ = False"

text \<open>Sequencing of pure computations that may raise.\<close>

definition sum_bind :: "exn + 'a \<Rightarrow> ('a \<Rightarrow> exn + 'b) \<Rightarrow> exn + 'b" where
  "sum_bind r f = (case r of Inl e \<Rightarrow> Inl e | Inr x \<Rightarrow> f x)"

lemma sum_bind_simps [simp]: "sum_bind (Inl e) f = Inl e" "sum_bind (Inr x) f = f x"
  by (simp_all add: sum_bind_def)

section \<open>Coroutines as state and exception passing\<close>

type_synonym ('s, 'a) py = "'s \<Rightarrow> (exn + 'a) \<times> 's"

definition py_ret :: "'a \<Rightarrow> ('s, 'a) py" where
  "py_ret x = (\<lambda>s. (Inr x, s))"

definition py_raise :: "exn \<Rightarrow> ('s, 'a) py" where
  "py_raise e = (\<lambda>s. (Inl e, s))"

definition py_bind :: "('s, 'a) py \<Rightarrow> ('a \<Rightarrow> ('s, 'b) py) \<Rightarrow> ('s, 'b) py" where
  "py_bind m f = (\<lambda>s. case m s of (Inl e, t) \<Rightarrow> (Inl e, t) | (Inr x, t) \<Rightarrow> f x t)"

definition py_then :: "('s, 'a) py \<Rightarrow> ('s, 'b) py \<Rightarrow> ('s, 'b) py" where
  "py_then m n = py_bind m (\<lambda>_. n)"

definition py_get :: "('s, 's) py" where
  "py_get = (\<lambda>s. (Inr s, s))"

definition py_modify :: "('s \<Rightarrow> 's) \<Rightarrow> ('s, unit) py" where
  "py_modify f = (\<lambda>s. (Inr (), f s))"

text \<open>\<open>try: m except e: h e\<close>, the handler itself deciding what it re-raises.\<close>

definition py_try :: "('s, 'a) py \<Rightarrow> (exn \<Rightarrow> ('s, 'a) py) \<Rightarrow> ('s, 'a) py" where
  "py_try m h = (\<lambda>s. case m s of (Inl e, t) \<Rightarrow> h e t | (Inr x, t) \<Rightarrow> (Inr x, t))"

text \<open>\<open>try: m except Exception as e: h e\<close>.\<close>

definition py_catch :: "('s, 'a) py \<Rightarrow> (exn \<Rightarrow> ('s, 'a) py) \<Rightarrow> ('s, 'a) py" where
  "py_catch m h = py_try m (\<lambda>e. if is_exception e then h e else py_raise e)"

text \<open>A pure computation that may raise.\<close>

definition py_lift :: "(exn + 'a) \<Rightarrow> ('s, 'a) py" where
  "py_lift r = (\<lambda>s. (r, s))"

text \<open>\<open>d[k]\<close> on a dict.\<close>

definition py_index :: "('k \<rightharpoonup> 'v) \<Rightarrow> 'k \<Rightarrow> exn + 'v" where
  "py_index m k = (case m k of None \<Rightarrow> Inl (KeyError ''KeyError'') | Some v \<Rightarrow> Inr v)"

text \<open>A \<open>for\<close> loop over a list whose body has no early exit.\<close>

fun py_for :: "'a list \<Rightarrow> ('a \<Rightarrow> ('s, unit) py) \<Rightarrow> ('s, unit) py" where
  "py_for [] f = py_ret ()"
| "py_for (x # xs) f = py_then (f x) (py_for xs f)"

text \<open>A \<open>for\<close> loop that collects what its body returns.\<close>

fun py_map :: "('a \<Rightarrow> ('s, 'b) py) \<Rightarrow> 'a list \<Rightarrow> ('s, 'b list) py" where
  "py_map f [] = py_ret []"
| "py_map f (x # xs) = py_bind (f x) (\<lambda>y. py_bind (py_map f xs) (\<lambda>ys. py_ret (y # ys)))"

section \<open>Weakest preconditions\<close>

definition wp :: "('s, 'a) py \<Rightarrow> ('a \<Rightarrow> 's \<Rightarrow> bool) \<Rightarrow> (exn \<Rightarrow> 's \<Rightarrow> bool) \<Rightarrow> 's \<Rightarrow> bool" where
  "wp m Q E s = (case m s of (Inl e, t) \<Rightarrow> E e t | (Inr x, t) \<Rightarrow> Q x t)"

named_theorems wp_simps \<open>weakest preconditions of the constructs and of the components' primitives\<close>

lemma wp_ret [wp_simps]: "wp (py_ret x) Q E s = Q x s"
  by (simp add: wp_def py_ret_def)

lemma wp_raise [wp_simps]: "wp (py_raise e) Q E s = E e s"
  by (simp add: wp_def py_raise_def)

lemma wp_bind [wp_simps]: "wp (py_bind m f) Q E s = wp m (\<lambda>x. wp (f x) Q E) E s"
  by (simp add: wp_def py_bind_def split: prod.splits sum.splits)

lemma wp_then [wp_simps]: "wp (py_then m n) Q E s = wp m (\<lambda>_. wp n Q E) E s"
  by (simp add: py_then_def wp_bind)

lemma wp_get [wp_simps]: "wp py_get Q E s = Q s s"
  by (simp add: wp_def py_get_def)

lemma wp_modify [wp_simps]: "wp (py_modify f) Q E s = Q () (f s)"
  by (simp add: wp_def py_modify_def)

lemma wp_try [wp_simps]: "wp (py_try m h) Q E s = wp m Q (\<lambda>e. wp (h e) Q E) s"
  by (simp add: wp_def py_try_def split: prod.splits sum.splits)

lemma wp_catch [wp_simps]:
  "wp (py_catch m h) Q E s = wp m Q (\<lambda>e t. if is_exception e then wp (h e) Q E t else E e t) s"
  unfolding py_catch_def wp_try
  by (simp add: wp_def [of m] wp_raise if_distrib [of "\<lambda>n. wp n Q E _"] split: prod.splits sum.splits)

lemma wp_lift [wp_simps]:
  "wp (py_lift r) Q E s = (case r of Inl e \<Rightarrow> E e s | Inr x \<Rightarrow> Q x s)"
  by (simp add: wp_def py_lift_def)

lemma wp_if [wp_simps]:
  "wp (if b then m else n) Q E s = (if b then wp m Q E s else wp n Q E s)"
  by simp

lemma wp_mono:
  assumes "wp m Q E s"
    and "\<And>x t. Q x t \<Longrightarrow> Q' x t" and "\<And>e t. E e t \<Longrightarrow> E' e t"
  shows "wp m Q' E' s"
  using assms by (auto simp: wp_def split: prod.splits sum.splits)

lemma wp_conj: "wp m Q E s \<Longrightarrow> wp m Q' E' s \<Longrightarrow>
    wp m (\<lambda>x t. Q x t \<and> Q' x t) (\<lambda>e t. E e t \<and> E' e t) s"
  by (auto simp: wp_def split: prod.splits sum.splits)

lemma wp_Inr: "wp m Q E s \<Longrightarrow> m s = (Inr x, t) \<Longrightarrow> Q x t"
  by (simp add: wp_def)

lemma wp_Inl: "wp m Q E s \<Longrightarrow> m s = (Inl e, t) \<Longrightarrow> E e t"
  by (simp add: wp_def)

lemma wp_result:
  "wp m (\<lambda>x t. P (Inr x) t) (\<lambda>e t. P (Inl e) t) s \<Longrightarrow> m s = (r, t) \<Longrightarrow> P r t"
  by (cases r) (simp_all add: wp_def)

lemma wpI_total: "wp m (\<lambda>x t. P t) (\<lambda>e t. P t) s \<Longrightarrow> m s = (r, t) \<Longrightarrow> P t"
  by (cases r) (simp_all add: wp_def)

text \<open>What a program that returned has gone through, construct by construct.\<close>

named_theorems result_simps \<open>when a program returns normally\<close>

lemma py_bind_Inr [result_simps]:
  "py_bind m f s = (Inr y, t) \<longleftrightarrow> (\<exists>x u. m s = (Inr x, u) \<and> f x u = (Inr y, t))"
  by (auto simp: py_bind_def split: prod.splits sum.splits)

lemma py_then_Inr [result_simps]:
  "py_then m n s = (Inr y, t) \<longleftrightarrow> (\<exists>x u. m s = (Inr x, u) \<and> n u = (Inr y, t))"
  by (simp add: py_then_def py_bind_Inr)

lemma py_ret_Inr [result_simps]: "py_ret x s = (Inr y, t) \<longleftrightarrow> y = x \<and> t = s"
  by (auto simp: py_ret_def)

lemma py_raise_Inr [result_simps]: "py_raise e s = (Inr y, t) \<longleftrightarrow> False"
  by (auto simp: py_raise_def)

lemma py_lift_Inr [result_simps]: "py_lift r s = (Inr y, t) \<longleftrightarrow> r = Inr y \<and> t = s"
  by (auto simp: py_lift_def)

lemma py_modify_Inr [result_simps]: "py_modify f s = (Inr y, t) \<longleftrightarrow> t = f s"
  by (auto simp: py_modify_def)

lemma py_try_Inr [result_simps]: "py_try m h s = (Inr y, t) \<longleftrightarrow>
    m s = (Inr y, t) \<or> (\<exists>e u. m s = (Inl e, u) \<and> h e u = (Inr y, t))"
  by (auto simp: py_try_def split: prod.splits sum.splits)

lemma py_catch_Inr [result_simps]: "py_catch m h s = (Inr y, t) \<longleftrightarrow>
    m s = (Inr y, t) \<or> (\<exists>e u. m s = (Inl e, u) \<and> is_exception e \<and> h e u = (Inr y, t))"
  by (auto simp: py_catch_def py_try_Inr py_raise_def split: if_splits)

text \<open>
  What a program keeps whatever it returns or raises: \<open>keeps P m\<close>. The rules compose it
  along the program text.
\<close>

definition keeps :: "('s \<Rightarrow> bool) \<Rightarrow> ('s, 'a) py \<Rightarrow> bool" where
  "keeps P m \<longleftrightarrow> (\<forall>s. P s \<longrightarrow> P (snd (m s)))"

named_theorems keeps_intros \<open>programs that keep an invariant\<close>

lemma keepsD: "keeps P m \<Longrightarrow> P s \<Longrightarrow> m s = (r, t) \<Longrightarrow> P t"
  by (force simp: keeps_def)

lemma keeps_ret [keeps_intros]: "keeps P (py_ret x)"
  by (simp add: keeps_def py_ret_def)

lemma keeps_raise [keeps_intros]: "keeps P (py_raise e)"
  by (simp add: keeps_def py_raise_def)

lemma keeps_get [keeps_intros]: "keeps P py_get"
  by (simp add: keeps_def py_get_def)

lemma keeps_lift [keeps_intros]: "keeps P (py_lift r)"
  by (simp add: keeps_def py_lift_def)

lemma keeps_bind [keeps_intros]:
  "keeps P m \<Longrightarrow> (\<And>x. keeps P (f x)) \<Longrightarrow> keeps P (py_bind m f)"
  by (force simp: keeps_def py_bind_def split: prod.splits sum.splits)

lemma keeps_then [keeps_intros]: "keeps P m \<Longrightarrow> keeps P n \<Longrightarrow> keeps P (py_then m n)"
  by (simp add: py_then_def keeps_bind)

lemma keeps_try [keeps_intros]:
  "keeps P m \<Longrightarrow> (\<And>e. keeps P (h e)) \<Longrightarrow> keeps P (py_try m h)"
  by (force simp: keeps_def py_try_def split: prod.splits sum.splits)

lemma keeps_catch [keeps_intros]:
  "keeps P m \<Longrightarrow> (\<And>e. keeps P (h e)) \<Longrightarrow> keeps P (py_catch m h)"
  by (auto simp: py_catch_def intro!: keeps_try keeps_raise)

lemma keeps_if [keeps_intros]:
  "(b \<Longrightarrow> keeps P m) \<Longrightarrow> (\<not> b \<Longrightarrow> keeps P n) \<Longrightarrow> keeps P (if b then m else n)"
  by simp

lemma keeps_for: "(\<And>x. x \<in> set xs \<Longrightarrow> keeps P (f x)) \<Longrightarrow> keeps P (py_for xs f)"
  by (induction xs) (auto intro!: keeps_intros)

lemma keeps_modify: "(\<And>s. P s \<Longrightarrow> P (f s)) \<Longrightarrow> keeps P (py_modify f)"
  by (simp add: keeps_def py_modify_def)

text \<open>A program is total when it never runs out of the model's fuel.\<close>

definition in_fuel :: "('s, 'a) py \<Rightarrow> 's \<Rightarrow> bool" where
  "in_fuel m s \<longleftrightarrow> fst (m s) \<noteq> Inl OutOfFuel"

lemma fold_keeps: "(\<And>x s. g (f x s) = g s) \<Longrightarrow> g (fold f xs s) = g s"
  by (induction xs arbitrary: s) auto

lemma fold_inv: "P s \<Longrightarrow> (\<And>x s. P s \<Longrightarrow> P (f x s)) \<Longrightarrow> P (fold f xs s)"
  by (induction xs arbitrary: s) auto

section \<open>Strings\<close>

definition ascii_lower_char :: "char \<Rightarrow> char" where
  "ascii_lower_char c =
     (let n = (of_char c :: nat) in if 65 \<le> n \<and> n \<le> 90 then char_of (n + 32) else c)"

definition ascii_lower :: "string \<Rightarrow> string" where
  "ascii_lower s = map ascii_lower_char s"

text \<open>\<open>str.strip()\<close> and \<open>str.rstrip(c)\<close>.\<close>

definition py_space :: "char \<Rightarrow> bool" where
  "py_space c = (let n = (of_char c :: nat) in
     n = 32 \<or> (9 \<le> n \<and> n \<le> 13) \<or> (28 \<le> n \<and> n \<le> 31) \<or> n = 133 \<or> n = 160)"

definition py_strip :: "string \<Rightarrow> string" where
  "py_strip s = rev (dropWhile py_space (rev (dropWhile py_space s)))"

definition rstrip_char :: "char \<Rightarrow> string \<Rightarrow> string" where
  "rstrip_char c s = rev (dropWhile (\<lambda>d. d = c) (rev s))"

fun removeprefix :: "string \<Rightarrow> string \<Rightarrow> string" where
  "removeprefix [] s = s"
| "removeprefix (p # ps) [] = []"
| "removeprefix (p # ps) (c # cs) =
     (if take (length (p # ps)) (c # cs) = p # ps then drop (length (p # ps)) (c # cs) else c # cs)"

lemma removeprefix_append [simp]: "removeprefix p (p @ s) = s"
  by (cases p) auto

lemma length_ascii_lower [simp]: "length (ascii_lower s) = length s"
  by (simp add: ascii_lower_def)

lemma ascii_lower_char_idem: "ascii_lower_char (ascii_lower_char c) = ascii_lower_char c"
  by (simp add: ascii_lower_char_def Let_def)

lemma ascii_lower_idem [simp]: "ascii_lower (ascii_lower s) = ascii_lower s"
  by (simp add: ascii_lower_def ascii_lower_char_idem)

lemma ascii_lower_append: "ascii_lower (a @ b) = ascii_lower a @ ascii_lower b"
  by (simp add: ascii_lower_def)

section \<open>Bytes and hex\<close>

type_synonym u8 = "8 word"
type_synonym bytes = "u8 list"

definition hex_chars :: string where
  "hex_chars = ''0123456789abcdef''"

definition hex_digit :: "nat \<Rightarrow> char" where
  "hex_digit n = hex_chars ! n"

text \<open>\<open>bytes.hex()\<close>, and the value of one hex character as \<open>bytes.fromhex\<close> reads it.\<close>

definition hex_of_byte :: "u8 \<Rightarrow> string" where
  "hex_of_byte b = [hex_digit (unat b div 16), hex_digit (unat b mod 16)]"

definition bytes_hex :: "bytes \<Rightarrow> string" where
  "bytes_hex bs = concat (map hex_of_byte bs)"

definition hex_value :: "char \<Rightarrow> nat option" where
  "hex_value c = (let n = (of_char c :: nat) in
     if 48 \<le> n \<and> n \<le> 57 then Some (n - 48)
     else if 97 \<le> n \<and> n \<le> 102 then Some (n - 87)
     else if 65 \<le> n \<and> n \<le> 70 then Some (n - 55) else None)"

definition ascii_space :: "char \<Rightarrow> bool" where
  "ascii_space c = (let n = (of_char c :: nat) in n = 32 \<or> (9 \<le> n \<and> n \<le> 13))"

text \<open>
  \<open>bytes.fromhex\<close>: pairs of hex digits, ASCII white space allowed before a pair (not inside
  one), \<open>ValueError\<close> otherwise.
\<close>

fun bytes_fromhex :: "string \<Rightarrow> exn + bytes" where
  "bytes_fromhex [] = Inr []"
| "bytes_fromhex [c] = (if ascii_space c then Inr [] else Inl (ValueError ''non-hexadecimal number''))"
| "bytes_fromhex (c # d # cs) =
     (if ascii_space c then bytes_fromhex (d # cs)
      else case (hex_value c, hex_value d) of
          (Some h, Some l) \<Rightarrow>
            (case bytes_fromhex cs of
               Inl e \<Rightarrow> Inl e | Inr bs \<Rightarrow> Inr (word_of_nat (16 * h + l) # bs))
        | _ \<Rightarrow> Inl (ValueError ''non-hexadecimal number''))"

lemma below_16_cases:
  "n < 16 \<Longrightarrow> n \<in> {0,1,2,3,4,5,6,7,8,9,10,11,12,13,14,15 :: nat}"
  by (simp add: numeral_eq_Suc less_Suc_eq)

lemma hex_digit_value: "n < 16 \<Longrightarrow> hex_value (hex_digit n) = Some n"
  by (drule below_16_cases) (auto simp: hex_value_def hex_digit_def hex_chars_def)

lemma hex_digit_not_space: "n < 16 \<Longrightarrow> \<not> ascii_space (hex_digit n)"
  by (drule below_16_cases) (auto simp: ascii_space_def hex_digit_def hex_chars_def)

lemma hex_digit_lower: "n < 16 \<Longrightarrow> ascii_lower_char (hex_digit n) = hex_digit n"
  by (drule below_16_cases) (auto simp: ascii_lower_char_def hex_digit_def hex_chars_def)

lemma hex_digit_in_chars: "n < 16 \<Longrightarrow> hex_digit n \<in> set hex_chars"
  unfolding hex_digit_def by (rule nth_mem) (simp add: hex_chars_def)

lemma hex_char_lower: "c \<in> set hex_chars \<Longrightarrow> ascii_lower_char c = c"
  by (auto simp: ascii_lower_char_def hex_chars_def)

lemma hex_chars_no [simp]: "CHR ''x'' \<notin> set hex_chars" "CHR ''/'' \<notin> set hex_chars"
  by (simp_all add: hex_chars_def)

lemma ascii_lower_hex: "set k \<subseteq> set hex_chars \<Longrightarrow> ascii_lower k = k"
  unfolding ascii_lower_def by (rule map_idI) (blast intro: hex_char_lower)

lemma removeprefix_hex:
  assumes "set k \<subseteq> set hex_chars"
  shows "removeprefix ''0x'' k = k"
proof (cases k)
  case (Cons c cs)
  show ?thesis
    using assms by (cases cs) (auto simp: Cons)
qed simp

lemma unat_u8_div_16: "unat (b :: u8) div 16 < 16"
  using unsigned_less [of b, where 'a = nat] by simp

lemma bytes_fromhex_hex [simp]: "bytes_fromhex (bytes_hex bs) = Inr bs"
proof (induction bs)
  case Nil
  then show ?case by (simp add: bytes_hex_def)
next
  case (Cons b bs)
  have "word_of_nat (16 * (unat b div 16) + unat b mod 16) = b"
    by (simp del: of_nat_add of_nat_mult)
  then show ?case
    using Cons unat_u8_div_16 [of b]
    by (simp add: bytes_hex_def hex_of_byte_def hex_digit_value hex_digit_not_space
        del: of_nat_add of_nat_mult)
qed

lemma length_bytes_hex [simp]: "length (bytes_hex bs) = 2 * length bs"
  by (induction bs) (auto simp: bytes_hex_def hex_of_byte_def)

lemma bytes_hex_lower [simp]: "ascii_lower (bytes_hex bs) = bytes_hex bs"
  by (induction bs)
    (auto simp: bytes_hex_def hex_of_byte_def ascii_lower_def hex_digit_lower unat_u8_div_16)

lemma bytes_hex_range: "set (bytes_hex bs) \<subseteq> set hex_chars"
  by (auto simp: bytes_hex_def hex_of_byte_def unat_u8_div_16 hex_digit_in_chars)

section \<open>Decimal texts\<close>

fun nat_text :: "nat \<Rightarrow> string" where
  "nat_text n = (if n < 10 then [char_of (48 + n)] else nat_text (n div 10) @ [char_of (48 + n mod 10)])"

declare nat_text.simps [simp del]

text \<open>The same by recursion on a bound, for evaluation.\<close>

fun nat_text_upto :: "nat \<Rightarrow> nat \<Rightarrow> string" where
  "nat_text_upto 0 n = [char_of (48 + n)]"
| "nat_text_upto (Suc k) n =
     (if n < 10 then [char_of (48 + n)] else nat_text_upto k (n div 10) @ [char_of (48 + n mod 10)])"

lemma nat_text_upto: "n \<le> k \<Longrightarrow> nat_text_upto k n = nat_text n"
proof (induction k arbitrary: n)
  case (Suc k)
  have "n div 10 \<le> k" if "\<not> n < 10" using that Suc.prems by simp
  then show ?case using Suc.IH [of "n div 10"] by (simp add: nat_text.simps [of n])
qed (simp add: nat_text.simps)

lemma nat_text_code [code]: "nat_text n = nat_text_upto n n"
  by (simp add: nat_text_upto)

definition int_text :: "int \<Rightarrow> string" where
  "int_text i = (if i < 0 then CHR ''-'' # nat_text (nat (- i)) else nat_text (nat i))"

end
