(* ===== verification/Chain_Config.thy ===== *)
theory Chain_Config
  imports Privana_Prelude
begin

text \<open>
  \<^verbatim>\<open>src/config/chain_config.py\<close> and \<^verbatim>\<open>src/services/l2_fee_estimator.py\<close>: the per-chain
  table of deposit and sweep settings, the checks its entries pass when they are built, the
  dictionaries derived from it, and the estimate of the L1 data fee that depends on the
  chain's type. The two fee oracles on the chain are arguments of the estimators.
\<close>

section \<open>Chain configuration\<close>

datatype l2_type = L2_NONE | OP_STACK | ARBITRUM

definition SWEEP_GAS_LIMIT_NATIVE :: int where
  "SWEEP_GAS_LIMIT_NATIVE = 25000"

definition SWEEP_GAS_LIMIT_ERC20 :: int where
  "SWEEP_GAS_LIMIT_ERC20 = 65000"

definition GAS_FUNDING_HEADROOM :: int where
  "GAS_FUNDING_HEADROOM = 2"

record chain_config =
  cc_chain_id :: int
  finality_depth :: int
  min_deposit_native_wei :: int
  min_deposit_erc20_wei :: int
  gas_funding_amount_wei :: int
  min_sweep_gas_price_wei :: int
  cc_l2_type :: l2_type
  discovery_lookback_blocks :: int
  discovery_max_lookback_blocks :: int
  discovery_scan_chunk_blocks :: int

text \<open>\<open>ChainConfig.__post_init__\<close>: the checks in the code's order.\<close>

definition chain_config_post_init :: "chain_config \<Rightarrow> exn + chain_config" where
  "chain_config_post_init c =
     (if gas_funding_amount_wei c \<ge> min_deposit_native_wei c
      then Inl (ValueError ''gas_funding_amount_wei must be strictly less than min_deposit_native_wei'')
      else if \<not> (0 < discovery_lookback_blocks c
                 \<and> discovery_lookback_blocks c \<le> discovery_max_lookback_blocks c)
      then Inl (ValueError ''discovery_lookback_blocks must be in [1, discovery_max_lookback_blocks]'')
      else if discovery_scan_chunk_blocks c \<le> 0
      then Inl (ValueError ''discovery_scan_chunk_blocks must be positive'')
      else if min_sweep_gas_price_wei c \<le> 0
      then Inl (ValueError ''min_sweep_gas_price_wei must be positive'')
      else
        let floor_sweep_cost =
              SWEEP_GAS_LIMIT_ERC20 * min_sweep_gas_price_wei c * GAS_FUNDING_HEADROOM
        in if gas_funding_amount_wei c < floor_sweep_cost
           then Inl (ValueError ''gas_funding_amount_wei must cover a floor-priced ERC-20 sweep'')
           else Inr c)"

text \<open>The dataclass's defaults, so that the entries below list what the source lists.\<close>

definition chain_config_defaults :: chain_config where
  "chain_config_defaults =
     \<lparr>cc_chain_id = 0, finality_depth = 0, min_deposit_native_wei = 0, min_deposit_erc20_wei = 0,
      gas_funding_amount_wei = 0, min_sweep_gas_price_wei = 0, cc_l2_type = L2_NONE,
      discovery_lookback_blocks = 300, discovery_max_lookback_blocks = 7200,
      discovery_scan_chunk_blocks = 5000\<rparr>"

definition chain_definitions :: "chain_config list" where
  "chain_definitions =
     [chain_config_defaults
        \<lparr>cc_chain_id := 23295, finality_depth := 2,
         min_deposit_native_wei := 50000000000000000,
         min_deposit_erc20_wei := 1000000000000000000,
         gas_funding_amount_wei := 20000000000000000,
         min_sweep_gas_price_wei := 100000000000,
         cc_l2_type := L2_NONE,
         discovery_scan_chunk_blocks := 100,
         discovery_lookback_blocks := 640,
         discovery_max_lookback_blocks := 1000\<rparr>,
      chain_config_defaults
        \<lparr>cc_chain_id := 84532, finality_depth := 15,
         min_deposit_native_wei := 1000000000000000,
         min_deposit_erc20_wei := 1000000,
         gas_funding_amount_wei := 200000000000000,
         min_sweep_gas_price_wei := 100000000,
         cc_l2_type := OP_STACK,
         discovery_lookback_blocks := 1800,
         discovery_max_lookback_blocks := 43200\<rparr>,
      chain_config_defaults
        \<lparr>cc_chain_id := 11155111, finality_depth := 2,
         min_deposit_native_wei := 50000000000000000,
         min_deposit_erc20_wei := 50000000,
         gas_funding_amount_wei := 2000000000000000,
         min_sweep_gas_price_wei := 100000000\<rparr>,
      chain_config_defaults
        \<lparr>cc_chain_id := 8453, finality_depth := 15,
         min_deposit_native_wei := 2000000000000000,
         min_deposit_erc20_wei := 1000000,
         gas_funding_amount_wei := 200000000000000,
         min_sweep_gas_price_wei := 5000000,
         cc_l2_type := OP_STACK,
         discovery_lookback_blocks := 1800,
         discovery_max_lookback_blocks := 43200\<rparr>,
      chain_config_defaults
        \<lparr>cc_chain_id := 1, finality_depth := 32,
         min_deposit_native_wei := 2000000000000000,
         min_deposit_erc20_wei := 1000000,
         gas_funding_amount_wei := 1000000000000000,
         min_sweep_gas_price_wei := 100000000\<rparr>,
      chain_config_defaults
        \<lparr>cc_chain_id := 999, finality_depth := 10,
         min_deposit_native_wei := 50000000000000000,
         min_deposit_erc20_wei := 1000000,
         gas_funding_amount_wei := 200000000000000,
         min_sweep_gas_price_wei := 100000000,
         discovery_lookback_blocks := 3600,
         discovery_max_lookback_blocks := 86400\<rparr>]"

definition SAPPHIRE_LOCALNET_CHAIN_ID :: int where
  "SAPPHIRE_LOCALNET_CHAIN_ID = 23293"

text \<open>Building every entry: the first one that fails its checks raises.\<close>

fun build_entries :: "chain_config list \<Rightarrow> exn + (int \<times> chain_config) list" where
  "build_entries [] = Inr []"
| "build_entries (c # cs) =
     (case chain_config_post_init c of
        Inl e \<Rightarrow> Inl e
      | Inr c' \<Rightarrow>
          (case build_entries cs of
             Inl e \<Rightarrow> Inl e | Inr rest \<Rightarrow> Inr ((cc_chain_id c', c') # rest)))"

text \<open>
  \<open>_build_chain_configs\<close>, given \<open>os.getenv("SAPPHIRE_CHAIN_ID")\<close>. The dict is an
  association list in insertion order.
\<close>

definition build_chain_configs :: "string option \<Rightarrow> exn + (int \<times> chain_config) list" where
  "build_chain_configs sapphire_chain_id =
     (case build_entries chain_definitions of
        Inl e \<Rightarrow> Inl e
      | Inr configs \<Rightarrow>
          (if sapphire_chain_id = Some ''23293'' then
             (case map_of configs 23295 of
                None \<Rightarrow> Inl (KeyError ''23295'')
              | Some c \<Rightarrow>
                  (case chain_config_post_init (c\<lparr>cc_chain_id := SAPPHIRE_LOCALNET_CHAIN_ID\<rparr>) of
                     Inl e \<Rightarrow> Inl e
                   | Inr c' \<Rightarrow> Inr (configs @ [(SAPPHIRE_LOCALNET_CHAIN_ID, c')])))
           else Inr configs))"

text \<open>The derived dictionaries \<open>{c.chain_id: f(c) for c in CHAIN_CONFIGS.values()}\<close>.\<close>

definition derived_dict ::
    "(chain_config \<Rightarrow> 'a) \<Rightarrow> (int \<times> chain_config) list \<Rightarrow> (int \<rightharpoonup> 'a)" where
  "derived_dict f configs = map_of (rev (map (\<lambda>(k, c). (cc_chain_id c, f c)) configs))"

definition MIN_DEPOSIT_NATIVE_WEI :: "(int \<times> chain_config) list \<Rightarrow> (int \<rightharpoonup> int)" where
  "MIN_DEPOSIT_NATIVE_WEI = derived_dict min_deposit_native_wei"

definition MIN_DEPOSIT_ERC20_WEI :: "(int \<times> chain_config) list \<Rightarrow> (int \<rightharpoonup> int)" where
  "MIN_DEPOSIT_ERC20_WEI = derived_dict min_deposit_erc20_wei"

definition GAS_FUNDING_AMOUNT_WEI :: "(int \<times> chain_config) list \<Rightarrow> (int \<rightharpoonup> int)" where
  "GAS_FUNDING_AMOUNT_WEI = derived_dict gas_funding_amount_wei"

definition MIN_SWEEP_GAS_PRICE_WEI :: "(int \<times> chain_config) list \<Rightarrow> (int \<rightharpoonup> int)" where
  "MIN_SWEEP_GAS_PRICE_WEI = derived_dict min_sweep_gas_price_wei"

definition DEFAULT_FINALITY_DEPTH :: int where
  "DEFAULT_FINALITY_DEPTH = 32"

definition get_finality_depth :: "(int \<times> chain_config) list \<Rightarrow> int \<Rightarrow> int" where
  "get_finality_depth configs cid =
     (case map_of configs cid of Some cfg \<Rightarrow> finality_depth cfg | None \<Rightarrow> DEFAULT_FINALITY_DEPTH)"

definition TRANSFER_EVENT_TOPIC :: string where
  "TRANSFER_EVENT_TOPIC =
     ''0xddf252ad1be2c89b69c2b068fc378daa952ba7f163c4a11628f55a4df523b3ef''"

section \<open>L1 data fees\<close>

definition SAFETY_MARGIN_NUMERATOR :: int where "SAFETY_MARGIN_NUMERATOR = 125"
definition SAFETY_MARGIN_DENOMINATOR :: int where "SAFETY_MARGIN_DENOMINATOR = 100"
definition NATIVE_TX_SIZE :: nat where "NATIVE_TX_SIZE = 112"
definition ERC20_TX_SIZE :: nat where "ERC20_TX_SIZE = 180"

text \<open>
  The two oracles are contracts on the chain: \<open>getL1Fee(data)\<close> and
  \<open>gasEstimateL1Component(to, false, data)\<close>, of whose results the code uses the first two.
\<close>

definition estimate_op_stack :: "(bytes \<Rightarrow> ('s, int) py) \<Rightarrow> bool \<Rightarrow> ('s, int) py" where
  "estimate_op_stack getL1Fee is_erc20 =
     (let size = (if is_erc20 then ERC20_TX_SIZE else NATIVE_TX_SIZE);
          dummy_data = replicate size 0xAA
      in py_bind (getL1Fee dummy_data) (\<lambda>fee.
           py_ret (fee * SAFETY_MARGIN_NUMERATOR div SAFETY_MARGIN_DENOMINATOR)))"

definition estimate_arbitrum ::
    "(bytes \<Rightarrow> ('s, int \<times> int) py) \<Rightarrow> bool \<Rightarrow> ('s, int) py" where
  "estimate_arbitrum gasEstimateL1Component is_erc20 =
     (let dummy_data = (if is_erc20 then replicate 68 0xAA else [])
      in py_bind (gasEstimateL1Component dummy_data) (\<lambda>(gas_for_l1, base_fee).
           let fee = gas_for_l1 * base_fee
           in py_ret (fee * SAFETY_MARGIN_NUMERATOR div SAFETY_MARGIN_DENOMINATOR)))"

definition estimate_l1_data_fee ::
    "(int \<times> chain_config) list \<Rightarrow> (bytes \<Rightarrow> ('s, int) py) \<Rightarrow> (bytes \<Rightarrow> ('s, int \<times> int) py)
     \<Rightarrow> int \<Rightarrow> bool \<Rightarrow> ('s, int) py" where
  "estimate_l1_data_fee configs getL1Fee gasEstimateL1Component cid is_erc20 =
     (case map_of configs cid of
        None \<Rightarrow> py_ret 0
      | Some cfg \<Rightarrow>
          (case cc_l2_type cfg of
             L2_NONE \<Rightarrow> py_ret 0
           | OP_STACK \<Rightarrow>
               py_catch (estimate_op_stack getL1Fee is_erc20) (\<lambda>_. py_ret 0)
           | ARBITRUM \<Rightarrow>
               py_catch (estimate_arbitrum gasEstimateL1Component is_erc20) (\<lambda>_. py_ret 0)))"

section \<open>The table is well formed\<close>

text \<open>What \<open>__post_init__\<close> establishes of an entry.\<close>

definition chain_config_ok :: "chain_config \<Rightarrow> bool" where
  "chain_config_ok c \<longleftrightarrow>
     gas_funding_amount_wei c < min_deposit_native_wei c
   \<and> 0 < discovery_lookback_blocks c
   \<and> discovery_lookback_blocks c \<le> discovery_max_lookback_blocks c
   \<and> 0 < discovery_scan_chunk_blocks c
   \<and> 0 < min_sweep_gas_price_wei c
   \<and> SWEEP_GAS_LIMIT_ERC20 * min_sweep_gas_price_wei c * GAS_FUNDING_HEADROOM
       \<le> gas_funding_amount_wei c"

definition chain_table_ok :: "(int \<times> chain_config) list \<Rightarrow> bool" where
  "chain_table_ok configs \<longleftrightarrow>
     distinct (map fst configs) \<and> (\<forall>(k, c) \<in> set configs. k = cc_chain_id c \<and> chain_config_ok c)"

lemma post_init_iff_ok: "chain_config_post_init c = Inr d \<longleftrightarrow> d = c \<and> chain_config_ok c"
  by (auto simp: chain_config_post_init_def chain_config_ok_def Let_def)

lemma build_entries_Inr:
  "build_entries cs = Inr cfgs \<Longrightarrow>
     cfgs = map (\<lambda>c. (cc_chain_id c, c)) cs \<and> (\<forall>c \<in> set cs. chain_config_ok c)"
  by (induction cs arbitrary: cfgs) (auto simp: post_init_iff_ok split: sum.splits)

lemma build_entries_ok:
  "\<forall>c \<in> set cs. chain_config_ok c \<Longrightarrow> build_entries cs = Inr (map (\<lambda>c. (cc_chain_id c, c)) cs)"
  by (induction cs) (auto simp: post_init_iff_ok [THEN iffD2])

lemma chain_definitions_ok: "\<forall>c \<in> set chain_definitions. chain_config_ok c"
  by (simp add: chain_definitions_def chain_config_defaults_def chain_config_ok_def
      SWEEP_GAS_LIMIT_ERC20_def GAS_FUNDING_HEADROOM_def)

lemma map_of_values: "map_of (map (\<lambda>c. (g c, c)) cs) k = Some c \<Longrightarrow> g c = k \<and> c \<in> set cs"
  by (induction cs) (auto split: if_splits)

lemma chain_table_ok_lookup:
  "chain_table_ok cfgs \<Longrightarrow> map_of cfgs cid = Some c \<Longrightarrow> cc_chain_id c = cid \<and> chain_config_ok c"
  by (auto simp: chain_table_ok_def dest!: map_of_SomeD)

lemma map_of_rev_distinct: "distinct (map fst xs) \<Longrightarrow> map_of (rev xs) = map_of xs"
  by (rule map_of_eqI) (auto simp: rev_map [symmetric] distinct_map intro: map_of_is_SomeI)

lemma derived_dict_lookup:
  assumes "chain_table_ok configs"
  shows "derived_dict f configs k = map_option f (map_of configs k)"
proof -
  have *: "map (\<lambda>(k, c). (cc_chain_id c, f c)) configs = map (\<lambda>(k, c). (k, f c)) configs"
    using assms by (auto simp: chain_table_ok_def)
  have "distinct (map fst (map (\<lambda>(k, c). (k, f c)) configs))"
    using assms by (simp add: chain_table_ok_def comp_def case_prod_unfold)
  then have "derived_dict f configs = map_of (map (\<lambda>(k, c). (k, f c)) configs)"
    unfolding derived_dict_def * by (rule map_of_rev_distinct)
  then show ?thesis by (simp add: map_of_map)
qed

lemma build_entries_definitions:
  "build_entries chain_definitions = Inr (map (\<lambda>c. (cc_chain_id c, c)) chain_definitions)"
  by (rule build_entries_ok [OF chain_definitions_ok])

lemma chain_ids: "map cc_chain_id chain_definitions = [23295, 84532, 11155111, 8453, 1, 999]"
  by (simp add: chain_definitions_def chain_config_defaults_def)

lemma chain_table_ok_map:
  assumes "distinct (map cc_chain_id cs)" and "\<forall>c \<in> set cs. chain_config_ok c"
  shows "chain_table_ok (map (\<lambda>c. (cc_chain_id c, c)) cs)"
  using assms by (auto simp: chain_table_ok_def comp_def)

lemma chain_config_ok_mirror:
  "chain_config_ok (c\<lparr>cc_chain_id := i\<rparr>) = chain_config_ok c"
  by (simp add: chain_config_ok_def)

lemma build_chain_configs_eq:
  "build_chain_configs env = Inr (map (\<lambda>c. (cc_chain_id c, c))
     (chain_definitions @
       (if env = Some ''23293'' then [(hd chain_definitions)\<lparr>cc_chain_id := 23293\<rparr>] else [])))"
proof -
  let ?t = "map (\<lambda>c. (cc_chain_id c, c)) chain_definitions"
  have l: "map_of ?t 23295 = Some (hd chain_definitions)"
    by (simp add: chain_definitions_def chain_config_defaults_def)
  have "chain_config_ok (hd chain_definitions)"
    using chain_definitions_ok by (simp add: chain_definitions_def)
  then have "chain_config_post_init ((hd chain_definitions)\<lparr>cc_chain_id := 23293\<rparr>)
      = Inr ((hd chain_definitions)\<lparr>cc_chain_id := 23293\<rparr>)"
    by (simp add: post_init_iff_ok chain_config_ok_mirror)
  then show ?thesis
    using l by (simp add: build_chain_configs_def build_entries_definitions
        SAPPHIRE_LOCALNET_CHAIN_ID_def)
qed

lemma build_chain_configs_table: "build_chain_configs env = Inr cfgs \<Longrightarrow> chain_table_ok cfgs"
proof -
  let ?cs = "chain_definitions @
       (if env = Some ''23293'' then [(hd chain_definitions)\<lparr>cc_chain_id := 23293\<rparr>] else [])"
  have "chain_config_ok (hd chain_definitions)"
    using chain_definitions_ok by (simp add: chain_definitions_def)
  then have "\<forall>c \<in> set ?cs. chain_config_ok c"
    using chain_definitions_ok by (auto simp: chain_config_ok_mirror)
  then have "chain_table_ok (map (\<lambda>c. (cc_chain_id c, c)) ?cs)"
    by (intro chain_table_ok_map) (auto simp: chain_ids)
  then show "build_chain_configs env = Inr cfgs \<Longrightarrow> chain_table_ok cfgs"
    by (simp add: build_chain_configs_eq)
qed


section \<open>What the fee estimate returns\<close>

lemma py_catch_ret_Inl: "py_catch m (\<lambda>_. py_ret x) s = (Inl e, t) \<Longrightarrow> \<not> is_exception e"
  by (auto simp: py_catch_def py_try_def py_ret_def py_raise_def
      split: prod.splits sum.splits if_splits)

text \<open>No estimation failure reaches the sweep: whatever exception an oracle raises, it gives 0.\<close>

lemma estimate_l1_data_fee_no_exception:
  "estimate_l1_data_fee cfgs getL1Fee gasL1 cid b s = (Inl e, t) \<Longrightarrow> \<not> is_exception e"
  by (auto simp: estimate_l1_data_fee_def py_ret_def [of 0]
      split: option.splits l2_type.splits dest!: py_catch_ret_Inl [of _ 0, unfolded py_ret_def])

lemma keeps_estimate_l1_data_fee:
  "(\<And>d. keeps P (getL1Fee d)) \<Longrightarrow> (\<And>d. keeps P (gasL1 d)) \<Longrightarrow>
     keeps P (estimate_l1_data_fee cfgs getL1Fee gasL1 cid b)"
  unfolding estimate_l1_data_fee_def estimate_op_stack_def estimate_arbitrum_def Let_def
  by (auto intro!: keeps_intros split: option.splits l2_type.splits prod.splits)

end
