(* ===== verification/Rpc_Identity.thy ===== *)
theory Rpc_Identity
  imports Privana_Prelude "HOL-Library.Multiset"
begin

text \<open>
  \<^verbatim>\<open>src/services/rpc_identity.py\<close>: the gate that hands out a chain's RPC client only while
  the endpoint filed under the chain has answered with that chain's id. The module's globals
  and the one mapping of the settings object that it narrows are the state; the answer of each
  endpoint to \<open>eth_chainId\<close> in one pass is the argument \<open>probe\<close>. Dicts are association
  lists, in insertion order.

  The locale \<open>chain_gate\<close> is what the gate's clients rely on; it is interpreted on the
  model's \<open>verified_url\<close> at the end.
\<close>

type_synonym url = string
type_synonym headers = "(string \<times> string) list"
type_synonym url_dict = "(int \<times> url) list"

text \<open>A client is built for one URL, with the headers registered for it at that time.\<close>

record client =
  cl_url :: url
  cl_headers :: "headers option"

record rpc_state =
  clients :: "(url \<times> client) list"
  probe_clients :: "(url \<times> client) list"
  url_headers :: "(url \<times> headers) list"
  verified_urls :: url_dict
  allow_unverified :: bool
  configured_urls :: url_dict
  settings_chain_rpc_urls :: url_dict

definition rpc_init :: "url_dict \<Rightarrow> rpc_state" where
  "rpc_init urls =
     \<lparr>clients = [], probe_clients = [], url_headers = [], verified_urls = [],
      allow_unverified = False, configured_urls = [], settings_chain_rpc_urls = urls\<rparr>"

lemma settings_rpc_init [simp]: "settings_chain_rpc_urls (rpc_init urls) = urls"
  by (simp add: rpc_init_def)

text \<open>The settings' fields the module reads.\<close>

record sapphire_settings =
  sapphire_rpc_url :: url
  sapphire_rpc_headers :: headers
  sapphire_chain_id :: int

section \<open>Clients\<close>

definition client_for_url :: "url \<Rightarrow> rpc_state \<Rightarrow> client \<times> rpc_state" where
  "client_for_url u st =
     (case map_of (clients st) u of
        Some c \<Rightarrow> (c, st)
      | None \<Rightarrow>
          let c = \<lparr>cl_url = u, cl_headers = map_of (url_headers st) u\<rparr>
          in (c, st\<lparr>clients := clients st @ [(u, c)]\<rparr>))"

definition probe_client_for_url :: "url \<Rightarrow> rpc_state \<Rightarrow> client \<times> rpc_state" where
  "probe_client_for_url u st =
     (case map_of (probe_clients st) u of
        Some c \<Rightarrow> (c, st)
      | None \<Rightarrow>
          let c = \<lparr>cl_url = u, cl_headers = map_of (url_headers st) u\<rparr>
          in (c, st\<lparr>probe_clients := probe_clients st @ [(u, c)]\<rparr>))"

section \<open>One verification pass\<close>

text \<open>
  The loop over \<open>zip(chain_ids, reported_ids)\<close>: a cancellation is re-raised, a failed or
  mismatching probe drops its chain.
\<close>

fun verify_loop :: "(url \<Rightarrow> exn + int) \<Rightarrow> (int \<times> url) list \<Rightarrow> exn + url_dict" where
  "verify_loop probe [] = Inr []"
| "verify_loop probe ((cid, u) # rest) =
     (case probe u of
        Inl e \<Rightarrow> (if is_exception e then verify_loop probe rest else Inl e)
      | Inr reported \<Rightarrow>
          (if reported \<noteq> cid then verify_loop probe rest
           else (case verify_loop probe rest of
                   Inl e \<Rightarrow> Inl e | Inr v \<Rightarrow> Inr ((cid, u) # v))))"

definition sorted_items :: "url_dict \<Rightarrow> url_dict" where
  "sorted_items d = sort_key fst d"

definition verify_chain_rpc_urls :: "(url \<Rightarrow> exn + int) \<Rightarrow> url_dict \<Rightarrow> exn + url_dict" where
  "verify_chain_rpc_urls probe urls = verify_loop probe (sorted_items urls)"

text \<open>Probing builds the probe clients, one per endpoint.\<close>

definition probe_all :: "url_dict \<Rightarrow> rpc_state \<Rightarrow> rpc_state" where
  "probe_all urls st = fold (\<lambda>(cid, u) s. snd (probe_client_for_url u s)) (sorted_items urls) st"

section \<open>Committing a pass\<close>

definition commit_verified :: "url_dict \<Rightarrow> rpc_state \<Rightarrow> rpc_state" where
  "commit_verified v st =
     st\<lparr>verified_urls := v, allow_unverified := False, settings_chain_rpc_urls := v\<rparr>"

definition verified_url :: "rpc_state \<Rightarrow> url_dict \<Rightarrow> int \<Rightarrow> url option" where
  "verified_url st chain_rpc_urls cid =
     (let u = (if verified_urls st \<noteq> [] then map_of (verified_urls st) cid
               else if allow_unverified st then map_of chain_rpc_urls cid
               else None)
      in (case u of None \<Rightarrow> None | Some u' \<Rightarrow> if u' = [] then None else Some u'))"

definition is_url_verified :: "rpc_state \<Rightarrow> int \<Rightarrow> url \<Rightarrow> bool" where
  "is_url_verified st cid u =
     (if verified_urls st \<noteq> [] then map_of (verified_urls st) cid = Some u
      else allow_unverified st)"

definition initialize_verified_chain_rpc_urls ::
    "sapphire_settings \<Rightarrow> (url \<Rightarrow> exn + int) \<Rightarrow> (rpc_state, url_dict) py" where
  "initialize_verified_chain_rpc_urls cfg probe =
     py_bind py_get (\<lambda>st0.
     let hs = (if sapphire_rpc_url cfg \<noteq> [] \<and> sapphire_rpc_headers cfg \<noteq> []
               then [(sapphire_rpc_url cfg, sapphire_rpc_headers cfg)] else []);
         configured = settings_chain_rpc_urls st0
     in py_then (py_modify (\<lambda>st. st\<lparr>url_headers := hs, configured_urls := configured\<rparr>))
     (if configured = [] then
        py_then (py_modify (commit_verified [])) (py_ret [])
      else
        py_then (py_modify (probe_all configured))
        (py_bind (py_lift (verify_chain_rpc_urls probe configured)) (\<lambda>verified.
         py_then (py_modify (commit_verified verified))
         (if verified = [] then py_raise (OtherError ''NoVerifiedChainsError'')
          else py_bind py_get (\<lambda>st.
            if sapphire_rpc_url cfg \<noteq> []
               \<and> \<not> is_url_verified st (sapphire_chain_id cfg) (sapphire_rpc_url cfg)
            then py_raise (OtherError ''SapphireEndpointUnverifiedError'')
            else py_ret verified))))))"

definition reverify_chain_rpc_urls ::
    "(url \<Rightarrow> exn + int) \<Rightarrow> (rpc_state, url_dict) py" where
  "reverify_chain_rpc_urls probe =
     py_bind py_get (\<lambda>st0.
     let configured = (if configured_urls st0 \<noteq> [] then configured_urls st0
                       else settings_chain_rpc_urls st0)
     in if configured = [] then py_ret []
        else
          py_then (py_modify (probe_all configured))
          (py_bind (py_lift (verify_chain_rpc_urls probe configured)) (\<lambda>verified.
           py_then (py_modify (commit_verified verified)) (py_ret verified))))"

text \<open>One turn of \<open>_reverification_loop\<close> after its sleep.\<close>

definition reverification_turn :: "(url \<Rightarrow> exn + int) \<Rightarrow> (rpc_state, unit) py" where
  "reverification_turn probe =
     py_catch (py_bind (reverify_chain_rpc_urls probe) (\<lambda>_. py_ret ())) (\<lambda>_. py_ret ())"

definition allow_unverified_urls :: "rpc_state \<Rightarrow> rpc_state" where
  "allow_unverified_urls st = st\<lparr>allow_unverified := True\<rparr>"

definition reset_verified_chain_rpc_urls :: "rpc_state \<Rightarrow> rpc_state" where
  "reset_verified_chain_rpc_urls st =
     st\<lparr>verified_urls := [], allow_unverified := False, configured_urls := [],
        url_headers := [], clients := [], probe_clients := []\<rparr>"

section \<open>Resolving a client\<close>

definition verified_web3 ::
    "int \<Rightarrow> url_dict \<Rightarrow> rpc_state \<Rightarrow> client option \<times> rpc_state" where
  "verified_web3 cid chain_rpc_urls st =
     (case verified_url st chain_rpc_urls cid of
        None \<Rightarrow> (None, st)
      | Some u \<Rightarrow> let (c, st') = client_for_url u st in (Some c, st'))"

text \<open>
  The caller's \<open>cache\<close> maps chain ids to clients; \<open>setdefault\<close> keeps a cached client,
  \<open>pop\<close> evicts it when the chain is not served.
\<close>

definition require_verified_web3 ::
    "int \<Rightarrow> url_dict \<Rightarrow> (int \<rightharpoonup> client) \<Rightarrow> rpc_state
     \<Rightarrow> (exn + client) \<times> (int \<rightharpoonup> client) \<times> rpc_state" where
  "require_verified_web3 cid chain_rpc_urls cache st =
     (case verified_web3 cid chain_rpc_urls st of
        (None, st') \<Rightarrow>
          (Inl (ValueError ''No verified RPC endpoint for chain''), cache(cid := None), st')
      | (Some w3, st') \<Rightarrow>
          (case cache cid of
             Some c \<Rightarrow> (Inr c, cache, st')
           | None \<Rightarrow> (Inr w3, cache(cid \<mapsto> w3), st')))"

section \<open>Facts\<close>

lemma verify_loop_Inr:
  "verify_loop probe items = Inr v \<Longrightarrow> v = filter (\<lambda>(cid, u). probe u = Inr cid) items"
  by (induction probe items arbitrary: v rule: verify_loop.induct)
    (auto split: sum.splits if_splits)

lemma verify_loop_Inl: "verify_loop probe items = Inl e \<Longrightarrow> \<not> is_exception e"
  by (induction probe items rule: verify_loop.induct) (auto split: sum.splits if_splits)

lemma verify_chain_rpc_urls_Inr:
  "verify_chain_rpc_urls probe urls = Inr v \<Longrightarrow>
     v = filter (\<lambda>(cid, u). probe u = Inr cid) (sorted_items urls)"
  by (auto simp: verify_chain_rpc_urls_def dest: verify_loop_Inr)

lemma verify_chain_rpc_urls_Inl:
  "verify_chain_rpc_urls probe urls = Inl e \<Longrightarrow> \<not> is_exception e"
  by (auto simp: verify_chain_rpc_urls_def dest: verify_loop_Inl)

lemma set_sorted_items [simp]: "set (sorted_items d) = set d"
  by (simp add: sorted_items_def)

lemma distinct_sorted_items [simp]:
  "distinct (map fst (sorted_items d)) = distinct (map fst d)"
proof (rule mset_eq_imp_distinct_iff)
  show "mset (map fst (sorted_items d)) = mset (map fst d)"
    by (simp add: sorted_items_def)
qed

lemma map_of_filter_answer:
  "map_of (filter (\<lambda>(cid, u). probe u = Inr cid) xs) cid = Some u \<Longrightarrow>
     probe u = Inr cid \<and> (cid, u) \<in> set xs"
  by (drule map_of_SomeD) auto

lemma verified_url_settings_irrelevant:
  "verified_urls st \<noteq> [] \<Longrightarrow> verified_url st urls cid = verified_url st urls' cid"
  by (simp add: verified_url_def)

lemma verified_url_commit:
  "verified_url (commit_verified v st) urls cid = Some u \<Longrightarrow> map_of v cid = Some u"
  by (auto simp: verified_url_def commit_verified_def split: if_splits option.splits)

lemma client_for_url_fields [simp]:
  "verified_urls (snd (client_for_url u st)) = verified_urls st"
  "allow_unverified (snd (client_for_url u st)) = allow_unverified st"
  "configured_urls (snd (client_for_url u st)) = configured_urls st"
  "url_headers (snd (client_for_url u st)) = url_headers st"
  "probe_clients (snd (client_for_url u st)) = probe_clients st"
  "settings_chain_rpc_urls (snd (client_for_url u st)) = settings_chain_rpc_urls st"
  by (auto simp: client_for_url_def Let_def split: option.splits)

lemma probe_client_for_url_fields [simp]:
  "verified_urls (snd (probe_client_for_url u st)) = verified_urls st"
  "allow_unverified (snd (probe_client_for_url u st)) = allow_unverified st"
  "configured_urls (snd (probe_client_for_url u st)) = configured_urls st"
  "url_headers (snd (probe_client_for_url u st)) = url_headers st"
  "clients (snd (probe_client_for_url u st)) = clients st"
  "settings_chain_rpc_urls (snd (probe_client_for_url u st)) = settings_chain_rpc_urls st"
  by (auto simp: probe_client_for_url_def Let_def split: option.splits)

lemma probe_all_fields [simp]:
  "verified_urls (probe_all urls st) = verified_urls st"
  "allow_unverified (probe_all urls st) = allow_unverified st"
  "configured_urls (probe_all urls st) = configured_urls st"
  "url_headers (probe_all urls st) = url_headers st"
  "clients (probe_all urls st) = clients st"
  unfolding probe_all_def by (simp_all add: fold_keeps split_beta)

section \<open>Reachable states of the module\<close>

text \<open>
  The states the running service can bring the module to, with the answers of the last committed
  pass: startup runs the check once on a fresh module (it may succeed, abort or be cancelled),
  then passes repeat, and clients are resolved in between with any mapping the caller holds. The
  opt-out for tests and scripts is left out: production never calls it.
\<close>

inductive gate_reach ::
    "sapphire_settings \<Rightarrow> url_dict \<Rightarrow> rpc_state \<Rightarrow> (url \<Rightarrow> exn + int) option \<Rightarrow> bool"
  for cfg configured where
  started: "initialize_verified_chain_rpc_urls cfg probe (rpc_init configured) = (r, st') \<Longrightarrow>
    gate_reach cfg configured st' (if r = Inl Cancelled \<or> r = Inl OutOfFuel then None else Some probe)"
| reverified: "gate_reach cfg configured st pass \<Longrightarrow> reverification_turn probe st = (r, st') \<Longrightarrow>
    gate_reach cfg configured st' (case r of Inl _ \<Rightarrow> pass | Inr _ \<Rightarrow> Some probe)"
| resolved: "gate_reach cfg configured st pass \<Longrightarrow>
    require_verified_web3 cid urls cache st = (r, cache', st') \<Longrightarrow>
    gate_reach cfg configured st' pass"

text \<open>
  The invariant: the opt-out is off, the verified set is what the last pass proved of the
  configured endpoints, and clients carry headers only for the Sapphire endpoint.
\<close>

definition headers_confined :: "sapphire_settings \<Rightarrow> (url \<times> client) list \<Rightarrow> bool" where
  "headers_confined cfg cs \<longleftrightarrow>
     (\<forall>u c. (u, c) \<in> set cs \<longrightarrow> cl_url c = u \<and> (cl_headers c \<noteq> None \<longrightarrow> u = sapphire_rpc_url cfg))"

definition gate_inv ::
    "sapphire_settings \<Rightarrow> url_dict \<Rightarrow> rpc_state \<Rightarrow> (url \<Rightarrow> exn + int) option \<Rightarrow> bool" where
  "gate_inv cfg configured st pass \<longleftrightarrow>
     \<not> allow_unverified st
   \<and> configured_urls st = configured
   \<and> (configured = [] \<longrightarrow> settings_chain_rpc_urls st = [])
   \<and> (verified_urls st \<noteq> [] \<longrightarrow> (\<exists>probe. pass = Some probe
        \<and> verified_urls st = filter (\<lambda>(cid, u). probe u = Inr cid) (sorted_items configured)))
   \<and> (\<forall>u hs. map_of (url_headers st) u = Some hs \<longrightarrow> u = sapphire_rpc_url cfg)
   \<and> headers_confined cfg (clients st) \<and> headers_confined cfg (probe_clients st)"

lemma headers_confined_probe:
  assumes "headers_confined cfg (probe_clients st)"
    and "\<forall>u hs. map_of (url_headers st) u = Some hs \<longrightarrow> u = sapphire_rpc_url cfg"
  shows "headers_confined cfg (probe_clients (probe_all urls st))"
proof -
  let ?P = "\<lambda>s. headers_confined cfg (probe_clients s) \<and>
    (\<forall>u hs. map_of (url_headers s) u = Some hs \<longrightarrow> u = sapphire_rpc_url cfg)"
  have "?P (probe_all urls st)"
    unfolding probe_all_def
  proof (rule fold_inv)
    show "?P st" using assms by blast
  next
    fix x :: "int \<times> url" and s :: rpc_state assume "?P s"
    then show "?P ((\<lambda>(cid, u) s. snd (probe_client_for_url u s)) x s)"
      by (auto simp: probe_client_for_url_def headers_confined_def Let_def
          split: prod.splits option.splits)
  qed
  then show ?thesis by simp
qed

lemma headers_confined_client:
  assumes "headers_confined cfg (clients st)"
    and "\<forall>u hs. map_of (url_headers st) u = Some hs \<longrightarrow> u = sapphire_rpc_url cfg"
  shows "headers_confined cfg (clients (snd (client_for_url u st)))"
  using assms by (auto simp: client_for_url_def headers_confined_def Let_def split: option.splits)

lemma gate_inv_commit:
  assumes "gate_inv cfg configured st pass"
    and "verify_chain_rpc_urls probe configured = Inr v"
  shows "gate_inv cfg configured (commit_verified v st) (Some probe)"
  using assms
  by (auto simp: gate_inv_def commit_verified_def sorted_items_def dest!: verify_chain_rpc_urls_Inr)

lemma gate_inv_probe_all:
  "gate_inv cfg configured st pass \<Longrightarrow> configured \<noteq> [] \<Longrightarrow>
     gate_inv cfg configured (probe_all urls st) pass"
  by (simp add: gate_inv_def headers_confined_probe)

lemma gate_inv_no_set:
  "gate_inv cfg configured st pass \<Longrightarrow> verified_urls st = [] \<Longrightarrow> gate_inv cfg configured st pass'"
  by (simp add: gate_inv_def)

lemma gate_inv_registered:
  "gate_inv cfg configured
     ((rpc_init configured)\<lparr>url_headers :=
        (if sapphire_rpc_url cfg \<noteq> [] \<and> sapphire_rpc_headers cfg \<noteq> []
         then [(sapphire_rpc_url cfg, sapphire_rpc_headers cfg)] else []),
        configured_urls := configured\<rparr>) None"
  by (auto simp: gate_inv_def rpc_init_def headers_confined_def)

lemma gate_inv_started:
  assumes "initialize_verified_chain_rpc_urls cfg probe (rpc_init configured) = (r, st')"
  shows "gate_inv cfg configured st' (if r = Inl Cancelled \<or> r = Inl OutOfFuel then None else Some probe)"
proof -
  let ?post = "\<lambda>st'. gate_inv cfg configured st' (Some probe)"
  let ?reg = "(rpc_init configured)\<lparr>url_headers :=
        (if sapphire_rpc_url cfg \<noteq> [] \<and> sapphire_rpc_headers cfg \<noteq> []
         then [(sapphire_rpc_url cfg, sapphire_rpc_headers cfg)] else []),
        configured_urls := configured\<rparr>"
  note reg = gate_inv_registered [of cfg configured]
  have commit0: "configured = [] \<Longrightarrow> ?post (commit_verified [] ?reg)"
    using reg by (auto intro!: gate_inv_commit simp: verify_chain_rpc_urls_def sorted_items_def)
  have commit: "configured \<noteq> [] \<Longrightarrow> verify_chain_rpc_urls probe configured = Inr v \<Longrightarrow>
      ?post (commit_verified v (probe_all configured ?reg))" for v
    using reg by (blast intro: gate_inv_commit gate_inv_probe_all)
  have cancelled: "configured \<noteq> [] \<Longrightarrow> gate_inv cfg configured (probe_all configured ?reg) None"
    using reg by (rule gate_inv_probe_all)
  have "wp (initialize_verified_chain_rpc_urls cfg probe) (\<lambda>_. ?post)
      (\<lambda>e st'. gate_inv cfg configured st'
         (if e = Cancelled \<or> e = OutOfFuel then None else Some probe)) (rpc_init configured)"
    unfolding initialize_verified_chain_rpc_urls_def Let_def wp_simps
    using commit0 commit cancelled
    by (auto dest!: verify_chain_rpc_urls_Inl split: sum.split elim: is_exception.elims)
  with assms show ?thesis
    by (cases r) (auto dest: wp_Inl wp_Inr)
qed

lemma gate_inv_reverified:
  assumes "gate_inv cfg configured st pass" and "reverification_turn probe st = (r, st')"
  shows "gate_inv cfg configured st' (case r of Inl _ \<Rightarrow> pass | Inr _ \<Rightarrow> Some probe)"
proof -
  have commit: "configured \<noteq> [] \<Longrightarrow> verify_chain_rpc_urls probe configured = Inr v \<Longrightarrow>
      gate_inv cfg configured (commit_verified v (probe_all configured st)) (Some probe)" for v
    using assms(1) by (blast intro: gate_inv_commit gate_inv_probe_all)
  have cancelled: "configured \<noteq> [] \<Longrightarrow> gate_inv cfg configured (probe_all configured st) pass"
    using assms(1) by (rule gate_inv_probe_all)
  have empty: "configured = [] \<Longrightarrow> gate_inv cfg configured st (Some probe)"
    using assms(1) by (auto simp: gate_inv_def sorted_items_def)
  have "configured_urls st = configured" "configured = [] \<Longrightarrow> settings_chain_rpc_urls st = []"
    using assms(1) by (simp_all add: gate_inv_def)
  then have "wp (reverification_turn probe) (\<lambda>_ st'. gate_inv cfg configured st' (Some probe))
      (\<lambda>_ st'. gate_inv cfg configured st' pass) st"
    unfolding reverification_turn_def reverify_chain_rpc_urls_def Let_def wp_simps
    using commit cancelled empty
    by (auto split: sum.split dest!: verify_chain_rpc_urls_Inl)
  with assms(2) show ?thesis
    by (cases r) (auto dest: wp_Inl wp_Inr)
qed

lemma require_verified_web3_state:
  "snd (snd (require_verified_web3 cid urls cache st)) = st
   \<or> (\<exists>u. snd (snd (require_verified_web3 cid urls cache st)) = snd (client_for_url u st))"
  by (auto simp: require_verified_web3_def verified_web3_def split_beta split: option.split)

lemma gate_inv_client:
  "gate_inv cfg configured st pass \<Longrightarrow> gate_inv cfg configured (snd (client_for_url u st)) pass"
  by (simp add: gate_inv_def headers_confined_client)

lemma gate_reach_inv: "gate_reach cfg configured st pass \<Longrightarrow> gate_inv cfg configured st pass"
proof (induction rule: gate_reach.induct)
  case (started probe r st')
  then show ?case by (rule gate_inv_started)
next
  case (reverified st pass probe r st')
  then show ?case by (blast intro: gate_inv_reverified)
next
  case (resolved st pass cid urls cache r cache' st')
  then show ?case
    using require_verified_web3_state [of cid urls cache st] by (auto intro: gate_inv_client)
qed

text \<open>
  C9. In every state the running service can reach, an endpoint is served for a chain only when
  it is the endpoint configured for that chain and it answered with that chain's id in the last
  completed verification pass, whatever mapping the caller still holds.
\<close>
theorem served_only_if_answered:
  assumes "gate_reach cfg configured st pass"
    and "verified_url st urls cid = Some u"
  shows "\<exists>probe. pass = Some probe \<and> probe u = Inr cid \<and> (cid, u) \<in> set configured"
proof -
  have inv: "gate_inv cfg configured st pass"
    using assms(1) by (rule gate_reach_inv)
  with assms(2) have ne: "verified_urls st \<noteq> []" and "map_of (verified_urls st) cid = Some u"
    by (auto simp: verified_url_def gate_inv_def split: if_splits option.splits)
  with inv show ?thesis
    by (auto simp: gate_inv_def dest!: map_of_filter_answer)
qed

text \<open>
  The credentials of the Sapphire gateway never reach another provider: in every reachable
  state, a client that carries request headers was built for the Sapphire endpoint's URL.
\<close>
theorem headers_only_to_sapphire:
  assumes "gate_reach cfg configured st pass"
    and "(u, c) \<in> set (clients st) \<union> set (probe_clients st)" and "cl_headers c \<noteq> None"
  shows "cl_url c = sapphire_rpc_url cfg"
  using gate_reach_inv [OF assms(1)] assms(2,3)
  by (auto simp: gate_inv_def headers_confined_def)

section \<open>The interface the gate's clients rely on\<close>

text \<open>
  \<open>serves g cid\<close> is the endpoint a state of the gate serves for a chain, \<open>req cid cache g\<close>
  the resolution with a caller's cache, \<open>ok\<close> the gate's own invariant. The laws: a chain that
  is not served is refused and its cached client evicted, one that is served yields the cached
  client or one built for the served URL, and resolving changes nothing of what is served.
\<close>

locale chain_gate =
  fixes ok :: "'g \<Rightarrow> bool"
    and serves :: "'g \<Rightarrow> int \<Rightarrow> url option"
    and req :: "int \<Rightarrow> (int \<rightharpoonup> client) \<Rightarrow> 'g \<Rightarrow> (exn + client) \<times> (int \<rightharpoonup> client) \<times> 'g"
  assumes req_refuse: "serves g cid = None \<Longrightarrow>
      req cid cache g = (r, cache', g') \<Longrightarrow> (\<exists>e. r = Inl e \<and> is_exception e) \<and> cache' = cache(cid := None)"
    and req_serve: "serves g cid = Some u \<Longrightarrow> req cid cache g = (r, cache', g') \<Longrightarrow>
      \<exists>c. r = Inr c \<and> cache' = cache(cid \<mapsto> c) \<and> (cache cid = None \<or> cache cid = Some c)"
    and req_url: "ok g \<Longrightarrow> req cid cache g = (Inr c, cache', g') \<Longrightarrow> cache cid = None \<Longrightarrow>
      serves g cid = Some (cl_url c)"
    and req_keeps: "req cid cache g = (r, cache', g') \<Longrightarrow> serves g' = serves g"
    and req_ok: "req cid cache g = (r, cache', g') \<Longrightarrow> ok g \<Longrightarrow> ok g'"
begin

lemma req_Inr_serves: "req cid cache g = (Inr c, cache', g') \<Longrightarrow> serves g cid \<noteq> None"
  by (cases "serves g cid") (auto dest: req_refuse)

lemma serves_req_Inr: "serves g cid \<noteq> None \<Longrightarrow> \<exists>c. fst (req cid cache g) = Inr c"
  by (cases "req cid cache g") (auto dest: req_serve)

lemma refused_again:
  assumes "req cid cache g = (Inl e, cache', g')"
  shows "\<exists>e'. fst (req cid cache'' g') = Inl e'"
proof -
  have "serves g cid = None"
    using assms by (cases "serves g cid") (auto dest: req_serve)
  then have "serves g' cid = None"
    using req_keeps [OF assms] by simp
  then show ?thesis
    by (cases "req cid cache'' g'") (auto dest: req_refuse)
qed

text \<open>A cached client of a served chain keeps being the one handed out.\<close>

lemma pinned:
  assumes "req cid cache g = (Inr c, cache', g')" and "serves g2 cid \<noteq> None"
  shows "fst (req cid cache' g2) = Inr c"
proof -
  obtain u where "serves g cid = Some u"
    using req_Inr_serves [OF assms(1)] by auto
  then have "cache' cid = Some c"
    using assms(1) by (auto dest: req_serve)
  with assms(2) show ?thesis
    by (cases "req cid cache' g2") (auto dest: req_serve)
qed

text \<open>
  The caches stay sound: when what is served for a chain only ever is \<open>endpoint cid\<close>, every
  client a cache holds was built for that endpoint.
\<close>

lemma cache_endpoint:
  assumes "ok g" and "\<And>u. serves g cid = Some u \<Longrightarrow> endpoint cid = u"
    and "\<And>k c. cache k = Some c \<Longrightarrow> cl_url c = endpoint k"
    and "req cid cache g = (r, cache', g')"
  shows "cache' k = Some c \<Longrightarrow> cl_url c = endpoint k"
proof (cases "serves g cid")
  case None
  then show "cache' k = Some c \<Longrightarrow> cl_url c = endpoint k"
    using assms by (auto dest: req_refuse split: if_splits)
next
  case (Some u)
  then obtain c0 where "r = Inr c0" "cache' = cache(cid \<mapsto> c0)" "cache cid = None \<or> cache cid = Some c0"
    using assms(4) by (blast dest: req_serve)
  then show "cache' k = Some c \<Longrightarrow> cl_url c = endpoint k"
    using assms req_url [of g cid cache c0 cache' g'] by (auto split: if_splits)
qed

end

lemma verified_url_client_for_url [simp]:
  "verified_url (snd (client_for_url u st)) urls = verified_url st urls"
  by (auto simp: verified_url_def fun_eq_iff)

definition clients_ok :: "rpc_state \<Rightarrow> bool" where
  "clients_ok st \<longleftrightarrow> (\<forall>u c. (u, c) \<in> set (clients st) \<longrightarrow> cl_url c = u)"

lemma clients_ok_client_for_url:
  "clients_ok st \<Longrightarrow> clients_ok (snd (client_for_url u st)) \<and> cl_url (fst (client_for_url u st)) = u"
  by (auto simp: clients_ok_def client_for_url_def Let_def dest: map_of_SomeD split: option.splits)

interpretation rpc_gate: chain_gate clients_ok
  "\<lambda>st. verified_url st urls" "\<lambda>cid cache st. require_verified_web3 cid urls cache st" for urls
proof (unfold_locales, goal_cases)
  case (1 g cid cache r cache' g')
  then show ?case by (auto simp: require_verified_web3_def verified_web3_def)
next
  case (2 g cid u cache r cache' g')
  then show ?case
    by (auto simp: require_verified_web3_def verified_web3_def split_beta split: option.splits)
next
  case (3 g cid cache c cache' g')
  then show ?case
    by (auto simp: require_verified_web3_def verified_web3_def split_beta
        clients_ok_client_for_url split: option.splits)
next
  case (4 cid cache g r cache' g')
  then show ?case
    using require_verified_web3_state [of cid urls cache g] by auto
next
  case (5 cid cache g r cache' g')
  then show ?case
    using require_verified_web3_state [of cid urls cache g] by (auto simp: clients_ok_client_for_url)
qed

lemma gate_inv_clients_ok: "gate_inv cfg configured st pass \<Longrightarrow> clients_ok st"
  by (auto simp: gate_inv_def headers_confined_def clients_ok_def)

text \<open>
  A chain dropped by a later verification pass stops resolving at once, also for a caller
  that memoized its client: once the gate of a reachable state does not serve the chain, a
  resolution with any cache raises, the cached client is evicted, and the next one raises too.
\<close>
theorem dropped_chain_refused:
  assumes "verified_url st urls cid = None"
    and "require_verified_web3 cid urls cache st = (r, cache', st')"
  shows "r = Inl (ValueError ''No verified RPC endpoint for chain'') \<and> cache' cid = None
    \<and> (\<exists>e. fst (require_verified_web3 cid urls cache'' st') = Inl e)"
proof -
  have r: "r = Inl (ValueError ''No verified RPC endpoint for chain'')"
    using assms by (auto simp: require_verified_web3_def verified_web3_def)
  moreover have "cache' = cache(cid := None)"
    using rpc_gate.req_refuse assms by blast
  ultimately show ?thesis
    using rpc_gate.refused_again assms(2) by auto
qed

lemma verify_loop_all_exceptions:
  "(\<And>u e. probe u = Inl e \<Longrightarrow> is_exception e) \<Longrightarrow>
     verify_loop probe items = Inr (filter (\<lambda>(cid, u). probe u = Inr cid) items)"
  by (induction probe items rule: verify_loop.induct) (auto split: sum.splits)

text \<open>
  Startup, when no probe was cancelled: the verified set and the settings' mapping are
  narrowed to exactly the endpoints that answered with the id they are filed under, and this is
  committed even when startup then aborts; it aborts when none answered, or when a Sapphire
  endpoint is configured and is not the one that passed for the Sapphire chain.
\<close>
theorem initialize_result:
  assumes "configured \<noteq> []" and "\<And>u e. probe u = Inl e \<Longrightarrow> is_exception e"
    and "v = filter (\<lambda>(cid, u). probe u = Inr cid) (sorted_items configured)"
    and "initialize_verified_chain_rpc_urls cfg probe (rpc_init configured) = (r, st')"
  shows "verified_urls st' = v \<and> settings_chain_rpc_urls st' = v \<and>
    r = (if v = [] then Inl (OtherError ''NoVerifiedChainsError'')
         else if sapphire_rpc_url cfg \<noteq> []
                 \<and> map_of v (sapphire_chain_id cfg) \<noteq> Some (sapphire_rpc_url cfg)
         then Inl (OtherError ''SapphireEndpointUnverifiedError'')
         else Inr v)"
proof -
  let ?R = "if v = [] then Inl (OtherError ''NoVerifiedChainsError'')
         else if sapphire_rpc_url cfg \<noteq> []
                 \<and> map_of v (sapphire_chain_id cfg) \<noteq> Some (sapphire_rpc_url cfg)
         then Inl (OtherError ''SapphireEndpointUnverifiedError'')
         else Inr v"
  let ?P = "\<lambda>r st'. verified_urls st' = v \<and> settings_chain_rpc_urls st' = v \<and> r = ?R"
  have "verify_chain_rpc_urls probe configured = Inr v"
    unfolding verify_chain_rpc_urls_def assms(3) using assms(2) by (rule verify_loop_all_exceptions)
  then have "wp (initialize_verified_chain_rpc_urls cfg probe)
      (\<lambda>x st'. ?P (Inr x) st') (\<lambda>e st'. ?P (Inl e) st') (rpc_init configured)"
    using assms(1) unfolding initialize_verified_chain_rpc_urls_def Let_def wp_simps
    by (simp add: commit_verified_def is_url_verified_def)
  then show ?thesis
    using assms(4) by (rule wp_result)
qed

section \<open>Witnesses\<close>

definition demo_sapphire :: sapphire_settings where
  "demo_sapphire = \<lparr>sapphire_rpc_url = ''sap'', sapphire_rpc_headers = [(''k'', ''v'')],
                    sapphire_chain_id = 23295\<rparr>"

definition demo_urls :: url_dict where
  "demo_urls = [(23295, ''sap''), (1, ''eth''), (8453, ''base'')]"

text \<open>The endpoint filed under Base answers with the id of Base Sepolia.\<close>

definition demo_probe :: "url \<Rightarrow> exn + int" where
  "demo_probe u = (if u = ''sap'' then Inr 23295 else if u = ''eth'' then Inr 1
                   else if u = ''base'' then Inr 84532 else Inl (TimeoutError ''timeout''))"

definition demo_gate :: rpc_state where
  "demo_gate = snd (initialize_verified_chain_rpc_urls demo_sapphire demo_probe (rpc_init demo_urls))"

lemma demo_gate_eq:
  "initialize_verified_chain_rpc_urls demo_sapphire demo_probe (rpc_init demo_urls) =
     (Inr [(1, ''eth''), (23295, ''sap'')], demo_gate)"
  unfolding demo_gate_def by code_simp

lemma demo_gate_facts:
  "verified_url demo_gate demo_urls 1 = Some ''eth''"
  "verified_url demo_gate demo_urls 8453 = None"
  "(''sap'', \<lparr>cl_url = ''sap'', cl_headers = Some [(''k'', ''v'')]\<rparr>) \<in> set (probe_clients demo_gate)"
  by code_simp+

lemma demo_gate_reach: "gate_reach demo_sapphire demo_urls demo_gate (Some demo_probe)"
  using gate_reach.started [OF demo_gate_eq] by simp

theorem served_only_if_answered_witness:
  "verified_url demo_gate demo_urls 1 = Some ''eth'' \<and> demo_probe ''eth'' = Inr 1"
  using served_only_if_answered [OF demo_gate_reach demo_gate_facts(1)] demo_gate_facts(1) by auto

theorem headers_only_to_sapphire_witness:
  "\<exists>c. (''sap'', c) \<in> set (probe_clients demo_gate) \<and> cl_headers c \<noteq> None
     \<and> cl_url c = sapphire_rpc_url demo_sapphire"
  using headers_only_to_sapphire [OF demo_gate_reach, of "''sap''"] demo_gate_facts(3)
  by (intro exI [of _ "\<lparr>cl_url = ''sap'', cl_headers = Some [(''k'', ''v'')]\<rparr>"]) fastforce

theorem dropped_chain_refused_witness:
  "\<exists>r cache' st'. require_verified_web3 8453 demo_urls
       (Map.empty(8453 \<mapsto> \<lparr>cl_url = ''base'', cl_headers = None\<rparr>)) demo_gate = (r, cache', st')
     \<and> cache' 8453 = None"
proof -
  obtain r cache' st' where eq: "require_verified_web3 8453 demo_urls
       (Map.empty(8453 \<mapsto> \<lparr>cl_url = ''base'', cl_headers = None\<rparr>)) demo_gate = (r, cache', st')"
    by (metis prod_cases3)
  then show ?thesis
    using dropped_chain_refused [OF demo_gate_facts(2) eq] by blast
qed

theorem initialize_result_witness:
  "verified_urls demo_gate = [(1, ''eth''), (23295, ''sap'')]"
proof -
  have "\<And>u e. demo_probe u = Inl e \<Longrightarrow> is_exception e"
    by (auto simp: demo_probe_def split: if_splits)
  from initialize_result [OF _ this refl demo_gate_eq]
  have "verified_urls demo_gate =
      filter (\<lambda>(cid, u). demo_probe u = Inr cid) (sorted_items demo_urls)"
    by (simp add: demo_urls_def)
  also have "\<dots> = [(1, ''eth''), (23295, ''sap'')]"
    by code_simp
  finally show ?thesis .
qed

end
