(* ===== verification/Sweep_Record.thy ===== *)
theory Sweep_Record
  imports Privana_Prelude "HOL-Library.AList" "HOL-Library.Char_ord" "HOL-Library.List_Lexorder"
begin

text \<open>
  The persistent side of \<^verbatim>\<open>src/services/sweep_engine.py\<close>: the sweep record, its JSON form,
  the path a record is stored under, and the operations on the state directory (save, delete,
  look up, clean up, flag as failed).

  The directory is an association list from file names to contents, a file either a JSON object
  or text that is no JSON object; \<open>json\<close> itself is the standard library's and is taken to read
  back the object it wrote. A JSON value of a type the field does not have, which only a file
  the program did not write can hold, is rejected here; Python would store it. Times are the
  clock's readings as integers.

  The locale \<open>record_store\<close> is what the engine, the processor and discovery rely on.
\<close>

section \<open>Sweep records\<close>

datatype sweep_state = PENDING | GAS_FUNDED | SWEPT

fun sweep_state_value :: "sweep_state \<Rightarrow> string" where
  "sweep_state_value PENDING = ''pending''"
| "sweep_state_value GAS_FUNDED = ''gas_funded''"
| "sweep_state_value SWEPT = ''swept''"

text \<open>\<open>SweepState(value)\<close>.\<close>

definition sweep_state_of :: "string \<Rightarrow> exn + sweep_state" where
  "sweep_state_of v =
     (if v = ''pending'' then Inr PENDING
      else if v = ''gas_funded'' then Inr GAS_FUNDED
      else if v = ''swept'' then Inr SWEPT
      else Inl (ValueError ''is not a valid SweepState''))"

record sweep_record =
  sr_deposit_address :: string
  sr_chain_id :: int
  sr_state :: sweep_state
  sr_beneficiary :: string
  sr_chain_type :: string
  sr_version :: int
  sr_amount :: int
  sr_token_id_hex :: string
  sr_token_address :: "string option"
  sr_deposit_id_hex :: string
  sr_source_tx_hash :: string
  sr_deposit_index :: int
  sr_sweep_tx_hash :: "string option"
  sr_gas_funding_tx_hash :: "string option"
  sr_created_at :: int
  sr_retry_count :: int
  sr_error :: "string option"

text \<open>\<open>__post_init__\<close>.\<close>

definition sweep_record_post_init :: "sweep_record \<Rightarrow> exn + sweep_record" where
  "sweep_record_post_init r =
     (if sr_chain_id r \<le> 0 then Inl (ValueError ''chain_id must be positive'')
      else if sr_deposit_address r = [] then Inl (ValueError ''deposit_address required'')
      else if sr_beneficiary r = [] then Inl (ValueError ''beneficiary required'')
      else Inr r)"

text \<open>\<open>if record.sweep_tx_hash:\<close> and \<open>if record.error:\<close> ask for a non-empty text.\<close>

definition truthy :: "string option \<Rightarrow> bool" where
  "truthy s = (case s of None \<Rightarrow> False | Some t \<Rightarrow> t \<noteq> [])"

section \<open>JSON form\<close>

datatype json = JNull | JBool bool | JInt int | JFloat int | JStr string

type_synonym json_object = "(string \<times> json) list"

definition json_opt :: "string option \<Rightarrow> json" where
  "json_opt s = (case s of None \<Rightarrow> JNull | Some t \<Rightarrow> JStr t)"

definition sweep_record_to_dict :: "sweep_record \<Rightarrow> json_object" where
  "sweep_record_to_dict r =
     [(''deposit_address'', JStr (sr_deposit_address r)),
      (''chain_id'', JInt (sr_chain_id r)),
      (''state'', JStr (sweep_state_value (sr_state r))),
      (''beneficiary'', JStr (sr_beneficiary r)),
      (''chain_type'', JStr (sr_chain_type r)),
      (''version'', JInt (sr_version r)),
      (''amount'', JInt (sr_amount r)),
      (''token_id_hex'', JStr (sr_token_id_hex r)),
      (''token_address'', json_opt (sr_token_address r)),
      (''deposit_id_hex'', JStr (sr_deposit_id_hex r)),
      (''source_tx_hash'', JStr (sr_source_tx_hash r)),
      (''deposit_index'', JInt (sr_deposit_index r)),
      (''sweep_tx_hash'', json_opt (sr_sweep_tx_hash r)),
      (''gas_funding_tx_hash'', json_opt (sr_gas_funding_tx_hash r)),
      (''created_at'', JFloat (sr_created_at r)),
      (''retry_count'', JInt (sr_retry_count r)),
      (''error'', json_opt (sr_error r))]"

text \<open>A field of the object: required ones raise when missing, the others take the default.\<close>

fun str_field :: "json option \<Rightarrow> string option \<Rightarrow> exn + string" where
  "str_field (Some (JStr s)) d = Inr s"
| "str_field (Some _) d = Inl (OtherError ''TypeError'')"
| "str_field None (Some s) = Inr s"
| "str_field None None = Inl (OtherError ''TypeError: missing argument'')"

fun int_field :: "json option \<Rightarrow> int option \<Rightarrow> exn + int" where
  "int_field (Some (JInt i)) d = Inr i"
| "int_field (Some _) d = Inl (OtherError ''TypeError'')"
| "int_field None (Some i) = Inr i"
| "int_field None None = Inl (OtherError ''TypeError: missing argument'')"

fun float_field :: "json option \<Rightarrow> int \<Rightarrow> exn + int" where
  "float_field (Some (JFloat i)) d = Inr i"
| "float_field (Some _) d = Inl (OtherError ''TypeError'')"
| "float_field None d = Inr d"

fun opt_field :: "json option \<Rightarrow> exn + string option" where
  "opt_field (Some (JStr s)) = Inr (Some s)"
| "opt_field (Some JNull) = Inr None"
| "opt_field (Some _) = Inl (OtherError ''TypeError'')"
| "opt_field None = Inr None"

text \<open>
  \<open>from_dict\<close>: unknown keys are dropped; \<open>now\<close> is the clock for a file without
  \<open>created_at\<close>.
\<close>

definition sweep_record_from_dict :: "int \<Rightarrow> json_object \<Rightarrow> exn + sweep_record" where
  "sweep_record_from_dict now obj =
     (let f = map_of obj in
      sum_bind (case f ''state'' of None \<Rightarrow> Inl (KeyError ''state'')
                | Some v \<Rightarrow> sum_bind (str_field (Some v) None) sweep_state_of) (\<lambda>st.
      sum_bind (str_field (f ''deposit_address'') None) (\<lambda>deposit_address.
      sum_bind (int_field (f ''chain_id'') None) (\<lambda>chain_id.
      sum_bind (str_field (f ''beneficiary'') None) (\<lambda>beneficiary.
      sum_bind (str_field (f ''chain_type'') None) (\<lambda>chain_type.
      sum_bind (int_field (f ''version'') None) (\<lambda>version.
      sum_bind (int_field (f ''amount'') (Some 0)) (\<lambda>amount.
      sum_bind (str_field (f ''token_id_hex'') (Some [])) (\<lambda>token_id_hex.
      sum_bind (opt_field (f ''token_address'')) (\<lambda>token_address.
      sum_bind (str_field (f ''deposit_id_hex'') (Some [])) (\<lambda>deposit_id_hex.
      sum_bind (str_field (f ''source_tx_hash'') (Some [])) (\<lambda>source_tx_hash.
      sum_bind (int_field (f ''deposit_index'') (Some 0)) (\<lambda>deposit_index.
      sum_bind (opt_field (f ''sweep_tx_hash'')) (\<lambda>sweep_tx_hash.
      sum_bind (opt_field (f ''gas_funding_tx_hash'')) (\<lambda>gas_funding_tx_hash.
      sum_bind (float_field (f ''created_at'') now) (\<lambda>created_at.
      sum_bind (int_field (f ''retry_count'') (Some 0)) (\<lambda>retry_count.
      sum_bind (opt_field (f ''error'')) (\<lambda>error.
        sweep_record_post_init
          \<lparr>sr_deposit_address = deposit_address, sr_chain_id = chain_id, sr_state = st,
           sr_beneficiary = beneficiary, sr_chain_type = chain_type, sr_version = version,
           sr_amount = amount, sr_token_id_hex = token_id_hex, sr_token_address = token_address,
           sr_deposit_id_hex = deposit_id_hex, sr_source_tx_hash = source_tx_hash,
           sr_deposit_index = deposit_index, sr_sweep_tx_hash = sweep_tx_hash,
           sr_gas_funding_tx_hash = gas_funding_tx_hash, sr_created_at = created_at,
           sr_retry_count = retry_count, sr_error = error\<rparr>))))))))))))))))))"

section \<open>The state directory\<close>

datatype file_content = JsonFile json_object | RawFile string

type_synonym disk = "(string \<times> file_content) list"

definition record_key :: "string \<Rightarrow> string option" where
  "record_key deposit_id_hex =
     (let key = removeprefix ''0x'' (ascii_lower deposit_id_hex)
      in if length key \<noteq> 64 \<or> (\<exists>c \<in> set key. c \<notin> set hex_chars) then None
         else Some key)"

definition record_name :: "string \<Rightarrow> string" where
  "record_name key = ''sweep_'' @ key @ ''.json''"

definition record_path :: "string \<Rightarrow> exn + string" where
  "record_path deposit_id_hex =
     (case record_key deposit_id_hex of
        None \<Rightarrow> Inl (ValueError ''deposit_id_hex must be 32 bytes of hex'')
      | Some key \<Rightarrow> Inr (record_name key))"

definition tmp_name :: "string \<Rightarrow> string" where
  "tmp_name key = ''sweep_'' @ key @ ''.tmp''"

text \<open>
  Saving writes a temporary file and renames it over the record's, so the two steps are kept
  apart: \<open>save_tmp\<close> is the directory between them.
\<close>

definition save_tmp :: "string \<Rightarrow> sweep_record \<Rightarrow> disk \<Rightarrow> disk" where
  "save_tmp key r d = AList.update (tmp_name key) (JsonFile (sweep_record_to_dict r)) d"

definition os_replace :: "string \<Rightarrow> string \<Rightarrow> disk \<Rightarrow> disk" where
  "os_replace src dst d =
     (case map_of d src of None \<Rightarrow> d | Some f \<Rightarrow> AList.update dst f (AList.delete src d))"

definition save_record :: "sweep_record \<Rightarrow> disk \<Rightarrow> exn + disk" where
  "save_record r d =
     (case record_key (sr_deposit_id_hex r) of
        None \<Rightarrow> Inl (ValueError ''deposit_id_hex must be 32 bytes of hex'')
      | Some key \<Rightarrow> Inr (os_replace (tmp_name key) (record_name key) (save_tmp key r d)))"

definition delete_record :: "string \<Rightarrow> disk \<Rightarrow> exn + disk" where
  "delete_record deposit_id_hex d =
     (case record_path deposit_id_hex of
        Inl e \<Rightarrow> Inl e | Inr path \<Rightarrow> Inr (AList.delete path d))"

definition read_record :: "int \<Rightarrow> file_content \<Rightarrow> exn + sweep_record" where
  "read_record now f =
     (case f of RawFile t \<Rightarrow> Inl (ValueError ''JSONDecodeError'')
      | JsonFile obj \<Rightarrow> sweep_record_from_dict now obj)"

definition get_record_by_deposit_id :: "int \<Rightarrow> string \<Rightarrow> disk \<Rightarrow> exn + sweep_record option" where
  "get_record_by_deposit_id now deposit_id_hex d =
     (case record_path deposit_id_hex of
        Inl _ \<Rightarrow> Inr None
      | Inr path \<Rightarrow>
          (case map_of d path of
             None \<Rightarrow> Inr None
           | Some f \<Rightarrow> map_sum id Some (read_record now f)))"

definition cleanup_record :: "string \<Rightarrow> disk \<Rightarrow> disk" where
  "cleanup_record deposit_id_hex d =
     (case delete_record deposit_id_hex d of Inl _ \<Rightarrow> d | Inr d' \<Rightarrow> d')"

definition persist_error :: "int \<Rightarrow> string \<Rightarrow> string \<Rightarrow> disk \<Rightarrow> exn + disk" where
  "persist_error now deposit_id_hex error d =
     sum_bind (get_record_by_deposit_id now deposit_id_hex d) (\<lambda>record.
       case record of
         None \<Rightarrow> Inr d
       | Some r \<Rightarrow>
           (if truthy (sr_sweep_tx_hash r) then Inr d
            else save_record (r\<lparr>sr_error := Some error\<rparr>) d))"

section \<open>Facts about the JSON form\<close>

definition record_ok :: "sweep_record \<Rightarrow> bool" where
  "record_ok r \<longleftrightarrow> 0 < sr_chain_id r \<and> sr_deposit_address r \<noteq> [] \<and> sr_beneficiary r \<noteq> []"

lemma post_init_Inr: "sweep_record_post_init r = Inr r' \<longleftrightarrow> r' = r \<and> record_ok r"
  by (auto simp: sweep_record_post_init_def record_ok_def)

lemma sweep_state_of_value [simp]: "sweep_state_of (sweep_state_value s) = Inr s"
  by (cases s) (simp_all add: sweep_state_of_def)

lemma opt_field_json_opt [simp]: "opt_field (Some (json_opt s)) = Inr s"
  by (cases s) (simp_all add: json_opt_def)

lemma to_dict_fields:
  "map_of (sweep_record_to_dict r) ''deposit_address'' = Some (JStr (sr_deposit_address r))"
  "map_of (sweep_record_to_dict r) ''chain_id'' = Some (JInt (sr_chain_id r))"
  "map_of (sweep_record_to_dict r) ''state'' = Some (JStr (sweep_state_value (sr_state r)))"
  "map_of (sweep_record_to_dict r) ''beneficiary'' = Some (JStr (sr_beneficiary r))"
  "map_of (sweep_record_to_dict r) ''chain_type'' = Some (JStr (sr_chain_type r))"
  "map_of (sweep_record_to_dict r) ''version'' = Some (JInt (sr_version r))"
  "map_of (sweep_record_to_dict r) ''amount'' = Some (JInt (sr_amount r))"
  "map_of (sweep_record_to_dict r) ''token_id_hex'' = Some (JStr (sr_token_id_hex r))"
  "map_of (sweep_record_to_dict r) ''token_address'' = Some (json_opt (sr_token_address r))"
  "map_of (sweep_record_to_dict r) ''deposit_id_hex'' = Some (JStr (sr_deposit_id_hex r))"
  "map_of (sweep_record_to_dict r) ''source_tx_hash'' = Some (JStr (sr_source_tx_hash r))"
  "map_of (sweep_record_to_dict r) ''deposit_index'' = Some (JInt (sr_deposit_index r))"
  "map_of (sweep_record_to_dict r) ''sweep_tx_hash'' = Some (json_opt (sr_sweep_tx_hash r))"
  "map_of (sweep_record_to_dict r) ''gas_funding_tx_hash'' = Some (json_opt (sr_gas_funding_tx_hash r))"
  "map_of (sweep_record_to_dict r) ''created_at'' = Some (JFloat (sr_created_at r))"
  "map_of (sweep_record_to_dict r) ''retry_count'' = Some (JInt (sr_retry_count r))"
  "map_of (sweep_record_to_dict r) ''error'' = Some (json_opt (sr_error r))"
  by (simp_all add: sweep_record_to_dict_def)

lemma from_dict_to_dict:
  "sweep_record_from_dict now (sweep_record_to_dict r) = sweep_record_post_init r"
  by (cases r) (simp add: sweep_record_from_dict_def to_dict_fields)

lemma sum_bind_Inr: "sum_bind r f = Inr y \<longleftrightarrow> (\<exists>x. r = Inr x \<and> f x = Inr y)"
  by (cases r) auto

lemma sum_bind_InrE: "sum_bind r f = Inr y \<Longrightarrow> (\<And>x. f x = Inr y \<Longrightarrow> P) \<Longrightarrow> P"
  by (cases r) auto

lemma from_dict_ok: "sweep_record_from_dict now obj = Inr r \<Longrightarrow> record_ok r"
  unfolding sweep_record_from_dict_def Let_def
  by (elim sum_bind_InrE) (simp add: post_init_Inr)

text \<open>
  C8. A record survives the round trip through its JSON form: reading back what was written
  gives the same record, at any later time, and fails exactly for a record the dataclass itself
  refuses.
\<close>
theorem sweep_record_roundtrip:
  "sweep_record_from_dict now (sweep_record_to_dict r) =
     (if record_ok r then Inr r else Inl (ValueError
        (if sr_chain_id r \<le> 0 then ''chain_id must be positive''
         else if sr_deposit_address r = [] then ''deposit_address required''
         else ''beneficiary required'')))"
  by (auto simp: from_dict_to_dict sweep_record_post_init_def record_ok_def)

section \<open>Facts about keys and paths\<close>

definition key_ok :: "string \<Rightarrow> bool" where
  "key_ok k \<longleftrightarrow> length k = 64 \<and> set k \<subseteq> set hex_chars"

lemma record_key_ok: "record_key i = Some k \<Longrightarrow> key_ok k"
  by (auto simp: record_key_def key_ok_def Let_def split: if_splits)

lemma record_key_idem: "key_ok k \<Longrightarrow> record_key k = Some k"
  by (auto simp: record_key_def key_ok_def ascii_lower_hex removeprefix_hex)

text \<open>\<open>_to_hex(bytes)\<close>: the form the engine stores ids in.\<close>

definition to_hex :: "bytes \<Rightarrow> string" where
  "to_hex bs = ''0x'' @ bytes_hex bs"

lemma removeprefix_to_hex [simp]: "removeprefix ''0x'' (to_hex bs) = bytes_hex bs"
  unfolding to_hex_def by (rule removeprefix_append)

lemma to_hex_lower [simp]: "ascii_lower (to_hex bs) = to_hex bs"
proof -
  have "ascii_lower ''0x'' = ''0x''" by (simp add: ascii_lower_def ascii_lower_char_def)
  then show ?thesis by (simp only: to_hex_def ascii_lower_append bytes_hex_lower)
qed

lemma record_key_to_hex: "length bs = 32 \<Longrightarrow> record_key (to_hex bs) = Some (bytes_hex bs)"
  using bytes_hex_range [of bs] by (auto simp: record_key_def Let_def)

lemma fromhex_to_hex [simp]: "bytes_fromhex (removeprefix ''0x'' (to_hex bs)) = Inr bs"
  by simp

lemma record_name_inj [simp]: "record_name k = record_name k' \<longleftrightarrow> k = k'"
  by (simp add: record_name_def)

lemma tmp_name_not_record [simp]: "tmp_name k \<noteq> record_name k'" "record_name k' \<noteq> tmp_name k"
proof -
  have "last (tmp_name k) \<noteq> last (record_name k')"
    by (simp add: tmp_name_def record_name_def)
  then show "tmp_name k \<noteq> record_name k'" "record_name k' \<noteq> tmp_name k" by auto
qed

text \<open>Two deposits never share a file, and no caller-supplied id leaves the directory.\<close>

lemma record_path_no_escape:
  assumes "record_path i = Inr p"
  shows "CHR ''/'' \<notin> set p"
proof -
  obtain k where "p = record_name k" "key_ok k"
    using assms by (auto simp: record_path_def dest: record_key_ok split: option.splits)
  then show ?thesis
    by (auto simp: record_name_def key_ok_def)
qed

section \<open>The store\<close>

text \<open>The records a directory holds, by key.\<close>

definition disk_lookup :: "disk \<Rightarrow> string \<Rightarrow> sweep_record option" where
  "disk_lookup d k =
     (if key_ok k then
        (case map_of d (record_name k) of
           None \<Rightarrow> None
         | Some f \<Rightarrow> (case read_record 0 f of Inl _ \<Rightarrow> None | Inr r \<Rightarrow> Some r))
      else None)"

text \<open>
  A directory written by the program: under each record's name is the JSON form of a record
  with that key.
\<close>

definition file_of :: "sweep_record \<Rightarrow> file_content" where
  "file_of r = JsonFile (sweep_record_to_dict r)"

definition disk_ok :: "disk \<Rightarrow> bool" where
  "disk_ok d \<longleftrightarrow> distinct (map fst d) \<and>
     (\<forall>k f. key_ok k \<longrightarrow> map_of d (record_name k) = Some f \<longrightarrow>
        (\<exists>r. f = file_of r \<and> record_ok r \<and> record_key (sr_deposit_id_hex r) = Some k))"

lemma disk_okD:
  assumes "disk_ok d" "key_ok k" "map_of d (record_name k) = Some f"
  obtains r where "f = file_of r" "record_ok r" "record_key (sr_deposit_id_hex r) = Some k"
  using assms unfolding disk_ok_def by blast

lemma read_file_of: "record_ok r \<Longrightarrow> read_record now (file_of r) = Inr r"
  by (simp add: read_record_def file_of_def from_dict_to_dict post_init_Inr)

lemma map_of_update [simp]: "map_of (AList.update k v d) = (map_of d)(k \<mapsto> v)"
  by (simp add: fun_eq_iff update_conv)

lemma map_of_delete [simp]: "map_of (AList.delete k d) = (map_of d)(k := None)"
  by (simp add: fun_eq_iff delete_conv)

lemma map_of_save_tmp:
  "map_of (save_tmp k r d) = (map_of d)(tmp_name k \<mapsto> file_of r)"
  by (simp add: save_tmp_def file_of_def)

lemma save_record_Inr:
  "save_record r d = Inr d' \<longleftrightarrow> (\<exists>k. record_key (sr_deposit_id_hex r) = Some k
     \<and> d' = AList.update (record_name k) (file_of r) (AList.delete (tmp_name k) (save_tmp k r d)))"
  by (auto simp: save_record_def os_replace_def map_of_save_tmp split: option.splits)

lemma map_of_save_record:
  "save_record r d = Inr d' \<Longrightarrow> record_key (sr_deposit_id_hex r) = Some k \<Longrightarrow>
     map_of d' = (map_of d)(tmp_name k := None, record_name k \<mapsto> file_of r)"
  by (auto simp: save_record_Inr map_of_save_tmp)

lemma disk_ok_save_tmp: "disk_ok d \<Longrightarrow> disk_ok (save_tmp k r d)"
  by (auto simp: disk_ok_def save_tmp_def distinct_update)

lemma disk_ok_delete: "disk_ok d \<Longrightarrow> disk_ok (AList.delete n d)"
  by (auto simp: disk_ok_def distinct_delete split: if_splits)

lemma disk_ok_save:
  "disk_ok d \<Longrightarrow> record_ok r \<Longrightarrow> save_record r d = Inr d' \<Longrightarrow> disk_ok d'"
  by (auto simp: save_record_Inr disk_ok_def distinct_update distinct_delete save_tmp_def
      split: if_splits)

lemma disk_lookup_save:
  "record_ok r \<Longrightarrow> save_record r d = Inr d' \<Longrightarrow> record_key (sr_deposit_id_hex r) = Some k \<Longrightarrow>
     disk_lookup d' = (disk_lookup d)(k \<mapsto> r)"
  by (auto simp: fun_eq_iff disk_lookup_def map_of_save_record read_file_of dest: record_key_ok)

lemma delete_record_Inr:
  "delete_record i d = Inr d' \<longleftrightarrow> (\<exists>k. record_key i = Some k \<and> d' = AList.delete (record_name k) d)"
  by (auto simp: delete_record_def record_path_def split: option.splits)

lemma disk_lookup_delete:
  "record_key i = Some k \<Longrightarrow> delete_record i d = Inr d' \<Longrightarrow> disk_lookup d' = (disk_lookup d)(k := None)"
  by (auto simp: fun_eq_iff disk_lookup_def delete_record_Inr)

lemma disk_lookup_Some:
  assumes "disk_ok d"
  shows "disk_lookup d k = Some r \<longleftrightarrow> key_ok k \<and> map_of d (record_name k) = Some (file_of r)
    \<and> record_ok r \<and> record_key (sr_deposit_id_hex r) = Some k"
proof
  assume l: "disk_lookup d k = Some r"
  then have k: "key_ok k" by (auto simp: disk_lookup_def split: if_splits)
  with l obtain f where f: "map_of d (record_name k) = Some f"
    unfolding disk_lookup_def by (cases "map_of d (record_name k)") auto
  obtain r' where r': "f = file_of r'" "record_ok r'"
      "record_key (sr_deposit_id_hex r') = Some k"
    using disk_okD [OF assms k f] by blast
  with l k f have "r' = r" by (simp add: disk_lookup_def read_file_of)
  with k f r' show "key_ok k \<and> map_of d (record_name k) = Some (file_of r)
    \<and> record_ok r \<and> record_key (sr_deposit_id_hex r) = Some k" by simp
qed (simp add: disk_lookup_def read_file_of)

lemma get_record_lookup:
  assumes "disk_ok d"
  shows "get_record_by_deposit_id now i d =
    Inr (case record_key i of None \<Rightarrow> None | Some k \<Rightarrow> disk_lookup d k)"
proof (cases "record_key i")
  case (Some k)
  show ?thesis
  proof (cases "map_of d (record_name k)")
    case (Some f)
    then obtain r where "f = file_of r" "record_ok r"
      using disk_okD [OF assms record_key_ok [OF \<open>record_key i = Some k\<close>]] by blast
    then show ?thesis
      using Some \<open>record_key i = Some k\<close> record_key_ok [OF \<open>record_key i = Some k\<close>]
      by (simp add: get_record_by_deposit_id_def record_path_def disk_lookup_def read_file_of)
  qed (simp add: Some get_record_by_deposit_id_def record_path_def disk_lookup_def)
qed (simp add: get_record_by_deposit_id_def record_path_def)

section \<open>The interface of the store\<close>

text \<open>
  What the engine, the processor and discovery rely on: records are found under the key of
  their deposit id, saving and deleting change that key only, and both succeed exactly for
  well-formed ids.
\<close>

locale record_store =
  fixes inv :: "'d \<Rightarrow> bool"
    and key :: "string \<Rightarrow> string option"
    and lookup :: "'d \<Rightarrow> string \<Rightarrow> sweep_record option"
    and save :: "sweep_record \<Rightarrow> 'd \<Rightarrow> exn + 'd"
    and del :: "string \<Rightarrow> 'd \<Rightarrow> exn + 'd"
  assumes lookup_own: "inv d \<Longrightarrow> lookup d k = Some r \<Longrightarrow>
      record_ok r \<and> key (sr_deposit_id_hex r) = Some k"
    and save_total: "key (sr_deposit_id_hex r) = Some k \<Longrightarrow> \<exists>d'. save r d = Inr d'"
    and save_refuse: "key (sr_deposit_id_hex r) = None \<Longrightarrow> \<exists>e. save r d = Inl e \<and> is_exception e"
    and save_inv: "inv d \<Longrightarrow> record_ok r \<Longrightarrow> save r d = Inr d' \<Longrightarrow> inv d'"
    and save_lookup: "inv d \<Longrightarrow> record_ok r \<Longrightarrow> save r d = Inr d' \<Longrightarrow>
      key (sr_deposit_id_hex r) = Some k \<Longrightarrow> lookup d' = (lookup d)(k \<mapsto> r)"
    and del_total: "key i = Some k \<Longrightarrow> \<exists>d'. del i d = Inr d'"
    and del_refuse: "key i = None \<Longrightarrow> \<exists>e. del i d = Inl e \<and> is_exception e"
    and del_inv: "inv d \<Longrightarrow> del i d = Inr d' \<Longrightarrow> inv d'"
    and del_lookup: "inv d \<Longrightarrow> del i d = Inr d' \<Longrightarrow> key i = Some k \<Longrightarrow>
      lookup d' = (lookup d)(k := None)"
begin

lemma save_key: "save r d = Inr d' \<Longrightarrow> \<exists>k. key (sr_deposit_id_hex r) = Some k"
  by (cases "key (sr_deposit_id_hex r)") (auto dest: save_refuse [of _ d])

lemma save_exception: "save r d = Inl e \<Longrightarrow> is_exception e"
  by (cases "key (sr_deposit_id_hex r)") (auto dest: save_refuse [of _ d] save_total [of _ _ d])

lemma del_key: "del i d = Inr d' \<Longrightarrow> \<exists>k. key i = Some k"
  by (cases "key i") (auto dest: del_refuse [of _ d])

text \<open>Rewriting a stored record in place, as every update of a stored record does.\<close>

lemma save_again:
  assumes "inv d" "lookup d k = Some r" "record_ok r'"
    and "sr_deposit_id_hex r' = sr_deposit_id_hex r"
  obtains d' where "save r' d = Inr d'" "inv d'" "lookup d' = (lookup d)(k \<mapsto> r')"
  using assms lookup_own [of d k r] save_total [of r' k d] save_inv [of d r'] save_lookup [of d r' _ k]
  by auto

end

interpretation store: record_store disk_ok record_key disk_lookup save_record delete_record
proof (unfold_locales, goal_cases)
  case (1 d k r)
  then show ?case by (simp add: disk_lookup_Some)
next
  case (2 r k d)
  then show ?case by (auto simp: save_record_Inr)
next
  case (3 r d)
  then show ?case by (simp add: save_record_def)
next
  case (4 d r d')
  then show ?case by (rule disk_ok_save)
next
  case (5 d r d' k)
  then show ?case by (simp add: disk_lookup_save)
next
  case (6 i k d)
  then show ?case by (auto simp: delete_record_Inr)
next
  case (7 i d)
  then show ?case by (simp add: delete_record_def record_path_def)
next
  case (8 d i d')
  then show ?case by (auto simp: delete_record_Inr intro: disk_ok_delete)
next
  case (9 d i d' k)
  then show ?case by (simp add: disk_lookup_delete)
qed

lemma persist_error_eq:
  assumes "disk_ok d"
  shows "persist_error now i e d =
    (case (case record_key i of None \<Rightarrow> None | Some k \<Rightarrow> disk_lookup d k) of
       None \<Rightarrow> Inr d
     | Some r \<Rightarrow> if truthy (sr_sweep_tx_hash r) then Inr d else save_record (r\<lparr>sr_error := Some e\<rparr>) d)"
  by (simp add: persist_error_def get_record_lookup [OF assms])

lemma persist_error_spec:
  assumes "disk_ok d"
  shows "\<exists>d'. persist_error now i e d = Inr d' \<and> disk_ok d' \<and>
    disk_lookup d' = (\<lambda>k. if record_key i = Some k
      then map_option (\<lambda>r. if truthy (sr_sweep_tx_hash r) then r else r\<lparr>sr_error := Some e\<rparr>)
             (disk_lookup d k)
      else disk_lookup d k)"
proof (cases "case record_key i of None \<Rightarrow> None | Some k \<Rightarrow> disk_lookup d k")
  case None
  then show ?thesis
    using assms by (auto simp: persist_error_eq [OF assms] fun_eq_iff split: option.splits)
next
  case (Some r)
  then obtain k where k: "record_key i = Some k" "disk_lookup d k = Some r"
    by (auto split: option.splits)
  show ?thesis
  proof (cases "truthy (sr_sweep_tx_hash r)")
    case True
    with k assms show ?thesis
      by (auto simp: persist_error_eq [OF assms] fun_eq_iff)
  next
    case False
    have "record_ok (r\<lparr>sr_error := Some e\<rparr>)"
      using store.lookup_own [OF assms k(2)] by (simp add: record_ok_def)
    then obtain d' where "save_record (r\<lparr>sr_error := Some e\<rparr>) d = Inr d'" "disk_ok d'"
        "disk_lookup d' = (disk_lookup d)(k \<mapsto> r\<lparr>sr_error := Some e\<rparr>)"
      by (rule store.save_again [OF assms k(2), of "r\<lparr>sr_error := Some e\<rparr>"]) simp_all
    with False k show ?thesis
      by (auto simp: persist_error_eq [OF assms] fun_eq_iff)
  qed
qed

text \<open>
  Flagging a deposit as failed never touches another record, never flags one whose sweep
  was broadcast, and otherwise changes nothing of the record but its error; it never raises on a
  directory the program wrote.
\<close>
theorem persist_error_effect:
  assumes "disk_ok d"
  shows "\<exists>d'. persist_error now i e d = Inr d' \<and> disk_ok d' \<and>
    disk_lookup d' = (\<lambda>k. if record_key i = Some k
      then map_option (\<lambda>r. if truthy (sr_sweep_tx_hash r) then r else r\<lparr>sr_error := Some e\<rparr>)
             (disk_lookup d k)
      else disk_lookup d k)"
  by (rule persist_error_spec [OF assms])

text \<open>
  Saving is atomic with respect to a crash: in the directory between its two steps every
  deposit still has the record it had before, and after them exactly the saved deposit has the
  new one.
\<close>
theorem save_record_atomic:
  assumes "disk_ok d" and "record_ok r" and "record_key (sr_deposit_id_hex r) = Some k"
  shows "disk_ok (save_tmp k r d) \<and> disk_lookup (save_tmp k r d) = disk_lookup d
    \<and> (\<exists>d'. save_record r d = Inr d' \<and> disk_ok d' \<and> disk_lookup d' = (disk_lookup d)(k \<mapsto> r))"
proof -
  have "disk_lookup (save_tmp k r d) = disk_lookup d"
    by (simp add: fun_eq_iff disk_lookup_def map_of_save_tmp)
  then show ?thesis
    using assms store.save_total store.save_inv store.save_lookup disk_ok_save_tmp by metis
qed

end
