(* ===== verification/Async_Cache.thy ===== *)
theory Async_Cache
  imports Privana_Prelude
begin

text \<open>
  \<^verbatim>\<open>src/services/cache.py\<close>: the cached call the discovery service and the accounting service go
  through. The TTL cache it wraps is the third-party cachetools (\<open>lookup\<close> and \<open>store\<close> are
  its operations); an expired entry is one \<open>lookup\<close> does not return. The lemmas say that a cached
  value spares the call, that a call that fails stores nothing, and that the result is either a
  cached value or the call's.
\<close>

text \<open>
  \<open>AsyncTTLCache.get_or_set_async\<close>: look, take the key's lock (\<open>acquire\<close>, during which other
  tasks run), look again, compute and store. \<open>lookup\<close> and \<open>store\<close> are those of the wrapped cache.
\<close>

definition get_or_set_async ::
    "('s \<Rightarrow> 'k \<Rightarrow> 'v option) \<Rightarrow> ('k \<Rightarrow> 'v \<Rightarrow> 's \<Rightarrow> 's) \<Rightarrow> ('s, unit) py \<Rightarrow> 'k \<Rightarrow> ('s, 'v) py \<Rightarrow> ('s, 'v) py" where
  "get_or_set_async lookup store acquire key factory =
     py_bind py_get (\<lambda>s.
     case lookup s key of
       Some v \<Rightarrow> py_ret v
     | None \<Rightarrow>
         py_then acquire
         (py_bind py_get (\<lambda>s'.
          case lookup s' key of
            Some v \<Rightarrow> py_ret v
          | None \<Rightarrow> py_bind factory (\<lambda>v. py_then (py_modify (store key v)) (py_ret v)))))"

lemma cached_call_spared:
  assumes "lookup s k = Some v"
  shows "get_or_set_async lookup store acquire k f s = (Inr v, s)"
  using assms by (simp add: get_or_set_async_def py_bind_def py_get_def py_ret_def)

lemma cached_call_cases:
  assumes "get_or_set_async lookup store acquire k f s = (r, t)"
  obtains (cached) v where "lookup s k = Some v" "r = Inr v" "t = s"
  | (gave_up) e where "lookup s k = None" "acquire s = (Inl e, t)" "r = Inl e"
  | (other_task) u v where "lookup s k = None" "acquire s = (Inr (), u)" "lookup u k = Some v" "r = Inr v" "t = u"
  | (failed) u e where "lookup s k = None" "acquire s = (Inr (), u)" "lookup u k = None" "f u = (Inl e, t)" "r = Inl e"
  | (computed) u u' v where "lookup s k = None" "acquire s = (Inr (), u)" "lookup u k = None" "f u = (Inr v, u')"
      "r = Inr v" "t = store k v u'"
  using assms that
  by (auto simp: get_or_set_async_def py_bind_def py_then_def py_get_def py_ret_def py_modify_def
      split: option.splits prod.splits sum.splits)

lemma keeps_cached_call [keeps_intros]:
  assumes "keeps P acquire" "keeps P f" "\<And>k v s. P s \<Longrightarrow> P (store k v s)"
  shows "keeps P (get_or_set_async lookup store acquire k f)"
  unfolding get_or_set_async_def
  by (intro keeps_intros) (auto intro!: keeps_intros keeps_modify assms split: option.split)

end
