(* ===== verification/Withdrawal_Index.thy ===== *)
theory Withdrawal_Index
  imports Chain_Config Rpc_Identity Sweep_Record Async_Cache "HOL-Library.AList"
begin

text \<open>
  \<^verbatim>\<open>src/services/accounting_contract.py\<close>, the index of unresolved withdrawals: which entries of
  the contract's append-only \<open>withdrawals\<close> array were read, which of them are still open, and the
  list the withdrawal processor polls. The contract, the node and the other tasks of the process
  are parameters (\<open>a_env\<close>): \<open>ax_others\<close> is what the other tasks do to the shared state while this
  one awaits.
\<close>

section \<open>Withdrawals\<close>

text \<open>A row of the contract's \<open>withdrawals(i)\<close>, and the entry the service makes of it.\<close>

record contract_withdrawal =
  cw_user :: string
  cw_to :: string
  cw_amount :: int
  cw_block_number :: int
  cw_token_id :: bytes
  cw_resolved :: bool
  cw_tx_identifier :: bytes

record withdrawal_entry =
  we_index :: int
  we_user_address :: string
  we_to_address :: string
  we_amount :: string
  we_block_number :: int
  we_token_id :: string
  we_resolved :: bool
  we_tx_identifier :: string

definition parse_withdrawal :: "int \<Rightarrow> contract_withdrawal \<Rightarrow> withdrawal_entry" where
  "parse_withdrawal index r =
     \<lparr>we_index = index, we_user_address = cw_user r, we_to_address = cw_to r,
      we_amount = int_text (cw_amount r), we_block_number = cw_block_number r,
      we_token_id = to_hex (cw_token_id r), we_resolved = cw_resolved r,
      we_tx_identifier = (if cw_tx_identifier r \<noteq> [] then to_hex (cw_tx_identifier r) else ''0x'')\<rparr>"

record token_context =
  tc_chain_id :: int
  tc_token_address :: "string option"
  tc_is_native :: bool

section \<open>The service's shared state\<close>

record 'w service =
  sh_world :: 'w
  sh_rpc :: rpc_state
  sh_running :: bool
  sh_scanned :: int
  sh_unresolved :: "(int \<times> withdrawal_entry) list"
  sh_token_contexts :: "string \<rightharpoonup> token_context"
  sh_chain_web3 :: "int \<rightharpoonup> client"

record 'w a_env =
  ax_others :: "'w service \<Rightarrow> 'w service"
  ax_chain_id :: int
  ax_sapphire_url :: url
  ax_lock :: "'w \<Rightarrow> (exn + unit) \<times> 'w"
  ax_block_number :: "'w \<Rightarrow> (exn + int) \<times> 'w"
  ax_withdrawal_count :: "'w \<Rightarrow> (exn + int) \<times> 'w"
  ax_withdrawals :: "int list \<Rightarrow> 'w \<Rightarrow> (exn + contract_withdrawal list) \<times> 'w"
  ax_tokens :: "bytes \<Rightarrow> 'w \<Rightarrow> (exn + int \<times> bytes) \<times> 'w"
  ax_cache_get :: "'w \<Rightarrow> (string \<rightharpoonup> token_context) \<Rightarrow> string \<Rightarrow> token_context option"
  ax_cache_set :: "'w \<Rightarrow> string \<Rightarrow> token_context \<Rightarrow> (string \<rightharpoonup> token_context) \<Rightarrow> (string \<rightharpoonup> token_context)"
  ax_hexbytes :: "string \<Rightarrow> exn + bytes"
  ax_is_address :: "string \<Rightarrow> bool"
  ax_checksum :: "string \<Rightarrow> exn + string"

definition a_await :: "'w a_env \<Rightarrow> ('w \<Rightarrow> (exn + 'a) \<times> 'w) \<Rightarrow> ('w service, 'a) py" where
  "a_await env f = (\<lambda>s. case f (sh_world s) of (r, w) \<Rightarrow> (r, ax_others env (s\<lparr>sh_world := w\<rparr>)))"

section \<open>Reads\<close>

definition require_verified_sapphire :: "'w a_env \<Rightarrow> ('w service, unit) py" where
  "require_verified_sapphire env = py_bind py_get (\<lambda>s.
     if is_url_verified (sh_rpc s) (ax_chain_id env) (ax_sapphire_url env) then py_ret ()
     else py_raise (ValueError ''Sapphire RPC endpoint is not verified''))"

definition get_reader_contract :: "'w a_env \<Rightarrow> ('w service, unit) py" where
  "get_reader_contract env =
     (if ax_sapphire_url env = []
      then py_raise (ValueError ''SAPPHIRE_RPC_URL must be configured to perform withdrawal operations'')
      else require_verified_sapphire env)"

definition WITHDRAWAL_READ_BATCH_SIZE :: nat where
  "WITHDRAWAL_READ_BATCH_SIZE = 50"

function batches :: "'a list \<Rightarrow> 'a list list" where
  "batches xs = (if xs = [] then []
     else take WITHDRAWAL_READ_BATCH_SIZE xs # batches (drop WITHDRAWAL_READ_BATCH_SIZE xs))"
  by auto
termination by (relation "measure length") (auto simp: WITHDRAWAL_READ_BATCH_SIZE_def)

declare batches.simps [simp del]

definition read_withdrawals :: "'w a_env \<Rightarrow> int list \<Rightarrow> ('w service, contract_withdrawal list) py" where
  "read_withdrawals env indices =
     py_then (get_reader_contract env)
     (py_bind (py_map (\<lambda>ixs. a_await env (ax_withdrawals env ixs)) (batches indices)) (\<lambda>rs.
      if length (concat rs) \<noteq> length indices
      then py_raise (OtherError ''RuntimeError: withdrawals batch returned too few results'')
      else py_ret (concat rs)))"

section \<open>The index\<close>

text \<open>\<open>range(first_new, count, 50)\<close>.\<close>

function batch_starts :: "int \<Rightarrow> int \<Rightarrow> int list" where
  "batch_starts a b = (if a \<ge> b then [] else a # batch_starts (a + int WITHDRAWAL_READ_BATCH_SIZE) b)"
  by auto
termination by (relation "measure (\<lambda>(a, b). nat (b - a))") (auto simp: WITHDRAWAL_READ_BATCH_SIZE_def)

declare batch_starts.simps [simp del]

definition add_unresolved ::
    "(int \<times> contract_withdrawal) list \<Rightarrow> (int \<times> withdrawal_entry) list \<Rightarrow> (int \<times> withdrawal_entry) list" where
  "add_unresolved rows m =
     fold (\<lambda>(i, r) m. if cw_resolved r then m else AList.update i (parse_withdrawal i r) m) rows m"

definition index_batch :: "'w a_env \<Rightarrow> int \<Rightarrow> int \<Rightarrow> ('w service, unit) py" where
  "index_batch env count_seen start =
     (let indices = [start .. min (start + int WITHDRAWAL_READ_BATCH_SIZE) count_seen - 1] in
      py_bind (read_withdrawals env indices) (\<lambda>results.
      py_modify (\<lambda>s. s\<lparr>sh_unresolved := add_unresolved (zip indices results) (sh_unresolved s),
                       sh_scanned := last indices + 1\<rparr>)))"

definition refresh_withdrawal_index :: "'w a_env \<Rightarrow> ('w service, int) py" where
  "refresh_withdrawal_index env =
     py_then (get_reader_contract env)
     (py_bind (a_await env (ax_withdrawal_count env)) (\<lambda>count_seen.
      py_bind py_get (\<lambda>s.
      if count_seen \<le> sh_scanned s then py_ret count_seen
      else
        py_then (a_await env (ax_lock env))
        (py_bind py_get (\<lambda>s'.
         py_then (py_for (batch_starts (sh_scanned s') count_seen) (index_batch env count_seen))
         (py_ret count_seen))))))"

text \<open>The keys to look at, in order, and the walk that drops those found resolved.\<close>

definition candidates :: "(int \<times> withdrawal_entry) list \<Rightarrow> string option \<Rightarrow> int list" where
  "candidates m user = sort (map fst (filter (\<lambda>(i, e).
     case user of None \<Rightarrow> True | Some u \<Rightarrow> ascii_lower (we_user_address e) = ascii_lower u) m))"

fun collect_pending ::
    "int list \<Rightarrow> int list \<Rightarrow> (int \<times> withdrawal_entry) list
     \<Rightarrow> withdrawal_entry list \<times> (int \<times> withdrawal_entry) list" where
  "collect_pending resolved [] m = ([], m)"
| "collect_pending resolved (i # is) m =
     (if i \<in> set resolved then collect_pending resolved is (AList.delete i m)
      else case map_of m i of
          None \<Rightarrow> collect_pending resolved is m
        | Some e \<Rightarrow> (case collect_pending resolved is m of (es, m') \<Rightarrow> (e # es, m')))"

definition unresolved_withdrawal_entries ::
    "'w a_env \<Rightarrow> string option \<Rightarrow> ('w service, withdrawal_entry list) py" where
  "unresolved_withdrawal_entries env user =
     py_bind (refresh_withdrawal_index env) (\<lambda>count_seen.
     py_bind py_get (\<lambda>s.
     let cs = candidates (sh_unresolved s) user;
         readable = filter (\<lambda>i. i < count_seen) cs
     in py_bind (read_withdrawals env readable) (\<lambda>results.
        let resolved = map fst (filter (\<lambda>(i, r). cw_resolved r) (zip readable results)) in
        (\<lambda>s. case collect_pending resolved cs (sh_unresolved s) of
           (es, m) \<Rightarrow> (Inr es, s\<lparr>sh_unresolved := m\<rparr>)))))"

section \<open>Token contexts\<close>

definition token_context_of :: "('w a_env) \<Rightarrow> int \<times> bytes \<Rightarrow> exn + token_context" where
  "token_context_of env row =
     (case row of (token_type, token_data) \<Rightarrow>
        let cid = foldl (\<lambda>acc b. acc * 256 + uint b) 0 (take 32 token_data) in
        if token_type = 0 then
          (if cid = 0 then Inl (ValueError ''is not registered in the contract'')
           else Inr \<lparr>tc_chain_id = cid, tc_token_address = None, tc_is_native = True\<rparr>)
        else if token_type = 1 then
          (if cid = 0 then Inl (ValueError ''is not properly registered in the contract'')
           else sum_bind (ax_checksum env (''0x'' @ bytes_hex (take 20 (drop 32 token_data)))) (\<lambda>a.
             Inr \<lparr>tc_chain_id = cid, tc_token_address = Some a, tc_is_native = False\<rparr>))
        else Inl (ValueError ''Unsupported token type''))"

definition fetch_token_context :: "'w a_env \<Rightarrow> bytes \<Rightarrow> ('w service, token_context) py" where
  "fetch_token_context env token =
     py_then (get_reader_contract env)
     (py_bind (a_await env (ax_tokens env token)) (\<lambda>row. py_lift (token_context_of env row)))"

definition get_token_context :: "'w a_env \<Rightarrow> bytes \<Rightarrow> ('w service, token_context) py" where
  "get_token_context env token =
     get_or_set_async (\<lambda>s. ax_cache_get env (sh_world s) (sh_token_contexts s))
       (\<lambda>k v s. s\<lparr>sh_token_contexts := ax_cache_set env (sh_world s) k v (sh_token_contexts s)\<rparr>)
       (a_await env (ax_lock env)) (bytes_hex token) (fetch_token_context env token)"

section \<open>The list the processor polls\<close>

record pending_withdrawal =
  pw_index :: int
  pw_user_address :: string
  pw_to_address :: string
  pw_amount :: string
  pw_token_id :: string
  pw_block_number :: int
  pw_can_resolve :: bool
  pw_chain_id :: "int option"

definition pending_row :: "'w a_env \<Rightarrow> int \<Rightarrow> withdrawal_entry \<Rightarrow> ('w service, pending_withdrawal) py" where
  "pending_row env current_block e =
     py_bind
       (py_catch
          (py_bind (py_lift (ax_hexbytes env (we_token_id e))) (\<lambda>token.
           py_bind (get_token_context env token) (\<lambda>ctx. py_ret (Some (tc_chain_id ctx)))))
          (\<lambda>_. py_ret None)) (\<lambda>cid.
       py_ret \<lparr>pw_index = we_index e, pw_user_address = we_user_address e,
               pw_to_address = we_to_address e, pw_amount = we_amount e,
               pw_token_id = we_token_id e, pw_block_number = we_block_number e,
               pw_can_resolve = (current_block - we_block_number e \<ge> 1), pw_chain_id = cid\<rparr>)"

definition get_all_pending_withdrawals :: "'w a_env \<Rightarrow> ('w service, pending_withdrawal list \<times> int) py" where
  "get_all_pending_withdrawals env =
     py_bind (if ax_sapphire_url env \<noteq> [] then a_await env (ax_block_number env) else py_ret 0) (\<lambda>current_block.
     py_bind (unresolved_withdrawal_entries env None) (\<lambda>entries.
     py_bind (py_map (pending_row env current_block) entries) (\<lambda>rows.
     py_ret (rows, current_block))))"

text \<open>One user's open withdrawals.\<close>

definition require_address :: "'w a_env \<Rightarrow> string \<Rightarrow> exn + string" where
  "require_address env v =
     (if ax_is_address env v then ax_checksum env v else Inl (ValueError ''Invalid address provided''))"

definition get_pending_withdrawals ::
    "'w a_env \<Rightarrow> string \<Rightarrow> ('w service, string \<times> withdrawal_entry list) py" where
  "get_pending_withdrawals env user_address =
     py_bind (py_lift (require_address env user_address)) (\<lambda>checksum_user.
     py_bind (unresolved_withdrawal_entries env (Some checksum_user)) (\<lambda>es. py_ret (checksum_user, es)))"

section \<open>The contract's array\<close>

text \<open>
  The \<open>withdrawals\<close> array of the contract only grows, its rows keep their request, and
  \<open>resolved\<close> changes once, to true. A node may lag: a row it returns can still say unresolved.
\<close>

definition same_request :: "contract_withdrawal \<Rightarrow> contract_withdrawal \<Rightarrow> bool" where
  "same_request r q \<longleftrightarrow> cw_user r = cw_user q \<and> cw_to r = cw_to q \<and> cw_amount r = cw_amount q
     \<and> cw_block_number r = cw_block_number q \<and> cw_token_id r = cw_token_id q"

definition row_of :: "contract_withdrawal list \<Rightarrow> int \<Rightarrow> contract_withdrawal \<Rightarrow> bool" where
  "row_of l i r \<longleftrightarrow> 0 \<le> i \<and> i < int (length l) \<and> same_request r (l ! nat i)
     \<and> (cw_resolved r \<longrightarrow> cw_resolved (l ! nat i))"

definition ledger_le :: "contract_withdrawal list \<Rightarrow> contract_withdrawal list \<Rightarrow> bool" where
  "ledger_le l l' \<longleftrightarrow> length l \<le> length l'
     \<and> (\<forall>n < length l. same_request (l ! n) (l' ! n) \<and> (cw_resolved (l ! n) \<longrightarrow> cw_resolved (l' ! n)))"

text \<open>The index agrees with the array: no open row below \<open>sh_scanned\<close> is missing.\<close>

definition idx_ok :: "('w \<Rightarrow> contract_withdrawal list) \<Rightarrow> 'w service \<Rightarrow> bool" where
  "idx_ok L s \<longleftrightarrow>
     0 \<le> sh_scanned s \<and> sh_scanned s \<le> int (length (L (sh_world s)))
   \<and> distinct (map fst (sh_unresolved s))
   \<and> (\<forall>(i, e) \<in> set (sh_unresolved s). \<exists>r. row_of (L (sh_world s)) i r \<and> e = parse_withdrawal i r)
   \<and> (\<forall>i. 0 \<le> i \<and> i < sh_scanned s \<and> \<not> cw_resolved (L (sh_world s) ! nat i)
        \<longrightarrow> i \<in> fst ` set (sh_unresolved s))"

definition moves_on :: "('w \<Rightarrow> contract_withdrawal list) \<Rightarrow> 'w service \<Rightarrow> 'w service \<Rightarrow> bool" where
  "moves_on L s t \<longleftrightarrow> idx_ok L t \<and> ledger_le (L (sh_world s)) (L (sh_world t)) \<and> sh_scanned s \<le> sh_scanned t"

definition reads_ledger :: "'w a_env \<Rightarrow> ('w \<Rightarrow> contract_withdrawal list) \<Rightarrow> bool" where
  "reads_ledger env L \<longleftrightarrow>
     (\<forall>w. ledger_le (L w) (L (snd (ax_lock env w)))) \<and> (\<forall>w. ledger_le (L w) (L (snd (ax_block_number env w))))
   \<and> (\<forall>w. ledger_le (L w) (L (snd (ax_withdrawal_count env w))))
   \<and> (\<forall>is w. ledger_le (L w) (L (snd (ax_withdrawals env is w))))
   \<and> (\<forall>k w. ledger_le (L w) (L (snd (ax_tokens env k w))))
   \<and> (\<forall>is w rs w'. ax_withdrawals env is w = (Inr rs, w') \<longrightarrow> list_all2 (row_of (L w')) is rs)
   \<and> (\<forall>w n w'. ax_withdrawal_count env w = (Inr n, w') \<longrightarrow> n \<le> int (length (L w')))
   \<and> (\<forall>s. idx_ok L s \<longrightarrow> moves_on L s (ax_others env s))"

lemma same_request_refl [simp]: "same_request r r"
  by (simp add: same_request_def)

lemma ledger_le_refl [simp]: "ledger_le l l"
  by (simp add: ledger_le_def)

lemma ledger_le_trans: "ledger_le a b \<Longrightarrow> ledger_le b c \<Longrightarrow> ledger_le a c"
  by (auto simp: ledger_le_def same_request_def)

lemma row_of_mono: "row_of l i r \<Longrightarrow> ledger_le l l' \<Longrightarrow> row_of l' i r"
  unfolding row_of_def ledger_le_def same_request_def by (auto simp: nat_less_iff)

lemma unresolved_before:
  "ledger_le l l' \<Longrightarrow> 0 \<le> i \<Longrightarrow> i < int (length l) \<Longrightarrow> \<not> cw_resolved (l' ! nat i) \<Longrightarrow> \<not> cw_resolved (l ! nat i)"
  unfolding ledger_le_def by (auto simp: nat_less_iff)

lemma idx_ok_world:
  assumes "idx_ok L s" "ledger_le (L (sh_world s)) (L w)"
  shows "idx_ok L (s\<lparr>sh_world := w\<rparr>)"
proof -
  let ?l = "L (sh_world s)"
  have len: "length ?l \<le> length (L w)" using assms(2) by (simp add: ledger_le_def)
  have rows: "\<exists>r. row_of (L w) i r \<and> e = parse_withdrawal i r" if "(i, e) \<in> set (sh_unresolved s)" for i e
    using assms(1) that row_of_mono [OF _ assms(2)] unfolding idx_ok_def by blast
  have none: "i \<in> fst ` set (sh_unresolved s)"
    if "0 \<le> i" "i < sh_scanned s" "\<not> cw_resolved (L w ! nat i)" for i
  proof -
    have "i < int (length ?l)" using assms(1) that(2) by (simp add: idx_ok_def)
    with that show ?thesis using unresolved_before [OF assms(2)] assms(1) by (simp add: idx_ok_def)
  qed
  show ?thesis using assms(1) len rows none by (auto simp: idx_ok_def)
qed

lemma moves_on_refl: "idx_ok L s \<Longrightarrow> moves_on L s s"
  by (simp add: moves_on_def)

lemma moves_on_trans: "moves_on L s t \<Longrightarrow> moves_on L t u \<Longrightarrow> moves_on L s u"
  using ledger_le_trans by (auto simp: moves_on_def)

lemma a_await_moves:
  assumes env: "reads_ledger env L" and f: "\<And>w. ledger_le (L w) (L (snd (f w)))"
    and s: "idx_ok L s" and run: "a_await env f s = (r, t)"
  shows "moves_on L s t"
proof -
  obtain w where w: "f (sh_world s) = (r, w)" "t = ax_others env (s\<lparr>sh_world := w\<rparr>)"
    using run by (auto simp: a_await_def split: prod.splits)
  have le: "ledger_le (L (sh_world s)) (L w)" using f [of "sh_world s"] w(1) by simp
  then have "moves_on L (s\<lparr>sh_world := w\<rparr>) t"
    using env idx_ok_world [OF s le] w(2) by (simp add: reads_ledger_def)
  with le show ?thesis using ledger_le_trans [OF le] by (simp add: moves_on_def)
qed

text \<open>A call leaves the index right, whatever it returns.\<close>

lemma steady_await:
  assumes env: "reads_ledger env L" and f: "\<And>w. ledger_le (L w) (L (snd (f w)))"
  shows "keeps (moves_on L s) (a_await env f)"
  unfolding keeps_def
proof (intro allI impI)
  fix u assume u: "moves_on L s u"
  then have "moves_on L u (snd (a_await env f u))"
    by (intro a_await_moves [OF env f _ prod.collapse [symmetric]]) (simp add: moves_on_def)
  with u show "moves_on L s (snd (a_await env f u))" by (rule moves_on_trans)
qed

lemma steady_calls:
  assumes "reads_ledger env L"
  shows "keeps (moves_on L s) (a_await env (ax_lock env))"
    "keeps (moves_on L s) (a_await env (ax_block_number env))"
    "keeps (moves_on L s) (a_await env (ax_withdrawal_count env))"
    "keeps (moves_on L s) (a_await env (ax_withdrawals env is))"
    "keeps (moves_on L s) (a_await env (ax_tokens env k))"
  using assms by (auto intro!: steady_await simp: reads_ledger_def)

lemma steady_reader [keeps_intros]: "keeps P (get_reader_contract env)"
  unfolding get_reader_contract_def require_verified_sapphire_def by (intro keeps_intros)

lemma concat_batches [simp]: "concat (batches xs) = xs"
  by (induction xs rule: batches.induct) (subst batches.simps, auto simp: WITHDRAWAL_READ_BATCH_SIZE_def)

lemma keeps_map: "(\<And>x. x \<in> set xs \<Longrightarrow> keeps P (f x)) \<Longrightarrow> keeps P (py_map f xs)"
  by (induction xs) (auto intro!: keeps_intros)

section \<open>Batched reads\<close>

lemma read_rows_map:
  assumes env: "reads_ledger env L"
  shows "py_map (\<lambda>ixs. a_await env (ax_withdrawals env ixs)) bs s = (Inr rs, t) \<Longrightarrow> idx_ok L s \<Longrightarrow>
    list_all2 (row_of (L (sh_world t))) (concat bs) (concat rs) \<and> moves_on L s t"
proof (induction bs arbitrary: s rs)
  case Nil
  then show ?case by (auto simp: py_ret_def moves_on_refl)
next
  case (Cons b bs)
  obtain r u rs' where r: "a_await env (ax_withdrawals env b) s = (Inr r, u)"
    and rest: "py_map (\<lambda>ixs. a_await env (ax_withdrawals env ixs)) bs u = (Inr rs', t)" and rs: "rs = r # rs'"
    using Cons.prems(1) by (auto simp: py_bind_def py_ret_def split: prod.splits sum.splits)
  have su: "moves_on L s u" using keepsD [OF steady_calls(4) [OF env] moves_on_refl [OF Cons.prems(2)] r] .
  obtain w where w: "ax_withdrawals env b (sh_world s) = (Inr r, w)" "u = ax_others env (s\<lparr>sh_world := w\<rparr>)"
    using r by (auto simp: a_await_def split: prod.splits)
  have le: "ledger_le (L (sh_world s)) (L w)" using env w(1) unfolding reads_ledger_def by (metis snd_conv)
  have "moves_on L (s\<lparr>sh_world := w\<rparr>) u"
    using env idx_ok_world [OF Cons.prems(2) le] w(2) by (simp add: reads_ledger_def)
  then have wu: "ledger_le (L w) (L (sh_world u))" by (simp add: moves_on_def)
  have IH: "list_all2 (row_of (L (sh_world t))) (concat bs) (concat rs') \<and> moves_on L u t"
    using Cons.IH [OF rest] su by (simp add: moves_on_def)
  then have ut: "ledger_le (L (sh_world u)) (L (sh_world t))" by (simp add: moves_on_def)
  have "list_all2 (row_of (L w)) b r" using env w(1) by (simp add: reads_ledger_def)
  then have "list_all2 (row_of (L (sh_world t))) b r"
    by (rule list_all2_mono) (rule row_of_mono [OF _ ledger_le_trans [OF wu ut]])
  then show ?case using IH rs moves_on_trans [OF su] by (simp add: list_all2_appendI)
qed

lemma read_rows:
  assumes env: "reads_ledger env L" and s: "idx_ok L s" and run: "read_withdrawals env is s = (Inr rs, t)"
  shows "list_all2 (row_of (L (sh_world t))) is rs \<and> moves_on L s t"
proof -
  obtain bs where "py_map (\<lambda>ixs. a_await env (ax_withdrawals env ixs)) (batches is) s = (Inr bs, t)" "rs = concat bs"
    using run
    by (auto simp: read_withdrawals_def py_then_def py_bind_def get_reader_contract_def require_verified_sapphire_def
        py_get_def py_ret_def py_raise_def split: if_splits prod.splits sum.splits)
  then show ?thesis using read_rows_map [OF env _ s] by fastforce
qed

lemma steady_read: "reads_ledger env L \<Longrightarrow> keeps (moves_on L s) (read_withdrawals env is)"
  unfolding read_withdrawals_def by (intro keeps_intros keeps_map steady_calls)

text \<open>What a batch adds to the dict.\<close>

lemma add_unresolved_simps [simp]:
  "add_unresolved [] m = m"
  "add_unresolved ((i, r) # rows) m =
     add_unresolved rows (if cw_resolved r then m else AList.update i (parse_withdrawal i r) m)"
  by (simp_all add: add_unresolved_def)

lemma add_unresolved_keys:
  "fst ` set (add_unresolved rows m) = fst ` set m \<union> {i. \<exists>r. (i, r) \<in> set rows \<and> \<not> cw_resolved r}"
proof (induction rows arbitrary: m)
  case (Cons p rows)
  obtain i r where p: "p = (i, r)" by (cases p)
  show ?case unfolding p add_unresolved_simps Cons.IH by (cases "cw_resolved r") (auto simp: dom_update)
qed simp

lemma add_unresolved_distinct: "distinct (map fst m) \<Longrightarrow> distinct (map fst (add_unresolved rows m))"
proof (induction rows arbitrary: m)
  case (Cons p rows)
  then show ?case by (cases p) (simp add: distinct_update)
qed simp

lemma add_unresolved_rows:
  "(i, e) \<in> set (add_unresolved rows m) \<Longrightarrow> (i, e) \<in> set m \<or> (\<exists>r. (i, r) \<in> set rows \<and> e = parse_withdrawal i r)"
proof (induction rows arbitrary: m)
  case (Cons p rows)
  obtain j r where p: "p = (j, r)" by (cases p)
  have "set (AList.update j (parse_withdrawal j r) m) \<subseteq> insert (j, parse_withdrawal j r) (set m)"
    by (induction m) auto
  then show ?case
    using Cons.IH [OF Cons.prems [unfolded p add_unresolved_simps]] p by (auto split: if_splits)
qed simp

lemma steady_index_batch:
  assumes env: "reads_ledger env L" and s: "idx_ok L s" and start: "0 \<le> start" "start \<le> sh_scanned s" "start < n"
    and n: "n \<le> int (length (L (sh_world s)))" and run: "index_batch env n start s = (r, t)"
  shows "idx_ok L t \<and> ledger_le (L (sh_world s)) (L (sh_world t))
    \<and> (r = Inr () \<longrightarrow> sh_scanned t = min (start + int WITHDRAWAL_READ_BATCH_SIZE) n)"
proof -
  let ?hi = "min (start + int WITHDRAWAL_READ_BATCH_SIZE) n"
  let ?is = "[start .. ?hi - 1]"
  have hi: "start < ?hi" using start by (simp add: WITHDRAWAL_READ_BATCH_SIZE_def)
  have last: "last ?is + 1 = ?hi" using hi by (simp add: upto_rec2)
  obtain q u where q: "read_withdrawals env ?is s = (q, u)" by fastforce
  have su: "moves_on L s u" using keepsD [OF steady_read [OF env] moves_on_refl [OF s] q] .
  show ?thesis
  proof (cases q)
    case (Inl e)
    then show ?thesis using run q su by (auto simp: index_batch_def Let_def py_bind_def moves_on_def)
  next
    case (Inr rs)
    let ?m = "add_unresolved (zip ?is rs) (sh_unresolved u)" and ?l = "L (sh_world u)"
    have t: "t = u\<lparr>sh_unresolved := ?m, sh_scanned := ?hi\<rparr>" "r = Inr ()"
      using run q Inr last by (auto simp: index_batch_def Let_def py_bind_def py_modify_def)
    have rows: "list_all2 (row_of ?l) ?is rs" using read_rows [OF env s] q Inr by simp
    have len: "n \<le> int (length ?l)" using n su by (simp add: moves_on_def ledger_le_def)
    have u: "idx_ok L u" "start \<le> sh_scanned u" using su start(2) by (auto simp: moves_on_def)
    have entries: "\<exists>r. row_of ?l i r \<and> e = parse_withdrawal i r" if "(i, e) \<in> set ?m" for i e
      using add_unresolved_rows [OF that] u(1) rows unfolding idx_ok_def list_all2_iff by blast
    have open_rows: "i \<in> fst ` set ?m" if i: "0 \<le> i" "i < ?hi" "\<not> cw_resolved (?l ! nat i)" for i
    proof (cases "i < start")
      case True
      then have "i \<in> fst ` set (sh_unresolved u)" using u i by (simp add: idx_ok_def)
      then show ?thesis unfolding add_unresolved_keys by blast
    next
      case False
      then have "i \<in> set ?is" using i by simp
      then obtain k where k: "k < length ?is" "?is ! k = i" by (metis in_set_conv_nth)
      then have "row_of ?l i (rs ! k)" "(i, rs ! k) \<in> set (zip ?is rs)"
        using rows by (auto simp: list_all2_conv_all_nth set_zip)
      then show ?thesis using i(3) unfolding add_unresolved_keys row_of_def by blast
    qed
    have "idx_ok L t" unfolding idx_ok_def t(1)
      using u(1) hi start(1) len entries open_rows add_unresolved_distinct by (auto simp: idx_ok_def)
    then show ?thesis using t su by (simp add: moves_on_def)
  qed
qed

lemma index_batches:
  assumes env: "reads_ledger env L"
  shows "py_for (batch_starts a n) (index_batch env n) s = (r, t) \<Longrightarrow> idx_ok L s \<Longrightarrow> 0 \<le> a \<Longrightarrow> a \<le> sh_scanned s \<Longrightarrow>
    n \<le> int (length (L (sh_world s))) \<Longrightarrow>
    idx_ok L t \<and> ledger_le (L (sh_world s)) (L (sh_world t)) \<and> (r = Inr () \<longrightarrow> n \<le> sh_scanned t)"
proof (induction a n arbitrary: s rule: batch_starts.induct)
  case (1 a n)
  show ?case
  proof (cases "a \<ge> n")
    case True
    then show ?thesis using "1.prems" by (simp add: batch_starts.simps py_ret_def)
  next
    case False
    let ?b = "a + int WITHDRAWAL_READ_BATCH_SIZE"
    obtain q u where q: "index_batch env n a s = (q, u)" by fastforce
    have step: "idx_ok L u \<and> ledger_le (L (sh_world s)) (L (sh_world u)) \<and> (q = Inr () \<longrightarrow> sh_scanned u = min ?b n)"
      by (rule steady_index_batch [OF env _ _ _ _ _ q]) (use "1.prems" False in auto)
    have run: "(r, t) = (case q of Inl e \<Rightarrow> (Inl e, u) | Inr x \<Rightarrow> py_for (batch_starts ?b n) (index_batch env n) u)"
      using "1.prems"(1) False q
      by (subst (asm) batch_starts.simps) (auto simp: py_then_def py_bind_def split: sum.splits)
    show ?thesis
    proof (cases q)
      case (Inl e)
      then show ?thesis using run step by simp
    next
      case (Inr x)
      show ?thesis
      proof (cases "?b \<ge> n")
        case True
        then show ?thesis using run step Inr by (simp add: batch_starts.simps py_ret_def)
      next
        case b: False
        have len: "n \<le> int (length (L (sh_world u)))"
          using "1.prems"(5) step by (simp add: ledger_le_def)
        have "idx_ok L t \<and> ledger_le (L (sh_world u)) (L (sh_world t)) \<and> (r = Inr () \<longrightarrow> n \<le> sh_scanned t)"
          by (rule "1.IH" [OF False]) (use run step Inr b len "1.prems"(3) in auto)
        then show ?thesis using step ledger_le_trans by blast
      qed
    qed
  qed
qed

text \<open>A refresh leaves the index right and, if it returns, has read every row of the count it saw.\<close>

lemma refresh_covers:
  assumes env: "reads_ledger env L" and s: "idx_ok L s" and run: "refresh_withdrawal_index env s = (r, t)"
  shows "idx_ok L t \<and> ledger_le (L (sh_world s)) (L (sh_world t))
    \<and> (\<forall>n. r = Inr n \<longrightarrow> n \<le> sh_scanned t \<and> (\<exists>w w'. ax_withdrawal_count env w = (Inr n, w')))"
proof -
  obtain g s0 where g: "get_reader_contract env s = (g, s0)" by fastforce
  then have s0: "s0 = s"
    by (auto simp: get_reader_contract_def require_verified_sapphire_def py_bind_def py_get_def py_ret_def py_raise_def
        split: if_splits)
  obtain c u where c: "a_await env (ax_withdrawal_count env) s = (c, u)" by fastforce
  have su: "moves_on L s u" using keepsD [OF steady_calls(3) [OF env] moves_on_refl [OF s] c] .
  obtain l v where l: "a_await env (ax_lock env) u = (l, v)" by fastforce
  have uv: "moves_on L u v"
    using keepsD [OF steady_calls(1) [OF env] _ l, of u] moves_on_refl su by (simp add: moves_on_def)
  consider e where "r = Inl e" "t = s" | e where "r = Inl e" "t = u"
    | n where "c = Inr n" "r = Inr n" "t = u" "n \<le> sh_scanned u" | e where "r = Inl e" "t = v"
    | n r' where "c = Inr n" "py_for (batch_starts (sh_scanned v) n) (index_batch env n) v = (r', t)"
        "r = (case r' of Inl e \<Rightarrow> Inl e | Inr _ \<Rightarrow> Inr n)"
    using run g s0 c l
    by (auto simp: refresh_withdrawal_index_def py_then_def py_bind_def py_get_def py_ret_def
        split: sum.splits if_splits prod.splits)
  then show ?thesis
  proof cases
    case (3 n)
    obtain w where "ax_withdrawal_count env (sh_world s) = (Inr n, w)"
      using c 3(1) by (auto simp: a_await_def split: prod.splits)
    with 3 su show ?thesis by (auto simp: moves_on_def)
  next
    case (5 n r')
    obtain w where w: "ax_withdrawal_count env (sh_world s) = (Inr n, w)" "u = ax_others env (s\<lparr>sh_world := w\<rparr>)"
      using c 5(1) by (auto simp: a_await_def split: prod.splits)
    have le: "ledger_le (L (sh_world s)) (L w)" "n \<le> int (length (L w))"
      using env w(1) unfolding reads_ledger_def by (metis snd_conv)+
    have "ledger_le (L w) (L (sh_world u))"
      using env idx_ok_world [OF s le(1)] w(2) by (auto simp: reads_ledger_def moves_on_def)
    then have len: "n \<le> int (length (L (sh_world v)))"
      using le uv by (simp add: ledger_le_def moves_on_def)
    have v: "idx_ok L v" "0 \<le> sh_scanned v" using uv by (auto simp: moves_on_def idx_ok_def)
    have "idx_ok L t \<and> ledger_le (L (sh_world v)) (L (sh_world t)) \<and> (r' = Inr () \<longrightarrow> n \<le> sh_scanned t)"
      by (rule index_batches [OF env 5(2) v order_refl len])
    moreover have "ledger_le (L (sh_world s)) (L (sh_world v))"
      using su uv ledger_le_trans by (auto simp: moves_on_def)
    ultimately show ?thesis using 5(3) w(1) ledger_le_trans by (auto split: sum.splits)
  qed (use s su uv ledger_le_trans in \<open>auto simp: moves_on_def\<close>)
qed

section \<open>The open withdrawals\<close>

lemma collect_pending_eq:
  "collect_pending R cs m =
     (map (\<lambda>i. the (map_of m i)) (filter (\<lambda>i. i \<notin> set R \<and> map_of m i \<noteq> None) cs),
      filter (\<lambda>(i, e). i \<notin> set R \<inter> set cs) m)"
proof (induction cs arbitrary: m)
  case (Cons i cs)
  have del: "map_of (AList.delete i m) j = map_of m j" if "i \<in> set R" "j \<notin> set R" for j
    using that by (auto simp: AList.delete_conv')
  show ?case
  proof (cases "i \<in> set R")
    case True
    have "filter (\<lambda>j. j \<notin> set R \<and> map_of (AList.delete i m) j \<noteq> None) cs = filter (\<lambda>j. j \<notin> set R \<and> map_of m j \<noteq> None) cs"
    proof (intro filter_cong conj_cong refl)
      fix x assume "x \<notin> set R"
      show "(map_of (AList.delete i m) x \<noteq> None) = (map_of m x \<noteq> None)"
        unfolding del [OF True \<open>x \<notin> set R\<close>] by (rule refl)
    qed
    moreover have "filter (\<lambda>(j, e). j \<notin> set R \<inter> set cs) (AList.delete i m) = filter (\<lambda>(j, e). j \<notin> set R \<inter> set (i # cs)) m"
      using True by (auto simp: AList.delete_eq intro!: filter_cong)
    ultimately show ?thesis using True by (auto simp: Cons.IH del)
  next
    case False
    then have "set R \<inter> set (i # cs) = set R \<inter> set cs" by auto
    with False show ?thesis by (cases "map_of m i") (simp_all add: Cons.IH)
  qed
qed (simp add: case_prod_unfold)

definition all_keys_own :: "(int \<times> withdrawal_entry) list \<Rightarrow> bool" where
  "all_keys_own m \<longleftrightarrow> (\<forall>(i, e) \<in> set m. we_index e = i)"

lemma idx_ok_own: "idx_ok L s \<Longrightarrow> all_keys_own (sh_unresolved s)"
  by (auto simp: idx_ok_def all_keys_own_def parse_withdrawal_def)

lemma idx_ok_drop:
  assumes "idx_ok L s" "\<And>i. i \<in> R \<Longrightarrow> 0 \<le> i \<Longrightarrow> i < sh_scanned s \<Longrightarrow> cw_resolved (L (sh_world s) ! nat i)"
  shows "idx_ok L (s\<lparr>sh_unresolved := filter (\<lambda>(i, e). i \<notin> R) (sh_unresolved s)\<rparr>)"
proof -
  have "distinct (map fst (filter (\<lambda>(i, e). i \<notin> R) (sh_unresolved s)))"
    using assms(1) by (simp add: idx_ok_def distinct_map_filter)
  moreover have "i \<in> fst ` set (filter (\<lambda>(i, e). i \<notin> R) (sh_unresolved s))"
    if "0 \<le> i" "i < sh_scanned s" "\<not> cw_resolved (L (sh_world s) ! nat i)" for i
    using assms that unfolding idx_ok_def by force
  ultimately show ?thesis using assms(1) unfolding idx_ok_def by simp
qed

text \<open>
  What the list of open withdrawals holds: rows of the array under their own index, in order, and
  every row below the count the node gave that is still open.
\<close>

lemma unresolved_entries_spec:
  assumes env: "reads_ledger env L" and s: "idx_ok L s"
    and run: "unresolved_withdrawal_entries env None s = (Inr es, t)"
  shows "idx_ok L t \<and> sorted_wrt (<) (map we_index es)
    \<and> (\<forall>e \<in> set es. \<exists>r. row_of (L (sh_world t)) (we_index e) r \<and> e = parse_withdrawal (we_index e) r)
    \<and> (\<exists>n w w'. ax_withdrawal_count env w = (Inr n, w') \<and> n \<le> int (length (L (sh_world t)))
        \<and> (\<forall>i. 0 \<le> i \<and> i < n \<and> \<not> cw_resolved (L (sh_world t) ! nat i) \<longrightarrow> i \<in> we_index ` set es))"
proof -
  obtain n u where n: "refresh_withdrawal_index env s = (Inr n, u)"
    using run by (auto simp: unresolved_withdrawal_entries_def py_bind_def split: prod.splits sum.splits)
  let ?cs = "candidates (sh_unresolved u) None" and ?l = "\<lambda>x. L (sh_world x)"
  let ?rd = "filter (\<lambda>i. i < n) ?cs"
  obtain rs v where v: "read_withdrawals env ?rd u = (Inr rs, v)"
    using run n by (auto simp: unresolved_withdrawal_entries_def py_bind_def py_get_def Let_def split: prod.splits sum.splits)
  let ?R = "map fst (filter (\<lambda>(i, r). cw_resolved r) (zip ?rd rs))" and ?m = "sh_unresolved v"
  have res: "es = map (\<lambda>i. the (map_of ?m i)) (filter (\<lambda>i. i \<notin> set ?R \<and> map_of ?m i \<noteq> None) ?cs)"
      "t = v\<lparr>sh_unresolved := filter (\<lambda>(i, e). i \<notin> set ?R \<inter> set ?cs) ?m\<rparr>"
    using run n v unfolding unresolved_withdrawal_entries_def Let_def py_bind_def py_get_def collect_pending_eq
    by auto
  have u: "idx_ok L u" "n \<le> sh_scanned u" "\<exists>w w'. ax_withdrawal_count env w = (Inr n, w')"
    using refresh_covers [OF env s n] by auto
  have rows: "list_all2 (row_of (?l v)) ?rd rs" and uv: "moves_on L u v" using read_rows [OF env u(1) v] by auto
  then have vok: "idx_ok L v" and le: "ledger_le (?l u) (?l v)" and sc: "sh_scanned u \<le> sh_scanned v"
    by (auto simp: moves_on_def)
  have resolved: "cw_resolved (?l v ! nat i)" if "i \<in> set ?R" for i
    using that rows by (force simp: list_all2_iff row_of_def)
  have own: "we_index (the (map_of ?m i)) = i" if "map_of ?m i \<noteq> None" for i
    using idx_ok_own [OF vok] that map_of_SomeD by (fastforce simp: all_keys_own_def)
  have idx: "map we_index es = filter (\<lambda>i. i \<notin> set ?R \<and> map_of ?m i \<noteq> None) ?cs"
    unfolding res(1) map_map o_def by (rule map_idI) (auto simp: own)
  have "distinct ?cs" using u(1) by (simp add: candidates_def idx_ok_def case_prod_unfold)
  then have "sorted_wrt (<) (map we_index es)"
    unfolding idx strict_sorted_iff by (simp add: candidates_def sorted_wrt_filter)
  moreover have "idx_ok L t"
    unfolding res(2) by (rule idx_ok_drop [OF vok]) (use resolved in blast)
  moreover have "\<exists>r. row_of (?l t) (we_index e) r \<and> e = parse_withdrawal (we_index e) r" if e: "e \<in> set es" for e
  proof -
    obtain i where "e = the (map_of ?m i)" "map_of ?m i \<noteq> None" using e unfolding res(1) by auto
    then have "map_of ?m i = Some e" by (cases "map_of ?m i") simp_all
    then have "(i, e) \<in> set ?m" by (rule map_of_SomeD)
    then show ?thesis using vok idx_ok_own [OF vok] res(2) by (fastforce simp: idx_ok_def all_keys_own_def)
  qed
  moreover have "i \<in> we_index ` set es" if i: "0 \<le> i" "i < n" "\<not> cw_resolved (?l t ! nat i)" for i
  proof -
    have open_v: "\<not> cw_resolved (?l v ! nat i)" using i(3) res(2) by simp
    have len: "i < int (length (?l u))" using u i(2) by (auto simp: idx_ok_def)
    have "i \<in> fst ` set (sh_unresolved u)"
      using u i unresolved_before [OF le i(1) len open_v] by (auto simp: idx_ok_def)
    then have "i \<in> set ?cs" by (auto simp: candidates_def)
    moreover have "map_of ?m i \<noteq> None"
      using vok i open_v u(2) sc by (auto simp: idx_ok_def map_of_eq_None_iff)
    ultimately have "i \<in> set (map we_index es)" unfolding idx using resolved open_v by auto
    then show ?thesis by simp
  qed
  moreover have "n \<le> int (length (?l t))" using u(2) sc vok res(2) by (auto simp: idx_ok_def)
  ultimately show ?thesis using u(3) by blast
qed

lemma idx_ok_contexts [simp]: "idx_ok L (s\<lparr>sh_token_contexts := c\<rparr>) = idx_ok L s"
  by (simp add: idx_ok_def)

lemma steady_token_context:
  assumes "reads_ledger env L"
  shows "keeps (moves_on L s) (get_token_context env k)"
  unfolding get_token_context_def fetch_token_context_def
  by (intro keeps_intros steady_calls assms) (simp add: moves_on_def)

lemma steady_pending_row:
  assumes "reads_ledger env L"
  shows "keeps (moves_on L s) (pending_row env b e)"
  unfolding pending_row_def by (intro keeps_intros steady_token_context assms)

definition row_for :: "int \<Rightarrow> withdrawal_entry \<Rightarrow> pending_withdrawal \<Rightarrow> bool" where
  "row_for b e p \<longleftrightarrow> pw_index p = we_index e \<and> pw_user_address p = we_user_address e
     \<and> pw_to_address p = we_to_address e \<and> pw_amount p = we_amount e \<and> pw_token_id p = we_token_id e
     \<and> pw_block_number p = we_block_number e \<and> pw_can_resolve p = (b - we_block_number e \<ge> 1)"

lemma pending_rows:
  "py_map (pending_row env b) es s = (Inr ps, t) \<Longrightarrow> list_all2 (row_for b) es ps"
proof (induction es arbitrary: s ps)
  case (Cons e es)
  obtain p u ps' where p: "pending_row env b e s = (Inr p, u)"
    and rest: "py_map (pending_row env b) es u = (Inr ps', t)" "ps = p # ps'"
    using Cons.prems by (auto simp: py_bind_def py_ret_def split: prod.splits sum.splits)
  from p have "row_for b e p"
    by (auto simp: pending_row_def py_bind_def py_ret_def row_for_def split: prod.splits sum.splits)
  then show ?case using Cons.IH rest by simp
qed (simp add: py_ret_def)

text \<open>
  C18. The list of open withdrawals is complete and true. Whatever the other tasks do to the index
  while the calls are under way (as long as they keep it right), and however far the node lags:
  if the list is returned, then every row of the contract's array below the count the node gave
  that is still open is on it, every item is a row of the array with that row's data, the items
  are in index order without repetition, and the index is left right.
\<close>
theorem pending_list_complete:
  assumes env: "reads_ledger env L" and s: "idx_ok L s"
    and run: "get_all_pending_withdrawals env s = (Inr (ps, b), t)"
  shows "idx_ok L t \<and> sorted_wrt (<) (map pw_index ps)
    \<and> (\<forall>p \<in> set ps. \<exists>r. row_of (L (sh_world t)) (pw_index p) r
        \<and> pw_user_address p = cw_user r \<and> pw_to_address p = cw_to r \<and> pw_amount p = int_text (cw_amount r)
        \<and> pw_token_id p = to_hex (cw_token_id r) \<and> pw_block_number p = cw_block_number r
        \<and> (pw_can_resolve p \<longleftrightarrow> cw_block_number r < b))
    \<and> (\<exists>n w w'. ax_withdrawal_count env w = (Inr n, w')
        \<and> (\<forall>i. 0 \<le> i \<and> i < n \<and> \<not> cw_resolved (L (sh_world t) ! nat i) \<longrightarrow> i \<in> pw_index ` set ps))"
proof -
  obtain u es v where u: "(if ax_sapphire_url env \<noteq> [] then a_await env (ax_block_number env) else py_ret 0) s = (Inr b, u)"
    and v: "unresolved_withdrawal_entries env None u = (Inr es, v)"
    and rows: "py_map (pending_row env b) es v = (Inr ps, t)"
    using run by (auto simp: get_all_pending_withdrawals_def py_bind_def py_ret_def split: prod.splits sum.splits)
  have "keeps (moves_on L s) (if ax_sapphire_url env \<noteq> [] then a_await env (ax_block_number env) else py_ret 0)"
    by (intro keeps_intros steady_calls env)
  from keepsD [OF this moves_on_refl [OF s] u] have uok: "idx_ok L u" by (simp add: moves_on_def)
  obtain n w w' where vok: "idx_ok L v" "sorted_wrt (<) (map we_index es)"
      "\<forall>e \<in> set es. \<exists>r. row_of (L (sh_world v)) (we_index e) r \<and> e = parse_withdrawal (we_index e) r"
    and n: "ax_withdrawal_count env w = (Inr n, w')" "n \<le> int (length (L (sh_world v)))"
      "\<forall>i. 0 \<le> i \<and> i < n \<and> \<not> cw_resolved (L (sh_world v) ! nat i) \<longrightarrow> i \<in> we_index ` set es"
    using unresolved_entries_spec [OF env uok v] by auto
  have "keeps (moves_on L v) (py_map (pending_row env b) es)"
    by (intro keeps_map steady_pending_row env)
  from keepsD [OF this moves_on_refl [OF vok(1)] rows]
  have tok: "idx_ok L t" and le: "ledger_le (L (sh_world v)) (L (sh_world t))" by (auto simp: moves_on_def)
  have all: "list_all2 (row_for b) es ps" by (rule pending_rows [OF rows])
  then have idx: "map pw_index ps = map we_index es"
    by (auto simp: row_for_def list_all2_conv_all_nth intro!: nth_equalityI)
  have "\<exists>r. row_of (L (sh_world t)) (pw_index p) r
        \<and> pw_user_address p = cw_user r \<and> pw_to_address p = cw_to r \<and> pw_amount p = int_text (cw_amount r)
        \<and> pw_token_id p = to_hex (cw_token_id r) \<and> pw_block_number p = cw_block_number r
        \<and> (pw_can_resolve p \<longleftrightarrow> cw_block_number r < b)" if p: "p \<in> set ps" for p
  proof -
    obtain k where k: "k < length ps" "p = ps ! k" using p by (auto simp: in_set_conv_nth)
    let ?e = "es ! k"
    have e: "?e \<in> set es" "row_for b ?e p" using all k by (auto simp: list_all2_conv_all_nth)
    then obtain r where r: "row_of (L (sh_world v)) (we_index ?e) r" "?e = parse_withdrawal (we_index ?e) r"
      using vok(3) by blast
    have f: "f ?e = f (parse_withdrawal (we_index ?e) r)" for f :: "withdrawal_entry \<Rightarrow> 'x"
      using r(2) by (rule arg_cong)
    show ?thesis
      using e(2) row_of_mono [OF r(1) le] f [of we_user_address] f [of we_to_address] f [of we_amount]
        f [of we_token_id] f [of we_block_number]
      by (intro exI [of _ r]) (auto simp: row_for_def parse_withdrawal_def)
  qed
  moreover have "i \<in> pw_index ` set ps"
    if i: "0 \<le> i" "i < n" "\<not> cw_resolved (L (sh_world t) ! nat i)" for i
  proof -
    have "\<not> cw_resolved (L (sh_world v) ! nat i)" using unresolved_before [OF le i(1) _ i(3)] n(2) i(2) by simp
    then have "i \<in> set (map we_index es)" using n(3) i by simp
    then show ?thesis unfolding idx [symmetric] by simp
  qed
  ultimately show ?thesis using tok idx vok(2) n(1) by auto
qed

section \<open>A concrete list\<close>

text \<open>Two withdrawals, the first one resolved, read for the first time.\<close>

definition demo_withdrawal :: contract_withdrawal where
  "demo_withdrawal = \<lparr>cw_user = ''0xU'', cw_to = ''0xT'', cw_amount = 25, cw_block_number = 7,
     cw_token_id = [1], cw_resolved = False, cw_tx_identifier = []\<rparr>"

definition demo_ledger :: "contract_withdrawal list" where
  "demo_ledger = [demo_withdrawal\<lparr>cw_resolved := True\<rparr>, demo_withdrawal]"

definition demo_a_env :: "nat a_env" where
  "demo_a_env = \<lparr>ax_others = (\<lambda>s. s), ax_chain_id = 23295, ax_sapphire_url = ''sap'',
     ax_lock = (\<lambda>w. (Inr (), w)), ax_block_number = (\<lambda>w. (Inr 9, w)),
     ax_withdrawal_count = (\<lambda>w. (Inr 2, w)),
     ax_withdrawals = (\<lambda>is w. (if list_all (\<lambda>i. 0 \<le> i \<and> i < 2) is then Inr (map (\<lambda>i. demo_ledger ! nat i) is)
        else Inl (OtherError ''reverted''), w)),
     ax_tokens = (\<lambda>_ w. (Inr (0, replicate 31 0 @ [1]), w)),
     ax_cache_get = (\<lambda>_ c k. c k), ax_cache_set = (\<lambda>_ k v c. c(k \<mapsto> v)),
     ax_hexbytes = (\<lambda>_. Inr [1]), ax_is_address = (\<lambda>_. True), ax_checksum = Inr\<rparr>"

definition demo_service :: "nat service" where
  "demo_service = \<lparr>sh_world = 0, sh_rpc = (rpc_init [])\<lparr>allow_unverified := True\<rparr>, sh_running = True,
     sh_scanned = 0, sh_unresolved = [], sh_token_contexts = Map.empty, sh_chain_web3 = Map.empty\<rparr>"

lemma demo_reads: "reads_ledger demo_a_env (\<lambda>_. demo_ledger)"
proof -
  have rows: "list_all2 (row_of demo_ledger) is (map (\<lambda>i. demo_ledger ! nat i) is)"
    if "list_all (\<lambda>i. 0 \<le> i \<and> i < 2) is" for "is"
    using that by (auto simp: list_all2_conv_all_nth list_all_length row_of_def demo_ledger_def)
  show ?thesis
    by (auto simp: reads_ledger_def demo_a_env_def rows moves_on_refl split: if_splits) (simp_all add: demo_ledger_def)
qed

lemma demo_amount:
  assumes "row_of demo_ledger i r"
  shows "cw_amount r = 25"
proof -
  have "demo_ledger ! nat i \<in> set demo_ledger" using assms by (intro nth_mem) (auto simp: row_of_def)
  moreover have "\<forall>q \<in> set demo_ledger. cw_amount q = 25" by (simp add: demo_ledger_def demo_withdrawal_def)
  ultimately show ?thesis using assms by (simp add: row_of_def same_request_def)
qed

lemma demo_list: "case fst (get_all_pending_withdrawals demo_a_env demo_service) of Inl _ \<Rightarrow> False
    | Inr (ps, b) \<Rightarrow> map pw_index ps = [1] \<and> map pw_chain_id ps = [Some 1] \<and> b = 9"
  by code_simp

lemma pending_list_complete_witness:
  "case fst (get_all_pending_withdrawals demo_a_env demo_service) of Inl _ \<Rightarrow> False
   | Inr (ps, b) \<Rightarrow> (\<forall>p \<in> set ps. pw_amount p = ''25'')"
proof -
  obtain ps b t where run: "get_all_pending_withdrawals demo_a_env demo_service = (Inr (ps, b), t)"
    using demo_list by (cases "get_all_pending_withdrawals demo_a_env demo_service") (auto split: sum.splits)
  have "idx_ok (\<lambda>_. demo_ledger) demo_service"
    by (simp add: idx_ok_def demo_service_def)
  from pending_list_complete [OF demo_reads this run]
  have "\<forall>p \<in> set ps. pw_amount p = int_text 25" using demo_amount by metis
  moreover have "int_text 25 = ''25''" by code_simp
  ultimately show ?thesis using run by auto
qed

end
