(* ===== verification/Deposit_Verifier.thy ===== *)
theory Deposit_Verifier
  imports Chain_Config Rpc_Identity
begin

text \<open>
  \<^verbatim>\<open>src/services/deposit_verifier.py\<close>: what the service accepts as evidence that a deposit
  arrived. The node behind the chain's client is a parameter (\<open>v_env\<close>), a function on a world of
  any type, so the theorems cover every answer it can give; what it answers has the shape web3
  gives it (a topic, an address or a data field is bytes or a text; a missing key of a log is its
  default). \<open>verify_deposit_sound\<close> lists what a verified deposit is evidence of.
\<close>

section \<open>What a node returns\<close>

datatype hexval = HBytes bytes | HStr string

definition hex_text :: "hexval \<Rightarrow> string" where
  "hex_text v = (case v of HBytes b \<Rightarrow> ''0x'' @ bytes_hex b | HStr s \<Rightarrow> s)"

record log_entry =
  le_topics :: "hexval list"
  le_data :: hexval
  le_address :: hexval
  le_log_index :: int
  le_transaction_hash :: "hexval option"
  le_block_number :: int

record receipt =
  rc_status :: int
  rc_block_number :: int
  rc_logs :: "log_entry list"

record transaction =
  tx_to :: "hexval option"
  tx_value :: int

section \<open>Numbers in logs\<close>

definition int_from_bytes :: "bytes \<Rightarrow> int" where
  "int_from_bytes bs = foldl (\<lambda>acc b. acc * 256 + uint b) 0 bs"

text \<open>
  \<open>int(text, 16)\<close>: white space around, a sign, an optional \<open>0x\<close>, digits with single
  underscores between them; \<open>ValueError\<close> otherwise.
\<close>

fun hex_digits_value :: "string \<Rightarrow> int \<Rightarrow> bool \<Rightarrow> int option" where
  "hex_digits_value [] acc after_digit = (if after_digit then Some acc else None)"
| "hex_digits_value (c # cs) acc after_digit =
     (if c = CHR ''_'' then (if after_digit then hex_digits_value cs acc False else None)
      else case hex_value c of
          Some d \<Rightarrow> hex_digits_value cs (acc * 16 + int d) True
        | None \<Rightarrow> None)"

definition hex_unsigned :: "string \<Rightarrow> int option" where
  "hex_unsigned s =
     (if take 2 s = ''0x'' \<or> take 2 s = ''0X''
      then (let t = drop 2 s in hex_digits_value (if take 1 t = ''_'' then drop 1 t else t) 0 False)
      else hex_digits_value s 0 False)"

definition py_int_16 :: "string \<Rightarrow> exn + int" where
  "py_int_16 text =
     (let s = py_strip text;
          r = (if take 1 s = ''-'' then map_option uminus (hex_unsigned (drop 1 s))
               else if take 1 s = ''+'' then hex_unsigned (drop 1 s)
               else hex_unsigned s)
      in case r of Some i \<Rightarrow> Inr i | None \<Rightarrow> Inl (ValueError ''invalid literal for int() with base 16''))"

definition last_n :: "nat \<Rightarrow> 'a list \<Rightarrow> 'a list" where
  "last_n n xs = drop (length xs - n) xs"

section \<open>The verifier\<close>

record verified_deposit =
  vd_chain_id :: int
  vd_tx_hash :: string
  vd_amount :: int
  vd_is_native :: bool
  vd_token_address :: "string option"
  vd_deposit_index :: int
  vd_block_number :: int

definition verified_deposit_post_init :: "verified_deposit \<Rightarrow> exn + verified_deposit" where
  "verified_deposit_post_init d =
     (if vd_is_native d \<and> vd_token_address d \<noteq> None
      then Inl (ValueError ''Native deposit must have token_address=None'')
      else if \<not> vd_is_native d \<and> (vd_token_address d = None \<or> vd_token_address d = Some [])
      then Inl (ValueError ''ERC20 deposit requires token_address'')
      else Inr d)"

record 'w v_env =
  v_configs :: "(int \<times> chain_config) list"
  v_chain_rpc_urls :: url_dict
  v_rpc_drift :: "'w \<Rightarrow> rpc_state \<Rightarrow> rpc_state"
  v_receipt :: "client \<Rightarrow> string \<Rightarrow> 'w \<Rightarrow> (exn + receipt option) \<times> 'w"
  v_latest_block :: "client \<Rightarrow> 'w \<Rightarrow> (exn + int) \<times> 'w"
  v_transaction :: "client \<Rightarrow> string \<Rightarrow> 'w \<Rightarrow> (exn + transaction) \<times> 'w"
  v_balance_at :: "client \<Rightarrow> string \<Rightarrow> int \<Rightarrow> 'w \<Rightarrow> (exn + int) \<times> 'w"

record 'w v_state =
  v_world :: 'w
  v_rpc :: rpc_state
  v_cache :: "int \<rightharpoonup> client"

definition v_await :: "'w v_env \<Rightarrow> ('w \<Rightarrow> (exn + 'a) \<times> 'w) \<Rightarrow> ('w v_state, 'a) py" where
  "v_await env f = (\<lambda>s. case f (v_world s) of
     (r, w) \<Rightarrow> (r, s\<lparr>v_world := w, v_rpc := v_rpc_drift env w (v_rpc s)\<rparr>))"

definition v_get_web3 :: "'w v_env \<Rightarrow> int \<Rightarrow> ('w v_state, client) py" where
  "v_get_web3 env cid = (\<lambda>s.
     case require_verified_web3 cid (v_chain_rpc_urls env) (v_cache s) (v_rpc s) of
       (r, cache, g) \<Rightarrow> (r, s\<lparr>v_cache := cache, v_rpc := g\<rparr>))"

text \<open>Step 3a: the Transfer events of the receipt that pay the deposit address.\<close>

definition transfer_to :: "log_entry \<Rightarrow> string option" where
  "transfer_to e =
     (if length (le_topics e) < 3 then None
      else if ascii_lower (hex_text (le_topics e ! 0)) \<noteq> ascii_lower TRANSFER_EVENT_TOPIC then None
      else Some (''0x'' @ (case le_topics e ! 2 of
             HBytes b \<Rightarrow> bytes_hex (last_n 20 b) | HStr s \<Rightarrow> last_n 40 s)))"

definition matching_transfers :: "string \<Rightarrow> log_entry list \<Rightarrow> log_entry list" where
  "matching_transfers deposit_addr_lower logs =
     filter (\<lambda>e. case transfer_to e of None \<Rightarrow> False
                 | Some to_addr \<Rightarrow> ascii_lower to_addr = deposit_addr_lower) logs"

text \<open>The event the claim is about: the only one, or the one with the claimed log index.\<close>

definition select_transfer :: "int \<Rightarrow> log_entry list \<Rightarrow> exn + log_entry" where
  "select_transfer log_index ms =
     (case ms of
        [e] \<Rightarrow> Inr e
      | _ \<Rightarrow> (case filter (\<lambda>e. le_log_index e = log_index) ms of
                [] \<Rightarrow> Inl (ValueError ''No Transfer event with that logIndex'')
              | e # _ \<Rightarrow> Inr e))"

definition log_amount :: "hexval \<Rightarrow> exn + int" where
  "log_amount data =
     (case data of
        HBytes b \<Rightarrow> Inr (int_from_bytes (take 32 b))
      | HStr s \<Rightarrow> if s = [] then Inr 0 else py_int_16 s)"

definition erc20_deposit ::
    "int \<Rightarrow> string \<Rightarrow> int \<Rightarrow> int \<Rightarrow> int \<Rightarrow> log_entry list \<Rightarrow> ('s, verified_deposit) py" where
  "erc20_deposit cid tx_hash expected_amount log_index tx_block ms =
     py_bind (py_lift (select_transfer log_index ms)) (\<lambda>e.
     py_bind (py_lift (log_amount (le_data e))) (\<lambda>on_chain_amount.
     if on_chain_amount < expected_amount
     then py_raise (ValueError ''On-chain Transfer amount is less than claimed amount'')
     else py_lift (verified_deposit_post_init
       \<lparr>vd_chain_id = cid, vd_tx_hash = tx_hash, vd_amount = expected_amount,
        vd_is_native = False, vd_token_address = Some (hex_text (le_address e)),
        vd_deposit_index = le_log_index e, vd_block_number = tx_block\<rparr>)))"

definition native_result :: "int \<Rightarrow> string \<Rightarrow> int \<Rightarrow> int \<Rightarrow> exn + verified_deposit" where
  "native_result cid tx_hash expected_amount tx_block =
     verified_deposit_post_init
       \<lparr>vd_chain_id = cid, vd_tx_hash = tx_hash, vd_amount = expected_amount,
        vd_is_native = True, vd_token_address = None, vd_deposit_index = 0,
        vd_block_number = tx_block\<rparr>"

text \<open>Step 3b: the direct transfer, then the balance of the address around the block.\<close>

definition native_deposit ::
    "'w v_env \<Rightarrow> client \<Rightarrow> int \<Rightarrow> string \<Rightarrow> string \<Rightarrow> int \<Rightarrow> int \<Rightarrow> ('w v_state, verified_deposit) py" where
  "native_deposit env w3 cid tx_hash deposit_address expected_amount tx_block =
     py_bind (v_await env (v_transaction env w3 tx_hash)) (\<lambda>tx.
     let to_text = (case tx_to tx of None \<Rightarrow> [] | Some v \<Rightarrow> hex_text v) in
     if to_text \<noteq> [] \<and> ascii_lower to_text = ascii_lower deposit_address \<and> tx_value tx > 0 then
       (if tx_value tx < expected_amount
        then py_raise (ValueError ''On-chain tx value is less than claimed amount'')
        else py_lift (native_result cid tx_hash expected_amount tx_block))
     else
       py_bind (v_await env (v_balance_at env w3 deposit_address (tx_block - 1))) (\<lambda>balance_before.
       py_bind (v_await env (v_balance_at env w3 deposit_address tx_block)) (\<lambda>balance_after.
       if balance_after - balance_before \<ge> expected_amount
       then py_lift (native_result cid tx_hash expected_amount tx_block)
       else py_raise (ValueError ''No deposit found''))))"

definition verify_deposit ::
    "'w v_env \<Rightarrow> int \<Rightarrow> string \<Rightarrow> string \<Rightarrow> int \<Rightarrow> int \<Rightarrow> ('w v_state, verified_deposit) py" where
  "verify_deposit env cid tx_hash deposit_address expected_amount log_index =
     py_bind (v_get_web3 env cid) (\<lambda>w3.
     py_bind (v_await env (v_receipt env w3 tx_hash)) (\<lambda>found.
     case found of
       None \<Rightarrow> py_raise (ValueError ''Transaction not found'')
     | Some rc \<Rightarrow>
         if rc_status rc \<noteq> 1 then py_raise (ValueError ''Transaction reverted'')
         else
           py_bind (v_await env (v_latest_block env w3)) (\<lambda>latest.
           if latest - rc_block_number rc < get_finality_depth (v_configs env) cid
           then py_raise (ValueError ''Insufficient finality'')
           else
             let ms = matching_transfers (ascii_lower deposit_address) (rc_logs rc) in
             if ms \<noteq> []
             then erc20_deposit cid tx_hash expected_amount log_index (rc_block_number rc) ms
             else if log_index = 0
             then native_deposit env w3 cid tx_hash deposit_address expected_amount (rc_block_number rc)
             else py_raise (ValueError ''No deposit found''))))"

section \<open>Soundness\<close>

text \<open>What an ERC-20 event, and what a native transfer, is evidence of.\<close>

definition erc20_evidence :: "log_entry list \<Rightarrow> string \<Rightarrow> int \<Rightarrow> verified_deposit \<Rightarrow> bool" where
  "erc20_evidence logs deposit_address log_index d \<longleftrightarrow>
     (\<exists>e \<in> set logs. \<exists>to_addr v. transfer_to e = Some to_addr
        \<and> ascii_lower to_addr = ascii_lower deposit_address
        \<and> log_amount (le_data e) = Inr v \<and> v \<ge> vd_amount d
        \<and> vd_token_address d = Some (hex_text (le_address e)) \<and> hex_text (le_address e) \<noteq> []
        \<and> vd_deposit_index d = le_log_index e
        \<and> (le_log_index e = log_index
           \<or> matching_transfers (ascii_lower deposit_address) logs = [e]))"

definition native_evidence :: "'w v_env \<Rightarrow> client \<Rightarrow> string \<Rightarrow> int \<Rightarrow> verified_deposit \<Rightarrow> bool" where
  "native_evidence env w3 deposit_address tx_block d \<longleftrightarrow>
     (\<exists>w w' tx v. v_transaction env w3 (vd_tx_hash d) w = (Inr tx, w') \<and> tx_to tx = Some v
        \<and> ascii_lower (hex_text v) = ascii_lower deposit_address
        \<and> tx_value tx > 0 \<and> tx_value tx \<ge> vd_amount d)
   \<or> (\<exists>w w' u u' before after. v_balance_at env w3 deposit_address (tx_block - 1) w = (Inr before, w')
        \<and> v_balance_at env w3 deposit_address tx_block u = (Inr after, u')
        \<and> after - before \<ge> vd_amount d)"

lemma v_await_run: "v_await env f s = (r, t) \<longleftrightarrow>
    (\<exists>w. f (v_world s) = (r, w) \<and> t = s\<lparr>v_world := w, v_rpc := v_rpc_drift env w (v_rpc s)\<rparr>)"
  by (auto simp: v_await_def split: prod.splits)

lemma filter_head: "filter P xs = y # ys \<Longrightarrow> y \<in> set xs \<and> P y"
  by (metis list.set_intros(1) mem_Collect_eq set_filter)

lemma select_transfer_Inr:
  "select_transfer i ms = Inr e \<Longrightarrow> e \<in> set ms \<and> (le_log_index e = i \<or> ms = [e])"
  unfolding select_transfer_def by (auto simp del: filter.simps split: list.splits dest!: filter_head)

lemma erc20_deposit_Inr:
  assumes "erc20_deposit cid h amt i b ms s = (Inr d, t)"
  shows "t = s \<and> (\<exists>e v. select_transfer i ms = Inr e \<and> log_amount (le_data e) = Inr v \<and> v \<ge> amt
    \<and> hex_text (le_address e) \<noteq> []
    \<and> d = \<lparr>vd_chain_id = cid, vd_tx_hash = h, vd_amount = amt, vd_is_native = False,
        vd_token_address = Some (hex_text (le_address e)), vd_deposit_index = le_log_index e,
        vd_block_number = b\<rparr>)"
  using assms
  by (auto simp: erc20_deposit_def py_bind_Inr py_lift_def py_raise_def verified_deposit_post_init_def
      split: if_splits)

lemma native_deposit_Inr:
  assumes "native_deposit env w3 cid h addr amt b s = (Inr d, t)"
  shows "d = \<lparr>vd_chain_id = cid, vd_tx_hash = h, vd_amount = amt, vd_is_native = True,
      vd_token_address = None, vd_deposit_index = 0, vd_block_number = b\<rparr>
    \<and> native_evidence env w3 addr b d"
proof -
  obtain tx w where tx: "v_transaction env w3 h (v_world s) = (Inr tx, w)"
    using assms by (auto simp: native_deposit_def py_bind_Inr v_await_run)
  let ?d = "\<lparr>vd_chain_id = cid, vd_tx_hash = h, vd_amount = amt, vd_is_native = True,
      vd_token_address = None, vd_deposit_index = 0, vd_block_number = b\<rparr>"
  let ?to = "case tx_to tx of None \<Rightarrow> [] | Some v \<Rightarrow> hex_text v"
  show ?thesis
  proof (cases "?to \<noteq> [] \<and> ascii_lower ?to = ascii_lower addr \<and> tx_value tx > 0")
    case True
    then obtain v where v: "tx_to tx = Some v" "ascii_lower (hex_text v) = ascii_lower addr"
      by (auto split: option.splits)
    have "d = ?d \<and> amt \<le> tx_value tx"
      using assms tx True
      by (auto simp: native_deposit_def py_bind_Inr v_await_run native_result_def py_lift_def
          py_raise_def verified_deposit_post_init_def Let_def split: if_splits)
    then show ?thesis using tx v True unfolding native_evidence_def by fastforce
  next
    case False
    then have "\<exists>u w' u' x y. d = ?d \<and> v_balance_at env w3 addr (b - 1) u = (Inr x, w')
        \<and> v_balance_at env w3 addr b w' = (Inr y, u') \<and> y - x \<ge> amt"
      using assms tx
      by (auto simp: native_deposit_def py_bind_Inr v_await_run native_result_def py_lift_def
          py_raise_def verified_deposit_post_init_def Let_def split: if_splits) blast+
    then show ?thesis unfolding native_evidence_def by fastforce
  qed
qed

text \<open>
  C11. What a verified deposit is evidence of. If \<open>verify_deposit\<close> returns, then the client came
  from the identity gate, the node reported the transaction with status 1, enough blocks lie on
  top of its block for the chain's finality depth, the amount credited is exactly the amount
  claimed, and the evidence covers it: a Transfer event of the receipt to the deposit address of
  at least that amount, under the log index the deposit is filed under (the claimed one, unless
  it is the only one), or, for a native deposit, which is only looked for when log index 0 is
  claimed and no Transfer event pays the address, the transaction's own value or the balance
  gained over its block.
\<close>
theorem verify_deposit_sound:
  assumes "verify_deposit env cid h addr amt i s = (Inr d, t)"
  shows "\<exists>w3 s' rc latest w w' u. v_get_web3 env cid s = (Inr w3, s')
    \<and> v_receipt env w3 h (v_world s) = (Inr (Some rc), w) \<and> rc_status rc = 1
    \<and> v_latest_block env w3 w = (Inr latest, w')
    \<and> latest - rc_block_number rc \<ge> get_finality_depth (v_configs env) cid
    \<and> vd_chain_id d = cid \<and> vd_tx_hash d = h \<and> vd_amount d = amt
    \<and> vd_block_number d = rc_block_number rc
    \<and> (if vd_is_native d
       then i = 0 \<and> vd_deposit_index d = 0 \<and> vd_token_address d = None
          \<and> matching_transfers (ascii_lower addr) (rc_logs rc) = []
          \<and> native_evidence env w3 addr (rc_block_number rc) d
       else erc20_evidence (rc_logs rc) addr i d)"
proof -
  obtain w3 s' where w3: "v_get_web3 env cid s = (Inr w3, s')"
    using assms by (auto simp: verify_deposit_def py_bind_Inr)
  then have world: "v_world s' = v_world s"
    by (auto simp: v_get_web3_def split: prod.splits)
  obtain rc w where rc: "v_receipt env w3 h (v_world s) = (Inr (Some rc), w)" "rc_status rc = 1"
    using assms w3 world
    by (auto simp: verify_deposit_def py_bind_Inr v_await_run py_raise_def split: option.splits if_splits)
  obtain latest w' s'' where latest: "v_latest_block env w3 w = (Inr latest, w')"
      "latest - rc_block_number rc \<ge> get_finality_depth (v_configs env) cid"
    and rest: "(let ms = matching_transfers (ascii_lower addr) (rc_logs rc) in
             if ms \<noteq> [] then erc20_deposit cid h amt i (rc_block_number rc) ms
             else if i = 0 then native_deposit env w3 cid h addr amt (rc_block_number rc)
             else py_raise (ValueError ''No deposit found'')) s'' = (Inr d, t)"
    using assms w3 world rc
    by (auto simp: verify_deposit_def py_bind_Inr v_await_run py_raise_def [of "ValueError ''Insufficient finality''"]
        split: if_splits)
  let ?ms = "matching_transfers (ascii_lower addr) (rc_logs rc)"
  show ?thesis
  proof (cases "?ms = []")
    case True
    then have "i = 0" "native_deposit env w3 cid h addr amt (rc_block_number rc) s'' = (Inr d, t)"
      using rest by (auto simp: py_raise_def split: if_splits)
    with native_deposit_Inr [OF this(2)] True w3 rc latest show ?thesis by auto
  next
    case False
    then have "erc20_deposit cid h amt i (rc_block_number rc) ?ms s'' = (Inr d, t)"
      using rest by simp
    from erc20_deposit_Inr [OF this] obtain e v where e: "select_transfer i ?ms = Inr e"
        "log_amount (le_data e) = Inr v" "v \<ge> amt" "hex_text (le_address e) \<noteq> []"
        "d = \<lparr>vd_chain_id = cid, vd_tx_hash = h, vd_amount = amt, vd_is_native = False,
          vd_token_address = Some (hex_text (le_address e)), vd_deposit_index = le_log_index e,
          vd_block_number = rc_block_number rc\<rparr>" by blast
    moreover obtain to_addr where "e \<in> set (rc_logs rc)" "transfer_to e = Some to_addr"
        "ascii_lower to_addr = ascii_lower addr" "le_log_index e = i \<or> ?ms = [e]"
      using select_transfer_Inr [OF e(1)]
      by (auto simp: matching_transfers_def split: option.splits)
    ultimately have "erc20_evidence (rc_logs rc) addr i d"
      unfolding erc20_evidence_def by (intro bexI [of _ e]) auto
    with e(5) w3 rc latest show ?thesis by auto
  qed
qed

section \<open>A concrete deposit\<close>

text \<open>One Transfer of 10000000 units to \<open>0x00..0a\<close>, as texts, forty blocks deep on Ethereum.\<close>

definition demo_address :: string where
  "demo_address = ''0x'' @ replicate 39 (CHR ''0'') @ ''A''"

definition demo_log :: log_entry where
  "demo_log = \<lparr>le_topics = [HStr TRANSFER_EVENT_TOPIC, HStr ''0x00'',
       HStr (''0x'' @ replicate 63 (CHR ''0'') @ ''a'')],
     le_data = HStr ''0x989680'', le_address = HStr ''0xToken'', le_log_index = 3,
     le_transaction_hash = Some (HStr ''0xabc''), le_block_number = 60\<rparr>"

definition demo_v_env :: "int v_env" where
  "demo_v_env = \<lparr>v_configs = map (\<lambda>c. (cc_chain_id c, c)) chain_definitions,
     v_chain_rpc_urls = [(1, ''eth'')], v_rpc_drift = (\<lambda>_ g. g),
     v_receipt = (\<lambda>_ _ w. (Inr (Some \<lparr>rc_status = 1, rc_block_number = 60, rc_logs = [demo_log]\<rparr>), w)),
     v_latest_block = (\<lambda>_ w. (Inr 100, w)),
     v_transaction = (\<lambda>_ _ w. (Inr \<lparr>tx_to = None, tx_value = 0\<rparr>, w)),
     v_balance_at = (\<lambda>_ _ _ w. (Inr 0, w))\<rparr>"

definition demo_v_state :: "int v_state" where
  "demo_v_state = \<lparr>v_world = 0,
     v_rpc = (rpc_init [(1, ''eth'')])\<lparr>verified_urls := [(1, ''eth'')]\<rparr>, v_cache = Map.empty\<rparr>"

definition demo_verified :: verified_deposit where
  "demo_verified = \<lparr>vd_chain_id = 1, vd_tx_hash = ''0xabc'', vd_amount = 5000000, vd_is_native = False,
     vd_token_address = Some ''0xToken'', vd_deposit_index = 3, vd_block_number = 60\<rparr>"

lemma demo_verify: "fst (verify_deposit demo_v_env 1 ''0xabc'' demo_address 5000000 0 demo_v_state) = Inr demo_verified"
  by code_simp

lemma verify_deposit_sound_witness:
  "erc20_evidence [demo_log] demo_address 0 demo_verified"
proof -
  obtain t where run: "verify_deposit demo_v_env 1 ''0xabc'' demo_address 5000000 0 demo_v_state = (Inr demo_verified, t)"
    using demo_verify by (metis fst_conv surj_pair)
  show ?thesis
    using verify_deposit_sound [OF run] by (auto simp: demo_v_env_def demo_verified_def)
qed

end
