(* ===== verification/Withdrawal_Processor.thy ===== *)
theory Withdrawal_Processor
  imports Withdrawal_Index Deposit_Verifier
begin

text \<open>
  \<^verbatim>\<open>src/services/withdrawal_processor.py\<close>, with the parts of the accounting service it calls: the
  nonce gate of a destination chain, the proof that a withdrawal was paid, the catch-up of missing
  broadcasts, the grouping of pending withdrawals, the processing of one chain and the polling loop.

  The contract reads, the nodes, ROFL, the clock and the sleeps are parameters (\<open>w_env\<close>); times are
  milliseconds. What other tasks do during an \<open>await\<close> is \<open>ax_others\<close>; it reaches the shared
  service, not the processor's own fields. \<open>wp_trace\<close> is a ghost: what the processor submitted,
  signed, handed to a node, and the receipts it read.
\<close>

section \<open>State and environment\<close>

datatype wevent =
    WSubmit int
  | WSigned int hexval
  | WOut int bytes
  | WAccepted int bytes string
  | WReceipt int string int

record 'w wproc =
  wp_service :: "'w service"
  wp_high_water :: "int \<rightharpoonup> int"
  wp_last_rpc_call :: int
  wp_destination_web3 :: "int \<rightharpoonup> client"
  wp_evm_address :: "string option"
  wp_divergence_reported :: "int set"
  wp_stuck_cycles :: "int \<rightharpoonup> int"
  wp_last_broadcast :: "int \<times> int \<rightharpoonup> string"
  wp_trace :: "wevent list"

type_synonym ('w, 'a) call = "'w \<Rightarrow> (exn + 'a) \<times> 'w"

record 'w w_env =
  wx_acc :: "'w a_env"
  wx_now :: "'w \<Rightarrow> int"
  wx_sleep :: "int \<Rightarrow> ('w, unit) call"
  wx_nonces :: "int \<Rightarrow> ('w, int) call"
  wx_evm_address :: "('w, string) call"
  wx_withdrawal :: "int \<Rightarrow> ('w, contract_withdrawal) call"
  wx_resolve_call :: "int \<Rightarrow> ('w, hexval) call"
  wx_submit_resolve :: "int \<Rightarrow> ('w, unit) call"
  wx_transaction_count :: "client \<Rightarrow> string \<Rightarrow> string \<Rightarrow> ('w, int) call"
  wx_receipt_status :: "client \<Rightarrow> string \<Rightarrow> ('w, int option) call"
  wx_transaction :: "client \<Rightarrow> string \<Rightarrow> ('w, unit) call"
  wx_send_raw :: "client \<Rightarrow> bytes \<Rightarrow> ('w, bytes) call"
  wx_keccak :: "bytes \<Rightarrow> bytes"
  wx_decode_uint64 :: "bytes \<Rightarrow> exn + int"
  wx_resolution_timeout :: nat
  wx_poll_interval :: int

definition on_service :: "('w service, 'a) py \<Rightarrow> ('w wproc, 'a) py" where
  "on_service m = (\<lambda>s. case m (wp_service s) of (r, v) \<Rightarrow> (r, s\<lparr>wp_service := v\<rparr>))"

definition w_await :: "'w w_env \<Rightarrow> ('w, 'a) call \<Rightarrow> ('w wproc, 'a) py" where
  "w_await env f = on_service (a_await (wx_acc env) f)"

definition w_emit :: "wevent \<Rightarrow> ('w wproc, unit) py" where
  "w_emit e = py_modify (\<lambda>s. s\<lparr>wp_trace := wp_trace s @ [e]\<rparr>)"

definition w_now :: "'w w_env \<Rightarrow> ('w wproc, int) py" where
  "w_now env = py_bind py_get (\<lambda>s. py_ret (wx_now env (sh_world (wp_service s))))"

section \<open>Calls\<close>

definition MIN_RPC_INTERVAL :: int where "MIN_RPC_INTERVAL = 100"

text \<open>The attempts of a call: \<open>n\<close> retries are left, the next delay is \<open>1000 * 2 ^ k\<close>.\<close>

fun attempts :: "'w w_env \<Rightarrow> ('w wproc, 'a) py \<Rightarrow> nat \<Rightarrow> nat \<Rightarrow> ('w wproc, 'a) py" where
  "attempts env m n k =
     py_bind (w_now env) (\<lambda>now.
     py_then (py_modify (\<lambda>s. s\<lparr>wp_last_rpc_call := now\<rparr>))
     (case n of
        0 \<Rightarrow> m
      | Suc n' \<Rightarrow> py_catch m (\<lambda>_. py_then (w_await env (wx_sleep env (1000 * 2 ^ k))) (attempts env m n' (k + 1)))))"

declare attempts.simps [simp del]

definition rate_limited_call :: "'w w_env \<Rightarrow> ('w wproc, 'a) py \<Rightarrow> ('w wproc, 'a) py" where
  "rate_limited_call env m =
     py_bind (w_now env) (\<lambda>now.
     py_bind py_get (\<lambda>s.
     py_then (if now - wp_last_rpc_call s < MIN_RPC_INTERVAL
              then w_await env (wx_sleep env (MIN_RPC_INTERVAL - (now - wp_last_rpc_call s))) else py_ret ())
     (attempts env m 4 0)))"

definition get_destination_web3 :: "int \<Rightarrow> ('w wproc, client) py" where
  "get_destination_web3 cid = (\<lambda>s.
     let v = wp_service s in
     case require_verified_web3 cid (settings_chain_rpc_urls (sh_rpc v)) (wp_destination_web3 s) (sh_rpc v) of
       (r, cache, g) \<Rightarrow> (r, s\<lparr>wp_destination_web3 := cache, wp_service := v\<lparr>sh_rpc := g\<rparr>\<rparr>))"

definition sapphire_contract :: "'w w_env \<Rightarrow> ('w wproc, unit) py" where
  "sapphire_contract env = on_service (require_verified_sapphire (wx_acc env))"

definition get_evm_address :: "'w w_env \<Rightarrow> ('w wproc, string) py" where
  "get_evm_address env = py_bind py_get (\<lambda>s.
     case wp_evm_address s of
       Some a \<Rightarrow> py_ret a
     | None \<Rightarrow>
         py_then (sapphire_contract env)
         (py_bind (rate_limited_call env (w_await env (wx_evm_address env))) (\<lambda>a.
          py_then (py_modify (\<lambda>s. s\<lparr>wp_evm_address := Some a\<rparr>)) (py_ret a))))"

text \<open>\<open>AccountingContractService._as_raw_tx_bytes\<close> and \<open>_send_raw_transaction\<close>.\<close>

definition ensure_hex :: "string \<Rightarrow> string" where
  "ensure_hex v = (if take 2 v = ''0x'' then v else ''0x'' @ v)"

definition as_raw_tx_bytes :: "'w w_env \<Rightarrow> hexval \<Rightarrow> exn + bytes" where
  "as_raw_tx_bytes env v = (case v of HBytes b \<Rightarrow> Inr b | HStr s \<Rightarrow> ax_hexbytes (wx_acc env) (ensure_hex s))"

definition get_chain_web3 :: "int \<Rightarrow> ('w service, client) py" where
  "get_chain_web3 cid = (\<lambda>v.
     case require_verified_web3 cid (settings_chain_rpc_urls (sh_rpc v)) (sh_chain_web3 v) (sh_rpc v) of
       (r, cache, g) \<Rightarrow> (r, v\<lparr>sh_chain_web3 := cache, sh_rpc := g\<rparr>))"

definition send_raw_transaction :: "'w w_env \<Rightarrow> int \<Rightarrow> hexval \<Rightarrow> ('w wproc, string) py" where
  "send_raw_transaction env cid raw_tx =
     py_bind (on_service (get_chain_web3 cid)) (\<lambda>w3.
     py_bind (py_lift (as_raw_tx_bytes env raw_tx)) (\<lambda>raw.
     py_then (w_emit (WOut cid raw))
     (py_bind (w_await env (wx_send_raw env w3 raw)) (\<lambda>h.
      py_then (w_emit (WAccepted cid raw (bytes_hex h))) (py_ret (bytes_hex h))))))"

definition resolve_withdrawal_call :: "'w w_env \<Rightarrow> int \<Rightarrow> ('w wproc, hexval) py" where
  "resolve_withdrawal_call env i =
     py_bind (w_await env (wx_resolve_call env i)) (\<lambda>x. py_then (w_emit (WSigned i x)) (py_ret x))"

definition submit_resolve :: "'w w_env \<Rightarrow> int \<Rightarrow> ('w wproc, unit) py" where
  "submit_resolve env i = py_then (w_emit (WSubmit i)) (w_await env (wx_submit_resolve env i))"

section \<open>The nonce gate\<close>

definition track_stuck_nonce :: "int \<Rightarrow> int \<Rightarrow> int \<Rightarrow> int \<Rightarrow> 'w wproc \<Rightarrow> 'w wproc" where
  "track_stuck_nonce cid contract_next pending latest s =
     (if \<not> (pending > latest \<and> contract_next > latest)
      then s\<lparr>wp_stuck_cycles := (wp_stuck_cycles s)(cid := None)\<rparr>
      else s\<lparr>wp_stuck_cycles := (wp_stuck_cycles s)(cid \<mapsto>
             (case wp_stuck_cycles s cid of None \<Rightarrow> 0 | Some n \<Rightarrow> n) + 1)\<rparr>)"

definition chain_nonce_state :: "'w w_env \<Rightarrow> int \<Rightarrow> ('w wproc, (int \<times> int) option) py" where
  "chain_nonce_state env cid =
     py_then (sapphire_contract env)
     (py_bind (rate_limited_call env (w_await env (wx_nonces env cid))) (\<lambda>contract_next.
      py_bind (get_evm_address env) (\<lambda>addr.
      py_bind (get_destination_web3 cid) (\<lambda>w3.
      py_bind (rate_limited_call env (w_await env (wx_transaction_count env w3 addr ''pending''))) (\<lambda>pending.
      py_bind (rate_limited_call env (w_await env (wx_transaction_count env w3 addr ''latest''))) (\<lambda>latest.
      if contract_next \<ge> pending then
        py_then (py_modify (\<lambda>s. s\<lparr>wp_divergence_reported := wp_divergence_reported s - {cid}\<rparr>))
        (py_then (py_modify (track_stuck_nonce cid contract_next pending latest))
        (py_ret (Some (contract_next, latest))))
      else
        py_then (py_modify (\<lambda>s. s\<lparr>wp_divergence_reported := insert cid (wp_divergence_reported s)\<rparr>))
        (py_ret None)))))))"

section \<open>Proof of payment\<close>

definition expected_tx_hash :: "'w w_env \<Rightarrow> hexval \<Rightarrow> exn + string" where
  "expected_tx_hash env signed_tx = map_sum id (\<lambda>raw. to_hex (wx_keccak env raw)) (as_raw_tx_bytes env signed_tx)"

definition remember_broadcast :: "'w w_env \<Rightarrow> int \<Rightarrow> int \<Rightarrow> string \<Rightarrow> ('w wproc, unit) py" where
  "remember_broadcast env cid i tx_hash =
     py_bind (py_lift (ax_hexbytes (wx_acc env) tx_hash)) (\<lambda>b.
     py_modify (\<lambda>s. s\<lparr>wp_last_broadcast := (wp_last_broadcast s)((cid, i) \<mapsto> to_hex b)\<rparr>))"

definition not_found_is_none :: "('w wproc, 'a option) py \<Rightarrow> ('w wproc, 'a option) py" where
  "not_found_is_none m = py_try m (\<lambda>e. case e of TransactionNotFound _ \<Rightarrow> py_ret None | _ \<Rightarrow> py_raise e)"

definition fetch_receipt :: "'w w_env \<Rightarrow> int \<Rightarrow> string \<Rightarrow> ('w wproc, int option) py" where
  "fetch_receipt env cid tx_hash =
     py_bind (get_destination_web3 cid) (\<lambda>w3.
     py_catch
       (py_bind (rate_limited_call env (not_found_is_none (w_await env (wx_receipt_status env w3 tx_hash)))) (\<lambda>r.
        py_then (case r of None \<Rightarrow> py_ret () | Some st \<Rightarrow> w_emit (WReceipt cid tx_hash st)) (py_ret r)))
       (\<lambda>_. py_ret None))"

datatype verdict = Paid string | Reverted | Unmined

fun check_candidates :: "'w w_env \<Rightarrow> int \<Rightarrow> string list \<Rightarrow> ('w wproc, verdict) py" where
  "check_candidates env cid [] = py_ret Unmined"
| "check_candidates env cid (h # hs) =
     py_bind (fetch_receipt env cid h) (\<lambda>r.
     case r of
       None \<Rightarrow> check_candidates env cid hs
     | Some st \<Rightarrow> if st = 1 then py_ret (Paid h) else py_ret Reverted)"

definition find_broadcast_tx :: "'w w_env \<Rightarrow> int \<Rightarrow> int \<Rightarrow> hexval \<Rightarrow> ('w wproc, string option) py" where
  "find_broadcast_tx env cid i signed_tx =
     py_bind (py_lift (expected_tx_hash env signed_tx)) (\<lambda>expected.
     py_bind py_get (\<lambda>s.
     let remembered = wp_last_broadcast s (cid, i);
         candidates = (case remembered of None \<Rightarrow> [] | Some h \<Rightarrow> [h])
           @ (if Some expected \<noteq> remembered then [expected] else [])
     in
     py_bind (check_candidates env cid candidates) (\<lambda>v.
     case v of
       Paid h \<Rightarrow> py_ret (Some h)
     | Reverted \<Rightarrow> py_ret None
     | Unmined \<Rightarrow>
         py_bind (get_destination_web3 cid) (\<lambda>w3.
         py_then
           (py_catch (py_then (rate_limited_call env
              (not_found_is_none (py_bind (w_await env (wx_transaction env w3 expected)) (\<lambda>x. py_ret (Some x)))))
              (py_ret ())) (\<lambda>_. py_ret ()))
           (py_ret None)))))"

section \<open>Catch-up\<close>

text \<open>\<open>try: x = ... except Exception: <log, no value>\<close>.\<close>

definition attempt :: "('w wproc, 'a) py \<Rightarrow> ('w wproc, 'a option) py" where
  "attempt m = py_catch (py_bind m (\<lambda>x. py_ret (Some x))) (\<lambda>_. py_ret None)"

definition rebroadcast :: "'w w_env \<Rightarrow> int \<Rightarrow> int \<Rightarrow> ('w wproc, bool) py" where
  "rebroadcast env cid i =
     py_bind (rate_limited_call env (resolve_withdrawal_call env i)) (\<lambda>signed_tx.
     py_catch
       (py_bind (rate_limited_call env (send_raw_transaction env cid signed_tx)) (\<lambda>h.
        py_then (remember_broadcast env cid i h) (py_ret True)))
       (\<lambda>_. py_bind (find_broadcast_tx env cid i signed_tx) (\<lambda>b. py_ret (b \<noteq> None))))"

fun scan_missing :: "'w w_env \<Rightarrow> int \<Rightarrow> int list \<Rightarrow> int list \<Rightarrow> int list \<Rightarrow> ('w wproc, unit) py" where
  "scan_missing env cid targets [] found = py_ret ()"
| "scan_missing env cid targets (i # is) found =
     (if length found \<ge> length targets then py_ret ()
      else
        py_bind (attempt (rate_limited_call env (w_await env (wx_withdrawal env i)))) (\<lambda>row.
        case row of
          None \<Rightarrow> scan_missing env cid targets is found
        | Some r \<Rightarrow>
            if \<not> cw_resolved r then scan_missing env cid targets is found
            else if length (cw_tx_identifier r) < 32 then scan_missing env cid targets is found
            else
              py_bind (py_lift (wx_decode_uint64 env (cw_tx_identifier r))) (\<lambda>nonce.
              if nonce \<notin> set targets then scan_missing env cid targets is found
              else
                py_bind (attempt (on_service (get_token_context (wx_acc env) (cw_token_id r)))) (\<lambda>ctx.
                if (case ctx of None \<Rightarrow> 0 | Some c \<Rightarrow> tc_chain_id c) \<noteq> cid
                then scan_missing env cid targets is found
                else
                  py_bind (rebroadcast env cid i) (\<lambda>ok.
                  scan_missing env cid targets is (if ok then List.insert nonce found else found))))))"

definition broadcast_missing_for_chain :: "'w w_env \<Rightarrow> int \<Rightarrow> int list \<Rightarrow> ('w wproc, unit) py" where
  "broadcast_missing_for_chain env cid targets =
     (if targets = [] then py_ret ()
      else
        py_then (on_service (get_reader_contract (wx_acc env)))
        (py_bind (attempt (rate_limited_call env (w_await env (ax_withdrawal_count (wx_acc env))))) (\<lambda>n.
         case n of
           None \<Rightarrow> py_ret ()
         | Some n \<Rightarrow> scan_missing env cid targets (rev [0 .. n - 1]) [])))"

definition catch_up_chain :: "'w w_env \<Rightarrow> int \<Rightarrow> ('w wproc, unit) py" where
  "catch_up_chain env cid =
     py_bind (chain_nonce_state env cid) (\<lambda>st.
     case st of
       None \<Rightarrow> py_ret ()
     | Some (contract_next, latest) \<Rightarrow>
         if contract_next = latest then py_ret ()
         else broadcast_missing_for_chain env cid [latest .. contract_next - 1])"

definition catch_up_missing_broadcasts :: "'w w_env \<Rightarrow> int list option \<Rightarrow> ('w wproc, unit) py" where
  "catch_up_missing_broadcasts env chain_ids =
     py_bind py_get (\<lambda>s.
     py_for (case chain_ids of
               None \<Rightarrow> map fst (settings_chain_rpc_urls (sh_rpc (wp_service s)))
             | Some cs \<Rightarrow> cs)
       (\<lambda>cid. py_catch (catch_up_chain env cid) (\<lambda>_. py_ret ())))"

section \<open>Pending withdrawals\<close>

definition eligible :: "(int \<rightharpoonup> int) \<Rightarrow> int \<Rightarrow> pending_withdrawal \<Rightarrow> bool" where
  "eligible high_water current_block w \<longleftrightarrow>
     current_block - pw_block_number w \<ge> 1
   \<and> pw_index w > (case pw_chain_id w of None \<Rightarrow> -1
        | Some c \<Rightarrow> (case high_water c of None \<Rightarrow> -1 | Some n \<Rightarrow> n))"

definition add_to_chain ::
    "pending_withdrawal \<Rightarrow> (int \<times> pending_withdrawal list) list \<Rightarrow> (int \<times> pending_withdrawal list) list" where
  "add_to_chain w d =
     (case pw_chain_id w of
        None \<Rightarrow> d
      | Some c \<Rightarrow> if c = 0 then d
          else AList.update c ((case map_of d c of None \<Rightarrow> [] | Some ws \<Rightarrow> ws) @ [w]) d)"

definition group_pending ::
    "(int \<rightharpoonup> int) \<Rightarrow> pending_withdrawal list \<Rightarrow> int \<Rightarrow> (int \<times> pending_withdrawal list) list" where
  "group_pending high_water pending current_block =
     map (\<lambda>(c, ws). (c, sort_key pw_index ws))
       (fold add_to_chain (filter (eligible high_water current_block) pending) [])"

definition get_pending_by_chain :: "'w w_env \<Rightarrow> ('w wproc, (int \<times> pending_withdrawal list) list) py" where
  "get_pending_by_chain env =
     py_catch
       (py_bind (rate_limited_call env (on_service (get_all_pending_withdrawals (wx_acc env)))) (\<lambda>(pending, block).
        py_bind py_get (\<lambda>s. py_ret (group_pending (wp_high_water s) pending block))))
       (\<lambda>_. py_ret [])"

section \<open>One withdrawal\<close>

text \<open>What the log says of a failure: the first contract error whose selector is in its text.\<close>

fun contains :: "string \<Rightarrow> string \<Rightarrow> bool" where
  "contains p [] = (p = [])"
| "contains p (c # cs) = (take (length p) (c # cs) = p \<or> contains p cs)"

definition decode_contract_error :: "(string \<times> string) list \<Rightarrow> exn \<Rightarrow> string \<times> string" where
  "decode_contract_error selectors e =
     (case filter (\<lambda>(sel, name). contains sel (ascii_lower (str_exn e))) selectors of
        [] \<Rightarrow> ([], str_exn e)
      | x # _ \<Rightarrow> x)"

fun wait_resolved :: "nat \<Rightarrow> 'w w_env \<Rightarrow> int \<Rightarrow> ('w wproc, bool) py" where
  "wait_resolved 0 env i = py_ret False"
| "wait_resolved (Suc n) env i =
     py_then (w_await env (wx_sleep env 1000))
     (py_bind (rate_limited_call env (w_await env (wx_withdrawal env i))) (\<lambda>r.
      if cw_resolved r then py_ret True else wait_resolved n env i))"

definition ensure_resolved :: "'w w_env \<Rightarrow> int \<Rightarrow> ('w wproc, bool) py" where
  "ensure_resolved env i =
     py_then (on_service (get_reader_contract (wx_acc env)))
     (py_bind (rate_limited_call env (w_await env (wx_withdrawal env i))) (\<lambda>r.
      if cw_resolved r then py_ret True
      else py_then (rate_limited_call env (submit_resolve env i)) (wait_resolved (wx_resolution_timeout env) env i)))"

text \<open>Step 4: the hash that proves payment, and whether it is that of a broadcast just accepted.\<close>

definition broadcast :: "'w w_env \<Rightarrow> int \<Rightarrow> int \<Rightarrow> hexval \<Rightarrow> ('w wproc, (string \<times> bool) option) py" where
  "broadcast env cid i signed_tx =
     py_catch
       (py_bind (rate_limited_call env (send_raw_transaction env cid signed_tx)) (\<lambda>h. py_ret (Some (h, True))))
       (\<lambda>_. py_bind (find_broadcast_tx env cid i signed_tx) (\<lambda>r. py_ret (map_option (\<lambda>h. (h, False)) r)))"

definition raise_high_water :: "int \<Rightarrow> int \<Rightarrow> 'w wproc \<Rightarrow> 'w wproc" where
  "raise_high_water cid i s = s\<lparr>wp_high_water := (wp_high_water s)(cid \<mapsto>
     max (case wp_high_water s cid of None \<Rightarrow> -1 | Some n \<Rightarrow> n) i)\<rparr>"

definition settle :: "'w w_env \<Rightarrow> int \<Rightarrow> int \<Rightarrow> ('w wproc, bool) py" where
  "settle env cid i =
     py_bind (ensure_resolved env i) (\<lambda>resolved.
     if \<not> resolved then py_ret False
     else
       py_bind (rate_limited_call env (resolve_withdrawal_call env i)) (\<lambda>signed_tx.
       py_bind (broadcast env cid i signed_tx) (\<lambda>proof_hash.
       case proof_hash of
         None \<Rightarrow> py_ret False
       | Some (h, fresh) \<Rightarrow>
           py_then (if fresh then remember_broadcast env cid i h else py_ret ())
           (py_then (py_modify (raise_high_water cid i)) (py_ret True)))))"

definition resolve_and_broadcast :: "'w w_env \<Rightarrow> pending_withdrawal \<Rightarrow> ('w wproc, bool) py" where
  "resolve_and_broadcast env w =
     (case pw_chain_id w of
        None \<Rightarrow> py_ret True
      | Some cid \<Rightarrow> if cid = 0 then py_ret True
          else py_catch (settle env cid (pw_index w)) (\<lambda>_. py_ret False))"

section \<open>One chain, and the loop\<close>

definition is_running :: "('w wproc, bool) py" where
  "is_running = py_bind py_get (\<lambda>s. py_ret (sh_running (wp_service s)))"

fun process_withdrawals :: "'w w_env \<Rightarrow> int \<Rightarrow> pending_withdrawal list \<Rightarrow> ('w wproc, unit) py" where
  "process_withdrawals env cid [] = py_ret ()"
| "process_withdrawals env cid (w # ws) =
     py_bind is_running (\<lambda>running.
     if \<not> running then py_ret ()
     else
       py_bind (resolve_and_broadcast env w) (\<lambda>ok.
       if ok then process_withdrawals env cid ws else catch_up_missing_broadcasts env (Some [cid])))"

definition process_chain :: "'w w_env \<Rightarrow> int \<Rightarrow> pending_withdrawal list \<Rightarrow> ('w wproc, unit) py" where
  "process_chain env cid ws =
     py_bind (attempt (chain_nonce_state env cid)) (\<lambda>st.
     case st of
       None \<Rightarrow> py_ret ()
     | Some None \<Rightarrow> py_ret ()
     | Some (Some _) \<Rightarrow> process_withdrawals env cid ws)"

fun process_chains :: "'w w_env \<Rightarrow> (int \<times> pending_withdrawal list) list \<Rightarrow> ('w wproc, unit) py" where
  "process_chains env [] = py_ret ()"
| "process_chains env ((cid, ws) # rest) =
     py_bind is_running (\<lambda>running.
     if \<not> running then py_ret () else py_then (process_chain env cid ws) (process_chains env rest))"

definition catchup_interval :: nat where "catchup_interval = 10"

text \<open>One turn of the loop; \<open>poll_count\<close> is its number, from 1.\<close>

definition poll :: "'w w_env \<Rightarrow> nat \<Rightarrow> ('w wproc, unit) py" where
  "poll env poll_count =
     py_then (if poll_count mod catchup_interval = 0 then catch_up_missing_broadcasts env None else py_ret ())
     (py_bind (get_pending_by_chain env) (process_chains env))"

fun poll_loop :: "nat \<Rightarrow> 'w w_env \<Rightarrow> nat \<Rightarrow> ('w wproc, unit) py" where
  "poll_loop 0 env poll_count = py_raise OutOfFuel"
| "poll_loop (Suc n) env poll_count =
     py_bind is_running (\<lambda>running.
     if \<not> running then py_ret ()
     else
       py_then (py_catch (poll env (poll_count + 1)) (\<lambda>_. py_ret ()))
       (py_then (w_await env (wx_sleep env (1000 * wx_poll_interval env))) (poll_loop n env (poll_count + 1))))"

definition run_processor :: "nat \<Rightarrow> 'w w_env \<Rightarrow> ('w wproc, unit) py" where
  "run_processor n env = py_then (catch_up_missing_broadcasts env None) (poll_loop n env 0)"

text \<open>What \<open>start()\<close> and \<open>stop()\<close> do to the fields.\<close>

definition start :: "'w wproc \<Rightarrow> 'w wproc" where
  "start s = s\<lparr>wp_service := (wp_service s)\<lparr>sh_running := True\<rparr>\<rparr>"

definition stop :: "'w wproc \<Rightarrow> 'w wproc" where
  "stop s = (if \<not> sh_running (wp_service s) then s
     else s\<lparr>wp_service := (wp_service s)\<lparr>sh_running := False\<rparr>, wp_high_water := Map.empty,
            wp_divergence_reported := {}, wp_stuck_cycles := Map.empty, wp_last_broadcast := Map.empty\<rparr>)"

definition new_processor :: "'w service \<Rightarrow> 'w wproc" where
  "new_processor v = \<lparr>wp_service = v, wp_high_water = Map.empty, wp_last_rpc_call = 0,
     wp_destination_web3 = Map.empty, wp_evm_address = None, wp_divergence_reported = {},
     wp_stuck_cycles = Map.empty, wp_last_broadcast = Map.empty, wp_trace = []\<rparr>"

section \<open>What a call keeps\<close>

lemma w_await_run: "w_await env f s = (r, t) \<longleftrightarrow>
    (\<exists>w. f (sh_world (wp_service s)) = (r, w)
      \<and> t = s\<lparr>wp_service := ax_others (wx_acc env) ((wp_service s)\<lparr>sh_world := w\<rparr>)\<rparr>)"
  by (auto simp: w_await_def on_service_def a_await_def split: prod.splits)

text \<open>
  \<open>upto tr hw\<close>: the trace has only grown since \<open>tr\<close>, the marks are still \<open>hw\<close>, and every
  remembered hash is that of an accepted broadcast of bytes the contract signed for it.
\<close>

definition signed_bytes :: "'w w_env \<Rightarrow> wevent set \<Rightarrow> int \<Rightarrow> bytes \<Rightarrow> bool" where
  "signed_bytes env E i raw \<longleftrightarrow> (\<exists>x. WSigned i x \<in> E \<and> as_raw_tx_bytes env x = Inr raw)"

definition sent :: "'w w_env \<Rightarrow> wevent set \<Rightarrow> int \<Rightarrow> int \<Rightarrow> string \<Rightarrow> bool" where
  "sent env E cid i h \<longleftrightarrow> (\<exists>raw hx b. signed_bytes env E i raw \<and> WAccepted cid raw hx \<in> E
     \<and> ax_hexbytes (wx_acc env) hx = Inr b \<and> h = to_hex b)"

definition broadcasts_ok :: "'w w_env \<Rightarrow> 'w wproc \<Rightarrow> bool" where
  "broadcasts_ok env s \<longleftrightarrow>
     (\<forall>cid i h. wp_last_broadcast s (cid, i) = Some h \<longrightarrow> sent env (set (wp_trace s)) cid i h)"

definition since :: "'w w_env \<Rightarrow> wevent list \<Rightarrow> (int \<rightharpoonup> int) \<Rightarrow> 'w wproc \<Rightarrow> bool" where
  "since env tr hw s \<longleftrightarrow> broadcasts_ok env s \<and> wp_high_water s = hw \<and> (\<exists>evs. wp_trace s = tr @ evs)"

lemma signed_bytes_mono: "signed_bytes env E i raw \<Longrightarrow> E \<subseteq> F \<Longrightarrow> signed_bytes env F i raw"
  unfolding signed_bytes_def by blast

lemma sent_mono: "sent env E cid i h \<Longrightarrow> E \<subseteq> F \<Longrightarrow> sent env F cid i h"
  unfolding sent_def using signed_bytes_mono by blast

lemma since_refl: "broadcasts_ok env s \<Longrightarrow> since env (wp_trace s) (wp_high_water s) s"
  by (simp add: since_def)

lemma since_trans: "since env tr hw s \<Longrightarrow> since env (wp_trace s) hw t \<Longrightarrow> since env tr hw t"
  by (auto simp: since_def)

lemma since_mem: "since env tr hw s \<Longrightarrow> set tr \<subseteq> set (wp_trace s)"
  by (auto simp: since_def)

named_theorems since_intros \<open>calls that keep \<open>since\<close>\<close>

lemma since_service [since_intros]: "keeps (since env tr hw) (on_service m)"
  by (auto simp: keeps_def on_service_def since_def broadcasts_ok_def split: prod.splits)

lemma since_await [since_intros]: "keeps (since env tr hw) (w_await env f)"
  unfolding w_await_def by (rule since_service)

lemma since_emit [since_intros]: "keeps (since env tr hw) (w_emit e)"
  unfolding w_emit_def
proof (rule keeps_modify)
  fix s assume "since env tr hw s"
  then show "since env tr hw (s\<lparr>wp_trace := wp_trace s @ [e]\<rparr>)"
    by (auto simp: since_def broadcasts_ok_def intro: sent_mono)
qed

lemma since_web3 [since_intros]: "keeps (since env tr hw) (get_destination_web3 cid)"
  by (auto simp: keeps_def get_destination_web3_def since_def broadcasts_ok_def Let_def split: prod.splits)

lemma since_now [since_intros]: "keeps P (w_now env)"
  unfolding w_now_def by (intro keeps_intros)

lemma since_sapphire [since_intros]: "keeps (since env tr hw) (sapphire_contract env)"
  unfolding sapphire_contract_def by (rule since_service)

lemma since_field:
  assumes "\<And>s. wp_trace (f s) = wp_trace s" "\<And>s. wp_high_water (f s) = wp_high_water s"
    "\<And>s. wp_last_broadcast (f s) = wp_last_broadcast s"
  shows "keeps (since env tr hw) (py_modify f)"
  by (rule keeps_modify) (simp add: since_def broadcasts_ok_def assms)

lemma since_attempts:
  assumes "keeps (since env tr hw) m"
  shows "keeps (since env tr hw) (attempts env m n k)"
proof (induction n arbitrary: k)
  case 0
  show ?case by (subst attempts.simps) (auto intro!: keeps_intros since_intros since_field assms)
next
  case (Suc n)
  show ?case by (subst attempts.simps) (auto intro!: keeps_intros since_intros since_field assms Suc)
qed

lemma since_rate_limited [since_intros]:
  "keeps (since env tr hw) m \<Longrightarrow> keeps (since env tr hw) (rate_limited_call env m)"
  unfolding rate_limited_call_def by (intro keeps_intros since_intros since_attempts)

text \<open>A rate limited call that returns has returned what one of its attempts did.\<close>

lemma attempts_Inr:
  assumes "keeps P m" "\<And>n. keeps P (w_await env (wx_sleep env n))"
    and "\<And>now s. P s \<Longrightarrow> P (s\<lparr>wp_last_rpc_call := now\<rparr>)"
  shows "attempts env m n k s = (Inr x, t) \<Longrightarrow> P s \<Longrightarrow> \<exists>u. P u \<and> m u = (Inr x, t)"
proof (induction n arbitrary: k s)
  case 0
  then show ?case using assms(3)
    by (subst (asm) attempts.simps) (auto simp: w_now_def py_bind_def py_then_def py_get_def py_ret_def py_modify_def)
next
  case (Suc n)
  let ?s = "s\<lparr>wp_last_rpc_call := wx_now env (sh_world (wp_service s))\<rparr>"
  have s: "P ?s" using assms(3) Suc.prems(2) .
  have run: "py_catch m (\<lambda>_. py_then (w_await env (wx_sleep env (1000 * 2 ^ k))) (attempts env m n (k + 1))) ?s = (Inr x, t)"
    using Suc.prems(1)
    by (subst (asm) attempts.simps) (simp add: w_now_def py_bind_def py_then_def py_get_def py_ret_def py_modify_def)
  obtain r u where r: "m ?s = (r, u)" by fastforce
  have u: "P u" using keepsD [OF assms(1) s r] .
  show ?case
  proof (cases r)
    case (Inr y)
    then show ?thesis using run r s by (auto simp: py_catch_def py_try_def)
  next
    case (Inl e)
    then obtain v where "w_await env (wx_sleep env (1000 * 2 ^ k)) u = (Inr (), v)"
        "attempts env m n (k + 1) v = (Inr x, t)"
      using run r
      by (auto simp: py_catch_def py_try_def py_then_def py_bind_def py_raise_def split: if_splits prod.splits sum.splits)
    then show ?thesis using Suc.IH keepsD [OF assms(2) u] by blast
  qed
qed

lemma rate_limited_Inr:
  assumes "rate_limited_call env m s = (Inr x, t)" "since env tr hw s" "keeps (since env tr hw) m"
  obtains u where "since env tr hw u" "m u = (Inr x, t)"
proof -
  let ?w = "py_bind (w_now env) (\<lambda>now. py_bind py_get (\<lambda>s.
     if now - wp_last_rpc_call s < MIN_RPC_INTERVAL
     then w_await env (wx_sleep env (MIN_RPC_INTERVAL - (now - wp_last_rpc_call s))) else py_ret ()))"
  obtain v where v: "?w s = (Inr (), v)" "attempts env m 4 0 v = (Inr x, t)"
    using assms(1)
    by (auto simp: rate_limited_call_def py_bind_def py_then_def w_now_def py_get_def py_ret_def
        split: prod.splits sum.splits if_splits)
  have "keeps (since env tr hw) ?w" by (intro keeps_intros since_intros)
  from keepsD [OF this assms(2) v(1)] have "since env tr hw v" .
  with attempts_Inr [OF assms(3) since_await _ v(2)] that show ?thesis
    by (fastforce simp: since_def broadcasts_ok_def)
qed

section \<open>What a call proves\<close>

definition fresh :: "wevent list \<Rightarrow> 'w wproc \<Rightarrow> wevent \<Rightarrow> bool" where
  "fresh tr s e \<longleftrightarrow> (\<exists>evs. wp_trace s = tr @ evs \<and> e \<in> set evs)"

lemma fresh_emit: "since env tr hw s \<Longrightarrow> fresh tr (s\<lparr>wp_trace := wp_trace s @ [e]\<rparr>) e"
  by (auto simp: since_def fresh_def)

lemma fresh_since: "fresh tr s e \<Longrightarrow> since env (wp_trace s) hw t \<Longrightarrow> fresh tr t e"
  by (auto simp: since_def fresh_def)

lemma fresh_mem: "fresh tr s e \<Longrightarrow> e \<in> set (wp_trace s)"
  by (auto simp: fresh_def)

lemma since_onwards:
  assumes "keeps (since env (wp_trace s) hw) m" "since env tr hw s" "m s = (r, t)"
  shows "since env (wp_trace s) hw t" "since env tr hw t"
proof -
  have "since env (wp_trace s) hw s" using assms(2) by (simp add: since_def)
  from keepsD [OF assms(1) this assms(3)] show "since env (wp_trace s) hw t" .
  then show "since env tr hw t" using since_trans [OF assms(2)] by simp
qed

lemma since_send [since_intros]: "keeps (since env tr hw) (send_raw_transaction env cid x)"
  and since_resolve_call [since_intros]: "keeps (since env tr hw) (resolve_withdrawal_call env i)"
  and since_submit [since_intros]: "keeps (since env tr hw) (submit_resolve env i)"
  unfolding send_raw_transaction_def resolve_withdrawal_call_def submit_resolve_def
  by (intro keeps_intros since_intros)+

lemma signed_fresh:
  assumes "rate_limited_call env (resolve_withdrawal_call env i) s = (Inr x, t)" "since env tr hw s"
  shows "fresh tr t (WSigned i x)"
proof -
  obtain u where u: "since env tr hw u" "resolve_withdrawal_call env i u = (Inr x, t)"
    using rate_limited_Inr [OF assms] since_resolve_call by blast
  then obtain v where v: "w_await env (wx_resolve_call env i) u = (Inr x, v)"
      "t = v\<lparr>wp_trace := wp_trace v @ [WSigned i x]\<rparr>"
    by (auto simp: resolve_withdrawal_call_def w_emit_def py_bind_def py_then_def py_modify_def py_ret_def
        split: prod.splits sum.splits)
  have "since env tr hw v" using keepsD [OF since_await u(1) v(1)] .
  then show ?thesis unfolding v(2) by (rule fresh_emit)
qed

lemma accepted_fresh:
  assumes "rate_limited_call env (send_raw_transaction env cid x) s = (Inr h, t)" "since env tr hw s"
  shows "\<exists>raw. as_raw_tx_bytes env x = Inr raw \<and> fresh tr t (WAccepted cid raw h)"
proof -
  obtain u where u: "since env tr hw u" "send_raw_transaction env cid x u = (Inr h, t)"
    using rate_limited_Inr [OF assms] since_send by blast
  then obtain w3 u1 raw u2 hb v where v: "on_service (get_chain_web3 cid) u = (Inr w3, u1)"
      "as_raw_tx_bytes env x = Inr raw" "w_emit (WOut cid raw) u1 = (Inr (), u2)"
      "w_await env (wx_send_raw env w3 raw) u2 = (Inr hb, v)" "h = bytes_hex hb"
      "t = v\<lparr>wp_trace := wp_trace v @ [WAccepted cid raw h]\<rparr>"
    by (auto simp: send_raw_transaction_def w_emit_def py_bind_def py_then_def py_modify_def py_ret_def py_lift_def
        split: prod.splits sum.splits)
  have "since env tr hw v"
    using keepsD [OF since_await keepsD [OF since_emit keepsD [OF since_service u(1) v(1)] v(3)] v(4)] .
  then show ?thesis using v(2) unfolding v(6) by (blast intro: fresh_emit)
qed

lemma since_not_found [since_intros]: "keeps (since env tr hw) m \<Longrightarrow> keeps (since env tr hw) (not_found_is_none m)"
  unfolding not_found_is_none_def by (auto intro!: keeps_intros split: exn.split)

lemma since_fetch [since_intros]: "keeps (since env tr hw) (fetch_receipt env cid h)"
  unfolding fetch_receipt_def
  by (intro keeps_intros since_intros) (auto intro!: keeps_intros since_intros split: option.split)

lemma since_check [since_intros]: "keeps (since env tr hw) (check_candidates env cid hs)"
  by (induction hs) (auto intro!: keeps_intros since_intros split: option.split)

lemma since_find [since_intros]: "keeps (since env tr hw) (find_broadcast_tx env cid i x)"
  unfolding find_broadcast_tx_def Let_def
  by (intro keeps_intros since_intros) (auto intro!: keeps_intros since_intros split: verdict.split)

lemma receipt_fresh:
  assumes "fetch_receipt env cid h s = (Inr (Some st), t)" "since env tr hw s"
  shows "fresh tr t (WReceipt cid h st)"
proof -
  let ?m = "\<lambda>w3. rate_limited_call env (not_found_is_none (w_await env (wx_receipt_status env w3 h)))"
  obtain w3 u v where u: "get_destination_web3 cid s = (Inr w3, u)" "?m w3 u = (Inr (Some st), v)"
      "t = v\<lparr>wp_trace := wp_trace v @ [WReceipt cid h st]\<rparr>"
    using assms(1)
    by (auto simp: fetch_receipt_def py_bind_def py_catch_def py_try_def py_then_def py_ret_def w_emit_def
        py_modify_def py_raise_def split: prod.splits sum.splits if_splits option.splits)
  have "since env tr hw v"
    using keepsD [OF since_rate_limited [OF since_not_found [OF since_await]] _ u(2), of tr hw]
      keepsD [OF since_web3 assms(2) u(1)] by simp
  then show ?thesis unfolding u(3) by (rule fresh_emit)
qed

lemma paid_candidate:
  "check_candidates env cid hs s = (Inr (Paid h), t) \<Longrightarrow> since env tr hw s \<Longrightarrow>
    h \<in> set hs \<and> fresh tr t (WReceipt cid h 1)"
proof (induction hs arbitrary: s)
  case (Cons k hs)
  obtain r u where r: "fetch_receipt env cid k s = (Inr r, u)"
    using Cons.prems(1) by (auto simp: py_bind_def split: prod.splits sum.splits)
  have u: "since env tr hw u" using keepsD [OF since_fetch Cons.prems(2) r] .
  show ?case
  proof (cases r)
    case None
    then show ?thesis using Cons.IH [OF _ u] Cons.prems(1) r by (auto simp: py_bind_def)
  next
    case (Some st)
    then show ?thesis using Cons.prems r receipt_fresh [of env cid k s st u tr hw]
      by (auto simp: py_bind_def py_ret_def split: if_splits)
  qed
qed (simp add: py_ret_def)

lemma found_proof:
  assumes "find_broadcast_tx env cid i x s = (Inr (Some h), t)" "since env tr hw s"
  shows "fresh tr t (WReceipt cid h 1)"
    "(\<exists>raw. as_raw_tx_bytes env x = Inr raw \<and> h = to_hex (wx_keccak env raw)) \<or> sent env (set (wp_trace s)) cid i h"
proof -
  obtain k where k: "expected_tx_hash env x = Inr k"
    using assms(1) by (auto simp: find_broadcast_tx_def py_bind_def py_lift_def split: sum.splits)
  let ?cs = "(case wp_last_broadcast s (cid, i) of None \<Rightarrow> [] | Some h \<Rightarrow> [h])
     @ (if Some k \<noteq> wp_last_broadcast s (cid, i) then [k] else [])"
  have c: "check_candidates env cid ?cs s = (Inr (Paid h), t)"
    using assms(1) k
    by (auto simp: find_broadcast_tx_def py_bind_def py_then_def py_lift_def py_get_def Let_def py_ret_def
        split: prod.splits sum.splits verdict.splits)
  show "fresh tr t (WReceipt cid h 1)" using paid_candidate [OF c assms(2)] by simp
  have "h \<in> set ?cs" using paid_candidate [OF c assms(2)] by simp
  then have "h = k \<or> wp_last_broadcast s (cid, i) = Some h"
    by (auto split: option.splits if_splits)
  then show "(\<exists>raw. as_raw_tx_bytes env x = Inr raw \<and> h = to_hex (wx_keccak env raw)) \<or> sent env (set (wp_trace s)) cid i h"
    using k assms(2) by (auto simp: expected_tx_hash_def map_sum_def since_def broadcasts_ok_def split: sum.splits)
qed

section \<open>Remembering a broadcast\<close>

lemma remember_since:
  assumes "remember_broadcast env cid i h s = (r, t)" "since env tr hw s"
    and "WSigned i x \<in> set (wp_trace s)" "as_raw_tx_bytes env x = Inr raw" "WAccepted cid raw h \<in> set (wp_trace s)"
  shows "since env tr hw t"
proof (cases "ax_hexbytes (wx_acc env) h")
  case (Inl e)
  then show ?thesis using assms(1,2) by (simp add: remember_broadcast_def py_bind_def py_lift_def)
next
  case (Inr b)
  then have t: "t = s\<lparr>wp_last_broadcast := (wp_last_broadcast s)((cid, i) \<mapsto> to_hex b)\<rparr>"
    using assms(1) by (simp add: remember_broadcast_def py_bind_def py_lift_def py_modify_def)
  have "sent env (set (wp_trace s)) cid i (to_hex b)"
    using assms(3-5) Inr unfolding sent_def signed_bytes_def by blast
  then show ?thesis using assms(2) unfolding t by (auto simp: since_def broadcasts_ok_def)
qed

lemma since_rebroadcast [since_intros]: "keeps (since env tr hw) (rebroadcast env cid i)"
proof -
  have sent_ok: "since env tr hw t"
    if s: "since env tr hw s" "WSigned i x \<in> set (wp_trace s)"
      and run: "py_catch (py_bind (rate_limited_call env (send_raw_transaction env cid x)) (\<lambda>h.
         py_then (remember_broadcast env cid i h) (py_ret True)))
       (\<lambda>_. py_bind (find_broadcast_tx env cid i x) (\<lambda>b. py_ret (b \<noteq> None))) s = (r, t)" for s t x r
  proof -
    let ?send = "rate_limited_call env (send_raw_transaction env cid x)"
    let ?find = "\<lambda>_::exn. py_bind (find_broadcast_tx env cid i x) (\<lambda>b. py_ret (b \<noteq> None))"
    obtain q u where q: "?send s = (q, u)" by fastforce
    have u: "since env tr hw u" by (rule keepsD [OF since_rate_limited [OF since_send] s(1) q])
    have find: "keeps (since env tr hw) (?find e)" for e by (intro keeps_intros since_intros)
    have mem: "WSigned i x \<in> set (wp_trace u)"
      using since_mem [OF since_onwards(1) [OF since_rate_limited [OF since_send] s(1) q]] s(2) by blast
    show ?thesis
    proof (cases q)
      case (Inl e)
      then show ?thesis using run q keepsD [OF find u] u
        by (cases "is_exception e") (auto simp: py_catch_def py_try_def py_bind_def py_raise_def)
    next
      case (Inr h)
      obtain raw where raw: "as_raw_tx_bytes env x = Inr raw" "WAccepted cid raw h \<in> set (wp_trace u)"
        using accepted_fresh [OF q [unfolded Inr] s(1)] fresh_mem by blast
      obtain p v where p: "remember_broadcast env cid i h u = (p, v)" by fastforce
      have v: "since env tr hw v" by (rule remember_since [OF p u mem raw])
      show ?thesis using run q Inr p keepsD [OF find v] v
        by (cases p) (auto simp: py_catch_def py_try_def py_bind_def py_then_def py_ret_def py_raise_def split: if_splits)
    qed
  qed
  show ?thesis
    unfolding keeps_def
  proof (intro allI impI)
    fix s assume s: "since env tr hw s"
    obtain q u where q: "rate_limited_call env (resolve_withdrawal_call env i) s = (q, u)" by fastforce
    have u: "since env tr hw u" by (rule keepsD [OF since_rate_limited [OF since_resolve_call] s q])
    show "since env tr hw (snd (rebroadcast env cid i s))"
    proof (cases q)
      case (Inl e)
      then show ?thesis using q u by (simp add: rebroadcast_def py_bind_def)
    next
      case (Inr x)
      have mem: "WSigned i x \<in> set (wp_trace u)" using signed_fresh [OF q [unfolded Inr] s] by (rule fresh_mem)
      show ?thesis
        using sent_ok [OF u mem prod.collapse [symmetric]] by (simp add: rebroadcast_def py_bind_def q Inr)
    qed
  qed
qed

lemma since_attempt [since_intros]: "keeps P m \<Longrightarrow> keeps P (attempt m)"
  unfolding attempt_def by (intro keeps_intros)

lemma since_scan [since_intros]: "keeps (since env tr hw) (scan_missing env cid ns is found)"
proof (induction "is" arbitrary: found cid)
  case (Cons i "is")
  show ?case
    by (auto intro!: keeps_intros since_intros Cons.IH split: option.split)
qed (auto intro: keeps_intros)

lemma since_evm [since_intros]: "keeps (since env tr hw) (get_evm_address env)"
  unfolding get_evm_address_def
  by (auto intro!: keeps_intros since_intros since_field split: option.split)

lemma since_nonce_state [since_intros]: "keeps (since env tr hw) (chain_nonce_state env cid)"
  unfolding chain_nonce_state_def
  by (intro keeps_intros since_intros since_field) (auto simp: track_stuck_nonce_def)

lemma since_catch_up_chain [since_intros]: "keeps (since env tr hw) (catch_up_chain env cid)"
  unfolding catch_up_chain_def broadcast_missing_for_chain_def
  by (auto intro!: keeps_intros since_intros split: option.split)

lemma since_catch_up [since_intros]: "keeps (since env tr hw) (catch_up_missing_broadcasts env cs)"
  unfolding catch_up_missing_broadcasts_def
  by (intro keeps_intros keeps_for since_intros)

lemma since_wait [since_intros]: "keeps (since env tr hw) (wait_resolved n env i)"
  by (induction n) (auto intro!: keeps_intros since_intros)

lemma since_ensure [since_intros]: "keeps (since env tr hw) (ensure_resolved env i)"
  unfolding ensure_resolved_def by (intro keeps_intros since_intros)

lemma since_pending [since_intros]: "keeps (since env tr hw) (get_pending_by_chain env)"
  unfolding get_pending_by_chain_def
  by (auto intro!: keeps_intros since_intros)

lemma since_broadcast [since_intros]: "keeps (since env tr hw) (broadcast env cid i x)"
  unfolding broadcast_def by (intro keeps_intros since_intros)

section \<open>Marks are proofs of payment\<close>

definition payment_proof :: "'w w_env \<Rightarrow> wevent set \<Rightarrow> wevent set \<Rightarrow> int \<Rightarrow> int \<Rightarrow> bool" where
  "payment_proof env new E cid i \<longleftrightarrow>
     (\<exists>x raw. WSigned i x \<in> new \<and> as_raw_tx_bytes env x = Inr raw
       \<and> ((\<exists>h. WAccepted cid raw h \<in> new)
          \<or> (\<exists>h. WReceipt cid h 1 \<in> new \<and> (h = to_hex (wx_keccak env raw) \<or> sent env E cid i h))))"

definition proof_hash_ok :: "'w w_env \<Rightarrow> wevent list \<Rightarrow> int \<Rightarrow> int \<Rightarrow> hexval \<Rightarrow> (string \<times> bool) option \<Rightarrow> 'w wproc \<Rightarrow> bool" where
  "proof_hash_ok env tr cid i x res t \<longleftrightarrow>
     (case res of
        None \<Rightarrow> True
      | Some (h, True) \<Rightarrow> (\<exists>raw. as_raw_tx_bytes env x = Inr raw \<and> fresh tr t (WAccepted cid raw h))
      | Some (h, False) \<Rightarrow> fresh tr t (WReceipt cid h 1)
          \<and> ((\<exists>raw. as_raw_tx_bytes env x = Inr raw \<and> h = to_hex (wx_keccak env raw))
             \<or> (\<exists>raw. as_raw_tx_bytes env x = Inr raw) \<and> sent env (set (wp_trace t)) cid i h))"

lemma broadcast_proof:
  assumes "broadcast env cid i x s = (Inr res, t)" "since env tr hw s"
  shows "proof_hash_ok env tr cid i x res t"
proof -
  let ?send = "rate_limited_call env (send_raw_transaction env cid x)"
  obtain q u where q: "?send s = (q, u)" by fastforce
  have u: "since env tr hw u" by (rule keepsD [OF since_rate_limited [OF since_send] assms(2) q])
  show ?thesis
  proof (cases q)
    case (Inr h)
    then show ?thesis using assms q accepted_fresh [of env cid x s h u tr hw]
      by (auto simp: broadcast_def py_catch_def py_try_def py_bind_def py_ret_def proof_hash_ok_def)
  next
    case (Inl e)
    then obtain f where f: "find_broadcast_tx env cid i x u = (Inr f, t)" "res = map_option (\<lambda>h. (h, False)) f"
      using assms(1) q
      by (auto simp: broadcast_def py_catch_def py_try_def py_bind_def py_ret_def py_raise_def
          split: if_splits prod.splits sum.splits)
    show ?thesis
    proof (cases f)
      case (Some h)
      have raw: "\<exists>raw. as_raw_tx_bytes env x = Inr raw"
        using f(1) by (auto simp: find_broadcast_tx_def expected_tx_hash_def map_sum_def py_bind_def py_lift_def split: sum.splits)
      have "set (wp_trace u) \<subseteq> set (wp_trace t)"
        using since_mem [OF since_onwards(1) [OF since_find u f(1)]] .
      then show ?thesis
        using found_proof [OF f(1) [unfolded Some] u] raw f(2) Some sent_mono
        unfolding proof_hash_ok_def by fastforce
    qed (simp add: f proof_hash_ok_def)
  qed
qed

lemma settle_marks:
  assumes run: "settle env cid i s = (r, t)" and s: "broadcasts_ok env s"
  shows "if r = Inr True
    then wp_high_water t = wp_high_water (raise_high_water cid i s) \<and> broadcasts_ok env t
       \<and> (\<exists>evs. wp_trace t = wp_trace s @ evs \<and> payment_proof env (set evs) (set (wp_trace t)) cid i)
    else since env (wp_trace s) (wp_high_water s) t"
proof -
  let ?S = "since env (wp_trace s) (wp_high_water s)"
  have s0: "?S s" by (rule since_refl [OF s])
  obtain a u where a: "ensure_resolved env i s = (a, u)" by fastforce
  have u: "?S u" by (rule keepsD [OF since_ensure s0 a])
  obtain b v where b: "rate_limited_call env (resolve_withdrawal_call env i) u = (b, v)" by fastforce
  have v: "?S v" by (rule keepsD [OF since_rate_limited [OF since_resolve_call] u b])
  consider (stop) "t = u" "r \<noteq> Inr True" | (fail) e where "b = Inl e" "t = v" "r = Inl e" | (signed) x where "a = Inr True" "b = Inr x"
    using run a b by (cases a; cases b) (auto simp: settle_def py_bind_def py_ret_def split: if_splits)
  then show ?thesis
  proof cases
    case (signed x)
    have sg: "fresh (wp_trace s) v (WSigned i x)" by (rule signed_fresh [OF b [unfolded signed(2)] u])
    obtain c w where c: "broadcast env cid i x v = (c, w)" by fastforce
    have w: "?S w" by (rule keepsD [OF since_broadcast v c])
    have sgw: "fresh (wp_trace s) w (WSigned i x)"
      by (rule fresh_since [OF sg since_onwards(1) [OF since_broadcast v c]])
    have rest: "(r, t) = (case c of Inl e \<Rightarrow> (Inl e, w) | Inr None \<Rightarrow> (Inr False, w)
        | Inr (Some (h, fr)) \<Rightarrow> (py_then (if fr then remember_broadcast env cid i h else py_ret ())
             (py_then (py_modify (raise_high_water cid i)) (py_ret True))) w)"
      using run a b c signed by (auto simp: settle_def py_bind_def py_ret_def split: sum.splits option.splits)
    show ?thesis
    proof (cases "\<exists>h fr. c = Inr (Some (h, fr))")
      case False
      then show ?thesis using rest w by (auto split: sum.splits option.splits)
    next
      case True
      then obtain h fr where h: "c = Inr (Some (h, fr))" by blast
      have ok: "proof_hash_ok env (wp_trace s) cid i x (Some (h, fr)) w"
        by (rule broadcast_proof [OF c [unfolded h] v])
      obtain d z where d: "(if fr then remember_broadcast env cid i h else py_ret ()) w = (d, z)" by fastforce
      have trace: "wp_trace z = wp_trace w"
        using d by (auto simp: remember_broadcast_def py_bind_def py_lift_def py_modify_def py_ret_def
            split: if_splits sum.splits)
      have z: "?S z"
      proof (cases fr)
        case True
        then obtain raw where "as_raw_tx_bytes env x = Inr raw" "WAccepted cid raw h \<in> set (wp_trace w)"
          using ok fresh_mem by (fastforce simp: proof_hash_ok_def)
        then show ?thesis using d True remember_since [OF _ w fresh_mem [OF sgw]] by simp
      qed (use d w in \<open>simp add: py_ret_def\<close>)
      have rt: "(r, t) = (case d of Inl e \<Rightarrow> (Inl e, z) | Inr _ \<Rightarrow> (Inr True, raise_high_water cid i z))"
        using rest h d by (auto simp: py_then_def py_bind_def py_modify_def py_ret_def split: sum.splits)
      show ?thesis
      proof (cases d)
        case (Inl e)
        then show ?thesis using rt z by simp
      next
        case (Inr _)
        then have t: "r = Inr True" "t = raise_high_water cid i z" using rt by auto
        obtain evs where evs: "wp_trace z = wp_trace s @ evs" using z by (auto simp: since_def)
        have "payment_proof env (set evs) (set (wp_trace z)) cid i"
          using ok sgw evs trace
          by (cases fr) (auto simp: proof_hash_ok_def payment_proof_def fresh_def)
        then show ?thesis
          using t z evs by (auto simp: raise_high_water_def since_def broadcasts_ok_def)
      qed
    qed
  qed (use u v in auto)
qed

lemma resolve_marks:
  assumes "broadcasts_ok env s" and "resolve_and_broadcast env w s = (r, t)"
  shows "\<exists>evs. wp_trace t = wp_trace s @ evs \<and> broadcasts_ok env t
    \<and> (case pw_chain_id w of
         Some cid \<Rightarrow>
           if cid \<noteq> 0 \<and> r = Inr True
           then wp_high_water t = wp_high_water (raise_high_water cid (pw_index w) s)
              \<and> payment_proof env (set evs) (set (wp_trace t)) cid (pw_index w)
           else wp_high_water t = wp_high_water s
       | None \<Rightarrow> t = s)"
proof (cases "pw_chain_id w")
  case None
  then show ?thesis using assms by (simp add: resolve_and_broadcast_def py_ret_def)
next
  case (Some cid)
  show ?thesis
  proof (cases "cid = 0")
    case True
    then show ?thesis using assms Some by (simp add: resolve_and_broadcast_def py_ret_def)
  next
    case False
    obtain q u where q: "settle env cid (pw_index w) s = (q, u)" by fastforce
    have "t = u \<and> (r = Inr True \<longleftrightarrow> q = Inr True)"
      using assms(2) q Some False
      by (auto simp: resolve_and_broadcast_def py_catch_def py_try_def py_ret_def py_raise_def split: sum.splits if_splits)
    then show ?thesis
      using settle_marks [OF q assms(1)] Some False by (auto simp: since_def split: if_splits)
  qed
qed

text \<open>
  C14. A withdrawal is only marked as processed on a proof that it was paid. Marks move in a call
  of \<open>_resolve_and_broadcast\<close> exactly when it returns True for a withdrawal of a known chain, and
  only the mark of that chain, to at least that withdrawal's index; during that very call the
  contract signed the withdrawal's transaction, and either the node of that chain accepted exactly
  these bytes or it gave a receipt with status 1 for their hash or for the hash of an earlier
  accepted broadcast of this withdrawal. On every other outcome, errors and cancellation included,
  no mark moves.
\<close>
theorem marked_only_when_paid:
  assumes "broadcasts_ok env s" and "resolve_and_broadcast env w s = (r, t)"
  shows "\<exists>evs. wp_trace t = wp_trace s @ evs \<and> broadcasts_ok env t
    \<and> (case pw_chain_id w of
         Some cid \<Rightarrow>
           if cid \<noteq> 0 \<and> r = Inr True
           then wp_high_water t = wp_high_water (raise_high_water cid (pw_index w) s)
              \<and> payment_proof env (set evs) (set (wp_trace t)) cid (pw_index w)
           else wp_high_water t = wp_high_water s
       | None \<Rightarrow> t = s)"
  using assms by (rule resolve_marks)


section \<open>The marks of a whole run\<close>

definition marks_ok :: "'w w_env \<Rightarrow> 'w wproc \<Rightarrow> bool" where
  "marks_ok env s \<longleftrightarrow> broadcasts_ok env s
   \<and> (\<forall>cid n. wp_high_water s cid = Some n \<longrightarrow> n < 0 \<or> payment_proof env (set (wp_trace s)) (set (wp_trace s)) cid n)"

lemma payment_proof_mono:
  "payment_proof env A E cid i \<Longrightarrow> A \<subseteq> B \<Longrightarrow> E \<subseteq> F \<Longrightarrow> payment_proof env B F cid i"
  unfolding payment_proof_def using sent_mono by blast

lemma marks_since:
  assumes "\<And>tr hw. keeps (since env tr hw) m"
  shows "keeps (marks_ok env) m"
  unfolding keeps_def
proof (intro allI impI)
  fix s assume s: "marks_ok env s"
  then have b: "broadcasts_ok env s" by (simp add: marks_ok_def)
  have "since env (wp_trace s) (wp_high_water s) (snd (m s))"
    using assms since_refl [OF b] unfolding keeps_def by blast
  then have t: "broadcasts_ok env (snd (m s))" "wp_high_water (snd (m s)) = wp_high_water s"
      "set (wp_trace s) \<subseteq> set (wp_trace (snd (m s)))"
    by (auto simp: since_def)
  show "marks_ok env (snd (m s))"
    using s t(1) payment_proof_mono [OF _ t(3) t(3)] unfolding marks_ok_def t(2) by blast
qed

lemma marks_resolve: "keeps (marks_ok env) (resolve_and_broadcast env w)"
  unfolding keeps_def
proof (intro allI impI)
  fix s assume s: "marks_ok env s"
  obtain r t where run: "resolve_and_broadcast env w s = (r, t)" by fastforce
  then obtain evs where evs: "wp_trace t = wp_trace s @ evs" "broadcasts_ok env t" and
    step: "case pw_chain_id w of
         Some cid \<Rightarrow>
           if cid \<noteq> 0 \<and> r = Inr True
           then wp_high_water t = wp_high_water (raise_high_water cid (pw_index w) s)
              \<and> payment_proof env (set evs) (set (wp_trace t)) cid (pw_index w)
           else wp_high_water t = wp_high_water s
       | None \<Rightarrow> t = s"
    using resolve_marks [of env s w r t] s by (auto simp: marks_ok_def)
  have sub: "set (wp_trace s) \<subseteq> set (wp_trace t)" "set evs \<subseteq> set (wp_trace t)" using evs by auto
  have old: "n < 0 \<or> payment_proof env (set (wp_trace t)) (set (wp_trace t)) c n" if "wp_high_water s c = Some n" for c n
    using s that payment_proof_mono [OF _ sub(1) sub(1)] unfolding marks_ok_def by blast
  have new: "payment_proof env (set evs) (set (wp_trace t)) c n \<Longrightarrow> payment_proof env (set (wp_trace t)) (set (wp_trace t)) c n" for c n
    using payment_proof_mono [OF _ sub(2) order_refl] .
  have "n < 0 \<or> payment_proof env (set (wp_trace t)) (set (wp_trace t)) c n" if "wp_high_water t c = Some n" for c n
    using step that old new
    by (fastforce simp: raise_high_water_def max_def split: option.splits if_splits)
  then show "marks_ok env (snd (resolve_and_broadcast env w s))" using run evs(2) by (simp add: marks_ok_def)
qed

lemma keeps_running [keeps_intros]: "keeps P is_running"
  unfolding is_running_def by (intro keeps_intros)

lemma marks_process: "keeps (marks_ok env) (process_withdrawals env cid ws)"
proof (induction ws)
  case (Cons w ws)
  show ?case
    unfolding process_withdrawals.simps
    by (intro keeps_intros marks_resolve Cons marks_since [OF since_catch_up])
qed (simp add: keeps_ret)

lemma marks_chain: "keeps (marks_ok env) (process_chain env cid ws)"
  unfolding process_chain_def
  by (auto intro!: keeps_intros marks_process split: option.split)
    (intro marks_since since_intros)

lemma marks_chains: "keeps (marks_ok env) (process_chains env by_chain)"
  by (induction env by_chain rule: process_chains.induct) (auto intro!: keeps_intros marks_chain)

lemma marks_poll: "keeps (marks_ok env) (poll env k)"
  unfolding poll_def by (intro keeps_intros marks_chains) (intro marks_since since_intros)+

lemma marks_loop: "keeps (marks_ok env) (poll_loop n env k)"
  by (induction n arbitrary: k)
    (auto intro!: keeps_intros marks_poll marks_since [OF since_await])

text \<open>
  Over a whole run of the processor, from startup through any number of polls, with any
  answers of the contract, the nodes and ROFL, and stopped anywhere: every mark the processor holds
  stands for a withdrawal whose payment its trace proves.
\<close>
theorem marks_always_proved:
  assumes "wp_high_water (snd (run_processor n env (new_processor v))) cid = Some i" "0 \<le> i"
  shows "\<exists>E. E = set (wp_trace (snd (run_processor n env (new_processor v)))) \<and> payment_proof env E E cid i"
proof -
  have "keeps (marks_ok env) (run_processor n env)"
    unfolding run_processor_def by (intro keeps_intros marks_loop) (intro marks_since since_intros)
  moreover have "marks_ok env (new_processor v)"
    by (simp add: marks_ok_def new_processor_def broadcasts_ok_def)
  ultimately show ?thesis using assms unfolding keeps_def marks_ok_def by force
qed

section \<open>What a call may do\<close>

text \<open>\<open>emits Q\<close>: since \<open>tr\<close> only events of \<open>Q\<close>, and the marks are still \<open>hw\<close>.\<close>

definition emits :: "(wevent \<Rightarrow> bool) \<Rightarrow> wevent list \<Rightarrow> (int \<rightharpoonup> int) \<Rightarrow> 'w wproc \<Rightarrow> bool" where
  "emits Q tr hw s \<longleftrightarrow> wp_high_water s = hw \<and> (\<exists>evs. wp_trace s = tr @ evs \<and> (\<forall>e \<in> set evs. Q e))"

named_theorems emits_intros \<open>the events of a call\<close>

lemma emits_refl [simp]: "emits Q (wp_trace s) (wp_high_water s) s"
  by (simp add: emits_def)

lemma emits_service [emits_intros]: "keeps (emits Q tr hw) (on_service m)"
  by (auto simp: keeps_def on_service_def emits_def split: prod.splits)

lemma emits_await [emits_intros]: "keeps (emits Q tr hw) (w_await env f)"
  unfolding w_await_def by (rule emits_service)

lemma emits_emit [emits_intros]: "Q e \<Longrightarrow> keeps (emits Q tr hw) (w_emit e)"
  unfolding w_emit_def by (rule keeps_modify) (auto simp: emits_def)

lemma emits_web3 [emits_intros]: "keeps (emits Q tr hw) (get_destination_web3 cid)"
  by (auto simp: keeps_def get_destination_web3_def emits_def Let_def split: prod.splits)

lemma emits_field:
  assumes "\<And>s. wp_trace (f s) = wp_trace s" "\<And>s. wp_high_water (f s) = wp_high_water s"
  shows "keeps (emits Q tr hw) (py_modify f)"
  by (rule keeps_modify) (simp add: emits_def assms)

lemma emits_rate_limited [emits_intros]:
  assumes "keeps (emits Q tr hw) m"
  shows "keeps (emits Q tr hw) (rate_limited_call env m)"
proof -
  have "keeps (emits Q tr hw) (attempts env m n k)" for n k
    by (induction n arbitrary: k; subst attempts.simps)
      (auto intro!: keeps_intros emits_intros since_now emits_field assms)
  then show ?thesis unfolding rate_limited_call_def by (intro keeps_intros emits_intros since_now)
qed

lemma emits_nonce_state [emits_intros]: "keeps (emits Q tr hw) (chain_nonce_state env cid)"
  unfolding chain_nonce_state_def get_evm_address_def sapphire_contract_def
  by (auto intro!: keeps_intros emits_intros emits_field split: option.split simp: track_stuck_nonce_def)

text \<open>What the gate has seen when it lets a chain pass.\<close>

definition gate_passed :: "'w w_env \<Rightarrow> int \<Rightarrow> int \<Rightarrow> int \<Rightarrow> bool" where
  "gate_passed env cid contract_next latest \<longleftrightarrow>
     (\<exists>w3 addr pending. pending \<le> contract_next
        \<and> (\<exists>w w'. wx_nonces env cid w = (Inr contract_next, w'))
        \<and> (\<exists>w w'. wx_transaction_count env w3 addr ''pending'' w = (Inr pending, w'))
        \<and> (\<exists>w w'. wx_transaction_count env w3 addr ''latest'' w = (Inr latest, w')))"

lemma rate_limited_await_Inr:
  assumes "rate_limited_call env (w_await env f) s = (Inr x, t)"
  shows "\<exists>w w'. f w = (Inr x, w')"
proof -
  obtain v where "attempts env (w_await env f) 4 0 v = (Inr x, t)"
    using assms
    by (auto simp: rate_limited_call_def py_bind_def py_then_def w_now_def py_get_def py_ret_def
        split: prod.splits sum.splits if_splits)
  then have "\<exists>u. True \<and> w_await env f u = (Inr x, t)"
    using attempts_Inr [where P = "\<lambda>_. True", of "w_await env f" env 4 0 v x t] by (simp add: keeps_def)
  then show ?thesis by (auto simp: w_await_run)
qed

lemma nonce_state_passed:
  "chain_nonce_state env cid s = (Inr (Some (c, l)), t) \<Longrightarrow> gate_passed env cid c l"
  unfolding chain_nonce_state_def gate_passed_def
  by (auto simp: py_then_def py_bind_Inr py_ret_def split: if_splits dest!: rate_limited_await_Inr) blast

text \<open>
  C15. The nonce gate comes first. Processing a chain submits, signs and hands out nothing and
  moves no mark, unless the gate passed before: the contract's next nonce for the chain was read
  and is at least the node's pending nonce, so what is signed cannot reuse a nonce already spent.
\<close>
theorem gate_before_signing:
  assumes "process_chain env cid ws s = (r, t)"
    and "wp_trace t \<noteq> wp_trace s \<or> wp_high_water t \<noteq> wp_high_water s"
  shows "\<exists>c l. gate_passed env cid c l"
proof -
  obtain st u where st: "chain_nonce_state env cid s = (st, u)" by fastforce
  have "emits (\<lambda>_. False) (wp_trace s) (wp_high_water s) u"
    using keepsD [OF emits_nonce_state _ st] by simp
  then have same: "wp_trace u = wp_trace s" "wp_high_water u = wp_high_water s" by (auto simp: emits_def)
  then have "\<exists>x. st = Inr (Some x)"
    using assms st
    by (auto simp: process_chain_def attempt_def py_bind_def py_catch_def py_try_def py_ret_def py_raise_def
        split: sum.splits option.splits if_splits)
  then show ?thesis using st nonce_state_passed by fastforce
qed

section \<open>What is processed, and in which order\<close>

lemma map_of_add:
  "map_of (add_to_chain w d) c =
     (if c \<noteq> 0 \<and> pw_chain_id w = Some c then Some ((case map_of d c of None \<Rightarrow> [] | Some xs \<Rightarrow> xs) @ [w]) else map_of d c)"
  by (auto simp: add_to_chain_def AList.update_conv' split: option.split)

lemma map_of_fold_add:
  "map_of (fold add_to_chain ws d) c =
     (let f = filter (\<lambda>w. pw_chain_id w = Some c) ws in
      if c = 0 \<or> f = [] then map_of d c
      else Some ((case map_of d c of None \<Rightarrow> [] | Some xs \<Rightarrow> xs) @ f))"
  by (induction ws arbitrary: d) (auto simp: map_of_add Let_def split: option.split)

lemma distinct_add: "distinct (map fst d) \<Longrightarrow> distinct (map fst (add_to_chain w d))"
  by (auto simp: add_to_chain_def AList.distinct_update split: option.split)

lemma distinct_fold_add: "distinct (map fst d) \<Longrightarrow> distinct (map fst (fold add_to_chain ws d))"
  by (induction ws arbitrary: d) (auto simp: distinct_add)

lemma map_of_group:
  "map_of (map (\<lambda>(c, ws). (c, f ws)) d) c = map_option f (map_of d c)"
  by (induction d) auto

lemma group_pending_spec':
  "map_of (group_pending hw pending block) c =
     (let ws = filter (\<lambda>w. pw_chain_id w = Some c \<and> eligible hw block w) pending in
      if c = 0 \<or> ws = [] then None else Some (sort_key pw_index ws))
   \<and> distinct (map fst (group_pending hw pending block))"
proof -
  have "filter (\<lambda>w. pw_chain_id w = Some c) (filter (eligible hw block) pending) =
      filter (\<lambda>w. pw_chain_id w = Some c \<and> eligible hw block w) pending"
    by (simp add: conj_commute)
  moreover have "map fst (group_pending hw pending block) =
      map fst (fold add_to_chain (filter (eligible hw block) pending) [])"
    by (simp add: group_pending_def case_prod_unfold)
  then have "distinct (map fst (group_pending hw pending block))" by (simp add: distinct_fold_add)
  ultimately show ?thesis
    by (simp add: group_pending_def map_of_group map_of_fold_add Let_def del: filter_filter map_map)
qed


section \<open>Catch-up only sends what is missing\<close>

text \<open>A row of the contract that a re-broadcast is for: resolved, its nonce not mined yet.\<close>

definition missing_row :: "'w w_env \<Rightarrow> int list \<Rightarrow> int \<Rightarrow> bool" where
  "missing_row env targets i \<longleftrightarrow>
     (\<exists>w w' r nonce. wx_withdrawal env i w = (Inr r, w') \<and> cw_resolved r
        \<and> wx_decode_uint64 env (cw_tx_identifier r) = Inr nonce \<and> nonce \<in> set targets)"

fun catch_up_event :: "'w w_env \<Rightarrow> int \<Rightarrow> int list \<Rightarrow> wevent \<Rightarrow> bool" where
  "catch_up_event env cid targets (WSubmit i) = False"
| "catch_up_event env cid targets (WSigned i x) = missing_row env targets i"
| "catch_up_event env cid targets (WOut c raw) = (c = cid \<and> (\<exists>i x. missing_row env targets i \<and> as_raw_tx_bytes env x = Inr raw))"
| "catch_up_event env cid targets (WAccepted c raw h) = (c = cid)"
| "catch_up_event env cid targets (WReceipt c h st) = (c = cid)"

lemma emits_fetch [emits_intros]:
  "(\<And>st. Q (WReceipt cid h st)) \<Longrightarrow> keeps (emits Q tr hw) (fetch_receipt env cid h)"
  unfolding fetch_receipt_def not_found_is_none_def
  by (auto intro!: keeps_intros emits_intros split: option.split exn.split)

lemma emits_check:
  "(\<And>h st. Q (WReceipt cid h st)) \<Longrightarrow> keeps (emits Q tr hw) (check_candidates env cid hs)"
  by (induction hs) (auto intro!: keeps_intros emits_intros split: option.split)

lemma emits_find:
  assumes "\<And>h st. Q (WReceipt cid h st)"
  shows "keeps (emits Q tr hw) (find_broadcast_tx env cid i x)"
  unfolding find_broadcast_tx_def not_found_is_none_def Let_def
  by (auto intro!: keeps_intros emits_intros emits_check assms split: verdict.split exn.split)

lemma emits_lift_bind:
  assumes "\<And>x. r = Inr x \<Longrightarrow> keeps P (f x)"
  shows "keeps P (py_bind (py_lift r) f)"
  using assms by (cases r) (auto simp: keeps_def py_bind_def py_lift_def)

lemma emits_send:
  assumes "\<And>raw. as_raw_tx_bytes env x = Inr raw \<Longrightarrow> Q (WOut cid raw)"
    and "\<And>raw h. as_raw_tx_bytes env x = Inr raw \<Longrightarrow> Q (WAccepted cid raw h)"
  shows "keeps (emits Q tr hw) (send_raw_transaction env cid x)"
  unfolding send_raw_transaction_def
  by (intro keeps_intros emits_lift_bind emits_intros) (auto intro: assms)

lemma emits_remember [emits_intros]: "keeps (emits Q tr hw) (remember_broadcast env cid i h)"
  unfolding remember_broadcast_def by (intro keeps_intros emits_field) simp_all

lemma emits_rebroadcast:
  assumes "missing_row env targets i"
  shows "keeps (emits (catch_up_event env cid targets) tr hw) (rebroadcast env cid i)"
  unfolding rebroadcast_def resolve_withdrawal_call_def
  using assms by (auto intro!: keeps_intros emits_intros emits_send emits_find)

lemma keeps_bind_Inr:
  assumes "keeps P m" and "\<And>x s t. m s = (Inr x, t) \<Longrightarrow> keeps P (f x)"
  shows "keeps P (py_bind m f)"
  unfolding keeps_def
proof (intro allI impI)
  fix s assume s: "P s"
  obtain r t where r: "m s = (r, t)" by fastforce
  have t: "P t" by (rule keepsD [OF assms(1) s r])
  show "P (snd (py_bind m f s))"
    using t r assms(2) by (cases r) (auto simp: py_bind_def keeps_def)
qed

lemma attempt_Inr: "attempt m s = (Inr (Some x), t) \<Longrightarrow> m s = (Inr x, t)"
  by (auto simp: attempt_def py_catch_def py_try_def py_bind_def py_ret_def py_raise_def
      split: prod.splits sum.splits if_splits)

lemma emits_scan:
  "keeps (emits (catch_up_event env cid targets) tr hw) (scan_missing env cid targets is found)"
proof (induction "is" arbitrary: found)
  case (Cons i "is")
  let ?K = "\<lambda>m. keeps (emits (catch_up_event env cid targets) tr hw) m"
  have row: "?K (case row of None \<Rightarrow> scan_missing env cid targets is found
        | Some r \<Rightarrow>
            if \<not> cw_resolved r then scan_missing env cid targets is found
            else if length (cw_tx_identifier r) < 32 then scan_missing env cid targets is found
            else
              py_bind (py_lift (wx_decode_uint64 env (cw_tx_identifier r))) (\<lambda>nonce.
              if nonce \<notin> set targets then scan_missing env cid targets is found
              else
                py_bind (attempt (on_service (get_token_context (wx_acc env) (cw_token_id r)))) (\<lambda>ctx.
                if (case ctx of None \<Rightarrow> 0 | Some c \<Rightarrow> tc_chain_id c) \<noteq> cid
                then scan_missing env cid targets is found
                else
                  py_bind (rebroadcast env cid i) (\<lambda>ok.
                  scan_missing env cid targets is (if ok then List.insert nonce found else found)))))"
    if read: "attempt (rate_limited_call env (w_await env (wx_withdrawal env i))) s = (Inr row, t)" for row s t
  proof (cases row)
    case (Some r)
    obtain w w' where w: "wx_withdrawal env i w = (Inr r, w')"
      using rate_limited_await_Inr [OF attempt_Inr [OF read [unfolded Some]]] by blast
    have missing: "missing_row env targets i"
      if "cw_resolved r" "wx_decode_uint64 env (cw_tx_identifier r) = Inr nonce" "nonce \<in> set targets" for nonce
      using w that unfolding missing_row_def by blast
    show ?thesis
      unfolding Some option.case
      by (intro keeps_if emits_lift_bind keeps_bind Cons.IH since_attempt emits_service emits_rebroadcast missing)
        simp_all
  qed (simp add: Cons.IH)
  show ?case
    unfolding scan_missing.simps
    by (intro keeps_if keeps_bind_Inr keeps_ret since_attempt emits_rate_limited emits_await row)
qed (simp add: keeps_ret)

text \<open>
  Catch-up sends nothing but what is missing. Whatever it submits, signs or hands out on a
  chain happens after the nonce gate has passed, and concerns withdrawals that the contract shows
  as resolved with a nonce from the first one the chain has not mined up to the last one the
  contract issued; it submits no resolution and moves no mark.
\<close>
theorem catch_up_only_missing:
  assumes "catch_up_chain env cid s = (r, t)"
  shows "wp_high_water t = wp_high_water s
    \<and> (\<exists>evs. wp_trace t = wp_trace s @ evs \<and> (evs = [] \<or>
         (\<exists>contract_next latest. gate_passed env cid contract_next latest
            \<and> (\<forall>e \<in> set evs. catch_up_event env cid [latest .. contract_next - 1] e))))"
proof -
  obtain st u where st: "chain_nonce_state env cid s = (st, u)" by fastforce
  have u: "emits (\<lambda>_. False) (wp_trace s) (wp_high_water s) u"
    using keepsD [OF emits_nonce_state _ st] by simp
  then have same: "wp_trace u = wp_trace s" "wp_high_water u = wp_high_water s" by (auto simp: emits_def)
  show ?thesis
  proof (cases "\<exists>c l. st = Inr (Some (c, l)) \<and> c \<noteq> l")
    case False
    then have "t = u" using assms st
      by (auto simp: catch_up_chain_def py_bind_def py_ret_def split: sum.splits option.splits if_splits)
    then show ?thesis using same by simp
  next
    case True
    then obtain c l where cl: "st = Inr (Some (c, l))" "c \<noteq> l" by blast
    have run: "broadcast_missing_for_chain env cid [l .. c - 1] u = (r, t)"
      using assms st cl by (simp add: catch_up_chain_def py_bind_def)
    have "keeps (emits (catch_up_event env cid [l .. c - 1]) (wp_trace s) (wp_high_water s))
        (broadcast_missing_for_chain env cid [l .. c - 1])"
      unfolding broadcast_missing_for_chain_def
      by (auto intro!: keeps_intros emits_service since_attempt emits_intros emits_scan split: option.split)
    moreover have "emits (catch_up_event env cid [l .. c - 1]) (wp_trace s) (wp_high_water s) u"
      using same by (simp add: emits_def)
    ultimately have "emits (catch_up_event env cid [l .. c - 1]) (wp_trace s) (wp_high_water s) t"
      using run by (rule keepsD)
    then show ?thesis using nonce_state_passed [OF st [unfolded cl(1)]] by (auto simp: emits_def)
  qed
qed

section \<open>Nothing is processed twice\<close>

definition marked_from :: "'w w_env \<Rightarrow> int \<Rightarrow> int \<Rightarrow> 'w wproc \<Rightarrow> bool" where
  "marked_from env c n s \<longleftrightarrow> broadcasts_ok env s \<and> (\<exists>m \<ge> n. wp_high_water s c = Some m)"

lemma marked_since:
  assumes "\<And>tr hw. keeps (since env tr hw) m"
  shows "keeps (marked_from env c n) m"
  unfolding keeps_def
proof (intro allI impI)
  fix s assume s: "marked_from env c n s"
  then have "since env (wp_trace s) (wp_high_water s) (snd (m s))"
    using assms since_refl unfolding keeps_def marked_from_def by blast
  then show "marked_from env c n (snd (m s))" using s by (simp add: marked_from_def since_def)
qed

lemma raise_grows: "wp_high_water s c = Some m \<Longrightarrow> \<exists>k \<ge> m. wp_high_water (raise_high_water cid i s) c = Some k"
  by (cases "c = cid") (auto simp: raise_high_water_def)

lemma marked_resolve: "keeps (marked_from env c n) (resolve_and_broadcast env w)"
  unfolding keeps_def
proof (intro allI impI)
  fix s assume s: "marked_from env c n s"
  obtain r t where run: "resolve_and_broadcast env w s = (r, t)" by fastforce
  have "broadcasts_ok env t" and
    "wp_high_water t = wp_high_water s \<or> (\<exists>cid. wp_high_water t = wp_high_water (raise_high_water cid (pw_index w) s))"
    using resolve_marks [OF _ run] s by (auto simp: marked_from_def split: option.splits if_splits)
  then show "marked_from env c n (snd (resolve_and_broadcast env w s))"
    using run s raise_grows order_trans unfolding marked_from_def by (fastforce simp del: fun_upd_apply)
qed

lemma marked_process: "keeps (marked_from env c n) (process_withdrawals env cid ws)"
proof (induction ws)
  case (Cons w ws)
  show ?case
    unfolding process_withdrawals.simps
    by (intro keeps_intros marked_resolve Cons marked_since [OF since_catch_up])
qed (simp add: keeps_ret)

lemma marked_chains: "keeps (marked_from env c n) (process_chains env by_chain)"
proof -
  have "keeps (marked_from env c n) (process_chain env cid ws)" for cid ws
    unfolding process_chain_def
    by (auto intro!: keeps_intros marked_process split: option.split) (intro marked_since since_intros)
  then show ?thesis
    by (induction env by_chain rule: process_chains.induct) (auto intro!: keeps_intros)
qed

lemma marked_loop: "keeps (marked_from env c n) (poll_loop k env j)"
proof -
  have "keeps (marked_from env c n) (poll env i)" for i
    unfolding poll_def by (intro keeps_intros marked_chains) (intro marked_since since_intros)+
  then show ?thesis
    by (induction k arbitrary: j) (auto intro!: keeps_intros marked_since [OF since_await])
qed

lemma below_mark:
  assumes "broadcasts_ok env s" and "wp_high_water s c = Some n"
    and "poll_loop k env j s = (r, t)" and "get_pending_by_chain env t = (Inr by_chain, u)"
    and "(c, ws) \<in> set by_chain" and "w \<in> set ws"
  shows "n < pw_index w"
proof -
  have "marked_from env c n s" using assms(1,2) by (auto simp: marked_from_def)
  from keepsD [OF marked_loop this assms(3)] have t: "marked_from env c n t" .
  consider "by_chain = []" | pending block v where "since env (wp_trace t) (wp_high_water t) v"
      "by_chain = group_pending (wp_high_water v) pending block"
  proof -
    obtain q v where q: "rate_limited_call env (on_service (get_all_pending_withdrawals (wx_acc env))) t = (q, v)"
      by fastforce
    have "since env (wp_trace t) (wp_high_water t) t" using t since_refl unfolding marked_from_def by blast
    then have v: "since env (wp_trace t) (wp_high_water t) v"
      using q by (rule keepsD [OF since_rate_limited [OF since_service]])
    show thesis
      using assms(4) q v that
      by (auto simp: get_pending_by_chain_def py_catch_def py_try_def py_bind_def py_get_def py_ret_def py_raise_def
          split: sum.splits if_splits prod.splits)
  qed
  then show ?thesis
  proof cases
    case (2 pending block v)
    obtain m where m: "m \<ge> n" "wp_high_water v c = Some m" using t 2(1) by (auto simp: marked_from_def since_def)
    have "map_of by_chain c = Some ws"
      using assms(5) 2(2) group_pending_spec' [of "wp_high_water v" pending block c]
      by (auto intro!: map_of_is_SomeI)
    then have "eligible (wp_high_water v) block w \<and> pw_chain_id w = Some c"
      using group_pending_spec' [of "wp_high_water v" pending block c] assms(6) 2(2)
      by (auto simp: Let_def split: if_splits)
    then show ?thesis using m by (auto simp: eligible_def)
  qed (use assms(5) in simp)
qed

text \<open>The indices a poll would offer for a chain.\<close>

definition offered :: "'w w_env \<Rightarrow> int \<Rightarrow> 'w wproc \<Rightarrow> int set" where
  "offered env c s = (case fst (get_pending_by_chain env s) of
     Inl _ \<Rightarrow> {} | Inr by_chain \<Rightarrow> pw_index ` \<Union> (set ` snd ` {e \<in> set by_chain. fst e = c}))"

lemma offered_above:
  assumes "broadcasts_ok env s" "wp_high_water s c = Some n" "i \<in> offered env c (snd (poll_loop k env j s))"
  shows "n < i"
proof -
  obtain by_chain u ws w where "get_pending_by_chain env (snd (poll_loop k env j s)) = (Inr by_chain, u)"
      "(c, ws) \<in> set by_chain" "w \<in> set ws" "i = pw_index w"
    using assms(3) unfolding offered_def
    by (cases "get_pending_by_chain env (snd (poll_loop k env j s))") (auto split: sum.splits)
  then show ?thesis using below_mark [OF assms(1,2) prod.collapse [symmetric]] by blast
qed

text \<open>
  Nothing is processed twice: after a withdrawal of a chain is marked, no later poll, however
  many have run, offers a withdrawal of that chain with that index or a lower one.
\<close>
theorem never_below_the_mark:
  assumes "broadcasts_ok env s" and "wp_high_water s c = Some n"
  shows "\<forall>i \<in> offered env c (snd (poll_loop k env j s)). n < i"
  using offered_above [OF assms] by blast

end
