(* ===== verification/Disk_Cache.thy ===== *)
theory Disk_Cache
  imports Privana_Prelude
begin

text \<open>
  The disk caches behind the stores of \<^verbatim>\<open>src/auth/\<close> (package \<open>diskcache\<close>): tables shared by all
  worker processes, each entry with an expiry time. The package is a parameter: what each call
  returns is up to the environment, and other workers act on the tables between any two calls
  of a handler. What the model keeps is the history of the calls, and what the code relies on is
  stated of histories: a read returns the value of the last write that no removal followed and
  that has not expired (\<open>legal\<close>), and it does return it unless it was removed or has expired
  (\<open>lossless\<close>). Times are in microseconds.
\<close>

section \<open>Histories\<close>

datatype store = Tokens | Codes | Limits

type_synonym ckey = "store \<times> string"

record auth_code =
  co_user_address :: string
  co_client_id :: string
  co_redirect_uri :: string
  co_code_challenge :: string
  co_code_challenge_method :: string

record limit_entry =
  li_count :: int
  li_reset_at :: int

datatype cell = Text string | Code auth_code | Limit limit_entry

text \<open>
  A write carries the time after which the entry is gone; a read and a removal the time they
  happened at and what they returned.
\<close>

datatype event =
    CSet ckey cell int
  | CGet ckey "cell option" int
  | CHas ckey bool int
  | CPop ckey "cell option" int
  | CDelete ckey bool int

type_synonym table = "ckey \<rightharpoonup> cell \<times> int"

fun event_step :: "event \<Rightarrow> table \<Rightarrow> table" where
  "event_step (CSet k v x) m = m(k \<mapsto> (v, x))"
| "event_step (CPop k (Some v) t) m = m(k := None)"
| "event_step (CDelete k True t) m = m(k := None)"
| "event_step _ m = m"

definition after :: "table \<Rightarrow> event list \<Rightarrow> table" where
  "after m log = fold event_step log m"

definition live :: "table \<Rightarrow> ckey \<Rightarrow> int \<Rightarrow> cell option" where
  "live m k t = (case m k of None \<Rightarrow> None | Some (v, x) \<Rightarrow> if t < x then Some v else None)"

fun fits :: "table \<Rightarrow> event \<Rightarrow> bool" where
  "fits m (CGet k (Some v) t) = (live m k t = Some v)"
| "fits m (CPop k (Some v) t) = (live m k t = Some v)"
| "fits m (CHas k True t) = (live m k t \<noteq> None)"
| "fits m (CDelete k True t) = (live m k t \<noteq> None)"
| "fits m _ = True"

fun keeps_entries :: "table \<Rightarrow> event \<Rightarrow> bool" where
  "keeps_entries m (CGet k None t) = (live m k t = None)"
| "keeps_entries m (CPop k None t) = (live m k t = None)"
| "keeps_entries m (CHas k False t) = (live m k t = None)"
| "keeps_entries m (CDelete k False t) = (live m k t = None)"
| "keeps_entries m _ = True"

fun along :: "(table \<Rightarrow> event \<Rightarrow> bool) \<Rightarrow> table \<Rightarrow> event list \<Rightarrow> bool" where
  "along P m [] = True"
| "along P m (e # es) = (P m e \<and> along P (event_step e m) es)"

definition legal :: "table \<Rightarrow> event list \<Rightarrow> bool" where "legal = along fits"

definition lossless :: "table \<Rightarrow> event list \<Rightarrow> bool" where "lossless = along keeps_entries"

lemma along_append: "along P m (a @ b) \<longleftrightarrow> along P m a \<and> along P (after m a) b"
  by (induction a arbitrary: m) (auto simp: after_def)

lemma after_append: "after m (a @ b) = after (after m a) b"
  by (simp add: after_def)

lemma after_simps [simp]: "after m [] = m" "after m (e # es) = after (event_step e m) es"
  by (simp_all add: after_def)

lemma legal_append: "legal m (a @ b) \<longleftrightarrow> legal m a \<and> legal (after m a) b"
  by (simp add: legal_def along_append)

lemma legal_Cons [simp]: "legal m (e # es) \<longleftrightarrow> fits m e \<and> legal (event_step e m) es"
  by (simp add: legal_def)

lemma legal_Nil [simp]: "legal m []"
  by (simp add: legal_def)

lemma lossless_append: "lossless m (a @ b) \<longleftrightarrow> lossless m a \<and> lossless (after m a) b"
  by (simp add: lossless_def along_append)

lemma lossless_Cons [simp]: "lossless m (e # es) \<longleftrightarrow> keeps_entries m e \<and> lossless (event_step e m) es"
  by (simp add: lossless_def)

lemma lossless_Nil [simp]: "lossless m []"
  by (simp add: lossless_def)

text \<open>How often an entry was written, and how often it was taken out by a \<open>pop\<close>.\<close>

definition writes :: "ckey \<Rightarrow> event list \<Rightarrow> nat" where
  "writes k log = length (List.filter (\<lambda>e. case e of CSet k' v x \<Rightarrow> k' = k | _ \<Rightarrow> False) log)"

definition takes :: "ckey \<Rightarrow> event list \<Rightarrow> nat" where
  "takes k log = length (List.filter (\<lambda>e. case e of CPop k' (Some v) t \<Rightarrow> k' = k | _ \<Rightarrow> False) log)"

lemma writes_append [simp]: "writes k (a @ b) = writes k a + writes k b"
  by (simp add: writes_def)

lemma takes_append [simp]: "takes k (a @ b) = takes k a + takes k b"
  by (simp add: takes_def)

text \<open>An entry is taken out at most as often as it was put in.\<close>

lemma takes_le_writes: "legal m log \<Longrightarrow> takes k log \<le> writes k log + (if m k = None then 0 else 1)"
proof (induction log arbitrary: m)
  case Nil
  then show ?case by (simp add: takes_def)
next
  case (Cons e log)
  then have IH: "takes k log \<le> writes k log + (if event_step e m k = None then 0 else 1)"
    and f: "fits m e" by auto
  show ?case
  proof (cases e)
    case (CPop k' r t)
    then show ?thesis
      using IH f by (cases r) (auto simp: takes_def writes_def live_def split: option.splits if_splits)
  next
    case (CDelete k' r t)
    then show ?thesis
      using IH f by (cases r) (auto simp: takes_def writes_def split: if_splits)
  qed (use IH in \<open>auto simp: takes_def writes_def split: if_splits\<close>)
qed

section \<open>Calls\<close>

record 'w disk =
  dk_now :: "'w \<Rightarrow> int"
  dk_others :: "'w \<Rightarrow> event list \<times> 'w"
  dk_get :: "ckey \<Rightarrow> 'w \<Rightarrow> (exn + cell option) \<times> 'w"
  dk_set :: "ckey \<Rightarrow> cell \<Rightarrow> int \<Rightarrow> 'w \<Rightarrow> (exn + unit) \<times> 'w"
  dk_contains :: "ckey \<Rightarrow> 'w \<Rightarrow> (exn + bool) \<times> 'w"
  dk_pop :: "ckey \<Rightarrow> 'w \<Rightarrow> (exn + cell option) \<times> 'w"
  dk_delete :: "ckey \<Rightarrow> 'w \<Rightarrow> (exn + bool) \<times> 'w"
  dk_keys :: "store \<Rightarrow> 'w \<Rightarrow> (exn + string list) \<times> 'w"

record 'w auth =
  au_world :: 'w
  au_log :: "event list"

text \<open>A call of the outside world that touches no table.\<close>

definition outside :: "('w \<Rightarrow> (exn + 'a) \<times> 'w) \<Rightarrow> ('w auth, 'a) py" where
  "outside f = (\<lambda>s. case f (au_world s) of (r, w) \<Rightarrow> (r, s\<lparr>au_world := w\<rparr>))"

definition reading :: "('w \<Rightarrow> 'a) \<Rightarrow> ('w auth, 'a) py" where
  "reading f = (\<lambda>s. (Inr (f (au_world s)), s))"

text \<open>What other workers have done to the tables up to now.\<close>

definition others :: "'w disk \<Rightarrow> ('w auth, unit) py" where
  "others d = (\<lambda>s. case dk_others d (au_world s) of (es, w) \<Rightarrow>
     (Inr (), s\<lparr>au_world := w, au_log := au_log s @ es\<rparr>))"

text \<open>
  One call on a table, at one moment; \<open>tr\<close> is the event it makes of what it returned. A call
  that raises (the database is locked) has done nothing.
\<close>

definition atomic_call ::
    "'w disk \<Rightarrow> ('w \<Rightarrow> (exn + 'a) \<times> 'w) \<Rightarrow> ('a \<Rightarrow> int \<Rightarrow> event list) \<Rightarrow> ('w auth, 'a) py" where
  "atomic_call d f tr = (\<lambda>s. case f (au_world s) of (r, w) \<Rightarrow>
     (r, s\<lparr>au_world := w,
           au_log := au_log s @ (case r of Inl e \<Rightarrow> [] | Inr x \<Rightarrow> tr x (dk_now d (au_world s)))\<rparr>))"

definition locked_get :: "'w disk \<Rightarrow> ckey \<Rightarrow> ('w auth, cell option) py" where
  "locked_get d k = atomic_call d (dk_get d k) (\<lambda>v t. [CGet k v t])"

definition locked_set :: "'w disk \<Rightarrow> ckey \<Rightarrow> cell \<Rightarrow> int \<Rightarrow> ('w auth, unit) py" where
  "locked_set d k v ttl = atomic_call d (dk_set d k v ttl) (\<lambda>u t. [CSet k v (t + ttl)])"

definition cache_get :: "'w disk \<Rightarrow> ckey \<Rightarrow> ('w auth, cell option) py" where
  "cache_get d k = py_then (others d) (locked_get d k)"

definition cache_set :: "'w disk \<Rightarrow> ckey \<Rightarrow> cell \<Rightarrow> int \<Rightarrow> ('w auth, unit) py" where
  "cache_set d k v ttl = py_then (others d) (locked_set d k v ttl)"

definition cache_contains :: "'w disk \<Rightarrow> ckey \<Rightarrow> ('w auth, bool) py" where
  "cache_contains d k = py_then (others d) (atomic_call d (dk_contains d k) (\<lambda>b t. [CHas k b t]))"

definition cache_pop :: "'w disk \<Rightarrow> ckey \<Rightarrow> ('w auth, cell option) py" where
  "cache_pop d k = py_then (others d) (atomic_call d (dk_pop d k) (\<lambda>v t. [CPop k v t]))"

definition cache_delete :: "'w disk \<Rightarrow> ckey \<Rightarrow> ('w auth, bool) py" where
  "cache_delete d k = py_then (others d) (atomic_call d (dk_delete d k) (\<lambda>b t. [CDelete k b t]))"

definition cache_keys :: "'w disk \<Rightarrow> store \<Rightarrow> ('w auth, string list) py" where
  "cache_keys d st = py_then (others d) (outside (dk_keys d st))"

section \<open>Histories only grow\<close>

lemma keeps_option [keeps_intros]:
  "(x = None \<Longrightarrow> keeps P a) \<Longrightarrow> (\<And>y. x = Some y \<Longrightarrow> keeps P (f y)) \<Longrightarrow> keeps P (case x of None \<Rightarrow> a | Some y \<Rightarrow> f y)"
  by (cases x) auto

lemma keeps_sum [keeps_intros]:
  "(\<And>e. x = Inl e \<Longrightarrow> keeps P (g e)) \<Longrightarrow> (\<And>y. x = Inr y \<Longrightarrow> keeps P (f y)) \<Longrightarrow> keeps P (case x of Inl e \<Rightarrow> g e | Inr y \<Rightarrow> f y)"
  by (cases x) auto

definition since_log :: "event list \<Rightarrow> 'w auth \<Rightarrow> bool" where
  "since_log l t \<longleftrightarrow> (\<exists>es. au_log t = l @ es)"

named_theorems grows_intros \<open>calls that only add to the history\<close>

lemma since_log_refl [simp]: "since_log (au_log s) s"
  by (simp add: since_log_def)

lemma grows: "keeps (since_log (au_log s)) m \<Longrightarrow> m s = (r, t) \<Longrightarrow> \<exists>es. au_log t = au_log s @ es"
  using keepsD [of "since_log (au_log s)" m s r t] by (simp add: since_log_def)

lemma grows_outside [grows_intros]: "keeps (since_log l) (outside f)"
  by (auto simp: keeps_def outside_def since_log_def split: prod.split)

lemma grows_reading [grows_intros]: "keeps P (reading f)"
  by (simp add: keeps_def reading_def)

lemma grows_others [grows_intros]: "keeps (since_log l) (others d)"
  by (auto simp: keeps_def others_def since_log_def split: prod.split)

lemma grows_atomic [grows_intros]: "keeps (since_log l) (atomic_call d f tr)"
  by (auto simp: keeps_def atomic_call_def since_log_def split: prod.split)

lemma grows_calls [grows_intros]:
  "keeps (since_log l) (locked_get d k)" "keeps (since_log l) (locked_set d k v ttl)"
  "keeps (since_log l) (cache_get d k)" "keeps (since_log l) (cache_set d k v ttl)"
  "keeps (since_log l) (cache_contains d k)" "keeps (since_log l) (cache_pop d k)"
  "keeps (since_log l) (cache_delete d k)" "keeps (since_log l) (cache_keys d st)"
  unfolding locked_get_def locked_set_def cache_get_def cache_set_def cache_contains_def cache_pop_def
    cache_delete_def cache_keys_def
  by (intro keeps_intros grows_intros)+

text \<open>What a call leaves in the history when it returns.\<close>

lemma others_Inr: "others d s = (Inr u, t) \<Longrightarrow> \<exists>es. au_log t = au_log s @ es"
  by (auto simp: others_def split: prod.splits)

lemma atomic_call_Inr:
  "atomic_call d f tr s = (Inr x, t) \<Longrightarrow>
    au_log t = au_log s @ tr x (dk_now d (au_world s)) \<and> f (au_world s) = (Inr x, au_world t)"
  by (auto simp: atomic_call_def split: prod.splits)

lemma cache_call_Inr:
  assumes "py_then (others d) (atomic_call d f tr) s = (Inr x, t)"
  obtains es now where "au_log t = au_log s @ es @ tr x now"
  using assms by (auto simp: py_then_Inr dest!: others_Inr atomic_call_Inr)

lemma cache_pop_Inr:
  assumes "cache_pop d k s = (Inr v, t)"
  obtains es now where "au_log t = au_log s @ es @ [CPop k v now]"
  using cache_call_Inr [OF assms [unfolded cache_pop_def]] .

lemma cache_get_Inr:
  assumes "cache_get d k s = (Inr v, t)"
  obtains es now where "au_log t = au_log s @ es @ [CGet k v now]"
  using cache_call_Inr [OF assms [unfolded cache_get_def locked_get_def]] .

lemma cache_set_Inr:
  assumes "cache_set d k v ttl s = (Inr u, t)"
  obtains es now where "au_log t = au_log s @ es @ [CSet k v (now + ttl)]"
  using cache_call_Inr [OF assms [unfolded cache_set_def locked_set_def]] .

lemma cache_contains_Inr:
  assumes "cache_contains d k s = (Inr b, t)"
  obtains es now where "au_log t = au_log s @ es @ [CHas k b now]"
  using cache_call_Inr [OF assms [unfolded cache_contains_def]] .

end
