(* ===== verification/Url_Parts.thy ===== *)
theory Url_Parts
  imports Privana_Prelude
begin

text \<open>
  What \<^verbatim>\<open>src/auth/siwe_config.py\<close>, \<^verbatim>\<open>src/auth/client_registry.py\<close> and
  \<^verbatim>\<open>src/auth/rate_limiter.py\<close> use of Python's standard library: \<open>urllib.parse.urlsplit\<close> with
  the properties of its result, \<open>urlunsplit\<close>, and the part of \<open>ipaddress.ip_address\<close> that says
  which texts are addresses. The texts are ASCII: \<open>str.lower\<close> is \<open>ascii_lower\<close>, and the NFKC
  check of a netloc with other characters has nothing to look at.
\<close>

section \<open>Splitting texts\<close>

text \<open>\<open>s.partition(c)\<close> and \<open>s.rpartition(c)\<close>, the separator as a flag; \<open>s.split(c)\<close>.\<close>

definition py_partition :: "char \<Rightarrow> string \<Rightarrow> string \<times> bool \<times> string" where
  "py_partition c s =
     (let a = takeWhile (\<lambda>d. d \<noteq> c) s in (a, c \<in> set s, drop (Suc (length a)) s))"

definition py_rpartition :: "char \<Rightarrow> string \<Rightarrow> string \<times> bool \<times> string" where
  "py_rpartition c s =
     (let b = rev (takeWhile (\<lambda>d. d \<noteq> c) (rev s))
      in if c \<in> set s then (take (length s - length b - 1) s, True, b) else ([], False, s))"

fun py_split :: "char \<Rightarrow> string \<Rightarrow> string list" where
  "py_split c [] = [[]]"
| "py_split c (d # s) =
     (if d = c then [] # py_split c s
      else case py_split c s of [] \<Rightarrow> [[d]] | p # ps \<Rightarrow> (d # p) # ps)"

lemma py_split_not_Nil [simp]: "py_split c s \<noteq> []"
  by (cases s) (auto split: list.splits)

lemma py_split_none: "c \<notin> set s \<Longrightarrow> py_split c s = [s]"
  by (induction s) auto

section \<open>Decimal and hexadecimal characters\<close>

definition is_digit :: "char \<Rightarrow> bool" where
  "is_digit c \<longleftrightarrow> 48 \<le> (of_char c :: nat) \<and> (of_char c :: nat) \<le> 57"

definition is_alpha :: "char \<Rightarrow> bool" where
  "is_alpha c = (let n = (of_char c :: nat) in (65 \<le> n \<and> n \<le> 90) \<or> (97 \<le> n \<and> n \<le> 122))"

definition dec_value :: "string \<Rightarrow> nat" where
  "dec_value s = foldl (\<lambda>acc c. acc * 10 + (of_char c - 48)) 0 s"

lemma dec_value_snoc: "dec_value (s @ [c]) = dec_value s * 10 + (of_char c - 48)"
  by (simp add: dec_value_def)

lemma digit_char: "n < 10 \<Longrightarrow> of_char (char_of (48 + n :: nat)) = 48 + n"
  by (simp add: of_char_of)

lemma dec_value_nat_text [simp]: "dec_value (nat_text n) = n"
proof (induction n rule: nat_text.induct)
  case (1 n)
  show ?case
  proof (cases "n < 10")
    case True
    then show ?thesis
      by (subst nat_text.simps) (simp add: dec_value_def digit_char del: char_of_nat)
  next
    case False
    then show ?thesis
      using 1 by (subst nat_text.simps) (simp add: dec_value_snoc digit_char)
  qed
qed

lemma nat_text_digits: "c \<in> set (nat_text n) \<Longrightarrow> is_digit c"
proof (induction n rule: nat_text.induct)
  case (1 n)
  show ?case
  proof (cases "n < 10")
    case True
    then show ?thesis
      using "1.prems" by (subst (asm) nat_text.simps) (auto simp: is_digit_def digit_char)
  next
    case False
    then show ?thesis
      using 1 by (subst (asm) (2) nat_text.simps) (auto simp: is_digit_def digit_char)
  qed
qed

lemma nat_text_not_Nil [simp]: "nat_text n \<noteq> []"
  by (subst nat_text.simps) simp

text \<open>Lower-casing moves nothing but the capital letters.\<close>

lemma ascii_lower_char_fixed: "\<not> is_alpha d \<Longrightarrow> ascii_lower_char c = d \<longleftrightarrow> c = d"
  by (auto simp: ascii_lower_char_def is_alpha_def Let_def)

lemma digit_not_alpha: "is_digit c \<Longrightarrow> \<not> is_alpha c"
  by (auto simp: is_digit_def is_alpha_def Let_def)

lemma is_digit_lower [simp]: "is_digit (ascii_lower_char c) = is_digit c"
  by (auto simp: ascii_lower_char_def is_digit_def Let_def)

lemma hex_value_lower [simp]: "hex_value (ascii_lower_char c) = hex_value c"
  by (auto simp: ascii_lower_char_def hex_value_def Let_def)

lemma in_set_ascii_lower: "\<not> is_alpha d \<Longrightarrow> d \<in> set (ascii_lower s) \<longleftrightarrow> d \<in> set s"
  by (auto simp: ascii_lower_def image_iff ascii_lower_char_fixed) (metis ascii_lower_char_fixed)+

lemma ascii_lower_eq_Nil [simp]: "ascii_lower s = [] \<longleftrightarrow> s = []"
  by (simp add: ascii_lower_def)

lemma takeWhile_ascii_lower:
  "\<not> is_alpha d \<Longrightarrow> takeWhile (\<lambda>c. c \<noteq> d) (ascii_lower s) = ascii_lower (takeWhile (\<lambda>c. c \<noteq> d) s)"
  by (induction s) (auto simp: ascii_lower_def ascii_lower_char_fixed)

lemma py_split_ascii_lower:
  "\<not> is_alpha d \<Longrightarrow> py_split d (ascii_lower s) = map ascii_lower (py_split d s)"
proof (induction s)
  case Nil
  then show ?case by (simp add: ascii_lower_def)
next
  case (Cons c s)
  then have IH: "py_split d (map ascii_lower_char s) = map ascii_lower (py_split d s)"
    by (simp add: ascii_lower_def)
  show ?case
    using Cons.prems
    by (cases "py_split d s") (auto simp: IH ascii_lower_def [of "c # s"] ascii_lower_def ascii_lower_char_fixed)
qed

section \<open>IP addresses\<close>

definition octet_ok :: "string \<Rightarrow> bool" where
  "octet_ok p \<longleftrightarrow> p \<noteq> [] \<and> list_all is_digit p \<and> length p \<le> 3
     \<and> (p = ''0'' \<or> hd p \<noteq> CHR ''0'') \<and> dec_value p \<le> 255"

definition ipv4_ok :: "string \<Rightarrow> bool" where
  "ipv4_ok s \<longleftrightarrow>
     (let os = py_split (CHR ''.'') s in
      CHR ''/'' \<notin> set s \<and> s \<noteq> [] \<and> length os = 4 \<and> list_all octet_ok os)"

definition hextet_ok :: "string \<Rightarrow> bool" where
  "hextet_ok p \<longleftrightarrow> p \<noteq> [] \<and> list_all (\<lambda>c. hex_value c \<noteq> None) p \<and> length p \<le> 4"

text \<open>
  The parts between colons once a dotted tail has been replaced by two hextets. \<open>inner_empty\<close>
  lists the positions of the empty parts that are not at an end.
\<close>

definition inner_empty :: "string list \<Rightarrow> nat list" where
  "inner_empty ps = List.filter (\<lambda>i. ps ! i = []) [1 ..< length ps - 1]"

definition hextets_ok :: "string list \<Rightarrow> bool" where
  "hextets_ok ps \<longleftrightarrow>
     (case inner_empty ps of
        [] \<Rightarrow> length ps = 8 \<and> list_all hextet_ok ps
      | [k] \<Rightarrow>
          (let n = length ps;
               hi = (if ps ! 0 = [] then k - 1 else k);
               lo = (if ps ! (n - 1) = [] then n - k - 2 else n - k - 1)
           in (ps ! 0 = [] \<longrightarrow> hi = 0) \<and> (ps ! (n - 1) = [] \<longrightarrow> lo = 0) \<and> hi + lo \<le> 7
              \<and> list_all hextet_ok (take hi ps) \<and> list_all hextet_ok (drop (n - lo) ps))
      | _ \<Rightarrow> False)"

definition ipv6_parts :: "string \<Rightarrow> string list option" where
  "ipv6_parts addr =
     (let ps = py_split (CHR '':'') addr in
      if length ps < 3 then None
      else if CHR ''.'' \<in> set (List.last ps) then
        (if ipv4_ok (List.last ps) then Some (butlast ps @ [''0'', ''0'']) else None)
      else Some ps)"

definition ipv6_ok :: "string \<Rightarrow> bool" where
  "ipv6_ok s \<longleftrightarrow>
     (case py_partition (CHR ''%'') s of (addr, scoped, zone) \<Rightarrow>
        CHR ''/'' \<notin> set s \<and> (scoped \<longrightarrow> zone \<noteq> [] \<and> CHR ''%'' \<notin> set zone)
      \<and> (case ipv6_parts addr of
           None \<Rightarrow> False
         | Some ps \<Rightarrow> length ps \<le> 9 \<and> hextets_ok ps))"

definition ip_address_ok :: "string \<Rightarrow> bool" where
  "ip_address_ok s \<longleftrightarrow> ipv4_ok s \<or> ipv6_ok s"

lemma ip_address_samples:
  "ipv6_ok ''::1'' \<and> ipv6_ok ''fe80::1%eth0'' \<and> ipv6_ok ''::ffff:1.2.3.4'' \<and> \<not> ipv6_ok '':1:2:3:4:5:6:7:8''
  \<and> \<not> ipv6_ok ''1::2::3'' \<and> ipv6_ok ''1:2:3:4:5:6:7:8'' \<and> ipv6_ok ''1:2:3:4:5:6:7::'' \<and> \<not> ipv6_ok ''1:2:3:4:5:6:7:8::''
  \<and> ip_address_ok ''10.0.0.255'' \<and> \<not> ip_address_ok ''10.0.0.256'' \<and> \<not> ip_address_ok ''10.0.01.2'' \<and> ipv6_ok ''::''"
  by code_simp

text \<open>Lower-casing an address does not change whether it is one.\<close>

lemma octet_ok_lower [simp]: "octet_ok (ascii_lower p) = octet_ok p"
proof -
  have digits: "ascii_lower q = q" if "list_all is_digit q" for q
    using that by (induction q) (auto simp: ascii_lower_def ascii_lower_char_def is_digit_def)
  have "list_all is_digit (ascii_lower p) = list_all is_digit p"
    by (simp add: ascii_lower_def list_all_length)
  then show ?thesis
    by (cases "list_all is_digit p") (auto simp: octet_ok_def digits)
qed

lemma ipv4_ok_lower [simp]: "ipv4_ok (ascii_lower s) = ipv4_ok s"
  by (simp add: ipv4_ok_def Let_def py_split_ascii_lower is_alpha_def in_set_ascii_lower
      list.pred_map comp_def)

lemma hextet_ok_lower [simp]: "hextet_ok (ascii_lower p) = hextet_ok p"
  by (simp add: hextet_ok_def) (simp add: ascii_lower_def list.pred_map comp_def)

lemma inner_empty_lower [simp]: "inner_empty (map ascii_lower ps) = inner_empty ps"
  unfolding inner_empty_def by (rule filter_cong) auto

lemma inner_empty_nonempty: "inner_empty ps = k # ks \<Longrightarrow> 1 < length ps"
  by (rule ccontr) (simp add: inner_empty_def)

lemma hextets_ok_lower [simp]: "hextets_ok (map ascii_lower ps) = hextets_ok ps"
proof (cases "inner_empty ps")
  case Nil
  then show ?thesis by (simp add: hextets_ok_def list.pred_map comp_def)
next
  case (Cons k ks)
  then have len: "1 < length ps" by (rule inner_empty_nonempty)
  show ?thesis
  proof (cases ks)
    case Nil
    have "map ascii_lower ps ! 0 = [] \<longleftrightarrow> ps ! 0 = []"
      "map ascii_lower ps ! (length ps - 1) = [] \<longleftrightarrow> ps ! (length ps - 1) = []"
      using len by (cases ps; simp)+
    then show ?thesis
      by (simp add: hextets_ok_def Cons Nil Let_def take_map drop_map list.pred_map comp_def)
  qed (simp add: hextets_ok_def Cons)
qed

lemma ipv6_parts_lower: "ipv6_parts (ascii_lower s) = map_option (map ascii_lower) (ipv6_parts s)"
proof -
  let ?ps = "py_split (CHR '':'') s"
  have ps: "py_split (CHR '':'') (ascii_lower s) = map ascii_lower ?ps"
    by (simp add: py_split_ascii_lower is_alpha_def)
  have "List.last (map ascii_lower ?ps) = ascii_lower (List.last ?ps)"
    by (simp add: last_map)
  moreover have "ascii_lower ''0'' = ''0''" by code_simp
  ultimately show ?thesis
    unfolding ipv6_parts_def Let_def ps
    by (simp add: in_set_ascii_lower is_alpha_def map_butlast)
qed

lemma drop_ascii_lower: "drop n (ascii_lower s) = ascii_lower (drop n s)"
  by (simp add: ascii_lower_def drop_map)

lemma ipv6_ok_lower [simp]: "ipv6_ok (ascii_lower s) = ipv6_ok s"
  by (simp add: ipv6_ok_def py_partition_def Let_def takeWhile_ascii_lower is_alpha_def
      in_set_ascii_lower drop_ascii_lower ipv6_parts_lower split: option.split)

lemma ipv6_ok_colon: "ipv6_ok s \<Longrightarrow> CHR '':'' \<in> set s"
proof (rule ccontr)
  assume ok: "ipv6_ok s" and "CHR '':'' \<notin> set s"
  then have "CHR '':'' \<notin> set (takeWhile (\<lambda>d. d \<noteq> CHR ''%'') s)"
    by (auto dest: set_takeWhileD)
  then have "ipv6_parts (takeWhile (\<lambda>d. d \<noteq> CHR ''%'') s) = None"
    by (simp add: ipv6_parts_def py_split_none)
  then show False
    using ok by (simp add: ipv6_ok_def py_partition_def Let_def)
qed

lemma hextets_ok_first:
  assumes "hextets_ok ps" and "ps ! 0 \<noteq> []" and "ps \<noteq> []"
  shows "hextet_ok (ps ! 0)"
proof (cases "inner_empty ps")
  case Nil
  then show ?thesis
    using assms by (auto simp: hextets_ok_def list_all_length)
next
  case (Cons k ks)
  have "k \<in> set (inner_empty ps)" by (simp add: Cons)
  then have k: "1 \<le> k" "k < length ps" by (auto simp: inner_empty_def)
  have "ks = []"
    using assms Cons by (cases ks) (auto simp: hextets_ok_def)
  then have "list_all hextet_ok (take k ps)"
    using assms Cons by (simp add: hextets_ok_def Let_def)
  then show ?thesis
    using k by (auto simp: list_all_length)
qed

lemma py_split_hd: "hd (py_split c s) = takeWhile (\<lambda>d. d \<noteq> c) s"
  by (induction s) (auto split: list.splits)

lemma ipv6_ok_first: "ipv6_ok (c # s) \<Longrightarrow> c = CHR '':'' \<or> hex_value c \<noteq> None"
proof (rule ccontr)
  let ?a = "takeWhile (\<lambda>d. d \<noteq> CHR ''%'') (c # s)" and ?ps = "py_split (CHR '':'') (takeWhile (\<lambda>d. d \<noteq> CHR ''%'') (c # s))"
  assume ok: "ipv6_ok (c # s)" and no: "\<not> (c = CHR '':'' \<or> hex_value c \<noteq> None)"
  from ok obtain ps where ps: "ipv6_parts ?a = Some ps" and good: "hextets_ok ps"
    by (auto simp: ipv6_ok_def py_partition_def Let_def split: option.splits)
  have len: "3 \<le> length ?ps"
    using ps by (auto simp: ipv6_parts_def Let_def split: if_splits)
  then have ne: "?ps \<noteq> []" by auto
  have first: "ps ! 0 = hd ?ps"
    using ps len by (cases ?ps) (auto simp: ipv6_parts_def Let_def nth_append split: if_splits)
  have len': "ps \<noteq> []"
    using ps len by (auto simp: ipv6_parts_def Let_def split: if_splits)
  show False
  proof (cases "c = CHR ''%''")
    case True
    then show False
      using len by simp
  next
    case False
    then have head: "ps ! 0 = c # takeWhile (\<lambda>d. d \<noteq> CHR '':'') (takeWhile (\<lambda>d. d \<noteq> CHR ''%'') s)"
      unfolding first py_split_hd using no by simp
    then have "ps ! 0 \<noteq> []" by simp
    from hextets_ok_first [OF good this len'] show False
      using no by (simp add: head hextet_ok_def)
  qed
qed

section \<open>The parts of a URL\<close>

record split_result =
  sp_scheme :: string
  sp_netloc :: string
  sp_path :: string
  sp_query :: string
  sp_fragment :: string

definition scheme_char :: "char \<Rightarrow> bool" where
  "scheme_char c \<longleftrightarrow> is_alpha c \<or> is_digit c \<or> c \<in> set ''+-.''"

definition url_clean :: "string \<Rightarrow> string" where
  "url_clean url =
     List.filter (\<lambda>c. (of_char c :: nat) \<notin> {9, 10, 13}) (dropWhile (\<lambda>c. (of_char c :: nat) \<le> 32) url)"

definition split_scheme :: "string \<Rightarrow> string \<times> string" where
  "split_scheme url =
     (case py_partition (CHR '':'') url of (pre, found, rest) \<Rightarrow>
        if found \<and> pre \<noteq> [] \<and> is_alpha (hd pre) \<and> list_all scheme_char pre
        then (ascii_lower pre, rest) else ([], url))"

definition netloc_end :: "char \<Rightarrow> bool" where
  "netloc_end c \<longleftrightarrow> c \<in> set ''/?#''"

text \<open>\<open>_check_bracketed_host\<close> and \<open>_check_bracketed_netloc\<close>.\<close>

definition ipvfuture_ok :: "string \<Rightarrow> bool" where
  "ipvfuture_ok h \<longleftrightarrow>
     (case py_partition (CHR ''.'') (drop 1 h) of (version, dot, rest) \<Rightarrow>
        take 1 h = ''v'' \<and> dot \<and> version \<noteq> [] \<and> list_all (\<lambda>c. hex_value c \<noteq> None) version
      \<and> rest \<noteq> [] \<and> (\<forall>c \<in> set rest. (of_char c :: nat) \<noteq> 10))"

definition bracketed_host_ok :: "string \<Rightarrow> bool" where
  "bracketed_host_ok h = (if take 1 h = ''v'' then ipvfuture_ok h else ipv6_ok h)"

definition bracketed_netloc_ok :: "string \<Rightarrow> bool" where
  "bracketed_netloc_ok netloc =
     (case py_rpartition (CHR ''@'') netloc of (_, _, host_port) \<Rightarrow>
      case py_partition (CHR ''['') host_port of (pre, bracket, bracketed) \<Rightarrow>
        if bracket
        then (case py_partition (CHR '']'') bracketed of (host, _, port) \<Rightarrow>
                pre = [] \<and> (port = [] \<or> take 1 port = '':'') \<and> bracketed_host_ok host)
        else bracketed_host_ok (fst (py_partition (CHR '':'') host_port)))"

definition netloc_ok :: "string \<Rightarrow> bool" where
  "netloc_ok netloc \<longleftrightarrow>
     (CHR ''['' \<in> set netloc \<longleftrightarrow> CHR '']'' \<in> set netloc)
   \<and> (CHR ''['' \<in> set netloc \<longrightarrow> bracketed_netloc_ok netloc)"

definition urlsplit :: "string \<Rightarrow> exn + split_result" where
  "urlsplit url =
     (case split_scheme (url_clean url) of (scheme, rest) \<Rightarrow>
      let (netloc, rest) =
            (if take 2 rest = ''//''
             then (takeWhile (\<lambda>c. \<not> netloc_end c) (drop 2 rest), dropWhile (\<lambda>c. \<not> netloc_end c) (drop 2 rest))
             else ([], rest))
      in if \<not> netloc_ok netloc then Inl (ValueError ''Invalid IPv6 URL'')
         else
           (case py_partition (CHR ''#'') rest of (rest, _, fragment) \<Rightarrow>
            case py_partition (CHR ''?'') rest of (path, _, query) \<Rightarrow>
              Inr \<lparr>sp_scheme = scheme, sp_netloc = netloc, sp_path = path, sp_query = query,
                   sp_fragment = fragment\<rparr>))"

text \<open>The properties of the result.\<close>

definition hostinfo :: "string \<Rightarrow> string \<times> string option" where
  "hostinfo netloc =
     (case py_rpartition (CHR ''@'') netloc of (_, _, info) \<Rightarrow>
      case py_partition (CHR ''['') info of (_, bracket, bracketed) \<Rightarrow>
        let (host, port) =
              (if bracket
               then (case py_partition (CHR '']'') bracketed of (h, _, p) \<Rightarrow>
                       (h, snd (snd (py_partition (CHR '':'') p))))
               else (case py_partition (CHR '':'') info of (h, _, p) \<Rightarrow> (h, p)))
        in (host, if port = [] then None else Some port))"

definition sp_hostname :: "split_result \<Rightarrow> string option" where
  "sp_hostname r =
     (let h = fst (hostinfo (sp_netloc r)) in
      if h = [] then None
      else case py_partition (CHR ''%'') h of (a, scoped, zone) \<Rightarrow>
        Some (ascii_lower a @ (if scoped then ''%'' else []) @ zone))"

definition sp_port :: "split_result \<Rightarrow> exn + int option" where
  "sp_port r =
     (case snd (hostinfo (sp_netloc r)) of
        None \<Rightarrow> Inr None
      | Some p \<Rightarrow>
          if \<not> list_all is_digit p then Inl (ValueError ''Port could not be cast to integer value'')
          else if dec_value p > 65535 then Inl (ValueError ''Port out of range 0-65535'')
          else Inr (Some (int (dec_value p))))"

definition sp_username :: "split_result \<Rightarrow> string option" where
  "sp_username r =
     (case py_rpartition (CHR ''@'') (sp_netloc r) of (userinfo, found, _) \<Rightarrow>
        if found then Some (fst (py_partition (CHR '':'') userinfo)) else None)"

definition sp_password :: "split_result \<Rightarrow> string option" where
  "sp_password r =
     (case py_rpartition (CHR ''@'') (sp_netloc r) of (userinfo, found, _) \<Rightarrow>
        if found
        then (case py_partition (CHR '':'') userinfo of (_, given, password) \<Rightarrow>
                if given then Some password else None)
        else None)"

text \<open>\<open>urlunsplit\<close>, for the schemes the code passes (both are in \<open>uses_netloc\<close>).\<close>

definition urlunsplit :: "split_result \<Rightarrow> string" where
  "urlunsplit r =
     (let url = sp_path r;
          url = (if sp_netloc r \<noteq> [] \<or> (sp_scheme r \<noteq> [] \<and> take 2 url \<noteq> ''//'')
                 then ''//'' @ sp_netloc r @ (if url \<noteq> [] \<and> take 1 url \<noteq> ''/'' then ''/'' @ url else url)
                 else url);
          url = (if sp_scheme r \<noteq> [] then sp_scheme r @ '':'' @ url else url);
          url = (if sp_query r \<noteq> [] then url @ ''?'' @ sp_query r else url)
      in if sp_fragment r \<noteq> [] then url @ ''#'' @ sp_fragment r else url)"

section \<open>Bracketed hosts in lower case\<close>

lemma of_char_lower:
  "of_char (ascii_lower_char c) = (let n = (of_char c :: nat) in if 65 \<le> n \<and> n \<le> 90 then n + 32 else n)"
  by (simp add: ascii_lower_char_def Let_def of_char_of)

lemma ipvfuture_ok_lower: "ipvfuture_ok h \<Longrightarrow> ipvfuture_ok (ascii_lower h)"
proof -
  assume ok: "ipvfuture_ok h"
  then obtain t where h: "h = CHR ''v'' # t"
    by (cases h) (auto simp: ipvfuture_ok_def split: prod.splits)
  have lower: "ascii_lower h = CHR ''v'' # ascii_lower t"
    by (simp add: h ascii_lower_def ascii_lower_char_def)
  have nl: "(of_char (ascii_lower_char c) :: nat) = 10 \<longleftrightarrow> (of_char c :: nat) = 10" for c
    by (auto simp: ascii_lower_char_def Let_def)
  have hex: "list_all (\<lambda>c. hex_value c \<noteq> None) (ascii_lower p) = list_all (\<lambda>c. hex_value c \<noteq> None) p" for p
    by (simp add: ascii_lower_def list.pred_map comp_def)
  show ?thesis
    using ok unfolding lower unfolding h
    by (simp add: ipvfuture_ok_def py_partition_def Let_def takeWhile_ascii_lower is_alpha_def
        in_set_ascii_lower drop_ascii_lower hex) (auto simp: ascii_lower_def nl list.pred_map comp_def)
qed

lemma bracketed_host_ok_lower: "bracketed_host_ok h \<Longrightarrow> bracketed_host_ok (ascii_lower h)"
proof -
  assume ok: "bracketed_host_ok h"
  show ?thesis
  proof (cases "take 1 h = ''v''")
    case True
    then have "take 1 (ascii_lower h) = ''v''"
      by (cases h) (auto simp: ascii_lower_def ascii_lower_char_def)
    then show ?thesis
      using ok True by (simp add: bracketed_host_ok_def ipvfuture_ok_lower)
  next
    case False
    then have v6: "ipv6_ok h" using ok by (simp add: bracketed_host_ok_def)
    have "take 1 (ascii_lower h) \<noteq> ''v''"
    proof (cases h)
      case (Cons c s)
      have "c = CHR '':'' \<or> hex_value c \<noteq> None" using ipv6_ok_first v6 Cons by blast
      then have "(of_char (ascii_lower_char c) :: nat) \<noteq> 118"
        by (auto simp: of_char_lower hex_value_def Let_def split: if_splits)
      then have "ascii_lower_char c \<noteq> CHR ''v''" by auto
      then show ?thesis by (simp add: Cons ascii_lower_def)
    qed (simp add: ascii_lower_def)
    then show ?thesis
      using v6 by (simp add: bracketed_host_ok_def)
  qed
qed

end
