(* ===== verification/Auth_Config.thy ===== *)
theory Auth_Config
  imports Url_Parts "HOL-Library.AList" "HOL-Library.List_Lexorder" "HOL-Library.Char_ord"
begin

text \<open>
  The static side of authentication: \<^verbatim>\<open>src/auth/siwe_config.py\<close> (SIWE domains and redirect URIs
  in canonical form), \<^verbatim>\<open>src/auth/client_registry.py\<close> (the registered clients) and the origin
  checks of \<^verbatim>\<open>src/auth/http.py\<close>. All of it is text processing on the configuration and on a
  request's headers.
\<close>

section \<open>Canonical hosts\<close>

definition LOOPBACK_HOSTS :: "string list" where
  "LOOPBACK_HOSTS = [''localhost'', ''127.0.0.1'', ''::1'']"

definition default_port :: "string \<Rightarrow> int option" where
  "default_port scheme = map_of [(''http'', 80), (''https'', 443)] scheme"

definition is_loopback_host :: "string option \<Rightarrow> bool" where
  "is_loopback_host host =
     (case host of None \<Rightarrow> False | Some h \<Rightarrow> h \<noteq> [] \<and> ascii_lower h \<in> set LOOPBACK_HOSTS)"

definition canonical_netloc :: "string \<Rightarrow> string option \<Rightarrow> int option \<Rightarrow> exn + string" where
  "canonical_netloc scheme host port =
     (case host of
        None \<Rightarrow> Inl (ValueError ''Origin must include a host'')
      | Some h \<Rightarrow>
          if h = [] then Inl (ValueError ''Origin must include a host'')
          else
            let l = ascii_lower h;
                normalized = (if CHR '':'' \<in> set l \<and> take 1 l \<noteq> ''['' then ''['' @ l @ '']'' else l)
            in if port = None \<or> port = default_port (ascii_lower scheme) then Inr normalized
               else Inr (normalized @ '':'' @ int_text (the port)))"

definition given :: "string option \<Rightarrow> bool" where
  "given s \<longleftrightarrow> (case s of None \<Rightarrow> False | Some t \<Rightarrow> t \<noteq> [])"

definition normalize_redirect_uri :: "string \<Rightarrow> exn + string" where
  "normalize_redirect_uri redirect_uri =
     sum_bind (urlsplit redirect_uri) (\<lambda>parsed.
       if sp_scheme parsed \<notin> set [''http'', ''https''] \<or> sp_netloc parsed = [] \<or> sp_hostname parsed = None
       then Inl (ValueError ''Invalid redirect_uri'')
       else if given (sp_username parsed) \<or> given (sp_password parsed) \<or> sp_fragment parsed \<noteq> []
       then Inl (ValueError ''Invalid redirect_uri'')
       else if sp_scheme parsed = ''http'' \<and> \<not> is_loopback_host (sp_hostname parsed)
       then Inl (ValueError ''redirect_uri must use https unless it targets localhost/loopback development'')
       else
         sum_bind (sp_port parsed) (\<lambda>port.
         sum_bind (canonical_netloc (sp_scheme parsed) (sp_hostname parsed) port) (\<lambda>netloc.
           Inr (urlunsplit
             \<lparr>sp_scheme = ascii_lower (sp_scheme parsed), sp_netloc = netloc,
              sp_path = (if sp_path parsed = [] then ''/'' else sp_path parsed),
              sp_query = sp_query parsed, sp_fragment = []\<rparr>))))"

section \<open>SIWE domains\<close>

record siwe_config =
  sc_domain :: string
  sc_origin :: string

definition contains_text :: "string \<Rightarrow> string \<Rightarrow> bool" where
  "contains_text p s \<longleftrightarrow> (\<exists>i \<in> set [0 ..< Suc (length s)]. take (length p) (drop i s) = p)"

definition parse_siwe_origin :: "string \<Rightarrow> exn + siwe_config" where
  "parse_siwe_origin raw =
     sum_bind (urlsplit raw) (\<lambda>parsed.
       if sp_scheme parsed \<notin> set [''http'', ''https'']
       then Inl (ValueError ''SIWE_DOMAINS entries must use http or https when a scheme is provided'')
       else if sp_netloc parsed = [] \<or> sp_hostname parsed = None
       then Inl (ValueError ''SIWE_DOMAINS entries must include a host'')
       else if sp_path parsed \<notin> set [[], ''/''] \<or> sp_query parsed \<noteq> [] \<or> sp_fragment parsed \<noteq> []
       then Inl (ValueError ''SIWE_DOMAINS entries must not include a path, query, or fragment'')
       else if given (sp_username parsed) \<or> given (sp_password parsed)
       then Inl (ValueError ''SIWE_DOMAINS entries must not include userinfo'')
       else if sp_scheme parsed = ''http'' \<and> \<not> is_loopback_host (sp_hostname parsed)
       then Inl (ValueError ''SIWE_DOMAINS entries may use http only for localhost/loopback development'')
       else
         sum_bind (sp_port parsed) (\<lambda>port.
         sum_bind (canonical_netloc (sp_scheme parsed) (sp_hostname parsed) port) (\<lambda>netloc.
           Inr \<lparr>sc_domain = netloc, sc_origin = sp_scheme parsed @ ''://'' @ netloc\<rparr>)))"

definition parse_siwe_host :: "string \<Rightarrow> string \<Rightarrow> exn + siwe_config" where
  "parse_siwe_host environment raw =
     sum_bind (urlsplit (''//'' @ raw)) (\<lambda>parsed.
       if sp_netloc parsed = [] \<or> sp_hostname parsed = None
       then Inl (ValueError ''SIWE_DOMAINS entries must be a bare host[:port] or origin'')
       else if sp_path parsed \<noteq> [] \<or> sp_query parsed \<noteq> [] \<or> sp_fragment parsed \<noteq> []
          \<or> given (sp_username parsed) \<or> given (sp_password parsed)
       then Inl (ValueError ''SIWE_DOMAINS entries must not include a path, query, fragment, or userinfo'')
       else
         let scheme = (if ascii_lower environment = ''development'' \<and> is_loopback_host (sp_hostname parsed)
                       then ''http'' else ''https'')
         in sum_bind (sp_port parsed) (\<lambda>port.
            sum_bind (canonical_netloc scheme (sp_hostname parsed) port) (\<lambda>netloc.
              Inr \<lparr>sc_domain = netloc, sc_origin = scheme @ ''://'' @ netloc\<rparr>)))"

definition parse_siwe_domain :: "string \<Rightarrow> string \<Rightarrow> exn + siwe_config" where
  "parse_siwe_domain environment raw_value =
     (let raw = py_strip raw_value in
      if raw = [] then Inl (ValueError ''SIWE domain entry must not be empty'')
      else if contains_text ''://'' raw then parse_siwe_origin raw
      else parse_siwe_host environment raw)"

fun collect_siwe_configs :: "string \<Rightarrow> string list \<Rightarrow> siwe_config list \<Rightarrow> exn + siwe_config list" where
  "collect_siwe_configs environment [] configs = Inr configs"
| "collect_siwe_configs environment (raw # raws) configs =
     sum_bind (parse_siwe_domain environment raw) (\<lambda>cfg.
       if sc_domain cfg \<in> set (map sc_domain configs) then collect_siwe_configs environment raws configs
       else collect_siwe_configs environment raws (configs @ [cfg]))"

definition get_siwe_configs :: "string \<Rightarrow> string list \<Rightarrow> exn + siwe_config list" where
  "get_siwe_configs environment raw_entries =
     (if raw_entries = [] then Inl (ValueError ''SIWE_DOMAINS not configured'')
      else
        sum_bind (collect_siwe_configs environment raw_entries []) (\<lambda>configs.
          if configs = [] then Inl (ValueError ''SIWE_DOMAINS not configured'') else Inr configs))"

definition get_siwe_config :: "string \<Rightarrow> string list \<Rightarrow> exn + siwe_config" where
  "get_siwe_config environment raw_entries =
     sum_bind (get_siwe_configs environment raw_entries) (\<lambda>configs. Inr (hd configs))"

section \<open>Registered clients\<close>

record auth_client =
  ac_client_id :: string
  ac_display_name :: string
  ac_audience :: string
  ac_redirect_uris :: "string list"

text \<open>
  The parsed \<open>AUTH_CLIENTS\<close>. A number carries its text; \<open>str\<close> of a list or an object is a
  parameter.
\<close>

datatype raw_json =
    RNull | RBool bool | RNum string | RStr string
  | RList "raw_json list" | RObj "(string \<times> raw_json) list"

definition raw_str :: "(raw_json \<Rightarrow> string) \<Rightarrow> raw_json \<Rightarrow> string" where
  "raw_str repr v =
     (case v of RNull \<Rightarrow> ''None'' | RBool b \<Rightarrow> (if b then ''True'' else ''False'')
      | RNum t \<Rightarrow> t | RStr s \<Rightarrow> s | _ \<Rightarrow> repr v)"

text \<open>What a \<open>for\<close> over the value sees.\<close>

definition raw_items :: "raw_json \<Rightarrow> exn + raw_json list" where
  "raw_items v =
     (case v of RList vs \<Rightarrow> Inr vs | RStr s \<Rightarrow> Inr (map (\<lambda>c. RStr [c]) s)
      | RObj kvs \<Rightarrow> Inr (map (\<lambda>kv. RStr (fst kv)) kvs)
      | _ \<Rightarrow> Inl (OtherError ''TypeError: object is not iterable''))"

fun normalize_all :: "string list \<Rightarrow> exn + string list" where
  "normalize_all [] = Inr []"
| "normalize_all (u # us) =
     sum_bind (normalize_redirect_uri (py_strip u)) (\<lambda>n.
     sum_bind (normalize_all us) (\<lambda>ns. Inr (n # ns)))"

definition raw_client :: "(raw_json \<Rightarrow> string) \<Rightarrow> raw_json \<Rightarrow> exn + auth_client" where
  "raw_client repr raw =
     (case raw of
        RObj obj \<Rightarrow>
          let field = (\<lambda>k d. case map_of obj k of None \<Rightarrow> d | Some v \<Rightarrow> raw_str repr v);
              client_id = py_strip (field ''client_id'' []);
              display_name = py_strip (field ''display_name'' client_id);
              audience = py_strip (field ''audience'' client_id)
          in sum_bind (raw_items (case map_of obj ''redirect_uris'' of None \<Rightarrow> RList [] | Some v \<Rightarrow> v)) (\<lambda>uris.
             sum_bind (normalize_all (map (raw_str repr) uris)) (\<lambda>redirect_uris.
               if client_id = [] then Inl (ValueError ''Auth client_id must not be empty'')
               else if audience = [] then Inl (ValueError ''Auth client must define a non-empty audience'')
               else if redirect_uris = [] then Inl (ValueError ''Auth client must define redirect_uris'')
               else Inr \<lparr>ac_client_id = client_id,
                         ac_display_name = (if display_name = [] then client_id else display_name),
                         ac_audience = audience, ac_redirect_uris = redirect_uris\<rparr>))
      | _ \<Rightarrow> Inl (ValueError ''Each AUTH_CLIENTS entry must be an object''))"

type_synonym registry = "(string \<times> auth_client) list"

fun register_all :: "(raw_json \<Rightarrow> string) \<Rightarrow> raw_json list \<Rightarrow> registry \<Rightarrow> exn + registry" where
  "register_all repr [] clients = Inr clients"
| "register_all repr (raw # raws) clients =
     sum_bind (raw_client repr raw) (\<lambda>c. register_all repr raws (AList.update (ac_client_id c) c clients))"

text \<open>\<open>json.loads\<close> is the argument \<open>loads\<close>; it raises a \<open>ValueError\<close> on text that is no JSON.\<close>

definition client_registry :: "(string \<Rightarrow> exn + raw_json) \<Rightarrow> (raw_json \<Rightarrow> string) \<Rightarrow> string \<Rightarrow> exn + registry" where
  "client_registry loads repr clients_json =
     sum_bind (case loads clients_json of
         Inl e \<Rightarrow> Inl (if is_value_error e then ValueError ''Invalid AUTH_CLIENTS JSON'' else e)
       | Inr v \<Rightarrow> Inr v) (\<lambda>raw.
       case raw of
         RList raws \<Rightarrow> register_all repr raws []
       | _ \<Rightarrow> Inl (ValueError ''AUTH_CLIENTS must be a JSON array''))"

definition get_client :: "registry \<Rightarrow> string \<Rightarrow> auth_client option" where
  "get_client clients client_id = map_of clients client_id"

definition require_client :: "registry \<Rightarrow> string \<Rightarrow> exn + auth_client" where
  "require_client clients client_id =
     (case get_client clients client_id of
        None \<Rightarrow> Inl (ValueError ''Unknown auth client_id'') | Some c \<Rightarrow> Inr c)"

definition validate_redirect_uri :: "registry \<Rightarrow> string \<Rightarrow> string \<Rightarrow> bool" where
  "validate_redirect_uri clients client_id redirect_uri =
     (case get_client clients client_id of
        None \<Rightarrow> False
      | Some c \<Rightarrow>
          (case normalize_redirect_uri redirect_uri of
             Inl e \<Rightarrow> False | Inr u \<Rightarrow> u \<in> set (ac_redirect_uris c)))"

definition redirect_origin :: "string \<Rightarrow> exn + string" where
  "redirect_origin redirect_uri =
     sum_bind (normalize_redirect_uri redirect_uri) (\<lambda>u.
     sum_bind (urlsplit u) (\<lambda>parsed. Inr (sp_scheme parsed @ ''://'' @ sp_netloc parsed)))"

fun redirect_origins :: "string list \<Rightarrow> exn + string list" where
  "redirect_origins [] = Inr []"
| "redirect_origins (u # us) =
     sum_bind (redirect_origin u) (\<lambda>x. sum_bind (redirect_origins us) (\<lambda>xs. Inr (x # xs)))"

definition allowed_origins :: "registry \<Rightarrow> exn + string list" where
  "allowed_origins clients =
     sum_bind (redirect_origins (concat (map (ac_redirect_uris \<circ> snd) clients))) (\<lambda>origins.
       Inr (sort (remdups origins)))"

section \<open>Origins of requests\<close>

record http_request =
  rq_headers :: "(string \<times> string) list"
  rq_client_host :: "string option"

definition request_origin :: "http_request \<Rightarrow> string option" where
  "request_origin request =
     (case map_of (rq_headers request) ''origin'' of
        None \<Rightarrow> None
      | Some origin \<Rightarrow>
          let t = rstrip_char (CHR ''/'') (py_strip origin) in if t = [] then None else Some t)"

definition enforce_expected_origin ::
    "http_request \<Rightarrow> string list \<Rightarrow> string \<Rightarrow> bool \<Rightarrow> exn + string option" where
  "enforce_expected_origin request expected_origins detail allow_missing =
     (let allowed = map (rstrip_char (CHR ''/'')) (List.filter (\<lambda>x. x \<noteq> []) expected_origins) in
      case request_origin request of
        None \<Rightarrow> if allow_missing then Inr None else Inl (HttpError 400 detail)
      | Some origin \<Rightarrow> if origin \<in> set allowed then Inr (Some origin) else Inl (HttpError 400 detail))"

section \<open>Putting a URL together and splitting it again\<close>

definition clean_char :: "char \<Rightarrow> bool" where
  "clean_char c \<longleftrightarrow> (of_char c :: nat) \<notin> {9, 10, 13}"

text \<open>The parts \<open>urlsplit\<close> gives for a URL with a host.\<close>

definition proper_parts :: "split_result \<Rightarrow> bool" where
  "proper_parts r \<longleftrightarrow>
     sp_scheme r \<in> set [''http'', ''https''] \<and> sp_netloc r \<noteq> [] \<and> netloc_ok (sp_netloc r)
   \<and> (\<forall>c \<in> set (sp_netloc r). \<not> netloc_end c \<and> clean_char c)
   \<and> take 1 (sp_path r) = ''/'' \<and> CHR ''?'' \<notin> set (sp_path r) \<and> CHR ''#'' \<notin> set (sp_path r)
   \<and> CHR ''#'' \<notin> set (sp_query r)
   \<and> list_all clean_char (sp_path r) \<and> list_all clean_char (sp_query r) \<and> sp_fragment r = []"

lemma filter_clean: "list_all clean_char s \<Longrightarrow> List.filter (\<lambda>c. (of_char c :: nat) \<notin> {9, 10, 13}) s = s"
  by (induction s) (auto simp: clean_char_def)

lemma partition_absent: "c \<notin> set s \<Longrightarrow> py_partition c s = (s, False, [])"
proof -
  assume "c \<notin> set s"
  then have "takeWhile (\<lambda>d. d \<noteq> c) s = s" by (subst takeWhile_eq_all_conv) auto
  then show ?thesis using \<open>c \<notin> set s\<close> unfolding py_partition_def Let_def by (simp only: \<open>takeWhile _ s = s\<close>) simp
qed

lemma partition_first: "c \<notin> set a \<Longrightarrow> py_partition c (a @ c # b) = (a, True, b)"
  by (auto simp: py_partition_def takeWhile_append)

lemma split_scheme_http:
  assumes "s \<in> set [''http'', ''https'']"
  shows "split_scheme (s @ '':'' @ r) = (s, r)"
proof -
  have "py_partition (CHR '':'') (s @ CHR '':'' # r) = (s, True, r)"
    using assms by (intro partition_first) auto
  moreover have "s \<noteq> []" "is_alpha (hd s)" "list_all scheme_char s" "ascii_lower s = s"
    using assms by (auto simp: is_alpha_def scheme_char_def ascii_lower_def ascii_lower_char_def)
  ultimately show ?thesis by (simp add: split_scheme_def)
qed

lemma urlsplit_urlunsplit:
  assumes "proper_parts r"
  shows "urlsplit (urlunsplit r) = Inr r"
proof -
  let ?s = "sp_scheme r" and ?n = "sp_netloc r" and ?p = "sp_path r" and ?q = "sp_query r"
  let ?tail = "?p @ (if ?q \<noteq> [] then ''?'' @ ?q else [])"
  have s: "?s \<in> set [''http'', ''https'']" and n: "?n \<noteq> []" "netloc_ok ?n"
    and nc: "\<forall>c \<in> set ?n. \<not> netloc_end c \<and> clean_char c"
    and p: "take 1 ?p = ''/''" "CHR ''?'' \<notin> set ?p" "CHR ''#'' \<notin> set ?p" "CHR ''#'' \<notin> set ?q"
    and c: "list_all clean_char ?p" "list_all clean_char ?q" and f: "sp_fragment r = []"
    using assms by (auto simp: proper_parts_def)
  obtain p' where p': "?p = CHR ''/'' # p'"
    using p(1) by (cases ?p) auto
  have url: "urlunsplit r = ?s @ '':'' @ ''//'' @ ?n @ ?tail"
    using s n(1) f p' by (auto simp: urlunsplit_def Let_def)
  have tail_clean: "list_all clean_char ?tail"
    using c by (auto simp: clean_char_def)
  have clean: "url_clean (urlunsplit r) = urlunsplit r"
  proof -
    have "list_all clean_char (urlunsplit r)"
      using s nc tail_clean unfolding url by (auto simp: list_all_iff clean_char_def)
    moreover have "dropWhile (\<lambda>c. (of_char c :: nat) \<le> 32) (urlunsplit r) = urlunsplit r"
      using s unfolding url by auto
    ultimately show ?thesis by (simp only: url_clean_def filter_clean)
  qed
  have sch: "split_scheme (urlunsplit r) = (?s, ''//'' @ ?n @ ?tail)"
    unfolding url by (rule split_scheme_http [OF s])
  have "takeWhile (\<lambda>c. \<not> netloc_end c) (?n @ ?tail) = ?n \<and> dropWhile (\<lambda>c. \<not> netloc_end c) (?n @ ?tail) = ?tail"
    using nc by (simp add: p' netloc_end_def takeWhile_append2 dropWhile_append2)
  moreover have "py_partition (CHR ''#'') ?tail = (?tail, False, [])"
    using p by (intro partition_absent) auto
  moreover have "py_partition (CHR ''?'') ?tail = (?p, ?q \<noteq> [], ?q)"
    using p(2) by (cases "?q = []") (simp_all add: partition_absent partition_first)
  ultimately show ?thesis
    using n(2) f by (simp add: urlsplit_def clean sch Let_def)
qed

text \<open>Conversely, what \<open>urlsplit\<close> returns has these parts but for the checks on scheme, path and fragment.\<close>

lemma urlsplit_parts:
  assumes "urlsplit u = Inr r" and "sp_netloc r \<noteq> []"
  shows "netloc_ok (sp_netloc r) \<and> (\<forall>c \<in> set (sp_netloc r). \<not> netloc_end c \<and> clean_char c)
    \<and> (sp_path r \<noteq> [] \<longrightarrow> take 1 (sp_path r) = ''/'') \<and> CHR ''?'' \<notin> set (sp_path r) \<and> CHR ''#'' \<notin> set (sp_path r)
    \<and> CHR ''#'' \<notin> set (sp_query r) \<and> list_all clean_char (sp_path r) \<and> list_all clean_char (sp_query r)"
proof -
  obtain scheme rest where sch: "split_scheme (url_clean u) = (scheme, rest)" by fastforce
  have clean_u: "list_all clean_char (url_clean u)"
    by (simp add: url_clean_def list_all_iff clean_char_def)
  have sub: "set rest \<subseteq> set (url_clean u)"
    using sch by (auto simp: split_scheme_def py_partition_def Let_def split: if_splits dest: in_set_dropD)
  define a where "a = takeWhile (\<lambda>c. \<not> netloc_end c) (drop 2 rest)"
  define b where "b = dropWhile (\<lambda>c. \<not> netloc_end c) (drop 2 rest)"
  define b1 where "b1 = takeWhile (\<lambda>d. d \<noteq> CHR ''#'') b"
  have two: "take 2 rest = ''//''"
    using assms by (auto simp: urlsplit_def sch Let_def py_partition_def split: if_splits)
  then have r: "netloc_ok a" "sp_netloc r = a" "sp_path r = takeWhile (\<lambda>d. d \<noteq> CHR ''?'') b1"
    "sp_query r = drop (Suc (length (takeWhile (\<lambda>d. d \<noteq> CHR ''?'') b1))) b1"
    using assms(1) by (auto simp: urlsplit_def sch Let_def py_partition_def a_def b_def b1_def split: if_splits)
  have drop: "set (drop 2 rest) \<subseteq> set (url_clean u)"
    using sub by (auto dest: in_set_dropD)
  have "set a \<subseteq> set (url_clean u)" "set b \<subseteq> set (url_clean u)"
    using drop by (auto simp: a_def b_def dest: set_takeWhileD set_dropWhileD)
  then have ab: "list_all clean_char a" "list_all clean_char b"
    using clean_u by (auto simp: list_all_iff)
  then have b1: "list_all clean_char b1"
    by (auto simp: b1_def list_all_iff dest: set_takeWhileD)
  have "\<forall>c \<in> set a. \<not> netloc_end c"
    by (auto simp: a_def dest: set_takeWhileD)
  moreover have "take 1 (sp_path r) = ''/''" if "sp_path r \<noteq> []"
  proof (cases b)
    case Nil
    then show ?thesis using that by (simp add: r b1_def)
  next
    case (Cons c b')
    then have "netloc_end c"
      by (metis b_def hd_dropWhile list.distinct(1) list.sel(1))
    then show ?thesis
      using that Cons by (auto simp: r b1_def netloc_end_def split: if_splits)
  qed
  moreover have "CHR ''#'' \<notin> set b1"
    by (auto simp: b1_def dest: set_takeWhileD)
  ultimately show ?thesis
    using r ab b1 by (auto simp: list_all_iff dest: set_takeWhileD in_set_dropD)
qed


section \<open>Hosts\<close>

lemma rpartition_absent: "c \<notin> set s \<Longrightarrow> py_rpartition c s = ([], False, s)"
  by (simp add: py_rpartition_def)

lemma rpartition_last: "py_rpartition c s = (a, b, t) \<Longrightarrow> c \<notin> set t"
  by (auto simp: py_rpartition_def Let_def split: if_splits dest: set_takeWhileD)

lemma rpartition_sub: "py_rpartition c s = (a, b, t) \<Longrightarrow> set t \<subseteq> set s"
proof
  fix x assume r: "py_rpartition c s = (a, b, t)" and x: "x \<in> set t"
  then have "x \<in> set (takeWhile (\<lambda>d. d \<noteq> c) (rev s)) \<or> x \<in> set s"
    by (auto simp: py_rpartition_def Let_def split: if_splits)
  then show "x \<in> set s" by (auto dest: set_takeWhileD)
qed

lemma rpartition_split:
  assumes "py_rpartition c s = (a, True, t)"
  shows "s = a @ c # t"
proof -
  let ?b = "takeWhile (\<lambda>d. d \<noteq> c) (rev s)"
  have c: "c \<in> set s" and a: "a = take (length s - length ?b - 1) s" and t: "t = rev ?b"
    using assms by (auto simp: py_rpartition_def Let_def split: if_splits)
  have "dropWhile (\<lambda>d. d \<noteq> c) (rev s) \<noteq> []" using c by (simp add: dropWhile_eq_Nil_conv)
  then obtain y ys where y: "dropWhile (\<lambda>d. d \<noteq> c) (rev s) = y # ys" by (cases "dropWhile (\<lambda>d. d \<noteq> c) (rev s)") auto
  then have "y = c" using hd_dropWhile [of "\<lambda>d. d \<noteq> c" "rev s"] by auto
  then have "rev s = ?b @ c # ys" using y takeWhile_dropWhile_id [of "\<lambda>d. d \<noteq> c" "rev s"] by simp
  then have s: "s = rev ys @ c # rev ?b" by (metis rev_append rev_rev_ident rev.simps(2) append_assoc append_Cons append_Nil)
  have "length s - length ?b - 1 = length ys" by (subst s) simp
  then have "a = rev ys" using a s by (metis append_eq_conv_conj length_rev)
  then show ?thesis using s t by simp
qed

text \<open>A host in lower case, as \<open>canonical_netloc\<close> writes it.\<close>

definition plain_host :: "string \<Rightarrow> bool" where
  "plain_host l \<longleftrightarrow> l \<noteq> [] \<and> ascii_lower l = l \<and> CHR ''@'' \<notin> set l \<and> CHR '']'' \<notin> set l \<and> CHR ''['' \<notin> set l
     \<and> (CHR '':'' \<in> set l \<longrightarrow> bracketed_host_ok l)
     \<and> (\<forall>c \<in> set l. \<not> netloc_end c \<and> clean_char c)"

definition host_text :: "string \<Rightarrow> string" where
  "host_text l = (if CHR '':'' \<in> set l then ''['' @ l @ '']'' else l)"

definition port_text :: "int option \<Rightarrow> string" where
  "port_text port = (case port of None \<Rightarrow> [] | Some n \<Rightarrow> '':'' @ int_text n)"

lemma host_text_split:
  assumes l: "plain_host l" and p: "p = [] \<or> (\<exists>d. p = CHR '':'' # d \<and> d \<noteq> [] \<and> list_all is_digit d)"
  shows "netloc_ok (host_text l @ p)"
    and "hostinfo (host_text l @ p) = (l, if p = [] then None else Some (drop 1 p))"
    and "py_rpartition (CHR ''@'') (host_text l @ p) = ([], False, host_text l @ p)"
proof -
  have pd: "CHR ''@'' \<notin> set p" "CHR ''['' \<notin> set p" "CHR '']'' \<notin> set p"
  proof -
    have "c \<notin> set p" if "\<not> is_digit c" "c \<noteq> CHR '':''" for c
      using p that by (auto simp: list_all_iff)
    then show "CHR ''@'' \<notin> set p" "CHR ''['' \<notin> set p" "CHR '']'' \<notin> set p"
      by (simp_all add: is_digit_def)
  qed
  have at: "CHR ''@'' \<notin> set (host_text l @ p)"
    using l pd by (auto simp: plain_host_def host_text_def)
  then show rp: "py_rpartition (CHR ''@'') (host_text l @ p) = ([], False, host_text l @ p)"
    by (rule rpartition_absent)
  have "netloc_ok (host_text l @ p)
      \<and> hostinfo (host_text l @ p) = (l, if p = [] then None else Some (drop 1 p))"
  proof (cases "CHR '':'' \<in> set l")
    case True
    have ht: "host_text l = CHR ''['' # l @ '']''" using True by (simp add: host_text_def)
    have b: "py_partition (CHR ''['') (CHR ''['' # l @ '']'' @ p) = ([], True, l @ CHR '']'' # p)"
      using partition_first [of "CHR ''[''" "[]"] by simp
    have c: "py_partition (CHR '']'') (l @ CHR '']'' # p) = (l, True, p)"
      using l by (intro partition_first) (simp add: plain_host_def)
    have "py_partition (CHR '':'') p = ([], p \<noteq> [], drop 1 p)"
      using p partition_first [of "CHR '':''" "[]"] by (auto simp: partition_absent)
    then show ?thesis
      using rp l True p b c
      by (auto simp: netloc_ok_def bracketed_netloc_ok_def hostinfo_def ht plain_host_def Let_def)
  next
    case False
    have ht: "host_text l = l" using False by (simp add: host_text_def)
    have nb: "py_partition (CHR ''['') (l @ p) = (l @ p, False, [])"
      using l pd by (intro partition_absent) (auto simp: plain_host_def)
    have "py_partition (CHR '':'') (l @ p) = (l, p \<noteq> [], drop 1 p)"
      using p False by (auto simp: partition_absent partition_first)
    then show ?thesis
      using rp l pd p nb
      by (auto simp: netloc_ok_def hostinfo_def ht plain_host_def Let_def)
  qed
  then show "netloc_ok (host_text l @ p)"
    and "hostinfo (host_text l @ p) = (l, if p = [] then None else Some (drop 1 p))" by auto
qed


text \<open>The host of a URL without user information is plain once it is in lower case.\<close>

lemma no_userinfo:
  assumes "py_rpartition (CHR ''@'') n = (a, True, t)"
    and "sp_netloc r = n" "\<not> given (sp_username r)" "\<not> given (sp_password r)"
  shows "set a \<subseteq> {CHR '':''}"
proof -
  obtain u f w where part: "py_partition (CHR '':'') a = (u, f, w)" by (cases "py_partition (CHR '':'') a")
  have "u = []"
    using assms part by (auto simp: sp_username_def given_def)
  moreover have "w = []" if f
    using assms part that by (auto simp: sp_password_def given_def)
  ultimately show ?thesis
    using part by (cases a) (auto simp: py_partition_def Let_def split: if_splits)
qed

lemma partition_join: "py_partition c s = (a, f, b) \<Longrightarrow> s = a @ (if f then [c] else []) @ b"
proof (cases "c \<in> set s")
  case True
  assume part: "py_partition c s = (a, f, b)"
  obtain x y where "s = x @ c # y" "c \<notin> set x" using True by (metis split_list_first)
  then show ?thesis using part by (auto simp: partition_first)
qed (auto simp: partition_absent)

lemma hostname_lower:
  assumes "sp_hostname r = Some h"
  shows "ascii_lower h = ascii_lower (fst (hostinfo (sp_netloc r)))"
proof -
  obtain a f z where part: "py_partition (CHR ''%'') (fst (hostinfo (sp_netloc r))) = (a, f, z)"
    by (cases "py_partition (CHR ''%'') (fst (hostinfo (sp_netloc r)))")
  have "h = ascii_lower a @ (if f then ''%'' else []) @ z"
    using assms part by (auto simp: sp_hostname_def Let_def split: if_splits)
  moreover have "ascii_lower ''%'' = ''%''" by code_simp
  ultimately show ?thesis
    using partition_join [OF part] by (auto simp: ascii_lower_append ascii_lower_def ascii_lower_char_idem)
qed

lemma hostname_plain:
  assumes host: "sp_hostname r = Some h" and no: "CHR ''['' \<notin> set h"
    and ok: "netloc_ok (sp_netloc r)" and chars: "\<forall>c \<in> set (sp_netloc r). \<not> netloc_end c \<and> clean_char c"
    and user: "\<not> given (sp_username r)" "\<not> given (sp_password r)"
  shows "plain_host (ascii_lower h)"
proof -
  let ?n = "sp_netloc r"
  define x where "x = fst (hostinfo ?n)"
  have lower: "ascii_lower h = ascii_lower x" by (simp add: x_def hostname_lower [OF host])
  obtain a f info where rp: "py_rpartition (CHR ''@'') ?n = (a, f, info)" by (cases "py_rpartition (CHR ''@'') ?n")
  have at: "CHR ''@'' \<notin> set info" by (rule rpartition_last [OF rp])
  have sub: "set info \<subseteq> set ?n" by (rule rpartition_sub [OF rp])
  have same: "d \<in> set info" if "d \<in> set ?n" "d \<in> {CHR ''['', CHR '']''}" for d
  proof (cases f)
    case True
    then have "?n = a @ CHR ''@'' # info" using rp by (intro rpartition_split) simp
    moreover have "set a \<subseteq> {CHR '':''}" using rp True by (intro no_userinfo [OF _ refl user]) simp
    ultimately show ?thesis using that by auto
  next
    case False
    then show ?thesis using rp that by (auto simp: py_rpartition_def Let_def split: if_splits)
  qed
  have x: "x = (if CHR ''['' \<in> set info
      then takeWhile (\<lambda>d. d \<noteq> CHR '']'') (snd (snd (py_partition (CHR ''['') info)))
      else takeWhile (\<lambda>d. d \<noteq> CHR '':'') info)"
    by (simp add: x_def hostinfo_def rp py_partition_def Let_def)
  have xs: "set x \<subseteq> set info"
    unfolding x by (auto simp: py_partition_def Let_def dest!: set_takeWhileD in_set_dropD)
  have "CHR ''['' \<notin> set x"
    using no lower in_set_ascii_lower [of "CHR ''[''" h] in_set_ascii_lower [of "CHR ''[''" x]
    by (simp add: is_alpha_def)
  moreover have "CHR '']'' \<notin> set x"
  proof (cases "CHR ''['' \<in> set info")
    case True
    then show ?thesis unfolding x by (auto dest: set_takeWhileD)
  next
    case False
    then have "CHR '']'' \<notin> set info" using same sub ok by (auto simp: netloc_ok_def)
    then show ?thesis using xs by blast
  qed
  moreover have "x \<noteq> []" using host by (auto simp: sp_hostname_def x_def Let_def split: if_splits)
  moreover have "bracketed_host_ok (ascii_lower x)" if "CHR '':'' \<in> set x"
  proof (rule bracketed_host_ok_lower)
    have b: "CHR ''['' \<in> set info" using that by (auto simp: x dest: set_takeWhileD split: if_splits)
    then have "CHR ''['' \<in> set ?n" using sub by blast
    then show "bracketed_host_ok x"
      using ok b rp by (auto simp: netloc_ok_def bracketed_netloc_ok_def x py_partition_def Let_def)
  qed
  moreover have "\<forall>c \<in> set (ascii_lower x). \<not> netloc_end c \<and> clean_char c"
  proof
    fix c assume "c \<in> set (ascii_lower x)"
    then obtain d where d: "d \<in> set x" "c = ascii_lower_char d" by (auto simp: ascii_lower_def)
    then have dd: "\<not> netloc_end d" "clean_char d" using xs sub chars by blast+
    have "netloc_end (ascii_lower_char d) = netloc_end d"
      by (simp add: netloc_end_def ascii_lower_char_fixed is_alpha_def)
    moreover have "clean_char (ascii_lower_char d)"
      using dd(2) by (simp add: clean_char_def of_char_lower Let_def)
    ultimately show "\<not> netloc_end c \<and> clean_char c" using dd d(2) by simp
  qed
  ultimately show ?thesis
    unfolding lower plain_host_def using at xs
    by (auto simp: in_set_ascii_lower is_alpha_def)
qed


section \<open>Normal redirect URIs\<close>

text \<open>What a normal form is made of.\<close>

lemma canonical_netloc_text:
  assumes "plain_host (ascii_lower h)"
  shows "canonical_netloc scheme (Some h) port =
    Inr (host_text (ascii_lower h) @
         port_text (if port = default_port (ascii_lower scheme) then None else port))"
proof -
  have "h \<noteq> []" using assms by (auto simp: plain_host_def)
  moreover have "take 1 (ascii_lower h) \<noteq> ''[''"
    using assms by (cases "ascii_lower h") (auto simp: plain_host_def)
  ultimately show ?thesis
    by (cases port) (auto simp: canonical_netloc_def Let_def host_text_def port_text_def)
qed

lemma sp_port_range: "sp_port r = Inr (Some p) \<Longrightarrow> 0 \<le> p \<and> p \<le> 65535"
  by (auto simp: sp_port_def split: option.splits if_splits)

lemma normal_form:
  assumes "normalize_redirect_uri u = Inr v" and "urlsplit u = Inr r"
    and h: "sp_hostname r = Some h" and "CHR ''['' \<notin> set h"
  obtains port path where
    "v = urlunsplit \<lparr>sp_scheme = sp_scheme r, sp_netloc = host_text (ascii_lower h) @ port_text port, sp_path = path,
                     sp_query = sp_query r, sp_fragment = []\<rparr>"
    "plain_host (ascii_lower h)" "sp_scheme r \<in> set [''http'', ''https'']" "port \<noteq> default_port (sp_scheme r)"
    "\<forall>p. port = Some p \<longrightarrow> 0 \<le> p \<and> p \<le> 65535" "sp_scheme r = ''http'' \<longrightarrow> ascii_lower h \<in> set LOOPBACK_HOSTS"
    "take 1 path = ''/''" "CHR ''?'' \<notin> set path" "CHR ''#'' \<notin> set path" "CHR ''#'' \<notin> set (sp_query r)"
    "list_all clean_char path" "list_all clean_char (sp_query r)"
proof -
  note n = assms(1) [unfolded normalize_redirect_uri_def assms(2) sum_bind_simps]
  have s: "sp_scheme r \<in> set [''http'', ''https'']" and net: "sp_netloc r \<noteq> []"
    and user: "\<not> given (sp_username r)" "\<not> given (sp_password r)"
    and loop: "sp_scheme r = ''http'' \<longrightarrow> is_loopback_host (sp_hostname r)"
    using n by (auto split: if_splits)
  obtain port0 where port0: "sp_port r = Inr port0"
    using n by (cases "sp_port r") (auto split: if_splits)
  note parts = urlsplit_parts [OF assms(2) net]
  let ?l = "ascii_lower h"
  have l: "plain_host ?l"
    using hostname_plain [OF h] assms(4) parts user by blast
  have sl: "ascii_lower (sp_scheme r) = sp_scheme r"
    using s by (auto simp: ascii_lower_def ascii_lower_char_def)
  define port where "port = (if port0 = default_port (sp_scheme r) then None else port0)"
  define path where "path = (if sp_path r = [] then ''/'' else sp_path r)"
  have v: "v = urlunsplit \<lparr>sp_scheme = sp_scheme r, sp_netloc = host_text ?l @ port_text port,
      sp_path = path, sp_query = sp_query r, sp_fragment = []\<rparr>"
    using n by (auto simp: port0 h canonical_netloc_text [OF l] sl port_def path_def split: if_splits)
  show thesis
  proof (rule that [OF v l s])
    show "port \<noteq> default_port (sp_scheme r)"
      using s by (auto simp: port_def default_port_def)
    show "\<forall>p. port = Some p \<longrightarrow> 0 \<le> p \<and> p \<le> 65535"
      using sp_port_range port0 by (auto simp: port_def split: if_splits)
    show "sp_scheme r = ''http'' \<longrightarrow> ?l \<in> set LOOPBACK_HOSTS"
      using loop h by (auto simp: is_loopback_host_def)
    show "take 1 path = ''/''" using parts by (auto simp: path_def)
    show "CHR ''?'' \<notin> set path" "CHR ''#'' \<notin> set path" "CHR ''#'' \<notin> set (sp_query r)"
      "list_all clean_char path" "list_all clean_char (sp_query r)"
      using parts by (auto simp: path_def clean_char_def)
  qed
qed

lemma split_normal:
  assumes v: "v = urlunsplit \<lparr>sp_scheme = s, sp_netloc = host_text l @ port_text port, sp_path = path,
                     sp_query = q, sp_fragment = []\<rparr>"
    and l: "plain_host l" and s: "s \<in> set [''http'', ''https'']"
    and port: "\<forall>p. port = Some p \<longrightarrow> 0 \<le> p \<and> p \<le> 65535"
    and path: "take 1 path = ''/''" "CHR ''?'' \<notin> set path" "CHR ''#'' \<notin> set path" "CHR ''#'' \<notin> set q"
      "list_all clean_char path" "list_all clean_char q"
  shows "urlsplit v = Inr \<lparr>sp_scheme = s, sp_netloc = host_text l @ port_text port, sp_path = path,
                     sp_query = q, sp_fragment = []\<rparr>" (is "_ = Inr ?r")
    and "sp_hostname \<lparr>sp_scheme = s, sp_netloc = host_text l @ port_text port, sp_path = path,
                     sp_query = q, sp_fragment = []\<rparr> = Some l"
    and "sp_port \<lparr>sp_scheme = s, sp_netloc = host_text l @ port_text port, sp_path = path,
                     sp_query = q, sp_fragment = []\<rparr> = Inr port"
    and "sp_username \<lparr>sp_scheme = s, sp_netloc = host_text l @ port_text port, sp_path = path,
                     sp_query = q, sp_fragment = []\<rparr> = None"
    and "sp_password \<lparr>sp_scheme = s, sp_netloc = host_text l @ port_text port, sp_path = path,
                     sp_query = q, sp_fragment = []\<rparr> = None"
proof -
  have p: "port_text port = [] \<or> (\<exists>d. port_text port = CHR '':'' # d \<and> d \<noteq> [] \<and> list_all is_digit d)"
    using port nat_text_digits by (cases port) (auto simp: port_text_def int_text_def list_all_iff)
  note net = host_text_split [OF l p]
  have lne: "l \<noteq> []" and lc: "\<forall>c \<in> set l. \<not> netloc_end c \<and> clean_char c" and low: "ascii_lower l = l"
    using l by (auto simp: plain_host_def)
  have ptc: "\<not> netloc_end c \<and> clean_char c" if "c \<in> set (port_text port)" for c
  proof -
    have "c = CHR '':'' \<or> is_digit c" using p that by (auto simp: list_all_iff)
    then show ?thesis by (auto simp: netloc_end_def clean_char_def is_digit_def)
  qed
  have chars: "\<forall>c \<in> set (host_text l @ port_text port). \<not> netloc_end c \<and> clean_char c"
    using lc ptc by (auto simp: host_text_def netloc_end_def clean_char_def)
  show "urlsplit v = Inr ?r"
    unfolding v by (rule urlsplit_urlunsplit) (use s lne net(1) chars path in \<open>auto simp: proper_parts_def host_text_def\<close>)
  have "py_partition (CHR ''%'') l = (a, f, z) \<Longrightarrow> ascii_lower a @ (if f then ''%'' else []) @ z = l" for a f z
    using low partition_join [of "CHR ''%''" l a f z]
    by (auto simp: ascii_lower_append append_eq_append_conv dest!: arg_cong [of _ _ length] split: if_splits) 
  then show "sp_hostname ?r = Some l"
    using net(2) lne by (auto simp: sp_hostname_def Let_def split: prod.splits)
  show "sp_port ?r = Inr port"
    using net(2) port nat_text_digits
    by (cases port) (auto simp: sp_port_def port_text_def int_text_def list_all_iff)
  show "sp_username ?r = None" "sp_password ?r = None"
    using net(3) by (simp_all add: sp_username_def sp_password_def)
qed


lemma normalize_normal:
  assumes n: "normalize_redirect_uri u = Inr v" and r: "urlsplit u = Inr r"
    and h: "sp_hostname r = Some h" and no: "CHR ''['' \<notin> set h"
  obtains origin rest where "normalize_redirect_uri v = Inr v" "redirect_origin v = Inr origin"
    "v = origin @ rest" "take 1 rest = ''/''" "CHR ''@'' \<notin> set origin" "CHR ''#'' \<notin> set v"
    "origin = sp_scheme r @ ''://'' @ drop (length (sp_scheme r) + 3) origin"
    "sp_scheme r = ''https'' \<or> (sp_scheme r = ''http'' \<and> ascii_lower h \<in> set LOOPBACK_HOSTS)"
proof -
  define l where "l = ascii_lower h"
  obtain port path where v: "v = urlunsplit \<lparr>sp_scheme = sp_scheme r, sp_netloc = host_text l @ port_text port,
      sp_path = path, sp_query = sp_query r, sp_fragment = []\<rparr>"
    and l: "plain_host l" and s: "sp_scheme r \<in> set [''http'', ''https'']" and dp: "port \<noteq> default_port (sp_scheme r)"
    and port: "\<forall>p. port = Some p \<longrightarrow> 0 \<le> p \<and> p \<le> 65535"
    and loop: "sp_scheme r = ''http'' \<longrightarrow> l \<in> set LOOPBACK_HOSTS"
    and path: "take 1 path = ''/''" "CHR ''?'' \<notin> set path" "CHR ''#'' \<notin> set path" "CHR ''#'' \<notin> set (sp_query r)"
    "list_all clean_char path" "list_all clean_char (sp_query r)"
    using normal_form [OF n r h no] by (auto simp: l_def)
  let ?r = "\<lparr>sp_scheme = sp_scheme r, sp_netloc = host_text l @ port_text port,
      sp_path = path, sp_query = sp_query r, sp_fragment = []\<rparr>"
  note sp = split_normal [OF v l s port path]
  have low: "ascii_lower l = l" and lne: "l \<noteq> []" and lat: "CHR ''@'' \<notin> set l" "\<forall>c \<in> set l. \<not> netloc_end c"
    using l by (auto simp: plain_host_def)
  have ht: "host_text l \<noteq> []" using lne by (simp add: host_text_def)
  have sl: "ascii_lower (sp_scheme r) = sp_scheme r"
    using s by (auto simp: ascii_lower_def ascii_lower_char_def)
  have loop': "is_loopback_host (Some l)" if "sp_scheme r = ''http''"
    using loop that lne low by (simp add: is_loopback_host_def)
  have can: "canonical_netloc (sp_scheme r) (Some l) port = Inr (host_text l @ port_text port)"
    using canonical_netloc_text [of l "sp_scheme r" port] dp by (simp add: low l sl)
  have pne: "path \<noteq> []" using path(1) by auto
  have nv: "normalize_redirect_uri v = Inr v"
    using s sp ht loop' pne
    by (auto simp: normalize_redirect_uri_def can sl given_def v [symmetric])
  let ?o = "sp_scheme r @ ''://'' @ host_text l @ port_text port"
  let ?q = "if sp_query r \<noteq> [] then ''?'' @ sp_query r else []"
  have ov: "redirect_origin v = Inr ?o"
    using sp(1) by (simp add: redirect_origin_def nv)
  have vt: "v = ?o @ path @ ?q"
    using s ht path(1) pne by (auto simp: v urlunsplit_def Let_def)
  have digits: "c = CHR '':'' \<or> is_digit c" if "c \<in> set (port_text port)" for c
    using that port nat_text_digits by (cases port) (auto simp: port_text_def int_text_def)
  have oc: "CHR ''@'' \<notin> set ?o" "CHR ''#'' \<notin> set ?o"
  proof -
    have "CHR ''@'' \<notin> set (port_text port)" "CHR ''#'' \<notin> set (port_text port)"
      by (rule notI, drule digits, simp add: is_digit_def)+
    moreover have "CHR ''#'' \<notin> set l"
      using lat(2) by (auto simp: netloc_end_def)
    ultimately show "CHR ''@'' \<notin> set ?o" "CHR ''#'' \<notin> set ?o"
      using s lat(1) by (auto simp: host_text_def)
  qed
  show thesis
  proof (rule that [OF nv ov vt])
    show "take 1 (path @ ?q) = ''/''" using path(1) pne by (cases path) auto
    show "CHR ''@'' \<notin> set ?o" "CHR ''#'' \<notin> set v"
      using oc path by (auto simp: vt)
    show "?o = sp_scheme r @ ''://'' @ drop (length (sp_scheme r) + 3) ?o" by simp
    show "sp_scheme r = ''https'' \<or> (sp_scheme r = ''http'' \<and> ascii_lower h \<in> set LOOPBACK_HOSTS)"
      using s loop by (auto simp: l_def)
  qed
qed

text \<open>An \<open>https\<close> URL with the default port, step by step.\<close>

lemma normalize_steps:
  assumes "urlsplit u = Inr r" and "sp_scheme r = ''https''" and "sp_netloc r \<noteq> []"
    and "sp_hostname r = Some h" and "sp_username r = None" and "sp_password r = None" and "sp_fragment r = []"
    and "sp_port r = Inr port" and "port = None \<or> port = Some 443" and "h \<noteq> []" and "CHR '':'' \<notin> set h"
  shows "normalize_redirect_uri u = Inr (''https://'' @ ascii_lower h
    @ (if sp_path r = [] then ''/'' else if take 1 (sp_path r) \<noteq> ''/'' then ''/'' @ sp_path r else sp_path r)
    @ (if sp_query r = [] then [] else ''?'' @ sp_query r))"
proof -
  have low: "ascii_lower ''https'' = ''https''" by code_simp
  have c: "canonical_netloc ''https'' (Some h) port = Inr (ascii_lower h)"
    using assms(9-11) by (auto simp: canonical_netloc_def Let_def low default_port_def in_set_ascii_lower is_alpha_def)
  show ?thesis
    using assms by (simp add: normalize_redirect_uri_def given_def c low urlunsplit_def Let_def)
qed



text \<open>
  A host given as an \<open>IPvFuture\<close> literal loses its brackets: the literal and the name it
  contains have the same normal form, and with a bracket inside the form is not a URL any more.
\<close>

lemma ipvfuture_brackets_lost:
  "normalize_redirect_uri ''https://[v1.a]/'' = Inr ''https://v1.a/''"
  "normalize_redirect_uri ''https://[v1.a[b]/'' = Inr ''https://v1.a[b/''"
  "normalize_redirect_uri ''https://v1.a[b/'' = Inl (ValueError ''Invalid IPv6 URL'')"
proof -
  have u: "urlsplit ''https://[v1.a]/'' = Inr \<lparr>sp_scheme = ''https'', sp_netloc = ''[v1.a]'', sp_path = ''/'', sp_query = [], sp_fragment = []\<rparr>"
    "urlsplit ''https://[v1.a[b]/'' = Inr \<lparr>sp_scheme = ''https'', sp_netloc = ''[v1.a[b]'', sp_path = ''/'', sp_query = [], sp_fragment = []\<rparr>"
    "urlsplit ''https://v1.a[b/'' = Inl (ValueError ''Invalid IPv6 URL'')"
    by code_simp+
  show "normalize_redirect_uri ''https://v1.a[b/'' = Inl (ValueError ''Invalid IPv6 URL'')"
    by (simp add: normalize_redirect_uri_def u(3))
  have p: "sp_hostname r = Some h \<and> sp_username r = None \<and> sp_password r = None \<and> sp_port r = Inr None"
    if "(r, h) \<in> set [(\<lparr>sp_scheme = ''https'', sp_netloc = ''[v1.a]'', sp_path = ''/'', sp_query = [], sp_fragment = []\<rparr>, ''v1.a''),
      (\<lparr>sp_scheme = ''https'', sp_netloc = ''[v1.a[b]'', sp_path = ''/'', sp_query = [], sp_fragment = []\<rparr>, ''v1.a[b'')]" for r h
    using that by simp (elim disjE conjE; hypsubst; code_simp)
  have low: "ascii_lower ''v1.a'' = ''v1.a''" "ascii_lower ''v1.a[b'' = ''v1.a[b''" by code_simp+
  show "normalize_redirect_uri ''https://[v1.a]/'' = Inr ''https://v1.a/''"
    "normalize_redirect_uri ''https://[v1.a[b]/'' = Inr ''https://v1.a[b/''"
    by (subst normalize_steps [OF u(1), of "''v1.a''" None], use p in \<open>simp_all add: low\<close>)
      (subst normalize_steps [OF u(2), of "''v1.a[b''" None], use p in \<open>simp_all add: low\<close>)
qed

end
