(* ===== verification/Auth_Stores.thy ===== *)
theory Auth_Stores
  imports Disk_Cache Auth_Config
begin

text \<open>
  The stores of the authentication service on the disk caches: \<^verbatim>\<open>src/auth/token_store.py\<close> (refresh
  tokens and SIWE nonces), \<^verbatim>\<open>src/auth/code_store.py\<close> (authorization codes),
  \<^verbatim>\<open>src/auth/rate_limiter.py\<close> (a fixed-window counter) and \<^verbatim>\<open>src/auth/pkce.py\<close>. Times are in
  microseconds, the resolution of \<open>datetime\<close>.
\<close>

definition SECOND :: int where "SECOND = 1000000"

section \<open>Environment\<close>

record 'w store_env =
  se_disk :: "'w disk"
  se_clock :: "'w \<Rightarrow> int"
  se_token_urlsafe :: "'w \<Rightarrow> string \<times> 'w"
  se_token_hex :: "'w \<Rightarrow> string \<times> 'w"
  se_nonce_expiry_seconds :: int
  se_code_ttl_seconds :: int

definition time_time :: "'w store_env \<Rightarrow> ('w auth, int) py" where
  "time_time env = reading (se_clock env)"

definition fresh :: "('w \<Rightarrow> string \<times> 'w) \<Rightarrow> ('w auth, string) py" where
  "fresh f = outside (\<lambda>w. case f w of (x, w') \<Rightarrow> (Inr x, w'))"

text \<open>The stored values of the token cache are texts.\<close>

definition text_of :: "cell option \<Rightarrow> exn + string option" where
  "text_of v = (case v of None \<Rightarrow> Inr None | Some (Text s) \<Rightarrow> Inr (Some s)
     | Some _ \<Rightarrow> Inl (OtherError ''TypeError''))"

section \<open>Refresh tokens\<close>

definition refresh_key :: "string \<Rightarrow> ckey" where
  "refresh_key jti = (Tokens, ''refresh:'' @ jti)"

definition nonce_key :: "string \<Rightarrow> ckey" where
  "nonce_key nonce = (Tokens, ''nonce:'' @ nonce)"

definition client_key :: "string \<Rightarrow> ckey" where
  "client_key client_id = (Tokens, ''client_nonce:'' @ client_id)"

definition store_refresh_token :: "'w store_env \<Rightarrow> string \<Rightarrow> string \<Rightarrow> int \<Rightarrow> ('w auth, unit) py" where
  "store_refresh_token env jti address expires_at =
     py_bind (time_time env) (\<lambda>now.
     cache_set (se_disk env) (refresh_key jti) (Text address) (max 0 (expires_at - now)))"

definition get_refresh_token :: "'w store_env \<Rightarrow> string \<Rightarrow> ('w auth, (string \<times> int) option) py" where
  "get_refresh_token env jti =
     py_bind (cache_get (se_disk env) (refresh_key jti)) (\<lambda>v.
     py_bind (py_lift (text_of v)) (\<lambda>address.
     case address of
       None \<Rightarrow> py_ret None
     | Some a \<Rightarrow> py_bind (time_time env) (\<lambda>now. py_ret (Some (a, now + 86400 * SECOND)))))"

definition delete_refresh_token :: "'w store_env \<Rightarrow> string \<Rightarrow> ('w auth, bool) py" where
  "delete_refresh_token env jti = cache_delete (se_disk env) (refresh_key jti)"

definition is_refresh_token_valid :: "'w store_env \<Rightarrow> string \<Rightarrow> ('w auth, bool) py" where
  "is_refresh_token_valid env jti = cache_contains (se_disk env) (refresh_key jti)"

definition consume_refresh_token :: "'w store_env \<Rightarrow> string \<Rightarrow> ('w auth, string option) py" where
  "consume_refresh_token env jti =
     py_bind (cache_pop (se_disk env) (refresh_key jti)) (\<lambda>v. py_lift (text_of v))"

fun revoke_keys :: "'w store_env \<Rightarrow> string \<Rightarrow> string list \<Rightarrow> int \<Rightarrow> ('w auth, int) py" where
  "revoke_keys env address [] revoked = py_ret revoked"
| "revoke_keys env address (key # keys) revoked =
     (if take 8 key = ''refresh:'' then
        py_bind (cache_get (se_disk env) (Tokens, key)) (\<lambda>v.
        if v = Some (Text address) then
          py_bind (cache_delete (se_disk env) (Tokens, key)) (\<lambda>deleted.
          revoke_keys env address keys (if deleted then revoked + 1 else revoked))
        else revoke_keys env address keys revoked)
      else revoke_keys env address keys revoked)"

definition revoke_all_refresh_tokens_for_address :: "'w store_env \<Rightarrow> string \<Rightarrow> ('w auth, int) py" where
  "revoke_all_refresh_tokens_for_address env address =
     py_bind (cache_keys (se_disk env) Tokens) (\<lambda>keys. revoke_keys env address keys 0)"

section \<open>Nonces\<close>

definition new_nonce :: "'w store_env \<Rightarrow> string option \<Rightarrow> ('w auth, string) py" where
  "new_nonce env client_id =
     py_bind (fresh (se_token_hex env)) (\<lambda>nonce.
     let ttl = se_nonce_expiry_seconds env * SECOND;
         client = (case client_id of None \<Rightarrow> [] | Some c \<Rightarrow> c)
     in py_then (cache_set (se_disk env) (nonce_key nonce) (Text client) ttl)
        (py_then (if client \<noteq> [] then cache_set (se_disk env) (client_key client) (Text nonce) ttl
                  else py_ret ())
          (py_ret nonce)))"

definition generate_nonce :: "'w store_env \<Rightarrow> string option \<Rightarrow> ('w auth, string) py" where
  "generate_nonce env client_id =
     (if given client_id then
        py_bind (cache_get (se_disk env) (client_key (the client_id))) (\<lambda>v.
        py_bind (py_lift (text_of v)) (\<lambda>existing.
        case existing of
          None \<Rightarrow> new_nonce env client_id
        | Some nonce \<Rightarrow>
            py_bind (cache_contains (se_disk env) (nonce_key nonce)) (\<lambda>valid.
            if valid then py_ret nonce else new_nonce env client_id)))
      else new_nonce env client_id)"

definition consume_nonce :: "'w store_env \<Rightarrow> string \<Rightarrow> ('w auth, bool) py" where
  "consume_nonce env nonce =
     py_bind (cache_pop (se_disk env) (nonce_key nonce)) (\<lambda>v.
     py_bind (py_lift (text_of v)) (\<lambda>client_id.
     case client_id of
       None \<Rightarrow> py_ret False
     | Some c \<Rightarrow>
         py_then (if c \<noteq> [] then py_then (cache_delete (se_disk env) (client_key c)) (py_ret ())
                  else py_ret ())
           (py_ret True)))"

definition is_nonce_valid :: "'w store_env \<Rightarrow> string \<Rightarrow> ('w auth, bool) py" where
  "is_nonce_valid env nonce = cache_contains (se_disk env) (nonce_key nonce)"

section \<open>Authorization codes\<close>

definition code_key :: "string \<Rightarrow> ckey" where
  "code_key code = (Codes, ''auth_code:'' @ code)"

text \<open>\<open>AuthCodeRecord(**value)\<close>.\<close>

definition code_of :: "cell option \<Rightarrow> exn + auth_code option" where
  "code_of v = (case v of None \<Rightarrow> Inr None | Some (Code c) \<Rightarrow> Inr (Some c)
     | Some _ \<Rightarrow> Inl (OtherError ''TypeError''))"

definition create_code :: "'w store_env \<Rightarrow> auth_code \<Rightarrow> ('w auth, string) py" where
  "create_code env rec =
     py_bind (fresh (se_token_urlsafe env)) (\<lambda>code.
     py_then (cache_set (se_disk env) (code_key code) (Code rec) (se_code_ttl_seconds env * SECOND))
       (py_ret code))"

definition get_code :: "'w store_env \<Rightarrow> string \<Rightarrow> ('w auth, auth_code option) py" where
  "get_code env code = py_bind (cache_get (se_disk env) (code_key code)) (\<lambda>v. py_lift (code_of v))"

definition consume_code :: "'w store_env \<Rightarrow> string \<Rightarrow> ('w auth, auth_code option) py" where
  "consume_code env code = py_bind (cache_pop (se_disk env) (code_key code)) (\<lambda>v. py_lift (code_of v))"

section \<open>PKCE\<close>

definition b64_chars :: string where
  "b64_chars = ''ABCDEFGHIJKLMNOPQRSTUVWXYZabcdefghijklmnopqrstuvwxyz0123456789-_''"

definition b64_char :: "nat \<Rightarrow> char" where
  "b64_char n = b64_chars ! n"

text \<open>\<open>base64.urlsafe_b64encode(bs).rstrip(b"=")\<close>.\<close>

fun urlsafe_b64 :: "bytes \<Rightarrow> string" where
  "urlsafe_b64 [] = []"
| "urlsafe_b64 [a] = [b64_char (unat a div 4), b64_char (unat a mod 4 * 16)]"
| "urlsafe_b64 [a, b] =
     [b64_char (unat a div 4), b64_char (unat a mod 4 * 16 + unat b div 16), b64_char (unat b mod 16 * 4)]"
| "urlsafe_b64 (a # b # c # rest) =
     b64_char (unat a div 4) # b64_char (unat a mod 4 * 16 + unat b div 16)
     # b64_char (unat b mod 16 * 4 + unat c div 64) # b64_char (unat c mod 64) # urlsafe_b64 rest"

text \<open>\<open>hashlib.sha256\<close> is the argument \<open>sha256\<close>; it sees the bytes of the ASCII text.\<close>

definition verify_pkce :: "(bytes \<Rightarrow> bytes) \<Rightarrow> string \<Rightarrow> string \<Rightarrow> string \<Rightarrow> exn + bool" where
  "verify_pkce sha256 code_verifier code_challenge code_challenge_method =
     (if code_challenge_method \<noteq> ''S256'' then Inl (ValueError ''Unsupported code_challenge_method'')
      else if \<exists>c \<in> set code_verifier. (of_char c :: nat) \<ge> 128
      then Inl (ValueError ''PKCE code_verifier must contain only ASCII characters'')
      else Inr (urlsafe_b64 (sha256 (map of_char code_verifier)) = code_challenge))"

section \<open>Rate limits\<close>

definition limit_key :: "string \<Rightarrow> string \<Rightarrow> ckey" where
  "limit_key bucket key = (Limits, ''rate_limit:'' @ bucket @ '':'' @ key)"

text \<open>\<open>isinstance(existing, dict)\<close>.\<close>

definition limit_of :: "cell option \<Rightarrow> limit_entry option" where
  "limit_of v = (case v of Some (Limit l) \<Rightarrow> Some l | _ \<Rightarrow> None)"

definition start_window :: "'w store_env \<Rightarrow> ckey \<Rightarrow> int \<Rightarrow> int \<Rightarrow> ('w auth, int option) py" where
  "start_window env k now window_seconds =
     py_then (locked_set (se_disk env) k
         (Limit \<lparr>li_count = 1, li_reset_at = now + window_seconds * SECOND\<rparr>) (window_seconds * SECOND))
       (py_ret None)"

text \<open>The transaction once the entry has been read.\<close>

definition count_hit ::
    "'w store_env \<Rightarrow> ckey \<Rightarrow> int \<Rightarrow> int \<Rightarrow> int \<Rightarrow> cell option \<Rightarrow> ('w auth, int option) py" where
  "count_hit env k limit window_seconds now existing =
     (case limit_of existing of
        None \<Rightarrow> start_window env k now window_seconds
      | Some l \<Rightarrow>
          if li_reset_at l \<le> now then start_window env k now window_seconds
          else if li_count l \<ge> limit
          then py_ret (Some (max 1 ((li_reset_at l - now) div SECOND)))
          else
            py_then (locked_set (se_disk env) k
                (Limit \<lparr>li_count = li_count l + 1, li_reset_at = li_reset_at l\<rparr>)
                (max 1 ((li_reset_at l - now) div SECOND) * SECOND))
              (py_ret None))"

definition hit :: "'w store_env \<Rightarrow> string \<Rightarrow> string \<Rightarrow> int \<Rightarrow> int \<Rightarrow> ('w auth, int option) py" where
  "hit env bucket key limit window_seconds =
     (if limit \<le> 0 \<or> window_seconds \<le> 0 then py_ret None
      else
        py_bind (time_time env) (\<lambda>now.
        let k = limit_key bucket key in
        py_then (others (se_disk env))
        (py_bind (locked_get (se_disk env) k) (count_hit env k limit window_seconds now))))"

lemma grows_count_hit [grows_intros]: "keeps (since_log l) (count_hit env k limit window now v)"
  unfolding count_hit_def start_window_def
  by (auto split: option.split intro!: keeps_intros grows_intros)

lemma grows_hit [grows_intros]: "keeps (since_log l) (hit env bucket key limit window)"
  unfolding hit_def time_time_def Let_def by (intro keeps_intros grows_intros)

definition split_first :: "char \<Rightarrow> string \<Rightarrow> string" where
  "split_first c s = hd (py_split c s)"

definition request_identity :: "bool \<Rightarrow> http_request \<Rightarrow> string" where
  "request_identity trust_x_forwarded_for request =
     (let peer = (if given (rq_client_host request) then the (rq_client_host request) else ''unknown'');
          forwarded_for = (case map_of (rq_headers request) ''x-forwarded-for'' of None \<Rightarrow> [] | Some v \<Rightarrow> v);
          candidate = py_strip (split_first (CHR '','') forwarded_for)
      in if trust_x_forwarded_for \<and> forwarded_for \<noteq> [] \<and> ip_address_ok candidate then candidate else peer)"

end
