(* ===== verification/Base64_Text.thy ===== *)
theory Base64_Text
  imports Auth_Stores
begin

text \<open>
  What the code uses of \<open>base64\<close>: \<open>binascii.a2b_base64\<close> (lenient, and strict as
  \<open>validate=True\<close> asks for), \<open>b64encode\<close>, and the canonical unpadded URL-safe form of
  \<^verbatim>\<open>src/services/onramp_intent.py\<close>, whose decoder is the inverse of its encoder.
\<close>

section \<open>The standard alphabet\<close>

definition b64_std_chars :: string where
  "b64_std_chars = ''ABCDEFGHIJKLMNOPQRSTUVWXYZabcdefghijklmnopqrstuvwxyz0123456789+/''"

fun char_index :: "char \<Rightarrow> string \<Rightarrow> nat option" where
  "char_index c [] = None"
| "char_index c (d # ds) = (if c = d then Some 0 else map_option Suc (char_index c ds))"

definition b64_value :: "char \<Rightarrow> nat option" where
  "b64_value c = char_index c b64_std_chars"

text \<open>\<open>bytes.translate\<close> of the two characters the alphabets differ in.\<close>

definition std_char :: "char \<Rightarrow> char" where
  "std_char c = (if c = CHR ''-'' then CHR ''+'' else if c = CHR ''_'' then CHR ''/'' else c)"

definition url_char :: "char \<Rightarrow> char" where
  "url_char c = (if c = CHR ''+'' then CHR ''-'' else if c = CHR ''/'' then CHR ''_'' else c)"

section \<open>Decoding\<close>

text \<open>
  The loop of \<open>a2b_base64\<close>: \<open>quad\<close> counts the characters of the current group of four,
  \<open>left\<close> holds the bits not yet written, \<open>pads\<close> the padding seen in the group.
\<close>

definition emit_byte :: "nat \<Rightarrow> exn + bytes \<Rightarrow> exn + bytes" where
  "emit_byte n r = sum_bind r (\<lambda>bs. Inr (word_of_nat n # bs))"

fun a2b_base64 :: "bool \<Rightarrow> string \<Rightarrow> nat \<Rightarrow> nat \<Rightarrow> nat \<Rightarrow> bool \<Rightarrow> exn + bytes" where
  "a2b_base64 strict [] quad left pads started =
     (if quad = 0 then Inr [] else Inl (ValueError ''Incorrect padding''))"
| "a2b_base64 strict (c # cs) quad left pads started =
     (if c = CHR ''='' then
        if strict \<and> quad = 0 then Inl (ValueError ''Excess padding not allowed'')
        else if quad \<ge> 2 \<and> quad + pads + 1 \<ge> 4
        then (if strict \<and> cs \<noteq> [] then Inl (ValueError ''Excess data after padding'') else Inr [])
        else a2b_base64 strict cs quad left (if quad \<ge> 2 then pads + 1 else pads) True
      else
        case b64_value c of
          None \<Rightarrow>
            if strict then Inl (ValueError ''Only base64 data is allowed'')
            else a2b_base64 strict cs quad left pads started
        | Some v \<Rightarrow>
            if strict \<and> started then Inl (ValueError ''Discontinuous padding not allowed'')
            else if quad = 0 then a2b_base64 strict cs 1 v 0 started
            else if quad = 1 then emit_byte (left * 4 + v div 16) (a2b_base64 strict cs 2 (v mod 16) 0 started)
            else if quad = 2 then emit_byte (left * 16 + v div 4) (a2b_base64 strict cs 3 (v mod 4) 0 started)
            else emit_byte (left * 64 + v) (a2b_base64 strict cs 0 0 0 started))"

text \<open>\<open>base64.b64decode(text)\<close> of a text: what is not in the alphabet is skipped.\<close>

definition b64decode :: "string \<Rightarrow> exn + bytes" where
  "b64decode s =
     (if \<exists>c \<in> set s. (of_char c :: nat) \<ge> 128
      then Inl (ValueError ''string argument should contain only ASCII characters'')
      else a2b_base64 False s 0 0 0 False)"

text \<open>The padding of a text, and \<open>base64.b64encode(bs)\<close>.\<close>

definition b64_padding :: "string \<Rightarrow> string" where
  "b64_padding s = replicate ((4 - length s mod 4) mod 4) (CHR ''='')"

definition b64encode :: "bytes \<Rightarrow> string" where
  "b64encode bs = map std_char (urlsafe_b64 bs) @ b64_padding (urlsafe_b64 bs)"

section \<open>The canonical URL-safe form\<close>

definition b64url_decode :: "string \<Rightarrow> exn + bytes" where
  "b64url_decode s =
     (if s = [] \<or> \<not> set s \<subseteq> set b64_chars then Inl (ValueError ''invalid base64url'')
      else
        case a2b_base64 True (map std_char s @ b64_padding s) 0 0 0 False of
          Inl e \<Rightarrow> Inl (ValueError ''invalid base64url'')
        | Inr decoded \<Rightarrow>
            if urlsafe_b64 decoded \<noteq> s then Inl (ValueError ''noncanonical base64url'') else Inr decoded)"

lemma b64_char_all:
  "\<forall>n \<in> set [0 ..< 64]. b64_value (std_char (b64_char n)) = Some n \<and> std_char (b64_char n) \<noteq> CHR ''=''
     \<and> b64_char n \<in> set b64_chars"
  by code_simp

lemma b64_char_facts [simp]:
  assumes "n < 64"
  shows "b64_value (std_char (b64_char n)) = Some n" "std_char (b64_char n) \<noteq> CHR ''=''" "b64_char n \<in> set b64_chars"
  using b64_char_all assms by auto

lemma unat_u8: "unat (b :: u8) < 256"
  using unsigned_less [of b, where 'a = nat] by simp

lemma six_bits [simp]:
  "unat (a :: u8) div 4 < 64" "unat a mod 4 * 16 < 64" "unat a mod 16 * 4 < 64" "unat a mod 64 < 64"
  "unat a mod 4 * 16 + unat (b :: u8) div 16 < 64" "unat a mod 16 * 4 + unat b div 64 < 64"
  using unat_u8 [of a] unat_u8 [of b] by auto

lemma top_bits [simp]:
  "unat (b :: u8) div 16 div 16 = 0" "unat b div 16 mod 16 = unat b div 16"
  "unat b div 64 div 4 = 0" "unat b div 64 mod 4 = unat b div 64"
  using unat_u8 [of b] by auto

lemma length_urlsafe_b64: "length (urlsafe_b64 bs) mod 4 = (if length bs mod 3 = 0 then 0 else length bs mod 3 + 1)"
proof (induction bs rule: urlsafe_b64.induct)
  case (4 a b c rest)
  then show ?case by (auto simp: mod_Suc)
qed simp_all

lemma two_pads [simp]: "replicate 2 c = [c, c]"
  by (simp add: numeral_2_eq_2)

lemma a2b_urlsafe_b64:
  "a2b_base64 strict (map std_char (urlsafe_b64 bs) @ b64_padding (urlsafe_b64 bs)) 0 0 0 False = Inr bs"
proof (induction bs rule: urlsafe_b64.induct)
  case (4 a b c rest)
  have "b64_padding (urlsafe_b64 (a # b # c # rest)) = b64_padding (urlsafe_b64 rest)"
    by (simp add: b64_padding_def)
  with 4 show ?case by (simp add: emit_byte_def del: of_nat_add of_nat_mult)
qed (simp_all add: b64_padding_def emit_byte_def del: of_nat_add of_nat_mult)

lemma urlsafe_b64_range: "set (urlsafe_b64 bs) \<subseteq> set b64_chars"
  by (induction bs rule: urlsafe_b64.induct) simp_all

lemma urlsafe_b64_Nil: "urlsafe_b64 bs = [] \<longleftrightarrow> bs = []"
  by (cases bs rule: urlsafe_b64.cases) simp_all

lemma b64url_decode_encode: "bs \<noteq> [] \<Longrightarrow> b64url_decode (urlsafe_b64 bs) = Inr bs"
  by (simp add: b64url_decode_def urlsafe_b64_Nil urlsafe_b64_range a2b_urlsafe_b64)

lemma b64url_decode_Inr: "b64url_decode s = Inr bs \<Longrightarrow> s = urlsafe_b64 bs \<and> bs \<noteq> []"
  by (auto simp: b64url_decode_def split: if_splits sum.splits)

end
