(* ===== verification/Rofl_Client.thy ===== *)
theory Rofl_Client
  imports Base64_Text Sweep_Record
begin

text \<open>
  \<^verbatim>\<open>src/clients/rofl.py\<close>: what becomes of a transaction handed to the ROFL app daemon. The
  daemon's answer (decoded CBOR) is a value of \<open>rofl_reply\<close>; the table of contract errors of
  \<^verbatim>\<open>src/abi/accounting.py\<close>, which is built from the compiled contract, is a parameter.
\<close>

section \<open>Transactions and replies\<close>

record rofl_tx =
  tx_to :: "string option"
  tx_value :: int
  tx_gas :: int
  tx_data :: "string option"

record fail_info =
  fi_code :: "int option"
  fi_module :: "string option"
  fi_message :: "string option"

datatype ok_payload = OkNone | OkBytes bytes | OkText string | OkInts "int list" | OkOther

text \<open>The keys of the reply the code looks at; \<open>rp_cbor\<close> is the reply encoded again.\<close>

record rofl_reply =
  rp_fail :: "fail_info option"
  rp_ok :: "ok_payload option"
  rp_cbor :: bytes

record rofl_result =
  rs_submission_id :: string
  rs_ok_payload :: "bytes option"

record rofl_env =
  ro_error_name :: "bytes \<Rightarrow> string option"
  ro_hexbytes :: "string \<Rightarrow> exn + bytes"

section \<open>Reverts\<close>

text \<open>\<open>raw_message\<close> is a text such as \<open>reverted: <base64>\<close>.\<close>

definition strip_reverted :: "string \<Rightarrow> string" where
  "strip_reverted raw =
     (if take 10 raw = ''reverted: '' then drop 10 raw
      else if take 9 raw = ''reverted:'' then drop 9 raw else raw)"

definition decode_revert_reason :: "rofl_env \<Rightarrow> string option \<Rightarrow> string" where
  "decode_revert_reason env raw_message =
     (if \<not> given raw_message then ''unknown''
      else
        case b64decode (strip_reverted (the raw_message)) of
          Inl e \<Rightarrow> the raw_message
        | Inr decoded \<Rightarrow>
            if length decoded \<ge> 4 then
              (case ro_error_name env (take 4 decoded) of
                 Some name \<Rightarrow> if name = [] then ''unknown (selector: '' @ to_hex (take 4 decoded) @ '')'' else name
               | None \<Rightarrow> ''unknown (selector: '' @ to_hex (take 4 decoded) @ '')'')
            else ''unknown (no selector)'')"

section \<open>Submitting\<close>

definition tx_selector_hex :: "rofl_env \<Rightarrow> rofl_tx \<Rightarrow> exn + string" where
  "tx_selector_hex env tx =
     (case tx_data tx of
        None \<Rightarrow> Inl (ValueError ''Transaction must include 'data' field'')
      | Some d \<Rightarrow>
          (case ro_hexbytes env d of
             Inl e \<Rightarrow> Inl (if is_exception e then ValueError ''Transaction data must be valid hex'' else e)
           | Inr bs \<Rightarrow>
               if length bs < 4
               then Inl (ValueError ''Plaintext transaction data must include a 4-byte selector'')
               else Inr (bytes_hex (take 4 bs))))"

definition PLAINTEXT_TX_SELECTOR_ALLOWLIST :: "string list" where
  "PLAINTEXT_TX_SELECTOR_ALLOWLIST = []"

definition require_plaintext_allowlisted :: "rofl_env \<Rightarrow> rofl_tx \<Rightarrow> exn + string" where
  "require_plaintext_allowlisted env tx =
     sum_bind (tx_selector_hex env tx) (\<lambda>selector.
       if selector \<notin> set PLAINTEXT_TX_SELECTOR_ALLOWLIST
       then Inl (ValueError ''Plaintext ROFL transaction submission is not allowed for selector'')
       else Inr selector)"

text \<open>What is checked before the daemon is called.\<close>

definition submit_guard :: "rofl_env \<Rightarrow> rofl_tx \<Rightarrow> bool \<Rightarrow> exn + unit" where
  "submit_guard env tx encrypt =
     (if tx_to tx = None \<or> tx_data tx = None
      then Inl (ValueError ''Transaction must include 'to' and 'data' fields'')
      else if \<not> encrypt then sum_bind (require_plaintext_allowlisted env tx) (\<lambda>s. Inr ())
      else Inr ())"

definition ok_bytes :: "ok_payload \<Rightarrow> exn + bytes option" where
  "ok_bytes ok =
     (case ok of
        OkNone \<Rightarrow> Inr None
      | OkBytes bs \<Rightarrow> Inr (Some bs)
      | OkText t \<Rightarrow> sum_bind (bytes_fromhex (removeprefix ''0x'' t)) (\<lambda>bs. Inr (Some bs))
      | OkInts is \<Rightarrow>
          if is = [] then Inr None
          else if \<exists>i \<in> set is. i < 0 \<or> 255 < i
          then Inl (ValueError ''bytes must be in range(0, 256)'')
          else Inr (Some (map word_of_int is))
      | OkOther \<Rightarrow> Inr None)"

definition read_reply :: "rofl_env \<Rightarrow> rofl_reply \<Rightarrow> exn + rofl_result" where
  "read_reply env result =
     (case rp_fail result of
        Some info \<Rightarrow>
          let error_name = decode_revert_reason env (fi_message info) in
          Inl (TransactionReverted (Some error_name) (''Transaction reverted: '' @ error_name))
      | None \<Rightarrow>
          (case rp_ok result of
             None \<Rightarrow> Inl (OtherError ''RuntimeError: Invalid ROFL response: missing 'ok' key'')
           | Some ok \<Rightarrow>
               sum_bind (ok_bytes ok) (\<lambda>payload.
               Inr \<lparr>rs_submission_id = bytes_hex (rp_cbor result), rs_ok_payload = payload\<rparr>)))"

text \<open>From what the daemon's client returned or raised to what \<open>submit_tx\<close> returns or raises.\<close>

definition submit_outcome :: "rofl_env \<Rightarrow> exn + rofl_reply \<Rightarrow> exn + rofl_result" where
  "submit_outcome env answer =
     (case sum_bind answer (read_reply env) of
        Inl e \<Rightarrow> Inl (if is_value_error e then OtherError (''RuntimeError: Invalid ROFL response: '' @ str_exn e) else e)
      | Inr r \<Rightarrow> Inr r)"

definition submit_tx ::
    "rofl_env \<Rightarrow> (rofl_tx \<Rightarrow> bool \<Rightarrow> ('s, rofl_reply) py) \<Rightarrow> rofl_tx \<Rightarrow> bool \<Rightarrow> ('s, rofl_result) py" where
  "submit_tx env sign_submit tx encrypt =
     py_then (py_lift (submit_guard env tx encrypt))
       (\<lambda>s. case sign_submit tx encrypt s of (answer, t) \<Rightarrow> (submit_outcome env answer, t))"

text \<open>
  Past the guard no \<open>ValueError\<close> is raised, and a revert is raised exactly when the daemon
  reported one (or its client raised it).
\<close>

lemma submit_outcome_no_value_error: "submit_outcome env answer = Inl e \<Longrightarrow> \<not> is_value_error e"
  by (auto simp: submit_outcome_def split: sum.splits if_splits)

lemma no_plaintext: "submit_guard env tx False \<noteq> Inr ()"
  by (auto simp: submit_guard_def require_plaintext_allowlisted_def PLAINTEXT_TX_SELECTOR_ALLOWLIST_def
      sum_bind_def split: sum.splits)

lemma guard_full: "tx_to tx \<noteq> None \<Longrightarrow> tx_data tx \<noteq> None \<Longrightarrow> submit_guard env tx True = Inr ()"
  by (simp add: submit_guard_def)

lemma submit_outcome_Inr:
  "submit_outcome env answer = Inr r \<Longrightarrow>
   \<exists>reply ok. answer = Inr reply \<and> rp_fail reply = None \<and> rp_ok reply = Some ok
     \<and> rs_submission_id r = bytes_hex (rp_cbor reply)"
  by (auto simp: submit_outcome_def read_reply_def sum_bind_def Let_def split: sum.splits option.splits if_splits)

end
