(* ===== verification/Accounting_Calls.thy ===== *)
theory Accounting_Calls
  imports Withdrawal_Processor Rofl_Client
begin

text \<open>
  Signed writes of \<^verbatim>\<open>src/services/accounting_contract.py\<close> (\<open>createLock\<close>, \<open>modifyLock\<close>,
  \<open>transferBalance\<close>, \<open>transferFromLock\<close>), their durable record in
  \<^verbatim>\<open>src/services/accounting_store.py\<close>, and the answers of their handlers in \<^verbatim>\<open>src/api/routes.py\<close>.

  \<open>_submit_signed\<close> runs one task per calldata hash, which callers join; the parts between two
  awaits are definitions over the record \<open>calls\<close>, and \<open>act\<close> runs one of them, or one of the things
  the outside does: a submission lands, the daemon answers, time passes, a caller is cancelled,
  the process restarts (which loses tasks and callers, not the disk). A submission the daemon was
  handed may land at any later time, unless the daemon has reported its revert.
\<close>

section \<open>Requests\<close>

record lock_payload =
  lp_service_address :: string
  lp_token_id :: string
  lp_amount :: int
  lp_expiry :: int
  lp_nonce :: int
  lp_signature :: string

record modify_payload =
  mp_lock_id :: int
  mp_amount :: int
  mp_new_expiry :: int
  mp_nonce :: int
  mp_signature :: string

record transfer_payload =
  tp_to_address :: string
  tp_token_id :: string
  tp_amount :: int
  tp_nonce :: int
  tp_signature :: string

record transfer_locked_payload =
  tlp_user_address :: string
  tlp_lock_id :: int
  tlp_to_address :: string
  tlp_amount :: int
  tlp_nonce :: int
  tlp_signature :: string

datatype signed_request =
    LockReq lock_payload | ModifyReq modify_payload | TransferReq transfer_payload
  | TransferLockedReq transfer_locked_payload

datatype abi_value = AbiAddress string | AbiBytes bytes | AbiInt int

text \<open>\<open>ce_encode\<close> is the ABI encoder of the contract's functions.\<close>

record 'w call_env =
  ce_service :: "'w a_env"
  ce_contract_address :: string
  ce_gas_limit :: int
  ce_encode :: "string \<Rightarrow> abi_value list \<Rightarrow> exn + bytes"
  ce_keccak :: "bytes \<Rightarrow> bytes"
  ce_rofl :: rofl_env

definition require_positive :: "int \<Rightarrow> bool \<Rightarrow> exn + int" where
  "require_positive n allow_zero =
     (if allow_zero then (if n < 0 then Inl (ValueError ''must be zero or positive'') else Inr n)
      else if n \<le> 0 then Inl (ValueError ''must be positive'') else Inr n)"

definition require_hex :: "'w a_env \<Rightarrow> string \<Rightarrow> nat option \<Rightarrow> exn + bytes" where
  "require_hex env v expected_len =
     (case ax_hexbytes env (ensure_hex v) of
        Inl e \<Rightarrow> Inl (if is_exception e then ValueError ''Invalid hex value'' else e)
      | Inr data \<Rightarrow>
          (case expected_len of
             None \<Rightarrow> Inr data
           | Some n \<Rightarrow> if length data \<noteq> n then Inl (ValueError ''has the wrong number of bytes'') else Inr data))"

definition ADDRESS_ZERO :: string where
  "ADDRESS_ZERO = ''0x0000000000000000000000000000000000000000''"

definition require_not_zero :: "string \<Rightarrow> exn + unit" where
  "require_not_zero a =
     (if ascii_lower a = ADDRESS_ZERO then Inl (ValueError ''to_address must not be the zero address'') else Inr ())"

text \<open>Nonce, label and calldata of a request, or the error before anything is submitted.\<close>

fun prepare :: "'w call_env \<Rightarrow> signed_request \<Rightarrow> exn + int \<times> string \<times> bytes" where
  "prepare env (LockReq p) =
     sum_bind (require_address (ce_service env) (lp_service_address p)) (\<lambda>service.
     sum_bind (require_hex (ce_service env) (lp_token_id p) (Some 32)) (\<lambda>token.
     sum_bind (require_positive (lp_amount p) False) (\<lambda>amount.
     sum_bind (require_positive (lp_expiry p) False) (\<lambda>expiry.
     sum_bind (require_positive (lp_nonce p) True) (\<lambda>nonce.
     sum_bind (require_hex (ce_service env) (lp_signature p) None) (\<lambda>signature.
     sum_bind (ce_encode env ''createLock''
       [AbiAddress service, AbiBytes token, AbiInt amount, AbiInt expiry, AbiInt nonce, AbiBytes signature]) (\<lambda>data.
     Inr (nonce, ''createLock'', data))))))))"
| "prepare env (ModifyReq p) =
     sum_bind (require_positive (mp_lock_id p) False) (\<lambda>lock_id.
     sum_bind (require_positive (mp_amount p) True) (\<lambda>amount.
     sum_bind (require_positive (mp_new_expiry p) False) (\<lambda>new_expiry.
     sum_bind (require_positive (mp_nonce p) True) (\<lambda>nonce.
     sum_bind (require_hex (ce_service env) (mp_signature p) None) (\<lambda>signature.
     sum_bind (ce_encode env ''modifyLock''
       [AbiInt lock_id, AbiInt amount, AbiInt new_expiry, AbiInt nonce, AbiBytes signature]) (\<lambda>data.
     Inr (nonce, ''modifyLock'', data)))))))"
| "prepare env (TransferReq p) =
     sum_bind (require_address (ce_service env) (tp_to_address p)) (\<lambda>to_addr.
     sum_bind (require_not_zero to_addr) (\<lambda>u.
     sum_bind (require_hex (ce_service env) (tp_token_id p) (Some 32)) (\<lambda>token.
     sum_bind (require_positive (tp_amount p) False) (\<lambda>amount.
     sum_bind (require_positive (tp_nonce p) True) (\<lambda>nonce.
     sum_bind (require_hex (ce_service env) (tp_signature p) None) (\<lambda>signature.
     sum_bind (ce_encode env ''transferBalance''
       [AbiAddress to_addr, AbiBytes token, AbiInt amount, AbiInt nonce, AbiBytes signature]) (\<lambda>data.
     Inr (nonce, ''Transfer'', data))))))))"
| "prepare env (TransferLockedReq p) =
     sum_bind (require_address (ce_service env) (tlp_user_address p)) (\<lambda>user.
     sum_bind (require_positive (tlp_lock_id p) False) (\<lambda>lock_id.
     sum_bind (require_address (ce_service env) (tlp_to_address p)) (\<lambda>to_addr.
     sum_bind (require_not_zero to_addr) (\<lambda>u.
     sum_bind (require_positive (tlp_amount p) False) (\<lambda>amount.
     sum_bind (require_positive (tlp_nonce p) True) (\<lambda>nonce.
     sum_bind (require_hex (ce_service env) (tlp_signature p) None) (\<lambda>signature.
     sum_bind (ce_encode env ''transferFromLock''
       [AbiAddress user, AbiAddress to_addr, AbiInt lock_id, AbiInt amount, AbiInt nonce, AbiBytes signature]) (\<lambda>data.
     Inr (nonce, ''transferFromLock'', data)))))))))"

text \<open>\<open>_build_tx\<close> on calldata, and the hash that names a call.\<close>

definition build_tx :: "'w call_env \<Rightarrow> bytes \<Rightarrow> rofl_tx" where
  "build_tx env data =
     \<lparr>tx_to = Some (ce_contract_address env), tx_value = 0, tx_gas = ce_gas_limit env,
      tx_data = Some (to_hex data)\<rparr>"

definition call_key :: "'w call_env \<Rightarrow> bytes \<Rightarrow> string" where
  "call_key env data = to_hex (ce_keccak env data)"

section \<open>The durable record\<close>

datatype call_status = Pending | Executed

record accounting_call =
  cl_status :: call_status
  cl_submission_id :: "string option"

definition RECORD_TTL_SECONDS :: int where
  "RECORD_TTL_SECONDS = 7 * 24 * 3600"

text \<open>A task is queued, has submitted (with what it had found on disk), or is over.\<close>

datatype phase =
    Queued
  | Sending "accounting_call option"
  | Finished "exn + string"

record task =
  tk_key :: string
  tk_data :: bytes
  tk_phase :: phase

datatype call_event =
    Sent nat string int
  | Landed nat
  | Reverted nat
  | Recorded nat string string int
  | Reply nat signed_request "exn + string" int

record calls =
  cs_now :: int
  cs_disk :: "string \<rightharpoonup> accounting_call \<times> int"
  cs_tasks :: "nat \<rightharpoonup> task"
  cs_next :: nat
  cs_submissions :: "string \<rightharpoonup> nat"
  cs_callers :: "nat \<rightharpoonup> signed_request \<times> nat"
  cs_log :: "call_event list"

text \<open>What the disk may raise in a part of the code: a time-out, an SQLite error.\<close>

record faults =
  fl_get :: "exn option"
  fl_put :: "exn option"
  fl_delete :: "exn option"

definition faulty :: "exn option \<Rightarrow> ('s, 'a) py \<Rightarrow> ('s, 'a) py" where
  "faulty fault m = (case fault of Some e \<Rightarrow> py_raise e | None \<Rightarrow> m)"

definition stored :: "calls \<Rightarrow> string \<Rightarrow> accounting_call option" where
  "stored s key =
     (case cs_disk s key of
        None \<Rightarrow> None | Some (c, expires) \<Rightarrow> if cs_now s < expires then Some c else None)"

definition store_get :: "exn option \<Rightarrow> string \<Rightarrow> (calls, accounting_call option) py" where
  "store_get fault key = faulty fault (py_bind py_get (\<lambda>s. py_ret (stored s key)))"

definition store_put :: "exn option \<Rightarrow> string \<Rightarrow> accounting_call \<Rightarrow> (calls, unit) py" where
  "store_put fault key call = faulty fault (py_modify (\<lambda>s.
     s\<lparr>cs_disk := (cs_disk s)(key \<mapsto> (call, cs_now s + RECORD_TTL_SECONDS))\<rparr>))"

definition store_delete :: "exn option \<Rightarrow> string \<Rightarrow> (calls, unit) py" where
  "store_delete fault key = faulty fault (py_modify (\<lambda>s. s\<lparr>cs_disk := (cs_disk s)(key := None)\<rparr>))"

definition note_event :: "(calls \<Rightarrow> call_event) \<Rightarrow> (calls, unit) py" where
  "note_event f = py_modify (\<lambda>s. s\<lparr>cs_log := cs_log s @ [f s]\<rparr>)"

section \<open>The task of a call\<close>

text \<open>Up to the await of the daemon, and from its answer on.\<close>

definition submit_start :: "'w call_env \<Rightarrow> faults \<Rightarrow> nat \<Rightarrow> string \<Rightarrow> bytes \<Rightarrow> (calls, phase) py" where
  "submit_start env fl n key data =
     py_bind (store_get (fl_get fl) key) (\<lambda>earlier.
     if earlier \<noteq> None \<and> cl_status (the earlier) = Executed
     then py_ret (Finished (Inr (case cl_submission_id (the earlier) of None \<Rightarrow> [] | Some i \<Rightarrow> i)))
     else
       py_then (store_put (fl_put fl) key \<lparr>cl_status = Pending, cl_submission_id = None\<rparr>)
       (py_then (py_lift (submit_guard (ce_rofl env) (build_tx env data) True))
       (py_then (note_event (\<lambda>s. Sent n key (cs_now s)))
       (py_ret (Sending earlier)))))"

fun is_revert :: "exn \<Rightarrow> bool" where
  "is_revert (TransactionReverted name m) = True"
| "is_revert _ = False"

definition submit_end ::
    "'w call_env \<Rightarrow> faults \<Rightarrow> nat \<Rightarrow> string \<Rightarrow> accounting_call option \<Rightarrow> exn + rofl_reply \<Rightarrow> (calls, string) py" where
  "submit_end env fl n key earlier answer =
     py_try
       (py_bind (py_lift (submit_outcome (ce_rofl env) answer)) (\<lambda>result.
        py_then (store_put (fl_put fl) key
            \<lparr>cl_status = Executed, cl_submission_id = Some (rs_submission_id result)\<rparr>)
        (py_then (note_event (\<lambda>s. Recorded n key (rs_submission_id result) (cs_now s)))
        (py_ret (rs_submission_id result)))))
       (\<lambda>e. if is_revert e
             then (if earlier = None then py_then (store_delete (fl_delete fl) key) (py_raise e) else py_raise e)
             else py_raise e)"

text \<open>The end of a task: its result, and \<open>del self._submissions[key]\<close>.\<close>

definition finish :: "nat \<Rightarrow> task \<Rightarrow> exn + string \<Rightarrow> calls \<Rightarrow> calls" where
  "finish n tk r s =
     s\<lparr>cs_tasks := (cs_tasks s)(n \<mapsto> tk\<lparr>tk_phase := Finished r\<rparr>),
       cs_submissions := (cs_submissions s)(tk_key tk := None)\<rparr>"

definition start_task :: "'w call_env \<Rightarrow> faults \<Rightarrow> nat \<Rightarrow> task \<Rightarrow> calls \<Rightarrow> calls" where
  "start_task env fl n tk s =
     (case submit_start env fl n (tk_key tk) (tk_data tk) s of
        (Inl e, t) \<Rightarrow> finish n tk (Inl e) t
      | (Inr (Finished r), t) \<Rightarrow> finish n tk r t
      | (Inr p, t) \<Rightarrow> t\<lparr>cs_tasks := (cs_tasks t)(n \<mapsto> tk\<lparr>tk_phase := p\<rparr>)\<rparr>)"

definition end_task ::
    "'w call_env \<Rightarrow> faults \<Rightarrow> nat \<Rightarrow> task \<Rightarrow> accounting_call option \<Rightarrow> exn + rofl_reply \<Rightarrow> calls \<Rightarrow> calls" where
  "end_task env fl n tk earlier answer s =
     (case submit_end env fl n (tk_key tk) earlier answer s of (r, t) \<Rightarrow> finish n tk r t)"

section \<open>The callers\<close>

text \<open>A caller joins the task of its call or creates it.\<close>

definition join_task :: "string \<Rightarrow> bytes \<Rightarrow> calls \<Rightarrow> nat \<times> calls" where
  "join_task key data s =
     (case cs_submissions s key of
        Some n \<Rightarrow> (n, s)
      | None \<Rightarrow>
          (cs_next s,
           s\<lparr>cs_tasks := (cs_tasks s)(cs_next s \<mapsto> \<lparr>tk_key = key, tk_data = data, tk_phase = Queued\<rparr>),
             cs_submissions := (cs_submissions s)(key \<mapsto> cs_next s),
             cs_next := cs_next s + 1\<rparr>))"

text \<open>What \<open>_submit_signed\<close> makes of the end of the task it awaited.\<close>

definition caller_result :: "faults \<Rightarrow> string \<Rightarrow> exn + string \<Rightarrow> (calls, string) py" where
  "caller_result fl key r =
     py_catch (py_lift r) (\<lambda>e.
       py_bind (store_get (fl_get fl) key) (\<lambda>v.
       if v = None then py_raise e
       else py_raise (OutcomeUnknown ''was submitted and its outcome is unknown'')))"

text \<open>The handlers of the four routes turn the outcome into a response.\<close>

definition signed_response :: "exn + string \<Rightarrow> exn + string" where
  "signed_response r =
     (case r of
        Inr submission_id \<Rightarrow> Inr submission_id
      | Inl e \<Rightarrow>
          if is_value_error e then Inl (HttpError 400 (str_exn e))
          else (case e of
              OutcomeUnknown m \<Rightarrow> Inl (HttpError 409 m)
            | TransactionReverted name m \<Rightarrow> Inl (HttpError 422 m)
            | _ \<Rightarrow> if is_exception e then Inl (HttpError 500 ''Failed to submit transaction'') else Inl e))"

definition reply :: "nat \<Rightarrow> signed_request \<Rightarrow> exn + string \<Rightarrow> calls \<Rightarrow> calls" where
  "reply c req r s =
     s\<lparr>cs_log := cs_log s @ [Reply c req (signed_response r) (cs_now s)], cs_callers := (cs_callers s)(c := None)\<rparr>"

section \<open>Steps\<close>

datatype action =
    Arrive nat signed_request
  | Begin nat faults
  | Land nat
  | Answer nat "exn + rofl_reply" faults
  | Wake nat faults
  | Cancel nat
  | Tick int
  | Restart

fun is_sent :: "nat \<Rightarrow> call_event \<Rightarrow> bool" where
  "is_sent n (Sent m k t) = (m = n)"
| "is_sent n _ = False"

text \<open>Disk errors are neither \<open>ValueError\<close> nor a revert.\<close>

definition fault_ok :: "exn option \<Rightarrow> bool" where
  "fault_ok f = (case f of None \<Rightarrow> True | Some e \<Rightarrow> is_exception e \<and> \<not> is_value_error e \<and> \<not> is_revert e)"

definition faults_ok :: "faults \<Rightarrow> bool" where
  "faults_ok fl \<longleftrightarrow> fault_ok (fl_get fl) \<and> fault_ok (fl_put fl) \<and> fault_ok (fl_delete fl)"

text \<open>
  The daemon tells the truth: it reports success only of a submission that landed, and a revert
  only of one that did not. Its client raises no revert of its own.
\<close>

definition truthful :: "call_event list \<Rightarrow> nat \<Rightarrow> exn + rofl_reply \<Rightarrow> bool" where
  "truthful log n answer =
     (case answer of
        Inl e \<Rightarrow> is_exception e \<and> \<not> is_revert e
      | Inr result \<Rightarrow>
          (if rp_fail result \<noteq> None then Landed n \<notin> set log
           else rp_ok result \<noteq> None \<longrightarrow> Landed n \<in> set log))"

definition settled :: "exn + rofl_reply \<Rightarrow> bool" where
  "settled answer = (case answer of Inl e \<Rightarrow> False | Inr result \<Rightarrow> rp_fail result \<noteq> None)"

fun act :: "'w call_env \<Rightarrow> action \<Rightarrow> calls \<Rightarrow> calls option" where
  "act env (Arrive c req) s =
     (if cs_callers s c \<noteq> None then None
      else Some
        (case prepare env req of
           Inl e \<Rightarrow> reply c req (Inl e) s
         | Inr (nonce, label, data) \<Rightarrow>
             (case join_task (call_key env data) data s of
                (n, t) \<Rightarrow> t\<lparr>cs_callers := (cs_callers t)(c \<mapsto> (req, n))\<rparr>)))"
| "act env (Begin n fl) s =
     (case cs_tasks s n of
        None \<Rightarrow> None
      | Some tk \<Rightarrow> if tk_phase tk = Queued \<and> faults_ok fl then Some (start_task env fl n tk s) else None)"
| "act env (Land n) s =
     (if list_ex (is_sent n) (cs_log s) \<and> Landed n \<notin> set (cs_log s) \<and> Reverted n \<notin> set (cs_log s)
      then Some (s\<lparr>cs_log := cs_log s @ [Landed n]\<rparr>) else None)"
| "act env (Answer n answer fl) s =
     (case cs_tasks s n of
        None \<Rightarrow> None
      | Some tk \<Rightarrow>
          (case tk_phase tk of
             Sending earlier \<Rightarrow>
               if truthful (cs_log s) n answer \<and> faults_ok fl
               then Some (end_task env fl n tk earlier answer
                 (if settled answer then s\<lparr>cs_log := cs_log s @ [Reverted n]\<rparr> else s))
               else None
           | _ \<Rightarrow> None))"
| "act env (Wake c fl) s =
     (case cs_callers s c of
        None \<Rightarrow> None
      | Some (req, n) \<Rightarrow>
          (case cs_tasks s n of
             None \<Rightarrow> None
           | Some tk \<Rightarrow>
               (case tk_phase tk of
                  Finished r \<Rightarrow>
                    if faults_ok fl
                    then Some (case caller_result fl (tk_key tk) r s of (r', t) \<Rightarrow> reply c req r' t)
                    else None
                | _ \<Rightarrow> None)))"
| "act env (Cancel c) s = Some (s\<lparr>cs_callers := (cs_callers s)(c := None)\<rparr>)"
| "act env (Tick d) s = (if 0 \<le> d then Some (s\<lparr>cs_now := cs_now s + d\<rparr>) else None)"
| "act env Restart s =
     Some (s\<lparr>cs_tasks := (\<lambda>n. None), cs_submissions := (\<lambda>k. None), cs_callers := (\<lambda>c. None)\<rparr>)"

definition calls_init :: "int \<Rightarrow> calls" where
  "calls_init now =
     \<lparr>cs_now = now, cs_disk = (\<lambda>k. None), cs_tasks = (\<lambda>n. None), cs_next = 0,
      cs_submissions = (\<lambda>k. None), cs_callers = (\<lambda>c. None), cs_log = []\<rparr>"

inductive calls_reach :: "'w call_env \<Rightarrow> calls \<Rightarrow> bool" for env where
  calls_start: "calls_reach env (calls_init now)"
| calls_step: "calls_reach env s \<Longrightarrow> act env a s = Some t \<Longrightarrow> calls_reach env t"

fun acts :: "'w call_env \<Rightarrow> action list \<Rightarrow> calls \<Rightarrow> calls option" where
  "acts env [] s = Some s"
| "acts env (a # as) s = (case act env a s of None \<Rightarrow> None | Some t \<Rightarrow> acts env as t)"

lemma calls_reach_acts: "calls_reach env s \<Longrightarrow> acts env as s = Some t \<Longrightarrow> calls_reach env t"
  by (induction "as" arbitrary: s) (auto split: option.splits intro: calls_step)

end
