(* ===== verification/Json_Text.thy ===== *)
theory Json_Text
  imports Privana_Prelude
begin

text \<open>
  What the on-ramp services use of Python's \<open>json\<close> module: \<open>json.loads\<close> of bytes and
  \<open>json.dumps\<close> with \<open>ensure_ascii\<close>, \<open>sort_keys\<close> and minimal separators. A text is its list
  of code points (\<open>ustr\<close>). What is not plain ASCII (the other encodings of
  \<open>json.detect_encoding\<close>, the case and white space of other characters) is in the parameter
  \<open>unicode\<close>; floats are kept as they are written.
\<close>

section \<open>Texts\<close>

type_synonym ustr = "nat list"

definition unicode_of :: "string \<Rightarrow> ustr" where
  "unicode_of s = map of_char s"

definition ascii :: "ustr \<Rightarrow> bool" where
  "ascii t \<longleftrightarrow> (\<forall>c \<in> set t. c < 128)"

definition ascii_text :: "ustr \<Rightarrow> string" where
  "ascii_text t = map char_of t"

text \<open>
  \<open>un_decode\<close> is what \<open>json.loads\<close> makes of bytes before it parses them, if they are not all
  ASCII characters; \<open>un_float\<close> is the text of a float (or the error \<open>allow_nan\<close> asks for).
\<close>

record unicode =
  un_decode :: "bytes \<Rightarrow> ustr option"
  un_lower :: "ustr \<Rightarrow> ustr"
  un_upper :: "ustr \<Rightarrow> ustr"
  un_strip :: "ustr \<Rightarrow> ustr"
  un_float :: "ustr \<Rightarrow> exn + string"

definition text_lower :: "unicode \<Rightarrow> ustr \<Rightarrow> ustr" where
  "text_lower un t = (if ascii t then unicode_of (ascii_lower (ascii_text t)) else un_lower un t)"

definition text_upper :: "unicode \<Rightarrow> ustr \<Rightarrow> ustr" where
  "text_upper un t =
     (if ascii t then map (\<lambda>c. if 97 \<le> c \<and> c \<le> 122 then c - 32 else c) t else un_upper un t)"

definition text_strip :: "unicode \<Rightarrow> ustr \<Rightarrow> ustr" where
  "text_strip un t = (if ascii t then unicode_of (py_strip (ascii_text t)) else un_strip un t)"

definition drop_prefix :: "'a list \<Rightarrow> 'a list \<Rightarrow> 'a list" where
  "drop_prefix p s = (if take (length p) s = p then drop (length p) s else s)"

section \<open>Values\<close>

datatype jvalue =
    VNull
  | VBool bool
  | VInt int
  | VFloat ustr
  | VText ustr
  | VList "jvalue list"
  | VDict "(ustr \<times> jvalue) list"

text \<open>A dict keeps the place of the first and the value of the last of its equal keys.\<close>

fun dict_set :: "'k \<Rightarrow> 'v \<Rightarrow> ('k \<times> 'v) list \<Rightarrow> ('k \<times> 'v) list" where
  "dict_set k v [] = [(k, v)]"
| "dict_set k v ((k', v') # d) = (if k = k' then (k, v) # d else (k', v') # dict_set k v d)"

definition dict_of :: "('k \<times> 'v) list \<Rightarrow> ('k \<times> 'v) list" where
  "dict_of kvs = fold (\<lambda>(k, v) d. dict_set k v d) kvs []"

section \<open>Parsing\<close>

definition digit_code :: "nat \<Rightarrow> bool" where
  "digit_code c \<longleftrightarrow> 48 \<le> c \<and> c \<le> 57"

definition skip_space :: "ustr \<Rightarrow> ustr" where
  "skip_space cs = dropWhile (\<lambda>c. c = 32 \<or> c = 9 \<or> c = 10 \<or> c = 13) cs"

definition hex_code :: "nat \<Rightarrow> nat option" where
  "hex_code c =
     (if digit_code c then Some (c - 48)
      else if 97 \<le> c \<and> c \<le> 102 then Some (c - 87)
      else if 65 \<le> c \<and> c \<le> 70 then Some (c - 55) else None)"

text \<open>The four digits of a \<open>\u\<close> escape.\<close>

definition hex4 :: "ustr \<Rightarrow> nat option" where
  "hex4 cs =
     (case map hex_code (take 4 cs) of
        [Some a, Some b, Some c, Some d] \<Rightarrow> Some (4096 * a + 256 * b + 16 * c + d)
      | _ \<Rightarrow> None)"

text \<open>The letters of the short escapes, with what they stand for.\<close>

definition escapes :: "(nat \<times> nat) list" where
  "escapes = [(34, 34), (92, 92), (47, 47), (98, 8), (102, 12), (110, 10), (114, 13), (116, 9)]"

definition low_surrogate :: "ustr \<Rightarrow> nat option" where
  "low_surrogate cs =
     (if take 2 cs = [92, 117]
      then (case hex4 (drop 2 cs) of
              None \<Rightarrow> None | Some u \<Rightarrow> if 56320 \<le> u \<and> u \<le> 57343 then Some u else None)
      else None)"

text \<open>A string after its opening quote, with what follows the closing one.\<close>

function scan_string :: "ustr \<Rightarrow> (ustr \<times> ustr) option" where
  "scan_string cs =
     (case cs of
        [] \<Rightarrow> None
      | c # r \<Rightarrow>
          if c = 34 then Some ([], r)
          else if c < 32 then None
          else if c \<noteq> 92 then map_option (\<lambda>(t, q). (c # t, q)) (scan_string r)
          else
            (case r of
               [] \<Rightarrow> None
             | e # q \<Rightarrow>
                 if e \<noteq> 117
                 then (case map_of escapes e of
                         None \<Rightarrow> None
                       | Some x \<Rightarrow> map_option (\<lambda>(t, p). (x # t, p)) (scan_string q))
                 else
                   (case hex4 q of
                      None \<Rightarrow> None
                    | Some x \<Rightarrow>
                        (case (if 55296 \<le> x \<and> x \<le> 56319 then low_surrogate (drop 4 q) else None) of
                           None \<Rightarrow> map_option (\<lambda>(t, p). (x # t, p)) (scan_string (drop 4 q))
                         | Some y \<Rightarrow>
                             map_option (\<lambda>(t, p). ((65536 + 1024 * (x - 55296) + (y - 56320)) # t, p))
                               (scan_string (drop 10 q))))))"
  by pat_completeness auto
termination by (relation "measure length") auto

declare scan_string.simps [simp del]

definition digits_value :: "ustr \<Rightarrow> int" where
  "digits_value ds = foldl (\<lambda>v d. 10 * v + int (d - 48)) 0 ds"

text \<open>The fraction and the exponent of a number, as far as they are there.\<close>

definition after_fraction :: "ustr \<Rightarrow> ustr" where
  "after_fraction cs =
     (case cs of c # d # r \<Rightarrow> if c = 46 \<and> digit_code d then dropWhile digit_code r else cs | _ \<Rightarrow> cs)"

definition after_exponent :: "ustr \<Rightarrow> ustr" where
  "after_exponent cs =
     (case cs of
        [] \<Rightarrow> cs
      | e # r \<Rightarrow>
          if e = 101 \<or> e = 69
          then (let q = (case r of s # q \<Rightarrow> if s = 43 \<or> s = 45 then q else r | [] \<Rightarrow> r) in
                if q \<noteq> [] \<and> digit_code (hd q) then dropWhile digit_code q else cs)
          else cs)"

definition scan_number :: "ustr \<Rightarrow> (jvalue \<times> ustr) option" where
  "scan_number cs =
     (let neg = (cs \<noteq> [] \<and> hd cs = 45); body = (if neg then tl cs else cs) in
      case body of
        [] \<Rightarrow> None
      | d # r \<Rightarrow>
          if \<not> digit_code d then None
          else
            let whole = (if d = 48 then [d] else d # takeWhile digit_code r);
                rest = (if d = 48 then r else dropWhile digit_code r);
                end = after_exponent (after_fraction rest) in
            if end = rest then Some (VInt (if neg then - digits_value whole else digits_value whole), rest)
            else Some (VFloat (take (length cs - length end) cs), end))"

definition constants :: "(string \<times> jvalue) list" where
  "constants =
     [(''null'', VNull), (''true'', VBool True), (''false'', VBool False),
      (''NaN'', VFloat (unicode_of ''NaN'')), (''Infinity'', VFloat (unicode_of ''Infinity'')),
      (''-Infinity'', VFloat (unicode_of ''-Infinity''))]"

fun scan_constant :: "(string \<times> jvalue) list \<Rightarrow> ustr \<Rightarrow> (jvalue \<times> ustr) option" where
  "scan_constant [] cs = None"
| "scan_constant ((w, v) # ws) cs =
     (if take (length w) cs = unicode_of w then Some (v, drop (length w) cs) else scan_constant ws cs)"

text \<open>
  A value; the rest of a list after \<open>[\<close> and white space; the rest of an object after \<open>{\<close> and
  white space. The bound on the nesting is the length of the text, which no value can exceed.
\<close>

fun scan_value :: "nat \<Rightarrow> ustr \<Rightarrow> (jvalue \<times> ustr) option"
  and scan_items :: "nat \<Rightarrow> ustr \<Rightarrow> (jvalue list \<times> ustr) option"
  and scan_members :: "nat \<Rightarrow> ustr \<Rightarrow> ((ustr \<times> jvalue) list \<times> ustr) option" where
  "scan_value 0 cs = None"
| "scan_value (Suc n) cs =
     (case cs of
        [] \<Rightarrow> None
      | c # r \<Rightarrow>
          if c = 34 then map_option (\<lambda>(t, q). (VText t, q)) (scan_string r)
          else if c = 123 then
            (case skip_space r of
               [] \<Rightarrow> None
             | d # q \<Rightarrow>
                 if d = 125 then Some (VDict [], q)
                 else map_option (\<lambda>(kvs, p). (VDict (dict_of kvs), p)) (scan_members n (d # q)))
          else if c = 91 then
            (case skip_space r of
               [] \<Rightarrow> None
             | d # q \<Rightarrow>
                 if d = 93 then Some (VList [], q)
                 else map_option (\<lambda>(vs, p). (VList vs, p)) (scan_items n (d # q)))
          else
            (case scan_constant constants cs of Some x \<Rightarrow> Some x | None \<Rightarrow> scan_number cs))"
| "scan_items 0 cs = None"
| "scan_items (Suc n) cs =
     (case scan_value n cs of
        None \<Rightarrow> None
      | Some (v, r) \<Rightarrow>
          (case skip_space r of
             [] \<Rightarrow> None
           | d # q \<Rightarrow>
               if d = 93 then Some ([v], q)
               else if d = 44 then map_option (\<lambda>(vs, p). (v # vs, p)) (scan_items n (skip_space q))
               else None))"
| "scan_members 0 cs = None"
| "scan_members (Suc n) cs =
     (case cs of
        [] \<Rightarrow> None
      | c # cs' \<Rightarrow>
          if c \<noteq> 34 then None
          else
            (case scan_string cs' of
               None \<Rightarrow> None
             | Some (k, r) \<Rightarrow>
                 (case skip_space r of
                    [] \<Rightarrow> None
                  | d # q \<Rightarrow>
                      if d \<noteq> 58 then None
                      else
                        (case scan_value n (skip_space q) of
                           None \<Rightarrow> None
                         | Some (v, r') \<Rightarrow>
                             (case skip_space r' of
                                [] \<Rightarrow> None
                              | e # q' \<Rightarrow>
                                  if e = 125 then Some ([(k, v)], q')
                                  else if e = 44
                                  then map_option (\<lambda>(kvs, p). ((k, v) # kvs, p)) (scan_members n (skip_space q'))
                                  else None)))))"

definition json_parse :: "ustr \<Rightarrow> jvalue option" where
  "json_parse cs =
     (case scan_value (Suc (length cs)) (skip_space cs) of
        None \<Rightarrow> None
      | Some (v, r) \<Rightarrow> if skip_space r = [] then Some v else None)"

definition plain_bytes :: "bytes \<Rightarrow> bool" where
  "plain_bytes bs \<longleftrightarrow> (\<forall>b \<in> set bs. 0 < b \<and> b < 128)"

definition json_loads :: "unicode \<Rightarrow> bytes \<Rightarrow> jvalue option" where
  "json_loads un bs =
     (case (if plain_bytes bs then Some (map unat bs) else un_decode un bs) of
        None \<Rightarrow> None
      | Some cs \<Rightarrow> json_parse cs)"

section \<open>Writing\<close>

definition hex_text4 :: "nat \<Rightarrow> string" where
  "hex_text4 n = map hex_digit [n div 4096 mod 16, n div 256 mod 16, n div 16 mod 16, n mod 16]"

definition escaped :: "nat \<Rightarrow> string" where
  "escaped c =
     (if c = 34 then [CHR 0x5C, CHR 0x22]
      else if c = 92 then [CHR 0x5C, CHR 0x5C]
      else if c = 10 then CHR 0x5C # ''n''
      else if c = 13 then CHR 0x5C # ''r''
      else if c = 9 then CHR 0x5C # ''t''
      else if c = 12 then CHR 0x5C # ''f''
      else if c = 8 then CHR 0x5C # ''b''
      else if 32 \<le> c \<and> c \<le> 126 then [char_of c]
      else if c < 65536 then CHR 0x5C # CHR ''u'' # hex_text4 c
      else CHR 0x5C # CHR ''u'' # hex_text4 (55296 + (c - 65536) div 1024)
         @ CHR 0x5C # CHR ''u'' # hex_text4 (56320 + (c - 65536) mod 1024))"

definition string_text :: "ustr \<Rightarrow> string" where
  "string_text t = CHR 0x22 # concat (map escaped t) @ [CHR 0x22]"

text \<open>The order of keys: by code points.\<close>

fun key_le :: "ustr \<Rightarrow> ustr \<Rightarrow> bool" where
  "key_le [] t = True"
| "key_le (c # s) [] = False"
| "key_le (c # s) (d # t) = (c < d \<or> c = d \<and> key_le s t)"

fun insert_by_key :: "ustr \<times> 'a \<Rightarrow> (ustr \<times> 'a) list \<Rightarrow> (ustr \<times> 'a) list" where
  "insert_by_key x [] = [x]"
| "insert_by_key x (y # ys) = (if key_le (fst x) (fst y) then x # y # ys else y # insert_by_key x ys)"

definition sort_by_key :: "(ustr \<times> 'a) list \<Rightarrow> (ustr \<times> 'a) list" where
  "sort_by_key xs = foldr insert_by_key xs []"

fun comma_join :: "string list \<Rightarrow> string" where
  "comma_join [] = []"
| "comma_join [s] = s"
| "comma_join (s # t # ts) = s @ '','' @ comma_join (t # ts)"

fun sum_list_map :: "('a \<Rightarrow> exn + 'b) \<Rightarrow> 'a list \<Rightarrow> exn + 'b list" where
  "sum_list_map f [] = Inr []"
| "sum_list_map f (x # xs) = sum_bind (f x) (\<lambda>y. sum_bind (sum_list_map f xs) (\<lambda>ys. Inr (y # ys)))"

lemma sum_list_map_cong [fundef_cong]:
  "xs = ys \<Longrightarrow> (\<And>x. x \<in> set ys \<Longrightarrow> f x = g x) \<Longrightarrow> sum_list_map f xs = sum_list_map g ys"
  by (induction xs arbitrary: ys) auto

fun json_dumps :: "unicode \<Rightarrow> jvalue \<Rightarrow> exn + string" where
  "json_dumps un VNull = Inr ''null''"
| "json_dumps un (VBool b) = Inr (if b then ''true'' else ''false'')"
| "json_dumps un (VInt i) = Inr (int_text i)"
| "json_dumps un (VFloat l) = un_float un l"
| "json_dumps un (VText t) = Inr (string_text t)"
| "json_dumps un (VList vs) =
     sum_bind (sum_list_map (json_dumps un) vs) (\<lambda>ts. Inr (''['' @ comma_join ts @ '']''))"
| "json_dumps un (VDict d) =
     sum_bind (sum_list_map (\<lambda>(k, v). sum_bind (json_dumps un v) (\<lambda>t. Inr (k, string_text k @ '':'' @ t))) d)
       (\<lambda>ms. Inr (''{'' @ comma_join (map snd (sort_by_key ms)) @ ''}''))"


section \<open>Reading back what was written\<close>

lemma unicode_of_simps [simp]: "unicode_of [] = []" "unicode_of (c # s) = of_char c # unicode_of s"
  "unicode_of (s @ t) = unicode_of s @ unicode_of t" "length (unicode_of s) = length s"
  by (simp_all add: unicode_of_def)

lemma hex_digit_code:
  assumes "n < 16" shows "hex_code (of_char (hex_digit n)) = Some n"
  using below_16_cases [OF assms] by (auto simp: hex_code_def digit_code_def hex_digit_def hex_chars_def)

lemma hex4_text:
  assumes "n < 65536" shows "hex4 (unicode_of (hex_text4 n) @ r) = Some n"
proof -
  have d: "n div 256 = n div 16 div 16" "n div 4096 = n div 16 div 16 div 16" by (simp_all flip: div_mult2_eq)
  have s: "n div 16 div 16 div 16 < 16" using assms by (simp flip: div_mult2_eq) 
  have "n = 16 * (n div 16) + n mod 16" "n div 16 = 16 * (n div 16 div 16) + n div 16 mod 16"
    "n div 16 div 16 = 16 * (n div 16 div 16 div 16) + n div 16 div 16 mod 16" by simp_all
  then have "n = 4096 * (n div 16 div 16 div 16) + 256 * (n div 16 div 16 mod 16) + 16 * (n div 16 mod 16) + n mod 16"
    by linarith
  moreover have "n div 16 div 16 div 16 mod 16 = n div 16 div 16 div 16" using s by simp
  ultimately have "n = 4096 * (n div 4096 mod 16) + 256 * (n div 256 mod 16) + 16 * (n div 16 mod 16) + n mod 16"
    unfolding d by simp
  moreover have "n div 4096 mod 16 = n div 4096" "n div 4096 < 16" using assms by simp_all
  ultimately show ?thesis by (simp add: hex4_def hex_text4_def hex_digit_code)
qed

lemma scan_string_plain:
  "c \<noteq> 34 \<Longrightarrow> c \<noteq> 92 \<Longrightarrow> 32 \<le> c \<Longrightarrow> scan_string (c # r) = map_option (\<lambda>(t, q). (c # t, q)) (scan_string r)"
  by (subst scan_string.simps) simp

lemma scan_string_short:
  "map_of escapes e = Some x \<Longrightarrow> scan_string (92 # e # r) = map_option (\<lambda>(t, q). (x # t, q)) (scan_string r)"
  by (subst scan_string.simps) (auto simp: escapes_def split: if_splits)

lemma scan_string_long:
  "hex4 r = Some x \<Longrightarrow> x < 55296 \<Longrightarrow>
   scan_string (92 # 117 # r) = map_option (\<lambda>(t, q). (x # t, q)) (scan_string (drop 4 r))"
  by (subst scan_string.simps) (simp del: not_le)

lemma scan_escaped:
  assumes "c < 128"
  shows "scan_string (unicode_of (escaped c) @ r) = map_option (\<lambda>(t, q). (c # t, q)) (scan_string r)"
proof -
  have h: "hex4 (unicode_of (hex_text4 c) @ r) = Some c" using assms by (intro hex4_text) simp
  have d: "drop 4 (unicode_of (hex_text4 c) @ r) = r" by (simp add: hex_text4_def)
  show ?thesis
    using assms scan_string_long [OF h] d
    by (auto simp: escaped_def scan_string_short escapes_def scan_string_plain)
qed

lemma scan_string_text:
  assumes "ascii t"
  shows "scan_string (unicode_of (concat (map escaped t)) @ 34 # r) = Some (t, r)"
  using assms
proof (induction t)
  case Nil
  then show ?case by (subst scan_string.simps) simp
next
  case (Cons c t)
  then show ?case by (simp add: ascii_def scan_escaped)
qed

text \<open>Numbers.\<close>

definition no_digit :: "ustr \<Rightarrow> bool" where
  "no_digit r \<longleftrightarrow> (case r of [] \<Rightarrow> True | c # q \<Rightarrow> \<not> digit_code c \<and> c \<noteq> 46 \<and> c \<noteq> 101 \<and> c \<noteq> 69)"

lemma nat_code_digits: "\<forall>c \<in> set (unicode_of (nat_text n)). digit_code c"
proof (induction n rule: nat_text.induct)
  case (1 n)
  then show ?case by (cases "n < 10") (auto simp: nat_text.simps [of n] digit_code_def)
qed

lemma nat_code_value: "digits_value (unicode_of (nat_text n)) = int n"
proof (induction n rule: nat_text.induct)
  case (1 n)
  have "int n = 10 * int (n div 10) + int (n mod 10)" by presburger
  then show ?case using 1 by (cases "n < 10") (auto simp: nat_text.simps [of n] digits_value_def)
qed

lemma nat_code_start:
  "\<exists>d ds. unicode_of (nat_text n) = d # ds \<and> digit_code d \<and> (d = 48 \<longrightarrow> n = 0 \<and> ds = [])"
proof (induction n rule: nat_text.induct)
  case (1 n)
  then show ?case by (cases "n < 10") (auto simp: nat_text.simps [of n] digit_code_def)
qed

lemma scan_number_nat:
  assumes "no_digit r"
  shows "scan_number (unicode_of (nat_text n) @ r) = Some (VInt (int n), r)"
proof -
  obtain d ds where t: "unicode_of (nat_text n) = d # ds" "digit_code d" "d = 48 \<longrightarrow> n = 0 \<and> ds = []"
    using nat_code_start by blast
  have ds: "\<forall>c \<in> set ds. digit_code c" using nat_code_digits [of n] t(1) by simp
  have r: "takeWhile digit_code (ds @ r) = ds" "dropWhile digit_code (ds @ r) = r"
    using ds assms by (auto simp: no_digit_def takeWhile_append dropWhile_append split: list.splits)
  have e: "after_exponent (after_fraction r) = r"
    using assms by (auto simp: no_digit_def after_fraction_def after_exponent_def split: list.splits)
  have v: "digits_value (d # ds) = int n" using nat_code_value [of n] t(1) by simp
  have "d \<noteq> 45" using t(2) by (auto simp: digit_code_def)
  then show ?thesis using t r e v by (auto simp: scan_number_def Let_def)
qed


section \<open>Objects of texts and numbers\<close>

text \<open>The values a signed intent holds: ASCII texts and numbers that are not negative.\<close>

fun flat :: "jvalue \<Rightarrow> bool" where
  "flat (VInt i) = (0 \<le> i)"
| "flat (VText t) = ascii t"
| "flat _ = False"

lemma no_constant:
  assumes "digit_code c" shows "scan_constant constants (c # r) = None"
  using assms by (auto simp: constants_def digit_code_def)

lemma scan_flat:
  assumes "flat v" "no_digit r" "json_dumps un v = Inr t"
  shows "scan_value (Suc n) (unicode_of t @ r) = Some (v, r)"
proof (cases v)
  case (VInt i)
  then obtain k where i: "i = int k" "t = nat_text k" using assms by (cases i) (auto simp: int_text_def)
  obtain d ds where t: "unicode_of t = d # ds" "digit_code d" using nat_code_start [of k] i by auto
  have "d \<noteq> 34" "d \<noteq> 123" "d \<noteq> 91" using t(2) by (auto simp: digit_code_def)
  then have "scan_value (Suc n) (unicode_of t @ r) = scan_number (unicode_of t @ r)"
    using t no_constant by simp
  then show ?thesis using scan_number_nat [OF assms(2), of k] i VInt by simp
next
  case (VText x)
  then have "t = string_text x" "ascii x" using assms by auto
  then show ?thesis using VText scan_string_text [of x r] by (simp add: string_text_def)
qed (use assms in auto)

definition member_text :: "ustr \<times> string \<Rightarrow> string" where
  "member_text m = string_text (fst m) @ '':'' @ snd m"

lemma skip_space_visible: "32 < c \<Longrightarrow> skip_space (c # r) = c # r"
  by (simp add: skip_space_def)

lemma scan_members_last:
  assumes "scan_string cs = Some (k, 58 # q)" "skip_space q = q" "scan_value n q = Some (v, 125 # q')"
  shows "scan_members (Suc n) (34 # cs) = Some ([(k, v)], q')"
  using assms by (simp add: skip_space_visible)

lemma scan_members_more:
  assumes "scan_string cs = Some (k, 58 # q)" "skip_space q = q" "scan_value n q = Some (v, 44 # q')"
    and "skip_space q' = q'" "scan_members n q' = Some (kvs, r)"
  shows "scan_members (Suc n) (34 # cs) = Some ((k, v) # kvs, r)"
  using assms by (simp add: skip_space_visible)

text \<open>Written members, joined and closed, are read back.\<close>

lemma scan_written_members:
  assumes "list_all (\<lambda>(k, v). ascii k \<and> flat v) kvs" "kvs \<noteq> []"
    and "map (\<lambda>(k, v). json_dumps un v) kvs = map Inr ts" "length kvs < n"
  shows "scan_members n (unicode_of (comma_join (map member_text (zip (map fst kvs) ts))) @ 125 # r) = Some (kvs, r)"
  using assms
proof (induction kvs arbitrary: ts n)
  case (Cons kv kvs)
  obtain k v where kv: "kv = (k, v)" by (cases kv)
  obtain t ts' where ts: "ts = t # ts'" "json_dumps un v = Inr t" "map (\<lambda>(k, v). json_dumps un v) kvs = map Inr ts'"
    using Cons.prems(3) kv by (cases ts) auto
  obtain j where n: "n = Suc (Suc j)" using Cons.prems(4) by (cases n; cases "n - 1") auto
  have f: "ascii k" "flat v" using Cons.prems(1) kv by auto
  have s: "scan_string (unicode_of (concat (map escaped k)) @ 34 # 58 # q) = Some (k, 58 # q)" for q
    using scan_string_text [OF f(1)] .
  have m: "unicode_of (member_text (k, t)) @ q = 34 # unicode_of (concat (map escaped k)) @ 34 # 58 # unicode_of t @ q" for q
    by (simp add: member_text_def string_text_def)
  have sp: "skip_space (unicode_of t @ q) = unicode_of t @ q" for q
  proof (cases v)
    case (VInt i)
    then obtain l where "t = nat_text l" using f(2) ts(2) by (cases i) (auto simp: int_text_def)
    then show ?thesis using nat_code_start [of l] by (auto simp: skip_space_def digit_code_def)
  next
    case (VText x)
    then show ?thesis using ts(2) by (auto simp: skip_space_def string_text_def)
  qed (use f in auto)
  show ?case
  proof (cases kvs)
    case Nil
    then have ts': "ts' = []" using ts(3) by simp
    have "scan_value (Suc j) (unicode_of t @ 125 # r) = Some (v, 125 # r)"
      using scan_flat [OF f(2) _ ts(2)] by (simp add: no_digit_def digit_code_def)
    from scan_members_last [OF s sp this]
    show ?thesis using n kv Nil ts(1) ts' m by simp
  next
    case (Cons kv' kvs')
    then obtain t' ts'' where ts': "ts' = t' # ts''" using ts(3) by auto
    let ?rest = "unicode_of (comma_join (map member_text (zip (map fst kvs) ts'))) @ 125 # r"
    have "scan_value (Suc j) (unicode_of t @ 44 # ?rest) = Some (v, 44 # ?rest)"
      using scan_flat [OF f(2) _ ts(2)] by (simp add: no_digit_def digit_code_def)
    moreover have "skip_space ?rest = ?rest"
      using Cons ts' by (cases "zip (map fst kvs') ts''") (auto simp: skip_space_def member_text_def string_text_def)
    moreover have "scan_members (Suc j) ?rest = Some (kvs, r)"
      using Cons.prems(1,4) Cons n by (intro Cons.IH [OF _ _ ts(3)]) simp_all
    moreover have "unicode_of (comma_join (map member_text (zip (map fst (kv # kvs)) ts))) @ 125 # r =
        unicode_of (member_text (k, t)) @ 44 # ?rest"
      using kv ts(1) Cons ts' by simp
    ultimately show ?thesis
      using n kv m [of "44 # ?rest"] scan_members_more [OF s sp, of "Suc j"] by (simp only:)
  qed
qed simp

end
