(* ===== verification/Account_Reads.thy ===== *)
theory Account_Reads
  imports Accounting_Calls Json_Text
begin

text \<open>
  The reads of \<^verbatim>\<open>src/services/accounting_contract.py\<close>: the readers of the contract, token
  metadata, balances, history and locks of a user. A call of the contract is a function of the world
  (\<open>lg_uint\<close>, \<open>lg_text\<close>, \<open>lg_bytes\<close>, by the name of the contract's function and its
  arguments, and one field for each of the larger results); \<open>lg_others\<close> is what the other tasks do
  while this one awaits. \<open>le_sent\<close> is the log of the transactions this task handed to the daemon.
\<close>

section \<open>State and environment\<close>

text \<open>A lock as \<open>getUserLocks\<close> returns it, and a descriptor of a token.\<close>

record lock_row =
  ul_id :: int
  ul_service :: string
  ul_token :: bytes
  ul_amount :: int
  ul_expiry :: int

record token_info =
  ti_token_id :: string
  ti_token_type :: int
  ti_token_type_name :: string
  ti_data :: string
  ti_chain_id :: "int option"
  ti_chain_name :: "string option"
  ti_token_address :: "string option"
  ti_symbol :: "string option"
  ti_name :: "string option"
  ti_decimals :: "int option"

record typed_domain =
  td_name :: "string option"
  td_version :: "string option"
  td_chain_id :: "int option"
  td_verifying_contract :: "string option"
  td_salt :: "bytes option"

record domain_report =
  dr_fields :: bytes
  dr_name :: string
  dr_version :: string
  dr_chain_id :: int
  dr_verifying_contract :: string
  dr_salt :: bytes

datatype cache_name = SymbolCache | NameCache | DecimalsCache | GasLimitCache | TokenListCache

record 'w ledger =
  le_service :: "'w service"
  le_confidential :: bool
  le_siwe_auth :: "string option"
  le_siwe_reader :: bool
  le_confidential_siwe :: bool
  le_deposit_address :: "string option"
  le_siwe_domain :: "string option"
  le_eip712_domain :: "typed_domain option"
  le_symbols :: "string \<rightharpoonup> string option"
  le_names :: "string \<rightharpoonup> string option"
  le_decimals :: "string \<rightharpoonup> int option"
  le_gas_limits :: "string \<rightharpoonup> int"
  le_token_list :: "string \<rightharpoonup> token_info list"
  le_sent :: "rofl_tx list"

text \<open>
  \<open>lg_live\<close> says whether the entry of a cache is still there (not expired, not evicted).
  \<open>lg_symbol\<close>, \<open>lg_name\<close>, \<open>lg_token_decimals\<close> call an ERC-20 contract.
\<close>

record 'w ledger_env =
  lg_calls :: "'w call_env"
  lg_others :: "'w ledger \<Rightarrow> 'w ledger"
  lg_live :: "'w \<Rightarrow> cache_name \<Rightarrow> string \<Rightarrow> bool"
  lg_lock :: "'w \<Rightarrow> (exn + unit) \<times> 'w"
  lg_sleep :: "int \<Rightarrow> 'w \<Rightarrow> (exn + unit) \<times> 'w"
  lg_uint :: "string \<Rightarrow> abi_value list \<Rightarrow> 'w \<Rightarrow> (exn + int) \<times> 'w"
  lg_text :: "string \<Rightarrow> abi_value list \<Rightarrow> 'w \<Rightarrow> (exn + string) \<times> 'w"
  lg_bytes :: "string \<Rightarrow> abi_value list \<Rightarrow> 'w \<Rightarrow> (exn + bytes) \<times> 'w"
  lg_bool :: "string \<Rightarrow> abi_value list \<Rightarrow> 'w \<Rightarrow> (exn + bool) \<times> 'w"
  lg_registered_tokens :: "'w \<Rightarrow> (exn + bytes list) \<times> 'w"
  lg_user_locks :: "bytes \<Rightarrow> 'w \<Rightarrow> (exn + lock_row list) \<times> 'w"
  lg_history :: "int \<Rightarrow> int \<Rightarrow> bytes \<Rightarrow> 'w \<Rightarrow> (exn + (int \<times> int \<times> bytes) list \<times> int) \<times> 'w"
  lg_withdrawal :: "int \<Rightarrow> 'w \<Rightarrow> (exn + contract_withdrawal) \<times> 'w"
  lg_eip712_domain :: "'w \<Rightarrow> (exn + domain_report) \<times> 'w"
  lg_view_key :: "string option"
  lg_keypair :: "'w \<Rightarrow> (exn + string) \<times> 'w"
  lg_account :: "string \<Rightarrow> exn + unit"
  lg_block_timestamp :: "'w \<Rightarrow> (exn + int) \<times> 'w"
  lg_symbol :: "client \<Rightarrow> string \<Rightarrow> 'w \<Rightarrow> (exn + string) \<times> 'w"
  lg_name :: "client \<Rightarrow> string \<Rightarrow> 'w \<Rightarrow> (exn + string) \<times> 'w"
  lg_token_decimals :: "client \<Rightarrow> string \<Rightarrow> 'w \<Rightarrow> (exn + int) \<times> 'w"
  lg_balance :: "client \<Rightarrow> string \<Rightarrow> 'w \<Rightarrow> (exn + int) \<times> 'w"
  lg_recover :: "typed_domain \<Rightarrow> string \<Rightarrow> (string \<times> string) list \<Rightarrow> (string \<times> abi_value) list \<Rightarrow> bytes \<Rightarrow> exn + string"
  lg_sign_submit :: "rofl_tx \<Rightarrow> bool \<Rightarrow> 'w \<Rightarrow> (exn + rofl_reply) \<times> 'w"
  lg_min_withdrawal_gas_balance :: int

abbreviation lg_service :: "'w ledger_env \<Rightarrow> 'w a_env" where
  "lg_service env \<equiv> ce_service (lg_calls env)"

text \<open>Other tasks may do anything to the service; the log is this task's own.\<close>

definition interfere :: "'w ledger_env \<Rightarrow> 'w ledger \<Rightarrow> 'w ledger" where
  "interfere env s = (lg_others env s)\<lparr>le_sent := le_sent s\<rparr>"

definition l_await :: "'w ledger_env \<Rightarrow> ('w \<Rightarrow> (exn + 'a) \<times> 'w) \<Rightarrow> ('w ledger, 'a) py" where
  "l_await env f = (\<lambda>s. case f (sh_world (le_service s)) of
     (r, w) \<Rightarrow> (r, interfere env (s\<lparr>le_service := (le_service s)\<lparr>sh_world := w\<rparr>\<rparr>)))"

definition in_service :: "'w ledger_env \<Rightarrow> ('w service, 'a) py \<Rightarrow> ('w ledger, 'a) py" where
  "in_service env m = (\<lambda>s. case m (le_service s) of (r, v) \<Rightarrow> (r, interfere env (s\<lparr>le_service := v\<rparr>)))"

text \<open>A part of the service's code that awaits nothing.\<close>

definition at_once :: "('w service, 'a) py \<Rightarrow> ('w ledger, 'a) py" where
  "at_once m = (\<lambda>s. case m (le_service s) of (r, v) \<Rightarrow> (r, s\<lparr>le_service := v\<rparr>))"

section \<open>Readers of the contract\<close>

definition reader :: "'w ledger_env \<Rightarrow> ('w ledger, unit) py" where
  "reader env = at_once (get_reader_contract (lg_service env))"

definition verified_sapphire :: "'w ledger_env \<Rightarrow> ('w ledger, unit) py" where
  "verified_sapphire env = at_once (require_verified_sapphire (lg_service env))"

definition get_siwe_auth_address :: "'w ledger_env \<Rightarrow> ('w ledger, string) py" where
  "get_siwe_auth_address env =
     py_bind py_get (\<lambda>s.
     case le_siwe_auth s of
       Some a \<Rightarrow> py_ret a
     | None \<Rightarrow>
         py_then (reader env)
         (py_bind (l_await env (lg_text env ''siweAuth'' [])) (\<lambda>auth_address.
          if \<not> ax_is_address (lg_service env) auth_address
          then py_raise (ValueError ''Invalid SIWE auth contract address returned by the Accounting contract'')
          else
            py_bind (py_lift (ax_checksum (lg_service env) auth_address)) (\<lambda>a.
            py_then (py_modify (\<lambda>s. s\<lparr>le_siwe_auth := Some a\<rparr>)) (py_ret a)))))"

definition get_siwe_auth_reader :: "'w ledger_env \<Rightarrow> ('w ledger, unit) py" where
  "get_siwe_auth_reader env =
     py_then (verified_sapphire env)
     (py_bind py_get (\<lambda>s.
      if le_siwe_reader s then py_ret ()
      else if ax_sapphire_url (lg_service env) = []
      then py_raise (ValueError ''SAPPHIRE_RPC_URL must be configured to read SIWE auth settings'')
      else
        py_bind (get_siwe_auth_address env) (\<lambda>a. py_modify (\<lambda>s. s\<lparr>le_siwe_reader := True\<rparr>))))"

definition view_key :: "'w ledger_env \<Rightarrow> ('w ledger, string) py" where
  "view_key env =
     (if given (lg_view_key env) then py_ret (ensure_hex (the (lg_view_key env)))
      else
        py_try (l_await env (lg_keypair env))
          (\<lambda>e. if is_exception e
               then py_raise (ValueError ''SAPPHIRE_VIEW_PRIVATE_KEY is not set and ROFL appd key is unavailable'')
               else py_raise e))"

definition get_confidential_reader :: "'w ledger_env \<Rightarrow> ('w ledger, unit) py" where
  "get_confidential_reader env =
     py_then (verified_sapphire env)
     (py_bind py_get (\<lambda>s.
      if le_confidential s then py_ret ()
      else if ax_sapphire_url (lg_service env) = []
      then py_raise (ValueError ''SAPPHIRE_RPC_URL must be configured to perform confidential reads'')
      else
        py_bind (view_key env) (\<lambda>private_key.
        py_then (py_lift (lg_account env private_key))
        (py_modify (\<lambda>s. s\<lparr>le_confidential := True\<rparr>)))))"

definition get_confidential_siwe_reader :: "'w ledger_env \<Rightarrow> ('w ledger, unit) py" where
  "get_confidential_siwe_reader env =
     py_then (verified_sapphire env)
     (py_bind py_get (\<lambda>s.
      if le_confidential_siwe s then py_ret ()
      else
        py_then (get_confidential_reader env)
        (py_bind (get_siwe_auth_address env) (\<lambda>a.
         py_modify (\<lambda>s. s\<lparr>le_confidential_siwe := True\<rparr>)))))"

section \<open>Retries\<close>

definition TRANSIENT_READ_ATTEMPTS :: nat where "TRANSIENT_READ_ATTEMPTS = 10"
definition TRANSIENT_READ_BACKOFF_SEC :: int where "TRANSIENT_READ_BACKOFF_SEC = 1"

definition is_contract_logic :: "exn \<Rightarrow> bool" where
  "is_contract_logic e = (case e of ContractLogic m \<Rightarrow> True | _ \<Rightarrow> False)"

text \<open>Attempt \<open>tries\<close>, with \<open>left\<close> more after it.\<close>

fun transient_retry :: "'w ledger_env \<Rightarrow> ('w ledger, 'a) py \<Rightarrow> nat \<Rightarrow> nat \<Rightarrow> ('w ledger, 'a) py" where
  "transient_retry env f tries 0 = f"
| "transient_retry env f tries (Suc left) =
     py_try f (\<lambda>e.
       if is_contract_logic e \<or> \<not> is_exception e then py_raise e
       else
         py_then (l_await env (lg_sleep env (TRANSIENT_READ_BACKOFF_SEC * int tries)))
         (transient_retry env f (Suc tries) left))"

definition call_with_transient_retry :: "'w ledger_env \<Rightarrow> ('w ledger, 'a) py \<Rightarrow> ('w ledger, 'a) py" where
  "call_with_transient_retry env f = transient_retry env f 1 (TRANSIENT_READ_ATTEMPTS - 1)"

definition get_chain_timestamp :: "'w ledger_env \<Rightarrow> ('w ledger, int) py" where
  "get_chain_timestamp env =
     py_bind py_get (\<lambda>s.
     if \<not> le_confidential s then py_raise (ValueError ''Confidential reader is not initialized'')
     else
       py_then (verified_sapphire env)
       (call_with_transient_retry env (l_await env (lg_block_timestamp env))))"

section \<open>Token metadata\<close>

text \<open>\<open>CHAIN_NAMES\<close> and the tables of the native tokens (\<^verbatim>\<open>src/config/__init__.py\<close>).\<close>

definition CHAIN_NAMES :: "(int \<times> string) list" where
  "CHAIN_NAMES =
     [(1, ''Ethereum''), (998, ''HyperEVM Testnet''), (999, ''HyperEVM''), (8453, ''Base''),
      (23295, ''Sapphire Testnet''), (23293, ''Sapphire Localnet''), (84532, ''Base Sepolia''),
      (11155111, ''Ethereum Sepolia'')]"

definition NATIVE_TOKEN_SYMBOLS :: "(int \<times> string) list" where
  "NATIVE_TOKEN_SYMBOLS =
     [(1, ''ETH''), (998, ''HYPE''), (999, ''HYPE''), (8453, ''ETH''), (23295, ''ROSE''), (23293, ''ROSE''),
      (84532, ''ETH''), (11155111, ''ETH'')]"

definition NATIVE_TOKEN_NAMES :: "(int \<times> string) list" where
  "NATIVE_TOKEN_NAMES =
     [(1, ''Ether''), (998, ''Hyperliquid''), (999, ''Hyperliquid''), (8453, ''Ether''), (23295, ''Rose''),
      (23293, ''Rose''), (84532, ''Ether''), (11155111, ''Ether'')]"

definition NATIVE_TOKEN_DECIMALS :: "(int \<times> int) list" where
  "NATIVE_TOKEN_DECIMALS =
     [(1, 18), (998, 18), (999, 18), (8453, 18), (23295, 18), (23293, 18), (84532, 18), (11155111, 18)]"

definition table_get :: "(int \<times> 'a) list \<Rightarrow> int \<Rightarrow> 'a \<Rightarrow> 'a" where
  "table_get t cid other = (case map_of t cid of None \<Rightarrow> other | Some v \<Rightarrow> v)"

definition chain_name :: "string \<Rightarrow> int \<Rightarrow> string" where
  "chain_name prefix cid = table_get CHAIN_NAMES cid (prefix @ int_text cid)"

definition chain_web3 :: "'w ledger_env \<Rightarrow> int \<Rightarrow> ('w ledger, client) py" where
  "chain_web3 env cid = at_once (get_chain_web3 cid)"

definition token_context :: "'w ledger_env \<Rightarrow> bytes \<Rightarrow> ('w ledger, token_context) py" where
  "token_context env token = in_service env (get_token_context (lg_service env) token)"

text \<open>A call of one of the caches.\<close>

definition cached ::
    "'w ledger_env \<Rightarrow> cache_name \<Rightarrow> ('w ledger \<Rightarrow> string \<rightharpoonup> 'v) \<Rightarrow> (((string \<rightharpoonup> 'v) \<Rightarrow> (string \<rightharpoonup> 'v)) \<Rightarrow> 'w ledger \<Rightarrow> 'w ledger)
     \<Rightarrow> string \<Rightarrow> ('w ledger, 'v) py \<Rightarrow> ('w ledger, 'v) py" where
  "cached env c table update =
     get_or_set_async (\<lambda>s k. if lg_live env (sh_world (le_service s)) c k then table s k else None)
       (\<lambda>k v. update (\<lambda>m. m(k \<mapsto> v))) (l_await env (lg_lock env))"

text \<open>\<open>except Exception: return None\<close> around the call of the token's contract.\<close>

definition from_token ::
    "'w ledger_env \<Rightarrow> (client \<Rightarrow> string \<Rightarrow> 'w \<Rightarrow> (exn + 'a) \<times> 'w) \<Rightarrow> (int \<Rightarrow> 'a) \<Rightarrow> bytes \<Rightarrow> ('w ledger, 'a option) py" where
  "from_token env call native token =
     py_bind (token_context env token) (\<lambda>context.
     if tc_is_native context then py_ret (Some (native (tc_chain_id context)))
     else if given (tc_token_address context) then
       py_catch
         (py_bind (chain_web3 env (tc_chain_id context)) (\<lambda>w3.
          py_bind (l_await env (call w3 (the (tc_token_address context)))) (\<lambda>x. py_ret (Some x))))
         (\<lambda>_. py_ret None)
     else py_ret None)"

definition fetch_token_symbol :: "'w ledger_env \<Rightarrow> bytes \<Rightarrow> ('w ledger, string option) py" where
  "fetch_token_symbol env = from_token env (lg_symbol env) (\<lambda>cid. table_get NATIVE_TOKEN_SYMBOLS cid ''ETH'')"

definition fetch_token_name :: "'w ledger_env \<Rightarrow> bytes \<Rightarrow> ('w ledger, string option) py" where
  "fetch_token_name env = from_token env (lg_name env) (\<lambda>cid. table_get NATIVE_TOKEN_NAMES cid ''Ether'')"

definition fetch_token_decimals :: "'w ledger_env \<Rightarrow> bytes \<Rightarrow> ('w ledger, int option) py" where
  "fetch_token_decimals env = from_token env (lg_token_decimals env) (\<lambda>cid. table_get NATIVE_TOKEN_DECIMALS cid 18)"

definition get_token_symbol :: "'w ledger_env \<Rightarrow> bytes \<Rightarrow> ('w ledger, string option) py" where
  "get_token_symbol env token =
     cached env SymbolCache le_symbols (\<lambda>f s. s\<lparr>le_symbols := f (le_symbols s)\<rparr>) (bytes_hex token) (fetch_token_symbol env token)"

definition get_token_name :: "'w ledger_env \<Rightarrow> bytes \<Rightarrow> ('w ledger, string option) py" where
  "get_token_name env token =
     cached env NameCache le_names (\<lambda>f s. s\<lparr>le_names := f (le_names s)\<rparr>) (bytes_hex token) (fetch_token_name env token)"

definition get_token_decimals :: "'w ledger_env \<Rightarrow> bytes \<Rightarrow> ('w ledger, int option) py" where
  "get_token_decimals env token =
     cached env DecimalsCache le_decimals (\<lambda>f s. s\<lparr>le_decimals := f (le_decimals s)\<rparr>) (bytes_hex token)
       (fetch_token_decimals env token)"

definition bytes_int :: "bytes \<Rightarrow> int" where
  "bytes_int bs = foldl (\<lambda>acc b. acc * 256 + uint b) 0 bs"

definition token_type_name :: "int \<Rightarrow> string" where
  "token_type_name t = (if t = 0 then ''NativeEVM'' else if t = 1 then ''ERC20'' else ''Unknown'')"

text \<open>The part of a descriptor that is read off the contract's row.\<close>

definition described :: "'w ledger_env \<Rightarrow> string \<Rightarrow> int \<Rightarrow> bytes \<Rightarrow> exn + token_info" where
  "described env token_id token_type token_data =
     (let cid = bytes_int (take 32 token_data);
          base = \<lparr>ti_token_id = ascii_lower token_id, ti_token_type = token_type,
            ti_token_type_name = token_type_name token_type, ti_data = (if token_data = [] then ''0x'' else to_hex token_data),
            ti_chain_id = None, ti_chain_name = None, ti_token_address = None, ti_symbol = None, ti_name = None, ti_decimals = None\<rparr>;
          placed = base\<lparr>ti_chain_id := Some cid, ti_chain_name := Some (chain_name ''Chain '' cid)\<rparr> in
      if token_type = 0 \<and> token_data \<noteq> [] then Inr placed
      else if token_type = 1 \<and> length token_data \<ge> 52 then
        sum_bind (ax_checksum (lg_service env) (to_hex (take 20 (drop 32 token_data)))) (\<lambda>a.
        Inr (placed\<lparr>ti_token_address := Some a\<rparr>))
      else Inr base)"

definition get_token_info :: "'w ledger_env \<Rightarrow> string \<Rightarrow> ('w ledger, token_info) py" where
  "get_token_info env token_id =
     py_bind (py_lift (require_hex (lg_service env) token_id (Some 32))) (\<lambda>token.
     py_then (reader env)
     (py_bind (l_await env (ax_tokens (lg_service env) token)) (\<lambda>(token_type, token_data).
      py_bind (py_lift (described env token_id token_type token_data)) (\<lambda>info.
      py_bind (get_token_symbol env token) (\<lambda>symbol.
      py_bind (get_token_name env token) (\<lambda>name.
      py_bind (get_token_decimals env token) (\<lambda>decimals.
      py_ret (info\<lparr>ti_symbol := symbol, ti_name := name, ti_decimals := decimals\<rparr>))))))))"

text \<open>A token whose descriptor cannot be read is left out of the list.\<close>

definition fetch_all_tokens :: "'w ledger_env \<Rightarrow> ('w ledger, token_info list) py" where
  "fetch_all_tokens env =
     py_then (reader env)
     (py_bind (l_await env (lg_registered_tokens env)) (\<lambda>token_ids.
      py_bind (py_map (\<lambda>i. py_catch (py_bind (get_token_info env (to_hex i)) (\<lambda>t. py_ret (Some t))) (\<lambda>_. py_ret None))
        token_ids) (\<lambda>infos.
      py_ret (List.map_filter id infos))))"

definition list_all_tokens :: "'w ledger_env \<Rightarrow> ('w ledger, token_info list) py" where
  "list_all_tokens env =
     cached env TokenListCache le_token_list (\<lambda>f s. s\<lparr>le_token_list := f (le_token_list s)\<rparr>) ''all'' (fetch_all_tokens env)"

section \<open>Plain reads\<close>

text \<open>\<open>get_withdrawal_nonce\<close>, \<open>get_transfer_nonce\<close>, \<open>get_lock_nonce\<close>, ...: the six nonces.\<close>

definition get_nonce :: "string \<Rightarrow> 'w ledger_env \<Rightarrow> string \<Rightarrow> ('w ledger, string \<times> int) py" where
  "get_nonce name env address =
     py_bind (py_lift (require_address (lg_service env) address)) (\<lambda>checksum.
     py_then (reader env)
     (py_bind (l_await env (lg_uint env name [AbiAddress checksum])) (\<lambda>nonce. py_ret (checksum, nonce))))"

definition get_withdrawal_nonce :: "'w ledger_env \<Rightarrow> string \<Rightarrow> ('w ledger, string \<times> int) py" where
  "get_withdrawal_nonce = get_nonce ''withdrawalNonces''"
definition get_transfer_nonce :: "'w ledger_env \<Rightarrow> string \<Rightarrow> ('w ledger, string \<times> int) py" where
  "get_transfer_nonce = get_nonce ''transferNonces''"
definition get_lock_nonce :: "'w ledger_env \<Rightarrow> string \<Rightarrow> ('w ledger, string \<times> int) py" where
  "get_lock_nonce = get_nonce ''createLockNonces''"
definition get_modify_lock_nonce :: "'w ledger_env \<Rightarrow> string \<Rightarrow> ('w ledger, string \<times> int) py" where
  "get_modify_lock_nonce = get_nonce ''modifyLockNonces''"
definition get_transfer_locked_nonce :: "'w ledger_env \<Rightarrow> string \<Rightarrow> ('w ledger, string \<times> int) py" where
  "get_transfer_locked_nonce = get_nonce ''transferLockedNonces''"
definition get_transfer_to_lock_nonce :: "'w ledger_env \<Rightarrow> string \<Rightarrow> ('w ledger, string \<times> int) py" where
  "get_transfer_to_lock_nonce = get_nonce ''transferToLockNonces''"

definition read_uint :: "'w ledger_env \<Rightarrow> string \<Rightarrow> abi_value list \<Rightarrow> ('w ledger, int) py" where
  "read_uint env name args = py_then (reader env) (l_await env (lg_uint env name args))"

definition read_address :: "'w ledger_env \<Rightarrow> string \<Rightarrow> ('w ledger, string) py" where
  "read_address env name =
     py_then (reader env)
     (py_bind (l_await env (lg_text env name [])) (\<lambda>a. py_lift (ax_checksum (lg_service env) a)))"

definition get_accounting_version :: "'w ledger_env \<Rightarrow> ('w ledger, int) py" where
  "get_accounting_version env = read_uint env ''VERSION'' []"
definition get_gas_price :: "'w ledger_env \<Rightarrow> int \<Rightarrow> ('w ledger, int) py" where
  "get_gas_price env cid = read_uint env ''gasPrices'' [AbiInt cid]"
definition get_rofl_signer_address :: "'w ledger_env \<Rightarrow> ('w ledger, string) py" where
  "get_rofl_signer_address env = read_address env ''roflSignerAddress''"
definition get_gas_tank_address :: "'w ledger_env \<Rightarrow> ('w ledger, string) py" where
  "get_gas_tank_address env = read_address env ''gasTankAddress''"

text \<open>\<open>_chain_type.value\<close>: \<open>parse_chain_type\<close> knows \<open>evm\<close> only.\<close>

definition parse_chain_type :: "string \<Rightarrow> exn + int" where
  "parse_chain_type v = (if ascii_lower v = ''evm'' then Inr 0 else Inl (ValueError ''Unknown chain_type''))"

definition resolve_address_from_token :: "'w ledger_env \<Rightarrow> bytes \<Rightarrow> ('w ledger, string) py" where
  "resolve_address_from_token env siwe_token =
     py_then (get_confidential_siwe_reader env)
     (py_bind (l_await env (lg_text env ''authSender'' [AbiBytes siwe_token])) (\<lambda>a.
      py_lift (ax_checksum (lg_service env) a)))"

definition get_deposit_address :: "'w ledger_env \<Rightarrow> string \<Rightarrow> int \<Rightarrow> bytes \<Rightarrow> ('w ledger, string) py" where
  "get_deposit_address env chain_type version siwe_token =
     py_then (get_confidential_reader env)
     (py_bind (py_lift (parse_chain_type chain_type)) (\<lambda>ct.
      py_bind (l_await env (lg_text env ''getDepositAddress'' [AbiInt ct, AbiInt version, AbiBytes siwe_token])) (\<lambda>a.
      py_lift (ax_checksum (lg_service env) a))))"

definition encode_token_data :: "'w ledger_env \<Rightarrow> int \<Rightarrow> string option \<Rightarrow> ('w ledger, bytes) py" where
  "encode_token_data env cid token_address =
     py_then (reader env)
     (case token_address of
        None \<Rightarrow> l_await env (lg_bytes env ''encodeEVMNativeTokenData'' [AbiInt cid])
      | Some a \<Rightarrow>
          py_bind (py_lift (ax_checksum (lg_service env) a)) (\<lambda>addr.
          l_await env (lg_bytes env ''encodeEVMErc20TokenData'' [AbiInt cid, AbiAddress addr])))"

definition get_token_data_and_id :: "'w ledger_env \<Rightarrow> int \<Rightarrow> string option \<Rightarrow> ('w ledger, bytes \<times> bytes) py" where
  "get_token_data_and_id env cid token_address =
     py_then (reader env)
     (py_bind (encode_token_data env cid token_address) (\<lambda>data.
      py_bind (l_await env (lg_bytes env ''getTokenId''
          [AbiInt (if token_address = None then 0 else 1), AbiBytes data])) (\<lambda>token_id.
      py_ret (data, token_id))))"

definition get_token_id :: "'w ledger_env \<Rightarrow> int \<Rightarrow> string option \<Rightarrow> ('w ledger, bytes) py" where
  "get_token_id env cid token_address =
     py_bind (get_token_data_and_id env cid token_address) (\<lambda>(data, token_id). py_ret token_id)"

definition is_deposit_processed :: "'w ledger_env \<Rightarrow> bytes \<Rightarrow> ('w ledger, bool) py" where
  "is_deposit_processed env deposit_id =
     py_then (reader env) (l_await env (lg_bool env ''processedDeposits'' [AbiBytes deposit_id]))"

definition is_token_registered :: "'w ledger_env \<Rightarrow> bytes \<Rightarrow> ('w ledger, bool) py" where
  "is_token_registered env token_id =
     py_then (reader env)
     (py_bind (l_await env (ax_tokens (lg_service env) token_id)) (\<lambda>(token_type, data). py_ret (data \<noteq> [])))"

definition get_siwe_domain :: "'w ledger_env \<Rightarrow> ('w ledger, string) py" where
  "get_siwe_domain env =
     py_bind py_get (\<lambda>s.
     case le_siwe_domain s of
       Some d \<Rightarrow> py_ret d
     | None \<Rightarrow>
         py_then (get_siwe_auth_reader env)
         (py_bind (l_await env (lg_text env ''domain'' [])) (\<lambda>d.
          py_then (py_modify (\<lambda>s. s\<lparr>le_siwe_domain := Some d\<rparr>)) (py_ret d))))"

definition parse_signature_rsv :: "'w a_env \<Rightarrow> string \<Rightarrow> exn + bytes \<times> bytes \<times> int" where
  "parse_signature_rsv env signature =
     sum_bind (ax_hexbytes env (ensure_hex signature)) (\<lambda>sig.
     if length sig \<noteq> 65 then Inl (ValueError ''SIWE signature must be 65 bytes'')
     else
       let v = uint (sig ! 64); w = (if v < 27 then v + 27 else v) in
       if w \<notin> {27, 28} then Inl (ValueError ''Invalid signature recovery parameter'')
       else Inr (take 32 sig, take 32 (drop 32 sig), w))"

definition siwe_login :: "'w ledger_env \<Rightarrow> bytes \<Rightarrow> string \<Rightarrow> ('w ledger, string) py" where
  "siwe_login env siwe_message signature =
     py_then (get_confidential_siwe_reader env)
     (py_bind (py_lift (parse_signature_rsv (lg_service env) signature)) (\<lambda>(r, s, v).
      py_bind (l_await env (lg_bytes env ''login'' [AbiBytes siwe_message, AbiBytes r, AbiBytes s, AbiInt v])) (\<lambda>token.
      py_ret (to_hex token))))"

section \<open>Balances\<close>

record balance_info =
  be_token_id :: string
  be_balance :: string
  be_token_symbol :: "string option"
  be_chain_id :: string

definition fetch_balance :: "'w ledger_env \<Rightarrow> bytes \<Rightarrow> bytes \<Rightarrow> ('w ledger, int) py" where
  "fetch_balance env token siwe_token =
     py_then (get_confidential_reader env)
     (call_with_transient_retry env (l_await env (lg_uint env ''balanceOf'' [AbiBytes token, AbiBytes siwe_token])))"

definition balance_entry :: "'w ledger_env \<Rightarrow> bytes \<Rightarrow> bytes \<Rightarrow> ('w ledger, balance_info) py" where
  "balance_entry env siwe_token token =
     py_bind (fetch_balance env token siwe_token) (\<lambda>balance.
     py_bind (token_context env token) (\<lambda>context.
     py_bind (get_token_symbol env token) (\<lambda>symbol.
     py_ret \<lparr>be_token_id = to_hex token, be_balance = int_text balance, be_token_symbol = symbol,
             be_chain_id = int_text (tc_chain_id context)\<rparr>)))"

definition get_balance :: "'w ledger_env \<Rightarrow> bytes \<Rightarrow> string \<Rightarrow> ('w ledger, balance_info) py" where
  "get_balance env siwe_token token_id =
     py_bind (py_lift (require_hex (lg_service env) token_id (Some 32))) (balance_entry env siwe_token)"

definition get_batch_balances :: "'w ledger_env \<Rightarrow> bytes \<Rightarrow> string list \<Rightarrow> ('w ledger, balance_info list) py" where
  "get_batch_balances env siwe_token token_ids_raw =
     (if token_ids_raw = [] then py_raise (ValueError ''token_ids must be a non-empty array'')
      else
        py_bind (py_lift (sum_list_map (\<lambda>t. require_hex (lg_service env) t (Some 32)) token_ids_raw)) (\<lambda>token_ids.
        py_map (balance_entry env siwe_token) token_ids))"

section \<open>History\<close>

datatype history_kind =
    HDeposit | HWithdraw | HCreateLock | HTransferFromLockOut | HTransferFromLockIn | HTransferBalanceOut
  | HTransferBalanceIn | HModifyLock | HUnlockLock | HTransferToLockOut | HTransferToLockIn

definition history_kinds :: "history_kind list" where
  "history_kinds =
     [HDeposit, HWithdraw, HCreateLock, HTransferFromLockOut, HTransferFromLockIn, HTransferBalanceOut,
      HTransferBalanceIn, HModifyLock, HUnlockLock, HTransferToLockOut, HTransferToLockIn]"

definition history_kind_of :: "int \<Rightarrow> exn + history_kind" where
  "history_kind_of n =
     (if 0 \<le> n \<and> n < int (length history_kinds) then Inr (history_kinds ! nat n)
      else Inl (ValueError ''is not a valid HistoryKind''))"

fun history_kind_wire_name :: "history_kind \<Rightarrow> string" where
  "history_kind_wire_name HDeposit = ''deposit''"
| "history_kind_wire_name HWithdraw = ''withdraw''"
| "history_kind_wire_name HCreateLock = ''createLock''"
| "history_kind_wire_name HTransferFromLockOut = ''transferFromLockOut''"
| "history_kind_wire_name HTransferFromLockIn = ''transferFromLockIn''"
| "history_kind_wire_name HTransferBalanceOut = ''transferBalanceOut''"
| "history_kind_wire_name HTransferBalanceIn = ''transferBalanceIn''"
| "history_kind_wire_name HModifyLock = ''modifyLock''"
| "history_kind_wire_name HUnlockLock = ''unlockLock''"
| "history_kind_wire_name HTransferToLockOut = ''transferToLockOut''"
| "history_kind_wire_name HTransferToLockIn = ''transferToLockIn''"

definition HISTORY_TOKEN_ID_LEN :: nat where "HISTORY_TOKEN_ID_LEN = 32"
definition HISTORY_AMOUNT_LEN :: nat where "HISTORY_AMOUNT_LEN = 32"
definition HISTORY_DEPOSIT_ID_LEN :: nat where "HISTORY_DEPOSIT_ID_LEN = 32"
definition HISTORY_ADDRESS_LEN :: nat where "HISTORY_ADDRESS_LEN = 20"

definition HISTORY_DEPOSIT_PAYLOAD_LEN :: nat where
  "HISTORY_DEPOSIT_PAYLOAD_LEN = HISTORY_TOKEN_ID_LEN + HISTORY_AMOUNT_LEN + HISTORY_DEPOSIT_ID_LEN"

definition HISTORY_COUNTERPARTY_PAYLOAD_LEN :: nat where
  "HISTORY_COUNTERPARTY_PAYLOAD_LEN = HISTORY_TOKEN_ID_LEN + HISTORY_AMOUNT_LEN + HISTORY_ADDRESS_LEN"

record history_entry =
  he_kind :: string
  he_timestamp :: int
  he_token_id :: "string option"
  he_amount :: "string option"
  he_counterparty :: "string option"
  he_deposit_id :: "string option"
  he_chain_id :: "int option"

text \<open>The token and amount, the counterparty, the deposit id.\<close>

definition decode_history_payload ::
    "'w a_env \<Rightarrow> history_kind \<Rightarrow> bytes \<Rightarrow> exn + bytes \<times> string \<times> string option \<times> string option" where
  "decode_history_payload env kind payload =
     (let expected_len = (if kind = HDeposit then HISTORY_DEPOSIT_PAYLOAD_LEN else HISTORY_COUNTERPARTY_PAYLOAD_LEN);
          token = take HISTORY_TOKEN_ID_LEN payload;
          amount = int_text (bytes_int (take HISTORY_AMOUNT_LEN (drop HISTORY_TOKEN_ID_LEN payload)));
          tail = drop (HISTORY_TOKEN_ID_LEN + HISTORY_AMOUNT_LEN) payload in
      if length payload \<noteq> expected_len then Inl (ValueError ''History payload has the wrong length'')
      else if kind = HDeposit then Inr (token, amount, None, Some (to_hex tail))
      else sum_bind (ax_checksum env (to_hex tail)) (\<lambda>a. Inr (token, amount, Some a, None)))"

definition unknown_history_entry :: "int \<Rightarrow> history_entry" where
  "unknown_history_entry timestamp =
     \<lparr>he_kind = ''unknown'', he_timestamp = timestamp, he_token_id = None, he_amount = None,
      he_counterparty = None, he_deposit_id = None, he_chain_id = None\<rparr>"

definition history_entry_to_dict :: "'w ledger_env \<Rightarrow> int \<times> int \<times> bytes \<Rightarrow> ('w ledger, history_entry) py" where
  "history_entry_to_dict env e =
     (case e of (kind, timestamp, payload) \<Rightarrow>
      case sum_bind (history_kind_of kind) (\<lambda>k.
             sum_bind (decode_history_payload (lg_service env) k payload) (\<lambda>d. Inr (k, d))) of
        Inl err \<Rightarrow> if is_value_error err then py_ret (unknown_history_entry timestamp) else py_raise err
      | Inr (k, token, amount, counterparty, deposit_id) \<Rightarrow>
          py_bind
            (py_try (py_bind (token_context env token) (\<lambda>c. py_ret (Some (tc_chain_id c))))
               (\<lambda>err. if is_value_error err then py_ret None else py_raise err)) (\<lambda>cid.
          py_ret \<lparr>he_kind = history_kind_wire_name k, he_timestamp = timestamp, he_token_id = Some (to_hex token),
                  he_amount = Some amount, he_counterparty = counterparty, he_deposit_id = deposit_id,
                  he_chain_id = cid\<rparr>))"

definition get_history :: "'w ledger_env \<Rightarrow> int \<Rightarrow> int \<Rightarrow> bytes \<Rightarrow> ('w ledger, history_entry list \<times> int) py" where
  "get_history env offset limit siwe_token =
     (if offset < - (2 ^ 255) \<or> offset > 2 ^ 255 - 1 then py_raise (ValueError ''offset must fit int256'')
      else if limit < 0 then py_raise (ValueError ''limit must be >= 0'')
      else
        py_then (get_confidential_reader env)
        (py_bind (call_with_transient_retry env (l_await env (lg_history env offset limit siwe_token))) (\<lambda>(entries, n).
         py_bind (py_map (history_entry_to_dict env) entries) (\<lambda>history. py_ret (history, n)))))"

section \<open>Locks\<close>

record lock_info =
  ll_lock_id :: int
  ll_service_address :: string
  ll_token_id :: string
  ll_amount :: string
  ll_expiry :: int
  ll_is_expired :: bool

definition lock_to_info :: "'w a_env \<Rightarrow> int \<Rightarrow> lock_row \<Rightarrow> exn + lock_info" where
  "lock_to_info env now l =
     sum_bind (ax_checksum env (ul_service l)) (\<lambda>a.
     Inr \<lparr>ll_lock_id = ul_id l, ll_service_address = a, ll_token_id = to_hex (ul_token l),
          ll_amount = int_text (ul_amount l), ll_expiry = ul_expiry l, ll_is_expired = (now \<ge> ul_expiry l)\<rparr>)"

definition fetch_user_locks :: "'w ledger_env \<Rightarrow> bytes \<Rightarrow> ('w ledger, lock_row list) py" where
  "fetch_user_locks env siwe_token =
     py_then (get_confidential_reader env)
     (call_with_transient_retry env (l_await env (lg_user_locks env siwe_token)))"

record locked_funds =
  lf_service_address :: "string option"
  lf_locks :: "lock_info list"
  lf_total_locked :: string

definition get_locked_funds :: "'w ledger_env \<Rightarrow> bytes \<Rightarrow> string option \<Rightarrow> ('w ledger, locked_funds) py" where
  "get_locked_funds env siwe_token service_address =
     py_bind (if given service_address
              then py_bind (py_lift (require_address (lg_service env) (the service_address))) (\<lambda>a. py_ret (Some a))
              else py_ret None) (\<lambda>service.
     py_bind (fetch_user_locks env siwe_token) (\<lambda>all_locks.
     let locks = (case service of None \<Rightarrow> all_locks
                  | Some a \<Rightarrow> filter (\<lambda>l. ascii_lower (ul_service l) = ascii_lower a) all_locks) in
     py_bind (get_chain_timestamp env) (\<lambda>now.
     py_bind (py_lift (sum_list_map (lock_to_info (lg_service env) now) locks)) (\<lambda>lock_infos.
     py_ret \<lparr>lf_service_address = service, lf_locks = lock_infos,
             lf_total_locked = int_text (sum_list (map ul_amount locks))\<rparr>))))"

definition get_expired_locks :: "'w ledger_env \<Rightarrow> bytes \<Rightarrow> ('w ledger, lock_info list) py" where
  "get_expired_locks env siwe_token =
     py_bind (get_chain_timestamp env) (\<lambda>now.
     py_bind (fetch_user_locks env siwe_token) (\<lambda>all_locks.
     py_lift (sum_list_map (lock_to_info (lg_service env) now) (filter (\<lambda>l. now \<ge> ul_expiry l) all_locks))))"

definition get_total_locked_balance :: "'w ledger_env \<Rightarrow> bytes \<Rightarrow> string \<Rightarrow> ('w ledger, string \<times> string) py" where
  "get_total_locked_balance env siwe_token token_id =
     py_bind (py_lift (require_hex (lg_service env) token_id (Some 32))) (\<lambda>token.
     py_bind (fetch_user_locks env siwe_token) (\<lambda>locks.
     py_ret (to_hex token, int_text (sum_list (map ul_amount (filter (\<lambda>l. ul_token l = token) locks))))))"

end
