(* ===== verification/Account_Writes.thy ===== *)
theory Account_Writes
  imports Account_Reads
begin

text \<open>
  The writes of \<^verbatim>\<open>src/services/accounting_contract.py\<close> that go to the ROFL daemon without a durable
  record: withdrawals out of a balance or a lock, payments into a lock, unlocking, credits, the
  published gas prices and keys; and the transactions the contract signs for the sweep engine. Every
  transaction handed to the daemon is appended to \<open>le_sent\<close>.
\<close>

section \<open>Submitting\<close>

record submission =
  sm_submission_id :: string
  sm_detail :: "string option"
  sm_index :: "int option"

definition l_sign_submit :: "'w ledger_env \<Rightarrow> rofl_tx \<Rightarrow> bool \<Rightarrow> ('w ledger, rofl_reply) py" where
  "l_sign_submit env tx encrypt =
     py_then (py_modify (\<lambda>s. s\<lparr>le_sent := le_sent s @ [tx]\<rparr>)) (l_await env (lg_sign_submit env tx encrypt))"

definition rofl_submit :: "'w ledger_env \<Rightarrow> rofl_tx \<Rightarrow> ('w ledger, rofl_result) py" where
  "rofl_submit env tx = submit_tx (ce_rofl (lg_calls env)) (l_sign_submit env) tx True"

definition submit :: "'w ledger_env \<Rightarrow> bytes \<Rightarrow> ('w ledger, submission) py" where
  "submit env data =
     py_bind (rofl_submit env (build_tx (lg_calls env) data)) (\<lambda>r.
     py_ret \<lparr>sm_submission_id = rs_submission_id r, sm_detail = None, sm_index = None\<rparr>)"

text \<open>A transaction that calls the function \<open>name\<close> of the contract.\<close>

definition submit_call :: "'w ledger_env \<Rightarrow> string \<Rightarrow> abi_value list \<Rightarrow> ('w ledger, submission) py" where
  "submit_call env name args = py_bind (py_lift (ce_encode (lg_calls env) name args)) (submit env)"

section \<open>Who signed\<close>

text \<open>The fields the contract's bitmap declares.\<close>

definition typed_domain_of :: "'w a_env \<Rightarrow> domain_report \<Rightarrow> exn + typed_domain" where
  "typed_domain_of env d =
     (let declared = (\<lambda>i. odd (bytes_int (dr_fields d) div 2 ^ i)) in
      sum_bind (if declared 3 then sum_bind (ax_checksum env (dr_verifying_contract d)) (\<lambda>a. Inr (Some a)) else Inr None)
        (\<lambda>verifying_contract.
      Inr \<lparr>td_name = (if declared 0 then Some (dr_name d) else None),
           td_version = (if declared 1 then Some (dr_version d) else None),
           td_chain_id = (if declared 2 then Some (dr_chain_id d) else None),
           td_verifying_contract = verifying_contract,
           td_salt = (if declared 4 then Some (dr_salt d) else None)\<rparr>))"

definition get_eip712_domain :: "'w ledger_env \<Rightarrow> ('w ledger, typed_domain) py" where
  "get_eip712_domain env =
     py_bind py_get (\<lambda>s.
     case le_eip712_domain s of
       Some d \<Rightarrow> py_ret d
     | None \<Rightarrow>
         py_then (reader env)
         (py_bind (l_await env (lg_eip712_domain env)) (\<lambda>report.
          py_bind (py_lift (typed_domain_of (lg_service env) report)) (\<lambda>built.
          py_then (py_modify (\<lambda>s. s\<lparr>le_eip712_domain := Some built\<rparr>)) (py_ret built)))))"

definition recover_eip712_signer ::
    "'w ledger_env \<Rightarrow> string \<Rightarrow> (string \<times> string) list \<Rightarrow> (string \<times> abi_value) list \<Rightarrow> bytes \<Rightarrow> ('w ledger, string) py" where
  "recover_eip712_signer env primary_type message_types message signature =
     py_bind (get_eip712_domain env) (\<lambda>domain.
     py_bind (py_catch (py_lift (lg_recover env domain primary_type message_types message signature))
       (\<lambda>e. py_raise (ValueError ''Invalid EIP-712 signature''))) (\<lambda>signer.
     py_lift (ax_checksum (lg_service env) signer)))"

section \<open>Can the destination chain pay\<close>

definition WITHDRAWAL_GAS_BUFFER_PERCENT :: int where "WITHDRAWAL_GAS_BUFFER_PERCENT = 20"

text \<open>\<open>_get_deposit_address\<close>, cached for the life of the process.\<close>

definition evm_address :: "'w ledger_env \<Rightarrow> ('w ledger, string) py" where
  "evm_address env =
     py_bind py_get (\<lambda>s.
     case le_deposit_address s of
       Some a \<Rightarrow> py_ret a
     | None \<Rightarrow>
         py_then (reader env)
         (py_bind (l_await env (lg_text env ''evmAddress'' [])) (\<lambda>a.
          py_then (py_modify (\<lambda>s. s\<lparr>le_deposit_address := Some a\<rparr>)) (py_ret a))))"

definition get_withdrawal_gas_limit :: "'w ledger_env \<Rightarrow> bool \<Rightarrow> ('w ledger, int) py" where
  "get_withdrawal_gas_limit env is_native =
     (let fn_name = (if is_native then ''gasLimitNativeWithdraw'' else ''gasLimitERC20Withdraw'') in
      cached env GasLimitCache le_gas_limits (\<lambda>f s. s\<lparr>le_gas_limits := f (le_gas_limits s)\<rparr>) fn_name
        (read_uint env fn_name []))"

text \<open>What the address must hold: gas with the buffer, at least the floor, and a native amount.\<close>

definition withdrawal_needs :: "int \<Rightarrow> int \<Rightarrow> int \<Rightarrow> bool \<Rightarrow> int \<Rightarrow> int" where
  "withdrawal_needs least gas_price gas_limit is_native amount =
     max (gas_price * gas_limit * (100 + WITHDRAWAL_GAS_BUFFER_PERCENT) div 100) least
     + (if is_native then amount else 0)"

definition check_destination_balance :: "'w ledger_env \<Rightarrow> int \<Rightarrow> bool \<Rightarrow> int \<Rightarrow> ('w ledger, unit) py" where
  "check_destination_balance env cid is_native amount =
     py_bind (get_gas_price env cid) (\<lambda>gas_price.
     if gas_price \<le> 0 then py_raise (ValueError ''No gas price published'')
     else
       py_bind (get_withdrawal_gas_limit env is_native) (\<lambda>gas_limit.
       py_bind (chain_web3 env cid) (\<lambda>chain_w3.
       py_bind (evm_address env) (\<lambda>a.
       py_bind (l_await env (lg_balance env chain_w3 a)) (\<lambda>balance.
       if balance < withdrawal_needs (lg_min_withdrawal_gas_balance env) gas_price gas_limit is_native amount
       then py_raise (ValueError ''Insufficient native balance'')
       else py_ret ())))))"

text \<open>\<open>context.chain_id not in self.settings.chain_rpc_urls\<close>.\<close>

definition require_chain :: "int \<Rightarrow> ('w ledger, unit) py" where
  "require_chain cid =
     py_bind py_get (\<lambda>s.
     if map_of (settings_chain_rpc_urls (sh_rpc (le_service s))) cid = None
     then py_raise (ValueError ''No RPC URL configured'')
     else py_ret ())"

definition context_detail :: "token_context \<Rightarrow> string" where
  "context_detail c =
     ''chain_id='' @ int_text (tc_chain_id c)
     @ (if given (tc_token_address c) then ''; token_address='' @ the (tc_token_address c) else [])"

section \<open>Withdrawals\<close>

record withdraw_payload =
  wr_token_id :: string
  wr_amount :: int
  wr_nonce :: int
  wr_signature :: string

definition WITHDRAWAL_INDEX_SCAN_WINDOW :: int where "WITHDRAWAL_INDEX_SCAN_WINDOW = 16"

text \<open>Rows \<open>n - 1\<close>, \<open>n - 2\<close>, ... while \<open>left\<close> are to be read.\<close>

definition same_withdrawal :: "string \<Rightarrow> bytes \<Rightarrow> int \<Rightarrow> contract_withdrawal \<Rightarrow> bool" where
  "same_withdrawal user token amount r \<longleftrightarrow>
     ascii_lower (cw_user r) = ascii_lower user \<and> cw_amount r = amount \<and> cw_token_id r = token"

fun scan_back :: "'w ledger_env \<Rightarrow> string \<Rightarrow> bytes \<Rightarrow> int \<Rightarrow> int \<Rightarrow> nat \<Rightarrow> ('w ledger, int option) py" where
  "scan_back env user token amount n 0 = py_ret None"
| "scan_back env user token amount n (Suc left) =
     py_bind (l_await env (lg_withdrawal env (n - 1))) (\<lambda>r.
     if same_withdrawal user token amount r then py_ret (Some (n - 1))
     else scan_back env user token amount (n - 1) left)"

definition locate_withdrawal_index :: "'w ledger_env \<Rightarrow> string \<Rightarrow> bytes \<Rightarrow> int \<Rightarrow> ('w ledger, int option) py" where
  "locate_withdrawal_index env user token amount =
     py_catch
       (py_then (reader env)
        (py_bind (l_await env (lg_uint env ''withdrawalCount'' [])) (\<lambda>n.
         scan_back env user token amount n (nat (n - max (n - WITHDRAWAL_INDEX_SCAN_WINDOW) 0)))))
       (\<lambda>e. py_ret None)"

text \<open>What the user signed.\<close>

definition withdraw_types :: "(string \<times> string) list" where
  "withdraw_types = [(''tokenId'', ''bytes32''), (''amount'', ''uint256''), (''nonce'', ''uint256'')]"

definition withdraw_message :: "bytes \<Rightarrow> int \<Rightarrow> int \<Rightarrow> (string \<times> abi_value) list" where
  "withdraw_message token amount nonce =
     [(''tokenId'', AbiBytes token), (''amount'', AbiInt amount), (''nonce'', AbiInt nonce)]"

definition request_withdrawal :: "'w ledger_env \<Rightarrow> withdraw_payload \<Rightarrow> ('w ledger, submission) py" where
  "request_withdrawal env p =
     py_bind (py_lift (require_hex (lg_service env) (wr_token_id p) (Some 32))) (\<lambda>token.
     py_bind (py_lift (require_positive (wr_amount p) False)) (\<lambda>amount.
     py_bind (py_lift (require_positive (wr_nonce p) True)) (\<lambda>nonce.
     py_bind (py_lift (require_hex (lg_service env) (wr_signature p) None)) (\<lambda>signature.
     py_bind (recover_eip712_signer env ''Withdraw'' withdraw_types (withdraw_message token amount nonce) signature) (\<lambda>user.
     py_bind (token_context env token) (\<lambda>context.
     if tc_chain_id context = 0 then py_raise (ValueError ''has invalid chain_id (0)'')
     else
       py_then (require_chain (tc_chain_id context))
       (py_then (check_destination_balance env (tc_chain_id context) (tc_is_native context) amount)
       (py_bind (submit_call env ''requestWithdrawal''
           [AbiBytes token, AbiInt amount, AbiInt nonce, AbiBytes signature]) (\<lambda>result.
        py_bind (locate_withdrawal_index env user token amount) (\<lambda>index.
        py_ret (result\<lparr>sm_detail := Some (context_detail context), sm_index := index\<rparr>)))))))))))"

record from_lock_payload =
  fw_to_address :: string
  fw_lock_id :: int
  fw_amount :: int
  fw_nonce :: int
  fw_signature :: string

text \<open>\<open>auth\<close>: the caller's address and the token it reads with.\<close>

definition withdraw_from_lock :: "'w ledger_env \<Rightarrow> from_lock_payload \<Rightarrow> string \<times> bytes \<Rightarrow> ('w ledger, submission) py" where
  "withdraw_from_lock env p auth =
     py_bind (py_lift (require_address (lg_service env) (fst auth))) (\<lambda>user.
     py_bind (py_lift (require_address (lg_service env) (fw_to_address p))) (\<lambda>to_addr.
     py_bind (py_lift (require_positive (fw_lock_id p) False)) (\<lambda>lock_id.
     py_bind (py_lift (require_positive (fw_amount p) False)) (\<lambda>amount.
     py_bind (py_lift (require_positive (fw_nonce p) True)) (\<lambda>nonce.
     py_bind (py_lift (require_hex (lg_service env) (fw_signature p) None)) (\<lambda>signature.
     py_then (py_lift (require_not_zero to_addr))
     (py_bind (fetch_user_locks env (snd auth)) (\<lambda>user_locks.
      case find (\<lambda>l. ul_id l = lock_id) user_locks of
        None \<Rightarrow> py_raise (ValueError ''lock_id not found'')
      | Some l \<Rightarrow>
          py_bind (token_context env (ul_token l)) (\<lambda>context.
          py_then (require_chain (tc_chain_id context))
          (py_then (check_destination_balance env (tc_chain_id context) (tc_is_native context) amount)
          (py_bind (submit_call env ''withdrawFromLock''
              [AbiAddress user, AbiAddress to_addr, AbiInt lock_id, AbiInt amount, AbiInt nonce, AbiBytes signature]) (\<lambda>result.
           py_ret (result\<lparr>sm_detail := Some (context_detail context)\<rparr>)))))))))))))"

definition get_withdrawal :: "'w ledger_env \<Rightarrow> int \<Rightarrow> ('w ledger, withdrawal_entry) py" where
  "get_withdrawal env index =
     py_then (reader env) (py_bind (l_await env (lg_withdrawal env index)) (\<lambda>r. py_ret (parse_withdrawal index r)))"

definition resolve_withdrawal :: "'w ledger_env \<Rightarrow> int \<Rightarrow> ('w ledger, submission) py" where
  "resolve_withdrawal env index = submit_call env ''resolveWithdrawal'' [AbiInt index]"

section \<open>Locks, credits and settings\<close>

record to_lock_payload =
  kp_user_address :: string
  kp_lock_id :: int
  kp_amount :: int
  kp_nonce :: int
  kp_signature :: string

definition transfer_to_lock :: "'w ledger_env \<Rightarrow> to_lock_payload \<Rightarrow> ('w ledger, submission) py" where
  "transfer_to_lock env p =
     py_bind (py_lift (require_address (lg_service env) (kp_user_address p))) (\<lambda>user.
     py_bind (py_lift (require_positive (kp_lock_id p) False)) (\<lambda>lock_id.
     py_bind (py_lift (require_positive (kp_amount p) False)) (\<lambda>amount.
     py_bind (py_lift (require_positive (kp_nonce p) True)) (\<lambda>nonce.
     py_bind (py_lift (require_hex (lg_service env) (kp_signature p) None)) (\<lambda>signature.
     submit_call env ''transferToLock'' [AbiAddress user, AbiInt lock_id, AbiInt amount, AbiInt nonce, AbiBytes signature])))))"

definition unlock_funds :: "'w ledger_env \<Rightarrow> string \<Rightarrow> int \<Rightarrow> ('w ledger, submission) py" where
  "unlock_funds env user_address lock_id =
     py_bind (py_lift (require_address (lg_service env) user_address)) (\<lambda>user.
     py_bind (py_lift (require_positive lock_id False)) (\<lambda>i.
     submit_call env ''unlockSingleLock'' [AbiAddress user, AbiInt i]))"

definition unlock_all_expired_locks :: "'w ledger_env \<Rightarrow> string \<Rightarrow> ('w ledger, submission) py" where
  "unlock_all_expired_locks env user_address =
     py_bind (py_lift (require_address (lg_service env) user_address)) (\<lambda>user.
     submit_call env ''unlockAllExpiredLocks'' [AbiAddress user])"

definition credit_deposit :: "'w ledger_env \<Rightarrow> string \<Rightarrow> bytes \<Rightarrow> int \<Rightarrow> bytes \<Rightarrow> ('w ledger, submission) py" where
  "credit_deposit env beneficiary token_id amount deposit_id =
     py_bind (py_lift (require_address (lg_service env) beneficiary)) (\<lambda>user.
     submit_call env ''creditDeposit'' [AbiAddress user, AbiBytes token_id, AbiInt amount, AbiBytes deposit_id])"

definition set_token_info :: "'w ledger_env \<Rightarrow> int \<Rightarrow> bytes \<Rightarrow> ('w ledger, submission) py" where
  "set_token_info env token_type data = submit_call env ''setTokenInfo'' [AbiInt token_type, AbiBytes data]"

definition set_rofl_signer_address :: "'w ledger_env \<Rightarrow> string \<Rightarrow> ('w ledger, submission) py" where
  "set_rofl_signer_address env new_signer =
     py_bind (py_lift (require_address (lg_service env) new_signer)) (\<lambda>checksum.
     submit_call env ''setRoflSignerAddress'' [AbiAddress checksum])"

definition set_gas_price :: "'w ledger_env \<Rightarrow> int \<Rightarrow> int \<Rightarrow> ('w ledger, submission) py" where
  "set_gas_price env cid gas_price = submit_call env ''setGasPrice'' [AbiInt cid, AbiInt gas_price]"

text \<open>The selector and the key, to the authentication contract.\<close>

definition set_auth_token_enc_key :: "'w ledger_env \<Rightarrow> bytes \<Rightarrow> ('w ledger, unit) py" where
  "set_auth_token_enc_key env enc_key =
     (if length enc_key \<noteq> 32 then py_raise (ValueError ''Encryption key must be 32 bytes'')
      else
        py_bind (get_siwe_auth_address env) (\<lambda>auth_address.
        let fn_selector = take 4 (ce_keccak (lg_calls env) (map (\<lambda>c. of_nat (of_char c)) ''setAuthTokenEncKey(bytes32)''));
            tx = \<lparr>tx_to = Some auth_address, tx_value = 0, tx_gas = ce_gas_limit (lg_calls env),
                  tx_data = Some (to_hex (fn_selector @ enc_key))\<rparr> in
        py_bind (rofl_submit env tx) (\<lambda>r. py_ret ())))"

section \<open>Transactions the contract signs\<close>

definition generate_sweep_native ::
    "'w ledger_env \<Rightarrow> string \<Rightarrow> string \<Rightarrow> int \<Rightarrow> int \<Rightarrow> int \<Rightarrow> int \<Rightarrow> int \<Rightarrow> ('w ledger, bytes) py" where
  "generate_sweep_native env beneficiary chain_type version cid amount nonce gas_price =
     py_bind (py_lift (require_address (lg_service env) beneficiary)) (\<lambda>user.
     py_bind (py_lift (parse_chain_type chain_type)) (\<lambda>ct.
     py_then (get_confidential_reader env)
     (l_await env (lg_bytes env ''generateSweepNativeTransfer''
        [AbiAddress user, AbiInt ct, AbiInt version, AbiInt cid, AbiInt amount, AbiInt nonce, AbiInt gas_price]))))"

definition generate_sweep_erc20 ::
    "'w ledger_env \<Rightarrow> string \<Rightarrow> string \<Rightarrow> int \<Rightarrow> int \<Rightarrow> string \<Rightarrow> int \<Rightarrow> int \<Rightarrow> int \<Rightarrow> ('w ledger, bytes) py" where
  "generate_sweep_erc20 env beneficiary chain_type version cid token_address amount nonce gas_price =
     py_bind (py_lift (require_address (lg_service env) beneficiary)) (\<lambda>user.
     py_bind (py_lift (require_address (lg_service env) token_address)) (\<lambda>token_addr.
     py_bind (py_lift (parse_chain_type chain_type)) (\<lambda>ct.
     py_then (get_confidential_reader env)
     (l_await env (lg_bytes env ''generateSweepERC20Transfer''
        [AbiAddress user, AbiInt ct, AbiInt version, AbiInt cid, AbiAddress token_addr, AbiInt amount, AbiInt nonce,
         AbiInt gas_price])))))"

definition generate_gas_funding_tx :: "'w ledger_env \<Rightarrow> string \<Rightarrow> int \<Rightarrow> int \<Rightarrow> int \<Rightarrow> int \<Rightarrow> ('w ledger, bytes) py" where
  "generate_gas_funding_tx env to_deposit_address cid gas_amount gas_tank_nonce gas_price =
     py_bind (py_lift (require_address (lg_service env) to_deposit_address)) (\<lambda>to_addr.
     py_then (get_confidential_reader env)
     (l_await env (lg_bytes env ''generateGasFundingTx''
        [AbiAddress to_addr, AbiInt cid, AbiInt gas_amount, AbiInt gas_tank_nonce, AbiInt gas_price])))"

end
