(* ===== verification/Account_Props.thy ===== *)
theory Account_Props
  imports Account_Writes
begin

text \<open>
  The reads and writes of the accounting service as contracts. \<open>yields P Q m\<close> says that \<open>m\<close> keeps
  \<open>P\<close> and that a value it returns satisfies \<open>Q\<close>; \<open>sends env L G m\<close> that \<open>m\<close> hands the daemon
  one transaction, which satisfies \<open>G\<close>, or raises without handing it any. Both compose along the
  text of a program.
\<close>

section \<open>Contracts\<close>

definition yields :: "('s \<Rightarrow> bool) \<Rightarrow> ('a \<Rightarrow> bool) \<Rightarrow> ('s, 'a) py \<Rightarrow> bool" where
  "yields P Q m \<longleftrightarrow> (\<forall>s r t. P s \<longrightarrow> m s = (r, t) \<longrightarrow> P t \<and> (\<forall>x. r = Inr x \<longrightarrow> Q x))"

named_theorems yields_intros \<open>what programs return while they keep an invariant\<close>

lemma yieldsD: "yields P Q m \<Longrightarrow> P s \<Longrightarrow> m s = (Inr x, t) \<Longrightarrow> P t \<and> Q x"
  by (simp add: yields_def)

lemma yields_keeps: "yields P Q m \<Longrightarrow> P s \<Longrightarrow> m s = (r, t) \<Longrightarrow> P t"
  by (simp add: yields_def)

lemma yields_ret: "Q x \<Longrightarrow> yields P Q (py_ret x)"
  by (simp add: yields_def py_ret_def)

lemma yields_raise [yields_intros]: "yields P Q (py_raise e)"
  by (simp add: yields_def py_raise_def)

lemma yields_lift: "(\<And>x. r = Inr x \<Longrightarrow> Q x) \<Longrightarrow> yields P Q (py_lift r)"
  by (simp add: yields_def py_lift_def)

lemma yields_bind:
  assumes m: "yields P Q m" and f: "\<And>x. Q x \<Longrightarrow> yields P R (f x)"
  shows "yields P R (py_bind m f)"
  unfolding yields_def
proof (intro allI impI)
  fix s r t assume P: "P s" and run: "py_bind m f s = (r, t)"
  obtain a u where mu: "m s = (a, u)" by (cases "m s")
  have u: "P u" by (rule yields_keeps [OF m P mu])
  show "P t \<and> (\<forall>y. r = Inr y \<longrightarrow> R y)"
  proof (cases a)
    case (Inl e)
    then show ?thesis using run mu u by (auto simp: py_bind_def)
  next
    case (Inr x)
    then have "Q x" "f x u = (r, t)" using run mu yieldsD [OF m P, of x u] by (simp_all add: py_bind_def)
    then show ?thesis using f [of x] u unfolding yields_def by blast
  qed
qed

lemma yields_then: "yields P Q m \<Longrightarrow> yields P R n \<Longrightarrow> yields P R (py_then m n)"
  unfolding py_then_def by (rule yields_bind)

lemma yields_try:
  assumes m: "yields P Q m" and h: "\<And>e. yields P Q (h e)"
  shows "yields P Q (py_try m h)"
  unfolding yields_def
proof (intro allI impI)
  fix s r t assume P: "P s" and run: "py_try m h s = (r, t)"
  obtain a u where mu: "m s = (a, u)" by (cases "m s")
  show "P t \<and> (\<forall>y. r = Inr y \<longrightarrow> Q y)"
  proof (cases a)
    case (Inl e)
    then have "h e u = (r, t)" using run mu by (simp add: py_try_def)
    then show ?thesis using h [of e] yields_keeps [OF m P mu] unfolding yields_def by blast
  next
    case (Inr x)
    then have "r = Inr x" "t = u" using run mu by (simp_all add: py_try_def)
    then show ?thesis using yieldsD [OF m P, of x u] mu Inr by simp
  qed
qed

lemma yields_catch: "yields P Q m \<Longrightarrow> (\<And>e. yields P Q (h e)) \<Longrightarrow> yields P Q (py_catch m h)"
  unfolding py_catch_def by (auto intro!: yields_try yields_raise)

lemma yields_weaken: "yields P Q m \<Longrightarrow> (\<And>x. Q x \<Longrightarrow> R x) \<Longrightarrow> yields P R m"
  by (simp add: yields_def)

lemma yields_modify: "(\<And>s. P s \<Longrightarrow> P (f s)) \<Longrightarrow> yields P (\<lambda>_. True) (py_modify f)"
  by (simp add: yields_def py_modify_def)

lemma yields_get:
  assumes "\<And>s. P s \<Longrightarrow> yields P Q (f s)"
  shows "yields P Q (py_bind py_get f)"
  unfolding yields_def
proof (intro allI impI)
  fix s r t assume "P s" "py_bind py_get f s = (r, t)"
  then have "yields P Q (f s)" "f s s = (r, t)" using assms by (simp_all add: py_bind_def py_get_def)
  then show "P t \<and> (\<forall>x. r = Inr x \<longrightarrow> Q x)" using \<open>P s\<close> unfolding yields_def by blast
qed

section \<open>What the process remembers of the contract\<close>

text \<open>\<open>reported f x\<close>: the call \<open>f\<close> answers \<open>x\<close> at some time.\<close>

definition reported :: "('w \<Rightarrow> (exn + 'a) \<times> 'w) \<Rightarrow> 'a \<Rightarrow> bool" where
  "reported f x \<longleftrightarrow> (\<exists>w w'. f w = (Inr x, w'))"

definition answered :: "('s, 'a) py \<Rightarrow> 'a \<Rightarrow> bool" where
  "answered m x \<longleftrightarrow> (\<exists>u v. m u = (Inr x, v))"

definition remembers :: "'w ledger_env \<Rightarrow> 'w ledger \<Rightarrow> bool" where
  "remembers env s \<longleftrightarrow>
     (\<forall>a. le_deposit_address s = Some a \<longrightarrow> reported (lg_text env ''evmAddress'' []) a)
   \<and> (\<forall>k v. le_gas_limits s k = Some v \<longrightarrow> reported (lg_uint env k []) v)
   \<and> (\<forall>d. le_eip712_domain s = Some d \<longrightarrow>
        (\<exists>report. reported (lg_eip712_domain env) report \<and> typed_domain_of (lg_service env) report = Inr d))"

definition fair_tasks :: "'w ledger_env \<Rightarrow> bool" where
  "fair_tasks env \<longleftrightarrow> (\<forall>s. remembers env s \<longrightarrow> remembers env (lg_others env s))"

definition unsent :: "'w ledger_env \<Rightarrow> rofl_tx list \<Rightarrow> 'w ledger \<Rightarrow> bool" where
  "unsent env L s \<longleftrightarrow> fair_tasks env \<and> remembers env s \<and> le_sent s = L"

lemma remembers_log [simp]: "remembers env (s\<lparr>le_sent := L\<rparr>) = remembers env s"
  "remembers env (s\<lparr>le_service := v\<rparr>) = remembers env s"
  by (simp_all add: remembers_def)

lemma unsent_interfere:
  assumes "unsent env L s"
  shows "unsent env L (interfere env (s\<lparr>le_service := v\<rparr>))"
proof -
  have "remembers env (lg_others env (s\<lparr>le_service := v\<rparr>))"
    using assms unfolding unsent_def fair_tasks_def by simp
  then show ?thesis using assms by (simp add: unsent_def interfere_def)
qed

lemma unsent_service: "unsent env L s \<Longrightarrow> unsent env L (s\<lparr>le_service := v\<rparr>)"
  by (simp add: unsent_def)

lemma yields_await: "yields (unsent env L) (reported f) (l_await env f)"
  by (auto simp: yields_def l_await_def reported_def unsent_interfere split: prod.splits)

lemma yields_in_service: "yields (unsent env L) (answered m) (in_service env m)"
  by (auto simp: yields_def answered_def in_service_def unsent_interfere split: prod.splits)

lemma yields_at_once: "yields (unsent env L) (answered m) (at_once m)"
  by (auto simp: yields_def answered_def at_once_def unsent_service split: prod.splits)

lemma yields_reader: "yields (unsent env L) (\<lambda>_. True) (reader env)"
  unfolding reader_def by (rule yields_weaken [OF yields_at_once]) simp

lemma yields_token_context:
  "yields (unsent env L) (answered (get_token_context (lg_service env) token)) (token_context env token)"
  unfolding token_context_def by (rule yields_in_service)

lemma yields_chain_web3: 
  "yields (unsent (env :: 'w ledger_env) L) (answered (get_chain_web3 cid :: ('w service, client) py)) (chain_web3 env cid)"
  unfolding chain_web3_def by (rule yields_at_once)

lemma yields_read_uint: "yields (unsent env L) (reported (lg_uint env name args)) (read_uint env name args)"
  unfolding read_uint_def by (rule yields_then [OF yields_reader yields_await])

lemma yields_cached:
  assumes "yields P Q f" "yields P (\<lambda>_. True) acquire"
    and "\<And>s v. P s \<Longrightarrow> lookup s k = Some v \<Longrightarrow> Q v"
    and "\<And>s v. P s \<Longrightarrow> Q v \<Longrightarrow> P (store k v s)"
  shows "yields P Q (get_or_set_async lookup store acquire k f)"
  unfolding get_or_set_async_def
proof (rule yields_get)
  fix s assume "P s"
  have compute: "yields P Q (py_bind f (\<lambda>v. py_then (py_modify (store k v)) (py_ret v)))"
    by (rule yields_bind [OF assms(1)], rule yields_then [OF yields_modify yields_ret]) (simp_all add: assms(4))
  have again: "yields P Q (py_bind py_get (\<lambda>s'. case lookup s' k of Some v \<Rightarrow> py_ret v
      | None \<Rightarrow> py_bind f (\<lambda>v. py_then (py_modify (store k v)) (py_ret v))))"
    by (rule yields_get) (auto split: option.split intro: compute yields_ret dest: assms(3))
  show "yields P Q (case lookup s k of None \<Rightarrow> py_then acquire (py_bind py_get (\<lambda>s'. case lookup s' k of
      None \<Rightarrow> py_bind f (\<lambda>v. py_then (py_modify (store k v)) (py_ret v)) | Some v \<Rightarrow> py_ret v))
    | Some v \<Rightarrow> py_ret v)"
    using yields_then [OF assms(2) again] \<open>P s\<close> assms(3) [of s]
    by (cases "lookup s k") (simp_all add: yields_ret)
qed

lemma yields_gas_limit:
  "yields (unsent env L)
     (reported (lg_uint env (if is_native then ''gasLimitNativeWithdraw'' else ''gasLimitERC20Withdraw'') []))
     (get_withdrawal_gas_limit env is_native)"
  unfolding get_withdrawal_gas_limit_def cached_def Let_def
  by (rule yields_cached)
    (auto intro: yields_read_uint yields_weaken [OF yields_await] simp: unsent_def remembers_def split: if_splits)

lemma yields_evm_address: "yields (unsent env L) (reported (lg_text env ''evmAddress'' [])) (evm_address env)"
  unfolding evm_address_def
proof (rule yields_get)
  fix s assume s: "unsent env L s"
  have fetch: "yields (unsent env L) (reported (lg_text env ''evmAddress'' []))
      (py_then (reader env) (py_bind (l_await env (lg_text env ''evmAddress'' [])) (\<lambda>a.
        py_then (py_modify (\<lambda>s. s\<lparr>le_deposit_address := Some a\<rparr>)) (py_ret a))))"
    by (rule yields_then [OF yields_reader] yields_bind [OF yields_await] yields_then [OF yields_modify])+
      (auto simp: unsent_def remembers_def intro: yields_ret)
  show "yields (unsent env L) (reported (lg_text env ''evmAddress'' [])) (case le_deposit_address s of
      None \<Rightarrow> py_then (reader env) (py_bind (l_await env (lg_text env ''evmAddress'' [])) (\<lambda>a.
        py_then (py_modify (\<lambda>s. s\<lparr>le_deposit_address := Some a\<rparr>)) (py_ret a)))
    | Some a \<Rightarrow> py_ret a)"
    using s fetch by (auto simp: unsent_def remembers_def split: option.split intro!: yields_ret)
qed

definition reported_domain :: "'w ledger_env \<Rightarrow> typed_domain \<Rightarrow> bool" where
  "reported_domain env d \<longleftrightarrow>
     (\<exists>report. reported (lg_eip712_domain env) report \<and> typed_domain_of (lg_service env) report = Inr d)"

lemma yields_domain: "yields (unsent env L) (reported_domain env) (get_eip712_domain env)"
  unfolding get_eip712_domain_def
proof (rule yields_get)
  fix s assume s: "unsent env L s"
  let ?fetch = "py_then (reader env) (py_bind (l_await env (lg_eip712_domain env)) (\<lambda>report.
        py_bind (py_lift (typed_domain_of (lg_service env) report)) (\<lambda>built.
        py_then (py_modify (\<lambda>s. s\<lparr>le_eip712_domain := Some built\<rparr>)) (py_ret built))))"
  have "yields (unsent env L) (reported_domain env) ?fetch"
  proof (rule yields_then [OF yields_reader], rule yields_bind [OF yields_await])
    fix report assume report: "reported (lg_eip712_domain env) report"
    have store: "yields (unsent env L) (reported_domain env)
        (py_then (py_modify (\<lambda>s. s\<lparr>le_eip712_domain := Some built\<rparr>)) (py_ret built))"
      if "typed_domain_of (lg_service env) report = Inr built" for built
      using that report
      by (intro yields_then [OF yields_modify] yields_ret) (auto simp: unsent_def remembers_def reported_domain_def)
    show "yields (unsent env L) (reported_domain env) (py_bind (py_lift (typed_domain_of (lg_service env) report))
        (\<lambda>built. py_then (py_modify (\<lambda>s. s\<lparr>le_eip712_domain := Some built\<rparr>)) (py_ret built)))"
      by (rule yields_bind [OF yields_lift]) (assumption, rule store)
  qed
  then show "yields (unsent env L) (reported_domain env)
      (case le_eip712_domain s of None \<Rightarrow> ?fetch | Some d \<Rightarrow> py_ret d)"
    using s by (auto simp: unsent_def remembers_def reported_domain_def split: option.split intro!: yields_ret)
qed

section \<open>A withdrawal that can be paid\<close>

definition signed_by ::
    "'w ledger_env \<Rightarrow> string \<Rightarrow> (string \<times> string) list \<Rightarrow> (string \<times> abi_value) list \<Rightarrow> bytes \<Rightarrow> string \<Rightarrow> bool" where
  "signed_by env primary_type message_types message signature user \<longleftrightarrow>
     (\<exists>domain signer. reported_domain env domain
        \<and> lg_recover env domain primary_type message_types message signature = Inr signer
        \<and> ax_checksum (lg_service env) signer = Inr user)"

lemma yields_signer:
  "yields (unsent env L) (signed_by env primary_type message_types message signature)
     (recover_eip712_signer env primary_type message_types message signature)"
  unfolding recover_eip712_signer_def
proof (rule yields_bind [OF yields_domain])
  fix domain assume domain: "reported_domain env domain"
  have "yields (unsent env L) (\<lambda>signer. lg_recover env domain primary_type message_types message signature = Inr signer)
      (py_catch (py_lift (lg_recover env domain primary_type message_types message signature))
        (\<lambda>e. py_raise (ValueError ''Invalid EIP-712 signature'')))"
    by (rule yields_catch [OF yields_lift yields_raise])
  then show "yields (unsent env L) (signed_by env primary_type message_types message signature)
      (py_bind (py_catch (py_lift (lg_recover env domain primary_type message_types message signature))
        (\<lambda>e. py_raise (ValueError ''Invalid EIP-712 signature''))) (\<lambda>signer. py_lift (ax_checksum (lg_service env) signer)))"
    by (rule yields_bind) (rule yields_lift, use domain in \<open>auto simp: signed_by_def\<close>)
qed

text \<open>
  The balance, read on that chain, of the address the contract reports, covers the published gas
  price times the contract's gas limit with the buffer, and a native amount on top.
\<close>

definition payable :: "'w ledger_env \<Rightarrow> int \<Rightarrow> bool \<Rightarrow> int \<Rightarrow> bool" where
  "payable env cid is_native amount \<longleftrightarrow>
     (\<exists>gas_price gas_limit w3 a balance.
        reported (lg_uint env ''gasPrices'' [AbiInt cid]) gas_price \<and> 0 < gas_price
      \<and> reported (lg_uint env (if is_native then ''gasLimitNativeWithdraw'' else ''gasLimitERC20Withdraw'') []) gas_limit
      \<and> answered (get_chain_web3 cid :: ('w service, client) py) w3
      \<and> reported (lg_text env ''evmAddress'' []) a
      \<and> reported (lg_balance env w3 a) balance
      \<and> max (gas_price * gas_limit * (100 + 20) div 100) (lg_min_withdrawal_gas_balance env) + (if is_native then amount else 0)
          \<le> balance)"

lemma payableI:
  fixes env :: "'w ledger_env"
  assumes "reported (lg_uint env ''gasPrices'' [AbiInt cid]) gas_price" "\<not> gas_price \<le> 0"
    and "reported (lg_uint env (if is_native then ''gasLimitNativeWithdraw'' else ''gasLimitERC20Withdraw'') []) gas_limit"
    and "answered (get_chain_web3 cid :: ('w service, client) py) w3"
    and "reported (lg_text env ''evmAddress'' []) a" "reported (lg_balance env w3 a) balance"
    and "\<not> balance < withdrawal_needs (lg_min_withdrawal_gas_balance env) gas_price gas_limit is_native amount"
  shows "payable env cid is_native amount"
  using assms unfolding payable_def not_less not_le withdrawal_needs_def WITHDRAWAL_GAS_BUFFER_PERCENT_def by blast

lemma yields_payable:
  "yields (unsent env L) (\<lambda>_. payable env cid is_native amount) (check_destination_balance env cid is_native amount)"
  unfolding check_destination_balance_def get_gas_price_def
  apply (rule yields_bind [OF yields_read_uint])
  apply (split if_split, intro conjI impI yields_raise)
  apply (rule yields_bind [OF yields_gas_limit])
  apply (rule yields_bind [OF yields_chain_web3])
  apply (rule yields_bind [OF yields_evm_address])
  apply (rule yields_bind [OF yields_await])
  apply (split if_split, intro conjI impI yields_raise yields_ret)
  apply (erule (6) payableI)
  done

section \<open>One transaction\<close>

definition sends :: "'w ledger_env \<Rightarrow> rofl_tx list \<Rightarrow> (rofl_tx \<Rightarrow> bool) \<Rightarrow> ('w ledger, 'a) py \<Rightarrow> bool" where
  "sends env L G m \<longleftrightarrow>
     (\<forall>s r t. unsent env L s \<longrightarrow> m s = (r, t) \<longrightarrow>
        (\<exists>tx. unsent env (L @ [tx]) t \<and> G tx) \<or> (\<exists>e. r = Inl e \<and> unsent env L t))"

lemma sendsD:
  "sends env L G m \<Longrightarrow> unsent env L s \<Longrightarrow> m s = (r, t) \<Longrightarrow>
   (\<exists>tx. unsent env (L @ [tx]) t \<and> G tx) \<or> (\<exists>e. r = Inl e \<and> unsent env L t)"
  by (simp add: sends_def)

lemma sends_raise: "sends env L G (py_raise e)"
  by (simp add: sends_def py_raise_def)

lemma sends_after:
  assumes m: "yields (unsent env L) Q m" and f: "\<And>x. Q x \<Longrightarrow> sends env L G (f x)"
  shows "sends env L G (py_bind m f)"
  unfolding sends_def
proof (intro allI impI)
  fix s r t assume s: "unsent env L s" and run: "py_bind m f s = (r, t)"
  obtain a u where mu: "m s = (a, u)" by (cases "m s")
  show "(\<exists>tx. unsent env (L @ [tx]) t \<and> G tx) \<or> (\<exists>e. r = Inl e \<and> unsent env L t)"
  proof (cases a)
    case (Inl e)
    then show ?thesis using run mu yields_keeps [OF m s mu] by (auto simp: py_bind_def)
  next
    case (Inr x)
    then have "f x u = (r, t)" "Q x" "unsent env L u" using run mu yieldsD [OF m s, of x u] by (auto simp: py_bind_def)
    then show ?thesis using sendsD [OF f] by blast
  qed
qed

lemma sends_lift: "(\<And>x. r = Inr x \<Longrightarrow> sends env L G (f x)) \<Longrightarrow> sends env L G (py_bind (py_lift r) f)"
  by (rule sends_after [OF yields_lift])

lemma sends_then: "yields (unsent env L) Q m \<Longrightarrow> sends env L G n \<Longrightarrow> sends env L G (py_then m n)"
  unfolding py_then_def by (rule sends_after)

lemma sends_first:
  assumes m: "sends env L G m" and f: "\<And>tx x. yields (unsent env (L @ [tx])) (\<lambda>_. True) (f x)"
  shows "sends env L G (py_bind m f)"
  unfolding sends_def
proof (intro allI impI)
  fix s r t assume s: "unsent env L s" and run: "py_bind m f s = (r, t)"
  obtain a u where mu: "m s = (a, u)" by (cases "m s")
  note sent = sendsD [OF m s mu]
  show "(\<exists>tx. unsent env (L @ [tx]) t \<and> G tx) \<or> (\<exists>e. r = Inl e \<and> unsent env L t)"
  proof (cases a)
    case (Inl e)
    then show ?thesis using run mu sent by (auto simp: py_bind_def)
  next
    case (Inr x)
    with sent obtain tx where tx: "unsent env (L @ [tx]) u" "G tx" by blast
    have "f x u = (r, t)" using run mu Inr by (simp add: py_bind_def)
    then have "unsent env (L @ [tx]) t" by (rule yields_keeps [OF f tx(1)])
    then show ?thesis using tx(2) by blast
  qed
qed

lemma sends_rofl_submit: "tx_to tx \<noteq> None \<Longrightarrow> tx_data tx \<noteq> None \<Longrightarrow> G tx \<Longrightarrow> sends env L G (rofl_submit env tx)"
  unfolding sends_def
proof (intro allI impI disjI1 exI conjI)
  fix s r t assume tx: "tx_to tx \<noteq> None" "tx_data tx \<noteq> None" and s: "unsent env L s" and run: "rofl_submit env tx s = (r, t)"
  have start: "unsent env (L @ [tx]) (s\<lparr>le_sent := le_sent s @ [tx]\<rparr>)" using s by (simp add: unsent_def)
  obtain a u where mu: "l_sign_submit env tx True s = (a, u)" by (cases "l_sign_submit env tx True s")
  then have "l_await env (lg_sign_submit env tx True) (s\<lparr>le_sent := le_sent s @ [tx]\<rparr>) = (a, u)"
    by (simp add: l_sign_submit_def py_then_def py_bind_def py_modify_def)
  then have "unsent env (L @ [tx]) u" by (rule yields_keeps [OF yields_await start])
  moreover have "t = u" using run mu
    by (simp add: rofl_submit_def submit_tx_def guard_full [OF tx] py_then_def py_bind_def py_lift_def)
  ultimately show "unsent env (L @ [tx]) t" by simp
qed

lemma sends_submit_call:
  assumes "\<And>data. ce_encode (lg_calls env) name args = Inr data \<Longrightarrow> G (build_tx (lg_calls env) data)"
  shows "sends env L G (submit_call env name args)"
  unfolding submit_call_def submit_def
proof (rule sends_after [OF yields_lift])
  fix data assume "ce_encode (lg_calls env) name args = Inr data"
  then show "sends env L G (py_bind (rofl_submit env (build_tx (lg_calls env) data))
      (\<lambda>r. py_ret \<lparr>sm_submission_id = rs_submission_id r, sm_detail = None, sm_index = None\<rparr>))"
    by (intro sends_first sends_rofl_submit yields_ret assms) (simp_all add: build_tx_def)
qed simp

section \<open>Confidential reads\<close>

lemma yields_True: "yields P Q m \<Longrightarrow> yields P (\<lambda>_. True) m"
  by (rule yields_weaken) simp_all

lemma yields_verified: "yields (unsent env L) (\<lambda>_. True) (verified_sapphire env)"
  unfolding verified_sapphire_def by (rule yields_True [OF yields_at_once])

lemma yields_view_key: "yields (unsent env L) (\<lambda>_. True) (view_key env)"
  unfolding view_key_def
  by (auto intro!: yields_ret yields_raise yields_try [OF yields_True [OF yields_await]])

lemma remembers_confidential [simp]: "remembers env (s\<lparr>le_confidential := b\<rparr>) = remembers env s"
  by (simp add: remembers_def)

lemma yields_confidential_reader: "yields (unsent env L) (\<lambda>_. True) (get_confidential_reader env)"
  unfolding get_confidential_reader_def
  by (rule yields_then [OF yields_verified], rule yields_get)
    (auto intro!: yields_ret yields_raise yields_bind [OF yields_view_key] yields_then [OF yields_lift] yields_modify
      simp: unsent_def)

lemma yields_transient_retry:
  "yields (unsent env L) Q f \<Longrightarrow> yields (unsent env L) Q (transient_retry env f tries left)"
proof (induction left arbitrary: tries)
  case (Suc left)
  have "yields (unsent env L) Q (if is_contract_logic e \<or> \<not> is_exception e then py_raise e
      else py_then (l_await env (lg_sleep env (TRANSIENT_READ_BACKOFF_SEC * int tries))) (transient_retry env f (Suc tries) left))"
    for e
    by (auto intro: yields_raise yields_then [OF yields_await Suc.IH [OF Suc.prems]])
  then show ?case by (simp add: yields_try [OF Suc.prems])
qed simp

lemma yields_user_locks:
  "yields (unsent env L) (reported (lg_user_locks env siwe_token)) (fetch_user_locks env siwe_token)"
  unfolding fetch_user_locks_def call_with_transient_retry_def
  by (rule yields_then [OF yields_confidential_reader yields_transient_retry [OF yields_await]])

lemma yields_scan_back: "yields (unsent env L) (\<lambda>_. True) (scan_back env user token amount n left)"
proof (induction left arbitrary: n)
  case (Suc left)
  show ?case
    by (auto intro!: yields_bind [OF yields_await] yields_ret Suc.IH)
qed (simp add: yields_ret)

lemma yields_locate: "yields (unsent env L) (\<lambda>_. True) (locate_withdrawal_index env user token amount)"
  unfolding locate_withdrawal_index_def
  by (rule yields_catch [OF yields_then [OF yields_reader yields_bind [OF yields_await yields_scan_back]] yields_ret]) simp

lemma yields_require_chain: "yields (unsent env L) (\<lambda>_. True) (require_chain cid)"
  unfolding require_chain_def by (rule yields_get) (auto intro: yields_ret yields_raise)

section \<open>Withdrawals\<close>

definition backed_request :: "'w ledger_env \<Rightarrow> withdraw_payload \<Rightarrow> rofl_tx \<Rightarrow> bool" where
  "backed_request env p tx \<longleftrightarrow>
     (\<exists>token signature user context data.
        require_hex (lg_service env) (wr_token_id p) (Some 32) = Inr token
      \<and> require_hex (lg_service env) (wr_signature p) None = Inr signature
      \<and> 0 < wr_amount p \<and> 0 \<le> wr_nonce p
      \<and> signed_by env ''Withdraw'' withdraw_types (withdraw_message token (wr_amount p) (wr_nonce p)) signature user
      \<and> answered (get_token_context (lg_service env) token) context \<and> tc_chain_id context \<noteq> 0
      \<and> payable env (tc_chain_id context) (tc_is_native context) (wr_amount p)
      \<and> ce_encode (lg_calls env) ''requestWithdrawal''
          [AbiBytes token, AbiInt (wr_amount p), AbiInt (wr_nonce p), AbiBytes signature] = Inr data
      \<and> tx = build_tx (lg_calls env) data)"

definition backed_release :: "'w ledger_env \<Rightarrow> from_lock_payload \<Rightarrow> string \<times> bytes \<Rightarrow> rofl_tx \<Rightarrow> bool" where
  "backed_release env p auth tx \<longleftrightarrow>
     (\<exists>user to_addr signature locks l context data.
        require_address (lg_service env) (fst auth) = Inr user
      \<and> require_address (lg_service env) (fw_to_address p) = Inr to_addr \<and> ascii_lower to_addr \<noteq> ADDRESS_ZERO
      \<and> require_hex (lg_service env) (fw_signature p) None = Inr signature
      \<and> 0 < fw_lock_id p \<and> 0 < fw_amount p \<and> 0 \<le> fw_nonce p
      \<and> reported (lg_user_locks env (snd auth)) locks \<and> l \<in> set locks \<and> ul_id l = fw_lock_id p
      \<and> answered (get_token_context (lg_service env) (ul_token l)) context
      \<and> payable env (tc_chain_id context) (tc_is_native context) (fw_amount p)
      \<and> ce_encode (lg_calls env) ''withdrawFromLock''
          [AbiAddress user, AbiAddress to_addr, AbiInt (fw_lock_id p), AbiInt (fw_amount p), AbiInt (fw_nonce p),
           AbiBytes signature] = Inr data
      \<and> tx = build_tx (lg_calls env) data)"

lemma require_positive_Inr:
  "require_positive n allow_zero = Inr m \<longleftrightarrow> m = n \<and> (0 < n \<or> allow_zero \<and> n = 0)"
  by (auto simp: require_positive_def)

lemma backed_requestI:
  assumes "require_hex (lg_service env) (wr_token_id p) (Some 32) = Inr token"
    and "require_positive (wr_amount p) False = Inr amount" "require_positive (wr_nonce p) True = Inr nonce"
    and "require_hex (lg_service env) (wr_signature p) None = Inr signature"
    and "signed_by env ''Withdraw'' withdraw_types (withdraw_message token amount nonce) signature user"
    and "answered (get_token_context (lg_service env) token) context" "tc_chain_id context \<noteq> 0"
    and "payable env (tc_chain_id context) (tc_is_native context) amount"
    and "ce_encode (lg_calls env) ''requestWithdrawal'' [AbiBytes token, AbiInt amount, AbiInt nonce, AbiBytes signature] = Inr data"
  shows "backed_request env p (build_tx (lg_calls env) data)"
proof -
  have n: "amount = wr_amount p" "0 < wr_amount p" "nonce = wr_nonce p" "0 \<le> wr_nonce p"
    using assms(2,3) by (auto simp: require_positive_Inr)
  show ?thesis
    unfolding backed_request_def using assms(1,4-9) n(2,4) unfolding n(1,3) by (intro exI conjI) (assumption | rule refl)+
qed

lemma backed_releaseI:
  assumes "require_address (lg_service env) (fst auth) = Inr user"
    and "require_address (lg_service env) (fw_to_address p) = Inr to_addr"
    and "require_positive (fw_lock_id p) False = Inr lock_id"
    and "require_positive (fw_amount p) False = Inr amount" "require_positive (fw_nonce p) True = Inr nonce"
    and "require_hex (lg_service env) (fw_signature p) None = Inr signature"
    and "require_not_zero to_addr = Inr u"
    and "reported (lg_user_locks env (snd auth)) locks" "find (\<lambda>l. ul_id l = lock_id) locks = Some l"
    and "answered (get_token_context (lg_service env) (ul_token l)) context"
    and "payable env (tc_chain_id context) (tc_is_native context) amount"
    and "ce_encode (lg_calls env) ''withdrawFromLock''
      [AbiAddress user, AbiAddress to_addr, AbiInt lock_id, AbiInt amount, AbiInt nonce, AbiBytes signature] = Inr data"
  shows "backed_release env p auth (build_tx (lg_calls env) data)"
proof -
  have n: "lock_id = fw_lock_id p" "0 < fw_lock_id p" "amount = fw_amount p" "0 < fw_amount p" "nonce = fw_nonce p"
    "0 \<le> fw_nonce p" "ascii_lower to_addr \<noteq> ADDRESS_ZERO"
    using assms(3-5,7) by (auto simp: require_positive_Inr require_not_zero_def split: if_splits)
  have l: "l \<in> set locks" "ul_id l = fw_lock_id p"
    using assms(9) n(1) by (auto simp: find_Some_iff)
  show ?thesis
    unfolding backed_release_def using assms(1,2,6,8,10-12) n(2,4,6,7) l unfolding n(1,3,5)
    by (intro exI conjI) (assumption | rule refl)+
qed

lemma sends_request_withdrawal: "sends env L (backed_request env p) (request_withdrawal env p)"
  unfolding request_withdrawal_def
  apply (rule sends_lift)
  apply (rule sends_lift)
  apply (rule sends_lift)
  apply (rule sends_lift)
  apply (rule sends_after [OF yields_signer])
  apply (rule sends_after [OF yields_token_context])
  apply (split if_split, intro conjI impI sends_raise)
  apply (rule sends_then [OF yields_require_chain])
  apply (unfold py_then_def)
  apply (rule sends_after [OF yields_payable])
  apply (rule sends_first [OF sends_submit_call])
   apply (erule (8) backed_requestI)
  apply (rule yields_bind [OF yields_locate], rule yields_ret, rule TrueI)
  done

lemma sends_withdraw_from_lock: "sends env L (backed_release env p auth) (withdraw_from_lock env p auth)"
  unfolding withdraw_from_lock_def
  apply (rule sends_lift)
  apply (rule sends_lift)
  apply (rule sends_lift)
  apply (rule sends_lift)
  apply (rule sends_lift)
  apply (rule sends_lift)
  apply (unfold py_then_def)
  apply (rule sends_lift)
  apply (rule sends_after [OF yields_user_locks])
  apply (split option.split, intro conjI impI allI sends_raise)
  apply (rule sends_after [OF yields_token_context])
  apply (rule sends_after [OF yields_require_chain])
  apply (rule sends_after [OF yields_payable])
  apply (rule sends_first [OF sends_submit_call])
   apply (erule (11) backed_releaseI)
  apply (rule yields_ret, rule TrueI)
  done

text \<open>
  C38. A withdrawal hands the daemon at most one transaction, and the answer is an error when it hands
  it none. The one it hands over calls \<open>requestWithdrawal\<close> with exactly the token, the positive
  amount, the nonce and the signature of the request; the signature recovers an address under the
  domain the contract reported; the token is registered with a chain; and the balance of the
  contract's address, read on that chain, covers the published gas price times the contract's own gas
  limit plus a fifth, never less than the configured floor, and for a native token the amount on top.
\<close>

theorem request_backed:
  assumes "fair_tasks env" "remembers env s"
    and "request_withdrawal env p s = (r, t)"
  shows "(\<exists>tx. le_sent t = le_sent s @ [tx] \<and> backed_request env p tx)
    \<or> (\<exists>e. r = Inl e \<and> le_sent t = le_sent s)"
proof -
  have "unsent env (le_sent s) s" using assms by (simp add: unsent_def)
  from sendsD [OF sends_request_withdrawal this assms(3)] show ?thesis by (auto simp: unsent_def)
qed

text \<open>The same of a withdrawal out of a lock: the lock is one of the caller's, the receiver not zero.\<close>

lemma release_backed:
  assumes "fair_tasks env" "remembers env s"
    and "withdraw_from_lock env p auth s = (r, t)"
  shows "(\<exists>tx. le_sent t = le_sent s @ [tx] \<and> backed_release env p auth tx)
    \<or> (\<exists>e. r = Inl e \<and> le_sent t = le_sent s)"
proof -
  have "unsent env (le_sent s) s" using assms by (simp add: unsent_def)
  from sendsD [OF sends_withdraw_from_lock this assms(3)] show ?thesis by (auto simp: unsent_def)
qed

section \<open>The index of a withdrawal\<close>

lemma l_await_reported: "l_await env f s = (Inr x, t) \<Longrightarrow> reported f x"
  by (auto simp: l_await_def reported_def split: prod.splits)

definition passed_over :: "'w ledger_env \<Rightarrow> string \<Rightarrow> bytes \<Rightarrow> int \<Rightarrow> int \<Rightarrow> bool" where
  "passed_over env user token amount j \<longleftrightarrow>
     (\<exists>r. reported (lg_withdrawal env j) r \<and> \<not> same_withdrawal user token amount r)"

lemma scan_back_found:
  "scan_back env user token amount n left s = (Inr (Some i), t) \<Longrightarrow>
   n - int left \<le> i \<and> i < n \<and> (\<exists>r. reported (lg_withdrawal env i) r \<and> same_withdrawal user token amount r)
   \<and> (\<forall>j. i < j \<and> j < n \<longrightarrow> passed_over env user token amount j)"
proof (induction left arbitrary: n s)
  case (Suc left)
  from Suc.prems obtain r u where read: "reported (lg_withdrawal env (n - 1)) r"
    and rest: "(if same_withdrawal user token amount r then py_ret (Some (n - 1))
       else scan_back env user token amount (n - 1) left) u = (Inr (Some i), t)"
    by (auto simp: py_bind_Inr dest: l_await_reported)
  show ?case
  proof (cases "same_withdrawal user token amount r")
    case True
    then show ?thesis using rest read by (auto simp: py_ret_Inr)
  next
    case False
    then have "passed_over env user token amount (n - 1)" using read by (auto simp: passed_over_def)
    moreover have "i < j \<and> j < n \<Longrightarrow> j = n - 1 \<or> i < j \<and> j < n - 1" for j by linarith
    ultimately show ?thesis using Suc.IH [of "n - 1" u] rest False by auto
  qed
qed (simp add: py_ret_def)

text \<open>
  C39. Looking for the index of the withdrawal just submitted never fails: whatever the node does, the
  search ends without an \<open>Exception\<close>. An index it returns lies below the count the contract
  reported and among its last sixteen rows; the row there has the user, token and amount of the
  withdrawal; and every later row was read and is another withdrawal.
\<close>

theorem index_located:
  assumes "locate_withdrawal_index env user token amount s = (r, t)"
  shows "case r of
      Inl e \<Rightarrow> \<not> is_exception e
    | Inr None \<Rightarrow> True
    | Inr (Some i) \<Rightarrow>
        \<exists>n. reported (lg_uint env ''withdrawalCount'' []) n \<and> max (n - 16) 0 \<le> i \<and> i < n
          \<and> (\<exists>row. reported (lg_withdrawal env i) row \<and> ascii_lower (cw_user row) = ascii_lower user
                \<and> cw_amount row = amount \<and> cw_token_id row = token)
          \<and> (\<forall>j. i < j \<and> j < n \<longrightarrow> passed_over env user token amount j)"
proof (cases r)
  case (Inl e)
  then show ?thesis
    using assms by (auto simp: locate_withdrawal_index_def py_catch_def py_try_def py_ret_def py_raise_def
        split: prod.splits sum.splits if_splits)
next
  case (Inr v)
  show ?thesis
  proof (cases v)
    case (Some i)
    from assms Inr Some obtain n u where n: "reported (lg_uint env ''withdrawalCount'' []) n"
      and scan: "scan_back env user token amount n (nat (n - max (n - WITHDRAWAL_INDEX_SCAN_WINDOW) 0)) u = (Inr (Some i), t)"
      by (auto simp: locate_withdrawal_index_def py_catch_Inr py_then_Inr py_bind_Inr py_ret_Inr dest: l_await_reported)
    let ?k = "nat (n - max (n - WITHDRAWAL_INDEX_SCAN_WINDOW) 0)"
    have "n - int ?k \<le> i" "i < n" using scan_back_found [OF scan] by auto
    then have "max (n - 16) 0 \<le> i" by (auto simp: WITHDRAWAL_INDEX_SCAN_WINDOW_def max_def split: if_splits)
    then show ?thesis using n scan_back_found [OF scan] Inr Some by (auto simp: same_withdrawal_def)
  qed (simp add: Inr)
qed

section \<open>History\<close>

text \<open>What a row of the history is shown as: its decoded payload, or a row of unknown kind.\<close>

definition shown_row :: "'w a_env \<Rightarrow> int \<times> int \<times> bytes \<Rightarrow> history_entry \<Rightarrow> bool" where
  "shown_row env e h \<longleftrightarrow>
     (case e of (kind, timestamp, payload) \<Rightarrow>
        he_timestamp h = timestamp \<and>
        (case sum_bind (history_kind_of kind) (\<lambda>k. sum_bind (decode_history_payload env k payload) (\<lambda>d. Inr (k, d))) of
           Inl err \<Rightarrow> h = unknown_history_entry timestamp
         | Inr (k, token, amount, counterparty, deposit_id) \<Rightarrow>
             he_kind h = history_kind_wire_name k \<and> he_token_id h = Some (to_hex token) \<and> he_amount h = Some amount
           \<and> he_counterparty h = counterparty \<and> he_deposit_id h = deposit_id))"

lemma history_entry_shown: "history_entry_to_dict env e s = (Inr h, t) \<Longrightarrow> shown_row (lg_service env) e h"
  by (auto simp: history_entry_to_dict_def shown_row_def unknown_history_entry_def result_simps
      split: prod.splits sum.splits if_splits)

lemma py_map_all2:
  assumes "\<And>x s y t. f x s = (Inr y, t) \<Longrightarrow> R x y"
  shows "py_map f xs s = (Inr ys, t) \<Longrightarrow> list_all2 R xs ys"
  by (induction xs arbitrary: ys s) (auto simp: result_simps dest: assms)

lemma transient_retry_reported:
  "transient_retry env (l_await env f) tries left s = (Inr x, t) \<Longrightarrow> reported f x"
proof (induction left arbitrary: tries s)
  case (Suc left)
  then show ?case by (auto simp: result_simps l_await_reported split: if_splits)
qed (simp add: l_await_reported)

lemma retried_reported: "call_with_transient_retry env (l_await env f) s = (Inr x, t) \<Longrightarrow> reported f x"
  unfolding call_with_transient_retry_def by (rule transient_retry_reported)

text \<open>\<open>abi.encodePacked(tokenId, amount, ...)\<close>: a number as 32 bytes, most significant first.\<close>

fun big_endian :: "nat \<Rightarrow> int \<Rightarrow> bytes" where
  "big_endian 0 n = []"
| "big_endian (Suc k) n = big_endian k (n div 256) @ [word_of_int n]"

lemma bytes_int_append: "bytes_int (xs @ [b]) = bytes_int xs * 256 + uint b"
  by (simp add: bytes_int_def)

lemma bytes_int_big_endian: "0 \<le> n \<Longrightarrow> n < 256 ^ k \<Longrightarrow> bytes_int (big_endian k n) = n"
proof (induction k arbitrary: n)
  case (Suc k)
  have "n div 256 < 256 ^ k" using Suc.prems by (simp add: div_less_iff_less_mult mult.commute)
  then have "bytes_int (big_endian k (n div 256)) = n div 256" using Suc by (simp add: pos_imp_zdiv_nonneg_iff)
  then show ?case by (simp add: bytes_int_append uint_word_of_int take_bit_eq_mod)
qed (simp add: bytes_int_def)

lemma length_big_endian [simp]: "length (big_endian k n) = k"
  by (induction k arbitrary: n) simp_all

definition pack_history :: "bytes \<Rightarrow> int \<Rightarrow> bytes \<Rightarrow> bytes" where
  "pack_history token amount tail = token @ big_endian 32 amount @ tail"

lemma packed_history_decoded:
  assumes "length token = 32" "0 \<le> amount" "amount < 2 ^ 256"
    and "length tail = (if kind = HDeposit then 32 else 20)"
    and "kind = HDeposit \<or> ax_checksum env (to_hex tail) = Inr a"
  shows "decode_history_payload env kind (pack_history token amount tail)
    = Inr (token, int_text amount, if kind = HDeposit then None else Some a,
           if kind = HDeposit then Some (to_hex tail) else None)"
proof -
  have amount: "bytes_int (big_endian 32 amount) = amount"
    using assms(2,3) by (intro bytes_int_big_endian) simp_all
  show ?thesis
    using assms(1,4,5) amount
    by (auto simp: decode_history_payload_def pack_history_def HISTORY_DEPOSIT_PAYLOAD_LEN_def
        HISTORY_COUNTERPARTY_PAYLOAD_LEN_def HISTORY_TOKEN_ID_LEN_def HISTORY_AMOUNT_LEN_def
        HISTORY_DEPOSIT_ID_LEN_def HISTORY_ADDRESS_LEN_def Let_def)
qed

lemma history_kinds_distinct: "distinct history_kinds" "k \<in> set history_kinds"
  by (simp_all add: history_kinds_def) (cases k; simp)

definition history_kind_number :: "history_kind \<Rightarrow> int" where
  "history_kind_number k = int (length (takeWhile (\<lambda>j. j \<noteq> k) history_kinds))"

lemma history_kind_of_number: "history_kind_of (history_kind_number k) = Inr k"
  by (cases k) (simp_all add: history_kind_of_def history_kind_number_def history_kinds_def)

lemma get_history_shown:
  assumes "get_history env offset limit siwe_token s = (Inr (hs, n), t)"
  shows "\<exists>rows. reported (lg_history env offset limit siwe_token) (rows, n)
      \<and> list_all2 (shown_row (lg_service env)) rows hs"
proof -
  from assms obtain rows u v where rows: "call_with_transient_retry env (l_await env (lg_history env offset limit siwe_token)) u
      = (Inr (rows, n), v)" and hs: "py_map (history_entry_to_dict env) rows v = (Inr hs, t)"
    unfolding get_history_def by (auto simp: result_simps split: if_splits prod.splits)
  show ?thesis
    using retried_reported [OF rows] py_map_all2 [where R = "shown_row (lg_service env)", OF _ hs] history_entry_shown by blast
qed

text \<open>A row as the contract packs it, and an entry that shows it.\<close>

definition packed_row :: "'w a_env \<Rightarrow> history_kind \<Rightarrow> bytes \<Rightarrow> int \<Rightarrow> bytes \<Rightarrow> string \<Rightarrow> int \<times> int \<times> bytes \<Rightarrow> bool" where
  "packed_row env k token amount tail a row \<longleftrightarrow>
     (case row of (kind, timestamp, payload) \<Rightarrow>
        kind = history_kind_number k \<and> payload = pack_history token amount tail \<and> length token = 32
      \<and> 0 \<le> amount \<and> amount < 2 ^ 256 \<and> length tail = (if k = HDeposit then 32 else 20)
      \<and> (k = HDeposit \<or> ax_checksum env (to_hex tail) = Inr a))"

definition shows_row :: "history_kind \<Rightarrow> bytes \<Rightarrow> int \<Rightarrow> bytes \<Rightarrow> string \<Rightarrow> history_entry \<Rightarrow> bool" where
  "shows_row k token amount tail a h \<longleftrightarrow>
     he_kind h = history_kind_wire_name k \<and> he_token_id h = Some (to_hex token) \<and> he_amount h = Some (int_text amount)
   \<and> (if k = HDeposit then he_deposit_id h = Some (to_hex tail) else he_counterparty h = Some a)"

lemma packed_row_shown:
  assumes "shown_row env row h" "packed_row env k token amount tail a row"
  shows "shows_row k token amount tail a h"
proof -
  obtain ts where row: "row = (history_kind_number k, ts, pack_history token amount tail)"
    and p: "length token = 32" "0 \<le> amount" "amount < 2 ^ 256" "length tail = (if k = HDeposit then 32 else 20)"
      "k = HDeposit \<or> ax_checksum env (to_hex tail) = Inr a"
    using assms(2) by (auto simp only: packed_row_def split: prod.splits)
  show ?thesis
    using assms(1) unfolding row shown_row_def shows_row_def
    by (simp add: history_kind_of_number packed_history_decoded [OF p])
qed


section \<open>Locks\<close>

lemma sum_list_map_all2: "sum_list_map f xs = Inr ys \<Longrightarrow> list_all2 (\<lambda>x y. f x = Inr y) xs ys"
proof (induction xs arbitrary: ys)
  case (Cons x xs)
  then show ?case by (cases "f x"; cases "sum_list_map f xs") auto
qed simp

definition shown_lock :: "int \<Rightarrow> lock_row \<Rightarrow> lock_info \<Rightarrow> bool" where
  "shown_lock now row l \<longleftrightarrow>
     ll_lock_id l = ul_id row \<and> ll_token_id l = to_hex (ul_token row) \<and> ll_amount l = int_text (ul_amount row)
   \<and> ll_expiry l = ul_expiry row \<and> (ll_is_expired l \<longleftrightarrow> ul_expiry row \<le> now)"

lemma lock_to_info_shown: "lock_to_info env now row = Inr l \<Longrightarrow> shown_lock now row l"
  by (cases "ax_checksum env (ul_service row)") (auto simp: lock_to_info_def shown_lock_def)

lemma fetch_user_locks_reported:
  "fetch_user_locks env siwe_token s = (Inr rows, t) \<Longrightarrow> reported (lg_user_locks env siwe_token) rows"
  by (auto simp: fetch_user_locks_def result_simps dest: retried_reported)

lemma get_chain_timestamp_reported:
  "get_chain_timestamp env s = (Inr now, t) \<Longrightarrow> reported (lg_block_timestamp env) now"
  by (auto simp: get_chain_timestamp_def py_bind_def py_get_def py_then_Inr py_raise_def
      dest!: retried_reported split: if_splits)

text \<open>
  The locks a caller is shown are the contract's, in its order, all of them or those of one service,
  each with whether it had expired by the chain's clock; the total is the sum of their amounts.
\<close>

lemma locked_funds_faithful:
  assumes "get_locked_funds env siwe_token service_address s = (Inr f, t)"
  shows "\<exists>rows now. reported (lg_user_locks env siwe_token) rows \<and> reported (lg_block_timestamp env) now
    \<and> (let locks = (case lf_service_address f of None \<Rightarrow> rows
            | Some a \<Rightarrow> filter (\<lambda>l. ascii_lower (ul_service l) = ascii_lower a) rows) in
       list_all2 (shown_lock now) locks (lf_locks f) \<and> lf_total_locked f = int_text (sum_list (map ul_amount locks)))"
proof -
  from assms obtain service rows now infos u v w
    where rows: "fetch_user_locks env siwe_token u = (Inr rows, v)"
      and now: "get_chain_timestamp env v = (Inr now, w)"
      and infos: "sum_list_map (lock_to_info (lg_service env) now) (case service of None \<Rightarrow> rows
            | Some a \<Rightarrow> filter (\<lambda>l. ascii_lower (ul_service l) = ascii_lower a) rows) = Inr infos"
      and f: "f = \<lparr>lf_service_address = service, lf_locks = infos, lf_total_locked = int_text (sum_list (map ul_amount
          (case service of None \<Rightarrow> rows | Some a \<Rightarrow> filter (\<lambda>l. ascii_lower (ul_service l) = ascii_lower a) rows)))\<rparr>"
    unfolding get_locked_funds_def Let_def py_bind_Inr py_lift_Inr py_ret_Inr by blast
  have "list_all2 (shown_lock now) (case service of None \<Rightarrow> rows
            | Some a \<Rightarrow> filter (\<lambda>l. ascii_lower (ul_service l) = ascii_lower a) rows) infos"
    using sum_list_map_all2 [OF infos] by (rule list_all2_mono) (rule lock_to_info_shown)
  then show ?thesis
    using fetch_user_locks_reported [OF rows] get_chain_timestamp_reported [OF now]
    by (intro exI [of _ rows] exI [of _ now]) (simp add: f Let_def)
qed

text \<open>
  Before anything else has made the confidential reader, listing the expired locks is refused: the
  chain's clock is read before the locks, and only reading the locks makes the reader.
\<close>

lemma expired_locks_refused:
  "\<not> le_confidential s \<Longrightarrow> get_expired_locks env siwe_token s = (Inl (ValueError ''Confidential reader is not initialized''), s)"
  by (simp add: get_expired_locks_def get_chain_timestamp_def py_bind_def py_get_def py_raise_def)

section \<open>Retries\<close>

text \<open>The state after \<open>k\<close> attempts that failed for a while, each followed by its pause.\<close>

fun failed_attempts :: "'w ledger_env \<Rightarrow> ('w ledger, 'a) py \<Rightarrow> nat \<Rightarrow> nat \<Rightarrow> 'w ledger \<Rightarrow> 'w ledger option" where
  "failed_attempts env f tries 0 s = Some s"
| "failed_attempts env f tries (Suc k) s =
     (case f s of
        (Inl e, u) \<Rightarrow>
          if is_contract_logic e \<or> \<not> is_exception e then None
          else (case l_await env (lg_sleep env (TRANSIENT_READ_BACKOFF_SEC * int tries)) u of
                  (Inr x, v) \<Rightarrow> failed_attempts env f (Suc tries) k v
                | (Inl e, v) \<Rightarrow> None)
      | (Inr x, u) \<Rightarrow> None)"

lemma transient_retry_attempts:
  assumes "\<And>d w. \<exists>w'. lg_sleep env d w = (Inr (), w')"
    and "transient_retry env f tries left s = (r, t)"
  shows "\<exists>k u. k \<le> left \<and> failed_attempts env f tries k s = Some u \<and> f u = (r, t)
    \<and> (k = left \<or> (case r of Inl e \<Rightarrow> is_contract_logic e \<or> \<not> is_exception e | Inr x \<Rightarrow> True))"
  using assms(2)
proof (induction left arbitrary: tries s)
  case (Suc left)
  obtain a u where fs: "f s = (a, u)" by (cases "f s")
  show ?case
  proof (cases "\<exists>e. a = Inl e \<and> \<not> (is_contract_logic e \<or> \<not> is_exception e)")
    case True
    then obtain e where e: "a = Inl e" "\<not> (is_contract_logic e \<or> \<not> is_exception e)" by blast
    obtain v where v: "l_await env (lg_sleep env (TRANSIENT_READ_BACKOFF_SEC * int tries)) u = (Inr (), v)"
      using assms(1) [of "TRANSIENT_READ_BACKOFF_SEC * int tries" "sh_world (le_service u)"] by (auto simp: l_await_def)
    have "transient_retry env f (Suc tries) left v = (r, t)"
      using Suc.prems fs e v by (simp add: py_try_def py_then_def py_bind_def)
    from Suc.IH [OF this] obtain k w where k: "k \<le> left" "failed_attempts env f (Suc tries) k v = Some w" "f w = (r, t)"
      "k = left \<or> (case r of Inl e \<Rightarrow> is_contract_logic e \<or> \<not> is_exception e | Inr x \<Rightarrow> True)" by blast
    then show ?thesis using fs e v by (intro exI [of _ "Suc k"] exI [of _ w]) auto
  next
    case False
    then have "(r, t) = (a, u)" using Suc.prems fs by (cases a) (auto simp: py_try_def py_raise_def)
    then show ?thesis using fs False by (intro exI [of _ 0] exI [of _ s]) (auto split: sum.splits)
  qed
qed simp

text \<open>A retried read is attempted at most ten times, and its answer is that of the last attempt.\<close>

lemma read_attempts:
  assumes "\<And>d w. \<exists>w'. lg_sleep env d w = (Inr (), w')" and "call_with_transient_retry env f s = (r, t)"
  shows "\<exists>k u. k \<le> 9 \<and> failed_attempts env f 1 k s = Some u \<and> f u = (r, t)
    \<and> (k = 9 \<or> (case r of Inl e \<Rightarrow> is_contract_logic e \<or> \<not> is_exception e | Inr x \<Rightarrow> True))"
  using transient_retry_attempts [OF assms(1) assms(2) [unfolded call_with_transient_retry_def]]
  by (simp add: TRANSIENT_READ_ATTEMPTS_def)

end
