(* ===== verification/Withdrawal_Example.thy ===== *)
theory Withdrawal_Example
  imports Withdrawal_Processor
begin

text \<open>
  Concrete runs of the withdrawal processor: the witnesses of its theorems, and a run in which an
  open withdrawal is never looked at again. The contract holds two withdrawals of chain 1, numbers
  0 and 1; the token of number 0 cannot be read before \<open>late\<close>; number 1 shows as resolved from
  \<open>late\<close> on. The world is the time in milliseconds.
\<close>

definition late :: int where "late = 50000"

definition open_row :: "bytes \<Rightarrow> contract_withdrawal" where
  "open_row token = \<lparr>cw_user = ''0xU'', cw_to = ''0xT'', cw_amount = 25, cw_block_number = 7,
     cw_token_id = token, cw_resolved = False, cw_tx_identifier = []\<rparr>"

definition two_rows :: "int \<Rightarrow> contract_withdrawal list" where
  "two_rows w = [open_row [1], (open_row [2])\<lparr>cw_resolved := (late \<le> w)\<rparr>]"

definition two_a_env :: "int a_env" where
  "two_a_env = \<lparr>ax_others = (\<lambda>s. s), ax_chain_id = 23295, ax_sapphire_url = ''sap'',
     ax_lock = (\<lambda>w. (Inr (), w)), ax_block_number = (\<lambda>w. (Inr 9, w)),
     ax_withdrawal_count = (\<lambda>w. (Inr 2, w)),
     ax_withdrawals = (\<lambda>is w. (Inr (map (\<lambda>i. two_rows w ! nat i) is), w)),
     ax_tokens = (\<lambda>k w. (if k = [1] \<and> w < late then Inl (TimeoutError ''timeout'')
        else Inr (0, replicate 31 0 @ [1]), w)),
     ax_cache_get = (\<lambda>_ c k. c k), ax_cache_set = (\<lambda>_ k v c. c(k \<mapsto> v)),
     ax_hexbytes = (\<lambda>s. bytes_fromhex (removeprefix ''0x'' s)), ax_is_address = (\<lambda>_. True), ax_checksum = Inr\<rparr>"

definition two_env :: "int w_env" where
  "two_env = \<lparr>wx_acc = two_a_env, wx_now = (\<lambda>w. w), wx_sleep = (\<lambda>n w. (Inr (), w + n)),
     wx_nonces = (\<lambda>_ w. (Inr 1, w)), wx_evm_address = (\<lambda>w. (Inr ''0xE'', w)),
     wx_withdrawal = (\<lambda>i w. (Inr ((open_row [2])\<lparr>cw_resolved := True\<rparr>), w)),
     wx_resolve_call = (\<lambda>i w. (Inr (HBytes [7]), w)),
     wx_submit_resolve = (\<lambda>i w. (Inr (), w)),
     wx_transaction_count = (\<lambda>_ _ _ w. (Inr 1, w)),
     wx_receipt_status = (\<lambda>_ _ w. (Inr None, w)), wx_transaction = (\<lambda>_ _ w. (Inl (TransactionNotFound []), w)),
     wx_send_raw = (\<lambda>_ tx w. (Inr [9], w)), wx_keccak = (\<lambda>b. b), wx_decode_uint64 = (\<lambda>_. Inr 0),
     wx_resolution_timeout = 3, wx_poll_interval = 60\<rparr>"

definition two_service :: "int service" where
  "two_service = \<lparr>sh_world = 1000,
     sh_rpc = (rpc_init [(1, ''eth'')])\<lparr>verified_urls := [(1, ''eth''), (23295, ''sap'')],
        settings_chain_rpc_urls := [(1, ''eth'')]\<rparr>,
     sh_running = True, sh_scanned = 0, sh_unresolved = [], sh_token_contexts = Map.empty,
     sh_chain_web3 = Map.empty\<rparr>"

section \<open>Witnesses\<close>

definition two_start :: "int wproc" where
  "two_start = new_processor two_service"

definition row_one :: pending_withdrawal where
  "row_one = \<lparr>pw_index = 1, pw_user_address = ''0xU'', pw_to_address = ''0xT'', pw_amount = ''25'',
     pw_token_id = ''0x02'', pw_block_number = 7, pw_can_resolve = True, pw_chain_id = Some 1\<rparr>"

lemma two_start_ok: "broadcasts_ok two_env two_start"
  by (simp add: broadcasts_ok_def two_start_def new_processor_def)

lemma two_resolve: "fst (resolve_and_broadcast two_env row_one two_start) = Inr True"
  by code_simp

lemma marked_only_when_paid_witness:
  "\<exists>new E. payment_proof two_env new E 1 1
     \<and> wp_high_water (snd (resolve_and_broadcast two_env row_one two_start)) 1 = Some 1"
proof -
  let ?t = "snd (resolve_and_broadcast two_env row_one two_start)"
  have run: "resolve_and_broadcast two_env row_one two_start = (Inr True, ?t)"
    using two_resolve by (metis prod.collapse)
  show ?thesis
    using marked_only_when_paid [OF two_start_ok run]
    by (auto simp: row_one_def raise_high_water_def two_start_def new_processor_def)
qed

lemma two_mark: "wp_high_water (snd (run_processor 1 two_env (new_processor two_service))) 1 = Some 1"
  by code_simp

lemma marks_always_proved_witness: "\<exists>E. payment_proof two_env E E 1 1"
  using marks_always_proved [OF two_mark] by auto

lemma gate_before_signing_witness: "\<exists>c l. gate_passed two_env 1 c l"
proof (rule gate_before_signing)
  show "process_chain two_env 1 [row_one] two_start = (fst (process_chain two_env 1 [row_one] two_start),
      snd (process_chain two_env 1 [row_one] two_start))" by simp
  have "wp_trace (snd (process_chain two_env 1 [row_one] two_start)) \<noteq> []" by code_simp
  then show "wp_trace (snd (process_chain two_env 1 [row_one] two_start)) \<noteq> wp_trace two_start
    \<or> wp_high_water (snd (process_chain two_env 1 [row_one] two_start)) \<noteq> wp_high_water two_start"
    by (simp add: two_start_def new_processor_def)
qed

text \<open>With one nonce signed and not mined, the catch-up re-broadcasts the withdrawal that carries it.\<close>

definition missing_env :: "int w_env" where
  "missing_env = two_env\<lparr>wx_transaction_count := (\<lambda>_ _ _ w. (Inr 0, w)),
     wx_withdrawal := (\<lambda>i w. (Inr ((open_row [2])\<lparr>cw_resolved := True, cw_tx_identifier := replicate 32 0\<rparr>), w))\<rparr>"

lemma missing_run: "wp_trace (snd (catch_up_chain missing_env 1 two_start)) =
    [WSigned 1 (HBytes [7]), WOut 1 [7], WAccepted 1 [7] ''09'']"
  by code_simp

lemma catch_up_only_missing_witness: "\<exists>targets. missing_row missing_env targets 1"
proof -
  have run: "catch_up_chain missing_env 1 two_start =
      (fst (catch_up_chain missing_env 1 two_start), snd (catch_up_chain missing_env 1 two_start))" by simp
  have "wp_trace two_start = []" by (simp add: two_start_def new_processor_def)
  then show ?thesis using catch_up_only_missing [OF run] missing_run by auto
qed

section \<open>An open withdrawal is left behind\<close>

definition after_poll :: "int wproc" where
  "after_poll = snd (poll_loop 1 two_env 0 two_start)"

lemma after_poll_facts:
  "wp_high_water after_poll 1 = Some 1"
  "case fst (get_all_pending_withdrawals two_a_env (wp_service after_poll)) of Inl _ \<Rightarrow> False
   | Inr (ps, block) \<Rightarrow> (case ps of [p] \<Rightarrow> pw_index p = 0 \<and> pw_chain_id p = Some 1 \<and> pw_can_resolve p | _ \<Rightarrow> False)"
  by code_simp+

lemma after_poll_ok: "broadcasts_ok two_env after_poll"
proof -
  have "marks_ok two_env two_start"
    using two_start_ok by (simp add: marks_ok_def two_start_def new_processor_def)
  from keepsD [OF marks_loop this prod.collapse [symmetric]] show ?thesis
    unfolding after_poll_def marks_ok_def by blast
qed

lemma left_alone:
  assumes "case fst run of Inl _ \<Rightarrow> False | Inr (ps, block) \<Rightarrow> (case ps of [p] \<Rightarrow> P p | _ \<Rightarrow> False)"
  obtains p block t where "run = (Inr ([p], block), t)" "P p"
  using assms by (cases run; cases "fst run") (auto split: list.splits)


text \<open>With the mark at 0, the poll offers number 1.\<close>

definition marked_start :: "int wproc" where
  "marked_start = two_start\<lparr>wp_high_water := [1 \<mapsto> 0]\<rparr>"

lemma marked_offers: "1 \<in> offered two_env 1 (snd (poll_loop 0 two_env 1 marked_start))"
  by code_simp

lemma never_below_the_mark_witness: "(0 :: int) < 1 \<and> 1 \<in> offered two_env 1 (snd (poll_loop 0 two_env 1 marked_start))"
proof -
  have "broadcasts_ok two_env marked_start" "wp_high_water marked_start 1 = Some 0"
    using two_start_ok by (simp_all add: marked_start_def broadcasts_ok_def)
  from never_below_the_mark [OF this, of 0 1] marked_offers show ?thesis by blast
qed

end
