(* ===== verification/Account_Example.thy ===== *)
theory Account_Example
  imports Account_Props Withdrawal_Example
begin

text \<open>
  A withdrawal that goes through, the search for its index and a history of two rows, on the contract
  of two rows of the withdrawal processor's example.
\<close>

definition book_history :: "(int \<times> int \<times> bytes) list" where
  "book_history = [(0, 100, pack_history (replicate 32 1) 25 (replicate 32 7)), (3, 200, [1, 2])]"

definition book_env :: "int ledger_env" where
  "book_env = \<lparr>
     lg_calls = \<lparr>ce_service = two_a_env, ce_contract_address = ''0xC'', ce_gas_limit = 500000,
       ce_encode = (\<lambda>_ _. Inr [1]), ce_keccak = (\<lambda>b. b),
       ce_rofl = \<lparr>ro_error_name = (\<lambda>_. None), ro_hexbytes = (\<lambda>_. Inr [])\<rparr>\<rparr>,
     lg_others = (\<lambda>s. s), lg_live = (\<lambda>_ _ _. True), lg_lock = (\<lambda>w. (Inr (), w)), lg_sleep = (\<lambda>_ w. (Inr (), w)),
     lg_uint = (\<lambda>name _ w. (Inr (if name = ''withdrawalCount'' then 2 else 10), w)),
     lg_text = (\<lambda>_ _ w. (Inr ''0xE'', w)), lg_bytes = (\<lambda>_ _ w. (Inr [], w)), lg_bool = (\<lambda>_ _ w. (Inr True, w)),
     lg_registered_tokens = (\<lambda>w. (Inr [], w)), lg_user_locks = (\<lambda>_ w. (Inr [], w)),
     lg_history = (\<lambda>_ _ _ w. (Inr (book_history, 2), w)),
     lg_withdrawal = (\<lambda>i w. (Inr (two_rows w ! nat i), w)),
     lg_eip712_domain = (\<lambda>w. (Inr \<lparr>dr_fields = [3], dr_name = ''A'', dr_version = ''1'', dr_chain_id = 0,
       dr_verifying_contract = [], dr_salt = []\<rparr>, w)),
     lg_view_key = Some ''01'', lg_keypair = (\<lambda>w. (Inr [], w)), lg_account = (\<lambda>_. Inr ()),
     lg_block_timestamp = (\<lambda>w. (Inr 0, w)), lg_symbol = (\<lambda>_ _ w. (Inr [], w)), lg_name = (\<lambda>_ _ w. (Inr [], w)),
     lg_token_decimals = (\<lambda>_ _ w. (Inr 0, w)), lg_balance = (\<lambda>_ _ w. (Inr 145, w)),
     lg_recover = (\<lambda>_ _ _ _ _. Inr ''0xU''),
     lg_sign_submit = (\<lambda>_ _ w. (Inr \<lparr>rp_fail = None, rp_ok = Some (OkBytes [1]), rp_cbor = [9]\<rparr>, w)),
     lg_min_withdrawal_gas_balance = 1\<rparr>"

definition book :: "int ledger" where
  "book = \<lparr>le_service = two_service, le_confidential = False, le_siwe_auth = None, le_siwe_reader = False,
     le_confidential_siwe = False, le_deposit_address = None, le_siwe_domain = None, le_eip712_domain = None,
     le_symbols = Map.empty, le_names = Map.empty, le_decimals = Map.empty, le_gas_limits = Map.empty,
     le_token_list = Map.empty, le_sent = []\<rparr>"

definition book_request :: withdraw_payload where
  "book_request = \<lparr>wr_token_id = concat (replicate 31 ''00'') @ ''02'', wr_amount = 25, wr_nonce = 0, wr_signature = ''0x05''\<rparr>"

lemma book_fair: "fair_tasks book_env" "remembers book_env book"
  by (simp_all add: fair_tasks_def book_env_def remembers_def book_def)

lemma book_sent:
  "map tx_data (le_sent (snd (request_withdrawal book_env book_request book))) = [Some ''0x01'']"
  by code_simp

lemma book_located:
  "fst (locate_withdrawal_index book_env ''0xu'' [2] 25 book) = Inr (Some 1)"
  by code_simp

lemma book_shown:
  "case fst (get_history book_env 0 10 [] book) of
     Inl e \<Rightarrow> False | Inr (hs, n) \<Rightarrow> map he_kind hs = [''deposit'', ''unknown''] \<and> map he_amount hs = [Some ''25'', None] \<and> n = 2"
  by code_simp

lemma request_backed_witness:
  "\<exists>tx. le_sent (snd (request_withdrawal book_env book_request book)) = [tx] \<and> backed_request book_env book_request tx"
  using request_backed [OF book_fair prod.collapse [symmetric], of book_request] book_sent by (auto simp: book_def)

lemma index_located_witness:
  "\<exists>n row. reported (lg_uint book_env ''withdrawalCount'' []) n \<and> 1 < n
     \<and> reported (lg_withdrawal book_env 1) row \<and> ascii_lower (cw_user row) = ascii_lower ''0xu''
     \<and> cw_amount row = 25 \<and> cw_token_id row = [2]"
  using index_located [OF prod.collapse [symmetric], where env = book_env and user = "''0xu''" and token = "[2]" and amount = 25
      and s = book] book_located by auto


end
