(* ===== verification/Account_Routes.thy ===== *)
theory Account_Routes
  imports Account_Props
begin

text \<open>
  The handlers of \<^verbatim>\<open>src/api/routes.py\<close> over the accounting service that keep no record of their own:
  funds, withdrawals, balances, history, tokens. A handler returns its response or raises
  \<open>HttpError\<close>. \<open>auth\<close> is what the route's dependency authenticated: the token for the contract
  and the caller's address.
\<close>

section \<open>Answers\<close>

text \<open>The \<open>except\<close> clauses of the routes that submit, of the public reads and of the private ones.\<close>

definition submission_answer :: "('s, 'a) py \<Rightarrow> ('s, 'a) py" where
  "submission_answer m =
     py_catch m (\<lambda>e.
       if is_value_error e then py_raise (HttpError 400 (str_exn e))
       else (case e of
           TransactionReverted name msg \<Rightarrow> py_raise (HttpError 422 msg)
         | _ \<Rightarrow> py_raise (HttpError 500 ''Failed to submit transaction'')))"

definition read_answer :: "string \<Rightarrow> ('s, 'a) py \<Rightarrow> ('s, 'a) py" where
  "read_answer failed m =
     py_catch m (\<lambda>e.
       if is_value_error e then py_raise (HttpError 400 (str_exn e)) else py_raise (HttpError 500 failed))"

definition private_answer :: "string \<Rightarrow> ('s, 'a) py \<Rightarrow> ('s, 'a) py" where
  "private_answer failed m =
     py_catch m (\<lambda>e.
       if is_contract_logic e then py_raise (HttpError 401 ''Invalid or expired SIWE token'')
       else if is_value_error e then py_raise (HttpError 400 (str_exn e))
       else py_raise (HttpError 500 failed))"

definition wrap_submission :: "submission \<Rightarrow> submission" where
  "wrap_submission r = r\<lparr>sm_index := None\<rparr>"

definition submitted :: "('w ledger, submission) py \<Rightarrow> ('w ledger, submission) py" where
  "submitted m = submission_answer (py_bind m (\<lambda>r. py_ret (wrap_submission r)))"

definition checksum_private_read_user :: "'w a_env \<Rightarrow> string \<Rightarrow> exn + string" where
  "checksum_private_read_user env user_address =
     (if \<not> ax_is_address env user_address then Inl (ValueError ''Invalid user_address provided'')
      else ax_checksum env user_address)"

section \<open>Writes\<close>

definition transfer_to_lock :: "'w ledger_env \<Rightarrow> to_lock_payload \<Rightarrow> ('w ledger, submission) py" where
  "transfer_to_lock env payload = submitted (Account_Writes.transfer_to_lock env payload)"

definition withdraw_from_lock :: "'w ledger_env \<Rightarrow> from_lock_payload \<Rightarrow> bytes \<times> string \<Rightarrow> ('w ledger, submission) py" where
  "withdraw_from_lock env payload auth =
     submitted (Account_Writes.withdraw_from_lock env payload (snd auth, fst auth))"

definition unlock_funds :: "'w ledger_env \<Rightarrow> string \<Rightarrow> int \<Rightarrow> ('w ledger, submission) py" where
  "unlock_funds env user_address lock_id = submitted (Account_Writes.unlock_funds env user_address lock_id)"

definition unlock_all_expired_locks :: "'w ledger_env \<Rightarrow> string \<Rightarrow> ('w ledger, submission) py" where
  "unlock_all_expired_locks env user_address = submitted (Account_Writes.unlock_all_expired_locks env user_address)"

definition request_withdrawal :: "'w ledger_env \<Rightarrow> withdraw_payload \<Rightarrow> ('w ledger, submission) py" where
  "request_withdrawal env payload = submission_answer (Account_Writes.request_withdrawal env payload)"

section \<open>Public reads\<close>

definition get_transfer_nonce :: "'w ledger_env \<Rightarrow> string \<Rightarrow> ('w ledger, string \<times> int) py" where
  "get_transfer_nonce env a = read_answer ''Failed to retrieve transfer nonce'' (Account_Reads.get_transfer_nonce env a)"

definition get_lock_nonce :: "'w ledger_env \<Rightarrow> string \<Rightarrow> ('w ledger, string \<times> int) py" where
  "get_lock_nonce env a = read_answer ''Failed to retrieve lock nonce'' (Account_Reads.get_lock_nonce env a)"

definition get_modify_lock_nonce :: "'w ledger_env \<Rightarrow> string \<Rightarrow> ('w ledger, string \<times> int) py" where
  "get_modify_lock_nonce env a =
     read_answer ''Failed to retrieve modify lock nonce'' (Account_Reads.get_modify_lock_nonce env a)"

definition get_transfer_locked_nonce :: "'w ledger_env \<Rightarrow> string \<Rightarrow> ('w ledger, string \<times> int) py" where
  "get_transfer_locked_nonce env a =
     read_answer ''Failed to retrieve transfer locked nonce'' (Account_Reads.get_transfer_locked_nonce env a)"

definition get_transfer_to_lock_nonce :: "'w ledger_env \<Rightarrow> string \<Rightarrow> ('w ledger, string \<times> int) py" where
  "get_transfer_to_lock_nonce env a =
     read_answer ''Failed to retrieve transfer to lock nonce'' (Account_Reads.get_transfer_to_lock_nonce env a)"

definition get_withdrawal_nonce :: "'w ledger_env \<Rightarrow> string \<Rightarrow> ('w ledger, string \<times> int) py" where
  "get_withdrawal_nonce env a =
     read_answer ''Failed to retrieve withdrawal nonce'' (Account_Reads.get_withdrawal_nonce env a)"

definition get_pending_withdrawals :: "'w ledger_env \<Rightarrow> string \<Rightarrow> ('w ledger, string \<times> withdrawal_entry list) py" where
  "get_pending_withdrawals env user_address =
     read_answer ''Failed to retrieve pending withdrawals''
       (in_service env (Withdrawal_Index.get_pending_withdrawals (lg_service env) user_address))"

definition get_withdrawal_info :: "'w ledger_env \<Rightarrow> int \<Rightarrow> ('w ledger, withdrawal_entry) py" where
  "get_withdrawal_info env index = read_answer ''Failed to retrieve withdrawal info'' (get_withdrawal env index)"

definition list_tokens :: "'w ledger_env \<Rightarrow> ('w ledger, token_info list) py" where
  "list_tokens env = py_catch (list_all_tokens env) (\<lambda>e. py_raise (HttpError 500 ''Failed to list tokens''))"

definition get_token_info :: "'w ledger_env \<Rightarrow> string \<Rightarrow> ('w ledger, token_info) py" where
  "get_token_info env token_id = read_answer ''Failed to retrieve token info'' (Account_Reads.get_token_info env token_id)"

section \<open>Private reads\<close>

text \<open>What the contract says of the caller's token, put beside the caller's checksum address.\<close>

definition of_caller :: "'w ledger_env \<Rightarrow> string \<Rightarrow> bytes \<times> string \<Rightarrow> (bytes \<Rightarrow> ('w ledger, 'a) py) \<Rightarrow> ('w ledger, string \<times> 'a) py" where
  "of_caller env failed auth read_with =
     private_answer failed
       (py_bind (py_lift (checksum_private_read_user (lg_service env) (snd auth))) (\<lambda>user_address.
        py_bind (read_with (fst auth)) (\<lambda>result. py_ret (user_address, result))))"

definition get_locked_funds ::
    "'w ledger_env \<Rightarrow> string option \<Rightarrow> bytes \<times> string \<Rightarrow> ('w ledger, string \<times> locked_funds) py" where
  "get_locked_funds env service_address auth =
     of_caller env ''Failed to retrieve locked funds'' auth (\<lambda>t. Account_Reads.get_locked_funds env t service_address)"

definition get_balance :: "'w ledger_env \<Rightarrow> string \<Rightarrow> bytes \<times> string \<Rightarrow> ('w ledger, string \<times> balance_info) py" where
  "get_balance env token_id auth =
     of_caller env ''Failed to retrieve balance'' auth (\<lambda>t. Account_Reads.get_balance env t token_id)"

definition get_expired_locks :: "'w ledger_env \<Rightarrow> bytes \<times> string \<Rightarrow> ('w ledger, string \<times> lock_info list) py" where
  "get_expired_locks env auth =
     of_caller env ''Failed to retrieve expired locks'' auth (Account_Reads.get_expired_locks env)"

definition get_batch_balances ::
    "'w ledger_env \<Rightarrow> string list \<Rightarrow> bytes \<times> string \<Rightarrow> ('w ledger, string \<times> balance_info list) py" where
  "get_batch_balances env token_ids auth =
     of_caller env ''Failed to retrieve balances'' auth (\<lambda>t. Account_Reads.get_batch_balances env t token_ids)"

definition get_total_locked_balance ::
    "'w ledger_env \<Rightarrow> string \<Rightarrow> bytes \<times> string \<Rightarrow> ('w ledger, string \<times> string \<times> string) py" where
  "get_total_locked_balance env token_id auth =
     of_caller env ''Failed to retrieve total locked balance'' auth
       (\<lambda>t. Account_Reads.get_total_locked_balance env t token_id)"

text \<open>A page of the history; FastAPI answers 422 to a limit outside 0 to 100.\<close>

definition get_history ::
    "'w ledger_env \<Rightarrow> int option \<Rightarrow> int option \<Rightarrow> bytes \<times> string \<Rightarrow> ('w ledger, history_entry list \<times> int) py" where
  "get_history env offset limit auth =
     (let page = (case offset of None \<Rightarrow> -1 | Some n \<Rightarrow> n); size = (case limit of None \<Rightarrow> 50 | Some n \<Rightarrow> n) in
      if size < 0 \<or> 100 < size then py_raise (HttpError 422 ''limit'')
      else private_answer ''Failed to retrieve history'' (Account_Reads.get_history env page size (fst auth)))"

section \<open>What a route raises\<close>

text \<open>
  Whatever the service raises, short of the task being cancelled, a route answers with the status its
  clauses give: a refusal of the request is 400, a revert 422, an error of the contract on a
  private read 401, and anything else 500 without a word of what went wrong.
\<close>

lemma submission_answer_Inl:
  assumes "submission_answer m s = (Inl e, t)" "is_exception e"
  shows "\<exists>cause. m s = (Inl cause, t) \<and> e =
    (if is_value_error cause then HttpError 400 (str_exn cause)
     else if is_revert cause then HttpError 422 (str_exn cause)
     else HttpError 500 ''Failed to submit transaction'')"
proof -
  obtain r u where m: "m s = (r, u)" by (cases "m s")
  with assms obtain cause where r: "r = Inl cause"
    by (cases r) (auto simp: submission_answer_def py_catch_def py_try_def)
  with m assms show ?thesis
    by (cases cause) (auto simp: submission_answer_def py_catch_def py_try_def py_raise_def)
qed

lemma read_answer_Inl:
  assumes "read_answer failed m s = (Inl e, t)" "is_exception e"
  shows "\<exists>cause. m s = (Inl cause, t)
    \<and> e = (if is_value_error cause then HttpError 400 (str_exn cause) else HttpError 500 failed)"
  using assms by (auto simp: read_answer_def py_catch_def py_try_def py_raise_def split: prod.splits sum.splits if_splits)

lemma private_answer_Inl:
  assumes "private_answer failed m s = (Inl e, t)" "is_exception e"
  shows "\<exists>cause. m s = (Inl cause, t)
    \<and> e = (if is_contract_logic cause then HttpError 401 ''Invalid or expired SIWE token''
         else if is_value_error cause then HttpError 400 (str_exn cause) else HttpError 500 failed)"
  using assms by (auto simp: private_answer_def py_catch_def py_try_def py_raise_def split: prod.splits sum.splits if_splits)

text \<open>A private read shows the address the caller authenticated as, beside what the contract says of its token.\<close>

lemma of_caller_Inr:
  "of_caller env failed auth f s = (Inr (a, x), t) \<longleftrightarrow>
   checksum_private_read_user (lg_service env) (snd auth) = Inr a \<and> f (fst auth) s = (Inr x, t)"
  by (auto simp: of_caller_def private_answer_def py_catch_Inr py_bind_Inr py_lift_Inr py_ret_Inr py_raise_Inr
      split: if_splits)

text \<open>The first private read of a process is refused when it asks for the expired locks.\<close>

lemma expired_route_refused:
  assumes "\<not> le_confidential s" "checksum_private_read_user (lg_service env) (snd auth) = Inr a"
  shows "get_expired_locks env auth s = (Inl (HttpError 400 ''Confidential reader is not initialized''), s)"
  using expired_locks_refused [OF assms(1)] assms(2)
  by (simp add: get_expired_locks_def of_caller_def private_answer_def py_catch_def py_try_def py_bind_def py_lift_def
      py_raise_def is_contract_logic_def)

end
