(* ===== verification/Accounting_Answers.thy ===== *)
theory Accounting_Answers
  imports Accounting_Calls
begin

text \<open>
  What the answer to a signed write means. The invariant (\<open>calls_ok\<close>) ties the tasks, the disk and
  the history together; from it follow that a refusal is a promise that nothing was executed, that
  a success names a submission that landed, and that a recorded call is not submitted again while
  its record lives.
\<close>

section \<open>What the parts of a task do\<close>

lemma guard_build [simp]: "submit_guard ro (build_tx env data) True = Inr ()"
  by (simp add: build_tx_def guard_full)

lemma bytes_fromhex_error: "bytes_fromhex s = Inl e \<Longrightarrow> is_value_error e"
  by (induction s rule: bytes_fromhex.induct) (auto split: if_splits option.splits sum.splits)

lemma ok_bytes_error: "ok_bytes ok = Inl e \<Longrightarrow> is_value_error e"
  by (auto simp: ok_bytes_def sum_bind_def bytes_fromhex_error split: ok_payload.splits if_splits sum.splits)

lemma value_error_no_revert: "is_value_error e \<Longrightarrow> \<not> is_revert e"
  by (cases e) auto

lemma reverts_settled:
  assumes "submit_outcome ro answer = Inl e" "is_revert e" "truthful log n answer"
  shows "settled answer"
  using assms
  by (auto simp: submit_outcome_def read_reply_def truthful_def settled_def sum_bind_def Let_def
      split: sum.splits option.splits if_splits dest!: ok_bytes_error)

lemma settled_reverts:
  assumes "settled answer" shows "\<exists>e. submit_outcome ro answer = Inl e \<and> is_revert e"
  using assms
  by (auto simp: submit_outcome_def read_reply_def settled_def Let_def split: sum.splits option.splits)

lemma success_landed:
  assumes "submit_outcome ro answer = Inr r" "truthful log n answer"
  shows "Landed n \<in> set log"
  using assms submit_outcome_Inr [OF assms(1)] by (auto simp: truthful_def split: sum.splits if_splits)

definition pending_call :: accounting_call where
  "pending_call = \<lparr>cl_status = Pending, cl_submission_id = None\<rparr>"

definition executed_call :: "string \<Rightarrow> accounting_call" where
  "executed_call i = \<lparr>cl_status = Executed, cl_submission_id = Some i\<rparr>"

definition sent_state :: "nat \<Rightarrow> task \<Rightarrow> calls \<Rightarrow> calls" where
  "sent_state n tk s =
     s\<lparr>cs_disk := (cs_disk s)(tk_key tk \<mapsto> (pending_call, cs_now s + RECORD_TTL_SECONDS)),
       cs_log := cs_log s @ [Sent n (tk_key tk) (cs_now s)],
       cs_tasks := (cs_tasks s)(n \<mapsto> tk\<lparr>tk_phase := Sending (stored s (tk_key tk))\<rparr>)\<rparr>"

definition recorded_state :: "nat \<Rightarrow> task \<Rightarrow> string \<Rightarrow> calls \<Rightarrow> calls" where
  "recorded_state n tk i s =
     s\<lparr>cs_disk := (cs_disk s)(tk_key tk \<mapsto> (executed_call i, cs_now s + RECORD_TTL_SECONDS)),
       cs_log := cs_log s @ [Recorded n (tk_key tk) i (cs_now s)]\<rparr>"

definition dropped_state :: "task \<Rightarrow> calls \<Rightarrow> calls" where
  "dropped_state tk s = s\<lparr>cs_disk := (cs_disk s)(tk_key tk := None)\<rparr>"

lemma start_task_cases:
  assumes "faults_ok fl"
  obtains (fault) e where "start_task env fl n tk s = finish n tk (Inl e) s" "\<not> is_value_error e" "\<not> is_revert e"
  | (known) c where "stored s (tk_key tk) = Some c" "cl_status c = Executed"
      "start_task env fl n tk s = finish n tk (Inr (case cl_submission_id c of None \<Rightarrow> [] | Some i \<Rightarrow> i)) s"
  | (sent) "start_task env fl n tk s = sent_state n tk s"
      "\<And>c. stored s (tk_key tk) = Some c \<Longrightarrow> cl_status c \<noteq> Executed"
proof -
  note defs = start_task_def submit_start_def store_get_def store_put_def faulty_def note_event_def py_bind_def
    py_then_def py_get_def py_ret_def py_raise_def py_lift_def py_modify_def
  have f: "fault_ok (fl_get fl)" "fault_ok (fl_put fl)" using assms by (simp_all add: faults_ok_def)
  consider (g) e where "fl_get fl = Some e"
    | (k) c where "fl_get fl = None" "stored s (tk_key tk) = Some c" "cl_status c = Executed"
    | (p) e where "fl_get fl = None" "\<And>c. stored s (tk_key tk) = Some c \<Longrightarrow> cl_status c \<noteq> Executed" "fl_put fl = Some e"
    | (s) "fl_get fl = None" "\<And>c. stored s (tk_key tk) = Some c \<Longrightarrow> cl_status c \<noteq> Executed" "fl_put fl = None"
    by (cases "fl_get fl"; cases "stored s (tk_key tk)"; cases "fl_put fl") auto
  then show thesis
  proof cases
    case g
    then show thesis using f fault [of e] by (simp add: defs fault_ok_def)
  next
    case k
    then show thesis by (intro known [of c]) (simp_all add: defs)
  next
    case p
    then have "start_task env fl n tk s = finish n tk (Inl e) s"
      by (cases "stored s (tk_key tk)") (simp_all add: defs)
    then show thesis using p f fault [of e] by (simp add: fault_ok_def)
  next
    case s
    then have "start_task env fl n tk s = sent_state n tk s"
      by (cases "stored s (tk_key tk)") (simp_all add: defs sent_state_def pending_call_def)
    then show thesis using s by (intro sent) simp_all
  qed
qed

lemma end_task_cases:
  assumes "faults_ok fl" "truthful log n answer"
  obtains (failed) e where "end_task env fl n tk earlier answer s = finish n tk (Inl e) s" "\<not> is_value_error e"
  | (dropped) e where "end_task env fl n tk earlier answer s = finish n tk (Inl e) (dropped_state tk s)"
      "\<not> is_value_error e" "earlier = None" "settled answer"
  | (recorded) i where "end_task env fl n tk earlier answer s = finish n tk (Inr i) (recorded_state n tk i s)"
      "Landed n \<in> set log" "\<not> settled answer"
proof (cases "submit_outcome (ce_rofl env) answer")
  case (Inl e)
  have v: "\<not> is_value_error e" using submit_outcome_no_value_error [OF Inl] .
  show thesis
  proof (cases "is_revert e \<and> earlier = None \<and> fl_delete fl = None")
    case True
    then have "end_task env fl n tk earlier answer s = finish n tk (Inl e) (dropped_state tk s)"
      using Inl
      by (auto simp: end_task_def submit_end_def store_delete_def faulty_def py_try_def py_bind_def py_then_def
          py_lift_def py_raise_def py_modify_def dropped_state_def)
    then show thesis using dropped v True reverts_settled [OF Inl _ assms(2)] by blast
  next
    case False
    then have "\<exists>e'. end_task env fl n tk earlier answer s = finish n tk (Inl e') s \<and> \<not> is_value_error e'"
      using Inl v assms(1)
      by (auto simp: end_task_def submit_end_def store_delete_def faulty_def py_try_def py_bind_def py_then_def
          py_lift_def py_raise_def py_modify_def faults_ok_def fault_ok_def split: option.splits)
    then show thesis using failed by blast
  qed
next
  case (Inr r)
  have u: "\<not> settled answer" using Inr settled_reverts [of answer "ce_rofl env"] by auto
  show thesis
  proof (cases "fl_put fl")
    case None
    then have "end_task env fl n tk earlier answer s =
        finish n tk (Inr (rs_submission_id r)) (recorded_state n tk (rs_submission_id r) s)"
      using Inr
      by (simp add: end_task_def submit_end_def store_put_def faulty_def note_event_def py_try_def py_bind_def py_then_def
          py_lift_def py_ret_def py_modify_def recorded_state_def executed_call_def)
    then show thesis using recorded u success_landed [OF Inr assms(2)] by blast
  next
    case (Some e)
    then have "end_task env fl n tk earlier answer s = finish n tk (Inl e) s" "\<not> is_value_error e"
      using Inr assms(1)
      by (auto simp: end_task_def submit_end_def store_put_def faulty_def py_try_def py_bind_def py_then_def
          py_lift_def py_raise_def faults_ok_def fault_ok_def)
    then show thesis by (rule failed)
  qed
qed

section \<open>The invariant\<close>

definition ongoing :: "phase \<Rightarrow> bool" where
  "ongoing p = (case p of Finished r \<Rightarrow> False | _ \<Rightarrow> True)"

lemma ongoing_simps [simp]: "ongoing Queued" "ongoing (Sending x)" "\<not> ongoing (Finished r)"
  by (simp_all add: ongoing_def)

text \<open>One ongoing task per call, under its name; tasks have numbers of their own.\<close>

definition tasks_ok :: "calls \<Rightarrow> bool" where
  "tasks_ok s \<longleftrightarrow>
     (\<forall>k n. cs_submissions s k = Some n \<longrightarrow> (\<exists>tk. cs_tasks s n = Some tk \<and> tk_key tk = k \<and> ongoing (tk_phase tk)))
   \<and> (\<forall>n tk. cs_tasks s n = Some tk \<and> ongoing (tk_phase tk) \<longrightarrow> cs_submissions s (tk_key tk) = Some n)
   \<and> (\<forall>n tk. cs_tasks s n = Some tk \<longrightarrow> n < cs_next s)"

definition callers_ok :: "'w call_env \<Rightarrow> calls \<Rightarrow> bool" where
  "callers_ok env s \<longleftrightarrow>
     (\<forall>c req n. cs_callers s c = Some (req, n) \<longrightarrow>
        (\<exists>nonce label data tk. prepare env req = Inr (nonce, label, data) \<and> cs_tasks s n = Some tk
           \<and> tk_key tk = call_key env data))"

text \<open>A submission that may still land, or has landed, is on disk as long as its record lives.\<close>

definition remembered :: "calls \<Rightarrow> bool" where
  "remembered s \<longleftrightarrow>
     (\<forall>n k t. Sent n k t \<in> set (cs_log s) \<longrightarrow> t \<le> cs_now s
        \<and> (Reverted n \<notin> set (cs_log s) \<and> cs_now s < t + RECORD_TTL_SECONDS \<longrightarrow>
             (\<exists>c e. cs_disk s k = Some (c, e) \<and> t + RECORD_TTL_SECONDS \<le> e)))"

definition first_only :: "calls \<Rightarrow> bool" where
  "first_only s \<longleftrightarrow>
     (\<forall>n tk x. cs_tasks s n = Some tk \<and> tk_phase tk = Sending x \<longrightarrow>
        (\<exists>t. Sent n (tk_key tk) t \<in> set (cs_log s))
      \<and> (x = None \<longrightarrow> (\<forall>m t. Sent m (tk_key tk) t \<in> set (cs_log s) \<and> Reverted m \<notin> set (cs_log s)
             \<and> cs_now s < t + RECORD_TTL_SECONDS \<longrightarrow> m = n)))"

definition results_ok :: "calls \<Rightarrow> bool" where
  "results_ok s \<longleftrightarrow>
     (\<forall>n tk e. cs_tasks s n = Some tk \<and> tk_phase tk = Finished (Inl e) \<longrightarrow> \<not> is_value_error e)
   \<and> (\<forall>n tk i. cs_tasks s n = Some tk \<and> tk_phase tk = Finished (Inr i) \<longrightarrow>
        (\<exists>m t. Recorded m (tk_key tk) i t \<in> set (cs_log s)))
   \<and> (\<forall>k c e. cs_disk s k = Some (c, e) \<and> cl_status c = Executed \<longrightarrow>
        (\<exists>i m t. c = executed_call i \<and> Recorded m k i t \<in> set (cs_log s)))
   \<and> (\<forall>m k i t. Recorded m k i t \<in> set (cs_log s) \<longrightarrow>
        Landed m \<in> set (cs_log s) \<and> (\<exists>t'. Sent m k t' \<in> set (cs_log s)))"

definition kept :: "calls \<Rightarrow> bool" where
  "kept s \<longleftrightarrow>
     (\<forall>m k i t. Recorded m k i t \<in> set (cs_log s) \<longrightarrow> t \<le> cs_now s
        \<and> (cs_now s < t + RECORD_TTL_SECONDS \<longrightarrow>
             cs_disk s k = Some (executed_call i, t + RECORD_TTL_SECONDS)
           \<and> (\<forall>n tk x. cs_tasks s n = Some tk \<and> tk_phase tk = Sending x \<longrightarrow> tk_key tk \<noteq> k)))"

lemmas parts_defs = tasks_ok_def callers_ok_def remembered_def first_only_def results_ok_def kept_def

lemma tasks_okD:
  assumes "tasks_ok s"
  shows "cs_submissions s k = Some n \<Longrightarrow> \<exists>tk. cs_tasks s n = Some tk \<and> tk_key tk = k \<and> ongoing (tk_phase tk)"
    and "cs_tasks s n = Some tk \<Longrightarrow> ongoing (tk_phase tk) \<Longrightarrow> cs_submissions s (tk_key tk) = Some n"
    and "cs_tasks s n = Some tk \<Longrightarrow> n < cs_next s"
  using assms unfolding tasks_ok_def by blast+

lemma rememberedD:
  assumes "remembered s" "Sent n k t \<in> set (cs_log s)"
  shows "t \<le> cs_now s"
    and "Reverted n \<notin> set (cs_log s) \<Longrightarrow> cs_now s < t + RECORD_TTL_SECONDS \<Longrightarrow>
      \<exists>c e. cs_disk s k = Some (c, e) \<and> t + RECORD_TTL_SECONDS \<le> e"
  using assms unfolding remembered_def by blast+

lemma first_onlyD:
  assumes "first_only s" "cs_tasks s n = Some tk" "tk_phase tk = Sending x"
  shows "\<exists>t. Sent n (tk_key tk) t \<in> set (cs_log s)"
    and "x = None \<Longrightarrow> Sent m (tk_key tk) t \<in> set (cs_log s) \<Longrightarrow> Reverted m \<notin> set (cs_log s) \<Longrightarrow>
      cs_now s < t + RECORD_TTL_SECONDS \<Longrightarrow> m = n"
  using assms unfolding first_only_def by blast+

lemma results_okD:
  assumes "results_ok s"
  shows "cs_tasks s n = Some tk \<Longrightarrow> tk_phase tk = Finished (Inl e) \<Longrightarrow> \<not> is_value_error e"
    and "cs_tasks s n = Some tk \<Longrightarrow> tk_phase tk = Finished (Inr i) \<Longrightarrow>
      \<exists>m t. Recorded m (tk_key tk) i t \<in> set (cs_log s)"
    and "cs_disk s k = Some (c, x) \<Longrightarrow> cl_status c = Executed \<Longrightarrow>
      \<exists>i m t. c = executed_call i \<and> Recorded m k i t \<in> set (cs_log s)"
    and "Recorded m k i t \<in> set (cs_log s) \<Longrightarrow> Landed m \<in> set (cs_log s)"
    and "Recorded m k i t \<in> set (cs_log s) \<Longrightarrow> \<exists>t'. Sent m k t' \<in> set (cs_log s)"
  using assms unfolding results_ok_def by blast+

lemma results_okI:
  assumes "\<And>n tk e. cs_tasks s n = Some tk \<Longrightarrow> tk_phase tk = Finished (Inl e) \<Longrightarrow> \<not> is_value_error e"
    and "\<And>n tk i. cs_tasks s n = Some tk \<Longrightarrow> tk_phase tk = Finished (Inr i) \<Longrightarrow>
      \<exists>m t. Recorded m (tk_key tk) i t \<in> set (cs_log s)"
    and "\<And>k c x. cs_disk s k = Some (c, x) \<Longrightarrow> cl_status c = Executed \<Longrightarrow>
      \<exists>i m t. c = executed_call i \<and> Recorded m k i t \<in> set (cs_log s)"
    and "\<And>m k i t. Recorded m k i t \<in> set (cs_log s) \<Longrightarrow>
      Landed m \<in> set (cs_log s) \<and> (\<exists>t'. Sent m k t' \<in> set (cs_log s))"
  shows "results_ok s"
  using assms unfolding results_ok_def by blast

lemma keptD:
  assumes "kept s" "Recorded m k i t \<in> set (cs_log s)"
  shows "t \<le> cs_now s"
    and "cs_now s < t + RECORD_TTL_SECONDS \<Longrightarrow> cs_disk s k = Some (executed_call i, t + RECORD_TTL_SECONDS)"
    and "cs_now s < t + RECORD_TTL_SECONDS \<Longrightarrow> cs_tasks s n = Some tk \<Longrightarrow> tk_phase tk = Sending x \<Longrightarrow> tk_key tk \<noteq> k"
  using assms unfolding kept_def by blast+

lemma keptI:
  assumes "\<And>m k i t. Recorded m k i t \<in> set (cs_log s) \<Longrightarrow> t \<le> cs_now s"
    and "\<And>m k i t. Recorded m k i t \<in> set (cs_log s) \<Longrightarrow> cs_now s < t + RECORD_TTL_SECONDS \<Longrightarrow>
      cs_disk s k = Some (executed_call i, t + RECORD_TTL_SECONDS)"
    and "\<And>m k i t n tk x. Recorded m k i t \<in> set (cs_log s) \<Longrightarrow> cs_now s < t + RECORD_TTL_SECONDS \<Longrightarrow>
      cs_tasks s n = Some tk \<Longrightarrow> tk_phase tk = Sending x \<Longrightarrow> tk_key tk \<noteq> k"
  shows "kept s"
  using assms unfolding kept_def by blast

lemma tasks_okI:
  assumes "\<And>k n. cs_submissions s k = Some n \<Longrightarrow> \<exists>tk. cs_tasks s n = Some tk \<and> tk_key tk = k \<and> ongoing (tk_phase tk)"
    and "\<And>n tk. cs_tasks s n = Some tk \<Longrightarrow> ongoing (tk_phase tk) \<Longrightarrow> cs_submissions s (tk_key tk) = Some n"
    and "\<And>n tk. cs_tasks s n = Some tk \<Longrightarrow> n < cs_next s"
  shows "tasks_ok s"
  using assms unfolding tasks_ok_def by blast

lemma only_ongoing:
  assumes "tasks_ok s" "cs_tasks s n = Some tk" "ongoing (tk_phase tk)"
    and "cs_tasks s m = Some tm" "ongoing (tk_phase tm)" "tk_key tm = tk_key tk"
  shows "m = n"
  using tasks_okD(2) [OF assms(1-3)] tasks_okD(2) [OF assms(1,4,5)] assms(6) by simp

section \<open>The end of a task\<close>

lemma tasks_ok_finish:
  assumes ok: "tasks_ok s" and n: "cs_tasks s n = Some tk" "ongoing (tk_phase tk)"
  shows "tasks_ok (finish n tk r s)"
proof (rule tasks_okI)
  fix k m assume "cs_submissions (finish n tk r s) k = Some m"
  then have k: "k \<noteq> tk_key tk" "cs_submissions s k = Some m" by (auto simp: finish_def split: if_splits)
  from tasks_okD(1) [OF ok k(2)] obtain tm where "cs_tasks s m = Some tm" "tk_key tm = k" "ongoing (tk_phase tm)" by blast
  then show "\<exists>tm. cs_tasks (finish n tk r s) m = Some tm \<and> tk_key tm = k \<and> ongoing (tk_phase tm)"
    using k n by (auto simp: finish_def)
next
  fix m tm assume m: "cs_tasks (finish n tk r s) m = Some tm" "ongoing (tk_phase tm)"
  then have old: "m \<noteq> n" "cs_tasks s m = Some tm" by (auto simp: finish_def split: if_splits)
  then show "cs_submissions (finish n tk r s) (tk_key tm) = Some m"
    using tasks_okD(2) [OF ok old(2) m(2)] tasks_okD(2) [OF ok n] by (auto simp: finish_def)
next
  fix m tm assume "cs_tasks (finish n tk r s) m = Some tm"
  then show "m < cs_next (finish n tk r s)"
    using tasks_okD(3) [OF ok] n by (auto simp: finish_def split: if_splits)
qed

lemma callers_ok_finish:
  "cs_tasks s n = Some tk \<Longrightarrow> callers_ok env s \<Longrightarrow> callers_ok env (finish n tk r s)"
  by (fastforce simp: callers_ok_def finish_def)

lemma remembered_finish: "remembered s \<Longrightarrow> remembered (finish n tk r s)"
  by (simp add: remembered_def finish_def)

lemma sending_finish:
  "cs_tasks (finish n tk r s) m = Some tm \<Longrightarrow> tk_phase tm = Sending x \<Longrightarrow> cs_tasks s m = Some tm \<and> m \<noteq> n"
  by (auto simp: finish_def split: if_splits)

lemma finish_simps [simp]:
  "cs_log (finish n tk r s) = cs_log s" "cs_now (finish n tk r s) = cs_now s"
  "cs_disk (finish n tk r s) = cs_disk s" "cs_callers (finish n tk r s) = cs_callers s"
  by (simp_all add: finish_def)

lemma first_only_finish: "first_only s \<Longrightarrow> first_only (finish n tk r s)"
  unfolding first_only_def by (metis finish_simps(1,2) sending_finish)

lemma kept_finish: "kept s \<Longrightarrow> kept (finish n tk r s)"
  unfolding kept_def by (metis finish_simps(1-3) sending_finish)

lemma results_ok_finish:
  assumes "results_ok s" "\<And>e. r = Inl e \<Longrightarrow> \<not> is_value_error e"
    and "\<And>i. r = Inr i \<Longrightarrow> \<exists>m t. Recorded m (tk_key tk) i t \<in> set (cs_log s)"
  shows "results_ok (finish n tk r s)"
  using assms unfolding results_ok_def finish_def by (simp (no_asm_simp)) blast


section \<open>The other changes of the state\<close>

definition calls_ok :: "'w call_env \<Rightarrow> calls \<Rightarrow> bool" where
  "calls_ok env s \<longleftrightarrow>
     tasks_ok s \<and> callers_ok env s \<and> remembered s \<and> first_only s \<and> results_ok s \<and> kept s"

lemma calls_okD:
  assumes "calls_ok env s"
  shows "tasks_ok s" "callers_ok env s" "remembered s" "first_only s" "results_ok s" "kept s"
  using assms by (simp_all add: calls_ok_def)

lemma calls_okI:
  "tasks_ok s \<Longrightarrow> callers_ok env s \<Longrightarrow> remembered s \<Longrightarrow> first_only s \<Longrightarrow> results_ok s \<Longrightarrow> kept s \<Longrightarrow> calls_ok env s"
  by (simp add: calls_ok_def)

lemma calls_ok_init: "calls_ok env (calls_init now)"
  by (simp add: calls_ok_def parts_defs calls_init_def)

text \<open>An entry of the history that is neither a submission nor a record.\<close>

fun plain_event :: "call_event \<Rightarrow> bool" where
  "plain_event (Landed n) = True"
| "plain_event (Reverted n) = True"
| "plain_event (Reply c req r t) = True"
| "plain_event _ = False"

lemma plain_not [simp]:
  "plain_event e \<Longrightarrow> Sent n k t \<noteq> e" "plain_event e \<Longrightarrow> Recorded n k i t \<noteq> e"
  by auto

text \<open>Changes that submit nothing, record nothing and leave the disk alone.\<close>

definition carried :: "calls \<Rightarrow> calls \<Rightarrow> bool" where
  "carried s t \<longleftrightarrow>
     cs_disk t = cs_disk s \<and> cs_now s \<le> cs_now t \<and> set (cs_log s) \<subseteq> set (cs_log t)
   \<and> (\<forall>e \<in> set (cs_log t). plain_event e \<or> e \<in> set (cs_log s))
   \<and> (\<forall>n tk. cs_tasks t n = Some tk \<longrightarrow> tk_phase tk \<noteq> Queued \<longrightarrow> cs_tasks s n = Some tk)"

lemma carriedD:
  assumes "carried s t"
  shows "cs_disk t = cs_disk s" "cs_now s \<le> cs_now t" "e \<in> set (cs_log s) \<Longrightarrow> e \<in> set (cs_log t)"
    and "Sent n k u \<in> set (cs_log t) \<Longrightarrow> Sent n k u \<in> set (cs_log s)"
    and "Recorded n k i u \<in> set (cs_log t) \<Longrightarrow> Recorded n k i u \<in> set (cs_log s)"
    and "cs_tasks t n = Some tk \<Longrightarrow> tk_phase tk = Sending x \<Longrightarrow> cs_tasks s n = Some tk"
    and "cs_tasks t n = Some tk \<Longrightarrow> tk_phase tk = Finished r \<Longrightarrow> cs_tasks s n = Some tk"
  using assms unfolding carried_def by (auto dest: bspec)

lemma carriedI:
  assumes "cs_disk t = cs_disk s" "cs_now s \<le> cs_now t" "set (cs_log s) \<subseteq> set (cs_log t)"
    and "\<And>e. e \<in> set (cs_log t) \<Longrightarrow> plain_event e \<or> e \<in> set (cs_log s)"
    and "\<And>n tk. cs_tasks t n = Some tk \<Longrightarrow> tk_phase tk \<noteq> Queued \<Longrightarrow> cs_tasks s n = Some tk"
  shows "carried s t"
  using assms unfolding carried_def by blast

lemma remembered_carry: "carried s t \<Longrightarrow> remembered s \<Longrightarrow> remembered t"
  unfolding remembered_def carried_def by (smt (verit) plain_not(1) subsetD)

lemma first_only_carry:
  assumes c: "carried s t" and ok: "first_only s"
  shows "first_only t"
  unfolding first_only_def
proof (intro allI impI conjI)
  fix n tk x assume n: "cs_tasks t n = Some tk \<and> tk_phase tk = Sending x"
  then have s: "cs_tasks s n = Some tk" "tk_phase tk = Sending x" using carriedD(6) [OF c] by auto
  then show "\<exists>t'. Sent n (tk_key tk) t' \<in> set (cs_log t)" using first_onlyD(1) [OF ok] carriedD(3) [OF c] by blast
  fix m t'
  assume x: "x = None" and m: "Sent m (tk_key tk) t' \<in> set (cs_log t) \<and> Reverted m \<notin> set (cs_log t)
      \<and> cs_now t < t' + RECORD_TTL_SECONDS"
  then have "cs_now s < t' + RECORD_TTL_SECONDS" using carriedD(2) [OF c] by simp
  then show "m = n" using first_onlyD(2) [OF ok s x] carriedD(3,4) [OF c] m by blast
qed

lemma results_ok_carry:
  assumes c: "carried s t" and ok: "results_ok s"
  shows "results_ok t"
proof (rule results_okI)
  note d = carriedD [OF c] and r = results_okD [OF ok]
  show "\<not> is_value_error e" if "cs_tasks t n = Some tk" "tk_phase tk = Finished (Inl e)" for n tk e
    using d(7) [OF that] r(1) that(2) by blast
  show "\<exists>m u. Recorded m (tk_key tk) i u \<in> set (cs_log t)"
    if "cs_tasks t n = Some tk" "tk_phase tk = Finished (Inr i)" for n tk i
    using r(2) [OF d(7) [OF that] that(2)] d(3) by blast
  show "\<exists>i m u. f = executed_call i \<and> Recorded m k i u \<in> set (cs_log t)"
    if "cs_disk t k = Some (f, x)" "cl_status f = Executed" for k f x
    using that r(3) d(3) unfolding d(1) by blast
  show "Landed m \<in> set (cs_log t) \<and> (\<exists>t'. Sent m k t' \<in> set (cs_log t))"
    if "Recorded m k i u \<in> set (cs_log t)" for m k i u
    using d(5) [OF that] r(4,5) d(3) by blast
qed

lemma kept_carry:
  assumes c: "carried s t" and ok: "kept s"
  shows "kept t"
proof (rule keptI)
  note d = carriedD [OF c]
  fix m k i u assume "Recorded m k i u \<in> set (cs_log t)"
  then have r: "Recorded m k i u \<in> set (cs_log s)" by (rule d(5))
  show "u \<le> cs_now t" using keptD(1) [OF ok r] d(2) by simp
  assume "cs_now t < u + RECORD_TTL_SECONDS"
  then have now: "cs_now s < u + RECORD_TTL_SECONDS" using d(2) by simp
  show "cs_disk t k = Some (executed_call i, u + RECORD_TTL_SECONDS)" using keptD(2) [OF ok r now] d(1) by simp
  show "tk_key tk \<noteq> k" if "cs_tasks t n = Some tk" "tk_phase tk = Sending x" for n tk x
    using keptD(3) [OF ok r now d(6) [OF that] that(2)] .
qed

lemma calls_ok_carry:
  assumes "calls_ok env s" "carried s t" "tasks_ok t" "callers_ok env t"
  shows "calls_ok env t"
  using assms(3,4) remembered_carry [OF assms(2)] first_only_carry [OF assms(2)] results_ok_carry [OF assms(2)]
    kept_carry [OF assms(2)] calls_okD [OF assms(1)]
  by (simp add: calls_ok_def)

lemma calls_ok_note:
  assumes "calls_ok env s" "plain_event e"
  shows "calls_ok env (s\<lparr>cs_log := cs_log s @ [e]\<rparr>)"
  using assms calls_okD [OF assms(1)]
  by (intro calls_ok_carry [OF assms(1)] carriedI) (auto simp: tasks_ok_def callers_ok_def)

lemma calls_ok_tick:
  assumes "calls_ok env s" "0 \<le> d" shows "calls_ok env (s\<lparr>cs_now := cs_now s + d\<rparr>)"
  using assms calls_okD [OF assms(1)]
  by (intro calls_ok_carry [OF assms(1)] carriedI) (auto simp: tasks_ok_def callers_ok_def)

lemma calls_ok_restart:
  assumes "calls_ok env s"
  shows "calls_ok env (s\<lparr>cs_tasks := (\<lambda>n. None), cs_submissions := (\<lambda>k. None), cs_callers := (\<lambda>c. None)\<rparr>)"
  using assms by (rule calls_ok_carry) (simp add: carried_def, simp_all add: tasks_ok_def callers_ok_def)

lemma calls_ok_callers:
  assumes "calls_ok env s" "callers_ok env (s\<lparr>cs_callers := f\<rparr>)"
  shows "calls_ok env (s\<lparr>cs_callers := f\<rparr>)"
  using calls_okD [OF assms(1)] assms(2)
  by (intro calls_ok_carry [OF assms(1)] carriedI) (simp_all add: tasks_ok_def)

lemma calls_ok_leave: "calls_ok env s \<Longrightarrow> calls_ok env (s\<lparr>cs_callers := (cs_callers s)(c := None)\<rparr>)"
  using calls_okD(2) [of env s] by (intro calls_ok_callers) (auto simp: callers_ok_def)

lemma calls_ok_reply: "calls_ok env s \<Longrightarrow> calls_ok env (reply c req r s)"
  using calls_ok_leave [OF calls_ok_note [of env s "Reply c req (signed_response r) (cs_now s)"], of c]
  by (simp add: reply_def)

text \<open>A new task, and a caller that joins one.\<close>

lemma calls_ok_join:
  assumes ok: "calls_ok env s" and j: "join_task key data s = (n, t)"
  shows "calls_ok env t" "\<exists>tk. cs_tasks t n = Some tk \<and> tk_key tk = key"
proof -
  note c = calls_okD [OF ok]
  have "calls_ok env t \<and> (\<exists>tk. cs_tasks t n = Some tk \<and> tk_key tk = key)"
  proof (cases "cs_submissions s key")
    case (Some m)
    then show ?thesis using j ok tasks_okD(1) [OF c(1) Some] by (auto simp: join_task_def)
  next
    case None
    let ?tk = "\<lparr>tk_key = key, tk_data = data, tk_phase = Queued\<rparr>"
    let ?t = "s\<lparr>cs_tasks := (cs_tasks s)(cs_next s \<mapsto> ?tk),
             cs_submissions := (cs_submissions s)(key \<mapsto> cs_next s), cs_next := cs_next s + 1\<rparr>"
    have t: "t = ?t" "n = cs_next s" using j None by (auto simp: join_task_def)
    have fresh: "cs_tasks s (cs_next s) = None" using tasks_okD(3) [OF c(1)] by (cases "cs_tasks s (cs_next s)") auto
    have "tasks_ok ?t"
    proof (rule tasks_okI)
      fix k m assume "cs_submissions ?t k = Some m"
      then show "\<exists>tm. cs_tasks ?t m = Some tm \<and> tk_key tm = k \<and> ongoing (tk_phase tm)"
        using tasks_okD(1) [OF c(1), of k m] fresh by (cases "k = key") auto
    next
      fix m tm assume "cs_tasks ?t m = Some tm" "ongoing (tk_phase tm)"
      then show "cs_submissions ?t (tk_key tm) = Some m"
        using tasks_okD(2) [OF c(1), of m tm] None by (cases "m = cs_next s") auto
    next
      fix m tm assume "cs_tasks ?t m = Some tm"
      then show "m < cs_next ?t" using tasks_okD(3) [OF c(1), of m tm] by (cases "m = cs_next s") auto
    qed
    moreover have "callers_ok env ?t" using c(2) fresh by (fastforce simp: callers_ok_def)
    ultimately have "calls_ok env ?t" using c by (intro calls_ok_carry [OF ok] carriedI) (auto split: if_splits)
    then show ?thesis using t by simp
  qed
  then show "calls_ok env t" "\<exists>tk. cs_tasks t n = Some tk \<and> tk_key tk = key" by simp_all
qed


section \<open>Submissions and their ends\<close>

lemma calls_ok_finish:
  assumes "calls_ok env s" "cs_tasks s n = Some tk" "ongoing (tk_phase tk)"
    and "\<And>e. r = Inl e \<Longrightarrow> \<not> is_value_error e"
    and "\<And>i. r = Inr i \<Longrightarrow> \<exists>m t. Recorded m (tk_key tk) i t \<in> set (cs_log s)"
  shows "calls_ok env (finish n tk r s)"
  using assms calls_okD [OF assms(1)]
  by (intro calls_okI tasks_ok_finish callers_ok_finish remembered_finish first_only_finish results_ok_finish kept_finish)

lemma sent_simps [simp]:
  "cs_now (sent_state n tk s) = cs_now s"
  "cs_disk (sent_state n tk s) = (cs_disk s)(tk_key tk \<mapsto> (pending_call, cs_now s + RECORD_TTL_SECONDS))"
  "cs_log (sent_state n tk s) = cs_log s @ [Sent n (tk_key tk) (cs_now s)]"
  "cs_callers (sent_state n tk s) = cs_callers s" "cs_submissions (sent_state n tk s) = cs_submissions s"
  "cs_next (sent_state n tk s) = cs_next s"
  "cs_tasks (sent_state n tk s) n = Some (tk\<lparr>tk_phase := Sending (stored s (tk_key tk))\<rparr>)"
  "m \<noteq> n \<Longrightarrow> cs_tasks (sent_state n tk s) m = cs_tasks s m"
  by (simp_all add: sent_state_def)

lemma tasks_ok_sent:
  assumes ok: "tasks_ok s" and n: "cs_tasks s n = Some tk" "tk_phase tk = Queued"
  shows "tasks_ok (sent_state n tk s)"
proof (rule tasks_okI)
  let ?t = "sent_state n tk s"
  show "\<exists>tm. cs_tasks ?t m = Some tm \<and> tk_key tm = k \<and> ongoing (tk_phase tm)"
    if "cs_submissions ?t k = Some m" for k m
    using tasks_okD(1) [OF ok, of k m] n that by (cases "m = n") auto
  show "cs_submissions ?t (tk_key tm) = Some m" if "cs_tasks ?t m = Some tm" "ongoing (tk_phase tm)" for m tm
    using tasks_okD(2) [OF ok] n that by (cases "m = n") auto
  show "m < cs_next ?t" if "cs_tasks ?t m = Some tm" for m tm
    using tasks_okD(3) [OF ok] n that by (cases "m = n") auto
qed

lemma remembered_sent:
  assumes ok: "remembered s" shows "remembered (sent_state n tk s)"
  unfolding remembered_def
proof (intro allI impI)
  fix m k u assume "Sent m k u \<in> set (cs_log (sent_state n tk s))"
  then consider "m = n" "k = tk_key tk" "u = cs_now s" | "Sent m k u \<in> set (cs_log s)" by auto
  then show "u \<le> cs_now (sent_state n tk s)
      \<and> (Reverted m \<notin> set (cs_log (sent_state n tk s)) \<and> cs_now (sent_state n tk s) < u + RECORD_TTL_SECONDS \<longrightarrow>
        (\<exists>c e. cs_disk (sent_state n tk s) k = Some (c, e) \<and> u + RECORD_TTL_SECONDS \<le> e))"
    using rememberedD [OF ok] by cases auto
qed

lemma first_only_sent:
  assumes first: "first_only s" and tasks: "tasks_ok s" and rem: "remembered s"
    and n: "cs_tasks s n = Some tk" "tk_phase tk = Queued"
  shows "first_only (sent_state n tk s)"
  unfolding first_only_def
proof (intro allI impI)
  let ?t = "sent_state n tk s"
  fix m tm x assume m: "cs_tasks ?t m = Some tm \<and> tk_phase tm = Sending x"
  show "(\<exists>u. Sent m (tk_key tm) u \<in> set (cs_log ?t)) \<and> (x = None \<longrightarrow>
      (\<forall>j u. Sent j (tk_key tm) u \<in> set (cs_log ?t) \<and> Reverted j \<notin> set (cs_log ?t)
         \<and> cs_now ?t < u + RECORD_TTL_SECONDS \<longrightarrow> j = m))"
  proof (cases "m = n")
    case True
    then have x: "x = stored s (tk_key tk)" "tk_key tm = tk_key tk" using m by auto
    have "j = n" if "stored s (tk_key tk) = None" "Sent j (tk_key tk) u \<in> set (cs_log s)"
      "Reverted j \<notin> set (cs_log s)" "cs_now s < u + RECORD_TTL_SECONDS" for j u
      using rememberedD(2) [OF rem that(2-4)] that(1,4) by (auto simp: stored_def split: if_splits)
    then show ?thesis using True x by auto
  next
    case False
    then have s: "cs_tasks s m = Some tm" "tk_phase tm = Sending x" using m by auto
    then have "tk_key tm \<noteq> tk_key tk" using only_ongoing [OF tasks n(1) _ s(1)] n(2) False by auto
    then show ?thesis using first_onlyD [OF first s] by auto
  qed
qed

lemma results_ok_sent:
  assumes ok: "results_ok s" and n: "cs_tasks s n = Some tk" "tk_phase tk = Queued"
  shows "results_ok (sent_state n tk s)"
proof (rule results_okI)
  let ?t = "sent_state n tk s"
  note r = results_okD [OF ok]
  have old: "cs_tasks ?t m = Some tm \<Longrightarrow> tk_phase tm = Finished x \<Longrightarrow> cs_tasks s m = Some tm" for m tm x
    by (cases "m = n") auto
  show "\<not> is_value_error e" if "cs_tasks ?t m = Some tm" "tk_phase tm = Finished (Inl e)" for m tm e
    using r(1) old that by blast
  show "\<exists>j u. Recorded j (tk_key tm) i u \<in> set (cs_log ?t)"
    if "cs_tasks ?t m = Some tm" "tk_phase tm = Finished (Inr i)" for m tm i
    using r(2) [OF old [OF that] that(2)] by auto
  show "\<exists>i m u. d = executed_call i \<and> Recorded m k i u \<in> set (cs_log ?t)"
    if "cs_disk ?t k = Some (d, e)" "cl_status d = Executed" for k d e
    using r(3) [OF _ that(2), of k e] that by (auto simp: pending_call_def split: if_splits)
  show "Landed m \<in> set (cs_log ?t) \<and> (\<exists>t'. Sent m k t' \<in> set (cs_log ?t))"
    if "Recorded m k i u \<in> set (cs_log ?t)" for m k i u
    using r(4,5) [of m k i u] that by auto
qed

lemma kept_sent:
  assumes ok: "kept s" and new: "\<And>c. stored s (tk_key tk) = Some c \<Longrightarrow> cl_status c \<noteq> Executed"
  shows "kept (sent_state n tk s)"
proof (rule keptI)
  let ?t = "sent_state n tk s"
  fix m k i u assume "Recorded m k i u \<in> set (cs_log ?t)"
  then have r: "Recorded m k i u \<in> set (cs_log s)" by auto
  show "u \<le> cs_now ?t" using keptD(1) [OF ok r] by simp
  assume "cs_now ?t < u + RECORD_TTL_SECONDS"
  then have now: "cs_now s < u + RECORD_TTL_SECONDS" by simp
  have k: "k \<noteq> tk_key tk"
    using keptD(2) [OF ok r now] new [of "executed_call i"] now by (auto simp: stored_def executed_call_def)
  show "cs_disk ?t k = Some (executed_call i, u + RECORD_TTL_SECONDS)" using keptD(2) [OF ok r now] k by simp
  show "tk_key tm \<noteq> k" if "cs_tasks ?t j = Some tm" "tk_phase tm = Sending x" for j tm x
    using keptD(3) [OF ok r now] k that by (cases "j = n") auto
qed

lemma calls_ok_sent:
  assumes ok: "calls_ok env s" and n: "cs_tasks s n = Some tk" "tk_phase tk = Queued"
    and new: "\<And>c. stored s (tk_key tk) = Some c \<Longrightarrow> cl_status c \<noteq> Executed"
  shows "calls_ok env (sent_state n tk s)"
proof (intro calls_okI)
  note c = calls_okD [OF ok]
  show "callers_ok env (sent_state n tk s)" using c(2) n by (fastforce simp: callers_ok_def sent_state_def)
  show "tasks_ok (sent_state n tk s)" using c(1) n by (rule tasks_ok_sent)
  show "remembered (sent_state n tk s)" using c(3) by (rule remembered_sent)
  show "first_only (sent_state n tk s)" using c(4,1,3) n by (rule first_only_sent)
  show "results_ok (sent_state n tk s)" using c(5) n by (rule results_ok_sent)
  show "kept (sent_state n tk s)" using c(6) new by (rule kept_sent)
qed

text \<open>The record of a success, and the end of the task that made it.\<close>

lemma recorded_simps [simp]:
  "cs_now (recorded_state n tk i s) = cs_now s" "cs_tasks (recorded_state n tk i s) = cs_tasks s"
  "cs_disk (recorded_state n tk i s) = (cs_disk s)(tk_key tk \<mapsto> (executed_call i, cs_now s + RECORD_TTL_SECONDS))"
  "cs_log (recorded_state n tk i s) = cs_log s @ [Recorded n (tk_key tk) i (cs_now s)]"
  by (simp_all add: recorded_state_def)

lemma kept_recorded:
  assumes ok: "kept s" and tasks: "tasks_ok s" and n: "cs_tasks s n = Some tk" "tk_phase tk = Sending x"
  shows "kept (finish n tk r (recorded_state n tk i s))"
proof (rule keptI)
  let ?t = "finish n tk r (recorded_state n tk i s)"
  fix m k j u assume "Recorded m k j u \<in> set (cs_log ?t)"
  then consider (new) "m = n" "k = tk_key tk" "j = i" "u = cs_now s" | (old) "Recorded m k j u \<in> set (cs_log s)" by auto
  note cs = this
  then show "u \<le> cs_now ?t" using keptD(1) [OF ok] by cases auto
  assume now: "cs_now ?t < u + RECORD_TTL_SECONDS"
  have k: "k \<noteq> tk_key tk" if "Recorded m k j u \<in> set (cs_log s)" using keptD(3) [OF ok that _ n] now by auto
  from cs show "cs_disk ?t k = Some (executed_call j, u + RECORD_TTL_SECONDS)"
    using keptD(2) [OF ok] k now by cases auto
  show "tk_key tm \<noteq> k" if "cs_tasks ?t a = Some tm" "tk_phase tm = Sending y" for a tm y
    using cs
  proof cases
    case new
    then show ?thesis using sending_finish [OF that] only_ongoing [OF tasks n(1)] n(2) that(2) by auto
  next
    case old
    then show ?thesis using sending_finish [OF that] keptD(3) [OF ok old _ _ that(2)] now by auto
  qed
qed

lemma calls_ok_recorded:
  assumes ok: "calls_ok env s" and n: "cs_tasks s n = Some tk" "tk_phase tk = Sending x"
    and l: "Landed n \<in> set (cs_log s)"
  shows "calls_ok env (finish n tk (Inr i) (recorded_state n tk i s))"
proof -
  let ?u = "recorded_state n tk i s"
  note c = calls_okD [OF ok] and r = results_okD [OF calls_okD(5) [OF ok]]
  have "tasks_ok ?u" using c(1) by (simp add: tasks_ok_def recorded_state_def)
  moreover have "callers_ok env ?u" using c(2) by (simp add: callers_ok_def recorded_state_def)
  moreover have "remembered ?u"
    unfolding remembered_def using rememberedD [OF c(3)] by auto
  moreover have "first_only ?u"
    using first_onlyD [OF c(4)] unfolding first_only_def by simp blast
  moreover have "results_ok ?u"
  proof (rule results_okI)
    show "\<not> is_value_error e" if "cs_tasks ?u m = Some tm" "tk_phase tm = Finished (Inl e)" for m tm e
      using r(1) that by auto
    show "\<exists>j u. Recorded j (tk_key tm) y u \<in> set (cs_log ?u)"
      if "cs_tasks ?u m = Some tm" "tk_phase tm = Finished (Inr y)" for m tm y
      using r(2) [OF _ that(2)] that(1) by fastforce
    show "\<exists>j m u. d = executed_call j \<and> Recorded m k j u \<in> set (cs_log ?u)"
      if "cs_disk ?u k = Some (d, e)" "cl_status d = Executed" for k d e
      using r(3) [OF _ that(2), of k e] that by (cases "k = tk_key tk") auto
    show "Landed m \<in> set (cs_log ?u) \<and> (\<exists>t'. Sent m k t' \<in> set (cs_log ?u))"
      if "Recorded m k y u \<in> set (cs_log ?u)" for m k y u
      using r(4,5) [of m k y u] that l first_onlyD(1) [OF c(4) n] by auto
  qed
  ultimately show ?thesis using n kept_recorded [OF c(6,1) n]
    by (intro calls_okI tasks_ok_finish callers_ok_finish remembered_finish first_only_finish results_ok_finish) auto
qed


text \<open>A revert of the only submission of its call takes the record off the disk.\<close>

lemma calls_ok_dropped:
  assumes ok: "calls_ok env s" and n: "cs_tasks s n = Some tk" "tk_phase tk = Sending None"
    and rev: "Reverted n \<in> set (cs_log s)"
  shows "calls_ok env (dropped_state tk s)"
proof (intro calls_okI)
  note c = calls_okD [OF ok]
  let ?t = "dropped_state tk s"
  have same: "cs_log ?t = cs_log s" "cs_now ?t = cs_now s" "cs_tasks ?t = cs_tasks s"
    "cs_disk ?t = (cs_disk s)(tk_key tk := None)" by (simp_all add: dropped_state_def)
  show "tasks_ok ?t" using c(1) by (simp add: tasks_ok_def dropped_state_def)
  show "callers_ok env ?t" using c(2) by (simp add: callers_ok_def dropped_state_def)
  show "first_only ?t" using c(4) unfolding first_only_def same .
  have "k \<noteq> tk_key tk" if "Sent m k u \<in> set (cs_log s)" "Reverted m \<notin> set (cs_log s)"
    "cs_now s < u + RECORD_TTL_SECONDS" for m k u
    using first_onlyD(2) [OF c(4) n refl] that rev by blast
  then show "remembered ?t"
    unfolding remembered_def same using rememberedD [OF c(3)] by (auto simp: fun_upd_def)
  have other: "cs_disk s k = Some (d, e)" if "cs_disk ?t k = Some (d, e)" for k d e
    using that by (auto simp: same split: if_splits)
  show "results_ok ?t"
    using results_okD [OF c(5)] other by (intro results_okI) (simp_all only: same(1,3), blast+)
  show "kept ?t"
  proof (rule keptI)
    fix m k i u assume "Recorded m k i u \<in> set (cs_log ?t)"
    then have r: "Recorded m k i u \<in> set (cs_log s)" by (simp add: same)
    show "u \<le> cs_now ?t" using keptD(1) [OF c(6) r] by (simp add: same)
    assume now: "cs_now ?t < u + RECORD_TTL_SECONDS"
    have "k \<noteq> tk_key tk" using keptD(3) [OF c(6) r _ n] now by (auto simp: same)
    then show "cs_disk ?t k = Some (executed_call i, u + RECORD_TTL_SECONDS)"
      using keptD(2) [OF c(6) r] now by (simp add: same)
    show "tk_key tm \<noteq> k" if "cs_tasks ?t j = Some tm" "tk_phase tm = Sending x" for j tm x
      using keptD(3) [OF c(6) r] now that by (simp add: same)
  qed
qed

lemma dropped_tasks [simp]: "cs_tasks (dropped_state tk s) = cs_tasks s" "cs_log (dropped_state tk s) = cs_log s"
  by (simp_all add: dropped_state_def)

section \<open>The invariant holds\<close>

lemma calls_ok_start:
  assumes ok: "calls_ok env s" and n: "cs_tasks s n = Some tk" "tk_phase tk = Queued" and fl: "faults_ok fl"
  shows "calls_ok env (start_task env fl n tk s)"
  using fl
proof (cases rule: start_task_cases [of fl env n tk s])
  case (fault e)
  then show ?thesis using n calls_ok_finish [OF ok n(1), of "Inl e"] by simp
next
  case (known c)
  then obtain e where "cs_disk s (tk_key tk) = Some (c, e)" by (auto simp: stored_def split: option.splits if_splits)
  then obtain i m t where "c = executed_call i" "Recorded m (tk_key tk) i t \<in> set (cs_log s)"
    using results_okD(3) [OF calls_okD(5) [OF ok]] known(2) by blast
  then show ?thesis using known(3) n calls_ok_finish [OF ok n(1), of "Inr i"] by (auto simp: executed_call_def)
next
  case sent
  then show ?thesis using calls_ok_sent [OF ok n] by simp
qed

lemma calls_ok_end:
  assumes ok: "calls_ok env s" and n: "cs_tasks s n = Some tk" "tk_phase tk = Sending earlier"
    and fl: "faults_ok fl" and truth: "truthful log n answer"
    and rev: "settled answer \<Longrightarrow> Reverted n \<in> set (cs_log s)" and land: "set log \<subseteq> set (cs_log s)"
  shows "calls_ok env (end_task env fl n tk earlier answer s)"
  using fl truth
proof (cases rule: end_task_cases [of fl log n answer env tk earlier s])
  case (failed e)
  then show ?thesis using n calls_ok_finish [OF ok n(1), of "Inl e"] by simp
next
  case (dropped e)
  then have "calls_ok env (dropped_state tk s)" using calls_ok_dropped [OF ok n(1)] n(2) rev by simp
  then show ?thesis using dropped n calls_ok_finish [of env "dropped_state tk s" n tk "Inl e"] by simp
next
  case (recorded i)
  then show ?thesis using calls_ok_recorded [OF ok n, of i] land by auto
qed

lemma caller_result_state: "snd (caller_result fl key r s) = s"
  by (auto simp: caller_result_def store_get_def faulty_def py_catch_def py_try_def py_bind_def py_get_def py_ret_def
      py_raise_def py_lift_def split: sum.splits option.splits)

lemma calls_ok_act:
  assumes ok: "calls_ok env s" and act: "act env a s = Some t"
  shows "calls_ok env t"
proof (cases a)
  case (Arrive c req)
  show ?thesis
  proof (cases "prepare env req")
    case (Inl e)
    then show ?thesis using act Arrive calls_ok_reply [OF ok] by (auto split: if_splits)
  next
    case (Inr q)
    obtain nonce label data where q: "q = (nonce, label, data)" by (cases q)
    obtain n u where j: "join_task (call_key env data) data s = (n, u)" by fastforce
    then have t: "t = u\<lparr>cs_callers := (cs_callers u)(c \<mapsto> (req, n))\<rparr>" using act Arrive Inr q by (auto split: if_splits)
    have "callers_ok env t" unfolding t
      using calls_okD(2) [OF calls_ok_join(1) [OF ok j]] calls_ok_join(2) [OF ok j] Inr q
      by (auto simp: callers_ok_def)
    then show ?thesis unfolding t using calls_ok_callers [OF calls_ok_join(1) [OF ok j]] by simp
  qed
next
  case (Begin n fl)
  then show ?thesis using act calls_ok_start [OF ok] by (auto split: option.splits if_splits)
next
  case (Land n)
  then show ?thesis using act calls_ok_note [OF ok] by (auto split: if_splits)
next
  case (Answer n answer fl)
  then obtain tk earlier where n: "cs_tasks s n = Some tk" "tk_phase tk = Sending earlier"
    and h: "truthful (cs_log s) n answer" "faults_ok fl"
    and t: "t = end_task env fl n tk earlier answer
      (if settled answer then s\<lparr>cs_log := cs_log s @ [Reverted n]\<rparr> else s)"
    using act by (auto split: option.splits phase.splits if_splits)
  show ?thesis unfolding t
    using calls_ok_note [OF ok, of "Reverted n"] ok n
    by (intro calls_ok_end [OF _ _ _ h(2,1)]) auto
next
  case (Wake c fl)
  then obtain req n tk r where "cs_callers s c = Some (req, n)" "cs_tasks s n = Some tk" "tk_phase tk = Finished r"
    and t: "t = (case caller_result fl (tk_key tk) r s of (r', u) \<Rightarrow> reply c req r' u)"
    using act by (auto split: option.splits phase.splits if_splits)
  then show ?thesis
    using caller_result_state [of fl "tk_key tk" r s] calls_ok_reply [OF ok] by (auto split: prod.splits)
next
  case (Cancel c)
  then show ?thesis using act calls_ok_leave [OF ok] by auto
next
  case (Tick d)
  then show ?thesis using act calls_ok_tick [OF ok] by (auto split: if_splits)
next
  case Restart
  then show ?thesis using act calls_ok_restart [OF ok] by auto
qed

lemma calls_ok_reach: "calls_reach env s \<Longrightarrow> calls_ok env s"
  by (induction rule: calls_reach.induct) (auto intro: calls_ok_init calls_ok_act)


section \<open>Histories\<close>

text \<open>What an entry of the history says of the entries before it.\<close>

fun entry_ok :: "'w call_env \<Rightarrow> call_event list \<Rightarrow> call_event \<Rightarrow> bool" where
  "entry_ok env pre (Sent n k u) = (\<forall>m i t. Recorded m k i t \<in> set pre \<longrightarrow> t + RECORD_TTL_SECONDS \<le> u)"
| "entry_ok env pre (Landed n) = (Reverted n \<notin> set pre)"
| "entry_ok env pre (Reverted n) = (Landed n \<notin> set pre)"
| "entry_ok env pre (Recorded n k i t) = True"
| "entry_ok env pre (Reply c req resp t) =
     (\<forall>nonce label data. prepare env req = Inr (nonce, label, data) \<longrightarrow>
        (\<forall>i. resp = Inr i \<longrightarrow> (\<exists>m u v. Sent m (call_key env data) u \<in> set pre \<and> Landed m \<in> set pre
             \<and> Recorded m (call_key env data) i v \<in> set pre))
      \<and> (\<forall>d. resp \<noteq> Inl (HttpError 400 d))
      \<and> (\<forall>d m u. resp = Inl (HttpError 422 d) \<and> Sent m (call_key env data) u \<in> set pre \<and> t < u + RECORD_TTL_SECONDS
           \<longrightarrow> Reverted m \<in> set pre))"

definition history_ok :: "'w call_env \<Rightarrow> call_event list \<Rightarrow> bool" where
  "history_ok env log \<longleftrightarrow> (\<forall>pre e post. log = pre @ e # post \<longrightarrow> entry_ok env pre e)"

lemma history_nil: "history_ok env []" by (simp add: history_ok_def)

lemma history_snoc: "history_ok env log \<Longrightarrow> entry_ok env log e \<Longrightarrow> history_ok env (log @ [e])"
  unfolding history_ok_def
proof (intro allI impI)
  fix pre e' post
  assume h: "\<forall>pre e post. log = pre @ e # post \<longrightarrow> entry_ok env pre e" "entry_ok env log e" "log @ [e] = pre @ e' # post"
  show "entry_ok env pre e'"
  proof (cases post rule: rev_cases)
    case Nil
    then show ?thesis using h(2,3) by simp
  next
    case (snoc post' x)
    then have "log = pre @ e' # post'" using h(3) by (simp flip: append_Cons append_assoc)
    then show ?thesis using h(1) by blast
  qed
qed

lemma response_400: "signed_response r = Inl (HttpError 400 d) \<Longrightarrow> \<exists>e. r = Inl e \<and> is_value_error e"
  by (auto simp: signed_response_def split: sum.splits if_splits exn.splits)

lemma response_422: "signed_response r = Inl (HttpError 422 d) \<Longrightarrow> \<exists>e. r = Inl e \<and> is_revert e"
  by (auto simp: signed_response_def split: sum.splits if_splits exn.splits)

lemma response_200: "signed_response r = Inr i \<Longrightarrow> r = Inr i"
  by (auto simp: signed_response_def split: sum.splits if_splits exn.splits)

lemma caller_result_Inr: "caller_result fl key r s = (Inr i, t) \<Longrightarrow> r = Inr i"
  by (auto simp: caller_result_def store_get_def faulty_def py_catch_def py_try_def py_bind_def py_get_def py_ret_def
      py_raise_def py_lift_def split: sum.splits option.splits if_splits)

lemma revert_exception: "is_revert e \<Longrightarrow> is_exception e"
  by (cases e) auto

lemma caller_result_Inl:
  assumes "caller_result fl key r s = (Inl e, t)" "faults_ok fl" "\<And>e. r = Inl e \<Longrightarrow> \<not> is_value_error e"
  shows "\<not> is_value_error e" "is_revert e \<Longrightarrow> stored s key = None"
  using assms revert_exception [of e]
  by (auto simp: caller_result_def store_get_def faulty_def py_catch_def py_try_def py_bind_def py_get_def py_ret_def
      py_raise_def py_lift_def faults_ok_def fault_ok_def split: sum.splits option.splits if_splits)

lemma entry_ok_reply:
  assumes ok: "calls_ok env s" and c: "cs_callers s c = Some (req, n)"
    and n: "cs_tasks s n = Some tk" "tk_phase tk = Finished r" and fl: "faults_ok fl"
    and r': "caller_result fl (tk_key tk) r s = (r', s)"
  shows "entry_ok env (cs_log s) (Reply c req (signed_response r') (cs_now s))"
proof -
  note d = calls_okD [OF ok] and res = results_okD [OF calls_okD(5) [OF ok]]
  have nv: "\<not> is_value_error e" if "r = Inl e" for e using res(1) n that by blast
  have key: "tk_key tk = call_key env data" if "prepare env req = Inr (nonce, label, data)" for nonce label data
    using d(2) c n that unfolding callers_ok_def by fastforce
  have good: "\<exists>m u v. Sent m (tk_key tk) u \<in> set (cs_log s) \<and> Landed m \<in> set (cs_log s)
      \<and> Recorded m (tk_key tk) i v \<in> set (cs_log s)" if i: "signed_response r' = Inr i" for i
  proof -
    have "r = Inr i" using caller_result_Inr r' response_200 [OF i] by blast
    then obtain m v where v: "Recorded m (tk_key tk) i v \<in> set (cs_log s)" using res(2) n by blast
    show ?thesis using v res(4) [OF v] res(5) [OF v] by blast
  qed
  have bad: "signed_response r' \<noteq> Inl (HttpError 400 e)" for e
    using response_400 [of r' e] caller_result_Inl(1) [OF _ fl nv, of "tk_key tk" r] r' by blast
  have gone: "Reverted m \<in> set (cs_log s)"
    if no: "signed_response r' = Inl (HttpError 422 e)" and u: "Sent m (tk_key tk) u \<in> set (cs_log s)"
      "cs_now s < u + RECORD_TTL_SECONDS" for e m u
  proof (rule ccontr)
    assume "Reverted m \<notin> set (cs_log s)"
    then obtain f x where "cs_disk s (tk_key tk) = Some (f, x)" "u + RECORD_TTL_SECONDS \<le> x"
      using rememberedD(2) [OF d(3) u(1) _ u(2)] by blast
    then have "stored s (tk_key tk) \<noteq> None" using u(2) by (simp add: stored_def)
    moreover obtain x where "r' = Inl x" "is_revert x" using response_422 [OF no] by blast
    ultimately show False using caller_result_Inl(2) [of fl "tk_key tk" r s x s] r' fl nv by simp
  qed
  show ?thesis using key good bad gone by auto
qed


lemma history_act:
  assumes ok: "calls_ok env s" and h: "history_ok env (cs_log s)" and act: "act env a s = Some t"
  shows "history_ok env (cs_log t)"
proof (cases a)
  case (Arrive c req)
  show ?thesis
  proof (cases "prepare env req")
    case (Inl e)
    then have "cs_log t = cs_log s @ [Reply c req (signed_response (Inl e)) (cs_now s)]"
      using act Arrive by (auto simp: reply_def split: if_splits)
    then show ?thesis using history_snoc [OF h] Inl by simp
  next
    case (Inr q)
    then have "cs_log t = cs_log s"
      using act Arrive by (auto simp: join_task_def split: if_splits prod.splits option.splits)
    then show ?thesis using h by simp
  qed
next
  case (Begin n fl)
  then obtain tk where n: "cs_tasks s n = Some tk" "faults_ok fl" "t = start_task env fl n tk s"
    using act by (auto split: option.splits if_splits)
  show ?thesis
    using n(2)
  proof (cases rule: start_task_cases [of fl env n tk s])
    case sent
    have "u + RECORD_TTL_SECONDS \<le> cs_now s" if r: "Recorded m (tk_key tk) i u \<in> set (cs_log s)" for m i u
    proof (rule ccontr)
      assume now: "\<not> u + RECORD_TTL_SECONDS \<le> cs_now s"
      then have "stored s (tk_key tk) = Some (executed_call i)"
        using keptD(2) [OF calls_okD(6) [OF ok] r] by (simp add: stored_def)
      then show False using sent(2) by (auto simp: executed_call_def)
    qed
    then show ?thesis using sent(1) n(3) history_snoc [OF h] by simp
  qed (use n h in simp_all)
next
  case (Land n)
  then show ?thesis using act history_snoc [OF h] by (auto split: if_splits)
next
  case (Answer n answer fl)
  then obtain tk earlier where h': "truthful (cs_log s) n answer" "faults_ok fl"
    and t: "t = end_task env fl n tk earlier answer
      (if settled answer then s\<lparr>cs_log := cs_log s @ [Reverted n]\<rparr> else s)"
    using act by (auto split: option.splits phase.splits if_splits)
  have r: "settled answer \<Longrightarrow> Landed n \<notin> set (cs_log s)"
    using h'(1) by (auto simp: truthful_def settled_def split: sum.splits)
  show ?thesis
    using h'(2,1)
  proof (cases rule: end_task_cases [of fl "cs_log s" n answer env tk earlier
        "if settled answer then s\<lparr>cs_log := cs_log s @ [Reverted n]\<rparr> else s"])
    case (failed e)
    then show ?thesis using t h r history_snoc [OF h, of "Reverted n"] by simp
  next
    case (dropped e)
    then show ?thesis using t h r history_snoc [OF h, of "Reverted n"] by simp
  next
    case (recorded i)
    then show ?thesis using t history_snoc [OF h, of "Recorded n (tk_key tk) i (cs_now s)"] by simp
  qed
next
  case (Wake c fl)
  then obtain req n tk r where w: "cs_callers s c = Some (req, n)" "cs_tasks s n = Some tk" "tk_phase tk = Finished r"
      "faults_ok fl"
    and t: "t = (case caller_result fl (tk_key tk) r s of (r', u) \<Rightarrow> reply c req r' u)"
    using act by (auto split: option.splits phase.splits if_splits)
  obtain r' where r': "caller_result fl (tk_key tk) r s = (r', s)"
    using caller_result_state [of fl "tk_key tk" r s] by (cases "caller_result fl (tk_key tk) r s") simp
  then have "cs_log t = cs_log s @ [Reply c req (signed_response r') (cs_now s)]" using t by (simp add: reply_def)
  then show ?thesis using history_snoc [OF h entry_ok_reply [OF ok w r']] by simp
qed (use act h in \<open>auto split: if_splits\<close>)

lemma history_reach: "calls_reach env s \<Longrightarrow> history_ok env (cs_log s)"
proof (induction rule: calls_reach.induct)
  case (calls_start now)
  then show ?case by (simp add: calls_init_def history_nil)
next
  case (calls_step s a t)
  then show ?case using history_act [OF calls_ok_reach] by blast
qed

lemma history_entry: "calls_reach env s \<Longrightarrow> cs_log s = pre @ e # post \<Longrightarrow> entry_ok env pre e"
  using history_reach history_ok_def by metis

lemma reverted_never_landed:
  assumes "calls_reach env s" "Reverted m \<in> set (cs_log s)"
  shows "Landed m \<notin> set (cs_log s)"
proof
  assume l: "Landed m \<in> set (cs_log s)"
  obtain pre post where p: "cs_log s = pre @ Reverted m # post" using assms(2) by (meson split_list)
  have "Landed m \<notin> set pre" using history_entry [OF assms(1) p] by simp
  then have "Landed m \<in> set post" using l p by auto
  then obtain xs ys where "post = xs @ Landed m # ys" by (meson split_list)
  then have "cs_log s = (pre @ Reverted m # xs) @ Landed m # ys" using p by simp
  from history_entry [OF assms(1) this] show False by simp
qed

section \<open>Properties\<close>

definition demo_calls :: "nat call_env" where
  "demo_calls = \<lparr>ce_service = demo_a_env, ce_contract_address = ''0xacc'', ce_gas_limit = 1,
     ce_encode = (\<lambda>name args. Inr [7]), ce_keccak = (\<lambda>data. data),
     ce_rofl = \<lparr>ro_error_name = (\<lambda>s. None), ro_hexbytes = (\<lambda>s. Inr [])\<rparr>\<rparr>"

definition demo_modify :: signed_request where
  "demo_modify = ModifyReq \<lparr>mp_lock_id = 3, mp_amount = 5, mp_new_expiry = 9, mp_nonce = 0, mp_signature = ''01''\<rparr>"

definition no_faults :: faults where
  "no_faults = \<lparr>fl_get = None, fl_put = None, fl_delete = None\<rparr>"

definition demo_success :: "exn + rofl_reply" where
  "demo_success = Inr \<lparr>rp_fail = None, rp_ok = Some OkNone, rp_cbor = [1]\<rparr>"

definition demo_revert :: "exn + rofl_reply" where
  "demo_revert = Inr \<lparr>rp_fail = Some \<lparr>fi_code = None, fi_module = None, fi_message = None\<rparr>, rp_ok = None, rp_cbor = []\<rparr>"

text \<open>A call reverts, is sent again and lands; when its record has expired it is sent once more.\<close>

definition demo_actions :: "action list" where
  "demo_actions =
     [Arrive 0 demo_modify, Begin 0 no_faults, Answer 0 demo_revert no_faults, Wake 0 no_faults,
      Arrive 0 demo_modify, Begin 1 no_faults, Land 1, Answer 1 demo_success no_faults, Wake 0 no_faults,
      Tick 604800, Arrive 0 demo_modify, Begin 2 no_faults]"

definition demo_history :: "call_event list" where
  "demo_history =
     [Sent 0 ''0x07'' 0, Reverted 0,
      Reply 0 demo_modify (Inl (HttpError 422 ''Transaction reverted: unknown'')) 0,
      Sent 1 ''0x07'' 0, Landed 1, Recorded 1 ''0x07'' ''01'' 0, Reply 0 demo_modify (Inr ''01'') 0,
      Sent 2 ''0x07'' 604800]"

lemma demo_run: "map_option cs_log (acts demo_calls demo_actions (calls_init 0)) = Some demo_history"
  by code_simp

lemma demo_call_key: "prepare demo_calls demo_modify = Inr (0, ''modifyLock'', [7])" "call_key demo_calls [7] = ''0x07''"
  by code_simp+

lemma demo_reached: "\<exists>s. calls_reach demo_calls s \<and> cs_log s = demo_history"
proof -
  obtain s where s: "acts demo_calls demo_actions (calls_init 0) = Some s" "cs_log s = demo_history"
    using demo_run by (cases "acts demo_calls demo_actions (calls_init 0)") auto
  then show ?thesis using calls_reach_acts [OF calls_start s(1)] by blast
qed

text \<open>
  C27. What a client may conclude from the answer to a well-formed signed write, whatever was
  submitted, joined, cancelled or restarted before: a 200 carries the id of a submission of this
  very call that has landed; a 422 is given only when no submission of this call within the
  lifetime of its record has landed or ever will; and it is never a 400.
\<close>

theorem signed_write_answers:
  assumes "calls_reach env s" "cs_log s = pre @ Reply c req resp t # post"
    and "prepare env req = Inr (nonce, label, data)"
  shows "(resp = Inr i \<longrightarrow> (\<exists>m u v. Sent m (call_key env data) u \<in> set pre \<and> Landed m \<in> set pre
             \<and> Recorded m (call_key env data) i v \<in> set pre))
      \<and> (resp = Inl (HttpError 422 d) \<and> Sent m (call_key env data) u \<in> set pre \<and> t < u + RECORD_TTL_SECONDS
           \<longrightarrow> Landed m \<notin> set (cs_log s))
      \<and> resp \<noteq> Inl (HttpError 400 d)"
proof (intro conjI impI)
  note e = history_entry [OF assms(1,2), simplified, rule_format, OF assms(3)]
  show "\<exists>m u v. Sent m (call_key env data) u \<in> set pre \<and> Landed m \<in> set pre
      \<and> Recorded m (call_key env data) i v \<in> set pre" if "resp = Inr i"
    using e that by blast
  show "resp \<noteq> Inl (HttpError 400 d)" using e by blast
  assume "resp = Inl (HttpError 422 d) \<and> Sent m (call_key env data) u \<in> set pre \<and> t < u + RECORD_TTL_SECONDS"
  then have "Reverted m \<in> set (cs_log s)" using e assms(2) by auto
  then show "Landed m \<notin> set (cs_log s)" by (rule reverted_never_landed [OF assms(1)])
qed

lemma signed_write_answers_witness:
  "\<exists>s pre post. calls_reach demo_calls s
     \<and> cs_log s = pre @ Reply 0 demo_modify (Inl (HttpError 422 ''Transaction reverted: unknown'')) 0 # post
     \<and> Sent 0 ''0x07'' 0 \<in> set pre \<and> Landed 0 \<notin> set (cs_log s)"
proof -
  let ?r = "Inl (HttpError 422 ''Transaction reverted: unknown'')"
  obtain s where s: "calls_reach demo_calls s" "cs_log s = demo_history" using demo_reached by blast
  let ?pre = "[Sent 0 ''0x07'' 0, Reverted 0]"
  have l: "cs_log s = ?pre @ Reply 0 demo_modify ?r 0 # drop 3 demo_history" unfolding s(2) by (simp add: demo_history_def)
  have "Landed 0 \<notin> set (cs_log s)"
    using signed_write_answers [OF s(1) l demo_call_key(1), of _ _ 0 0] demo_call_key(2) by (auto simp: RECORD_TTL_SECONDS_def)
  then show ?thesis using s(1) l by (intro exI [of _ s] exI [of _ ?pre] exI [of _ "drop 3 demo_history"]) simp
qed

text \<open>
  A call recorded as executed is not submitted again while its record lives: a later
  submission of the same call is at least \<open>RECORD_TTL_SECONDS\<close> after it.
\<close>

theorem recorded_not_sent_again:
  assumes "calls_reach env s" "cs_log s = pre @ Recorded m k i t # mid @ Sent n k u # post"
  shows "t + RECORD_TTL_SECONDS \<le> u"
proof -
  have "cs_log s = (pre @ Recorded m k i t # mid) @ Sent n k u # post" using assms(2) by simp
  from history_entry [OF assms(1) this] show ?thesis by auto
qed

lemma recorded_not_sent_again_witness: "(0::int) + RECORD_TTL_SECONDS \<le> 604800"
proof -
  obtain s where s: "calls_reach demo_calls s" "cs_log s = demo_history" using demo_reached by blast
  have "cs_log s = take 5 demo_history @ Recorded 1 ''0x07'' ''01'' 0 # [Reply 0 demo_modify (Inr ''01'') 0] @ Sent 2 ''0x07'' 604800 # []"
    unfolding s(2) by (simp add: demo_history_def)
  from recorded_not_sent_again [OF s(1) this] show ?thesis .
qed

end
