(* ===== verification/Sweep_Engine.thy ===== *)
theory Sweep_Engine
  imports Chain_Config Rpc_Identity Sweep_Record
begin

text \<open>
  \<^verbatim>\<open>src/services/sweep_engine.py\<close>, the engine: pricing, the two sweeps (native and ERC-20),
  the idempotent credit, and the recovery of incomplete sweeps at startup and in the periodic
  loop. The state is the process state the engine touches; every call that leaves the process
  (source-chain RPC, the accounting service behind \<open>DepositAccountingProtocol\<close>, the clock and
  the event loop's sleep) is an argument, a function of the record \<open>env\<close> on a world of any type,
  so a theorem covers every answer these can give, also a cancellation.

  \<open>trace\<close> is a ghost: it lists what the engine did that outlives the coroutine (files written
  and deleted, transactions handed to a node, funding hashes noted, the receipts it acted on,
  credits asked for), in order. One coroutine is modelled at a time: other tasks act through \<open>rpc_drift\<close> (what they do
  to the identity gate during an \<open>await\<close>) and through the world.
\<close>

section \<open>The environment\<close>

type_synonym ('w, 'a) ext = "'w \<Rightarrow> (exn + 'a) \<times> 'w"

record 'w env =
  configs :: "(int \<times> chain_config) list"
  chain_rpc_urls :: url_dict
  rpc_drift :: "'w \<Rightarrow> rpc_state \<Rightarrow> rpc_state"
  clock :: "'w \<Rightarrow> int"
  aio_sleep :: "int \<Rightarrow> ('w, unit) ext"
  eth_get_balance :: "client \<Rightarrow> string \<Rightarrow> ('w, int) ext"
  erc20_balance_of :: "client \<Rightarrow> string \<Rightarrow> string \<Rightarrow> ('w, int) ext"
  eth_base_fee :: "client \<Rightarrow> ('w, int option) ext"
  eth_gas_price :: "client \<Rightarrow> ('w, int) ext"
  eth_transaction_count :: "client \<Rightarrow> string \<Rightarrow> string \<Rightarrow> ('w, int) ext"
  eth_send_raw_transaction :: "client \<Rightarrow> bytes \<Rightarrow> ('w, bytes) ext"
  eth_receipt_status :: "client \<Rightarrow> string \<Rightarrow> ('w, int option) ext"
  op_get_l1_fee :: "client \<Rightarrow> bytes \<Rightarrow> ('w, int) ext"
  arb_gas_l1_component :: "client \<Rightarrow> bytes \<Rightarrow> ('w, int \<times> int) ext"
  acc_gas_tank_address :: "('w, string) ext"
  acc_generate_gas_funding_tx :: "string \<Rightarrow> int \<Rightarrow> int \<Rightarrow> int \<Rightarrow> int \<Rightarrow> ('w, bytes) ext"
  acc_generate_sweep_native ::
    "string \<Rightarrow> string \<Rightarrow> int \<Rightarrow> int \<Rightarrow> int \<Rightarrow> int \<Rightarrow> int \<Rightarrow> ('w, bytes) ext"
  acc_generate_sweep_erc20 ::
    "string \<Rightarrow> string \<Rightarrow> int \<Rightarrow> int \<Rightarrow> string \<Rightarrow> int \<Rightarrow> int \<Rightarrow> int \<Rightarrow> ('w, bytes) ext"
  acc_is_deposit_processed :: "bytes \<Rightarrow> ('w, bool) ext"
  acc_credit_deposit :: "string \<Rightarrow> bytes \<Rightarrow> int \<Rightarrow> bytes \<Rightarrow> ('w, unit) ext"

section \<open>The engine's state\<close>

datatype event =
    EvSave sweep_record
  | EvDelete string
  | EvSend client bytes
  | EvFunding string
  | EvReceipt client string int
  | EvCredit string bytes int bytes

record 'w engine =
  world :: 'w
  rpc :: rpc_state
  web3_cache :: "int \<rightharpoonup> client"
  disk :: disk
  gas_funding_tx_hashes :: "string set"
  trace :: "event list"

definition await :: "'w env \<Rightarrow> ('w, 'a) ext \<Rightarrow> ('w engine, 'a) py" where
  "await env f = (\<lambda>s. case f (world s) of
     (r, w) \<Rightarrow> (r, s\<lparr>world := w, rpc := rpc_drift env w (rpc s)\<rparr>))"

definition emit :: "event \<Rightarrow> ('w engine, unit) py" where
  "emit e = py_modify (\<lambda>s. s\<lparr>trace := trace s @ [e]\<rparr>)"

definition time_now :: "'w env \<Rightarrow> ('w engine, int) py" where
  "time_now env = py_bind py_get (\<lambda>s. py_ret (clock env (world s)))"

definition get_web3 :: "'w env \<Rightarrow> int \<Rightarrow> ('w engine, client) py" where
  "get_web3 env cid = (\<lambda>s.
     case require_verified_web3 cid (chain_rpc_urls env) (web3_cache s) (rpc s) of
       (r, cache, g) \<Rightarrow> (r, s\<lparr>web3_cache := cache, rpc := g\<rparr>))"

definition recheck_served :: "'w env \<Rightarrow> int \<Rightarrow> ('w engine, unit) py" where
  "recheck_served env cid = py_bind (get_web3 env cid) (\<lambda>_. py_ret ())"

definition engine_save :: "sweep_record \<Rightarrow> ('w engine, unit) py" where
  "engine_save r = (\<lambda>s. case save_record r (disk s) of
     Inl e \<Rightarrow> (Inl e, s)
   | Inr d \<Rightarrow> (Inr (), s\<lparr>disk := d, trace := trace s @ [EvSave r]\<rparr>))"

definition engine_delete :: "string \<Rightarrow> ('w engine, unit) py" where
  "engine_delete i = (\<lambda>s. case delete_record i (disk s) of
     Inl e \<Rightarrow> (Inl e, s)
   | Inr d \<Rightarrow> (Inr (), s\<lparr>disk := d, trace := trace s @ [EvDelete i]\<rparr>))"

text \<open>\<open>_gas_funding_tx_hashes.add(hash.lower())\<close>.\<close>

definition add_funding_hash :: "string \<Rightarrow> ('w engine, unit) py" where
  "add_funding_hash h = py_modify (\<lambda>s. s\<lparr>
     gas_funding_tx_hashes := insert (ascii_lower h) (gas_funding_tx_hashes s),
     trace := trace s @ [EvFunding (ascii_lower h)]\<rparr>)"

definition engine_get :: "'w env \<Rightarrow> string \<Rightarrow> ('w engine, sweep_record option) py" where
  "engine_get env i = py_bind py_get (\<lambda>s.
     py_lift (get_record_by_deposit_id (clock env (world s)) i (disk s)))"

text \<open>The pause between two recovery passes, in seconds.\<close>

definition SWEEP_RECOVERY_INTERVAL :: int where
  "SWEEP_RECOVERY_INTERVAL = 60"

section \<open>Pricing\<close>

definition get_safe_gas_price :: "'w env \<Rightarrow> client \<Rightarrow> int \<Rightarrow> ('w engine, int) py" where
  "get_safe_gas_price env w3 cid =
     py_bind (await env (eth_base_fee env w3)) (\<lambda>fee.
     let base_fee = (case fee of None \<Rightarrow> 0 | Some f \<Rightarrow> f) in
     py_bind (await env (eth_gas_price env w3)) (\<lambda>rpc_gas_price.
     if base_fee = 0 \<and> rpc_gas_price = 0
     then py_raise (ValueError ''RPC returned no gas price signal'')
     else py_bind (py_lift (py_index (MIN_SWEEP_GAS_PRICE_WEI (configs env)) cid)) (\<lambda>floor.
       py_ret (max (max (base_fee * 5 div 4) rpc_gas_price) floor))))"

section \<open>Waiting for a receipt\<close>

definition RECEIPT_TIMEOUT :: int where
  "RECEIPT_TIMEOUT = 120"

text \<open>The exceptions the polling loop swallows.\<close>

fun poll_retries :: "exn \<Rightarrow> bool" where
  "poll_retries (ValueError _) = True"
| "poll_retries (TimeoutError _) = True"
| "poll_retries (OSErr _) = True"
| "poll_retries (TransactionNotFound _) = True"
| "poll_retries _ = False"

text \<open>
  The loop, by fuel: one unit per turn. With a clock that each \<open>sleep(2)\<close> advances by two
  seconds, 61 turns are enough for the 120 second timeout (\<open>wait_loop_in_fuel\<close>).
\<close>

fun wait_loop :: "nat \<Rightarrow> 'w env \<Rightarrow> client \<Rightarrow> string \<Rightarrow> int \<Rightarrow> ('w engine, int) py" where
  "wait_loop 0 env w3 tx_hash deadline = py_raise OutOfFuel"
| "wait_loop (Suc n) env w3 tx_hash deadline =
     py_bind (time_now env) (\<lambda>now.
     if now < deadline then
       py_bind (py_try (await env (eth_receipt_status env w3 tx_hash))
                  (\<lambda>e. if poll_retries e then py_ret None else py_raise e)) (\<lambda>receipt.
       case receipt of
         Some status \<Rightarrow> py_then (emit (EvReceipt w3 tx_hash status)) (py_ret status)
       | None \<Rightarrow> py_then (await env (aio_sleep env 2)) (wait_loop n env w3 tx_hash deadline))
     else py_raise (TimeoutError ''Transaction not mined within 120s''))"

definition wait_for_receipt :: "'w env \<Rightarrow> client \<Rightarrow> string \<Rightarrow> ('w engine, int) py" where
  "wait_for_receipt env w3 tx_hash =
     py_bind (time_now env) (\<lambda>now. wait_loop 61 env w3 tx_hash (now + RECEIPT_TIMEOUT))"

section \<open>Crediting\<close>

definition idempotent_credit ::
    "'w env \<Rightarrow> string \<Rightarrow> bytes \<Rightarrow> int \<Rightarrow> bytes \<Rightarrow> ('w engine, unit) py" where
  "idempotent_credit env beneficiary token_id amount deposit_id =
     py_then (emit (EvCredit beneficiary token_id amount deposit_id))
     (py_try (await env (acc_credit_deposit env beneficiary token_id amount deposit_id))
        (\<lambda>e. case e of
           TransactionReverted n m \<Rightarrow>
             (if n = Some ''DepositAlreadyProcessed'' then py_ret () else py_raise e)
         | _ \<Rightarrow> py_raise e))"

section \<open>One sweep\<close>

text \<open>
  The arguments of \<open>sweep_native\<close> and \<open>sweep_erc20\<close>. The two bodies are the same but for the
  balance they read, the gas limit, the fee estimate's flag and the generator of the signed
  transaction; \<open>job_token_address = None\<close> is the native one.
\<close>

record sweep_job =
  job_deposit_address :: string
  job_beneficiary :: string
  job_chain_type :: string
  job_version :: int
  job_chain_id :: int
  job_token_address :: "string option"
  job_token_id :: bytes
  job_amount :: int
  job_deposit_id :: bytes

definition read_balance :: "'w env \<Rightarrow> client \<Rightarrow> sweep_job \<Rightarrow> ('w engine, int) py" where
  "read_balance env w3 job =
     (case job_token_address job of
        None \<Rightarrow> await env (eth_get_balance env w3 (job_deposit_address job))
      | Some token \<Rightarrow> await env (erc20_balance_of env w3 token (job_deposit_address job)))"

definition generate_sweep :: "'w env \<Rightarrow> sweep_job \<Rightarrow> int \<Rightarrow> int \<Rightarrow> ('w engine, bytes) py" where
  "generate_sweep env job nonce gas_price =
     (case job_token_address job of
        None \<Rightarrow> await env (acc_generate_sweep_native env (job_beneficiary job) (job_chain_type job)
                  (job_version job) (job_chain_id job) (job_amount job) nonce gas_price)
      | Some token \<Rightarrow> await env (acc_generate_sweep_erc20 env (job_beneficiary job)
                  (job_chain_type job) (job_version job) (job_chain_id job) token
                  (job_amount job) nonce gas_price))"

definition sweep_gas_limit :: "sweep_job \<Rightarrow> int" where
  "sweep_gas_limit job =
     (case job_token_address job of None \<Rightarrow> SWEEP_GAS_LIMIT_NATIVE | Some _ \<Rightarrow> SWEEP_GAS_LIMIT_ERC20)"

text \<open>The amount of gas sent to the deposit address, capped per chain.\<close>

definition gas_funding_amount :: "sweep_job \<Rightarrow> int \<Rightarrow> int \<Rightarrow> int \<Rightarrow> int" where
  "gas_funding_amount job gas_price l1_data_fee cap =
     min (sweep_gas_limit job * gas_price * GAS_FUNDING_HEADROOM + l1_data_fee) cap"

text \<open>The balance checks before anything is written: \<open>False\<close> is the early return.\<close>

definition sweep_check :: "'w env \<Rightarrow> client \<Rightarrow> sweep_job \<Rightarrow> ('w engine, bool) py" where
  "sweep_check env w3 job =
     py_bind (read_balance env w3 job) (\<lambda>balance.
     if balance = 0 then
       py_bind (await env (acc_is_deposit_processed env (job_deposit_id job))) (\<lambda>processed.
       if processed then py_ret False
       else py_raise (ValueError ''balance is 0 but deposit_id is not yet processed''))
     else if balance < job_amount job
     then py_raise (ValueError ''balance < verified amount'')
     else py_ret True)"

definition new_record :: "sweep_job \<Rightarrow> int \<Rightarrow> sweep_record" where
  "new_record job now =
     \<lparr>sr_deposit_address = job_deposit_address job, sr_chain_id = job_chain_id job,
      sr_state = PENDING, sr_beneficiary = job_beneficiary job,
      sr_chain_type = job_chain_type job, sr_version = job_version job,
      sr_amount = job_amount job, sr_token_id_hex = to_hex (job_token_id job),
      sr_token_address = job_token_address job,
      sr_deposit_id_hex = to_hex (job_deposit_id job), sr_source_tx_hash = [],
      sr_deposit_index = 0, sr_sweep_tx_hash = None, sr_gas_funding_tx_hash = None,
      sr_created_at = now, sr_retry_count = 0, sr_error = None\<rparr>"

text \<open>Step 1: fund gas from the gas tank, under the gas-tank lock, and wait for it.\<close>

definition sweep_fund ::
    "'w env \<Rightarrow> client \<Rightarrow> sweep_job \<Rightarrow> int \<Rightarrow> sweep_record \<Rightarrow> ('w engine, sweep_record) py" where
  "sweep_fund env w3 job gas_price record =
     py_bind (estimate_l1_data_fee (configs env) (\<lambda>d. await env (op_get_l1_fee env w3 d))
        (\<lambda>d. await env (arb_gas_l1_component env w3 d)) (job_chain_id job)
        (job_token_address job \<noteq> None)) (\<lambda>l1_data_fee.
     py_bind (py_lift (py_index (GAS_FUNDING_AMOUNT_WEI (configs env)) (job_chain_id job))) (\<lambda>cap.
     py_bind (await env (acc_gas_tank_address env)) (\<lambda>tank.
     py_bind (await env (eth_transaction_count env w3 tank ''pending'')) (\<lambda>gas_tank_nonce.
     py_bind (await env (acc_generate_gas_funding_tx env (job_deposit_address job)
        (job_chain_id job) (gas_funding_amount job gas_price l1_data_fee cap)
        gas_tank_nonce gas_price)) (\<lambda>gas_tx.
     py_then (recheck_served env (job_chain_id job))
     (py_then (emit (EvSend w3 gas_tx))
     (py_bind (await env (eth_send_raw_transaction env w3 gas_tx)) (\<lambda>gas_tx_hash.
      let h = to_hex gas_tx_hash;
          funded = record\<lparr>sr_gas_funding_tx_hash := Some h, sr_state := GAS_FUNDED\<rparr>
      in py_then (add_funding_hash h)
        (py_then (engine_save funded)
        (py_bind (wait_for_receipt env w3 h) (\<lambda>status.
         if status \<noteq> 1 then py_raise (ValueError ''Gas funding tx reverted'')
         else py_ret funded)))))))))))"

text \<open>Step 2: price again, sign, broadcast, persist the hash, wait, promote to SWEPT.\<close>

definition sweep_send ::
    "'w env \<Rightarrow> client \<Rightarrow> sweep_job \<Rightarrow> sweep_record \<Rightarrow> ('w engine, sweep_record) py" where
  "sweep_send env w3 job record =
     py_bind (get_safe_gas_price env w3 (job_chain_id job)) (\<lambda>gas_price.
     py_bind (await env (eth_transaction_count env w3 (job_deposit_address job) ''latest''))
       (\<lambda>nonce.
     py_bind (generate_sweep env job nonce gas_price) (\<lambda>signed_tx.
     py_then (recheck_served env (job_chain_id job))
     (py_then (emit (EvSend w3 signed_tx))
     (py_bind (await env (eth_send_raw_transaction env w3 signed_tx)) (\<lambda>tx_hash.
      let h = to_hex tx_hash; sent = record\<lparr>sr_sweep_tx_hash := Some h\<rparr>
      in py_then (engine_save sent)
        (py_bind (wait_for_receipt env w3 h) (\<lambda>status.
         if status \<noteq> 1 then py_raise (ValueError ''Sweep tx reverted'')
         else
           py_then (recheck_served env (job_chain_id job))
           (let swept = sent\<lparr>sr_state := SWEPT\<rparr>
            in py_then (engine_save swept) (py_ret swept))))))))))"

text \<open>Step 3: credit; a failed credit leaves the SWEPT record and becomes \<open>SweepCreditPending\<close>.\<close>

definition sweep_credit :: "'w env \<Rightarrow> sweep_job \<Rightarrow> sweep_record \<Rightarrow> ('w engine, unit) py" where
  "sweep_credit env job record =
     py_then (py_catch (idempotent_credit env (job_beneficiary job) (job_token_id job)
                (job_amount job) (job_deposit_id job))
                (\<lambda>_. py_raise (SweepCreditPending (sr_deposit_id_hex record))))
     (engine_delete (sr_deposit_id_hex record))"

definition run_sweep :: "'w env \<Rightarrow> sweep_job \<Rightarrow> ('w engine, unit) py" where
  "run_sweep env job =
     py_bind (get_web3 env (job_chain_id job)) (\<lambda>w3.
     py_bind (sweep_check env w3 job) (\<lambda>go.
     if \<not> go then py_ret ()
     else
       py_bind (get_safe_gas_price env w3 (job_chain_id job)) (\<lambda>gas_price.
       py_bind (time_now env) (\<lambda>now.
       py_bind (py_lift (sweep_record_post_init (new_record job now))) (\<lambda>record.
       py_then (engine_save record)
       (py_bind (sweep_fund env w3 job gas_price record) (\<lambda>funded.
        py_bind (sweep_send env w3 job funded) (\<lambda>swept.
        sweep_credit env job swept))))))))"

definition sweep_native :: "'w env \<Rightarrow> sweep_job \<Rightarrow> ('w engine, unit) py" where
  "sweep_native env job = run_sweep env (job\<lparr>job_token_address := None\<rparr>)"

definition sweep_erc20 :: "'w env \<Rightarrow> sweep_job \<Rightarrow> string \<Rightarrow> ('w engine, unit) py" where
  "sweep_erc20 env job token_address = run_sweep env (job\<lparr>job_token_address := Some token_address\<rparr>)"

end
