(* ===== verification/Sweep_Example.thy ===== *)
theory Sweep_Example
  imports Sweep_Engine
begin

text \<open>
  A concrete environment for the sweep engine, on which the theorems with hypotheses are applied:
  one chain whose node answers every call, a clock that only sleeping moves, and three things a
  scenario chooses (the status of the receipts, what becomes of a broadcast, what becomes of
  the credit).
\<close>

definition demo_env ::
    "int option \<Rightarrow> (bytes \<Rightarrow> exn + bytes) \<Rightarrow> (exn + unit) \<Rightarrow> int env" where
  "demo_env receipt send credit =
     \<lparr>configs = map (\<lambda>c. (cc_chain_id c, c)) chain_definitions,
      chain_rpc_urls = demo_urls,
      rpc_drift = (\<lambda>_ g. g),
      clock = (\<lambda>w. w),
      aio_sleep = (\<lambda>n w. (Inr (), w + n)),
      eth_get_balance = (\<lambda>_ _ w. (Inr 5000000000000000, w)),
      erc20_balance_of = (\<lambda>_ _ _ w. (Inr 5000000, w)),
      eth_base_fee = (\<lambda>_ w. (Inr (Some 1000000000), w)),
      eth_gas_price = (\<lambda>_ w. (Inr 1100000000, w)),
      eth_transaction_count = (\<lambda>_ _ _ w. (Inr 4, w)),
      eth_send_raw_transaction = (\<lambda>_ tx w. (send tx, w)),
      eth_receipt_status = (\<lambda>_ _ w. (Inr receipt, w)),
      op_get_l1_fee = (\<lambda>_ _ w. (Inr 100, w)),
      arb_gas_l1_component = (\<lambda>_ _ w. (Inr (10, 10), w)),
      acc_gas_tank_address = (\<lambda>w. (Inr ''0xtank'', w)),
      acc_generate_gas_funding_tx = (\<lambda>_ _ _ _ _ w. (Inr [1], w)),
      acc_generate_sweep_native = (\<lambda>_ _ _ _ _ _ _ w. (Inr [2], w)),
      acc_generate_sweep_erc20 = (\<lambda>_ _ _ _ _ _ _ _ w. (Inr [3], w)),
      acc_is_deposit_processed = (\<lambda>_ w. (Inr False, w)),
      acc_credit_deposit = (\<lambda>_ _ _ _ w. (credit, w))\<rparr>"

text \<open>The node echoes the transaction's first byte as its hash.\<close>

definition demo_send :: "bytes \<Rightarrow> exn + bytes" where
  "demo_send tx = Inr (take 1 tx)"

definition demo_job :: sweep_job where
  "demo_job = \<lparr>job_deposit_address = ''0xD'', job_beneficiary = ''0xB'', job_chain_type = ''evm'',
     job_version = 1, job_chain_id = 1, job_token_address = None, job_token_id = [9],
     job_amount = 3000000000000000, job_deposit_id = replicate 32 7\<rparr>"

definition demo_eth :: client where
  "demo_eth = \<lparr>cl_url = ''eth'', cl_headers = None\<rparr>"

definition demo_rpc :: rpc_state where
  "demo_rpc = (rpc_init demo_urls)
     \<lparr>verified_urls := [(1, ''eth'')], clients := [(''eth'', demo_eth)]\<rparr>"

definition demo_engine :: "disk \<Rightarrow> int engine" where
  "demo_engine d = \<lparr>world = 1000, rpc = demo_rpc, web3_cache = [1 \<mapsto> demo_eth], disk = d,
     gas_funding_tx_hashes = {}, trace = []\<rparr>"

section \<open>Running a coroutine by rewriting\<close>

text \<open>
  The congruences keep \<open>simp\<close> out of the continuations, so that a run is rewritten step by
  step in the order of the program.
\<close>

lemma bind_lazy: "m = m' \<Longrightarrow> py_bind m f = py_bind m' f"
  and then_lazy: "m = m' \<Longrightarrow> py_then m n = py_then m' n"
  and try_lazy: "m = m' \<Longrightarrow> py_try m h = py_try m' h"
  by simp_all

lemma bind_run: "py_bind m f s = (case m s of (Inl e, t) \<Rightarrow> (Inl e, t) | (Inr x, t) \<Rightarrow> f x t)"
  and then_run: "py_then m n s = (case m s of (Inl e, t) \<Rightarrow> (Inl e, t) | (Inr x, t) \<Rightarrow> n t)"
  and try_run: "py_try m h s = (case m s of (Inl e, t) \<Rightarrow> h e t | (Inr x, t) \<Rightarrow> (Inr x, t))"
  by (simp_all add: py_bind_def py_then_def py_try_def split: prod.split sum.split)

lemmas run_simps =
  bind_run then_run try_run py_catch_def py_ret_def py_raise_def py_get_def py_modify_def
  py_lift_def py_index_def await_def time_now_def emit_def add_funding_hash_def recheck_served_def

lemmas run_lazy = bind_lazy then_lazy try_lazy

lemma demo_get_web3 [simp]:
  "rpc s = demo_rpc \<Longrightarrow> web3_cache s = [1 \<mapsto> demo_eth] \<Longrightarrow>
     get_web3 (demo_env r sd c) 1 s = (Inr demo_eth, s)"
  by (simp add: get_web3_def require_verified_web3_def verified_web3_def verified_url_def
      demo_rpc_def client_for_url_def demo_eth_def)

lemma demo_config: "map_of (configs (demo_env r sd c)) 1 = Some
  (chain_config_defaults\<lparr>cc_chain_id := 1, finality_depth := 32,
         min_deposit_native_wei := 2000000000000000,
         min_deposit_erc20_wei := 1000000,
         gas_funding_amount_wei := 1000000000000000,
         min_sweep_gas_price_wei := 100000000\<rparr>)"
  by (simp add: demo_env_def chain_definitions_def chain_config_defaults_def)

lemma demo_dicts [simp]:
  "MIN_SWEEP_GAS_PRICE_WEI (configs (demo_env r sd c)) 1 = Some 100000000"
  "GAS_FUNDING_AMOUNT_WEI (configs (demo_env r sd c)) 1 = Some 1000000000000000"
proof -
  have "chain_table_ok (configs (demo_env r sd c))"
    unfolding demo_env_def using build_chain_configs_table [OF build_chain_configs_eq [of None]] by simp
  then show "MIN_SWEEP_GAS_PRICE_WEI (configs (demo_env r sd c)) 1 = Some 100000000"
    "GAS_FUNDING_AMOUNT_WEI (configs (demo_env r sd c)) 1 = Some 1000000000000000"
    by (simp_all add: MIN_SWEEP_GAS_PRICE_WEI_def GAS_FUNDING_AMOUNT_WEI_def derived_dict_lookup demo_config)
qed

lemma demo_selectors [simp]:
  "rpc_drift (demo_env r sd c) w g = g" "clock (demo_env r sd c) w = w"
  "aio_sleep (demo_env r sd c) n w = (Inr (), w + n)"
  "eth_get_balance (demo_env r sd c) w3 a w = (Inr 5000000000000000, w)"
  "eth_base_fee (demo_env r sd c) w3 w = (Inr (Some 1000000000), w)"
  "eth_gas_price (demo_env r sd c) w3 w = (Inr 1100000000, w)"
  "eth_transaction_count (demo_env r sd c) w3 a b w = (Inr 4, w)"
  "eth_send_raw_transaction (demo_env r sd c) w3 tx w = (sd tx, w)"
  "eth_receipt_status (demo_env r sd c) w3 h w = (Inr r, w)"
  "acc_gas_tank_address (demo_env r sd c) w = (Inr ''0xtank'', w)"
  "acc_generate_gas_funding_tx (demo_env r sd c) a i n m p w = (Inr [1], w)"
  "acc_generate_sweep_native (demo_env r sd c) a b i j l n p w = (Inr [2], w)"
  "acc_is_deposit_processed (demo_env r sd c) dep w = (Inr False, w)"
  "acc_credit_deposit (demo_env r sd c) a tok n dep w = (c, w)"
  by (simp_all add: demo_env_def)

lemma demo_check [simp]:
  "rpc s = demo_rpc \<Longrightarrow> sweep_check (demo_env r sd c) w3 demo_job s = (Inr True, s)"
  by (simp add: sweep_check_def read_balance_def demo_job_def run_simps)

lemma demo_price [simp]:
  "rpc s = demo_rpc \<Longrightarrow> get_safe_gas_price (demo_env r sd c) w3 1 s = (Inr 1250000000, s)"
  by (simp add: get_safe_gas_price_def run_simps)

lemma demo_fee [simp]:
  "estimate_l1_data_fee (configs (demo_env r sd c)) f g 1 b s = (Inr 0, s)"
  by (simp add: estimate_l1_data_fee_def demo_config chain_config_defaults_def py_ret_def)

lemmas wait_loop_61 = wait_loop.simps(2) [of 60, unfolded Suc_numeral semiring_norm]

lemma demo_wait [simp]:
  "rpc s = demo_rpc \<Longrightarrow> wait_for_receipt (demo_env (Some st) sd c) w3 h s =
     (Inr st, s\<lparr>trace := trace s @ [EvReceipt w3 h st]\<rparr>)"
  by (simp add: wait_for_receipt_def run_simps RECEIPT_TIMEOUT_def wait_loop_61 cong: run_lazy)

lemma new_record_id [simp]: "sr_deposit_id_hex (new_record job now) = to_hex (job_deposit_id job)"
  by (simp add: new_record_def)

lemma demo_key [simp]: "record_key (to_hex (replicate 32 7)) = Some (bytes_hex (replicate 32 7))"
  by (simp add: record_key_to_hex)

lemma demo_job_fields [simp]: "job_chain_id demo_job = 1" "job_token_address demo_job = None"
  "job_deposit_id demo_job = replicate 32 7" "job_deposit_address demo_job = ''0xD''"
  by (simp_all add: demo_job_def)

lemma demo_record_ok [simp]:
  "sweep_record_post_init (new_record demo_job now) = Inr (new_record demo_job now)"
  by (simp add: sweep_record_post_init_def new_record_def demo_job_def)

lemma demo_save [simp]:
  "record_key (sr_deposit_id_hex r) \<noteq> None \<Longrightarrow> engine_save r s =
     (Inr (), s\<lparr>disk := projr (save_record r (disk s)), trace := trace s @ [EvSave r]\<rparr>)"
  by (auto simp: engine_save_def save_record_def split: sum.split option.split)

lemma demo_delete [simp]:
  "record_key i \<noteq> None \<Longrightarrow> engine_delete i s =
     (Inr (), s\<lparr>disk := projr (delete_record i (disk s)), trace := trace s @ [EvDelete i]\<rparr>)"
  by (auto simp: engine_delete_def delete_record_def record_path_def split: sum.split option.split)

lemmas sweep_run_simps =
  run_sweep_def run_simps sweep_fund_def sweep_send_def sweep_credit_def idempotent_credit_def
  generate_sweep_def demo_engine_def demo_send_def Let_def

definition demo_record :: sweep_record where
  "demo_record = new_record demo_job 1000"

text \<open>The undisturbed run.\<close>

lemma demo_run_good:
  "fst (run_sweep (demo_env (Some 1) demo_send (Inr ())) demo_job (demo_engine d)) = Inr ()
   \<and> length (trace (snd (run_sweep (demo_env (Some 1) demo_send (Inr ())) demo_job (demo_engine d)))) = 11"
  by (simp add: sweep_run_simps cong: run_lazy del: replicate.simps)

end
