(* ===== verification/Sweep_Protocol.thy ===== *)
theory Sweep_Protocol
  imports Sweep_Example "HOL-Library.Sublist"
begin

text \<open>
  What one sweep does, on every path. The protocol of a sweep is written down as the list of
  its lasting effects in order; a run, however it ends, has done a prefix of it
  (\<open>run_sweep_protocol\<close>). From the prefix follow the properties a user of the engine cares
  about: nothing is credited before the sweep transaction's receipt, the record is deleted only
  after the credit, and whatever the point of a crash, the directory holds the record that the
  recovery needs.
\<close>

section \<open>Quiet steps\<close>

text \<open>A step is quiet when it leaves the trace, the directory and the hash set as they are.\<close>

definition same_effects :: "'w engine \<Rightarrow> 'w engine \<Rightarrow> bool" where
  "same_effects s t \<longleftrightarrow> trace t = trace s \<and> disk t = disk s
     \<and> gas_funding_tx_hashes t = gas_funding_tx_hashes s"

definition quiet :: "('w engine, 'a) py \<Rightarrow> bool" where
  "quiet m \<longleftrightarrow> (\<forall>s. keeps (same_effects s) m)"

named_theorems quiet_intros \<open>quiet steps\<close>

lemma same_effects_refl [simp]: "same_effects s s"
  by (simp add: same_effects_def)

lemma quiet_same: "quiet m \<Longrightarrow> m s = (r, t) \<Longrightarrow> same_effects s t"
  using keepsD [of "same_effects s" m s r t] by (simp add: quiet_def)

lemma quiet_ret [quiet_intros]: "quiet (py_ret x)"
  and quiet_raise [quiet_intros]: "quiet (py_raise e)"
  and quiet_get [quiet_intros]: "quiet py_get"
  and quiet_lift [quiet_intros]: "quiet (py_lift r)"
  by (simp_all add: quiet_def keeps_intros)

lemma quiet_bind [quiet_intros]: "quiet m \<Longrightarrow> (\<And>x. quiet (f x)) \<Longrightarrow> quiet (py_bind m f)"
  by (simp add: quiet_def keeps_intros)

lemma quiet_then [quiet_intros]: "quiet m \<Longrightarrow> quiet n \<Longrightarrow> quiet (py_then m n)"
  by (simp add: quiet_def keeps_intros)

lemma quiet_try [quiet_intros]: "quiet m \<Longrightarrow> (\<And>e. quiet (h e)) \<Longrightarrow> quiet (py_try m h)"
  by (simp add: quiet_def keeps_intros)

lemma quiet_catch [quiet_intros]: "quiet m \<Longrightarrow> (\<And>e. quiet (h e)) \<Longrightarrow> quiet (py_catch m h)"
  by (simp add: quiet_def keeps_intros)

lemma quiet_if [quiet_intros]: "(b \<Longrightarrow> quiet m) \<Longrightarrow> (\<not> b \<Longrightarrow> quiet n) \<Longrightarrow> quiet (if b then m else n)"
  by simp

lemma quiet_await [quiet_intros]: "quiet (await env f)"
  by (auto simp: quiet_def keeps_def await_def same_effects_def split: prod.splits)

lemma quiet_time_now [quiet_intros]: "quiet (time_now env)"
  unfolding time_now_def by (intro quiet_intros)

lemma quiet_get_web3 [quiet_intros]: "quiet (get_web3 env cid)"
  by (auto simp: quiet_def keeps_def get_web3_def same_effects_def split: prod.splits)

lemma quiet_recheck [quiet_intros]: "quiet (recheck_served env cid)"
  unfolding recheck_served_def by (intro quiet_intros)

lemma quiet_gas_price [quiet_intros]: "quiet (get_safe_gas_price env w3 cid)"
  unfolding get_safe_gas_price_def Let_def by (intro quiet_intros)

lemma quiet_read_balance [quiet_intros]: "quiet (read_balance env w3 job)"
  unfolding read_balance_def by (simp add: quiet_await split: option.split)

lemma quiet_generate [quiet_intros]: "quiet (generate_sweep env job n g)"
  unfolding generate_sweep_def by (simp add: quiet_await split: option.split)

lemma quiet_check [quiet_intros]: "quiet (sweep_check env w3 job)"
  unfolding sweep_check_def by (intro quiet_intros)

lemma quiet_l1_fee [quiet_intros]:
  "quiet (estimate_l1_data_fee c (\<lambda>d. await env (f d)) (\<lambda>d. await env (g d)) cid b)"
  unfolding quiet_def
  by (intro allI keeps_estimate_l1_data_fee quiet_await [unfolded quiet_def, rule_format])

section \<open>The effects of the stages\<close>

text \<open>
  \<open>does evs s t\<close>: between the states exactly these effects were traced, and the directory and
  the set of funding hashes are what they make of them.
\<close>

fun apply_event :: "event \<Rightarrow> disk \<Rightarrow> disk" where
  "apply_event (EvSave r) d = (case save_record r d of Inl _ \<Rightarrow> d | Inr d' \<Rightarrow> d')"
| "apply_event (EvDelete i) d = (case delete_record i d of Inl _ \<Rightarrow> d | Inr d' \<Rightarrow> d')"
| "apply_event _ d = d"

fun apply_hash :: "event \<Rightarrow> string set \<Rightarrow> string set" where
  "apply_hash (EvFunding h) hs = insert h hs"
| "apply_hash _ hs = hs"

definition does :: "event list \<Rightarrow> 'w engine \<Rightarrow> 'w engine \<Rightarrow> bool" where
  "does evs s t \<longleftrightarrow> trace t = trace s @ evs \<and> disk t = fold apply_event evs (disk s)
     \<and> gas_funding_tx_hashes t = fold apply_hash evs (gas_funding_tx_hashes s)"

text \<open>
  \<open>performs m T\<close>: whatever \<open>m\<close> starts from, the effects it did and its result are related by
  \<open>T\<close>. The rules follow the program text and hand each effect to the relation.
\<close>

definition performs :: "('w engine, 'a) py \<Rightarrow> (event list \<Rightarrow> exn + 'a \<Rightarrow> bool) \<Rightarrow> bool" where
  "performs m T \<longleftrightarrow> (\<forall>s r t. m s = (r, t) \<longrightarrow> (\<exists>evs. does evs s t \<and> T evs r))"

named_theorems performs_intros \<open>effects of the constructs and primitives\<close>

lemma performsD: "performs m T \<Longrightarrow> m s = (r, t) \<Longrightarrow> \<exists>evs. does evs s t \<and> T evs r"
  by (simp add: performs_def)

lemma performs_mono: "performs m T \<Longrightarrow> (\<And>evs r. T evs r \<Longrightarrow> T' evs r) \<Longrightarrow> performs m T'"
  unfolding performs_def by blast

lemma performs_ret [performs_intros]: "T [] (Inr x) \<Longrightarrow> performs (py_ret x) T"
  by (auto simp: performs_def py_ret_def does_def)

lemma performs_raise [performs_intros]: "T [] (Inl e) \<Longrightarrow> performs (py_raise e) T"
  by (auto simp: performs_def py_raise_def does_def)

lemma performs_if [performs_intros]:
  "(b \<Longrightarrow> performs m T) \<Longrightarrow> (\<not> b \<Longrightarrow> performs n T) \<Longrightarrow> performs (if b then m else n) T"
  by simp

lemma performs_quiet: "quiet m \<Longrightarrow> (\<And>r. T [] r) \<Longrightarrow> performs m T"
  unfolding performs_def does_def by (metis append_Nil2 fold_simps(1) quiet_same same_effects_def)

lemma performs_bind:
  assumes "performs m A" and "\<And>x. performs (f x) (B x)"
    and "\<And>evs e. A evs (Inl e) \<Longrightarrow> T evs (Inl e)"
    and "\<And>xs ys x r. A xs (Inr x) \<Longrightarrow> B x ys r \<Longrightarrow> T (xs @ ys) r"
  shows "performs (py_bind m f) T"
  unfolding performs_def
proof (intro allI impI)
  fix s r t assume run: "py_bind m f s = (r, t)"
  obtain r1 s1 where m: "m s = (r1, s1)" by (cases "m s")
  then obtain xs where xs: "does xs s s1" "A xs r1" using assms(1) performsD by blast
  show "\<exists>evs. does evs s t \<and> T evs r"
  proof (cases r1)
    case (Inl e)
    then show ?thesis using run m xs assms(3) by (auto simp: py_bind_def)
  next
    case (Inr x)
    then have "f x s1 = (r, t)" using run m by (simp add: py_bind_def)
    then obtain ys where ys: "does ys s1 t" "B x ys r" using assms(2) performsD by blast
    with xs Inr have "does (xs @ ys) s t" "T (xs @ ys) r"
      using assms(4) by (auto simp: does_def)
    then show ?thesis by blast
  qed
qed

lemma performs_quiet_bind:
  assumes "quiet m" and "\<And>x. performs (f x) T" and "\<And>e. T [] (Inl e)"
  shows "performs (py_bind m f) T"
  by (rule performs_bind [where A = "\<lambda>evs _. evs = []" and B = "\<lambda>_. T"])
    (use assms in \<open>auto intro: performs_quiet\<close>)

lemma performs_quiet_then:
  "quiet m \<Longrightarrow> performs n T \<Longrightarrow> (\<And>e. T [] (Inl e)) \<Longrightarrow> performs (py_then m n) T"
  unfolding py_then_def by (rule performs_quiet_bind)

lemma performs_emit_then:
  assumes "performs n (\<lambda>evs. T (e # evs))" and "\<And>d. apply_event e d = d" "\<And>hs. apply_hash e hs = hs"
  shows "performs (py_then (emit e) n) T"
  unfolding py_then_def
  by (rule performs_bind [where A = "\<lambda>evs r. evs = [e] \<and> r = Inr ()" and B = "\<lambda>_ evs. T (e # evs)"])
    (use assms in \<open>auto simp: performs_def emit_def py_modify_def does_def\<close>)

lemma performs_funding_then:
  assumes "performs n (\<lambda>evs. T (EvFunding (ascii_lower h) # evs))"
  shows "performs (py_then (add_funding_hash h) n) T"
  unfolding py_then_def
  by (rule performs_bind [where A = "\<lambda>evs r. evs = [EvFunding (ascii_lower h)] \<and> r = Inr ()"
        and B = "\<lambda>_ evs. T (EvFunding (ascii_lower h) # evs)"])
    (use assms in \<open>auto simp: performs_def add_funding_hash_def py_modify_def does_def\<close>)

lemma performs_save:
  "performs (engine_save r) (\<lambda>evs res.
     (evs = [EvSave r] \<and> res = Inr () \<and> record_key (sr_deposit_id_hex r) \<noteq> None)
     \<or> (evs = [] \<and> (\<exists>e. res = Inl e)))"
  by (auto simp: performs_def engine_save_def does_def save_record_def split: sum.splits option.splits)

lemma performs_save_then:
  assumes "record_key (sr_deposit_id_hex r) \<noteq> None \<Longrightarrow> performs n (\<lambda>evs. T (EvSave r # evs))"
    and "\<And>e. T [] (Inl e)"
  shows "performs (py_then (engine_save r) n) T"
proof (cases "record_key (sr_deposit_id_hex r) = None")
  case True
  then show ?thesis
    unfolding py_then_def performs_def py_bind_def does_def engine_save_def save_record_def
    using assms(2) by auto
next
  case False
  then show ?thesis
    unfolding py_then_def
    by (intro performs_bind [OF performs_save, where B = "\<lambda>_ evs. T (EvSave r # evs)"])
      (use assms in auto)
qed

lemma performs_delete:
  "record_key i \<noteq> None \<Longrightarrow> T [EvDelete i] (Inr ()) \<Longrightarrow> performs (engine_delete i) T"
  by (auto simp: performs_def engine_delete_def does_def delete_record_def record_path_def
      split: sum.splits)

lemma performs_wait_loop:
  "performs (wait_loop n env w3 h d) (\<lambda>evs res.
     (\<exists>st. evs = [EvReceipt w3 h st] \<and> res = Inr st) \<or> (evs = [] \<and> (\<exists>e. res = Inl e)))"
proof (induction n)
  case (Suc n)
  have q: "quiet (py_try (await env (eth_receipt_status env w3 h))
      (\<lambda>e. if poll_retries e then py_ret None else py_raise e))"
    by (intro quiet_intros)
  show ?case
    by (auto intro!: performs_quiet_bind [OF quiet_time_now] performs_quiet_bind [OF q]
        performs_if performs_quiet_then [OF quiet_await Suc] performs_emit_then performs_ret
        performs_raise split: option.split)
qed (simp add: performs_raise)

lemma performs_wait_bind:
  assumes "\<And>st. performs (f st) (\<lambda>evs. T (EvReceipt w3 h st # evs))" and "\<And>e. T [] (Inl e)"
  shows "performs (py_bind (wait_for_receipt env w3 h) f) T"
proof -
  have "performs (wait_for_receipt env w3 h) (\<lambda>evs res.
     (\<exists>st. evs = [EvReceipt w3 h st] \<and> res = Inr st) \<or> (evs = [] \<and> (\<exists>e. res = Inl e)))"
    unfolding wait_for_receipt_def
    by (rule performs_quiet_bind [OF quiet_time_now performs_wait_loop]) auto
  then show ?thesis
    by (rule performs_bind [where B = "\<lambda>st evs. T (EvReceipt w3 h st # evs)"])
      (use assms in auto)
qed

lemma performs_credit:
  "performs (idempotent_credit env b tok a d) (\<lambda>evs _. evs = [EvCredit b tok a d])"
  unfolding idempotent_credit_def
  by (rule performs_emit_then, rule performs_quiet)
    (auto intro!: quiet_intros split: exn.split)

lemmas performs_steps =
  performs_emit_then performs_funding_then performs_save_then performs_wait_bind performs_if
  performs_ret performs_raise performs_quiet_bind performs_quiet_then

section \<open>The stages of a sweep\<close>

lemma bind_bind: "py_bind (py_bind m f) g = py_bind m (\<lambda>x. py_bind (f x) g)"
  by (auto simp: fun_eq_iff py_bind_def split: prod.splits sum.splits)

lemma then_bind: "py_bind (py_then m n) g = py_then m (py_bind n g)"
  by (simp add: py_then_def bind_bind)

lemma ret_bind: "py_bind (py_ret x) g = g x" and raise_bind: "py_bind (py_raise e) h = py_raise e"
  by (simp_all add: fun_eq_iff py_bind_def py_ret_def py_raise_def)

lemma if_bind: "py_bind (if b then m else n) g = (if b then py_bind m g else py_bind n g)"
  by simp

lemmas bind_assoc = bind_bind then_bind ret_bind raise_bind if_bind

lemmas quiet_steps =
  quiet_await quiet_time_now quiet_get_web3 quiet_recheck quiet_gas_price quiet_read_balance
  quiet_generate quiet_check quiet_l1_fee quiet_lift

definition funded_record :: "string \<Rightarrow> sweep_record \<Rightarrow> sweep_record" where
  "funded_record h r = r\<lparr>sr_gas_funding_tx_hash := Some h, sr_state := GAS_FUNDED\<rparr>"

definition sent_record :: "string \<Rightarrow> sweep_record \<Rightarrow> sweep_record" where
  "sent_record h r = r\<lparr>sr_sweep_tx_hash := Some h\<rparr>"

definition swept_record :: "sweep_record \<Rightarrow> sweep_record" where
  "swept_record r = r\<lparr>sr_state := SWEPT\<rparr>"

text \<open>
  One rule per stage: the effects it has done when it goes on, and that it can only have done a
  prefix of them when it fails.
\<close>

definition fund_plan :: "client \<Rightarrow> sweep_record \<Rightarrow> bytes \<Rightarrow> bytes \<Rightarrow> int \<Rightarrow> event list" where
  "fund_plan c r tx h st =
     [EvSend c tx, EvFunding (to_hex h), EvSave (funded_record (to_hex h) r),
      EvReceipt c (to_hex h) st]"

definition send_plan :: "client \<Rightarrow> sweep_record \<Rightarrow> bytes \<Rightarrow> bytes \<Rightarrow> int \<Rightarrow> event list" where
  "send_plan c r tx h st =
     [EvSend c tx, EvSave (sent_record (to_hex h) r), EvReceipt c (to_hex h) st,
      EvSave (swept_record (sent_record (to_hex h) r))]"

lemmas plan_defs = fund_plan_def send_plan_def funded_record_def sent_record_def swept_record_def

lemma performs_fund_bind:
  assumes ok: "\<And>tx h. record_key (sr_deposit_id_hex record) \<noteq> None \<Longrightarrow>
      performs (f (funded_record (to_hex h) record)) (\<lambda>evs. T (fund_plan w3 record tx h 1 @ evs))"
    and fail: "\<And>n tx h st e. T (take n (fund_plan w3 record tx h st)) (Inl e)"
  shows "performs (py_bind (sweep_fund env w3 job gas_price record) f) T"
proof -
  note fails = fail [where n = 0] fail [where n = 1] fail [where n = 2] fail [where n = 3] fail [where n = 4]
  show ?thesis
    unfolding sweep_fund_def Let_def bind_assoc
    by (intro performs_steps quiet_steps; (use fails in \<open>simp add: plan_defs; fail\<close>)?;
        (use ok in \<open>simp add: plan_defs\<close>)?)
qed

lemma performs_send_bind:
  assumes ok: "\<And>tx h. record_key (sr_deposit_id_hex record) \<noteq> None \<Longrightarrow>
      performs (f (swept_record (sent_record (to_hex h) record)))
        (\<lambda>evs. T (send_plan w3 record tx h 1 @ evs))"
    and fail: "\<And>n tx h st e. n < 4 \<Longrightarrow> T (take n (send_plan w3 record tx h st)) (Inl e)"
  shows "performs (py_bind (sweep_send env w3 job record) f) T"
proof -
  note fails = fail [where n = 0] fail [where n = 1] fail [where n = 2] fail [where n = 3]
  show ?thesis
    unfolding sweep_send_def Let_def bind_assoc
    by (intro performs_steps quiet_steps; (use fails in \<open>simp add: plan_defs; fail\<close>)?;
        (use ok in \<open>simp add: plan_defs\<close>)?)
qed

lemma performs_sweep_credit:
  assumes "record_key (sr_deposit_id_hex record) \<noteq> None"
    and "T [EvCredit (job_beneficiary job) (job_token_id job) (job_amount job) (job_deposit_id job),
            EvDelete (sr_deposit_id_hex record)] (Inr ())"
    and "\<And>e. is_exception e \<longrightarrow> e = SweepCreditPending (sr_deposit_id_hex record) \<Longrightarrow>
      T [EvCredit (job_beneficiary job) (job_token_id job) (job_amount job) (job_deposit_id job)] (Inl e)"
  shows "performs (sweep_credit env job record) T"
proof -
  let ?cr = "EvCredit (job_beneficiary job) (job_token_id job) (job_amount job) (job_deposit_id job)"
  have "performs (py_catch (idempotent_credit env (job_beneficiary job) (job_token_id job)
        (job_amount job) (job_deposit_id job))
        (\<lambda>_. py_raise (SweepCreditPending (sr_deposit_id_hex record))))
      (\<lambda>evs r. evs = [?cr] \<and> (\<forall>e. r = Inl e \<longrightarrow> is_exception e \<longrightarrow>
         e = SweepCreditPending (sr_deposit_id_hex record)))"
    using performs_credit [of env "job_beneficiary job" "job_token_id job" "job_amount job"
        "job_deposit_id job"]
    by (fastforce simp: performs_def py_catch_def py_try_def py_raise_def split: prod.splits sum.splits
        if_splits)
  then show ?thesis
    unfolding sweep_credit_def py_then_def
    by (rule performs_bind [where B = "\<lambda>_ evs r. evs = [EvDelete (sr_deposit_id_hex record)] \<and> r = Inr ()"])
      (use assms in \<open>auto intro: performs_delete\<close>)
qed

section \<open>The protocol\<close>

definition sweep_plan ::
    "sweep_job \<Rightarrow> client \<Rightarrow> int \<Rightarrow> bytes \<Rightarrow> bytes \<Rightarrow> int \<Rightarrow> bytes \<Rightarrow> bytes \<Rightarrow> int \<Rightarrow> event list" where
  "sweep_plan job c now ftx fh fok stx sh sok =
     (let r = new_record job now; fr = funded_record (to_hex fh) r in
      EvSave r # fund_plan c r ftx fh fok @ send_plan c fr stx sh sok @
      [EvCredit (job_beneficiary job) (job_token_id job) (job_amount job) (job_deposit_id job),
       EvDelete (sr_deposit_id_hex r)])"

definition sweep_protocol :: "sweep_job \<Rightarrow> event list \<Rightarrow> exn + unit \<Rightarrow> bool" where
  "sweep_protocol job evs r \<longleftrightarrow>
     (\<exists>c now ftx fh fok stx sh sok.
        prefix evs (sweep_plan job c now ftx fh fok stx sh sok)
        \<and> (5 < length evs \<longrightarrow> fok = 1) \<and> (8 < length evs \<longrightarrow> sok = 1)
        \<and> (evs \<noteq> [] \<longrightarrow> record_ok (new_record job now) \<and> length (job_deposit_id job) = 32))
     \<and> (r = Inr () \<longrightarrow> length evs = 0 \<or> length evs = 11)
     \<and> (length evs = 11 \<longrightarrow> r = Inr ())
     \<and> (\<forall>e. r = Inl e \<longrightarrow> length evs = 10 \<longrightarrow> is_exception e \<longrightarrow>
          e = SweepCreditPending (to_hex (job_deposit_id job)))"

lemma record_key_bytes: "record_key (to_hex bs) \<noteq> None \<longleftrightarrow> length bs = 32"
  using record_key_to_hex [of bs] by (auto simp: record_key_def Let_def split: if_splits)

lemma length_plans [simp]:
  "length (fund_plan c r tx h st) = 4" "length (send_plan c r tx h st) = 4"
  by (simp_all add: fund_plan_def send_plan_def)

lemma protocolI:
  assumes "prefix evs (sweep_plan job c now ftx fh fok stx sh sok)"
    and "record_ok (new_record job now)" "length (job_deposit_id job) = 32"
    and "5 < length evs \<longrightarrow> fok = 1" "8 < length evs \<longrightarrow> sok = 1"
    and "r = Inr () \<longleftrightarrow> length evs = 11"
    and "\<And>e. r = Inl e \<Longrightarrow> length evs = 10 \<Longrightarrow> is_exception e \<Longrightarrow>
          e = SweepCreditPending (to_hex (job_deposit_id job))"
  shows "sweep_protocol job evs r"
  using assms unfolding sweep_protocol_def by blast

lemma stage_record_id [simp]:
  "sr_deposit_id_hex (funded_record h r) = sr_deposit_id_hex r"
  "sr_deposit_id_hex (sent_record h r) = sr_deposit_id_hex r"
  "sr_deposit_id_hex (swept_record r) = sr_deposit_id_hex r"
  by (simp_all add: plan_defs)

lemma performs_stages:
  assumes ok: "record_ok (new_record job now)"
  shows "performs (py_then (engine_save (new_record job now))
      (py_bind (sweep_fund env w3 job gas_price (new_record job now)) (\<lambda>funded.
       py_bind (sweep_send env w3 job funded) (\<lambda>swept. sweep_credit env job swept))))
    (sweep_protocol job)"
proof (rule performs_save_then)
  assume "record_key (sr_deposit_id_hex (new_record job now)) \<noteq> None"
  then have len: "length (job_deposit_id job) = 32" by (simp add: record_key_bytes del: not_None_eq)
  note intro = protocolI [OF _ ok len]
  show "performs (py_bind (sweep_fund env w3 job gas_price (new_record job now)) (\<lambda>funded.
       py_bind (sweep_send env w3 job funded) (\<lambda>swept. sweep_credit env job swept)))
    (\<lambda>evs. sweep_protocol job (EvSave (new_record job now) # evs))"
  proof (rule performs_fund_bind)
    fix n tx h st e
    show "sweep_protocol job (EvSave (new_record job now) # take n (fund_plan w3 (new_record job now) tx h st)) (Inl e)"
      by (rule intro [of _ w3 tx h st])
        (auto simp: sweep_plan_def Let_def min_def intro: prefix_prefix take_is_prefix split: if_splits)
  next
    fix ftx fh
    let ?f = "funded_record (to_hex fh) (new_record job now)"
    let ?done = "EvSave (new_record job now) # fund_plan w3 (new_record job now) ftx fh 1"
    show "performs (py_bind (sweep_send env w3 job ?f) (\<lambda>swept. sweep_credit env job swept))
      (\<lambda>evs. sweep_protocol job (EvSave (new_record job now) # fund_plan w3 (new_record job now) ftx fh 1 @ evs))"
    proof (rule performs_send_bind)
      fix n tx h st e assume "n < (4::nat)"
      then show "sweep_protocol job (EvSave (new_record job now) # fund_plan w3 (new_record job now) ftx fh 1
          @ take n (send_plan w3 ?f tx h st)) (Inl e)"
        by (intro intro [of _ w3 ftx fh 1 tx h st])
          (auto simp: sweep_plan_def Let_def min_def intro: prefix_prefix take_is_prefix split: if_splits)
    next
      fix stx sh
      show "performs (sweep_credit env job (swept_record (sent_record (to_hex sh) ?f)))
        (\<lambda>evs. sweep_protocol job (EvSave (new_record job now) # fund_plan w3 (new_record job now) ftx fh 1
          @ send_plan w3 ?f stx sh 1 @ evs))"
        by (rule performs_sweep_credit)
          (use len in \<open>auto simp: sweep_plan_def Let_def record_key_bytes simp del: not_None_eq
            intro!: intro [of _ w3 ftx fh 1 stx sh 1]\<close>)
    qed
  qed
qed (simp add: sweep_protocol_def)

lemma performs_run_sweep: "performs (run_sweep env job) (sweep_protocol job)"
proof -
  have lift: "performs (py_bind (py_lift (sweep_record_post_init (new_record job now))) f) (sweep_protocol job)"
    if "record_ok (new_record job now) \<Longrightarrow> performs (f (new_record job now)) (sweep_protocol job)" for now f
    using that
    by (auto simp: performs_def py_bind_def py_lift_def does_def sweep_record_post_init_def
        record_ok_def sweep_protocol_def split: if_splits)
  show ?thesis
    unfolding run_sweep_def
    by (intro performs_quiet_bind [OF quiet_get_web3] performs_quiet_bind [OF quiet_check]
        performs_quiet_bind [OF quiet_gas_price] performs_quiet_bind [OF quiet_time_now]
        lift performs_if performs_ret performs_stages)
      (simp_all add: sweep_protocol_def)
qed

text \<open>
  C1. Whatever the nodes, the accounting service and the clock answer, and whenever the coroutine
  is cancelled, a sweep does its lasting effects in this order and stops at any point of it only
  with an exception: write the PENDING record, hand the gas funding to the node, note its hash,
  write GAS_FUNDED, act on a receipt of status 1, hand over the sweep, write its hash, act on a
  receipt of status 1, write SWEPT, ask for the credit, delete the record. It returns normally
  only if it did nothing (the deposit was already processed) or everything; an exception of the
  credit becomes \<open>SweepCreditPending\<close>. The directory and the set of funding hashes are
  changed by these effects alone.
\<close>
theorem run_sweep_protocol:
  "case run_sweep env job s of (r, t) \<Rightarrow> \<exists>evs. trace t = trace s @ evs
     \<and> disk t = fold apply_event evs (disk s)
     \<and> gas_funding_tx_hashes t = fold apply_hash evs (gas_funding_tx_hashes s)
     \<and> sweep_protocol job evs r"
  using performs_run_sweep [of env job] by (fastforce simp: performs_def does_def)

section \<open>Crash safety\<close>

text \<open>The record a sweep has on disk once \<open>k\<close> of its effects are done.\<close>

definition stage_record :: "sweep_job \<Rightarrow> int \<Rightarrow> bytes \<Rightarrow> bytes \<Rightarrow> nat \<Rightarrow> sweep_record option" where
  "stage_record job now fh sh k =
     (let r = new_record job now; f = funded_record (to_hex fh) r; b = sent_record (to_hex sh) f
      in if k < 4 then Some r else if k < 7 then Some f else if k < 9 then Some b
         else if k < 11 then Some (swept_record b) else None)"

lemma record_ok_stage [simp]:
  "record_ok (funded_record h r) = record_ok r" "record_ok (sent_record h r) = record_ok r"
  "record_ok (swept_record r) = record_ok r"
  by (simp_all add: plan_defs record_ok_def)

lemma apply_save:
  assumes "disk_ok d" "record_ok r" "record_key (sr_deposit_id_hex r) = Some k"
  shows "disk_ok (apply_event (EvSave r) d)
    \<and> disk_lookup (apply_event (EvSave r) d) = (disk_lookup d)(k \<mapsto> r)"
  using assms store.save_total [of r k d] store.save_inv [of d r] store.save_lookup [of d r _ k] by auto

lemma apply_delete:
  assumes "disk_ok d" "record_key i = Some k"
  shows "disk_ok (apply_event (EvDelete i) d)
    \<and> disk_lookup (apply_event (EvDelete i) d) = (disk_lookup d)(k := None)"
  using assms store.del_total [of i k d] store.del_inv [of d i] store.del_lookup [of d i _ k] by auto

lemma plan_prefix_disk:
  assumes d: "disk_ok d" and ok: "record_ok (new_record job now)" and len: "length (job_deposit_id job) = 32"
    and k: "0 < k" "k \<le> 11"
  shows "disk_ok (fold apply_event (take k (sweep_plan job c now ftx fh fok stx sh sok)) d)
    \<and> disk_lookup (fold apply_event (take k (sweep_plan job c now ftx fh fok stx sh sok)) d)
      = (disk_lookup d)(bytes_hex (job_deposit_id job) := stage_record job now fh sh k)"
proof -
  let ?r = "new_record job now" and ?key = "bytes_hex (job_deposit_id job)"
  let ?f = "funded_record (to_hex fh) ?r"
  let ?b = "sent_record (to_hex sh) ?f"
  note sv = apply_save [where k = ?key, unfolded apply_event.simps]
  note dl = apply_delete [where k = ?key, unfolded apply_event.simps]
  have key: "record_key (to_hex (job_deposit_id job)) = Some ?key"
    using len by (rule record_key_to_hex)
  define d1 where "d1 = apply_event (EvSave ?r) d"
  define d2 where "d2 = apply_event (EvSave ?f) d1"
  define d3 where "d3 = apply_event (EvSave ?b) d2"
  define d4 where "d4 = apply_event (EvSave (swept_record ?b)) d3"
  define d5 where "d5 = apply_event (EvDelete (to_hex (job_deposit_id job))) d4"
  have 1: "disk_ok d1 \<and> disk_lookup d1 = (disk_lookup d)(?key \<mapsto> ?r)"
    unfolding d1_def by (rule apply_save) (simp_all add: d ok key)
  have 2: "disk_ok d2 \<and> disk_lookup d2 = (disk_lookup d)(?key \<mapsto> ?f)"
    unfolding d2_def using 1 apply_save [of d1 ?f ?key] by (simp add: ok key del: apply_event.simps)
  have 3: "disk_ok d3 \<and> disk_lookup d3 = (disk_lookup d)(?key \<mapsto> ?b)"
    unfolding d3_def using 2 apply_save [of d2 ?b ?key] by (simp add: ok key del: apply_event.simps)
  have 4: "disk_ok d4 \<and> disk_lookup d4 = (disk_lookup d)(?key \<mapsto> swept_record ?b)"
    unfolding d4_def using 3 apply_save [of d3 "swept_record ?b" ?key]
    by (simp add: ok key del: apply_event.simps)
  have 5: "disk_ok d5 \<and> disk_lookup d5 = (disk_lookup d)(?key := None)"
    unfolding d5_def using 4 apply_delete [of d4 "to_hex (job_deposit_id job)" ?key]
    by (simp add: key del: apply_event.simps)
  have "k \<in> {1,2,3,4,5,6,7,8,9,10,11}"
    using k unfolding insert_iff empty_iff by arith
  then show ?thesis
    using 1 2 3 4 5
    by (auto simp: sweep_plan_def fund_plan_def send_plan_def Let_def stage_record_def
        d1_def [symmetric] d2_def [symmetric] d3_def [symmetric] d4_def [symmetric] d5_def [symmetric]
        simp del: apply_event.simps(1,2))
qed

lemma run_sweep_stages:
  assumes "disk_ok (disk s)" and "run_sweep env job s = (r, t)"
  shows "\<exists>evs now fh sh. trace t = trace s @ evs \<and> disk t = fold apply_event evs (disk s)
    \<and> (\<forall>k \<le> length evs.
         disk_ok (fold apply_event (take k evs) (disk s))
       \<and> disk_lookup (fold apply_event (take k evs) (disk s)) =
           (if k = 0 then disk_lookup (disk s)
            else (disk_lookup (disk s))(bytes_hex (job_deposit_id job) := stage_record job now fh sh k)))"
proof -
  obtain evs where evs: "trace t = trace s @ evs" "disk t = fold apply_event evs (disk s)"
      "sweep_protocol job evs r"
    using performsD [OF performs_run_sweep assms(2)] by (auto simp: does_def)
  then obtain c now ftx fh fok stx sh sok where
      p: "prefix evs (sweep_plan job c now ftx fh fok stx sh sok)"
      and ok: "evs \<noteq> [] \<Longrightarrow> record_ok (new_record job now) \<and> length (job_deposit_id job) = 32"
    unfolding sweep_protocol_def by blast
  have "length (sweep_plan job c now ftx fh fok stx sh sok) = 11"
    by (simp add: sweep_plan_def Let_def)
  with p have le: "length evs \<le> 11" using prefix_length_le by metis
  have tk: "take k evs = take k (sweep_plan job c now ftx fh fok stx sh sok)" if "k \<le> length evs" for k
    using p that by (auto simp: prefix_def)
  have "disk_ok (fold apply_event (take k evs) (disk s))
       \<and> disk_lookup (fold apply_event (take k evs) (disk s)) =
           (if k = 0 then disk_lookup (disk s)
            else (disk_lookup (disk s))(bytes_hex (job_deposit_id job) := stage_record job now fh sh k))"
    if k: "k \<le> length evs" for k
  proof (cases "k = 0")
    case False
    with k ok have "record_ok (new_record job now)" "length (job_deposit_id job) = 32"
      by (cases evs; simp)+
    from plan_prefix_disk [OF assms(1) this, of k] False k le tk [OF k] show ?thesis by simp
  qed (simp add: assms(1))
  with evs show ?thesis by blast
qed

text \<open>
  C2. Crash safety: started on a directory the program wrote, a sweep that is stopped after any
  number of its effects leaves a well-formed directory in which no other deposit's record has
  changed and its own deposit has the record of the stage reached: from the first write on a
  record is there until the credit has been asked for, it names the funding transaction from the
  GAS_FUNDED write on and the sweep transaction from the write after the broadcast on, and it is
  SWEPT only after the sweep's receipt.
\<close>
theorem sweep_crash_safe:
  assumes "disk_ok (disk s)" and "run_sweep env job s = (r, t)"
  shows "\<exists>evs now fh sh. trace t = trace s @ evs \<and> disk t = fold apply_event evs (disk s)
    \<and> (\<forall>k \<le> length evs.
         disk_ok (fold apply_event (take k evs) (disk s))
       \<and> disk_lookup (fold apply_event (take k evs) (disk s)) =
           (if k = 0 then disk_lookup (disk s)
            else (disk_lookup (disk s))(bytes_hex (job_deposit_id job) := stage_record job now fh sh k)))"
  by (rule run_sweep_stages [OF assms])

lemma sweep_crash_safe_witness:
  "\<exists>evs now fh sh. length evs = 11
    \<and> trace (snd (run_sweep (demo_env (Some 1) demo_send (Inr ())) demo_job (demo_engine []))) = evs
    \<and> disk_lookup (fold apply_event (take 7 evs) []) (bytes_hex (replicate 32 7)) = stage_record demo_job now fh sh 7
    \<and> stage_record demo_job now fh sh 7 \<noteq> None"
proof -
  let ?run = "run_sweep (demo_env (Some 1) demo_send (Inr ())) demo_job (demo_engine [])"
  obtain r t where run: "?run = (r, t)" by (cases ?run)
  have "disk_ok (disk (demo_engine []))" by (simp add: demo_engine_def disk_ok_def)
  from sweep_crash_safe [OF this run] obtain evs now fh sh where
    "trace t = trace (demo_engine []) @ evs"
    and d: "\<forall>k\<le>length evs. disk_ok (fold apply_event (take k evs) (disk (demo_engine [])))
      \<and> disk_lookup (fold apply_event (take k evs) (disk (demo_engine []))) =
           (if k = 0 then disk_lookup (disk (demo_engine []))
            else (disk_lookup (disk (demo_engine [])))
              (bytes_hex (job_deposit_id demo_job) := stage_record demo_job now fh sh k))"
    by blast
  moreover have "length evs = 11"
    using demo_run_good [of "[]"] run calculation(1) by (simp add: demo_engine_def)
  ultimately show ?thesis
    using run d [rule_format, of 7] by (auto simp: demo_engine_def stage_record_def)
qed

end
