(* ===== verification/Sweep_Recovery.thy ===== *)
theory Sweep_Recovery
  imports Sweep_Protocol Sweep_Example
begin

text \<open>
  The recovery side of \<^verbatim>\<open>src/services/sweep_engine.py\<close>: loading what a restart left in the
  state directory (with the migration of files under legacy names and the setting aside of
  corrupt ones), the reconciliation of broadcast sweeps with the chain, the resumption at startup
  and the periodic pass.

  \<open>recovery_step\<close> says what may be done for one record, and \<open>resume_follows\<close> that the
  startup recovery does nothing else. Two closed runs at the end show where the recovery acts on
  a record that no longer tells the truth.
\<close>

section \<open>Loading the directory\<close>

text \<open>\<open>glob("sweep_*.json")\<close>, and \<open>path.with_suffix(".corrupt")\<close> of such a name.\<close>

definition sweep_file :: "string \<Rightarrow> bool" where
  "sweep_file name \<longleftrightarrow> prefix ''sweep_'' name \<and> suffix ''.json'' name
     \<and> length ''sweep_'' + length ''.json'' \<le> length name"

definition corrupt_name :: "string \<Rightarrow> string" where
  "corrupt_name name = take (length name - length ''.json'') name @ ''.corrupt''"

lemma record_path_sweep: "record_path i = Inr p \<Longrightarrow> sweep_file p"
  by (auto simp: record_path_def record_name_def sweep_file_def suffix_def split: option.splits)

definition rename_file :: "string \<Rightarrow> string \<Rightarrow> disk \<Rightarrow> disk" where
  "rename_file src dst d = os_replace src dst d"

type_synonym loaded = "sweep_record list \<times> disk \<times> string set"

text \<open>
  The body of the loop for one path. A file that cannot be read as a record, or whose record has
  no well-formed deposit id, is renamed; a file under another name than its record's is dropped
  when the record's own file exists and migrated otherwise.
\<close>

definition load_file :: "int \<Rightarrow> string \<Rightarrow> loaded \<Rightarrow> exn + loaded" where
  "load_file now path = (\<lambda>(records, d, hashes).
     case map_of d path of
       None \<Rightarrow> Inl (OSErr ''FileNotFoundError'')
     | Some f \<Rightarrow>
         (case sum_bind (read_record now f) (\<lambda>record.
                 sum_bind (record_path (sr_deposit_id_hex record)) (\<lambda>expected.
                   Inr (record, expected))) of
            Inl e \<Rightarrow> Inr (records, rename_file path (corrupt_name path) d, hashes)
          | Inr (record, expected) \<Rightarrow>
              (if path \<noteq> expected \<and> map_of d expected \<noteq> None
               then Inr (records, AList.delete path d, hashes)
               else Inr (records @ [record],
                         if path \<noteq> expected then rename_file path expected d else d,
                         if truthy (sr_gas_funding_tx_hash record)
                         then insert (ascii_lower (the (sr_gas_funding_tx_hash record))) hashes
                         else hashes))))"

fun load_files :: "int \<Rightarrow> string list \<Rightarrow> loaded \<Rightarrow> exn + loaded" where
  "load_files now [] acc = Inr acc"
| "load_files now (path # paths) acc = sum_bind (load_file now path acc) (load_files now paths)"

definition load_incomplete_sweeps :: "int \<Rightarrow> disk \<Rightarrow> string set \<Rightarrow> exn + loaded" where
  "load_incomplete_sweeps now d hashes =
     load_files now (sort (filter sweep_file (map fst d))) ([], d, hashes)"

definition engine_load :: "'w env \<Rightarrow> ('w engine, sweep_record list) py" where
  "engine_load env = (\<lambda>s.
     case load_incomplete_sweeps (clock env (world s)) (disk s) (gas_funding_tx_hashes s) of
       Inl e \<Rightarrow> (Inl e, s)
     | Inr (records, d, hashes) \<Rightarrow>
         (Inr records, s\<lparr>disk := d, gas_funding_tx_hashes := hashes\<rparr>))"

section \<open>Reconciling with the chain\<close>

definition reconcile_sweep_tx :: "'w env \<Rightarrow> sweep_record \<Rightarrow> ('w engine, sweep_record) py" where
  "reconcile_sweep_tx env record =
     (if sr_state record = SWEPT then py_ret record
      else if \<not> truthy (sr_sweep_tx_hash record) then py_ret record
      else
        let h = the (sr_sweep_tx_hash record) in
        py_bind (py_catch
          (py_bind (get_web3 env (sr_chain_id record)) (\<lambda>w3.
           py_bind (await env (eth_receipt_status env w3 h)) (\<lambda>receipt.
           py_then (recheck_served env (sr_chain_id record))
             (py_ret (Some (w3, receipt))))))
          (\<lambda>e. py_ret None)) (\<lambda>found.
        case found of
          None \<Rightarrow> py_ret record
        | Some (w3, None) \<Rightarrow> py_raise (OtherError ''TypeError'')
        | Some (w3, Some status) \<Rightarrow>
            py_then (emit (EvReceipt w3 h status))
            (if status = 1 then
               (let record' = record\<lparr>sr_state := SWEPT\<rparr>
                in py_then (engine_save record') (py_ret record'))
             else py_ret record)))"

definition persist_resume_error :: "'w env \<Rightarrow> sweep_record \<Rightarrow> exn \<Rightarrow> ('w engine, unit) py" where
  "persist_resume_error env record e =
     py_bind (engine_get env (sr_deposit_id_hex record)) (\<lambda>current.
       case current of
         None \<Rightarrow> py_ret ()
       | Some c \<Rightarrow>
           if truthy (sr_sweep_tx_hash c) then py_ret ()
           else engine_save (c\<lparr>sr_error := Some (str_exn e)\<rparr>))"

section \<open>Resuming\<close>

definition record_bytes :: "string \<Rightarrow> ('w engine, bytes) py" where
  "record_bytes hex = py_lift (bytes_fromhex (removeprefix ''0x'' hex))"

definition record_job :: "sweep_record \<Rightarrow> bytes \<Rightarrow> bytes \<Rightarrow> sweep_job" where
  "record_job r token_id deposit_id =
     \<lparr>job_deposit_address = sr_deposit_address r, job_beneficiary = sr_beneficiary r,
      job_chain_type = sr_chain_type r, job_version = sr_version r, job_chain_id = sr_chain_id r,
      job_token_address = sr_token_address r, job_token_id = token_id,
      job_amount = sr_amount r, job_deposit_id = deposit_id\<rparr>"

definition resume_sweep_from_pending :: "'w env \<Rightarrow> sweep_record \<Rightarrow> ('w engine, unit) py" where
  "resume_sweep_from_pending env record =
     py_bind (record_bytes (sr_token_id_hex record)) (\<lambda>token_id.
     py_bind (record_bytes (sr_deposit_id_hex record)) (\<lambda>deposit_id.
     case sr_token_address record of
       None \<Rightarrow> sweep_native env (record_job record token_id deposit_id)
     | Some token \<Rightarrow> sweep_erc20 env (record_job record token_id deposit_id) token))"

definition retry_credit :: "'w env \<Rightarrow> sweep_record \<Rightarrow> ('w engine, unit) py" where
  "retry_credit env record =
     py_bind (record_bytes (sr_token_id_hex record)) (\<lambda>token_id.
     py_bind (record_bytes (sr_deposit_id_hex record)) (\<lambda>deposit_id.
     py_then (idempotent_credit env (sr_beneficiary record) token_id (sr_amount record) deposit_id)
     (engine_delete (sr_deposit_id_hex record))))"

text \<open>The handlers after a record's attempt: a pending credit is fine, any other exception is
  flagged on the record.\<close>

definition resume_handler ::
    "'w env \<Rightarrow> sweep_record \<Rightarrow> ('w engine, unit) py \<Rightarrow> ('w engine, unit) py" where
  "resume_handler env record m =
     py_catch m (\<lambda>e. case e of
       SweepCreditPending _ \<Rightarrow> py_ret ()
     | _ \<Rightarrow> persist_resume_error env record e)"

definition resume_record :: "'w env \<Rightarrow> sweep_record \<Rightarrow> ('w engine, unit) py" where
  "resume_record env record =
     resume_handler env record
       (if sr_state record = SWEPT then retry_credit env record
        else if \<not> truthy (sr_sweep_tx_hash record) then resume_sweep_from_pending env record
        else py_ret ())"

definition resume_incomplete_sweeps :: "'w env \<Rightarrow> ('w engine, unit) py" where
  "resume_incomplete_sweeps env =
     py_bind (engine_load env) (\<lambda>records.
     py_bind (py_map (reconcile_sweep_tx env) records) (\<lambda>reconciled.
     py_for reconciled (resume_record env)))"

section \<open>The periodic pass\<close>

definition recovery_pass :: "'w env \<Rightarrow> ('w engine, unit) py" where
  "recovery_pass env =
     py_bind (engine_load env) (\<lambda>records.
     py_bind (py_map (reconcile_sweep_tx env) records) (\<lambda>reconciled.
     let swept = filter (\<lambda>r. sr_state r = SWEPT) reconciled;
         resumable = filter (\<lambda>r. sr_state r \<noteq> SWEPT \<and> \<not> truthy (sr_sweep_tx_hash r)) reconciled
     in py_then (py_for resumable (\<lambda>r. resume_handler env r (resume_sweep_from_pending env r)))
        (py_for swept (\<lambda>r. py_catch (retry_credit env r) (\<lambda>_. py_ret ())))))"

text \<open>
  The loop, by fuel: one unit per turn; \<open>running\<close> is the flag as the other tasks leave it.
\<close>

fun recovery_loop :: "nat \<Rightarrow> 'w env \<Rightarrow> ('w \<Rightarrow> bool) \<Rightarrow> ('w engine, unit) py" where
  "recovery_loop 0 env running = py_raise OutOfFuel"
| "recovery_loop (Suc n) env running =
     py_bind py_get (\<lambda>s.
     if \<not> running (world s) then py_ret ()
     else
       py_then (await env (aio_sleep env SWEEP_RECOVERY_INTERVAL))
       (py_bind py_get (\<lambda>s'.
        if \<not> running (world s') then py_ret ()
        else py_then (recovery_pass env) (recovery_loop n env running))))"

section \<open>Effects of the recovery\<close>

fun map_run :: "('a \<Rightarrow> event list \<Rightarrow> exn + 'b \<Rightarrow> bool) \<Rightarrow> 'a list \<Rightarrow> event list \<Rightarrow> exn + 'b list \<Rightarrow> bool" where
  "map_run A [] evs r \<longleftrightarrow> evs = [] \<and> r = Inr []"
| "map_run A (x # xs) evs r \<longleftrightarrow>
     (\<exists>e. r = Inl e \<and> A x evs (Inl e))
   \<or> (\<exists>y us vs q. evs = us @ vs \<and> A x us (Inr y) \<and> map_run A xs vs q \<and> r = map_sum id ((#) y) q)"

fun for_run :: "('a \<Rightarrow> event list \<Rightarrow> exn + unit \<Rightarrow> bool) \<Rightarrow> 'a list \<Rightarrow> event list \<Rightarrow> exn + unit \<Rightarrow> bool" where
  "for_run A [] evs r \<longleftrightarrow> evs = [] \<and> r = Inr ()"
| "for_run A (x # xs) evs r \<longleftrightarrow>
     (\<exists>e. r = Inl e \<and> A x evs (Inl e))
   \<or> (\<exists>us vs. evs = us @ vs \<and> A x us (Inr ()) \<and> for_run A xs vs r)"

lemma performs_map:
  assumes "\<And>x. performs (f x) (A x)"
  shows "performs (py_map f xs) (map_run A xs)"
proof (induction xs)
  case (Cons x xs)
  have rest: "performs (py_bind (py_map f xs) (\<lambda>ys. py_ret (y # ys)))
      (\<lambda>evs r. \<exists>q. map_run A xs evs q \<and> r = map_sum id ((#) y) q)" for y
    by (rule performs_bind [OF Cons, where B = "\<lambda>ys evs r. evs = [] \<and> r = Inr (y # ys)"])
      (force intro: performs_ret)+
  show ?case
    unfolding py_map.simps
    by (rule performs_bind [OF assms rest]) (simp, unfold map_run.simps, blast)
qed (simp add: performs_ret)

lemma performs_for:
  assumes "\<And>x. performs (f x) (A x)"
  shows "performs (py_for xs f) (for_run A xs)"
proof (induction xs)
  case (Cons x xs)
  show ?case
    unfolding py_for.simps py_then_def
    by (rule performs_bind [OF assms, where B = "\<lambda>_. for_run A xs"]) (auto intro: Cons)
qed (simp add: performs_ret)

text \<open>What reconciling one record may do, and what it may leave of it.\<close>

definition reconcile_step :: "sweep_record \<Rightarrow> event list \<Rightarrow> exn + sweep_record \<Rightarrow> bool" where
  "reconcile_step r evs res \<longleftrightarrow>
     (\<exists>c h. prefix evs [EvReceipt c h 1, EvSave (swept_record r)] \<and> sr_sweep_tx_hash r = Some h \<and> h \<noteq> []
        \<and> sr_state r \<noteq> SWEPT \<and> (\<forall>r'. res = Inr r' \<longrightarrow> length evs \<noteq> 1 \<and> r' = (if evs = [] then r else swept_record r)))
   \<or> (\<exists>c h st. evs = [EvReceipt c h st] \<and> sr_sweep_tx_hash r = Some h \<and> h \<noteq> []
        \<and> st \<noteq> 1 \<and> res = Inr r)
   \<or> (evs = [] \<and> res = Inr r)"

definition flag_step :: "event list \<Rightarrow> bool" where
  "flag_step evs \<longleftrightarrow>
     evs = [] \<or> (\<exists>c. evs = [EvSave c] \<and> \<not> truthy (sr_sweep_tx_hash c) \<and> sr_error c \<noteq> None)"

text \<open>The ids a record's texts stand for.\<close>

definition decodes :: "sweep_record \<Rightarrow> bytes \<Rightarrow> bytes \<Rightarrow> bool" where
  "decodes r tok dep \<longleftrightarrow> bytes_fromhex (removeprefix ''0x'' (sr_token_id_hex r)) = Inr tok
     \<and> bytes_fromhex (removeprefix ''0x'' (sr_deposit_id_hex r)) = Inr dep"

definition credit_step :: "sweep_record \<Rightarrow> event list \<Rightarrow> bool" where
  "credit_step r evs \<longleftrightarrow> evs = [] \<or> (\<exists>tok dep. decodes r tok dep
     \<and> prefix evs [EvCredit (sr_beneficiary r) tok (sr_amount r) dep, EvDelete (sr_deposit_id_hex r)])"

definition rerun_step :: "sweep_record \<Rightarrow> event list \<Rightarrow> bool" where
  "rerun_step r evs \<longleftrightarrow> evs = [] \<or> (\<exists>tok dep res. decodes r tok dep
     \<and> sweep_protocol (record_job r tok dep) evs res)"

text \<open>What the startup recovery may do for one reconciled record.\<close>

definition recovery_step :: "sweep_record \<Rightarrow> event list \<Rightarrow> bool" where
  "recovery_step r evs \<longleftrightarrow> (\<exists>us vs. evs = us @ vs \<and> flag_step vs
     \<and> (if sr_state r = SWEPT then credit_step r us
        else if truthy (sr_sweep_tx_hash r) then us = []
        else rerun_step r us))"

lemma performs_reconcile: "performs (reconcile_sweep_tx env r) (reconcile_step r)"
proof (cases "sr_state r = SWEPT \<or> \<not> truthy (sr_sweep_tx_hash r)")
  case True
  then show ?thesis
    unfolding reconcile_sweep_tx_def Let_def
    by (auto intro!: performs_ret simp: reconcile_step_def)
next
  case False
  then obtain h where h: "sr_sweep_tx_hash r = Some h" "h \<noteq> []" "sr_state r \<noteq> SWEPT"
    by (auto simp: truthy_def split: option.splits)
  have q: "quiet (py_catch (py_bind (get_web3 env cid) (\<lambda>w3.
       py_bind (await env (eth_receipt_status env w3 h)) (\<lambda>receipt.
         py_then (recheck_served env cid) (py_ret (Some (w3, receipt)))))) (\<lambda>e. py_ret None))" for cid
    by (intro quiet_intros)
  have "performs (case found of None \<Rightarrow> py_ret r | Some (w3, None) \<Rightarrow> py_raise (OtherError ''TypeError'')
        | Some (w3, Some status) \<Rightarrow> py_then (emit (EvReceipt w3 h status))
            (if status = 1 then py_then (engine_save (r\<lparr>sr_state := SWEPT\<rparr>)) (py_ret (r\<lparr>sr_state := SWEPT\<rparr>))
             else py_ret r)) (reconcile_step r)" for found
    using h by (auto split: option.split prod.split simp: reconcile_step_def swept_record_def
        intro!: performs_emit_then performs_if performs_save_then performs_ret performs_raise)
  then show ?thesis
    using h False unfolding reconcile_sweep_tx_def Let_def
    by (auto simp: reconcile_step_def intro!: performs_quiet_bind [OF q])
qed

lemma performs_try:
  assumes "performs m A" and "\<And>e. performs (h e) (B e)"
    and "\<And>evs x. A evs (Inr x) \<Longrightarrow> T evs (Inr x)"
    and "\<And>xs ys e r. A xs (Inl e) \<Longrightarrow> B e ys r \<Longrightarrow> T (xs @ ys) r"
  shows "performs (py_try m h) T"
  unfolding performs_def
proof (intro allI impI)
  fix s r t assume run: "py_try m h s = (r, t)"
  obtain q u where m: "m s = (q, u)" by (cases "m s")
  then obtain xs where xs: "does xs s u" "A xs q" using assms(1) performsD by blast
  show "\<exists>evs. does evs s t \<and> T evs r"
  proof (cases q)
    case (Inr x)
    then show ?thesis using run m xs assms(3) by (auto simp: py_try_def)
  next
    case (Inl e)
    then have "h e u = (r, t)" using run m by (simp add: py_try_def)
    then obtain ys where ys: "does ys u t" "B e ys r" using assms(2) performsD by blast
    with xs Inl have "does (xs @ ys) s t" "T (xs @ ys) r"
      using assms(4) by (auto simp: does_def)
    then show ?thesis by blast
  qed
qed

lemma quiet_engine_get [quiet_intros]: "quiet (engine_get env i)"
  unfolding engine_get_def by (intro quiet_intros)

lemma quiet_record_bytes: "quiet (record_bytes hex)"
  unfolding record_bytes_def by (intro quiet_intros)

lemma performs_persist: "performs (persist_resume_error env r e) (\<lambda>evs _. flag_step evs)"
proof -
  have "performs (case c of None \<Rightarrow> py_ret () | Some c \<Rightarrow> if truthy (sr_sweep_tx_hash c) then py_ret ()
      else engine_save (c\<lparr>sr_error := Some (str_exn e)\<rparr>)) (\<lambda>evs _. flag_step evs)" for c
    by (auto split: option.split simp: flag_step_def intro!: performs_if performs_ret
        performs_mono [OF performs_save])
  then show ?thesis
    unfolding persist_resume_error_def
    by (intro performs_quiet_bind quiet_engine_get) (simp_all add: flag_step_def)
qed

lemma performs_handler:
  assumes "performs m (\<lambda>evs _. P evs)"
  shows "performs (resume_handler env r m) (\<lambda>evs _. \<exists>us vs. evs = us @ vs \<and> flag_step vs \<and> P us)"
proof -
  have "performs (if is_exception e then (case e of SweepCreditPending _ \<Rightarrow> py_ret ()
      | _ \<Rightarrow> persist_resume_error env r e) else py_raise e) (\<lambda>evs _. flag_step evs)" for e
    using performs_persist [of env r]
    by (auto split: exn.split simp: flag_step_def intro!: performs_ret performs_raise)
  then show ?thesis
    unfolding resume_handler_def py_catch_def
    by (rule performs_try [OF assms]) (auto simp: flag_step_def)
qed

lemma performs_record_bytes:
  assumes "\<And>tok dep. decodes r tok dep \<Longrightarrow> performs (f tok dep) T" and "\<And>e. T [] (Inl e)"
  shows "performs (py_bind (record_bytes (sr_token_id_hex r)) (\<lambda>tok.
    py_bind (record_bytes (sr_deposit_id_hex r)) (\<lambda>dep. f tok dep))) T"
  using assms(1) [unfolded decodes_def] assms(2)
  by (cases "bytes_fromhex (removeprefix ''0x'' (sr_token_id_hex r))";
      cases "bytes_fromhex (removeprefix ''0x'' (sr_deposit_id_hex r))")
    (auto simp: performs_def record_bytes_def py_bind_def py_lift_def does_def)

lemma performs_retry_credit: "performs (retry_credit env r) (\<lambda>evs _. credit_step r evs)"
  unfolding retry_credit_def
proof (rule performs_record_bytes)
  fix tok dep assume "decodes r tok dep"
  then show "performs (py_then (idempotent_credit env (sr_beneficiary r) tok (sr_amount r) dep)
      (engine_delete (sr_deposit_id_hex r))) (\<lambda>evs _. credit_step r evs)"
    unfolding py_then_def
    by (intro performs_bind [OF performs_credit, where B = "\<lambda>_ evs _.
          prefix evs [EvDelete (sr_deposit_id_hex r)]"])
      (auto simp: credit_step_def performs_def engine_delete_def does_def split: sum.splits)
qed (simp add: credit_step_def)

lemma performs_rerun: "performs (resume_sweep_from_pending env r) (\<lambda>evs _. rerun_step r evs)"
  unfolding resume_sweep_from_pending_def
proof (rule performs_record_bytes)
  fix tok dep assume d: "decodes r tok dep"
  have "performs (run_sweep env (record_job r tok dep)) (\<lambda>evs _. rerun_step r evs)"
    by (rule performs_mono [OF performs_run_sweep]) (use d in \<open>auto simp: rerun_step_def\<close>)
  moreover have "record_job r tok dep\<lparr>job_token_address := sr_token_address r\<rparr> = record_job r tok dep"
    by (simp add: record_job_def)
  ultimately show "performs (case sr_token_address r of None \<Rightarrow> sweep_native env (record_job r tok dep)
      | Some token \<Rightarrow> sweep_erc20 env (record_job r tok dep) token) (\<lambda>evs _. rerun_step r evs)"
    by (auto simp: sweep_native_def sweep_erc20_def split: option.splits)
qed (simp add: rerun_step_def)

lemma performs_resume_record: "performs (resume_record env r) (\<lambda>evs _. recovery_step r evs)"
proof -
  have "performs (if sr_state r = SWEPT then retry_credit env r
      else if \<not> truthy (sr_sweep_tx_hash r) then resume_sweep_from_pending env r else py_ret ())
    (\<lambda>evs _. if sr_state r = SWEPT then credit_step r evs
        else if truthy (sr_sweep_tx_hash r) then evs = [] else rerun_step r evs)"
    using performs_retry_credit [of env r] performs_rerun [of env r] by (auto intro: performs_ret)
  from performs_handler [OF this] show ?thesis
    unfolding resume_record_def recovery_step_def by simp
qed

definition recovery_run :: "sweep_record list \<Rightarrow> event list \<Rightarrow> exn + unit \<Rightarrow> bool" where
  "recovery_run records evs r \<longleftrightarrow>
     (\<exists>e. r = Inl e \<and> map_run reconcile_step records evs (Inl e))
   \<or> (\<exists>rs us vs. evs = us @ vs \<and> map_run reconcile_step records us (Inr rs)
        \<and> for_run (\<lambda>r evs _. recovery_step r evs) rs vs r)"

lemma resume_run:
  assumes "engine_load env s = (Inr records, u)" and "resume_incomplete_sweeps env s = (r, t)"
  obtains evs where "does evs u t" "recovery_run records evs r"
proof -
  let ?m = "py_bind (py_map (reconcile_sweep_tx env) records) (\<lambda>rs. py_for rs (resume_record env))"
  have "performs ?m (recovery_run records)"
    by (rule performs_bind [OF performs_map [OF performs_reconcile]
          performs_for [OF performs_resume_record]]) (auto simp: recovery_run_def)
  moreover have "?m u = (r, t)"
    using assms by (simp add: resume_incomplete_sweeps_def py_bind_def [of "engine_load env"])
  ultimately show ?thesis using that performsD by blast
qed

text \<open>
  C4. The startup recovery does nothing beyond its protocol: for the records it loaded it first
  reconciles each (acting on a receipt, and writing SWEPT only for a receipt of status 1), then
  for each reconciled record in order does one of: credit and then delete, when it is SWEPT; run
  the sweep protocol from the start, when no sweep transaction is recorded; nothing, when one is
  recorded but not confirmed; and at most flags the record afterwards, and only one without a
  sweep transaction.
\<close>
theorem resume_follows_protocol:
  assumes "engine_load env s = (Inr records, u)" and "resume_incomplete_sweeps env s = (r, t)"
  shows "\<exists>evs. trace t = trace u @ evs \<and> disk t = fold apply_event evs (disk u)
    \<and> recovery_run records evs r"
  using resume_run [OF assms] by (auto simp: does_def)

section \<open>What the recovery credits and sends\<close>

text \<open>What reconciling a list leaves of each record.\<close>

definition confirmed :: "event list \<Rightarrow> sweep_record \<Rightarrow> bool" where
  "confirmed evs r \<longleftrightarrow> (\<exists>c h. sr_sweep_tx_hash r = Some h \<and> EvReceipt c h 1 \<in> set evs)"

lemma reconcile_events:
  "map_run reconcile_step records us res \<Longrightarrow>
     EvCredit b tok a dep \<notin> set us \<and> EvSend c tx \<notin> set us"
proof (induction records arbitrary: us res)
  case (Cons r records)
  have "EvCredit b tok a dep \<notin> set vs \<and> EvSend c tx \<notin> set vs" if "reconcile_step r vs q" for vs q
    using that by (auto simp: reconcile_step_def dest!: set_mono_prefix)
  with Cons show ?case by fastforce
qed simp

lemma map_sum_Inr_iff: "Inr ys = map_sum id f q \<longleftrightarrow> (\<exists>qs. q = Inr qs \<and> ys = f qs)"
  by (cases q) auto

lemma reconcile_records:
  "map_run reconcile_step records us (Inr rs) \<Longrightarrow> r' \<in> set rs \<Longrightarrow>
     \<exists>r \<in> set records. r' = r \<or> (r' = swept_record r \<and> confirmed us r)"
proof (induction records arbitrary: us rs)
  case (Cons r records)
  then obtain y vs ws qs where us: "us = vs @ ws" "reconcile_step r vs (Inr y)"
      "map_run reconcile_step records ws (Inr qs)" "rs = y # qs"
    by (auto simp: map_sum_Inr_iff)
  have "y = r \<or> (y = swept_record r \<and> confirmed vs r)"
    using us(2) unfolding reconcile_step_def confirmed_def
    by (auto simp: prefix_Cons split: if_splits)
  moreover have "confirmed us q" if "confirmed vs q \<or> confirmed ws q" for q
    using that us(1) by (auto simp: confirmed_def)
  ultimately show ?case using Cons.IH [OF us(3)] Cons.prems(2) us(4) by auto
qed simp

lemma for_run_event:
  "for_run (\<lambda>r evs _. A r evs) rs vs res \<Longrightarrow> e \<in> set vs \<Longrightarrow>
     \<exists>r \<in> set rs. \<exists>ws. A r ws \<and> e \<in> set ws \<and> set ws \<subseteq> set vs"
proof (induction rs arbitrary: vs)
  case (Cons r rs)
  then consider "A r vs" | xs ys where "vs = xs @ ys" "A r xs" "for_run (\<lambda>r evs _. A r evs) rs ys res"
    by auto
  then show ?case
  proof cases
    case 1
    with Cons.prems(2) show ?thesis by auto
  next
    case 2
    show ?thesis
    proof (cases "e \<in> set xs")
      case True
      with 2 show ?thesis by (intro bexI [of _ r]) auto
    next
      case False
      then have "e \<in> set ys" using 2 Cons.prems(2) by simp
      from Cons.IH [OF 2(3) this] 2(1) show ?thesis by auto blast
    qed
  qed
qed simp

lemma protocol_credit:
  assumes "sweep_protocol job evs res" "EvCredit b tok a dep \<in> set evs"
  shows "b = job_beneficiary job \<and> tok = job_token_id job \<and> a = job_amount job
    \<and> dep = job_deposit_id job \<and> (\<exists>c tx h. EvSend c tx \<in> set evs \<and> EvReceipt c h 1 \<in> set evs)"
proof -
  obtain c now ftx fh fok stx sh sok where p: "prefix evs (sweep_plan job c now ftx fh fok stx sh sok)"
      and ok: "8 < length evs \<Longrightarrow> sok = 1"
    using assms(1) unfolding sweep_protocol_def by blast
  then obtain k where k: "evs = take k (sweep_plan job c now ftx fh fok stx sh sok)"
    by (metis append_eq_conv_conj prefixE)
  define front where "front = EvSave (new_record job now) # fund_plan c (new_record job now) ftx fh fok
    @ send_plan c (funded_record (to_hex fh) (new_record job now)) stx sh sok"
  let ?cr = "EvCredit (job_beneficiary job) (job_token_id job) (job_amount job) (job_deposit_id job)"
  have plan: "sweep_plan job c now ftx fh fok stx sh sok = front @ [?cr, EvDelete (to_hex (job_deposit_id job))]"
    and no: "EvCredit b tok a dep \<notin> set front" and len: "length front = 9"
    by (simp_all add: sweep_plan_def Let_def front_def) (simp add: fund_plan_def send_plan_def)
  have "9 < k"
  proof (rule ccontr)
    assume "\<not> 9 < k"
    then have "evs = take k front" by (simp add: k plan len)
    then show False using assms(2) no set_take_subset by fastforce
  qed
  then have l: "8 < length evs" "set front \<subseteq> set evs"
    by (auto simp: k plan len)
  then have "sok = 1" "EvSend c ftx \<in> set evs" "EvReceipt c (to_hex sh) sok \<in> set evs"
    using ok by (auto simp: fund_plan_def send_plan_def front_def)
  moreover have "EvCredit b tok a dep = ?cr"
    using assms(2) no set_take_subset [of k "sweep_plan job c now ftx fh fok stx sh sok"]
    by (auto simp: k plan)
  ultimately show ?thesis by auto
qed

lemma swept_fields [simp]:
  "sr_beneficiary (swept_record r) = sr_beneficiary r" "sr_amount (swept_record r) = sr_amount r"
  "decodes (swept_record r) = decodes r" "sr_state (swept_record r) = SWEPT"
  by (simp_all add: swept_record_def decodes_def fun_eq_iff)

text \<open>When the recovery has the right to credit a record it loaded.\<close>

definition may_credit :: "sweep_record \<Rightarrow> event list \<Rightarrow> bool" where
  "may_credit r evs \<longleftrightarrow> sr_state r = SWEPT \<or> confirmed evs r
     \<or> (\<not> truthy (sr_sweep_tx_hash r) \<and> (\<exists>c tx h. EvSend c tx \<in> set evs \<and> EvReceipt c h 1 \<in> set evs))"

lemma step_credit:
  assumes "recovery_step r ws" "EvCredit b tok a dep \<in> set ws"
  shows "b = sr_beneficiary r \<and> a = sr_amount r \<and> decodes r tok dep \<and> may_credit r ws"
proof -
  obtain us vs where ws: "ws = us @ vs" "flag_step vs" and
      us: "if sr_state r = SWEPT then credit_step r us
        else if truthy (sr_sweep_tx_hash r) then us = [] else rerun_step r us"
    using assms(1) unfolding recovery_step_def by blast
  then have in_us: "EvCredit b tok a dep \<in> set us" using assms(2) by (auto simp: flag_step_def)
  show ?thesis
  proof (cases "sr_state r = SWEPT")
    case True
    then show ?thesis using us in_us by (auto simp: credit_step_def may_credit_def dest!: set_mono_prefix)
  next
    case False
    with us in_us have "\<not> truthy (sr_sweep_tx_hash r)" "rerun_step r us" by (auto split: if_splits)
    then show ?thesis
      using in_us ws(1) by (auto simp: rerun_step_def may_credit_def record_job_def dest!: protocol_credit) 
  qed
qed

lemma step_send: "recovery_step r ws \<Longrightarrow> EvSend c tx \<in> set ws \<Longrightarrow>
    sr_state r \<noteq> SWEPT \<and> \<not> truthy (sr_sweep_tx_hash r)"
  by (auto simp: recovery_step_def flag_step_def credit_step_def dest!: set_mono_prefix split: if_splits)

lemma may_credit_mono: "may_credit r ws \<Longrightarrow> set ws \<subseteq> set evs \<Longrightarrow> may_credit r evs"
  unfolding may_credit_def confirmed_def by blast


section \<open>Concrete directories and runs\<close>

definition demo_name :: string where
  "demo_name = record_name (bytes_hex (replicate 32 7))"

definition demo_sent :: sweep_record where
  "demo_sent = sent_record (to_hex [2]) (funded_record (to_hex [1]) demo_record)"

lemma demo_records [simp]:
  "record_ok demo_record" "record_ok demo_sent"
  "sr_deposit_id_hex demo_record = to_hex (replicate 32 7)"
  "sr_deposit_id_hex demo_sent = to_hex (replicate 32 7)"
  by (simp_all add: demo_sent_def demo_record_def record_ok_def plan_defs)
    (simp_all add: new_record_def demo_job_def)

lemma demo_disk:
  assumes "record_ok r" "sr_deposit_id_hex r = to_hex (replicate 32 7)"
  shows "disk_ok [(demo_name, file_of r)]"
    and "disk_lookup [(demo_name, file_of r)] (bytes_hex (replicate 32 7)) = Some r"
proof -
  have k: "key_ok (bytes_hex (replicate 32 7))" using record_key_ok demo_key by blast
  show "disk_ok [(demo_name, file_of r)]"
    using assms by (auto simp: disk_ok_def demo_name_def)
  then show "disk_lookup [(demo_name, file_of r)] (bytes_hex (replicate 32 7)) = Some r"
    using assms k by (simp add: disk_lookup_Some demo_name_def)
qed

lemma demo_resume: "resume_sweep_from_pending env demo_record = run_sweep env demo_job"
proof -
  have "record_job demo_record [9] (replicate 32 7) = demo_job" "sr_token_address demo_record = None"
    "sr_token_id_hex demo_record = to_hex [9]" and j: "demo_job\<lparr>job_token_address := None\<rparr> = demo_job"
    by (simp_all add: record_job_def demo_record_def new_record_def demo_job_def)
  then show ?thesis
    by (simp add: resume_sweep_from_pending_def record_bytes_def fun_eq_iff py_bind_def py_lift_def
        sweep_native_def j del: replicate.simps)
qed

lemma projr_save: "record_key (sr_deposit_id_hex r) \<noteq> None \<Longrightarrow> projr (save_record r d) = apply_event (EvSave r) d"
  by (auto simp: save_record_def)

text \<open>The node takes the first transaction, and the answer to the second one is lost.\<close>

definition lost_send :: "bytes \<Rightarrow> exn + bytes" where
  "lost_send tx = (if tx = [1] then Inr [1] else Inl (TimeoutError ''read timeout''))"

text \<open>
  The window between a broadcast and the write of its hash: there is a run in which the
  sweep transaction is handed to the node, the call's answer is lost, and the record left on disk
  is GAS_FUNDED with no sweep transaction, so the recovery takes it for one that was never
  broadcast (\<open>reconcile_sweep_tx\<close> does not look for it).
\<close>
theorem broadcast_without_record:
  "\<exists>env s. \<exists>job :: sweep_job. case run_sweep env job (s :: int engine) of (r, t) \<Rightarrow> \<exists>rec xs c tx h.
     r = Inl (TimeoutError ''read timeout'') \<and> disk_ok (disk s)
   \<and> trace t = trace s @ xs @ [EvReceipt c h 1, EvSend c tx] \<and> EvSave rec \<in> set xs
   \<and> disk_lookup (disk t) (bytes_hex (job_deposit_id job)) = Some rec
   \<and> sr_state rec = GAS_FUNDED \<and> sr_sweep_tx_hash rec = None
   \<and> reconcile_sweep_tx env rec t = (Inr rec, t)"
proof -
  let ?env = "demo_env (Some 1) lost_send (Inr ())" and ?k = "bytes_hex (replicate 32 7)"
  let ?r = "new_record demo_job 1000"
  let ?f = "funded_record (to_hex [1]) ?r"
  let ?t = "demo_engine (apply_event (EvSave ?f) (apply_event (EvSave ?r) []))
     \<lparr>gas_funding_tx_hashes := {to_hex [1]}, trace := [EvSave ?r, EvSend demo_eth [1],
        EvFunding (to_hex [1]), EvSave ?f, EvReceipt demo_eth (to_hex [1]) 1, EvSend demo_eth [2]]\<rparr>"
  have run: "run_sweep ?env demo_job (demo_engine []) = (Inl (TimeoutError ''read timeout''), ?t)"
    by (simp add: sweep_run_simps lost_send_def projr_save funded_record_def
        cong: run_lazy del: replicate.simps apply_event.simps)
  have "record_ok ?r" using demo_records(1) unfolding demo_record_def .
  then have "disk_lookup (apply_event (EvSave ?f) (apply_event (EvSave ?r) [])) ?k = Some ?f"
    using apply_save [of "[]" ?r ?k] apply_save [of "apply_event (EvSave ?r) []" ?f ?k]
    by (simp add: disk_ok_def del: apply_event.simps replicate.simps)
  moreover have "sr_sweep_tx_hash ?f = None" "sr_state ?f = GAS_FUNDED"
    by (simp_all add: funded_record_def new_record_def)
  ultimately show ?thesis
    apply (intro exI [of _ ?env] exI [of _ "demo_engine []"] exI [of _ demo_job])
    unfolding run prod.case
    by (intro exI [of _ ?f] exI [of _ "[EvSave ?r, EvSend demo_eth [1], EvFunding (to_hex [1]), EvSave ?f]"]
        exI [of _ demo_eth] exI [of _ "[2]"] exI [of _ "to_hex [1]"])
      (simp add: demo_engine_def disk_ok_def reconcile_sweep_tx_def truthy_def py_ret_def
        del: replicate.simps apply_event.simps)
qed

text \<open>
  Resuming from a stale record forgets a broadcast: there is a run in which the record on
  disk names a sweep transaction that is out, the recovery holds the PENDING record it loaded
  before that, and resuming it overwrites the one on disk with a fresh PENDING record: the
  transaction's hash is gone from the directory.
\<close>
theorem stale_resume_forgets_broadcast:
  "\<exists>env s. \<exists>stale sent k. disk_ok (disk s) \<and> record_key (sr_deposit_id_hex stale) = Some k
   \<and> sr_state stale = PENDING \<and> disk_lookup (disk s) k = Some sent \<and> truthy (sr_sweep_tx_hash sent)
   \<and> (\<exists>rec. disk_lookup (disk (snd (resume_sweep_from_pending env stale (s :: int engine)))) k = Some rec
        \<and> sr_sweep_tx_hash rec = None)"
proof -
  let ?env = "demo_env None (\<lambda>_. Inl (TimeoutError ''read timeout'')) (Inr ())"
  let ?k = "bytes_hex (replicate 32 7)" and ?s = "demo_engine [(demo_name, file_of demo_sent)]"
  have "disk (snd (run_sweep ?env demo_job ?s)) = apply_event (EvSave demo_record) (disk ?s)"
    by (simp add: sweep_run_simps projr_save demo_record_def cong: run_lazy del: replicate.simps apply_event.simps)
  then have "disk_lookup (disk (snd (resume_sweep_from_pending ?env demo_record ?s))) ?k = Some demo_record"
    unfolding demo_resume
    using apply_save [of "disk ?s" demo_record ?k] demo_disk [of demo_sent]
    by (simp add: demo_engine_def del: apply_event.simps replicate.simps)
  moreover have "sr_sweep_tx_hash demo_record = None" "sr_state demo_record = PENDING"
      "truthy (sr_sweep_tx_hash demo_sent)"
    by (simp_all add: demo_record_def new_record_def demo_sent_def sent_record_def truthy_def to_hex_def)
  ultimately show ?thesis
    using demo_disk [of demo_sent]
    by (intro exI [of _ ?env] exI [of _ ?s] exI [of _ demo_record] exI [of _ demo_sent] exI [of _ ?k])
      (simp add: demo_engine_def del: replicate.simps)
qed

definition demo_swept :: sweep_record where
  "demo_swept = swept_record demo_sent"

lemma demo_swept_ok [simp]:
  "record_ok demo_swept" "sr_deposit_id_hex demo_swept = to_hex (replicate 32 7)"
  by (simp_all add: demo_swept_def del: replicate.simps)

lemma demo_load:
  assumes "record_ok r" "sr_deposit_id_hex r = to_hex (replicate 32 7)"
  shows "engine_load env (demo_engine [(demo_name, file_of r)]) =
    (Inr [r], demo_engine [(demo_name, file_of r)]
       \<lparr>gas_funding_tx_hashes := (if truthy (sr_gas_funding_tx_hash r)
           then {ascii_lower (the (sr_gas_funding_tx_hash r))} else {})\<rparr>)"
proof -
  have "record_path (to_hex (replicate 32 7)) = Inr demo_name"
    by (simp add: record_path_def demo_name_def del: replicate.simps)
  moreover have "sweep_file demo_name"
    using record_path_sweep [OF calculation] .
  ultimately show ?thesis
    using assms by (simp add: engine_load_def load_incomplete_sweeps_def demo_engine_def load_file_def read_file_of del: replicate.simps)
qed

lemma demo_swept_fields:
  "sr_state demo_swept = SWEPT" "sr_token_id_hex demo_swept = to_hex [9]"
  "sr_beneficiary demo_swept = ''0xB''" "sr_amount demo_swept = 3000000000000000"
  "sr_gas_funding_tx_hash demo_swept = Some (to_hex [1])"
  by (simp_all add: demo_swept_def demo_sent_def plan_defs demo_record_def new_record_def demo_job_def)

lemma demo_resume_run:
  "resume_incomplete_sweeps (demo_env (Some 1) demo_send (Inr ())) (demo_engine [(demo_name, file_of demo_swept)]) =
     (Inr (), demo_engine (projr (delete_record (to_hex (replicate 32 7)) [(demo_name, file_of demo_swept)]))
        \<lparr>gas_funding_tx_hashes := (if truthy (Some (to_hex [1])) then {to_hex [1]} else {}),
          trace := [EvCredit ''0xB'' [9] 3000000000000000 (replicate 32 7), EvDelete (to_hex (replicate 32 7))]\<rparr>)"
  unfolding resume_incomplete_sweeps_def bind_run demo_load [OF demo_swept_ok]
  by (simp add: bind_run run_simps reconcile_sweep_tx_def resume_record_def resume_handler_def
      retry_credit_def record_bytes_def idempotent_credit_def demo_swept_fields demo_engine_def
      cong: run_lazy del: replicate.simps)

lemma resume_follows_protocol_witness:
  "recovery_run [demo_swept] [EvCredit ''0xB'' [9] 3000000000000000 (replicate 32 7),
     EvDelete (to_hex (replicate 32 7))] (Inr ())"
  using resume_follows_protocol [OF demo_load [OF demo_swept_ok] demo_resume_run]
  by (simp add: demo_engine_def del: replicate.simps)

text \<open>The two theorems on the record store, on these directories.\<close>

lemma persist_error_effect_witness:
  "\<exists>d'. persist_error 5 (to_hex (replicate 32 7)) ''boom'' [(demo_name, file_of demo_record)] = Inr d'
    \<and> disk_lookup d' (bytes_hex (replicate 32 7)) = Some (demo_record\<lparr>sr_error := Some ''boom''\<rparr>)"
proof -
  have "\<not> truthy (sr_sweep_tx_hash demo_record)" by (simp add: demo_record_def new_record_def truthy_def)
  then show ?thesis
    using persist_error_effect [OF demo_disk(1) [of demo_record], of 5 "to_hex (replicate 32 7)" "''boom''"]
      demo_disk(2) [of demo_record]
    by (auto simp del: replicate.simps)
qed

lemma save_record_atomic_witness:
  "\<exists>d'. save_record demo_sent [(demo_name, file_of demo_record)] = Inr d'
    \<and> disk_lookup d' (bytes_hex (replicate 32 7)) = Some demo_sent"
  using save_record_atomic [OF demo_disk(1) [of demo_record], of demo_sent "bytes_hex (replicate 32 7)"]
  by (auto simp del: replicate.simps)

end
