(* ===== verification/Sweep_Loading.thy ===== *)
theory Sweep_Loading
  imports Sweep_Recovery
begin

text \<open>
  What loading the state directory leaves of it: every file the glob finds afterwards is the file
  of a loaded record under that record's own name, and no file that was so before is touched.
\<close>

definition current :: "int \<Rightarrow> string \<Rightarrow> file_content \<Rightarrow> sweep_record \<Rightarrow> bool" where
  "current now name f r \<longleftrightarrow>
     read_record now f = Inr r \<and> record_path (sr_deposit_id_hex r) = Inr name"

lemma map_of_rename:
  "map_of d src = Some f \<Longrightarrow> src \<noteq> dst \<Longrightarrow>
     map_of (rename_file src dst d) = (map_of d)(src := None, dst \<mapsto> f)"
  by (simp add: rename_file_def os_replace_def)

lemma corrupt_not_sweep: "\<not> sweep_file (corrupt_name p)"
proof
  assume "sweep_file (corrupt_name p)"
  then have "last (corrupt_name p) = last ''.json''"
    by (auto simp: sweep_file_def suffix_def)
  then show False by (simp add: corrupt_name_def)
qed

text \<open>The invariant of the loop: \<open>todo\<close> are the paths still to come.\<close>

definition load_inv :: "int \<Rightarrow> disk \<Rightarrow> string set \<Rightarrow> string set \<Rightarrow> loaded \<Rightarrow> bool" where
  "load_inv now start hashes todo acc \<longleftrightarrow> (case acc of (records, d, hs) \<Rightarrow>
     (\<forall>n \<in> todo. map_of d n = map_of start n)
   \<and> (\<forall>n f. sweep_file n \<and> n \<notin> todo \<and> map_of d n = Some f \<longrightarrow> (\<exists>r \<in> set records. current now n f r))
   \<and> (\<forall>r \<in> set records. \<exists>n f. n \<notin> todo \<and> map_of d n = Some f \<and> current now n f r
        \<and> (\<forall>h. sr_gas_funding_tx_hash r = Some h \<and> h \<noteq> [] \<longrightarrow> ascii_lower h \<in> hs))
   \<and> (\<forall>n f r. n \<notin> todo \<and> map_of start n = Some f \<and> current now n f r \<longrightarrow>
        map_of d n = Some f \<and> r \<in> set records)
   \<and> hashes \<subseteq> hs)"

text \<open>Taking a file that is no record's own out of the way, as long as nothing else changes.\<close>

lemma load_inv_drop:
  assumes inv: "load_inv now start hashes (insert p todo) (records, d, hs)" and p: "p \<notin> todo"
    and todo: "\<forall>n \<in> todo. sweep_file n"
    and "map_of d' p = None" and same: "\<And>n. sweep_file n \<Longrightarrow> n \<noteq> p \<Longrightarrow> map_of d' n = map_of d n"
    and stale: "\<And>f r. map_of d p = Some f \<Longrightarrow> \<not> current now p f r"
  shows "load_inv now start hashes todo (records, d', hs)"
proof -
  have isf: "sweep_file n" if "current now n f r" for n f r
    using that record_path_sweep by (auto simp: current_def)
  have "map_of d' n = map_of start n" if "n \<in> todo" for n
  proof -
    have "map_of d n = map_of start n" using inv that unfolding load_inv_def prod.case by blast
    moreover have "sweep_file n" "n \<noteq> p" using that p todo by auto
    ultimately show ?thesis using same by simp
  qed
  moreover have "\<exists>r \<in> set records. current now n f r"
    if "sweep_file n" "n \<notin> todo" "map_of d' n = Some f" for n f
  proof -
    have n: "n \<noteq> p" using that assms(4) by auto
    then have "map_of d n = Some f" using that same by simp
    then show ?thesis using that n inv unfolding load_inv_def prod.case by blast
  qed
  moreover have "\<exists>n f. n \<notin> todo \<and> map_of d' n = Some f \<and> current now n f r
        \<and> (\<forall>h. sr_gas_funding_tx_hash r = Some h \<and> h \<noteq> [] \<longrightarrow> ascii_lower h \<in> hs)"
    if r: "r \<in> set records" for r
  proof -
    obtain n f where "n \<notin> insert p todo" "map_of d n = Some f" "current now n f r"
        "\<forall>h. sr_gas_funding_tx_hash r = Some h \<and> h \<noteq> [] \<longrightarrow> ascii_lower h \<in> hs"
      using inv r unfolding load_inv_def prod.case by blast
    moreover from this have "map_of d' n = Some f" using same [of n] isf by simp
    ultimately show ?thesis by blast
  qed
  moreover have "map_of d' n = Some f \<and> r \<in> set records"
    if "n \<notin> todo" "map_of start n = Some f" "current now n f r" for n f r
  proof -
    have "map_of d p = map_of start p" using inv unfolding load_inv_def prod.case by blast
    then have n: "n \<noteq> p" using that stale by metis
    then have "map_of d n = Some f \<and> r \<in> set records"
      using that inv unfolding load_inv_def prod.case by blast
    then show ?thesis using n same [of n] isf that(3) by simp
  qed
  moreover have "hashes \<subseteq> hs" using inv unfolding load_inv_def prod.case by blast
  ultimately show ?thesis
    unfolding load_inv_def prod.case by blast
qed

text \<open>Taking up a readable file, under its own name afterwards.\<close>

lemma load_inv_add:
  assumes inv: "load_inv now start hashes (insert p todo) (records, d, hs)" and p: "p \<notin> todo"
    and present: "\<forall>n \<in> todo. map_of start n \<noteq> None"
    and f: "map_of d p = Some f" "current now e f r" "e = p \<or> map_of d e = None"
    and d': "map_of d' = (map_of d)(p := None, e \<mapsto> f)"
    and hs: "hs \<subseteq> hs'" "\<forall>h. sr_gas_funding_tx_hash r = Some h \<and> h \<noteq> [] \<longrightarrow> ascii_lower h \<in> hs'"
  shows "load_inv now start hashes todo (records @ [r], d', hs')"
proof -
  have todo: "map_of d n = map_of start n" if "n \<in> insert p todo" for n
    using inv that unfolding load_inv_def by auto
  have e: "e \<notin> todo" using f(3) todo present p by (metis insertI2)
  have "map_of d' n = map_of start n" if "n \<in> todo" for n
    using that todo e p d' by auto
  moreover have "\<exists>q \<in> set (records @ [r]). current now n g q"
    if "sweep_file n" "n \<notin> todo" "map_of d' n = Some g" for n g
  proof (cases "n = e")
    case True
    then show ?thesis using that f(2) d' by auto
  next
    case False
    then have "map_of d n = Some g" "n \<noteq> p" using that d' by (auto split: if_splits)
    then show ?thesis using that inv unfolding load_inv_def by auto
  qed
  moreover have "\<exists>n g. n \<notin> todo \<and> map_of d' n = Some g \<and> current now n g q
        \<and> (\<forall>h. sr_gas_funding_tx_hash q = Some h \<and> h \<noteq> [] \<longrightarrow> ascii_lower h \<in> hs')"
    if "q \<in> set (records @ [r])" for q
  proof (cases "q = r")
    case True
    then show ?thesis using e f(2) d' hs(2) by auto
  next
    case False
    then have "q \<in> set records" using that by simp
    then obtain n g where "n \<notin> insert p todo" "map_of d n = Some g" "current now n g q"
        "\<forall>h. sr_gas_funding_tx_hash q = Some h \<and> h \<noteq> [] \<longrightarrow> ascii_lower h \<in> hs"
      using inv unfolding load_inv_def prod.case by blast
    then show ?thesis using f(3) d' hs(1) by (intro exI [of _ n] exI [of _ g]) auto
  qed
  moreover have "map_of d' n = Some g \<and> q \<in> set (records @ [r])"
    if "n \<notin> todo" "map_of start n = Some g" "current now n g q" for n g q
  proof (cases "n = p")
    case True
    then have "g = f" "q = r" "e = p" using todo [of p] that f by (auto simp: current_def)
    then show ?thesis using True d' by simp
  next
    case False
    then have "map_of d n = Some g" "q \<in> set records"
      using that inv unfolding load_inv_def by auto
    then show ?thesis using False f(3) d' by auto
  qed
  moreover have "hashes \<subseteq> hs'" using inv hs(1) unfolding load_inv_def prod.case by blast
  ultimately show ?thesis
    unfolding load_inv_def prod.case by blast
qed

lemma load_inv_file:
  assumes inv: "load_inv now start hashes (insert p todo) acc" and p: "p \<notin> todo"
    and ok: "\<forall>n \<in> insert p todo. sweep_file n \<and> map_of start n \<noteq> None"
  shows "\<exists>acc'. load_file now p acc = Inr acc' \<and> load_inv now start hashes todo acc'"
proof -
  obtain records d hs where acc: "acc = (records, d, hs)" by (cases acc)
  note inv = inv [unfolded acc]
  have "map_of d p = map_of start p" using inv unfolding load_inv_def prod.case by blast
  with ok obtain f where f: "map_of d p = Some f" by auto
  have drop: "load_inv now start hashes todo (records, d', hs)"
    if "map_of d' p = None" "\<And>n. sweep_file n \<Longrightarrow> n \<noteq> p \<Longrightarrow> map_of d' n = map_of d n"
      "\<And>r. \<not> current now p f r" for d'
    by (rule load_inv_drop [OF inv p]) (use that ok f in auto)
  show ?thesis
  proof (cases "sum_bind (read_record now f) (\<lambda>record.
      sum_bind (record_path (sr_deposit_id_hex record)) (\<lambda>expected. Inr (record, expected)))")
    case (Inl e)
    have "p \<noteq> corrupt_name p" using ok corrupt_not_sweep [of p] by auto
    then have m: "map_of (rename_file p (corrupt_name p) d) = (map_of d)(p := None, corrupt_name p \<mapsto> f)"
      by (rule map_of_rename [OF f])
    have "load_inv now start hashes todo (records, rename_file p (corrupt_name p) d, hs)"
      by (rule drop) (use m Inl corrupt_not_sweep [of p] \<open>p \<noteq> corrupt_name p\<close> in \<open>auto simp: current_def\<close>)
    then show ?thesis using f Inl by (simp add: load_file_def acc)
  next
    case (Inr x)
    then obtain r e where re: "x = (r, e)" "current now e f r"
      by (cases "read_record now f"; cases x; auto simp: current_def sum_bind_def split: sum.splits)
    show ?thesis
    proof (cases "p \<noteq> e \<and> map_of d e \<noteq> None")
      case True
      have "load_inv now start hashes todo (records, AList.delete p d, hs)"
        by (rule drop) (use True re in \<open>auto simp: current_def\<close>)
      then show ?thesis using f Inr re True by (simp add: load_file_def acc)
    next
      case False
      let ?d = "if p \<noteq> e then rename_file p e d else d"
      let ?hs = "if truthy (sr_gas_funding_tx_hash r)
        then insert (ascii_lower (the (sr_gas_funding_tx_hash r))) hs else hs"
      have "map_of ?d = (map_of d)(p := None, e \<mapsto> f)"
        using f map_of_rename [OF f] by (auto simp: fun_eq_iff)
      then have "load_inv now start hashes todo (records @ [r], ?d, ?hs)"
        by (intro load_inv_add [OF inv p _ f re(2)]) (use ok False in \<open>auto simp: truthy_def\<close>)
      then show ?thesis using f Inr re False by (auto simp: load_file_def acc)
    qed
  qed
qed

lemma load_inv_files:
  "load_inv now start hashes (set paths) acc \<Longrightarrow> distinct paths \<Longrightarrow>
     \<forall>n \<in> set paths. sweep_file n \<and> map_of start n \<noteq> None \<Longrightarrow>
     \<exists>acc'. load_files now paths acc = Inr acc' \<and> load_inv now start hashes {} acc'"
proof (induction paths arbitrary: acc)
  case (Cons p paths)
  then obtain acc' where "load_file now p acc = Inr acc'" "load_inv now start hashes (set paths) acc'"
    using load_inv_file [of now start hashes p "set paths" acc] by auto
  then show ?case using Cons.IH [of acc'] Cons.prems by simp
qed simp



end
