(* ===== verification/Deposit_Processor.thy ===== *)
theory Deposit_Processor
  imports Sweep_Loading Deposit_Verifier
begin

text \<open>
  \<^verbatim>\<open>src/services/deposit_processor.py\<close>: the path of a claim (\<open>process_deposit\<close>), the sweep it
  starts in the background, and the status a client polls.

  The processor owns a verifier and a sweep engine that share the process's identity gate; its
  state \<open>app\<close> is the engine's state, the verifier's client cache and the background sweeps started
  so far. \<open>on_engine\<close> and \<open>on_verifier\<close> run the operations of the two on their part of it. The
  keccak hash and the accounting service are parameters (\<open>p_env\<close>). A background sweep is
  recorded when it is created; \<open>background_sweep\<close> is the coroutine itself.
\<close>

section \<open>The processor's state\<close>

record background =
  bg_job :: sweep_job
  bg_is_native :: bool

record 'w app =
  eng :: "'w engine"
  verifier_cache :: "int \<rightharpoonup> client"
  background_tasks :: "background list"

record 'w p_env =
  pe_sweep :: "'w env"
  pe_verify :: "'w v_env"
  pe_deposit_address :: "string \<Rightarrow> int \<Rightarrow> bytes \<Rightarrow> ('w, string) ext"
  pe_token_id :: "int \<Rightarrow> string option \<Rightarrow> ('w, bytes) ext"
  pe_is_token_registered :: "bytes \<Rightarrow> ('w, bool) ext"
  pe_solidity_keccak :: "int \<Rightarrow> bytes \<Rightarrow> bytes \<Rightarrow> int \<Rightarrow> exn + bytes"

record private_read_auth =
  pr_token :: bytes
  pr_user_address :: string

definition on_engine :: "('w engine, 'a) py \<Rightarrow> ('w app, 'a) py" where
  "on_engine m = (\<lambda>s. case m (eng s) of (r, e) \<Rightarrow> (r, s\<lparr>eng := e\<rparr>))"

definition on_verifier :: "('w v_state, 'a) py \<Rightarrow> ('w app, 'a) py" where
  "on_verifier m = (\<lambda>s.
     case m \<lparr>v_world = world (eng s), v_rpc = rpc (eng s), v_cache = verifier_cache s\<rparr> of
       (r, v) \<Rightarrow> (r, s\<lparr>eng := (eng s)\<lparr>world := v_world v, rpc := v_rpc v\<rparr>, verifier_cache := v_cache v\<rparr>))"

definition p_await :: "'w p_env \<Rightarrow> ('w, 'a) ext \<Rightarrow> ('w app, 'a) py" where
  "p_await env f = on_engine (await (pe_sweep env) f)"

section \<open>Claiming a deposit\<close>

definition compute_deposit_id ::
    "(int \<Rightarrow> bytes \<Rightarrow> bytes \<Rightarrow> int \<Rightarrow> exn + bytes) \<Rightarrow> int \<Rightarrow> string \<Rightarrow> bytes \<Rightarrow> int \<Rightarrow> exn + bytes" where
  "compute_deposit_id solidity_keccak cid tx_hash token_id deposit_index =
     sum_bind (bytes_fromhex (removeprefix ''0x'' tx_hash)) (\<lambda>tx_hash_bytes.
       solidity_keccak cid tx_hash_bytes token_id deposit_index)"

record deposit_response =
  dr_status :: string
  dr_deposit_id :: string
  dr_amount :: string
  dr_token_address :: "string option"
  dr_detail :: "string option"

definition deposit_response_of ::
    "string \<Rightarrow> string \<Rightarrow> int \<Rightarrow> string option \<Rightarrow> string option \<Rightarrow> deposit_response" where
  "deposit_response_of status deposit_id_hex amount token_address detail =
     \<lparr>dr_status = status, dr_deposit_id = deposit_id_hex, dr_amount = int_text amount,
      dr_token_address = token_address, dr_detail = detail\<rparr>"

record claim =
  cl_chain_type :: string
  cl_chain_id :: int
  cl_tx_hash :: string
  cl_amount :: int
  cl_log_index :: int
  cl_version :: int

text \<open>The minimum for the verified kind of deposit; 0 for a chain without one.\<close>

definition min_deposit :: "(int \<times> chain_config) list \<Rightarrow> int \<Rightarrow> bool \<Rightarrow> int" where
  "min_deposit cfgs cid is_native =
     (case (if is_native then MIN_DEPOSIT_NATIVE_WEI cfgs cid else MIN_DEPOSIT_ERC20_WEI cfgs cid) of
        None \<Rightarrow> 0 | Some m \<Rightarrow> m)"

text \<open>The checks of a claim, up to its deposit id.\<close>

definition check_claim ::
    "'w p_env \<Rightarrow> claim \<Rightarrow> private_read_auth
     \<Rightarrow> ('w app, string \<times> verified_deposit \<times> bytes \<times> bytes) py" where
  "check_claim env c auth =
     py_bind py_get (\<lambda>s.
     if map_of (configs (pe_sweep env)) (cl_chain_id c) = None
     then py_raise (ValueError ''Unsupported chain_id'')
     else if ascii_lower (cl_tx_hash c) \<in> gas_funding_tx_hashes (eng s)
     then py_raise (ValueError ''is a gas funding tx and cannot be claimed as a deposit'')
     else
       py_bind (p_await env (pe_deposit_address env (cl_chain_type c) (cl_version c) (pr_token auth)))
         (\<lambda>deposit_address.
       py_bind (on_verifier (verify_deposit (pe_verify env) (cl_chain_id c) (cl_tx_hash c)
          deposit_address (cl_amount c) (cl_log_index c))) (\<lambda>verified.
       let min_amount = min_deposit (configs (pe_sweep env)) (cl_chain_id c) (vd_is_native verified) in
       if min_amount > 0 \<and> vd_amount verified < min_amount
       then py_raise (ValueError ''Deposit does not meet minimum requirements'')
       else
         py_bind (p_await env (pe_token_id env (cl_chain_id c) (vd_token_address verified))) (\<lambda>token_id.
         py_bind (p_await env (pe_is_token_registered env token_id)) (\<lambda>registered.
         if \<not> registered then py_raise (ValueError ''Token not supported'')
         else
           py_bind (py_lift (compute_deposit_id (pe_solidity_keccak env) (cl_chain_id c)
             (cl_tx_hash c) token_id (vd_deposit_index verified))) (\<lambda>deposit_id.
           py_ret (deposit_address, verified, token_id, deposit_id)))))))"

definition claim_job ::
    "claim \<Rightarrow> private_read_auth \<Rightarrow> string \<Rightarrow> verified_deposit \<Rightarrow> bytes \<Rightarrow> bytes \<Rightarrow> background" where
  "claim_job c auth deposit_address verified token_id deposit_id =
     \<lparr>bg_job = \<lparr>job_deposit_address = deposit_address, job_beneficiary = pr_user_address auth,
        job_chain_type = cl_chain_type c, job_version = cl_version c, job_chain_id = cl_chain_id c,
        job_token_address = vd_token_address verified, job_token_id = token_id,
        job_amount = vd_amount verified, job_deposit_id = deposit_id\<rparr>,
      bg_is_native = vd_is_native verified\<rparr>"

definition create_task :: "background \<Rightarrow> ('w app, unit) py" where
  "create_task b = py_modify (\<lambda>s. s\<lparr>background_tasks := background_tasks s @ [b]\<rparr>)"

definition engine_cleanup :: "string \<Rightarrow> ('w engine, unit) py" where
  "engine_cleanup i = py_modify (\<lambda>s. s\<lparr>disk := cleanup_record i (disk s)\<rparr>)"

definition process_deposit ::
    "'w p_env \<Rightarrow> claim \<Rightarrow> private_read_auth \<Rightarrow> ('w app, deposit_response) py" where
  "process_deposit env c auth =
     py_bind (check_claim env c auth) (\<lambda>(deposit_address, verified, token_id, deposit_id).
     let h = to_hex deposit_id;
         response = (\<lambda>status. deposit_response_of status h (vd_amount verified)
                       (vd_token_address verified) None);
         start = py_then (create_task (claim_job c auth deposit_address verified token_id deposit_id))
                   (py_ret (response ''pending''))
     in
     py_bind (p_await env (acc_is_deposit_processed (pe_sweep env) deposit_id)) (\<lambda>already_processed.
     if already_processed then py_ret (response ''credited'')
     else
       py_bind (on_engine (engine_get (pe_sweep env) h)) (\<lambda>existing.
       case existing of
         None \<Rightarrow> start
       | Some r \<Rightarrow>
           if truthy (sr_error r) then
             (if truthy (sr_sweep_tx_hash r) then py_ret (response ''pending'')
              else py_then (on_engine (engine_cleanup h)) start)
           else py_ret (response ''pending''))))"

section \<open>The background sweep\<close>

definition engine_persist_error :: "'w env \<Rightarrow> string \<Rightarrow> string \<Rightarrow> ('w engine, unit) py" where
  "engine_persist_error env i e = (\<lambda>s.
     case persist_error (clock env (world s)) i e (disk s) of
       Inl x \<Rightarrow> (Inl x, s) | Inr d \<Rightarrow> (Inr (), s\<lparr>disk := d\<rparr>))"

definition background_run :: "'w env \<Rightarrow> background \<Rightarrow> ('w engine, unit) py" where
  "background_run env b =
     (if bg_is_native b then sweep_native env (bg_job b)
      else sweep_erc20 env (bg_job b) (case job_token_address (bg_job b) of None \<Rightarrow> [] | Some a \<Rightarrow> a))"

definition background_sweep :: "'w env \<Rightarrow> background \<Rightarrow> ('w engine, unit) py" where
  "background_sweep env b =
     py_catch (background_run env b)
       (\<lambda>e. case e of
          SweepCreditPending _ \<Rightarrow> py_ret ()
        | _ \<Rightarrow> engine_persist_error env (to_hex (job_deposit_id (bg_job b))) (str_exn e))"

section \<open>Status\<close>

definition get_deposit_status :: "'w env \<Rightarrow> string \<Rightarrow> string \<Rightarrow> ('w engine, deposit_response option) py" where
  "get_deposit_status env i beneficiary =
     py_bind (engine_get env i) (\<lambda>record.
     case record of
       None \<Rightarrow> py_ret None
     | Some r \<Rightarrow>
         if ascii_lower (sr_beneficiary r) \<noteq> ascii_lower beneficiary then py_ret None
         else
           let response = (\<lambda>status detail.
                 Some (deposit_response_of status i (sr_amount r) (sr_token_address r) detail)) in
           if truthy (sr_error r) then
             (if truthy (sr_sweep_tx_hash r) then py_ret (response ''pending'' None)
              else py_ret (response ''error'' (sr_error r)))
           else py_ret (response ''pending'' None))"

section \<open>What a claim may start\<close>

definition app_same :: "'w app \<Rightarrow> 'w app \<Rightarrow> bool" where
  "app_same s t \<longleftrightarrow> same_effects (eng s) (eng t) \<and> background_tasks t = background_tasks s"

lemma app_same_refl [simp]: "app_same s s"
  by (simp add: app_same_def)

lemma app_same_trans: "app_same s t \<Longrightarrow> app_same t u \<Longrightarrow> app_same s u"
  by (simp add: app_same_def same_effects_def)

lemma on_engine_same: "quiet m \<Longrightarrow> on_engine m s = (r, t) \<Longrightarrow> app_same s t"
  by (auto simp: on_engine_def app_same_def split: prod.splits dest: quiet_same)

lemma p_await_same: "p_await env f s = (r, t) \<Longrightarrow> app_same s t"
  unfolding p_await_def by (rule on_engine_same [OF quiet_await])

lemma on_verifier_same: "on_verifier m s = (r, t) \<Longrightarrow> app_same s t"
  by (auto simp: on_verifier_def app_same_def same_effects_def split: prod.splits)

lemma on_verifier_Inr:
  "on_verifier m s = (Inr x, t) \<Longrightarrow> \<exists>v v'. m v = (Inr x, v')"
  by (auto simp: on_verifier_def split: prod.splits)

lemma p_await_Inr: "p_await env f s = (Inr x, t) \<Longrightarrow> \<exists>w w'. f w = (Inr x, w')"
  by (auto simp: p_await_def on_engine_def await_def split: prod.splits)

definition sound_claim ::
    "'w p_env \<Rightarrow> claim \<Rightarrow> private_read_auth \<Rightarrow> string set \<Rightarrow> string \<Rightarrow> verified_deposit \<Rightarrow> bytes \<Rightarrow> bytes \<Rightarrow> bool" where
  "sound_claim env c auth hashes addr d tok dep \<longleftrightarrow>
     map_of (configs (pe_sweep env)) (cl_chain_id c) \<noteq> None
   \<and> ascii_lower (cl_tx_hash c) \<notin> hashes
   \<and> (\<exists>w w'. pe_deposit_address env (cl_chain_type c) (cl_version c) (pr_token auth) w = (Inr addr, w'))
   \<and> (\<exists>v v'. verify_deposit (pe_verify env) (cl_chain_id c) (cl_tx_hash c) addr (cl_amount c)
        (cl_log_index c) v = (Inr d, v'))
   \<and> (0 < min_deposit (configs (pe_sweep env)) (cl_chain_id c) (vd_is_native d) \<longrightarrow>
        min_deposit (configs (pe_sweep env)) (cl_chain_id c) (vd_is_native d) \<le> vd_amount d)
   \<and> (\<exists>w w'. pe_token_id env (cl_chain_id c) (vd_token_address d) w = (Inr tok, w'))
   \<and> (\<exists>w w'. pe_is_token_registered env tok w = (Inr True, w'))
   \<and> compute_deposit_id (pe_solidity_keccak env) (cl_chain_id c) (cl_tx_hash c) tok
        (vd_deposit_index d) = Inr dep"

lemma check_claim_same: "check_claim env c auth s = (r, t) \<Longrightarrow> app_same s t"
  unfolding check_claim_def Let_def
  by (auto simp: py_bind_def py_get_def py_raise_def py_ret_def py_lift_def
        split: prod.splits sum.splits if_splits
        dest!: p_await_same on_verifier_same intro: app_same_trans)

lemma check_claim_Inr:
  assumes "check_claim env c auth s = (Inr (addr, d, tok, dep), t)"
  shows "sound_claim env c auth (gas_funding_tx_hashes (eng s)) addr d tok dep"
proof -
  from assms have cid: "map_of (configs (pe_sweep env)) (cl_chain_id c) \<noteq> None"
    and h: "ascii_lower (cl_tx_hash c) \<notin> gas_funding_tx_hashes (eng s)"
    by (auto simp: check_claim_def py_bind_Inr py_get_def py_raise_def split: if_splits)
  with assms obtain a u v where
      a: "p_await env (pe_deposit_address env (cl_chain_type c) (cl_version c) (pr_token auth)) s = (Inr a, u)"
    and v: "on_verifier (verify_deposit (pe_verify env) (cl_chain_id c) (cl_tx_hash c) a (cl_amount c)
        (cl_log_index c)) u = (Inr d, v)" "a = addr"
    and rest: "\<not> (0 < min_deposit (configs (pe_sweep env)) (cl_chain_id c) (vd_is_native d) \<and>
        vd_amount d < min_deposit (configs (pe_sweep env)) (cl_chain_id c) (vd_is_native d))"
      "\<exists>x y. p_await env (pe_token_id env (cl_chain_id c) (vd_token_address d)) v = (Inr tok, x)
        \<and> p_await env (pe_is_token_registered env tok) x = (Inr True, y)"
      "compute_deposit_id (pe_solidity_keccak env) (cl_chain_id c) (cl_tx_hash c) tok
        (vd_deposit_index d) = Inr dep"
    by (fastforce simp: check_claim_def py_bind_Inr py_get_def py_raise_def py_ret_def py_lift_def Let_def
        split: if_splits)
  with cid h show ?thesis
    unfolding sound_claim_def by (auto dest!: p_await_Inr on_verifier_Inr)
qed

text \<open>
  C12. What a claim may do. Whatever happens, \<open>process_deposit\<close> writes nothing to the sweep
  records but the removal of this deposit's own record when that is flagged as failed and no
  sweep transaction was broadcast for it; and it starts a background sweep only together with the
  answer "pending", and only for a deposit that is sound (supported chain, not one of the engine's
  own gas fundings, verified on the chain, at least the minimum, of a registered token), that the
  contract reports as not processed, and for which no live sweep is on record. The sweep is for
  the caller's own account and the verified amount.
\<close>
theorem process_deposit_effects:
  assumes "process_deposit env c auth s = (r, t)" and "disk_ok (disk (eng s))"
  shows "trace (eng t) = trace (eng s)
    \<and> gas_funding_tx_hashes (eng t) = gas_funding_tx_hashes (eng s)
    \<and> ((background_tasks t = background_tasks s \<and> disk (eng t) = disk (eng s))
      \<or> (\<exists>addr d tok dep resp. sound_claim env c auth (gas_funding_tx_hashes (eng s)) addr d tok dep
          \<and> r = Inr resp \<and> dr_status resp = ''pending'' \<and> dr_deposit_id resp = to_hex dep
          \<and> background_tasks t = background_tasks s @ [claim_job c auth addr d tok dep]
          \<and> (\<exists>w w'. acc_is_deposit_processed (pe_sweep env) dep w = (Inr False, w'))
          \<and> (case record_key (to_hex dep) of
               None \<Rightarrow> disk (eng t) = disk (eng s)
             | Some k \<Rightarrow> disk_ok (disk (eng t)) \<and> disk_lookup (disk (eng t)) = (disk_lookup (disk (eng s)))(k := None)
                 \<and> (\<forall>q. disk_lookup (disk (eng s)) k = Some q \<longrightarrow>
                      truthy (sr_error q) \<and> \<not> truthy (sr_sweep_tx_hash q)))))"
proof -
  obtain q u where cc: "check_claim env c auth s = (q, u)" by (cases "check_claim env c auth s")
  note su = check_claim_same [OF cc]
  show ?thesis
  proof (cases q)
    case (Inl e)
    then show ?thesis using assms(1) cc su
      by (simp add: process_deposit_def py_bind_def app_same_def same_effects_def)
  next
    case (Inr x)
    then obtain addr d tok dep where x: "x = (addr, d, tok, dep)" by (cases x)
    have sound: "sound_claim env c auth (gas_funding_tx_hashes (eng s)) addr d tok dep"
      using check_claim_Inr cc Inr x by blast
    let ?h = "to_hex dep"
    obtain p v where pr: "p_await env (acc_is_deposit_processed (pe_sweep env) dep) u = (p, v)"
      by (cases "p_await env (acc_is_deposit_processed (pe_sweep env) dep) u")
    have sv: "app_same s v" using su p_await_same [OF pr] by (rule app_same_trans)
    show ?thesis
    proof (cases "p = Inr False")
      case False
      then show ?thesis using assms(1) cc sv Inr x pr
        by (cases p) (auto simp: process_deposit_def py_bind_def py_ret_def app_same_def same_effects_def Let_def)
    next
      case True
      have ok: "disk_ok (disk (eng v))" and dv: "disk (eng v) = disk (eng s)"
        using sv assms(2) by (auto simp: app_same_def same_effects_def)
      let ?rec = "case record_key ?h of None \<Rightarrow> None | Some k \<Rightarrow> disk_lookup (disk (eng s)) k"
      have get: "on_engine (engine_get (pe_sweep env) ?h) v = (Inr ?rec, v)"
        by (simp add: on_engine_def engine_get_def py_bind_def py_get_def py_lift_def
            get_record_lookup [OF ok, unfolded dv] dv)
      obtain w w' where no: "acc_is_deposit_processed (pe_sweep env) dep w = (Inr False, w')"
        using pr unfolding True by (blast dest: p_await_Inr)
      let ?resp = "\<lambda>st. deposit_response_of st ?h (vd_amount d) (vd_token_address d) None"
      let ?add = "\<lambda>s. s\<lparr>background_tasks := background_tasks s @ [claim_job c auth addr d tok dep]\<rparr>"
      have run: "(r, t) = (case ?rec of None \<Rightarrow> (Inr (?resp ''pending''), ?add v)
        | Some q \<Rightarrow> if truthy (sr_error q) \<and> \<not> truthy (sr_sweep_tx_hash q)
            then (Inr (?resp ''pending''), ?add (v\<lparr>eng := (eng v)\<lparr>disk := cleanup_record ?h (disk (eng v))\<rparr>\<rparr>))
            else (Inr (?resp ''pending''), v))"
        using assms(1) cc Inr x pr True get
        by (auto simp: process_deposit_def py_bind_def py_ret_def py_then_def create_task_def py_modify_def
            on_engine_def engine_cleanup_def Let_def split: option.splits if_splits)
      show ?thesis
      proof (cases "?rec")
        case None
        then have "t = ?add v" "r = Inr (?resp ''pending'')" using run by simp_all
        then show ?thesis
          using None sv sound no ok dv
          by (intro conjI disjI2 exI [of _ addr] exI [of _ d] exI [of _ tok] exI [of _ dep])
            (auto simp: app_same_def same_effects_def deposit_response_of_def fun_eq_iff split: option.splits)
      next
        case (Some q)
        then obtain k where k: "record_key ?h = Some k" "disk_lookup (disk (eng s)) k = Some q"
          by (auto split: option.splits)
        show ?thesis
        proof (cases "truthy (sr_error q) \<and> \<not> truthy (sr_sweep_tx_hash q)")
          case True
          obtain d' where d': "delete_record ?h (disk (eng v)) = Inr d'" "disk_ok d'"
              "disk_lookup d' = (disk_lookup (disk (eng v)))(k := None)"
            using store.del_total [OF k(1)] store.del_inv [OF ok] store.del_lookup [OF ok _ k(1)] by metis
          then have "t = ?add (v\<lparr>eng := (eng v)\<lparr>disk := d'\<rparr>\<rparr>)" "r = Inr (?resp ''pending'')"
            using run Some True by (simp_all add: cleanup_record_def)
          then show ?thesis
            using k True d' sv sound no dv
            by (intro conjI disjI2 exI [of _ addr] exI [of _ d] exI [of _ tok] exI [of _ dep])
              (auto simp: app_same_def same_effects_def deposit_response_of_def)
        next
          case False
          then have "t = v" using run Some by (simp split: if_splits)
          then show ?thesis using sv by (simp add: app_same_def same_effects_def)
        qed
      qed
    qed
  qed
qed

section \<open>What the background sweep leaves\<close>

lemma background_run_sweep: "\<exists>job. background_run env b = run_sweep env job \<and> job_deposit_id job = job_deposit_id (bg_job b)"
proof (cases "bg_is_native b")
  case True
  then show ?thesis
    by (auto simp: background_run_def sweep_native_def
        intro!: exI [of _ "bg_job b\<lparr>job_token_address := None\<rparr>"])
next
  case False
  then show ?thesis
    by (auto simp: background_run_def sweep_erc20_def intro!: exI [of _ "bg_job b\<lparr>job_token_address :=
      Some (case job_token_address (bg_job b) of None \<Rightarrow> [] | Some a \<Rightarrow> a)\<rparr>"])
qed

lemma background_run_disk_ok:
  assumes "disk_ok (disk s)" "background_run env b s = (q, u)"
  shows "disk_ok (disk u)"
proof -
  obtain job where "run_sweep env job s = (q, u)" using background_run_sweep assms(2) by metis
  from run_sweep_stages [OF assms(1) this] show ?thesis by (metis order_refl take_all)
qed

text \<open>The mark a failed sweep leaves on its record.\<close>

definition flagged :: "string \<Rightarrow> sweep_record \<Rightarrow> sweep_record" where
  "flagged e r = (if truthy (sr_sweep_tx_hash r) then r else r\<lparr>sr_error := Some e\<rparr>)"

text \<open>
  How a background sweep ends. It raises nothing but what no handler may catch (a
  cancellation); a completed sweep and one whose credit is pending leave the directory as the
  sweep left it; after any other failure the deposit's record, if there is one, carries the
  failure's text, unless a sweep transaction is out, and no other deposit's record is touched.
\<close>
theorem background_sweep_outcome:
  assumes "disk_ok (disk s)" and "background_run env b s = (q, u)"
    and "background_sweep env b s = (r, t)"
  shows "disk_ok (disk t) \<and> trace t = trace u \<and>
    (case q of
       Inr _ \<Rightarrow> r = Inr () \<and> disk t = disk u
     | Inl e \<Rightarrow>
         if \<not> is_exception e then r = Inl e \<and> disk t = disk u
         else r = Inr () \<and>
           ((\<exists>i. e = SweepCreditPending i \<and> disk t = disk u)
            \<or> ((\<forall>i. e \<noteq> SweepCreditPending i) \<and> disk_lookup (disk t) = (\<lambda>k.
                 if record_key (to_hex (job_deposit_id (bg_job b))) = Some k
                 then map_option (flagged (str_exn e)) (disk_lookup (disk u) k)
                 else disk_lookup (disk u) k))))"
proof (cases q)
  case (Inr x)
  then show ?thesis
    using assms background_run_disk_ok [OF assms(1,2)]
    by (auto simp: background_sweep_def py_catch_def py_try_def)
next
  case (Inl e)
  note ok = background_run_disk_ok [OF assms(1,2)]
  have fl: "flagged m = (\<lambda>r. if truthy (sr_sweep_tx_hash r) then r else r\<lparr>sr_error := Some m\<rparr>)" for m
    by (simp add: fun_eq_iff flagged_def)
  show ?thesis
  proof (cases "is_exception e \<and> (\<forall>i. e \<noteq> SweepCreditPending i)")
    case True
    then have "engine_persist_error env (to_hex (job_deposit_id (bg_job b))) (str_exn e) u = (r, t)"
      using assms Inl by (cases e) (auto simp: background_sweep_def py_catch_def py_try_def)
    then show ?thesis
      using persist_error_spec [OF ok, of "clock env (world u)" "to_hex (job_deposit_id (bg_job b))" "str_exn e"]
        Inl True
      unfolding fl by (auto simp: engine_persist_error_def)
  next
    case False
    then show ?thesis
      using assms Inl ok
      by (cases e) (auto simp: background_sweep_def py_catch_def py_try_def py_ret_def py_raise_def)
  qed
qed

text \<open>
  The status a client polls, on a directory the program wrote: nothing for an id without a
  record and for another user's record; "error" with its text exactly for a record that is
  flagged with a non-empty text and has no sweep transaction, which are the records a new claim
  restarts; "pending" otherwise. Asking changes nothing.
\<close>
theorem deposit_status_spec:
  assumes "disk_ok (disk s)"
  shows "get_deposit_status env i who s =
    (Inr (case (case record_key i of None \<Rightarrow> None | Some k \<Rightarrow> disk_lookup (disk s) k) of
       None \<Rightarrow> None
     | Some r \<Rightarrow>
         if ascii_lower (sr_beneficiary r) \<noteq> ascii_lower who then None
         else if truthy (sr_error r) \<and> \<not> truthy (sr_sweep_tx_hash r)
         then Some (deposit_response_of ''error'' i (sr_amount r) (sr_token_address r) (sr_error r))
         else Some (deposit_response_of ''pending'' i (sr_amount r) (sr_token_address r) None)), s)"
  by (auto simp: get_deposit_status_def engine_get_def py_bind_def py_get_def py_lift_def py_ret_def
      get_record_lookup [OF assms] Let_def split: option.splits)

section \<open>Concrete runs\<close>

definition demo_background :: background where
  "demo_background = \<lparr>bg_job = demo_job, bg_is_native = True\<rparr>"

lemma demo_background_run: "background_run env demo_background = run_sweep env demo_job"
  by (simp add: background_run_def demo_background_def sweep_native_def demo_job_def)

lemma deposit_status_spec_witness:
  "get_deposit_status (demo_env None demo_send (Inr ())) (to_hex (replicate 32 7)) ''0xb''
      (demo_engine [(demo_name, file_of demo_record)])
   = (Inr (Some (deposit_response_of ''pending'' (to_hex (replicate 32 7)) 3000000000000000 None None)),
      demo_engine [(demo_name, file_of demo_record)])"
proof -
  have "disk_ok (disk (demo_engine [(demo_name, file_of demo_record)]))"
    by (simp add: demo_engine_def demo_disk)
  moreover have "ascii_lower ''0xB'' = ascii_lower ''0xb''" by code_simp
  moreover have "sr_beneficiary demo_record = ''0xB''" "sr_amount demo_record = 3000000000000000"
      "sr_token_address demo_record = None" "\<not> truthy (sr_error demo_record)"
    by (simp_all add: demo_record_def new_record_def demo_job_def truthy_def)
  ultimately show ?thesis
    using deposit_status_spec [of "demo_engine [(demo_name, file_of demo_record)]"] demo_disk(2) [of demo_record]
    by (simp add: demo_engine_def del: replicate.simps)
qed

text \<open>The node's answer to the funding transaction times out, with no text.\<close>

lemma demo_timeout_run:
  assumes "env = demo_env None (\<lambda>_. Inl (TimeoutError e)) (Inr ())"
  shows "run_sweep env demo_job (demo_engine []) = (Inl (TimeoutError e),
    demo_engine (apply_event (EvSave demo_record) [])
      \<lparr>trace := [EvSave demo_record, EvSend demo_eth [1]]\<rparr>)"
  by (simp add: assms sweep_run_simps projr_save demo_record_def cong: run_lazy
      del: replicate.simps apply_event.simps)

lemma demo_timeout_disk:
  "disk_ok (apply_event (EvSave demo_record) [])
   \<and> disk_lookup (apply_event (EvSave demo_record) []) = (disk_lookup [])(bytes_hex (replicate 32 7) \<mapsto> demo_record)"
  by (rule apply_save) (simp_all add: disk_ok_def del: replicate.simps)

lemma background_sweep_outcome_witness:
  "\<exists>t. background_sweep (demo_env None (\<lambda>_. Inl (TimeoutError ''lost'')) (Inr ())) demo_background (demo_engine [])
      = (Inr (), t)
    \<and> disk_lookup (disk t) (bytes_hex (replicate 32 7)) = Some (demo_record\<lparr>sr_error := Some ''lost''\<rparr>)"
proof -
  let ?env = "demo_env None (\<lambda>_. Inl (TimeoutError ''lost'')) (Inr ())"
  obtain r t where bg: "background_sweep ?env demo_background (demo_engine []) = (r, t)"
    by (cases "background_sweep ?env demo_background (demo_engine [])")
  have ok: "disk_ok (disk (demo_engine []))" by (simp add: demo_engine_def disk_ok_def)
  have "\<not> truthy (sr_sweep_tx_hash demo_record)" by (simp add: demo_record_def new_record_def truthy_def)
  then show ?thesis
    using background_sweep_outcome [OF ok demo_timeout_run [OF refl, of "''lost''", folded demo_background_run] bg]
      demo_timeout_disk bg
    by (auto simp: demo_background_def demo_engine_def flagged_def simp del: replicate.simps apply_event.simps)
qed

text \<open>
  A failure without a text is not reported: there is a background sweep that fails (a
  \<open>TimeoutError\<close> raised with no argument has the empty text) before any sweep transaction, after
  which the record's error is the empty text, which every reader takes for no error: the status is
  "pending" where for any other text it would be "error".
\<close>
theorem silent_failure_reported_pending:
  "\<exists>env b s e u t resp. background_run env b s = (Inl e, u) \<and> is_exception e \<and> (\<forall>i. e \<noteq> SweepCreditPending i)
   \<and> background_sweep env b (s :: int engine) = (Inr (), t)
   \<and> (\<exists>k q. record_key (to_hex (job_deposit_id (bg_job b))) = Some k \<and> disk_lookup (disk t) k = Some q
        \<and> sr_error q = Some [] \<and> sr_sweep_tx_hash q = None)
   \<and> get_deposit_status env (to_hex (job_deposit_id (bg_job b))) (job_beneficiary (bg_job b)) t = (Inr (Some resp), t)
   \<and> dr_status resp = ''pending''"
proof -
  let ?env = "demo_env None (\<lambda>_. Inl (TimeoutError [])) (Inr ())" and ?k = "bytes_hex (replicate 32 7)"
  let ?s = "demo_engine []" and ?q = "demo_record\<lparr>sr_error := Some []\<rparr>"
  let ?u = "demo_engine (apply_event (EvSave demo_record) [])
      \<lparr>trace := [EvSave demo_record, EvSend demo_eth [1]]\<rparr>"
  have run: "background_run ?env demo_background ?s = (Inl (TimeoutError []), ?u)"
    unfolding demo_background_run by (rule demo_timeout_run [OF refl])
  have b: "job_deposit_id (bg_job demo_background) = replicate 32 7" "job_beneficiary (bg_job demo_background) = ''0xB''"
    by (simp_all add: demo_background_def) (simp add: demo_job_def)
  have nh: "sr_sweep_tx_hash demo_record = None" by (simp add: demo_record_def new_record_def)
  have "disk_ok (disk ?u)" using demo_timeout_disk by (simp add: demo_engine_def)
  from persist_error_spec [OF this, of "clock ?env (world ?u)" "to_hex (replicate 32 7)" "[]"]
  obtain d' where d': "persist_error (clock ?env (world ?u)) (to_hex (replicate 32 7)) [] (disk ?u) = Inr d'"
      "disk_ok d'" "disk_lookup d' ?k = Some ?q"
    using demo_timeout_disk nh by (auto simp: demo_engine_def truthy_def simp del: replicate.simps apply_event.simps)
  let ?t = "?u\<lparr>disk := d'\<rparr>"
  have bg: "background_sweep ?env demo_background ?s = (Inr (), ?t)"
    using d'(1) by (simp add: background_sweep_def py_catch_def py_try_def run engine_persist_error_def
        b demo_engine_def [of "apply_event _ _"] del: replicate.simps apply_event.simps)
  have "get_record_by_deposit_id n (to_hex (replicate 32 7)) d' = Inr (Some ?q)" for n
    using get_record_lookup [OF d'(2)] d'(3) by (simp del: replicate.simps)
  then have st: "get_deposit_status ?env (to_hex (replicate 32 7)) ''0xB'' ?t =
      (Inr (Some (deposit_response_of ''pending'' (to_hex (replicate 32 7)) (sr_amount ?q) (sr_token_address ?q) None)), ?t)"
    by (simp add: get_deposit_status_def engine_get_def py_bind_def py_get_def py_lift_def py_ret_def
        Let_def truthy_def demo_record_def new_record_def demo_job_def del: replicate.simps apply_event.simps)
  show ?thesis
    by (intro exI [of _ ?env] exI [of _ demo_background] exI [of _ ?s] exI [of _ "TimeoutError []"] exI [of _ ?u]
        exI [of _ ?t] exI [of _ "deposit_response_of ''pending'' (to_hex (replicate 32 7)) (sr_amount ?q) (sr_token_address ?q) None"]
        conjI exI [of _ ?k] exI [of _ ?q])
      (use run bg st d' nh in \<open>simp_all add: b demo_engine_def deposit_response_of_def del: replicate.simps apply_event.simps\<close>)
qed

definition demo_p_env :: "int p_env" where
  "demo_p_env = \<lparr>pe_sweep = demo_env None demo_send (Inr ()), pe_verify = demo_v_env,
     pe_deposit_address = (\<lambda>_ _ _ w. (Inr demo_address, w)), pe_token_id = (\<lambda>_ _ w. (Inr [9], w)),
     pe_is_token_registered = (\<lambda>_ w. (Inr True, w)),
     pe_solidity_keccak = (\<lambda>_ _ _ _. Inr (replicate 32 7))\<rparr>"

definition demo_claim :: claim where
  "demo_claim = \<lparr>cl_chain_type = ''evm'', cl_chain_id = 1, cl_tx_hash = ''0xabcd'', cl_amount = 5000000,
     cl_log_index = 3, cl_version = 1\<rparr>"

definition demo_app :: "int app" where
  "demo_app = \<lparr>eng = demo_engine [], verifier_cache = Map.empty, background_tasks = []\<rparr>"

lemma demo_process_verify:
  "fst (verify_deposit demo_v_env 1 ''0xabcd'' demo_address 5000000 3
      \<lparr>v_world = 1000, v_rpc = demo_rpc, v_cache = Map.empty\<rparr>) = Inr (demo_verified\<lparr>vd_tx_hash := ''0xabcd''\<rparr>)"
  by code_simp

lemma demo_min_deposit: "min_deposit (configs (demo_env r sd c)) 1 False = 1000000"
proof -
  have "chain_table_ok (configs (demo_env r sd c))"
    unfolding demo_env_def using build_chain_configs_table [OF build_chain_configs_eq [of None]] by simp
  then show ?thesis
    by (simp add: min_deposit_def MIN_DEPOSIT_ERC20_WEI_def derived_dict_lookup demo_config)
qed

lemma demo_process:
  "length (background_tasks (snd (process_deposit demo_p_env demo_claim \<lparr>pr_token = [1], pr_user_address = ''0xB''\<rparr> demo_app))) = 1"
proof -
  obtain v where v: "verify_deposit demo_v_env 1 ''0xabcd'' demo_address 5000000 3
      \<lparr>v_world = 1000, v_rpc = demo_rpc, v_cache = Map.empty\<rparr> = (Inr (demo_verified\<lparr>vd_tx_hash := ''0xabcd''\<rparr>), v)"
    using demo_process_verify by (metis fst_conv surj_pair)
  have h: "bytes_fromhex (removeprefix ''0x'' ''0xabcd'') = Inr [0xab, 0xcd]" by code_simp
  have e: "disk_ok []" by (simp add: disk_ok_def)
  have "check_claim demo_p_env demo_claim \<lparr>pr_token = [1], pr_user_address = ''0xB''\<rparr> demo_app =
    (Inr (demo_address, demo_verified\<lparr>vd_tx_hash := ''0xabcd''\<rparr>, [9], replicate 32 7),
     demo_app\<lparr>eng := (demo_engine [])\<lparr>world := v_world v, rpc := v_rpc v\<rparr>, verifier_cache := v_cache v\<rparr>)"
    using v by (simp add: check_claim_def demo_p_env_def demo_claim_def demo_app_def demo_engine_def run_simps
        p_await_def on_engine_def on_verifier_def demo_config demo_verified_def demo_min_deposit
        compute_deposit_id_def h Let_def cong: run_lazy del: replicate.simps removeprefix.simps)
  then show ?thesis
    by (simp add: process_deposit_def run_simps p_await_def on_engine_def engine_get_def
        get_record_lookup [OF e] demo_app_def demo_engine_def demo_p_env_def disk_lookup_def create_task_def Let_def
        cong: run_lazy del: replicate.simps split: option.split)
qed

lemma process_deposit_effects_witness:
  "\<exists>addr d tok dep. sound_claim demo_p_env demo_claim \<lparr>pr_token = [1], pr_user_address = ''0xB''\<rparr> {} addr d tok dep"
proof -
  obtain r t where run: "process_deposit demo_p_env demo_claim \<lparr>pr_token = [1], pr_user_address = ''0xB''\<rparr> demo_app = (r, t)"
    by (cases "process_deposit demo_p_env demo_claim \<lparr>pr_token = [1], pr_user_address = ''0xB''\<rparr> demo_app")
  have "disk_ok (disk (eng demo_app))" "background_tasks demo_app = []" "gas_funding_tx_hashes (eng demo_app) = {}"
    by (simp_all add: demo_app_def demo_engine_def disk_ok_def)
  then show ?thesis
    using process_deposit_effects [OF run] demo_process run by auto
qed

end
