(* ===== verification/Sweep_Bounds.thy ===== *)
theory Sweep_Bounds
  imports Sweep_Example
begin

text \<open>
  The numbers of a sweep and its termination: the gas price it offers, the gas it funds, and
  that with a clock that moves the receipt loops, and so the sweeps, always return.
\<close>

section \<open>Prices\<close>

lemma await_run: "await env f s = (r, t) \<longleftrightarrow>
    (\<exists>w. f (world s) = (r, w) \<and> t = s\<lparr>world := w, rpc := rpc_drift env w (rpc s)\<rparr>)"
  by (auto simp: await_def split: prod.splits)

lemma bind_Inr: "py_bind m f s = (Inr y, t) \<longleftrightarrow> (\<exists>x u. m s = (Inr x, u) \<and> f x u = (Inr y, t))"
  by (auto simp: py_bind_def split: prod.splits sum.splits)

text \<open>
  The price a sweep offers is derived from the node's two answers and the chain's floor: it
  is never below any of the floor, the node's suggestion and five quarters of the base fee
  (rounded down), and it equals one of them; a node that gives no signal at all is refused, so a
  price of zero is never offered.
\<close>
theorem safe_gas_price_bounds:
  assumes "get_safe_gas_price env w3 cid s = (Inr p, t)"
  shows "\<exists>fee w price w' floor. eth_base_fee env w3 (world s) = (Inr fee, w)
     \<and> eth_gas_price env w3 w = (Inr price, w') \<and> world t = w'
     \<and> MIN_SWEEP_GAS_PRICE_WEI (configs env) cid = Some floor
     \<and> p \<ge> floor \<and> p \<ge> price \<and> p \<ge> (case fee of None \<Rightarrow> 0 | Some f \<Rightarrow> f) * 5 div 4
     \<and> p \<in> {floor, price, (case fee of None \<Rightarrow> 0 | Some f \<Rightarrow> f) * 5 div 4}
     \<and> \<not> ((case fee of None \<Rightarrow> 0 | Some f \<Rightarrow> f) = 0 \<and> price = 0)"
  using assms
  by (auto simp: get_safe_gas_price_def bind_Inr await_run py_lift_def py_index_def py_ret_def
      py_raise_def Let_def max_def split: if_splits option.splits)

lemma safe_gas_price_bounds_witness:
  "1250000000 \<ge> (100000000 :: int) \<and> (\<exists>w. eth_base_fee (demo_env None demo_send (Inr ())) demo_eth 1000 = (Inr (Some 1000000000), w))"
  using safe_gas_price_bounds [OF demo_price [of "demo_engine []" None demo_send "Inr ()" demo_eth]]
  by (auto simp: demo_engine_def)

text \<open>
  C7. The gas funding, under any table the program builds: it stays below the chain's minimum
  native deposit, so a funding transfer can never pass as a deposit of the user; it covers at
  least two sweeps at the chain's floor price; and when it does not cover the estimated cost of
  this sweep, it is the chain's cap.
\<close>
theorem gas_funding_bounds:
  assumes "build_chain_configs sapphire = Inr cfgs"
    and "GAS_FUNDING_AMOUNT_WEI cfgs cid = Some cap"
    and "MIN_DEPOSIT_NATIVE_WEI cfgs cid = Some min_deposit"
    and "MIN_SWEEP_GAS_PRICE_WEI cfgs cid = Some floor_price"
    and "floor_price \<le> gas_price" and "0 \<le> l1_fee"
  shows "gas_funding_amount job gas_price l1_fee cap < min_deposit
    \<and> 2 * (sweep_gas_limit job * floor_price) \<le> gas_funding_amount job gas_price l1_fee cap
    \<and> (gas_funding_amount job gas_price l1_fee cap \<noteq> cap \<longrightarrow>
         2 * (sweep_gas_limit job * gas_price) + l1_fee = gas_funding_amount job gas_price l1_fee cap)"
proof -
  have tab: "chain_table_ok cfgs" by (rule build_chain_configs_table [OF assms(1)])
  then obtain c where c: "map_of cfgs cid = Some c" "cap = gas_funding_amount_wei c"
      "min_deposit = min_deposit_native_wei c" "floor_price = min_sweep_gas_price_wei c"
    using assms(2-4) by (auto simp: GAS_FUNDING_AMOUNT_WEI_def MIN_DEPOSIT_NATIVE_WEI_def
        MIN_SWEEP_GAS_PRICE_WEI_def derived_dict_lookup)
  then have ok: "chain_config_ok c" using chain_table_ok_lookup [OF tab] by blast
  have lim: "0 \<le> sweep_gas_limit job" "sweep_gas_limit job \<le> 65000"
    by (auto simp: sweep_gas_limit_def SWEEP_GAS_LIMIT_NATIVE_def SWEEP_GAS_LIMIT_ERC20_def
        split: option.splits)
  have "sweep_gas_limit job * floor_price \<le> 65000 * floor_price"
    using ok c lim by (intro mult_right_mono) (auto simp: chain_config_ok_def)
  moreover have "130000 * floor_price \<le> cap"
    using ok c by (simp add: chain_config_ok_def SWEEP_GAS_LIMIT_ERC20_def GAS_FUNDING_HEADROOM_def)
  ultimately have covers: "2 * (sweep_gas_limit job * floor_price) \<le> cap" by linarith
  have "sweep_gas_limit job * floor_price \<le> sweep_gas_limit job * gas_price"
    using assms(5) lim by (intro mult_left_mono) auto
  with covers show ?thesis
    using ok c assms(6)
    by (auto simp: gas_funding_amount_def chain_config_ok_def GAS_FUNDING_HEADROOM_def min_def)
qed

lemma gas_funding_bounds_witness:
  "gas_funding_amount
     \<lparr>job_deposit_address = ''0xaa'', job_beneficiary = ''0xbb'', job_chain_type = ''evm'',
      job_version = 1, job_chain_id = 8453, job_token_address = None, job_token_id = [],
      job_amount = 5, job_deposit_id = []\<rparr> 5000000 7 200000000000000 < 2000000000000000"
  by (rule gas_funding_bounds [where sapphire = None and cid = 8453
        and floor_price = 5000000, OF build_chain_configs_eq, THEN conjunct1]) code_simp+

section \<open>Termination\<close>

text \<open>
  What the environment must give: no call reports the model's own \<open>OutOfFuel\<close>, a completed
  \<open>sleep(2)\<close> lets the clock advance by at least two seconds, and looking up a receipt does not
  turn it back.
\<close>

definition answers :: "('w, 'a) ext \<Rightarrow> bool" where
  "answers f \<longleftrightarrow> (\<forall>w. fst (f w) \<noteq> Inl OutOfFuel)"

definition env_answers :: "'w env \<Rightarrow> bool" where
  "env_answers env \<longleftrightarrow>
     (\<forall>n. answers (aio_sleep env n))
   \<and> (\<forall>c a. answers (eth_get_balance env c a)) \<and> (\<forall>c t a. answers (erc20_balance_of env c t a))
   \<and> (\<forall>c. answers (eth_base_fee env c)) \<and> (\<forall>c. answers (eth_gas_price env c))
   \<and> (\<forall>c a b. answers (eth_transaction_count env c a b))
   \<and> (\<forall>c tx. answers (eth_send_raw_transaction env c tx))
   \<and> (\<forall>c h. answers (eth_receipt_status env c h))
   \<and> (\<forall>c d. answers (op_get_l1_fee env c d)) \<and> (\<forall>c d. answers (arb_gas_l1_component env c d))
   \<and> answers (acc_gas_tank_address env)
   \<and> (\<forall>a c g n p. answers (acc_generate_gas_funding_tx env a c g n p))
   \<and> (\<forall>b t v c a n p. answers (acc_generate_sweep_native env b t v c a n p))
   \<and> (\<forall>b t v c k a n p. answers (acc_generate_sweep_erc20 env b t v c k a n p))
   \<and> (\<forall>i. answers (acc_is_deposit_processed env i))
   \<and> (\<forall>b t a i. answers (acc_credit_deposit env b t a i))"

definition clock_moves :: "'w env \<Rightarrow> bool" where
  "clock_moves env \<longleftrightarrow>
     (\<forall>w w'. aio_sleep env 2 w = (Inr (), w') \<longrightarrow> clock env w + 2 \<le> clock env w')
   \<and> (\<forall>c h w. clock env w \<le> clock env (snd (eth_receipt_status env c h w)))"

definition no_fuel :: "('s, 'a) py \<Rightarrow> bool" where
  "no_fuel m \<longleftrightarrow> (\<forall>s. in_fuel m s)"

named_theorems no_fuel_intros \<open>programs that never exhaust the fuel\<close>

lemma no_fuelD: "no_fuel m \<Longrightarrow> m s \<noteq> (Inl OutOfFuel, t)"
  unfolding no_fuel_def in_fuel_def by (metis fst_conv)

lemma no_fuel_ret [no_fuel_intros]: "no_fuel (py_ret x)" and no_fuel_get [no_fuel_intros]: "no_fuel py_get"
  and no_fuel_modify [no_fuel_intros]: "no_fuel (py_modify f)"
  and no_fuel_raise [no_fuel_intros]: "e \<noteq> OutOfFuel \<Longrightarrow> no_fuel (py_raise e)"
  and no_fuel_lift [no_fuel_intros]: "r \<noteq> Inl OutOfFuel \<Longrightarrow> no_fuel (py_lift r)"
  by (simp_all add: no_fuel_def in_fuel_def py_ret_def py_get_def py_modify_def py_raise_def py_lift_def)

lemma no_fuel_bind [no_fuel_intros]:
  "no_fuel m \<Longrightarrow> (\<And>x. no_fuel (f x)) \<Longrightarrow> no_fuel (py_bind m f)"
  unfolding no_fuel_def in_fuel_def py_bind_def by (auto split: prod.splits sum.splits) (metis fst_conv)+

lemma no_fuel_then [no_fuel_intros]: "no_fuel m \<Longrightarrow> no_fuel n \<Longrightarrow> no_fuel (py_then m n)"
  by (simp add: py_then_def no_fuel_bind)

lemma no_fuel_try [no_fuel_intros]:
  "no_fuel m \<Longrightarrow> (\<And>e. e \<noteq> OutOfFuel \<Longrightarrow> no_fuel (h e)) \<Longrightarrow> no_fuel (py_try m h)"
  unfolding no_fuel_def in_fuel_def py_try_def by (auto split: prod.splits sum.splits) (metis fst_conv)+

lemma no_fuel_catch [no_fuel_intros]:
  "no_fuel m \<Longrightarrow> (\<And>e. e \<noteq> OutOfFuel \<Longrightarrow> no_fuel (h e)) \<Longrightarrow> no_fuel (py_catch m h)"
  by (auto simp: py_catch_def intro!: no_fuel_intros)

lemma no_fuel_if [no_fuel_intros]:
  "(b \<Longrightarrow> no_fuel m) \<Longrightarrow> (\<not> b \<Longrightarrow> no_fuel n) \<Longrightarrow> no_fuel (if b then m else n)"
  by simp

lemma no_fuel_await: "answers f \<Longrightarrow> no_fuel (await env f)"
  by (auto simp: answers_def no_fuel_def in_fuel_def await_def split: prod.splits) (metis fst_conv)

lemma no_fuel_save [no_fuel_intros]: "no_fuel (engine_save r)"
  by (auto simp: no_fuel_def in_fuel_def engine_save_def save_record_def split: sum.splits option.splits)

lemma no_fuel_delete [no_fuel_intros]: "no_fuel (engine_delete i)"
  by (auto simp: no_fuel_def in_fuel_def engine_delete_def delete_record_def record_path_def
      split: sum.splits option.splits)

lemma no_fuel_emit [no_fuel_intros]: "no_fuel (emit e)"
  and no_fuel_hash [no_fuel_intros]: "no_fuel (add_funding_hash h)"
  and no_fuel_time [no_fuel_intros]: "no_fuel (time_now env)"
  unfolding emit_def add_funding_hash_def time_now_def by (intro no_fuel_intros)+

lemma no_fuel_index [no_fuel_intros]: "no_fuel (py_lift (py_index m k))"
  by (intro no_fuel_intros) (simp add: py_index_def split: option.splits)

lemma no_fuel_web3 [no_fuel_intros]: "no_fuel (get_web3 env cid)"
  by (auto simp: no_fuel_def in_fuel_def get_web3_def require_verified_web3_def Let_def
      split: prod.splits option.splits if_splits)

lemma no_fuel_recheck [no_fuel_intros]: "no_fuel (recheck_served env cid)"
  unfolding recheck_served_def by (intro no_fuel_intros)

lemma poll_retries_total [simp]: "poll_retries e \<Longrightarrow> e \<noteq> OutOfFuel"
  by auto

text \<open>One turn of the loop takes two seconds off what is left.\<close>

lemma wait_loop_in_fuel:
  assumes "env_answers env" "clock_moves env"
  shows "deadline - clock env (world s) \<le> 2 * int n \<Longrightarrow> in_fuel (wait_loop (Suc n) env w3 h deadline) s"
proof (induction n arbitrary: s)
  case 0
  then show ?case by (simp add: in_fuel_def time_now_def py_bind_def py_get_def py_ret_def py_raise_def)
next
  case (Suc n)
  let ?poll = "py_try (await env (eth_receipt_status env w3 h))
    (\<lambda>e. if poll_retries e then py_ret None else py_raise e)"
  have poll: "no_fuel ?poll"
    using assms(1) by (auto intro!: no_fuel_intros no_fuel_await simp: env_answers_def)
  have sleep: "no_fuel (await env (aio_sleep env 2))"
    using assms(1) by (auto intro!: no_fuel_await simp: env_answers_def)
  obtain r t where p: "?poll s = (r, t)" by (cases "?poll s")
  then have "clock env (world s) \<le> clock env (world t)"
    using assms(2) unfolding clock_moves_def py_try_def await_def py_ret_def py_raise_def
    by (auto split: prod.splits sum.splits if_splits) (metis snd_conv)+
  moreover obtain q u where q: "await env (aio_sleep env 2) t = (q, u)"
    by (cases "await env (aio_sleep env 2) t")
  moreover have "clock env (world t) + 2 \<le> clock env (world u)" if "q = Inr ()"
    using assms(2) q that unfolding clock_moves_def by (auto simp: await_run)
  ultimately have next_turn: "in_fuel (wait_loop (Suc n) env w3 h deadline) u" if "q = Inr ()"
    using Suc.IH [of u] Suc.prems that by simp
  show ?case
    using p q next_turn no_fuelD [OF poll, of s t] no_fuelD [OF sleep, of t u]
    by (cases r; cases q; cases "projr r")
      (auto simp: in_fuel_def time_now_def py_bind_def py_then_def py_get_def py_ret_def py_raise_def
        emit_def py_modify_def simp del: wait_loop.simps(2)
        simp: wait_loop.simps(2) [of "Suc n"])
qed

lemma no_fuel_wait [no_fuel_intros]:
  assumes "env_answers env" "clock_moves env"
  shows "no_fuel (wait_for_receipt env w3 h)"
  using wait_loop_in_fuel [OF assms, of _ _ 60]
  by (simp add: no_fuel_def in_fuel_def wait_for_receipt_def time_now_def py_bind_def py_get_def
      py_ret_def RECEIPT_TIMEOUT_def del: wait_loop.simps)

lemma env_awaits:
  assumes "env_answers env"
  shows
    "no_fuel (await env (eth_get_balance env c a))" "no_fuel (await env (erc20_balance_of env c k a))"
    "no_fuel (await env (eth_base_fee env c))" "no_fuel (await env (eth_gas_price env c))"
    "no_fuel (await env (eth_transaction_count env c a b))"
    "no_fuel (await env (eth_send_raw_transaction env c tx))"
    "no_fuel (await env (op_get_l1_fee env c d))" "no_fuel (await env (arb_gas_l1_component env c d))"
    "no_fuel (await env (acc_gas_tank_address env))"
    "no_fuel (await env (acc_generate_gas_funding_tx env a i n m p))"
    "no_fuel (await env (acc_generate_sweep_native env a b i j l n p))"
    "no_fuel (await env (acc_generate_sweep_erc20 env a b i j k l n p))"
    "no_fuel (await env (acc_is_deposit_processed env dep))"
    "no_fuel (await env (acc_credit_deposit env a tok n dep))"
  using assms by (auto simp: env_answers_def intro!: no_fuel_await)

lemma no_fuel_gas_price:
  assumes "env_answers env"
  shows "no_fuel (get_safe_gas_price env w3 cid)"
  unfolding get_safe_gas_price_def Let_def by (intro no_fuel_intros env_awaits assms) simp

lemma no_fuel_l1_fee:
  assumes "env_answers env"
  shows "no_fuel (estimate_l1_data_fee c (\<lambda>d. await env (op_get_l1_fee env w3 d))
    (\<lambda>d. await env (arb_gas_l1_component env w3 d)) cid b)"
  unfolding estimate_l1_data_fee_def estimate_op_stack_def estimate_arbitrum_def Let_def
  by (auto intro!: no_fuel_intros env_awaits [OF assms] split: option.split l2_type.split)

lemma no_fuel_check:
  assumes "env_answers env"
  shows "no_fuel (sweep_check env w3 job)"
  unfolding sweep_check_def read_balance_def
  by (auto intro!: no_fuel_intros env_awaits [OF assms] split: option.split)

lemma no_fuel_generate:
  assumes "env_answers env"
  shows "no_fuel (generate_sweep env job n g)"
  unfolding generate_sweep_def by (auto intro!: env_awaits [OF assms] split: option.split)

lemma no_fuel_fund:
  assumes "env_answers env" "clock_moves env"
  shows "no_fuel (sweep_fund env w3 job g r)"
  unfolding sweep_fund_def Let_def
  by (intro no_fuel_intros no_fuel_l1_fee env_awaits assms) simp

lemma no_fuel_send:
  assumes "env_answers env" "clock_moves env"
  shows "no_fuel (sweep_send env w3 job r)"
  unfolding sweep_send_def Let_def
  by (intro no_fuel_intros no_fuel_gas_price no_fuel_generate env_awaits assms) simp

lemma no_fuel_idempotent_credit:
  assumes "env_answers env"
  shows "no_fuel (idempotent_credit env b tok a d)"
  unfolding idempotent_credit_def
  by (auto intro!: no_fuel_intros env_awaits [OF assms] split: exn.split)

lemma no_fuel_credit:
  assumes "env_answers env"
  shows "no_fuel (sweep_credit env job r)"
  unfolding sweep_credit_def by (intro no_fuel_intros no_fuel_idempotent_credit assms) simp

text \<open>
  C5. A sweep always returns: whatever the nodes and the accounting service answer, as long as
  the clock advances with the sleeps, both receipt loops end within their bound, so the run ends
  with a result or an exception of the program.
\<close>
theorem run_sweep_returns:
  assumes "env_answers env" and "clock_moves env"
  shows "in_fuel (run_sweep env job) s"
proof -
  have "no_fuel (run_sweep env job)"
    unfolding run_sweep_def
    by (intro no_fuel_intros no_fuel_check no_fuel_gas_price no_fuel_fund no_fuel_send no_fuel_credit assms)
      (simp add: sweep_record_post_init_def)
  then show ?thesis by (simp add: no_fuel_def)
qed

text \<open>No receipt ever arrives here, so the loop runs into its deadline.\<close>

lemma run_sweep_returns_witness:
  "in_fuel (run_sweep (demo_env None demo_send (Inr ())) demo_job) (demo_engine [])"
proof (rule run_sweep_returns)
  show "env_answers (demo_env None demo_send (Inr ()))"
    by (simp add: env_answers_def answers_def demo_env_def demo_send_def)
  show "clock_moves (demo_env None demo_send (Inr ()))"
    by (simp add: clock_moves_def demo_env_def)
qed

end
