(* ===== verification/Deposit_Discovery.thy ===== *)
theory Deposit_Discovery
  imports Async_Cache Deposit_Processor Sweep_Bounds "HOL-Library.Product_Lexorder"
begin

text \<open>
  \<^verbatim>\<open>src/services/deposit_discovery.py\<close>, with the cached call of
  \<^verbatim>\<open>src/services/cache.py\<close> it goes through: the window of blocks a request may scan, the scan
  of the chain's logs from the newest block down, the classification of each transfer against the
  sweep records and the contract.

  The node, the accounting service, \<open>Web3.to_checksum_address\<close>, the keccak hash and the third
  party's TTL cache are parameters (\<open>d_env\<close>). \<open>sc_examined\<close> is a ghost: the logs that were
  classified so far. The loop over the chunks has a fuel of one unit per block of the window,
  which \<open>scan_window_returns\<close> shows is enough.
\<close>

section \<open>Parameters and results\<close>

definition MAX_PENDING_CANDIDATES :: nat where "MAX_PENDING_CANDIDATES = 20"
definition MAX_CLASSIFIED_CANDIDATES :: nat where "MAX_CLASSIFIED_CANDIDATES = 60"

record token_info =
  tk_chain_id :: int
  tk_token_type :: int
  tk_token_address :: "string option"
  tk_token_id :: string

record 'w d_env =
  de_sweep :: "'w env"
  de_latest_block :: "client \<Rightarrow> ('w, int) ext"
  de_get_logs :: "client \<Rightarrow> int \<Rightarrow> int \<Rightarrow> string list \<Rightarrow> string \<Rightarrow> ('w, log_entry list) ext"
  de_list_all_tokens :: "('w, token_info list) ext"
  de_to_checksum_address :: "string \<Rightarrow> exn + string"
  de_solidity_keccak :: "int \<Rightarrow> bytes \<Rightarrow> bytes \<Rightarrow> int \<Rightarrow> exn + bytes"

record discovered_deposit =
  dd_chain_id :: int
  dd_tx_hash :: string
  dd_log_index :: int
  dd_amount :: int
  dd_token_address :: string
  dd_token_id_hex :: string
  dd_block_number :: int
  dd_version :: int
  dd_status :: string
  dd_deposit_id_hex :: "string option"

record discovery_result =
  ds_pending :: "discovered_deposit list"
  ds_scanned_from_block :: int
  ds_scanned_to_block :: int

section \<open>The window\<close>

text \<open>The number of blocks a request looks back over, from its \<open>lookback_blocks\<close>.\<close>

definition effective_lookback :: "chain_config \<Rightarrow> int option \<Rightarrow> exn + int" where
  "effective_lookback cfg lookback_blocks =
     (let lookback = min (case lookback_blocks of Some n \<Rightarrow> n | None \<Rightarrow> discovery_lookback_blocks cfg)
                         (discovery_max_lookback_blocks cfg)
      in if lookback < 1 then Inl (ValueError ''lookback_blocks must be positive'')
         else if lookback_blocks \<noteq> None then
           (let chunk = discovery_scan_chunk_blocks cfg
            in Inr (min ((lookback + chunk - 1) div chunk * chunk) (discovery_max_lookback_blocks cfg)))
         else Inr lookback)"

section \<open>Logs\<close>

text \<open>\<open>text.rjust(n, "0")\<close> and the topic of an address.\<close>

definition rjust_zeros :: "nat \<Rightarrow> string \<Rightarrow> string" where
  "rjust_zeros n s = replicate (n - length s) (CHR ''0'') @ s"

definition address_topic :: "string \<Rightarrow> string" where
  "address_topic address = ''0x'' @ rjust_zeros 64 (removeprefix ''0x'' (ascii_lower address))"

record candidate =
  ca_tx_hash :: string
  ca_log_index :: int
  ca_amount :: int
  ca_token_address :: string
  ca_block_number :: int

definition decode_amount :: "hexval \<Rightarrow> exn + int" where
  "decode_amount data =
     (case data of
        HBytes b \<Rightarrow> Inr (int_from_bytes (take 32 b))
      | HStr s \<Rightarrow> if s \<noteq> [] \<and> s \<noteq> ''0x'' then py_int_16 s else Inr 0)"

definition decode_transfer_log :: "log_entry \<Rightarrow> exn + candidate option" where
  "decode_transfer_log e =
     (let tx_hash = (case le_transaction_hash e of None \<Rightarrow> [] | Some v \<Rightarrow> hex_text v);
          token_address = hex_text (le_address e)
      in sum_bind (decode_amount (le_data e)) (\<lambda>amount.
         if tx_hash = [] \<or> token_address = [] then Inr None
         else Inr (Some \<lparr>ca_tx_hash = tx_hash, ca_log_index = le_log_index e, ca_amount = amount,
                         ca_token_address = token_address, ca_block_number = le_block_number e\<rparr>)))"

text \<open>\<open>sorted(logs, key=..., reverse=True)\<close>: newest first, ties in the node's order.\<close>

definition newest_first :: "log_entry list \<Rightarrow> log_entry list" where
  "newest_first logs = sort_key (\<lambda>e. (- le_block_number e, - le_log_index e)) logs"

section \<open>Calls\<close>

fun rpc_failure :: "exn \<Rightarrow> bool" where
  "rpc_failure (TimeoutError _) = True"
| "rpc_failure (OSErr _) = True"
| "rpc_failure (ClientError _) = True"
| "rpc_failure (Web3Exception _) = True"
| "rpc_failure (ContractLogic _) = True"
| "rpc_failure (TransactionNotFound _) = True"
| "rpc_failure _ = False"

definition d_rpc :: "'w d_env \<Rightarrow> ('w, 'a) ext \<Rightarrow> ('w engine, 'a) py" where
  "d_rpc env f = py_try (await (de_sweep env) f)
     (\<lambda>e. if rpc_failure e then py_raise (DiscoveryRPCError ''Source-chain RPC failed'') else py_raise e)"

definition d_get_web3 :: "'w d_env \<Rightarrow> int \<Rightarrow> ('w engine, client) py" where
  "d_get_web3 env cid = (\<lambda>s.
     case verified_web3 cid (chain_rpc_urls (de_sweep env)) (rpc s) of
       (None, g) \<Rightarrow> (Inl (NotConfigured ''No verified RPC endpoint for chain''),
                     s\<lparr>web3_cache := (web3_cache s)(cid := None), rpc := g\<rparr>)
     | (Some w3, g) \<Rightarrow>
         (case web3_cache s cid of
            Some c \<Rightarrow> (Inr c, s\<lparr>rpc := g\<rparr>)
          | None \<Rightarrow> (Inr w3, s\<lparr>web3_cache := (web3_cache s)(cid \<mapsto> w3), rpc := g\<rparr>)))"

text \<open>Lower-case contract address to token id: a later token replaces an earlier one.\<close>

definition registered_erc20s :: "int \<Rightarrow> token_info list \<Rightarrow> (string \<times> string) list" where
  "registered_erc20s cid tokens =
     fold (\<lambda>t d. case tk_token_address t of
             None \<Rightarrow> d
           | Some a \<Rightarrow> if tk_chain_id t = cid \<and> tk_token_type t = 1 \<and> a \<noteq> []
                       then AList.update (ascii_lower a) (tk_token_id t) d else d)
       tokens []"

section \<open>Classification\<close>

definition classify ::
    "'w d_env \<Rightarrow> candidate \<Rightarrow> int \<Rightarrow> int \<Rightarrow> string \<Rightarrow> (string \<times> string) list
     \<Rightarrow> ('w engine, discovered_deposit option) py" where
  "classify env c cid version beneficiary token_ids =
     (case map_of token_ids (ascii_lower (ca_token_address c)) of
        None \<Rightarrow> py_ret None
      | Some token_id_hex \<Rightarrow>
          py_bind (record_bytes token_id_hex) (\<lambda>token_id.
          py_bind (py_lift (compute_deposit_id (de_solidity_keccak env) cid (ca_tx_hash c) token_id
            (ca_log_index c))) (\<lambda>deposit_id.
          py_bind (engine_get (de_sweep env) (to_hex deposit_id)) (\<lambda>record.
          if (case record of None \<Rightarrow> False
              | Some r \<Rightarrow> ascii_lower (sr_beneficiary r) \<noteq> ascii_lower beneficiary)
          then py_ret None
          else
            let processing = (case record of None \<Rightarrow> False
                  | Some r \<Rightarrow> \<not> (truthy (sr_error r) \<and> \<not> truthy (sr_sweep_tx_hash r)));
                found = py_bind (py_lift (de_to_checksum_address env (ca_token_address c))) (\<lambda>a.
                  py_ret (Some
                    \<lparr>dd_chain_id = cid, dd_tx_hash = ca_tx_hash c, dd_log_index = ca_log_index c,
                     dd_amount = ca_amount c, dd_token_address = a, dd_token_id_hex = token_id_hex,
                     dd_block_number = ca_block_number c, dd_version = version,
                     dd_status = (if processing then ''processing'' else ''discovered''),
                     dd_deposit_id_hex = (if processing then Some (to_hex deposit_id) else None)\<rparr>))
            in if processing then found
               else py_bind (await (de_sweep env) (acc_is_deposit_processed (de_sweep env) deposit_id))
                      (\<lambda>processed. if processed then py_ret None else found)))))"

section \<open>The scan\<close>

record scan =
  sc_pending :: "discovered_deposit list"
  sc_classified :: nat
  sc_bound_reached :: bool
  sc_scanned_from :: int
  sc_examined :: "log_entry list"

text \<open>The inner loop over the sorted logs of one chunk.\<close>

fun scan_logs ::
    "(candidate \<Rightarrow> ('w engine, discovered_deposit option) py) \<Rightarrow> int \<Rightarrow> log_entry list \<Rightarrow> scan
     \<Rightarrow> ('w engine, scan) py" where
  "scan_logs cls min_amount [] sc = py_ret sc"
| "scan_logs cls min_amount (e # es) sc =
     (case decode_transfer_log e of
        Inl x \<Rightarrow> py_raise x
      | Inr None \<Rightarrow> scan_logs cls min_amount es sc
      | Inr (Some c) \<Rightarrow>
          if ca_amount c < min_amount then scan_logs cls min_amount es sc
          else if sc_classified sc \<ge> MAX_CLASSIFIED_CANDIDATES
          then py_ret (sc\<lparr>sc_bound_reached := True, sc_scanned_from := ca_block_number c + 1\<rparr>)
          else
            let sc1 = sc\<lparr>sc_classified := sc_classified sc + 1, sc_examined := sc_examined sc @ [e]\<rparr> in
            py_bind (cls c) (\<lambda>discovered.
            case discovered of
              None \<Rightarrow> scan_logs cls min_amount es sc1
            | Some d \<Rightarrow>
                let sc2 = sc1\<lparr>sc_pending := sc_pending sc1 @ [d]\<rparr> in
                if length (sc_pending sc2) \<ge> MAX_PENDING_CANDIDATES
                then py_ret (sc2\<lparr>sc_scanned_from := ca_block_number c + 1\<rparr>)
                else scan_logs cls min_amount es sc2))"

text \<open>The outer loop over the chunks, from the newest block down.\<close>

fun scan_chunks ::
    "nat \<Rightarrow> (int \<Rightarrow> int \<Rightarrow> ('w engine, log_entry list) py)
     \<Rightarrow> (candidate \<Rightarrow> ('w engine, discovered_deposit option) py) \<Rightarrow> int \<Rightarrow> int \<Rightarrow> int \<Rightarrow> int \<Rightarrow> scan
     \<Rightarrow> ('w engine, scan) py" where
  "scan_chunks 0 get_logs cls min_amount chunk from_block chunk_end sc =
     (if chunk_end \<ge> from_block \<and> length (sc_pending sc) < MAX_PENDING_CANDIDATES \<and> \<not> sc_bound_reached sc
      then py_raise OutOfFuel else py_ret sc)"
| "scan_chunks (Suc n) get_logs cls min_amount chunk from_block chunk_end sc =
     (if chunk_end \<ge> from_block \<and> length (sc_pending sc) < MAX_PENDING_CANDIDATES \<and> \<not> sc_bound_reached sc
      then
        let chunk_start = max (chunk_end - chunk + 1) from_block in
        py_bind (get_logs chunk_start chunk_end) (\<lambda>logs.
        py_bind (scan_logs cls min_amount (newest_first logs) (sc\<lparr>sc_scanned_from := chunk_start\<rparr>)) (\<lambda>sc'.
        scan_chunks n get_logs cls min_amount chunk from_block (chunk_start - 1) sc'))
      else py_ret sc)"

definition empty_result :: discovery_result where
  "empty_result = \<lparr>ds_pending = [], ds_scanned_from_block = 0, ds_scanned_to_block = 0\<rparr>"

definition scan_window ::
    "'w d_env \<Rightarrow> client \<Rightarrow> chain_config \<Rightarrow> string list \<Rightarrow> (string \<times> string) list \<Rightarrow> string \<Rightarrow> string
     \<Rightarrow> int \<Rightarrow> int \<Rightarrow> int \<Rightarrow> int \<Rightarrow> ('w engine, scan) py" where
  "scan_window env w3 cfg addresses token_ids deposit_address beneficiary cid version from_block to_block =
     scan_chunks (nat (to_block - from_block + 1))
       (\<lambda>a b. d_rpc env (de_get_logs env w3 a b addresses (address_topic deposit_address)))
       (\<lambda>c. classify env c cid version beneficiary token_ids)
       (min_deposit_erc20_wei cfg) (discovery_scan_chunk_blocks cfg) from_block to_block
       \<lparr>sc_pending = [], sc_classified = 0, sc_bound_reached = False, sc_scanned_from = to_block,
        sc_examined = []\<rparr>"

definition scan_deposits ::
    "'w d_env \<Rightarrow> string \<Rightarrow> string \<Rightarrow> int \<Rightarrow> int \<Rightarrow> string option \<Rightarrow> int \<Rightarrow> ('w engine, discovery_result) py" where
  "scan_deposits env deposit_address beneficiary cid version token_lower lookback =
     (case map_of (configs (de_sweep env)) cid of
        None \<Rightarrow> py_raise (KeyError ''chain_id'')
      | Some cfg \<Rightarrow>
          py_bind (d_get_web3 env cid) (\<lambda>w3.
          py_bind (await (de_sweep env) (de_list_all_tokens env)) (\<lambda>tokens.
          let all_ids = registered_erc20s cid tokens in
          py_bind (case token_lower of
                     None \<Rightarrow> py_ret all_ids
                   | Some t \<Rightarrow> (case map_of all_ids t of
                        None \<Rightarrow> py_raise (ValueError ''is not a registered token'')
                      | Some i \<Rightarrow> py_ret [(t, i)])) (\<lambda>token_ids.
          py_bind (py_map (\<lambda>a. py_lift (de_to_checksum_address env a)) (map fst token_ids)) (\<lambda>addresses.
          if addresses = [] then py_ret empty_result
          else
            py_bind (d_rpc env (de_latest_block env w3)) (\<lambda>latest.
            let to_block = latest - get_finality_depth (configs (de_sweep env)) cid;
                from_block = max (to_block - lookback + 1) 0
            in if to_block < 0 then py_ret empty_result
               else
                 py_bind (scan_window env w3 cfg addresses token_ids deposit_address beneficiary cid
                   version from_block to_block) (\<lambda>sc.
                 py_ret \<lparr>ds_pending = sc_pending sc, ds_scanned_from_block = sc_scanned_from sc,
                         ds_scanned_to_block = to_block\<rparr>)))))))"

section \<open>The cached entry point\<close>

type_synonym scan_key = "string \<times> int \<times> int \<times> string option \<times> int"

record ('w, 'c) discovery =
  di_engine :: "'w engine"
  di_cache :: 'c

record ('w, 'c) cache_env =
  ce_lookup :: "'w \<Rightarrow> 'c \<Rightarrow> scan_key \<Rightarrow> discovery_result option"
  ce_store :: "'w \<Rightarrow> scan_key \<Rightarrow> discovery_result \<Rightarrow> 'c \<Rightarrow> 'c"
  ce_acquire :: "(('w, 'c) discovery, unit) py"

definition on_discovery :: "('w engine, 'a) py \<Rightarrow> (('w, 'c) discovery, 'a) py" where
  "on_discovery m = (\<lambda>s. case m (di_engine s) of (r, e) \<Rightarrow> (r, s\<lparr>di_engine := e\<rparr>))"

definition discover_pending_deposits ::
    "'w d_env \<Rightarrow> ('w, 'c) cache_env \<Rightarrow> string \<Rightarrow> string \<Rightarrow> int \<Rightarrow> int \<Rightarrow> string option \<Rightarrow> int option
     \<Rightarrow> (('w, 'c) discovery, discovery_result) py" where
  "discover_pending_deposits env cenv deposit_address beneficiary cid version token_address lookback_blocks =
     (case map_of (configs (de_sweep env)) cid of
        None \<Rightarrow> py_raise (ValueError ''Unsupported chain_id'')
      | Some cfg \<Rightarrow>
          py_bind (py_lift (effective_lookback cfg lookback_blocks)) (\<lambda>lookback.
          let token_lower = (case token_address of None \<Rightarrow> None
                | Some a \<Rightarrow> if a = [] then None else Some (ascii_lower a));
              key = (ascii_lower deposit_address, cid, version, token_lower, lookback)
          in get_or_set_async
               (\<lambda>s. ce_lookup cenv (world (di_engine s)) (di_cache s))
               (\<lambda>k v s. s\<lparr>di_cache := ce_store cenv (world (di_engine s)) k v (di_cache s)\<rparr>)
               (ce_acquire cenv) key
               (on_discovery (scan_deposits env deposit_address beneficiary cid version token_lower lookback))))"

section \<open>The window is bounded\<close>

lemma round_up:
  fixes l c :: int
  assumes "0 < c"
  shows "l \<le> (l + c - 1) div c * c" "(l + c - 1) div c * c < l + c"
proof -
  have "(l + c - 1) mod c < c" "0 \<le> (l + c - 1) mod c" using assms by simp_all
  moreover have "(l + c - 1) div c * c = (l + c - 1) - (l + c - 1) mod c"
    by (simp add: minus_mod_eq_div_mult)
  ultimately show "l \<le> (l + c - 1) div c * c" "(l + c - 1) div c * c < l + c" by linarith+
qed

text \<open>
  The window of a request, for any entry that passed the table's checks: it has at least one
  block and at most the chain's maximum; without a parameter it is the chain's default; with one
  it covers the blocks asked for (up to the maximum) and is either the maximum or a whole number
  of scan chunks, so a caller has only that many different cache keys; a request for less than one
  block is refused.
\<close>
theorem effective_lookback_bounds:
  assumes "chain_config_ok cfg"
  shows "case effective_lookback cfg req of
      Inl _ \<Rightarrow> (\<exists>n. req = Some n \<and> n < 1)
    | Inr l \<Rightarrow> 1 \<le> l \<and> l \<le> discovery_max_lookback_blocks cfg
        \<and> (case req of
             None \<Rightarrow> l = discovery_lookback_blocks cfg
           | Some n \<Rightarrow> 1 \<le> n \<and> min n (discovery_max_lookback_blocks cfg) \<le> l
               \<and> (l = discovery_max_lookback_blocks cfg \<or> discovery_scan_chunk_blocks cfg dvd l))"
proof (cases req)
  case None
  then show ?thesis using assms by (simp add: effective_lookback_def chain_config_ok_def Let_def)
next
  case (Some n)
  let ?m = "discovery_max_lookback_blocks cfg" and ?c = "discovery_scan_chunk_blocks cfg"
  have c: "0 < ?c" "1 \<le> ?m" using assms by (auto simp: chain_config_ok_def)
  note r = round_up [OF c(1), of "min n ?m"]
  show ?thesis
  proof (cases "min n ?m < 1")
    case True
    then show ?thesis using Some c(2) by (simp add: effective_lookback_def Let_def)
  next
    case False
    let ?r = "(min n ?m + ?c - 1) div ?c * ?c"
    have e: "effective_lookback cfg req = Inr (min ?r ?m)"
      using Some False by (simp add: effective_lookback_def Let_def)
    have "min n ?m \<le> min ?r ?m" using r(1) by simp
    moreover have "min ?r ?m = ?m \<or> ?c dvd min ?r ?m" by (simp add: min_def)
    moreover have "1 \<le> n" using False by simp
    ultimately show ?thesis using e Some False c(2) by simp
  qed
qed

lemma effective_lookback_bounds_witness:
  "chain_config_ok (hd chain_definitions) \<and>
   (case effective_lookback (hd chain_definitions) (Some 450) of Inl _ \<Rightarrow> False | Inr l \<Rightarrow> 450 \<le> l)"
proof -
  have ok: "chain_config_ok (hd chain_definitions)"
    using chain_definitions_ok by (simp add: chain_definitions_def)
  have "discovery_max_lookback_blocks (hd chain_definitions) = 1000"
    by (simp add: chain_definitions_def chain_config_defaults_def)
  then show ?thesis
    using ok effective_lookback_bounds [OF ok, of "Some 450"]
    by (cases "effective_lookback (hd chain_definitions) (Some 450)") auto
qed

section \<open>What the scan reports\<close>

text \<open>The logs the scan has to look at: decodable transfers of at least the minimum.\<close>

definition qualifies :: "int \<Rightarrow> log_entry \<Rightarrow> candidate \<Rightarrow> bool" where
  "qualifies min_amount e c \<longleftrightarrow> decode_transfer_log e = Inr (Some c) \<and> min_amount \<le> ca_amount c"

text \<open>
  The bookkeeping of a scan: every hit reported comes from an examined log, and every examined log
  was classified, its hit reported.
\<close>

definition reported ::
    "int \<Rightarrow> (candidate \<Rightarrow> ('w engine, discovered_deposit option) py) \<Rightarrow> log_entry \<Rightarrow> discovered_deposit \<Rightarrow> bool" where
  "reported m cls e d \<longleftrightarrow> (\<exists>c s t. qualifies m e c \<and> cls c s = (Inr (Some d), t))"

definition answered ::
    "int \<Rightarrow> (candidate \<Rightarrow> ('w engine, discovered_deposit option) py) \<Rightarrow> discovered_deposit set \<Rightarrow> log_entry \<Rightarrow> bool" where
  "answered m cls ds e \<longleftrightarrow> (\<exists>c s t r. qualifies m e c \<and> cls c s = (Inr r, t) \<and> set_option r \<subseteq> ds)"

definition scan_ok ::
    "int \<Rightarrow> (candidate \<Rightarrow> ('w engine, discovered_deposit option) py) \<Rightarrow> scan \<Rightarrow> bool" where
  "scan_ok m cls sc \<longleftrightarrow>
     length (sc_pending sc) \<le> MAX_PENDING_CANDIDATES
   \<and> sc_classified sc = length (sc_examined sc) \<and> sc_classified sc \<le> MAX_CLASSIFIED_CANDIDATES
   \<and> (\<forall>d \<in> set (sc_pending sc). \<exists>e \<in> set (sc_examined sc). reported m cls e d)
   \<and> (\<forall>e \<in> set (sc_examined sc). answered m cls (set (sc_pending sc)) e)"

lemma answeredI: "qualifies m e c \<Longrightarrow> cls c s = (Inr r, t) \<Longrightarrow> set_option r \<subseteq> ds \<Longrightarrow> answered m cls ds e"
  unfolding answered_def by blast

lemma answered_mono: "answered m cls ds e \<Longrightarrow> ds \<subseteq> ds' \<Longrightarrow> answered m cls ds' e"
  unfolding answered_def by blast

lemma scan_ok_none:
  assumes "scan_ok m cls sc" "qualifies m e c" "cls c s = (Inr None, t)"
    and "sc_classified sc < MAX_CLASSIFIED_CANDIDATES"
  shows "scan_ok m cls (sc\<lparr>sc_classified := sc_classified sc + 1, sc_examined := sc_examined sc @ [e]\<rparr>)"
  using assms answeredI [of m e c cls s None t] unfolding scan_ok_def by auto

lemma scan_ok_some:
  assumes "scan_ok m cls sc" "qualifies m e c" "cls c s = (Inr (Some d), t)"
    and "sc_classified sc < MAX_CLASSIFIED_CANDIDATES" "length (sc_pending sc) < MAX_PENDING_CANDIDATES"
  shows "scan_ok m cls (sc\<lparr>sc_classified := sc_classified sc + 1, sc_examined := sc_examined sc @ [e],
      sc_pending := sc_pending sc @ [d]\<rparr>)"
proof -
  have "reported m cls e d" using assms(2,3) unfolding reported_def by blast
  moreover have "answered m cls (insert d (set (sc_pending sc))) e"
    using answeredI [of m e c cls s "Some d" t] assms(2,3) by simp
  moreover have "\<forall>e' \<in> set (sc_examined sc). answered m cls (insert d (set (sc_pending sc))) e'"
    using assms(1) answered_mono [OF _ subset_insertI] unfolding scan_ok_def by blast
  ultimately show ?thesis using assms unfolding scan_ok_def by auto
qed

lemma scan_ok_from [simp]:
  "scan_ok m cls (sc\<lparr>sc_scanned_from := b\<rparr>) = scan_ok m cls sc"
  "scan_ok m cls (sc\<lparr>sc_bound_reached := x\<rparr>) = scan_ok m cls sc"
  by (simp_all add: scan_ok_def)

text \<open>\<open>go_on sc\<close>: the loop condition on the counters.\<close>

definition go_on :: "scan \<Rightarrow> bool" where
  "go_on sc \<longleftrightarrow> length (sc_pending sc) < MAX_PENDING_CANDIDATES \<and> \<not> sc_bound_reached sc"

definition covers :: "int \<Rightarrow> log_entry set \<Rightarrow> scan \<Rightarrow> bool" where
  "covers m L sc \<longleftrightarrow> (\<forall>e \<in> L. \<forall>c. qualifies m e c \<longrightarrow> e \<in> set (sc_examined sc))"

lemma decode_block: "decode_transfer_log e = Inr (Some c) \<Longrightarrow> ca_block_number c = le_block_number e"
  by (auto simp: decode_transfer_log_def Let_def sum_bind_def split: sum.splits if_splits)

definition logs_done ::
    "int \<Rightarrow> (candidate \<Rightarrow> ('w engine, discovered_deposit option) py) \<Rightarrow> log_entry list \<Rightarrow> scan \<Rightarrow> scan \<Rightarrow> bool" where
  "logs_done m cls es sc sc' \<longleftrightarrow>
     scan_ok m cls sc' \<and> set (sc_examined sc) \<subseteq> set (sc_examined sc')
   \<and> set (sc_examined sc') \<subseteq> set (sc_examined sc) \<union> set es
   \<and> covers m {e \<in> set es. sc_scanned_from sc' \<le> le_block_number e} sc'
   \<and> (if go_on sc' then sc_scanned_from sc' = sc_scanned_from sc \<and> covers m (set es) sc'
      else sc_scanned_from sc' \<in> (\<lambda>e. le_block_number e + 1) ` set es)"

lemma logs_done_skip:
  "logs_done m cls es sc sc' \<Longrightarrow> (\<And>c. \<not> qualifies m e c) \<Longrightarrow> logs_done m cls (e # es) sc sc'"
  by (auto simp: logs_done_def covers_def split: if_splits)

lemma logs_done_examined:
  assumes "logs_done m cls es sc1 sc'" "sc_scanned_from sc1 = sc_scanned_from sc"
    and "sc_examined sc1 = sc_examined sc @ [e]"
  shows "logs_done m cls (e # es) sc sc'"
  using assms by (auto simp: logs_done_def covers_def split: if_splits)

lemma logs_done_stop:
  assumes "scan_ok m cls sc'" "\<not> go_on sc'" "sc_scanned_from sc' = le_block_number e + 1"
    and "\<forall>b \<in> set es. le_block_number b \<le> le_block_number e"
    and "sc_examined sc' = sc_examined sc \<or> sc_examined sc' = sc_examined sc @ [e]"
  shows "logs_done m cls (e # es) sc sc'"
  using assms by (force simp: logs_done_def covers_def)

text \<open>What one log can do to the scan.\<close>

definition after_miss :: "log_entry \<Rightarrow> scan \<Rightarrow> scan" where
  "after_miss e sc = sc\<lparr>sc_classified := sc_classified sc + 1, sc_examined := sc_examined sc @ [e]\<rparr>"

definition after_hit :: "log_entry \<Rightarrow> discovered_deposit \<Rightarrow> scan \<Rightarrow> scan" where
  "after_hit e d sc = sc\<lparr>sc_classified := sc_classified sc + 1, sc_examined := sc_examined sc @ [e],
     sc_pending := sc_pending sc @ [d]\<rparr>"

lemma scan_logs_ConsE:
  assumes "scan_logs cls m (e # es) sc s = (Inr sc', t)"
  obtains (skip) "\<And>c. \<not> qualifies m e c" "scan_logs cls m es sc s = (Inr sc', t)"
  | (stop) "MAX_CLASSIFIED_CANDIDATES \<le> sc_classified sc"
      "sc' = sc\<lparr>sc_bound_reached := True, sc_scanned_from := le_block_number e + 1\<rparr>"
  | (miss) c u where "sc_classified sc < MAX_CLASSIFIED_CANDIDATES" "qualifies m e c"
      "cls c s = (Inr None, u)" "scan_logs cls m es (after_miss e sc) u = (Inr sc', t)"
  | (last) c d u where "sc_classified sc < MAX_CLASSIFIED_CANDIDATES" "qualifies m e c"
      "cls c s = (Inr (Some d), u)" "MAX_PENDING_CANDIDATES \<le> length (sc_pending sc) + 1"
      "sc' = (after_hit e d sc)\<lparr>sc_scanned_from := le_block_number e + 1\<rparr>"
  | (hit) c d u where "sc_classified sc < MAX_CLASSIFIED_CANDIDATES" "qualifies m e c"
      "cls c s = (Inr (Some d), u)" "length (sc_pending sc) + 1 < MAX_PENDING_CANDIDATES"
      "scan_logs cls m es (after_hit e d sc) u = (Inr sc', t)"
proof (cases "\<exists>c. qualifies m e c")
  case False
  then show ?thesis
    using assms that(1) by (auto simp: qualifies_def py_raise_def split: sum.splits option.splits if_splits)
next
  case True
  then obtain c where c: "qualifies m e c" by blast
  then have dec: "decode_transfer_log e = Inr (Some c)" "\<not> ca_amount c < m"
      "ca_block_number c = le_block_number e"
    using decode_block by (auto simp: qualifies_def)
  show ?thesis
  proof (cases "MAX_CLASSIFIED_CANDIDATES \<le> sc_classified sc")
    case True
    then show ?thesis using assms dec that(2) by (simp add: py_ret_def)
  next
    case False
    then obtain q u where q: "cls c s = (Inr q, u)" using assms dec by (auto simp: py_bind_Inr Let_def)
    then show ?thesis
      using assms dec False c that(3-5)
      by (cases q) (auto simp: py_bind_def Let_def after_miss_def after_hit_def py_ret_def split: if_splits)
  qed
qed

lemma scan_logs_inv:
  "scan_logs cls m es sc s = (Inr sc', t) \<Longrightarrow> scan_ok m cls sc \<Longrightarrow> go_on sc \<Longrightarrow>
    sorted_wrt (\<lambda>a b. le_block_number b \<le> le_block_number a) es \<Longrightarrow> logs_done m cls es sc sc'"
proof (induction es arbitrary: sc s)
  case Nil
  then show ?case by (simp add: py_ret_def covers_def logs_done_def)
next
  case (Cons e es)
  note ok = Cons.prems(2) and go = Cons.prems(3)
  have es: "sorted_wrt (\<lambda>a b. le_block_number b \<le> le_block_number a) es"
      "\<forall>b \<in> set es. le_block_number b \<le> le_block_number e"
    using Cons.prems(4) by auto
  have room: "length (sc_pending sc) < MAX_PENDING_CANDIDATES" using go by (simp add: go_on_def)
  from Cons.prems(1) show ?case
  proof (cases rule: scan_logs_ConsE)
    case skip
    then show ?thesis by (intro logs_done_skip Cons.IH ok go es(1))
  next
    case stop
    then show ?thesis using ok es(2) by (intro logs_done_stop) (simp_all add: go_on_def)
  next
    case (miss c u)
    have "scan_ok m cls (after_miss e sc)" unfolding after_miss_def by (rule scan_ok_none [OF ok miss(2,3,1)])
    then have "logs_done m cls es (after_miss e sc) sc'"
      using go by (intro Cons.IH [OF miss(4)] es(1)) (simp_all add: go_on_def after_miss_def)
    then show ?thesis by (rule logs_done_examined) (simp_all add: after_miss_def)
  next
    case (last c d u)
    have "scan_ok m cls (after_hit e d sc)" unfolding after_hit_def by (rule scan_ok_some [OF ok last(2,3,1) room])
    then show ?thesis using es(2) last(4,5)
      by (intro logs_done_stop) (simp_all add: go_on_def after_hit_def)
  next
    case (hit c d u)
    have "scan_ok m cls (after_hit e d sc)" unfolding after_hit_def by (rule scan_ok_some [OF ok hit(2,3,1) room])
    then have "logs_done m cls es (after_hit e d sc) sc'"
      using go hit(4) by (intro Cons.IH [OF hit(5)] es(1)) (simp_all add: go_on_def after_hit_def)
    then show ?thesis by (rule logs_done_examined) (simp_all add: after_hit_def)
  qed
qed

lemma sorted_newest_first: "sorted_wrt (\<lambda>a b. le_block_number b \<le> le_block_number a) (newest_first logs)"
proof -
  let ?f = "\<lambda>e. (- le_block_number e, - le_log_index e)"
  have "sorted_wrt (\<lambda>a b. ?f a \<le> ?f b) (newest_first logs)"
    using sorted_sort_key [of ?f logs] by (simp add: newest_first_def sorted_map)
  then show ?thesis by (rule sorted_wrt_mono_rel [rotated]) (auto simp: less_eq_prod_def)
qed

text \<open>A node that answers from one list of logs.\<close>

definition answers_from :: "log_entry set \<Rightarrow> (int \<Rightarrow> int \<Rightarrow> ('w engine, log_entry list) py) \<Rightarrow> bool" where
  "answers_from L get_logs \<longleftrightarrow> (\<forall>a b s logs t. get_logs a b s = (Inr logs, t) \<longrightarrow>
     set logs = {e \<in> L. a \<le> le_block_number e \<and> le_block_number e \<le> b})"

lemma scan_chunks_stop: "\<not> go_on sc \<Longrightarrow> scan_chunks n get_logs cls m chunk from_block chunk_end sc = py_ret sc"
  by (cases n) (auto simp: go_on_def)

lemma scan_chunks_inv:
  assumes L: "answers_from L get_logs" and chunk: "0 < chunk"
  shows "scan_chunks n get_logs cls m chunk from_block chunk_end sc s = (Inr sc', t) \<Longrightarrow> scan_ok m cls sc \<Longrightarrow>
    covers m {e \<in> L. chunk_end < le_block_number e \<and> le_block_number e \<le> hi} sc \<Longrightarrow> chunk_end \<le> hi \<Longrightarrow>
    (chunk_end \<ge> from_block \<and> go_on sc) \<or> covers m {e \<in> L. sc_scanned_from sc \<le> le_block_number e \<and> le_block_number e \<le> hi} sc \<Longrightarrow>
    scan_ok m cls sc' \<and> covers m {e \<in> L. sc_scanned_from sc' \<le> le_block_number e \<and> le_block_number e \<le> hi} sc'"
proof (induction n arbitrary: chunk_end sc s)
  case 0
  then show ?case by (auto simp: py_ret_def py_raise_def go_on_def split: if_splits)
next
  case (Suc n)
  show ?case
  proof (cases "chunk_end \<ge> from_block \<and> go_on sc")
    case False
    then show ?thesis using Suc.prems by (auto simp: py_ret_def go_on_def)
  next
    case True
    let ?start = "max (chunk_end - chunk + 1) from_block"
    let ?sc = "sc\<lparr>sc_scanned_from := ?start\<rparr>"
    obtain logs u sc1 v where logs: "get_logs ?start chunk_end s = (Inr logs, u)"
      and run: "scan_logs cls m (newest_first logs) ?sc u = (Inr sc1, v)"
      and rest: "scan_chunks n get_logs cls m chunk from_block (?start - 1) sc1 v = (Inr sc', t)"
      using Suc.prems(1) True by (auto simp: go_on_def py_bind_Inr Let_def)
    have set: "set (newest_first logs) = {e \<in> L. ?start \<le> le_block_number e \<and> le_block_number e \<le> chunk_end}"
      using L logs unfolding answers_from_def newest_first_def set_sort by blast
    have fin: "logs_done m cls (newest_first logs) ?sc sc1"
      using scan_logs_inv [OF run] Suc.prems(2) True sorted_newest_first by (simp add: go_on_def)
    have old: "covers m {e \<in> L. chunk_end < le_block_number e \<and> le_block_number e \<le> hi} sc1"
      using fin Suc.prems(3) by (auto simp: logs_done_def covers_def)
    have in_chunk: "e \<in> set (sc_examined sc1)"
      if "e \<in> L" "qualifies m e c" "le_block_number e \<le> hi" "?start \<le> le_block_number e"
        "go_on sc1 \<or> sc_scanned_from sc1 \<le> le_block_number e" for e c
      using old fin that set by (cases "le_block_number e \<le> chunk_end") (auto simp: covers_def logs_done_def)
    have ok1: "scan_ok m cls sc1" using fin by (simp add: logs_done_def)
    show ?thesis
    proof (cases "go_on sc1")
      case go: True
      then have from1: "sc_scanned_from sc1 = ?start" using fin by (simp add: logs_done_def)
      have cov: "covers m {e \<in> L. ?start - 1 < le_block_number e \<and> le_block_number e \<le> hi} sc1"
        unfolding covers_def
      proof (intro ballI allI impI)
        fix e c
        assume "e \<in> {e \<in> L. ?start - 1 < le_block_number e \<and> le_block_number e \<le> hi}" "qualifies m e c"
        then show "e \<in> set (sc_examined sc1)" using go by (intro in_chunk [of e c]) auto
      qed
      show ?thesis
        by (rule Suc.IH [OF rest ok1 cov]) (use cov from1 Suc.prems(4) chunk True in \<open>auto simp: covers_def\<close>)
    next
      case False
      then have "sc' = sc1" using rest by (simp add: scan_chunks_stop [OF False] py_ret_def)
      moreover have "?start < sc_scanned_from sc1" using fin False set by (auto simp: logs_done_def)
      ultimately show ?thesis using ok1 in_chunk by (auto simp: covers_def)
    qed
  qed
qed

lemma scan_chunks_range:
  "scan_chunks n get_logs cls m chunk from_block chunk_end sc s = (Inr sc', t) \<Longrightarrow> answers_from L get_logs \<Longrightarrow>
    0 < chunk \<Longrightarrow> scan_ok m cls sc \<Longrightarrow> go_on sc \<Longrightarrow>
    chunk_end \<ge> from_block \<or> sc_scanned_from sc = from_block \<Longrightarrow>
    from_block \<le> sc_scanned_from sc' \<and> (go_on sc' \<longrightarrow> sc_scanned_from sc' = from_block)"
proof (induction n arbitrary: chunk_end sc s)
  case 0
  then show ?case by (auto simp: py_ret_def py_raise_def go_on_def split: if_splits)
next
  case (Suc n)
  show ?case
  proof (cases "chunk_end \<ge> from_block")
    case False
    then show ?thesis using Suc.prems by (auto simp: py_ret_def)
  next
    case True
    let ?start = "max (chunk_end - chunk + 1) from_block"
    let ?sc = "sc\<lparr>sc_scanned_from := ?start\<rparr>"
    obtain logs u sc1 v where logs: "get_logs ?start chunk_end s = (Inr logs, u)"
      and run: "scan_logs cls m (newest_first logs) ?sc u = (Inr sc1, v)"
      and rest: "scan_chunks n get_logs cls m chunk from_block (?start - 1) sc1 v = (Inr sc', t)"
      using Suc.prems(1,5) True by (auto simp: go_on_def py_bind_Inr Let_def)
    have fin: "logs_done m cls (newest_first logs) ?sc sc1"
      using scan_logs_inv [OF run] Suc.prems(4,5) sorted_newest_first by (simp add: go_on_def)
    then have ok1: "scan_ok m cls sc1" by (simp add: logs_done_def)
    have blocks: "?start \<le> le_block_number e" if "e \<in> set (newest_first logs)" for e
      using Suc.prems(2) logs that unfolding answers_from_def newest_first_def set_sort by blast
    show ?thesis
    proof (cases "go_on sc1")
      case go: True
      then have "sc_scanned_from sc1 = ?start" using fin by (simp add: logs_done_def)
      then show ?thesis by (intro Suc.IH [OF rest Suc.prems(2,3) ok1 go]) auto
    next
      case False
      then have "sc' = sc1" using rest by (simp add: scan_chunks_stop [OF False] py_ret_def)
      moreover have "?start < sc_scanned_from sc1"
        using fin False blocks by (auto simp: logs_done_def)
      ultimately show ?thesis using False by auto
    qed
  qed
qed

text \<open>The node's answer to the queries of one scan.\<close>

definition transfers_to :: "'w d_env \<Rightarrow> client \<Rightarrow> string list \<Rightarrow> string \<Rightarrow> log_entry set \<Rightarrow> bool" where
  "transfers_to env w3 addresses deposit_address L \<longleftrightarrow>
     answers_from L (\<lambda>a b. d_rpc env (de_get_logs env w3 a b addresses (address_topic deposit_address)))"

text \<open>
  C13. What a scan that returns has looked at. If the node answers its log queries from one set of
  logs, then every decodable transfer of at least the chain's minimum in the range the scan
  reports as scanned was classified, and every hit the classification found is reported; nothing
  else is reported; at most 60 logs were classified and at most 20 deposits are reported; and the
  reported range starts at the first block asked for unless one of these limits was reached.
\<close>
theorem scan_window_complete:
  assumes run: "scan_window env w3 cfg addresses ids addr user cid ver from_block to_block s = (Inr sc, t)"
    and node: "transfers_to env w3 addresses addr L"
    and cfg: "chain_config_ok cfg" and range: "from_block \<le> to_block"
  defines "cls \<equiv> \<lambda>c. classify env c cid ver user ids"
  shows "(\<forall>e \<in> L. \<forall>c. qualifies (min_deposit_erc20_wei cfg) e c \<and> sc_scanned_from sc \<le> le_block_number e
        \<and> le_block_number e \<le> to_block \<longrightarrow> e \<in> set (sc_examined sc))
    \<and> (\<forall>e \<in> set (sc_examined sc). answered (min_deposit_erc20_wei cfg) cls (set (sc_pending sc)) e)
    \<and> (\<forall>d \<in> set (sc_pending sc). \<exists>e \<in> set (sc_examined sc). reported (min_deposit_erc20_wei cfg) cls e d)
    \<and> length (sc_pending sc) \<le> 20 \<and> length (sc_examined sc) \<le> 60
    \<and> from_block \<le> sc_scanned_from sc
    \<and> (length (sc_pending sc) < 20 \<and> \<not> sc_bound_reached sc \<longrightarrow> sc_scanned_from sc = from_block)"
proof -
  let ?m = "min_deposit_erc20_wei cfg"
  let ?sc = "\<lparr>sc_pending = [], sc_classified = 0, sc_bound_reached = False, sc_scanned_from = to_block,
    sc_examined = []\<rparr>"
  have chunk: "0 < discovery_scan_chunk_blocks cfg" using cfg by (simp add: chain_config_ok_def)
  have ok: "scan_ok ?m cls ?sc" by (simp add: scan_ok_def)
  have go: "go_on ?sc" by (simp add: go_on_def MAX_PENDING_CANDIDATES_def)
  note node' = node [unfolded transfers_to_def]
  note run' = run [unfolded scan_window_def, folded cls_def]
  have inv: "scan_ok ?m cls sc \<and> covers ?m {e \<in> L. sc_scanned_from sc \<le> le_block_number e \<and> le_block_number e \<le> to_block} sc"
    by (rule scan_chunks_inv [OF node' chunk run' ok])
      (use range go in \<open>auto simp: covers_def\<close>)
  have "from_block \<le> sc_scanned_from sc \<and> (go_on sc \<longrightarrow> sc_scanned_from sc = from_block)"
    by (rule scan_chunks_range [OF run' node' chunk ok go]) (use range in simp)
  with inv show ?thesis
    by (auto simp: scan_ok_def covers_def go_on_def MAX_PENDING_CANDIDATES_def MAX_CLASSIFIED_CANDIDATES_def)
qed

section \<open>The scan ends\<close>

lemma scan_chunks_in_fuel:
  assumes logs: "\<And>a b. no_fuel (get_logs a b)" and cls: "\<And>c. no_fuel (cls c)"
    and dec: "\<And>e. decode_transfer_log e \<noteq> Inl OutOfFuel" and chunk: "0 < chunk"
  shows "chunk_end - from_block + 1 \<le> int n \<Longrightarrow> no_fuel (scan_chunks n get_logs cls m chunk from_block chunk_end sc)"
proof (induction n arbitrary: chunk_end sc)
  case 0
  then show ?case by (auto intro: no_fuel_intros)
next
  case (Suc n)
  have scan: "no_fuel (scan_logs cls m es sc)" for es sc
    using dec by (induction es arbitrary: sc)
      (auto simp: Let_def intro!: no_fuel_intros cls split: sum.splits option.splits)
  show ?case
    using Suc.prems chunk by (auto simp: Let_def intro!: no_fuel_intros logs scan Suc.IH)
qed

named_theorems no_marker \<open>computations that never yield the model's own marker\<close>

lemma no_marker_bind [no_marker]:
  "r \<noteq> Inl OutOfFuel \<Longrightarrow> (\<And>x. f x \<noteq> Inl OutOfFuel) \<Longrightarrow> sum_bind r f \<noteq> Inl OutOfFuel"
  by (cases r) auto

lemma no_marker_fields [no_marker]:
  "str_field v d \<noteq> Inl OutOfFuel" "int_field v' d' \<noteq> Inl OutOfFuel" "opt_field v \<noteq> Inl OutOfFuel"
  "float_field v n \<noteq> Inl OutOfFuel" "sweep_state_of x \<noteq> Inl OutOfFuel"
  "sweep_record_post_init r \<noteq> Inl OutOfFuel"
proof -
  show "str_field v d \<noteq> Inl OutOfFuel" by (cases "(v, d)" rule: str_field.cases) auto
  show "int_field v' d' \<noteq> Inl OutOfFuel" by (cases "(v', d')" rule: int_field.cases) auto
  show "opt_field v \<noteq> Inl OutOfFuel" by (cases v rule: opt_field.cases) auto
  show "float_field v n \<noteq> Inl OutOfFuel" by (cases "(v, n)" rule: float_field.cases) auto
qed (auto simp: sweep_state_of_def sweep_record_post_init_def)

lemma no_marker_fromhex [no_marker]: "bytes_fromhex s \<noteq> Inl OutOfFuel"
  by (induction s rule: bytes_fromhex.induct) (auto split: option.splits sum.splits)

lemma no_marker_record [no_marker]: "get_record_by_deposit_id now i d \<noteq> Inl OutOfFuel"
proof -
  have "sweep_record_from_dict now obj \<noteq> Inl OutOfFuel" for obj
    unfolding sweep_record_from_dict_def Let_def
    by (intro no_marker) (auto split: option.split dest!: no_marker_bind [THEN notE, rotated 2] intro!: no_marker)
  then show ?thesis
    by (auto simp: get_record_by_deposit_id_def read_record_def map_sum_def
        split: sum.splits option.splits file_content.splits)
qed

lemma no_marker_decode [no_marker]: "decode_transfer_log e \<noteq> Inl OutOfFuel"
  unfolding decode_transfer_log_def decode_amount_def py_int_16_def Let_def
  by (intro no_marker) (auto split: hexval.split option.split)

definition d_env_answers :: "'w d_env \<Rightarrow> bool" where
  "d_env_answers env \<longleftrightarrow> env_answers (de_sweep env)
   \<and> (\<forall>c a b adrs tp. answers (de_get_logs env c a b adrs tp))
   \<and> (\<forall>s. de_to_checksum_address env s \<noteq> Inl OutOfFuel)
   \<and> (\<forall>c h k i. de_solidity_keccak env c h k i \<noteq> Inl OutOfFuel)"

lemma no_fuel_classify:
  assumes "d_env_answers env"
  shows "no_fuel (classify env c cid ver user ids)"
proof -
  have rec: "no_fuel (engine_get (de_sweep env) i)" for i
    unfolding engine_get_def by (intro no_fuel_intros no_marker)
  have id: "compute_deposit_id (de_solidity_keccak env) cid h k i \<noteq> Inl OutOfFuel" for h k i
    using assms unfolding compute_deposit_id_def by (intro no_marker) (simp add: d_env_answers_def)
  have ask: "no_fuel (await (de_sweep env) (acc_is_deposit_processed (de_sweep env) i))" for i
    using assms by (intro env_awaits) (simp add: d_env_answers_def)
  have cks: "de_to_checksum_address env x \<noteq> Inl OutOfFuel" for x
    using assms by (simp add: d_env_answers_def)
  show ?thesis
    unfolding classify_def record_bytes_def Let_def
    by (auto split: option.split intro!: no_fuel_intros no_marker rec id ask cks)
qed

text \<open>
  A scan ends: whatever window it is given, the loop over the chunks makes no more than one
  turn per block, for every entry that passed the table's checks (whose chunk size is positive),
  so the scan returns or raises an exception of the program.
\<close>
theorem scan_window_returns:
  assumes "d_env_answers env" and "chain_config_ok cfg"
  shows "in_fuel (scan_window env w3 cfg addresses ids addr user cid ver from_block to_block) s"
proof -
  have "no_fuel (d_rpc env (de_get_logs env w3 a b addresses (address_topic addr)))" for a b
    using assms(1) unfolding d_rpc_def
    by (auto intro!: no_fuel_intros no_fuel_await simp: d_env_answers_def)
  moreover have "0 < discovery_scan_chunk_blocks cfg" using assms(2) by (simp add: chain_config_ok_def)
  ultimately have "no_fuel (scan_window env w3 cfg addresses ids addr user cid ver from_block to_block)"
    unfolding scan_window_def
    by (intro scan_chunks_in_fuel no_fuel_classify no_marker assms(1)) simp_all
  then show ?thesis by (simp add: no_fuel_def)
qed

section \<open>What a hit says\<close>

text \<open>A record still being worked on: no failure, or one after the sweep was broadcast.\<close>

definition processing :: "sweep_record option \<Rightarrow> bool" where
  "processing record = (case record of None \<Rightarrow> False
     | Some r \<Rightarrow> \<not> (truthy (sr_error r) \<and> \<not> truthy (sr_sweep_tx_hash r)))"

text \<open>
  What a reported deposit says. It is the transfer it was made from (hash, index, amount,
  block), of a registered token of the chain; no record of it belongs to another user; it is
  shown as processing, with its deposit id, exactly when its record is unfinished; otherwise it
  is shown as discovered, and the contract has just answered that it was never credited.
\<close>
theorem classify_hit:
  assumes "classify env c cid ver user ids s = (Inr (Some d), t)"
  shows "\<exists>tok dep record.
    map_of ids (ascii_lower (ca_token_address c)) = Some (dd_token_id_hex d)
    \<and> bytes_fromhex (removeprefix ''0x'' (dd_token_id_hex d)) = Inr tok
    \<and> compute_deposit_id (de_solidity_keccak env) cid (ca_tx_hash c) tok (ca_log_index c) = Inr dep
    \<and> get_record_by_deposit_id (clock (de_sweep env) (world s)) (to_hex dep) (disk s) = Inr record
    \<and> (\<forall>r. record = Some r \<longrightarrow> ascii_lower (sr_beneficiary r) = ascii_lower user)
    \<and> dd_chain_id d = cid \<and> dd_version d = ver
    \<and> dd_tx_hash d = ca_tx_hash c \<and> dd_log_index d = ca_log_index c \<and> dd_amount d = ca_amount c
    \<and> dd_block_number d = ca_block_number c
    \<and> (if processing record
       then dd_status d = ''processing'' \<and> dd_deposit_id_hex d = Some (to_hex dep)
       else dd_status d = ''discovered'' \<and> dd_deposit_id_hex d = None
          \<and> (\<exists>w. acc_is_deposit_processed (de_sweep env) dep (world s) = (Inr False, w)))"
proof -
  obtain tid where tid: "map_of ids (ascii_lower (ca_token_address c)) = Some tid"
    using assms by (auto simp: classify_def py_ret_def split: option.splits)
  obtain tok dep rd where ids: "bytes_fromhex (removeprefix ''0x'' tid) = Inr tok"
      "compute_deposit_id (de_solidity_keccak env) cid (ca_tx_hash c) tok (ca_log_index c) = Inr dep"
      "get_record_by_deposit_id (clock (de_sweep env) (world s)) (to_hex dep) (disk s) = Inr rd"
    using assms tid by (auto simp: classify_def py_bind_Inr record_bytes_def py_lift_def engine_get_def py_get_def)
  then have run: "engine_get (de_sweep env) (to_hex dep) s = (Inr rd, s)"
    by (simp add: engine_get_def py_bind_def py_get_def py_lift_def)
  have mine: "\<forall>r. rd = Some r \<longrightarrow> ascii_lower (sr_beneficiary r) = ascii_lower user"
    using assms tid ids(1,2) run
    by (auto simp: classify_def py_bind_Inr record_bytes_def py_lift_def py_ret_def split: option.splits if_splits)
  show ?thesis
    using assms tid ids run mine
    by (intro exI [of _ tok] exI [of _ dep] exI [of _ rd])
      (auto simp: classify_def py_bind_Inr record_bytes_def py_lift_def py_ret_def processing_def Let_def
        await_run split: option.splits if_splits)
qed

section \<open>A concrete scan\<close>

text \<open>
  Ethereum's entry, blocks 50 to 70; one transfer lies in the range.
\<close>

definition demo_transfer :: log_entry where
  "demo_transfer = demo_log\<lparr>le_transaction_hash := Some (HStr ''0xabcd'')\<rparr>"

definition demo_d_env :: "int d_env" where
  "demo_d_env = \<lparr>de_sweep = demo_env (Some 1) demo_send (Inr ()),
     de_latest_block = (\<lambda>_ w. (Inr 100, w)),
     de_get_logs = (\<lambda>_ a b _ _ w. (Inr (if a \<le> 60 \<and> 60 \<le> b then [demo_transfer] else []), w)),
     de_list_all_tokens = (\<lambda>w. (Inr [], w)),
     de_to_checksum_address = (\<lambda>s. Inr s),
     de_solidity_keccak = (\<lambda>_ _ _ _. Inr (replicate 32 0))\<rparr>"

definition demo_scan :: "(int engine, scan) py" where
  "demo_scan = scan_window demo_d_env demo_eth (chain_definitions ! 4) [''0xToken'']
     [(''0xtoken'', ''0x01'')] demo_address ''0xB'' 1 1 50 70"

definition demo_hit :: discovered_deposit where
  "demo_hit = \<lparr>dd_chain_id = 1, dd_tx_hash = ''0xabcd'', dd_log_index = 3, dd_amount = 10000000,
     dd_token_address = ''0xToken'', dd_token_id_hex = ''0x01'', dd_block_number = 60, dd_version = 1,
     dd_status = ''discovered'', dd_deposit_id_hex = None\<rparr>"

lemma demo_scan_result:
  "case fst (demo_scan (demo_engine [])) of Inl _ \<Rightarrow> False
   | Inr sc \<Rightarrow> sc_pending sc = [demo_hit] \<and> sc_scanned_from sc = 50"
  by code_simp

lemma demo_eth_config_ok: "chain_config_ok (chain_definitions ! 4)"
  by code_simp

lemma demo_node: "transfers_to demo_d_env demo_eth addresses addr {demo_transfer}"
  by (auto simp: transfers_to_def answers_from_def d_rpc_def py_try_def await_def demo_d_env_def
      demo_transfer_def demo_log_def)

lemma scan_window_complete_witness:
  "case fst (demo_scan (demo_engine [])) of Inl _ \<Rightarrow> False | Inr sc \<Rightarrow> demo_transfer \<in> set (sc_examined sc)"
proof -
  obtain sc t where run: "demo_scan (demo_engine []) = (Inr sc, t)" and from_block: "sc_scanned_from sc = 50"
    using demo_scan_result by (cases "demo_scan (demo_engine [])") (auto split: sum.splits)
  have "qualifies (min_deposit_erc20_wei (chain_definitions ! 4)) demo_transfer
      \<lparr>ca_tx_hash = ''0xabcd'', ca_log_index = 3, ca_amount = 10000000, ca_token_address = ''0xToken'',
       ca_block_number = 60\<rparr>"
    unfolding qualifies_def by (intro conjI; code_simp)
  moreover have "le_block_number demo_transfer = 60" by (simp add: demo_transfer_def demo_log_def)
  ultimately show ?thesis
    using scan_window_complete [OF run [unfolded demo_scan_def] demo_node demo_eth_config_ok] from_block run
    by auto
qed

lemma scan_window_returns_witness: "in_fuel demo_scan (demo_engine [])"
  unfolding demo_scan_def
proof (rule scan_window_returns [OF _ demo_eth_config_ok])
  show "d_env_answers demo_d_env"
    by (simp add: d_env_answers_def env_answers_def answers_def demo_d_env_def demo_env_def demo_send_def)
qed

lemma classify_hit_witness: "dd_status demo_hit = ''discovered'' \<and> dd_deposit_id_hex demo_hit = None"
proof -
  let ?c = "\<lparr>ca_tx_hash = ''0xabcd'', ca_log_index = 3, ca_amount = 10000000, ca_token_address = ''0xToken'',
    ca_block_number = 60\<rparr>"
  let ?run = "classify demo_d_env ?c 1 1 ''0xB'' [(''0xtoken'', ''0x01'')] (demo_engine [])"
  have "fst ?run = Inr (Some demo_hit)" by code_simp
  then have run: "?run = (Inr (Some demo_hit), snd ?run)" by (metis prod.collapse)
  have "get_record_by_deposit_id now i [] = Inr None" for now i
    by (simp add: get_record_by_deposit_id_def split: sum.split)
  then show ?thesis
    using classify_hit [OF run] by (auto simp: demo_engine_def processing_def)
qed

end
