(* ===== verification/Auth_Tokens.thy ===== *)
theory Auth_Tokens
  imports Auth_Stores
begin

text \<open>
  The credentials the service issues: the JWTs of \<^verbatim>\<open>src/auth/jwt_service.py\<close> with the request
  dependencies of \<^verbatim>\<open>src/auth/dependencies.py\<close>, and the encrypted private-read tokens of
  \<^verbatim>\<open>src/auth/auth_token_service.py\<close> on \<^verbatim>\<open>src/crypto/deoxysii.py\<close>. \<open>jwt.encode\<close> and
  \<open>jwt.decode\<close> (with the service's key), the ABI coder, the Deoxys-II cipher and the address checksum
  come from packages and are parameters.
\<close>

section \<open>JWTs\<close>

definition TOKEN_TYPE_ACCESS :: string where "TOKEN_TYPE_ACCESS = ''access''"
definition TOKEN_TYPE_ID :: string where "TOKEN_TYPE_ID = ''id''"
definition TOKEN_TYPE_REFRESH :: string where "TOKEN_TYPE_REFRESH = ''refresh''"

record claims =
  jc_sub :: "string option"
  jc_iss :: string
  jc_aud :: string
  jc_iat :: int
  jc_nbf :: int
  jc_exp :: "int option"
  jc_type :: "string option"
  jc_jti :: "string option"

record 'w jwt_env =
  je_stores :: "'w store_env"
  je_encode :: "claims \<Rightarrow> exn + string"
  je_decode :: "string \<Rightarrow> string \<Rightarrow> string \<Rightarrow> 'w \<Rightarrow> exn + claims"
  je_checksum :: "string \<Rightarrow> exn + string"
  je_expiry_hours :: int
  je_refresh_expiry_days :: int
  je_issuer :: string
  je_audience :: string

text \<open>The claims of a token made at \<open>now\<close> that lasts \<open>lifetime\<close> seconds.\<close>

definition new_claims ::
    "'w jwt_env \<Rightarrow> string \<Rightarrow> string \<Rightarrow> string \<Rightarrow> string option \<Rightarrow> int \<Rightarrow> int \<Rightarrow> claims" where
  "new_claims env address audience kind jti now lifetime =
     \<lparr>jc_sub = Some address, jc_iss = je_issuer env, jc_aud = audience, jc_iat = now div SECOND,
      jc_nbf = now div SECOND, jc_exp = Some ((now + lifetime * SECOND) div SECOND),
      jc_type = Some kind, jc_jti = jti\<rparr>"

definition create_token :: "'w jwt_env \<Rightarrow> string \<Rightarrow> ('w auth, string) py" where
  "create_token env address =
     py_bind (py_lift (je_checksum env address)) (\<lambda>address.
     py_bind (time_time (je_stores env)) (\<lambda>now.
     py_lift (je_encode env
       (new_claims env address (je_audience env) TOKEN_TYPE_ACCESS None now (je_expiry_hours env * 3600)))))"

definition create_id_token :: "'w jwt_env \<Rightarrow> string \<Rightarrow> string \<Rightarrow> ('w auth, string) py" where
  "create_id_token env address audience =
     py_bind (py_lift (je_checksum env address)) (\<lambda>address.
     py_bind (time_time (je_stores env)) (\<lambda>now.
     py_lift (je_encode env
       (new_claims env address audience TOKEN_TYPE_ID None now (je_expiry_hours env * 3600)))))"

definition create_refresh_token :: "'w jwt_env \<Rightarrow> string \<Rightarrow> ('w auth, string) py" where
  "create_refresh_token env address =
     py_bind (py_lift (je_checksum env address)) (\<lambda>address.
     py_bind (time_time (je_stores env)) (\<lambda>now.
     let lifetime = je_refresh_expiry_days env * 24 * 3600 in
     py_bind (fresh (se_token_urlsafe (je_stores env))) (\<lambda>jti.
     py_bind (py_lift (je_encode env
       (new_claims env address (je_audience env) TOKEN_TYPE_REFRESH (Some jti) now lifetime))) (\<lambda>token.
     py_then (store_refresh_token (je_stores env) jti address (now + lifetime * SECOND))
       (py_ret token)))))"

definition verify_token :: "'w jwt_env \<Rightarrow> string \<Rightarrow> string option \<Rightarrow> ('w auth, claims) py" where
  "verify_token env token audience =
     py_bind (reading (je_decode env token (je_issuer env)
         (if given audience then the audience else je_audience env))) py_lift"

definition get_access_token_payload :: "'w jwt_env \<Rightarrow> string \<Rightarrow> ('w auth, claims) py" where
  "get_access_token_payload env token =
     py_bind (verify_token env token None) (\<lambda>payload.
     if jc_type payload \<noteq> Some TOKEN_TYPE_ACCESS then py_raise (ValueError ''Expected access token'')
     else if \<not> given (jc_sub payload) then py_raise (ValueError ''Token missing 'sub' claim'')
     else
       py_bind (py_lift (je_checksum env (the (jc_sub payload)))) (\<lambda>address.
       py_ret (payload\<lparr>jc_sub := Some address\<rparr>)))"

definition get_address_from_token :: "'w jwt_env \<Rightarrow> string \<Rightarrow> ('w auth, string) py" where
  "get_address_from_token env token =
     py_bind (get_access_token_payload env token) (\<lambda>payload. py_ret (the (jc_sub payload)))"

definition verify_id_token :: "'w jwt_env \<Rightarrow> string \<Rightarrow> string \<Rightarrow> ('w auth, string) py" where
  "verify_id_token env token audience =
     py_bind (verify_token env token (Some audience)) (\<lambda>payload.
     if jc_type payload \<noteq> Some TOKEN_TYPE_ID then py_raise (ValueError ''Expected id token'')
     else if \<not> given (jc_sub payload) then py_raise (ValueError ''Token missing 'sub' claim'')
     else py_lift (je_checksum env (the (jc_sub payload))))"

definition verify_refresh_token :: "'w jwt_env \<Rightarrow> string \<Rightarrow> ('w auth, string) py" where
  "verify_refresh_token env token =
     py_bind (verify_token env token None) (\<lambda>payload.
     if jc_type payload \<noteq> Some TOKEN_TYPE_REFRESH then py_raise (ValueError ''Expected refresh token'')
     else if \<not> given (jc_jti payload) then py_raise (ValueError ''Refresh token missing 'jti' claim'')
     else
       py_bind (is_refresh_token_valid (je_stores env) (the (jc_jti payload))) (\<lambda>valid.
       if \<not> valid then py_raise (ValueError ''Refresh token has been revoked'')
       else if \<not> given (jc_sub payload) then py_raise (ValueError ''Token missing 'sub' claim'')
       else py_lift (je_checksum env (the (jc_sub payload)))))"

definition refresh_tokens :: "'w jwt_env \<Rightarrow> string \<Rightarrow> ('w auth, string \<times> string) py" where
  "refresh_tokens env refresh_token =
     py_bind (verify_token env refresh_token None) (\<lambda>payload.
     if jc_type payload \<noteq> Some TOKEN_TYPE_REFRESH then py_raise (ValueError ''Expected refresh token'')
     else if \<not> given (jc_jti payload) then py_raise (ValueError ''Refresh token missing 'jti' claim'')
     else
       py_bind (consume_refresh_token (je_stores env) (the (jc_jti payload))) (\<lambda>address.
       case address of
         None \<Rightarrow> py_raise (ValueError ''Refresh token has been revoked'')
       | Some a \<Rightarrow>
           py_bind (create_token env a) (\<lambda>new_access_token.
           py_bind (create_refresh_token env a) (\<lambda>new_refresh_token.
           py_ret (new_access_token, new_refresh_token)))))"

definition revoke_refresh_token :: "'w jwt_env \<Rightarrow> string \<Rightarrow> ('w auth, bool) py" where
  "revoke_refresh_token env token =
     py_try
       (py_bind (verify_token env token None) (\<lambda>payload.
        if given (jc_jti payload)
        then delete_refresh_token (je_stores env) (the (jc_jti payload))
        else py_ret False))
       (\<lambda>e. if is_jwt_error e then py_ret False else py_raise e)"

definition revoke_all_refresh_tokens :: "'w jwt_env \<Rightarrow> string \<Rightarrow> ('w auth, int) py" where
  "revoke_all_refresh_tokens env address =
     py_bind (py_lift (je_checksum env address)) (\<lambda>a.
     revoke_all_refresh_tokens_for_address (je_stores env) a)"

definition access_token_expiry_seconds :: "'w jwt_env \<Rightarrow> int" where
  "access_token_expiry_seconds env = je_expiry_hours env * 3600"

definition refresh_token_expiry_seconds :: "'w jwt_env \<Rightarrow> int" where
  "refresh_token_expiry_seconds env = je_refresh_expiry_days env * 24 * 3600"

section \<open>Who is calling\<close>

text \<open>The bearer credentials of a request, once \<open>HTTPBearer\<close> has looked at its header.\<close>

definition access_token_payload :: "'w jwt_env \<Rightarrow> string option \<Rightarrow> ('w auth, claims) py" where
  "access_token_payload env credentials =
     (case credentials of
        None \<Rightarrow> py_raise (HttpError 401 ''Missing or invalid Authorization header'')
      | Some token \<Rightarrow>
          py_try (get_access_token_payload env token) (\<lambda>e. py_raise
            (case e of
               JwtExpired m \<Rightarrow> HttpError 401 ''Token has expired''
             | JwtInvalid m \<Rightarrow> HttpError 401 ''Invalid token''
             | ValueError m \<Rightarrow> HttpError 401 m
             | _ \<Rightarrow> e)))"

definition get_current_user :: "'w jwt_env \<Rightarrow> string option \<Rightarrow> ('w auth, string) py" where
  "get_current_user env credentials =
     py_bind (access_token_payload env credentials) (\<lambda>payload. py_ret (the (jc_sub payload)))"

record current_access_token =
  ct_address :: string
  ct_expires_at :: int

definition get_current_access_token_without_siwe_token ::
    "'w jwt_env \<Rightarrow> http_request \<Rightarrow> string option \<Rightarrow> ('w auth, current_access_token) py" where
  "get_current_access_token_without_siwe_token env request credentials =
     (if given (map_of (rq_headers request) ''authorization'') \<and> given (map_of (rq_headers request) ''x-siwe-token'')
      then py_raise (HttpError 400 ''Provide Authorization bearer token only; do not send X-SIWE-Token'')
      else
        py_bind (access_token_payload env credentials) (\<lambda>payload.
        case jc_exp payload of
          None \<Rightarrow> py_raise (HttpError 401 ''Token missing 'exp' claim'')
        | Some expires_at \<Rightarrow>
            py_ret \<lparr>ct_address = the (jc_sub payload), ct_expires_at = expires_at\<rparr>))"

definition get_current_user_optional :: "'w jwt_env \<Rightarrow> string option \<Rightarrow> ('w auth, string option) py" where
  "get_current_user_optional env credentials =
     (case credentials of
        None \<Rightarrow> py_ret None
      | Some token \<Rightarrow>
          py_catch (py_bind (get_address_from_token env token) (\<lambda>a. py_ret (Some a))) (\<lambda>e. py_ret None))"

section \<open>Private-read tokens\<close>

definition KEY_SIZE :: nat where "KEY_SIZE = 32"
definition NONCE_SIZE :: nat where "NONCE_SIZE = 15"
definition TAG_SIZE :: nat where "TAG_SIZE = 16"

record auth_token =
  at_domain :: string
  at_user_addr :: string
  at_valid_until :: int
  at_statement :: string
  at_resources :: "string list"

text \<open>
  The cipher's \<open>seal\<close> fills the buffer the caller made, \<open>open\<close> answers whether the tag was right.
  The ABI coder works on the struct of the contract.
\<close>

record mint_env =
  me_enc_key :: bytes
  me_seal :: "bytes \<Rightarrow> bytes \<Rightarrow> bytes \<Rightarrow> bytes \<Rightarrow> bytes"
  me_open :: "bytes \<Rightarrow> bytes \<Rightarrow> bytes \<Rightarrow> bytes \<Rightarrow> bytes option"
  me_to_bytes :: "string \<Rightarrow> exn + bytes"
  me_abi_encode :: "string \<times> bytes \<times> int \<times> string \<times> string list \<Rightarrow> exn + bytes"
  me_abi_decode :: "bytes \<Rightarrow> exn + (string \<times> string \<times> int \<times> string \<times> string list)"
  me_checksum :: "string \<Rightarrow> exn + string"

definition ZERO_NONCE :: bytes where "ZERO_NONCE = replicate NONCE_SIZE 0"

definition aead_key :: "mint_env \<Rightarrow> exn + bytes" where
  "aead_key env =
     (if length (me_enc_key env) \<noteq> KEY_SIZE then Inl (ValueError ''Invalid key size'') else Inr (me_enc_key env))"

definition aead_encrypt :: "mint_env \<Rightarrow> bytes \<Rightarrow> bytes \<Rightarrow> bytes option \<Rightarrow> bytes \<Rightarrow> exn + bytes" where
  "aead_encrypt env key nonce plaintext associated_data =
     (if length nonce \<noteq> NONCE_SIZE then Inl (ValueError ''Invalid nonce size'')
      else Inr (me_seal env key nonce associated_data (case plaintext of None \<Rightarrow> [] | Some p \<Rightarrow> p)))"

definition aead_decrypt :: "mint_env \<Rightarrow> bytes \<Rightarrow> bytes \<Rightarrow> bytes \<Rightarrow> bytes \<Rightarrow> exn + bytes" where
  "aead_decrypt env key nonce ciphertext associated_data =
     (if length nonce \<noteq> NONCE_SIZE then Inl (ValueError ''Invalid nonce size'')
      else if length ciphertext < TAG_SIZE then Inl (OtherError ''DecryptionError'')
      else case me_open env key nonce associated_data ciphertext of
          None \<Rightarrow> Inl (OtherError ''DecryptionError'')
        | Some plaintext \<Rightarrow> Inr plaintext)"

definition to_abi_encoded :: "mint_env \<Rightarrow> auth_token \<Rightarrow> exn + bytes" where
  "to_abi_encoded env token =
     sum_bind (me_to_bytes env (at_user_addr token)) (\<lambda>user_addr_bytes.
     me_abi_encode env (at_domain token, user_addr_bytes, at_valid_until token, at_statement token, at_resources token))"

definition create_auth_token ::
    "mint_env \<Rightarrow> string \<Rightarrow> string \<Rightarrow> int \<Rightarrow> string \<Rightarrow> string list \<Rightarrow> exn + auth_token" where
  "create_auth_token env domain user_addr valid_until statement resources =
     sum_bind (me_checksum env user_addr) (\<lambda>a.
       Inr \<lparr>at_domain = domain, at_user_addr = a, at_valid_until = valid_until,
            at_statement = statement, at_resources = resources\<rparr>)"

definition encrypt_auth_token :: "mint_env \<Rightarrow> auth_token \<Rightarrow> exn + bytes" where
  "encrypt_auth_token env token =
     sum_bind (to_abi_encoded env token) (\<lambda>encoded.
     sum_bind (aead_key env) (\<lambda>key. aead_encrypt env key ZERO_NONCE (Some encoded) []))"

definition create_and_encrypt ::
    "mint_env \<Rightarrow> string \<Rightarrow> string \<Rightarrow> int \<Rightarrow> string \<Rightarrow> string list \<Rightarrow> exn + bytes" where
  "create_and_encrypt env domain user_addr valid_until statement resources =
     sum_bind (create_auth_token env domain user_addr valid_until statement resources) (encrypt_auth_token env)"

text \<open>\<open>now\<close> is the clock in microseconds; the handler turns the three kinds of exception into one.\<close>

definition decode_auth_token :: "mint_env \<Rightarrow> bytes \<Rightarrow> bool \<Rightarrow> int \<Rightarrow> exn + auth_token" where
  "decode_auth_token env ciphertext validate_expiry now =
     sum_bind
       (case sum_bind (aead_key env) (\<lambda>key.
             sum_bind (aead_decrypt env key ZERO_NONCE ciphertext []) (\<lambda>encoded.
             sum_bind (me_abi_decode env encoded) (\<lambda>(domain, addr, valid_until, statement, resources).
             create_auth_token env domain addr valid_until statement resources))) of
          Inl e \<Rightarrow> Inl (if is_value_error e \<or> e \<in> set [OtherError ''DecryptionError'', OtherError ''TypeError'']
                       then ValueError ''Invalid auth token'' else e)
        | Inr token \<Rightarrow> Inr token)
       (\<lambda>token. if validate_expiry \<and> at_valid_until token < now div SECOND
                then Inl (ValueError ''Auth token has expired'') else Inr token)"

definition decrypt_auth_token :: "mint_env \<Rightarrow> bytes \<Rightarrow> int \<Rightarrow> exn + auth_token" where
  "decrypt_auth_token env ciphertext now = decode_auth_token env ciphertext True now"

end
