(* ===== verification/Auth_Flow.thy ===== *)
theory Auth_Flow
  imports Auth_Tokens
begin

text \<open>
  Signing in: \<^verbatim>\<open>src/auth/siwe_service.py\<close> and the handlers of \<^verbatim>\<open>src/api/auth_routes.py\<close> and
  \<^verbatim>\<open>src/api/routes.py\<close> that issue, exchange, refresh and revoke credentials. The package \<open>siwe\<close>
  (parsing a message, verifying its signature), \<open>datetime.fromisoformat\<close> and SHA-256 are
  parameters. A handler has no \<open>await\<close> of its own; other workers act between any two calls on a
  table.
\<close>

section \<open>Settings and messages\<close>

record auth_settings =
  as_environment :: string
  as_siwe_domains :: "string list"
  as_sapphire_chain_id :: int
  as_auth_token_validity_seconds :: int
  as_trust_x_forwarded_for :: bool
  as_auth_rate_limit_window_seconds :: int
  as_auth_nonce_rate_limit :: int
  as_auth_login_rate_limit :: int
  as_auth_authorize_rate_limit :: int
  as_auth_token_rate_limit :: int
  as_rate_limit_exempt :: "string list"

record siwe_message =
  sm_domain :: "string option"
  sm_address :: string
  sm_nonce :: "string option"
  sm_statement :: "string option"
  sm_issued_at :: "string option"
  sm_expiration_time :: "string option"
  sm_resources :: "string list option"

datatype siwe_error = InvalidSignature | ExpiredMessage | MalformedSession | OtherSiweError exn

text \<open>
  \<open>fe_verify\<close> takes the message, the signature, the domain and the nonce. A datetime is a
  number the environment gives meaning to: \<open>fe_timestamp\<close> is its Unix time in microseconds.
\<close>

record 'w flow_env =
  fe_jwt :: "'w jwt_env"
  fe_mint :: mint_env
  fe_settings :: auth_settings
  fe_clients :: registry
  fe_parse :: "string \<Rightarrow> exn + siwe_message"
  fe_verify :: "siwe_message \<Rightarrow> string \<Rightarrow> string \<Rightarrow> string \<Rightarrow> 'w \<Rightarrow> siwe_error + unit"
  fe_fromisoformat :: "string \<Rightarrow> exn + int"
  fe_timestamp :: "int \<Rightarrow> exn + int"
  fe_sha256 :: "bytes \<Rightarrow> bytes"

definition stores :: "'w flow_env \<Rightarrow> 'w store_env" where
  "stores env = je_stores (fe_jwt env)"

definition siwe_configs :: "'w flow_env \<Rightarrow> exn + siwe_config list" where
  "siwe_configs env = get_siwe_configs (as_environment (fe_settings env)) (as_siwe_domains (fe_settings env))"

section \<open>The statement\<close>

definition STATEMENT_PREFIX :: string where
  "STATEMENT_PREFIX = ''Sign in to Privana on chain ''"

text \<open>\<open>re.search(r"Sign in to Privana on chain \s*(\d+)", s, re.IGNORECASE)\<close>, the group.\<close>

definition match_chain :: "string \<Rightarrow> string option" where
  "match_chain s =
     (let n = length STATEMENT_PREFIX;
          digits = takeWhile is_digit (dropWhile py_space (drop n s))
      in if ascii_lower (take n s) = ascii_lower STATEMENT_PREFIX \<and> digits \<noteq> [] then Some digits else None)"

fun search_chain :: "string \<Rightarrow> string option" where
  "search_chain [] = None"
| "search_chain (c # s) =
     (case match_chain (c # s) of Some d \<Rightarrow> Some d | None \<Rightarrow> search_chain s)"

text \<open>\<open>int(text, 10)\<close> on digits; longer texts exceed the interpreter's limit.\<close>

definition MAX_STR_DIGITS :: nat where "MAX_STR_DIGITS = 4300"

definition py_int_10 :: "string \<Rightarrow> exn + int" where
  "py_int_10 digits =
     (if length digits > MAX_STR_DIGITS then Inl (ValueError ''Exceeds the limit for integer string conversion'')
      else Inr (int (dec_value digits)))"

lemma int_dec_value: "int (dec_value s) = foldl (\<lambda>acc c. acc * 10 + int (of_char c - 48)) 0 s"
  unfolding dec_value_def by (induction s rule: rev_induct) simp_all

lemma py_int_10_code [code]:
  "py_int_10 digits =
     (if (4300 :: int) < int (length digits) then Inl (ValueError ''Exceeds the limit for integer string conversion'')
      else Inr (foldl (\<lambda>acc c. acc * 10 + int (of_char c - 48)) 0 digits))"
  by (simp add: py_int_10_def MAX_STR_DIGITS_def int_dec_value)

section \<open>Times in messages\<close>

fun replace_z :: "string \<Rightarrow> string" where
  "replace_z [] = []"
| "replace_z (c # s) = (if c = CHR ''Z'' then ''+00:00'' @ replace_z s else c # replace_z s)"

text \<open>\<open>int(x)\<close> of a time in seconds, towards zero.\<close>

definition int_seconds :: "int \<Rightarrow> int" where
  "int_seconds x = (if 0 \<le> x then x div SECOND else - ((- x) div SECOND))"

definition siwe_time :: "'w flow_env \<Rightarrow> string \<Rightarrow> string \<Rightarrow> exn + int" where
  "siwe_time env bad value =
     (case fe_fromisoformat env (replace_z value) of
        Inl e \<Rightarrow> Inl (if is_value_error e then SiweAuth bad 400 else e)
      | Inr dt \<Rightarrow> sum_bind (fe_timestamp env dt) (\<lambda>x. Inr (int_seconds x)))"

section \<open>Authenticating a message\<close>

record authenticated_siwe =
  sw_address :: string
  sw_valid_until :: int
  sw_statement :: string
  sw_resources :: "string list"
  sw_token_bytes :: bytes
  sw_token_hex :: string

definition TOLERANCE_SECONDS :: int where "TOLERANCE_SECONDS = 5 * 60"

definition siwe_refusal :: "siwe_error \<Rightarrow> exn" where
  "siwe_refusal x =
     (case x of
        InvalidSignature \<Rightarrow> SiweAuth ''Invalid signature'' 400
      | ExpiredMessage \<Rightarrow> SiweAuth ''SIWE message expired'' 400
      | MalformedSession \<Rightarrow> SiweAuth ''Invalid SIWE message format'' 400
      | OtherSiweError e \<Rightarrow> if is_exception e then SiweAuth ''SIWE verification failed'' 400 else e)"

text \<open>Up to the signature: domain, nonce, address and chain, all read from the message.\<close>

definition identify ::
    "'w flow_env \<Rightarrow> siwe_config list \<Rightarrow> siwe_message \<Rightarrow> ('w auth, siwe_config \<times> string \<times> string) py" where
  "identify env configs msg =
     (let message_domain = ascii_lower (py_strip (case sm_domain msg of None \<Rightarrow> [] | Some d \<Rightarrow> d)) in
     case List.find (\<lambda>cfg. sc_domain cfg = message_domain) configs of
       None \<Rightarrow> py_raise (SiweAuth ''SIWE domain is not allowed'' 400)
     | Some cfg \<Rightarrow>
         if \<not> given (sm_nonce msg)
         then py_raise (SiweAuth ''Invalid or expired nonce. Request a new nonce from /auth/nonce'' 400)
         else
           let nonce = the (sm_nonce msg) in
           py_bind (py_lift (case je_checksum (fe_jwt env) (sm_address msg) of
               Inl e \<Rightarrow> Inl (if is_exception e then SiweAuth ''Invalid SIWE address'' 400 else e)
             | Inr a \<Rightarrow> Inr a)) (\<lambda>address.
           py_bind (is_nonce_valid (stores env) nonce) (\<lambda>valid.
           if \<not> valid
           then py_raise (SiweAuth ''Invalid or expired nonce. Request a new nonce from /auth/nonce'' 400)
           else
             case search_chain (case sm_statement msg of None \<Rightarrow> [] | Some t \<Rightarrow> t) of
               None \<Rightarrow> py_raise (SiweAuth ''Destination chain in statement not defined'' 400)
             | Some digits \<Rightarrow>
                 py_bind (py_lift (py_int_10 digits)) (\<lambda>chain.
                 if chain \<noteq> as_sapphire_chain_id (fe_settings env)
                 then py_raise (SiweAuth ''Destination chain not supported'' 400)
                 else py_ret (cfg, nonce, address)))))"

text \<open>The times of the message against the clock.\<close>

definition check_times :: "'w flow_env \<Rightarrow> siwe_message \<Rightarrow> int \<Rightarrow> exn + int" where
  "check_times env msg now =
     (if \<not> given (sm_issued_at msg) then Inl (SiweAuth ''SIWE message must include issued_at'' 400)
      else
        sum_bind (siwe_time env ''SIWE message issued_at is invalid'' (the (sm_issued_at msg))) (\<lambda>issued_at.
        if abs (now - issued_at) > TOLERANCE_SECONDS
        then Inl (SiweAuth ''SIWE message issued_at is outside acceptable time range'' 400)
        else if \<not> given (sm_expiration_time msg)
        then Inl (SiweAuth ''SIWE message must include expiration_time'' 400)
        else
          sum_bind (siwe_time env ''SIWE message expiration_time is invalid'' (the (sm_expiration_time msg))) (\<lambda>valid_until.
          if valid_until < now then Inl (SiweAuth ''SIWE message expired'' 400)
          else if valid_until > now + as_auth_token_validity_seconds (fe_settings env) + TOLERANCE_SECONDS
          then Inl (SiweAuth ''SIWE expiration_time exceeds the maximum allowed validity window'' 400)
          else Inr valid_until)))"

definition authenticate_siwe_message ::
    "'w flow_env \<Rightarrow> string \<Rightarrow> string \<Rightarrow> ('w auth, authenticated_siwe) py" where
  "authenticate_siwe_message env siwe_message_text signature =
     py_bind (py_lift (case siwe_configs env of
         Inl e \<Rightarrow> Inl (if is_value_error e then SiweAuth (str_exn e) 500 else e) | Inr cs \<Rightarrow> Inr cs)) (\<lambda>configs.
     py_bind (py_lift (case fe_parse env siwe_message_text of
         Inl e \<Rightarrow> Inl (if is_exception e then SiweAuth ''Invalid SIWE message'' 400 else e)
       | Inr msg \<Rightarrow> Inr msg)) (\<lambda>msg.
     py_bind (identify env configs msg) (\<lambda>(cfg, nonce, address).
     py_bind (reading (fe_verify env msg signature (sc_domain cfg) nonce)) (\<lambda>verified.
     case verified of
       Inl x \<Rightarrow> py_raise (siwe_refusal x)
     | Inr u \<Rightarrow>
         py_bind (time_time (stores env)) (\<lambda>time.
         py_bind (py_lift (check_times env msg (time div SECOND))) (\<lambda>valid_until.
         let statement = (case sm_statement msg of None \<Rightarrow> [] | Some t \<Rightarrow> t);
             resources = (case sm_resources msg of None \<Rightarrow> [] | Some r \<Rightarrow> r)
         in
         py_bind (py_lift (case create_and_encrypt (fe_mint env) (sc_domain cfg) address valid_until statement resources of
             Inl e \<Rightarrow> Inl (if is_exception e then SiweAuth ''Failed to generate auth token'' 500 else e)
           | Inr b \<Rightarrow> Inr b)) (\<lambda>token.
         py_bind (consume_nonce (stores env) nonce) (\<lambda>consumed.
         if \<not> consumed then py_raise (SiweAuth ''Nonce already used. Request a new nonce from /auth/nonce'' 400)
         else
           py_ret \<lparr>sw_address = address, sw_valid_until = valid_until, sw_statement = statement,
                   sw_resources = resources, sw_token_bytes = token,
                   sw_token_hex = ''0x'' @ bytes_hex token\<rparr>))))))))"

end
