(* ===== verification/Auth_Routes.thy ===== *)
theory Auth_Routes
  imports Auth_Flow
begin

text \<open>
  The HTTP handlers that issue and take credentials: \<^verbatim>\<open>src/api/auth_routes.py\<close> (authorization codes)
  and the authentication part of \<^verbatim>\<open>src/api/routes.py\<close> (nonces, login, JWT refresh and logout,
  private-read tokens, who is calling). A raised \<open>HTTPException\<close> is \<open>HttpError\<close> with its status
  and detail; the headers that only switch off caching are left out.
\<close>

section \<open>Rate limits and origins\<close>

definition rate_limit_retry_after ::
    "'w flow_env \<Rightarrow> http_request \<Rightarrow> string \<Rightarrow> int \<Rightarrow> ('w auth, int option) py" where
  "rate_limit_retry_after env request bucket limit =
     hit (stores env) bucket (request_identity (as_trust_x_forwarded_for (fe_settings env)) request) limit
       (as_auth_rate_limit_window_seconds (fe_settings env))"

definition enforce_auth_rate_limit ::
    "'w flow_env \<Rightarrow> http_request \<Rightarrow> string \<Rightarrow> int \<Rightarrow> ('w auth, unit) py" where
  "enforce_auth_rate_limit env request bucket limit =
     py_bind (rate_limit_retry_after env request bucket limit) (\<lambda>retry_after.
     case retry_after of
       None \<Rightarrow> py_ret ()
     | Some n \<Rightarrow> py_raise (HttpError 429 ''Too many authentication requests. Please retry later.''))"

definition TRANSFER_RATE_LIMITS :: "(int \<times> int) list" where
  "TRANSFER_RATE_LIMITS = [(10, 60), (100, 86400)]"

definition transfer_bucket :: "int \<Rightarrow> int \<Rightarrow> string" where
  "transfer_bucket limit window_seconds = ''transfer_'' @ int_text limit @ ''_'' @ int_text window_seconds @ ''s''"

definition transfer_rate_limit_caller :: "'w flow_env \<Rightarrow> string \<Rightarrow> ('w auth, unit) py" where
  "transfer_rate_limit_caller env caller =
     py_bind (py_lift (je_checksum (fe_jwt env) caller)) (\<lambda>caller.
     if caller \<in> set (as_rate_limit_exempt (fe_settings env)) then py_ret ()
     else
       py_for TRANSFER_RATE_LIMITS (\<lambda>(limit, window_seconds).
         py_bind (hit (stores env) (transfer_bucket limit window_seconds) (ascii_lower caller) limit window_seconds)
           (\<lambda>retry_after. case retry_after of
              None \<Rightarrow> py_ret ()
            | Some n \<Rightarrow> py_raise (HttpError 429 ''Too many transfer requests. Please retry later.''))))"

definition enforce_onramp_user_rate_limit ::
    "'w flow_env \<Rightarrow> string \<Rightarrow> string \<Rightarrow> int \<Rightarrow> ('w auth, unit) py" where
  "enforce_onramp_user_rate_limit env user_address bucket limit =
     py_bind (py_lift (je_checksum (fe_jwt env) user_address)) (\<lambda>a.
     py_bind (hit (stores env) bucket (ascii_lower a) limit (as_auth_rate_limit_window_seconds (fe_settings env)))
       (\<lambda>retry_after. case retry_after of
          None \<Rightarrow> py_ret ()
        | Some n \<Rightarrow> py_raise (HttpError 429 ''Too many on-ramp requests. Please retry later.'')))"

definition browser_origin :: "'w flow_env \<Rightarrow> http_request \<Rightarrow> string \<Rightarrow> ('w auth, unit) py" where
  "browser_origin env request detail =
     py_bind (py_lift (case siwe_configs env of
         Inl e \<Rightarrow> Inl (if is_value_error e then HttpError 500 (str_exn e) else e) | Inr cs \<Rightarrow> Inr cs)) (\<lambda>configs.
     py_bind (py_lift (enforce_expected_origin request (map sc_origin configs) detail True)) (\<lambda>u. py_ret ()))"

definition enforce_browser_auth_origin :: "'w flow_env \<Rightarrow> http_request \<Rightarrow> ('w auth, unit) py" where
  "enforce_browser_auth_origin env request =
     browser_origin env request ''Browser SIWE requests must originate from a configured auth origin''"

definition siwe_as_http :: "('w auth, 'a) py \<Rightarrow> ('w auth, 'a) py" where
  "siwe_as_http m = py_try m (\<lambda>e. case e of SiweAuth detail status \<Rightarrow> py_raise (HttpError status detail) | _ \<Rightarrow> py_raise e)"

section \<open>Authorization codes\<close>

record authorize_code_request =
  aq_siwe_message :: string
  aq_signature :: string
  aq_client_id :: string
  aq_redirect_uri :: string
  aq_code_challenge :: string
  aq_code_challenge_method :: string

definition authorize_code :: "'w flow_env \<Rightarrow> authorize_code_request \<Rightarrow> http_request \<Rightarrow> ('w auth, string) py" where
  "authorize_code env payload request =
     py_then (browser_origin env request
       ''Browser authorization requests must originate from a configured auth origin'')
     (py_bind (rate_limit_retry_after env request ''auth_authorize'' (as_auth_authorize_rate_limit (fe_settings env)))
       (\<lambda>retry_after.
     if retry_after \<noteq> None
     then py_raise (HttpError 429 ''Too many authorization attempts. Please retry later.'')
     else if get_client (fe_clients env) (aq_client_id payload) = None
     then py_raise (HttpError 400 ''unknown_client'')
     else if \<not> validate_redirect_uri (fe_clients env) (aq_client_id payload) (aq_redirect_uri payload)
     then py_raise (HttpError 400 ''invalid_redirect_uri'')
     else if aq_code_challenge_method payload \<noteq> ''S256''
     then py_raise (HttpError 400 ''invalid_code_challenge_method'')
     else
       py_bind (siwe_as_http (authenticate_siwe_message env (aq_siwe_message payload) (aq_signature payload)))
         (\<lambda>auth_result.
       py_bind (py_lift (normalize_redirect_uri (aq_redirect_uri payload))) (\<lambda>normalized_redirect_uri.
       create_code (stores env)
         \<lparr>co_user_address = sw_address auth_result, co_client_id = aq_client_id payload,
          co_redirect_uri = normalized_redirect_uri, co_code_challenge = aq_code_challenge payload,
          co_code_challenge_method = aq_code_challenge_method payload\<rparr>))))"

record token_exchange_request =
  tq_grant_type :: string
  tq_code :: string
  tq_code_verifier :: string
  tq_client_id :: string
  tq_redirect_uri :: string

record token_grant =
  tg_access_token :: string
  tg_id_token :: string
  tg_refresh_token :: string
  tg_expires_in :: int
  tg_refresh_expires_in :: int
  tg_address :: string

text \<open>The response: credentials, or a status with an OAuth error code; both with the allowed origin.\<close>

datatype token_response =
    Granted token_grant "string option"
  | AuthError int string "string option" "int option"

definition issue_tokens :: "'w flow_env \<Rightarrow> string \<Rightarrow> string \<Rightarrow> ('w auth, token_grant) py" where
  "issue_tokens env user_address audience =
     py_bind (create_token (fe_jwt env) user_address) (\<lambda>access_token.
     py_bind (create_id_token (fe_jwt env) user_address audience) (\<lambda>id_token.
     py_bind (create_refresh_token (fe_jwt env) user_address) (\<lambda>refresh_token.
     py_ret \<lparr>tg_access_token = access_token, tg_id_token = id_token, tg_refresh_token = refresh_token,
             tg_expires_in = access_token_expiry_seconds (fe_jwt env),
             tg_refresh_expires_in = refresh_token_expiry_seconds (fe_jwt env),
             tg_address = user_address\<rparr>)))"

text \<open>What an authorization code is exchanged for once request and client have been checked.\<close>

definition redeem_code ::
    "'w flow_env \<Rightarrow> token_exchange_request \<Rightarrow> auth_client \<Rightarrow> string \<Rightarrow> string option \<Rightarrow> ('w auth, token_response) py" where
  "redeem_code env payload client normalized_redirect_uri origin =
     py_bind (get_code (stores env) (tq_code payload)) (\<lambda>code_record.
     case code_record of
       None \<Rightarrow> py_ret (AuthError 400 ''invalid_grant'' None None)
     | Some rec \<Rightarrow>
         if co_client_id rec \<noteq> tq_client_id payload then py_ret (AuthError 400 ''invalid_client'' None None)
         else if co_redirect_uri rec \<noteq> normalized_redirect_uri
         then py_ret (AuthError 400 ''invalid_redirect_uri'' origin None)
         else
           case verify_pkce (fe_sha256 env) (tq_code_verifier payload) (co_code_challenge rec)
                  (co_code_challenge_method rec) of
             Inl e \<Rightarrow> if is_value_error e then py_ret (AuthError 400 ''invalid_grant'' origin None) else py_raise e
           | Inr pkce_ok \<Rightarrow>
               if \<not> pkce_ok then py_ret (AuthError 400 ''invalid_grant'' origin None)
               else
                 py_bind (consume_code (stores env) (tq_code payload)) (\<lambda>consumed.
                 if consumed = None then py_ret (AuthError 400 ''invalid_grant'' origin None)
                 else
                   py_bind (issue_tokens env (co_user_address rec) (ac_audience client)) (\<lambda>grant.
                   py_ret (Granted grant origin))))"

definition exchange_code ::
    "'w flow_env \<Rightarrow> token_exchange_request \<Rightarrow> http_request \<Rightarrow> ('w auth, token_response) py" where
  "exchange_code env payload request =
     (case get_client (fe_clients env) (tq_client_id payload) of
        None \<Rightarrow> py_ret (AuthError 400 ''invalid_client'' None None)
      | Some client \<Rightarrow>
          if tq_grant_type payload \<noteq> ''authorization_code''
          then py_ret (AuthError 400 ''unsupported_grant_type'' None None)
          else if \<not> validate_redirect_uri (fe_clients env) (tq_client_id payload) (tq_redirect_uri payload)
          then py_ret (AuthError 400 ''invalid_redirect_uri'' None None)
          else
            py_bind (py_lift (normalize_redirect_uri (tq_redirect_uri payload))) (\<lambda>normalized_redirect_uri.
            py_bind (py_lift (redirect_origin normalized_redirect_uri)) (\<lambda>expected_origin.
            let request_origin_value = request_origin request;
                origin = (if request_origin_value = Some expected_origin then request_origin_value else None)
            in
            if request_origin_value \<noteq> None \<and> request_origin_value \<noteq> Some expected_origin
            then py_ret (AuthError 400 ''invalid_origin'' None None)
            else
              py_bind (rate_limit_retry_after env request ''auth_token_exchange''
                  (as_auth_token_rate_limit (fe_settings env))) (\<lambda>retry_after.
              if retry_after \<noteq> None then py_ret (AuthError 429 ''rate_limited'' origin retry_after)
              else redeem_code env payload client normalized_redirect_uri origin))))"

section \<open>Nonces and login\<close>

record nonce_response =
  nr_address :: string
  nr_nonce :: string
  nr_expires_in :: int

definition get_siwe_nonce :: "'w flow_env \<Rightarrow> string \<Rightarrow> http_request \<Rightarrow> ('w auth, nonce_response) py" where
  "get_siwe_nonce env address request =
     py_then (enforce_browser_auth_origin env request)
     (py_then (enforce_auth_rate_limit env request ''siwe_nonce'' (as_auth_nonce_rate_limit (fe_settings env)))
     (py_bind (py_lift (case je_checksum (fe_jwt env) address of
         Inl e \<Rightarrow> Inl (if is_exception e then HttpError 400 ''Invalid Ethereum address'' else e)
       | Inr a \<Rightarrow> Inr a)) (\<lambda>client_id.
     py_bind (generate_nonce (stores env) (Some client_id)) (\<lambda>nonce.
     py_ret \<lparr>nr_address = client_id, nr_nonce = nonce,
             nr_expires_in = se_nonce_expiry_seconds (stores env)\<rparr>))))"

record login_response =
  lr_siwe_token :: string
  lr_jwt_access_token :: string
  lr_jwt_refresh_token :: string
  lr_address :: string
  lr_jwt_expires_in :: int
  lr_jwt_refresh_expires_in :: int

definition siwe_login :: "'w flow_env \<Rightarrow> string \<Rightarrow> string \<Rightarrow> http_request \<Rightarrow> ('w auth, login_response) py" where
  "siwe_login env siwe_message signature request =
     py_then (enforce_browser_auth_origin env request)
     (py_then (enforce_auth_rate_limit env request ''siwe_login'' (as_auth_login_rate_limit (fe_settings env)))
     (py_bind (siwe_as_http (authenticate_siwe_message env siwe_message signature)) (\<lambda>auth_result.
      py_bind (create_token (fe_jwt env) (sw_address auth_result)) (\<lambda>access_token.
      py_bind (create_refresh_token (fe_jwt env) (sw_address auth_result)) (\<lambda>refresh_token.
      py_ret \<lparr>lr_siwe_token = sw_token_hex auth_result, lr_jwt_access_token = access_token,
              lr_jwt_refresh_token = refresh_token, lr_address = sw_address auth_result,
              lr_jwt_expires_in = access_token_expiry_seconds (fe_jwt env),
              lr_jwt_refresh_expires_in = refresh_token_expiry_seconds (fe_jwt env)\<rparr>)))))"

definition get_siwe_domain :: "'w flow_env \<Rightarrow> exn + string list" where
  "get_siwe_domain env =
     (case siwe_configs env of
        Inl e \<Rightarrow> Inl (if is_value_error e then HttpError 500 (str_exn e) else e)
      | Inr configs \<Rightarrow> Inr (map sc_domain configs))"

section \<open>Refresh and logout\<close>

record refresh_response =
  rr_token :: string
  rr_refresh_token :: string
  rr_expires_in :: int
  rr_refresh_expires_in :: int

definition refresh :: "'w flow_env \<Rightarrow> string \<Rightarrow> ('w auth, refresh_response) py" where
  "refresh env refresh_token =
     py_catch
       (py_bind (refresh_tokens (fe_jwt env) refresh_token) (\<lambda>(new_access_token, new_refresh_token).
        py_ret \<lparr>rr_token = new_access_token, rr_refresh_token = new_refresh_token,
                rr_expires_in = access_token_expiry_seconds (fe_jwt env),
                rr_refresh_expires_in = refresh_token_expiry_seconds (fe_jwt env)\<rparr>))
       (\<lambda>e. if is_value_error e \<or> is_jwt_error e then py_raise (HttpError 401 (str_exn e))
             else py_raise (HttpError 500 ''Token refresh failed''))"

record logout_request =
  lo_refresh_token :: "string option"
  lo_revoke_all :: bool

text \<open>The number of revoked tokens of the answer. Only a \<open>ValueError\<close> is caught.\<close>

definition logout :: "'w flow_env \<Rightarrow> logout_request option \<Rightarrow> string option \<Rightarrow> ('w auth, int) py" where
  "logout env payload credentials =
     py_bind (get_current_user (fe_jwt env) credentials) (\<lambda>current_user.
     case payload of
       None \<Rightarrow> py_ret 0
     | Some p \<Rightarrow>
         if lo_revoke_all p then revoke_all_refresh_tokens (fe_jwt env) current_user
         else if given (lo_refresh_token p) then
           py_try
             (py_bind (verify_refresh_token (fe_jwt env) (the (lo_refresh_token p))) (\<lambda>token_address.
              if ascii_lower token_address \<noteq> ascii_lower current_user
              then py_raise (HttpError 403 ''Cannot revoke refresh token belonging to another user'')
              else
                py_bind (revoke_refresh_token (fe_jwt env) (the (lo_refresh_token p))) (\<lambda>revoked.
                py_ret (if revoked then 1 else 0))))
             (\<lambda>e. if is_value_error e then py_ret 0 else py_raise e)
         else py_ret 0)"

definition get_me :: "'w flow_env \<Rightarrow> string option \<Rightarrow> ('w auth, string) py" where
  "get_me env credentials = get_current_user (fe_jwt env) credentials"

section \<open>Private-read tokens\<close>

definition mint_private_read_token :: "'w flow_env \<Rightarrow> string \<Rightarrow> int option \<Rightarrow> ('w auth, bytes) py" where
  "mint_private_read_token env user_address valid_until =
     py_bind (py_lift (case get_siwe_config (as_environment (fe_settings env)) (as_siwe_domains (fe_settings env)) of
         Inl e \<Rightarrow> Inl (if is_value_error e then HttpError 500 (str_exn e) else e) | Inr c \<Rightarrow> Inr c)) (\<lambda>cfg.
     py_bind (case valid_until of
         Some v \<Rightarrow> py_ret v
       | None \<Rightarrow> py_bind (time_time (stores env)) (\<lambda>now.
           py_ret (now div SECOND + as_auth_token_validity_seconds (fe_settings env)))) (\<lambda>valid_until.
     py_lift (create_and_encrypt (fe_mint env) (sc_domain cfg) user_address valid_until [] [])))"

record jwt_siwe_token =
  js_siwe_token :: string
  js_address :: string
  js_expires_in :: int

definition exchange_jwt_for_siwe_token :: "'w flow_env \<Rightarrow> current_access_token \<Rightarrow> ('w auth, jwt_siwe_token) py" where
  "exchange_jwt_for_siwe_token env access_token =
     py_bind (time_time (stores env)) (\<lambda>time.
     let now = time div SECOND;
         expires_in = min (as_auth_token_validity_seconds (fe_settings env)) (ct_expires_at access_token - now)
     in if expires_in \<le> 0 then py_raise (HttpError 401 ''Token has expired'')
        else
          py_bind (mint_private_read_token env (ct_address access_token) (Some (now + expires_in))) (\<lambda>siwe_token.
          py_ret \<lparr>js_siwe_token = ''0x'' @ bytes_hex siwe_token, js_address = ct_address access_token,
                  js_expires_in = expires_in\<rparr>))"

text \<open>\<open>HexBytes(token)\<close> is the argument \<open>hexbytes\<close>.\<close>

definition authenticate_caller ::
    "'w flow_env \<Rightarrow> (string \<Rightarrow> exn + bytes) \<Rightarrow> string option \<Rightarrow> string option \<Rightarrow> string option \<Rightarrow> bool
     \<Rightarrow> ('w auth, bytes option \<times> string) py" where
  "authenticate_caller env hexbytes current_user authorization token validate_expiry =
     (if given authorization \<and> given token
      then py_raise (HttpError 400 ''Provide either Authorization bearer token or X-SIWE-Token, not both'')
      else if given current_user then py_ret (None, the current_user)
      else if given authorization then py_raise (HttpError 401 ''Invalid or expired bearer token'')
      else if \<not> given token then py_raise (HttpError 401 ''Missing Authorization bearer token or X-SIWE-Token header'')
      else
        py_bind (py_lift (case hexbytes (the token) of
            Inl e \<Rightarrow> Inl (if is_exception e then HttpError 400 ''Invalid X-SIWE-Token header'' else e)
          | Inr b \<Rightarrow> Inr b)) (\<lambda>raw.
        py_bind (time_time (stores env)) (\<lambda>now.
        py_bind (py_lift (case decode_auth_token (fe_mint env) raw validate_expiry now of
            Inl e \<Rightarrow> Inl (if is_value_error e then HttpError 401 ''Invalid or expired SIWE token'' else e)
          | Inr t \<Rightarrow> Inr t)) (\<lambda>auth_token.
        py_ret (Some raw, at_user_addr auth_token)))))"

text \<open>A private-read authentication is the token bytes with the address they speak for.\<close>

definition require_private_read_auth ::
    "'w flow_env \<Rightarrow> (string \<Rightarrow> exn + bytes) \<Rightarrow> string option \<Rightarrow> string option \<Rightarrow> string option
     \<Rightarrow> ('w auth, bytes \<times> string) py" where
  "require_private_read_auth env hexbytes current_user authorization token =
     py_bind (authenticate_caller env hexbytes current_user authorization token False) (\<lambda>(raw, user_address).
     case raw of
       None \<Rightarrow> py_bind (mint_private_read_token env user_address None) (\<lambda>t. py_ret (t, user_address))
     | Some r \<Rightarrow> py_ret (r, user_address))"

definition require_caller ::
    "'w flow_env \<Rightarrow> (string \<Rightarrow> exn + bytes) \<Rightarrow> string option \<Rightarrow> string option \<Rightarrow> string option
     \<Rightarrow> ('w auth, string) py" where
  "require_caller env hexbytes current_user authorization token =
     py_bind (authenticate_caller env hexbytes current_user authorization token True) (\<lambda>(raw, user_address).
     py_ret user_address)"

definition ZERO_ADDRESS :: string where
  "ZERO_ADDRESS = ''0x0000000000000000000000000000000000000000''"

text \<open>
  \<open>resolve\<close> is \<open>AccountingContractService.resolve_address_from_token\<close>, which asks the contract;
  \<open>is_address\<close> is \<open>Web3.is_address\<close>.
\<close>

definition require_resolved_private_read_auth ::
    "'w flow_env \<Rightarrow> (string \<Rightarrow> exn + bytes) \<Rightarrow> (string \<Rightarrow> bool) \<Rightarrow> (bytes \<Rightarrow> 'w \<Rightarrow> (exn + string) \<times> 'w)
     \<Rightarrow> string option \<Rightarrow> string option \<Rightarrow> ('w auth, bytes \<times> string) py" where
  "require_resolved_private_read_auth env hexbytes is_address resolve current_user token =
     (if given current_user then
        py_bind (mint_private_read_token env (the current_user) None) (\<lambda>t. py_ret (t, the current_user))
      else if \<not> given token then py_raise (HttpError 401 ''Missing Authorization bearer token or X-SIWE-Token header'')
      else
        py_bind (py_lift (case hexbytes (the token) of
            Inl e \<Rightarrow> Inl (if is_exception e then HttpError 400 ''Invalid X-SIWE-Token header'' else e)
          | Inr b \<Rightarrow> Inr b)) (\<lambda>raw.
        if raw = [] then py_raise (HttpError 401 ''Invalid or expired SIWE token'')
        else
          py_bind (py_catch (outside (resolve raw)) (\<lambda>e. py_raise (HttpError 401 ''Invalid or expired SIWE token''))) (\<lambda>address.
          if \<not> is_address address then py_raise (HttpError 401 ''Invalid or expired SIWE token'')
          else
            py_bind (py_lift (je_checksum (fe_jwt env) address)) (\<lambda>a.
            if a = ZERO_ADDRESS then py_raise (HttpError 401 ''Invalid or expired SIWE token'')
            else py_ret (raw, address)))))"

end
