(* ===== verification/Onramp_Intent.thy ===== *)
theory Onramp_Intent
  imports Json_Text Base64_Text
begin

text \<open>
  \<^verbatim>\<open>src/services/onramp_intent.py\<close>: the signed intent that binds a provider's order to a
  deposit. A payload is a Python dict (\<open>payload\<close>); a token is the prefix, the payload's canonical
  JSON and its HMAC-SHA256, both in unpadded URL-safe base64. SHA-256, web3's address functions
  and the ROFL daemon's key derivation are parameters.
\<close>

section \<open>Parameters\<close>

record intent_env =
  ie_unicode :: unicode
  ie_is_address :: "string \<Rightarrow> bool"
  ie_checksum :: "string \<Rightarrow> exn + string"
  ie_sha256 :: "bytes \<Rightarrow> bytes"

record intent_settings =
  is_signing_key_id :: string
  is_previous_key_ids :: "string list"
  is_provider :: "string option"

text \<open>\<open>str.encode()\<close> of a text of Latin-1 characters, and \<open>hmac.new(key, message, sha256).digest()\<close>.\<close>

definition utf8_char :: "char \<Rightarrow> bytes" where
  "utf8_char c =
     (let n = (of_char c :: nat) in
      if n < 128 then [word_of_nat n] else [word_of_nat (192 + n div 64), word_of_nat (128 + n mod 64)])"

definition utf8 :: "string \<Rightarrow> bytes" where
  "utf8 s = concat (map utf8_char s)"

definition key_pad :: "u8 \<Rightarrow> bytes \<Rightarrow> bytes" where
  "key_pad p key = map (\<lambda>b. Bit_Operations.xor b p) (key @ replicate (64 - length key) 0)"

definition hmac_digest :: "(bytes \<Rightarrow> bytes) \<Rightarrow> bytes \<Rightarrow> bytes \<Rightarrow> bytes" where
  "hmac_digest sha key message =
     (let k = (if length key > 64 then sha key else key) in
      sha (key_pad 0x5c k @ sha (key_pad 0x36 k @ message)))"

definition refused :: "string \<Rightarrow> exn + 'a" where
  "refused m = Inl (OnRampError Refused m)"

definition unconfigured :: "string \<Rightarrow> exn + 'a" where
  "unconfigured m = Inl (OnRampError Unconfigured m)"

definition INTENT_PREFIX :: string where "INTENT_PREFIX = ''privana_''"
definition INTENT_MAX_LENGTH :: nat where "INTENT_MAX_LENGTH = 512"
definition INTENT_TTL_SECONDS :: int where "INTENT_TTL_SECONDS = 24 * 60 * 60"
definition INTENT_MAX_ASSET_BYTES :: nat where "INTENT_MAX_ASSET_BYTES = 32"
definition INTENT_VERSION :: int where "INTENT_VERSION = 1"

definition PROVIDERS :: "string list" where
  "PROVIDERS = [''moonpay'', ''transak'']"

section \<open>Keys\<close>

record key_manager =
  km_current :: "bytes option"
  km_keys :: "bytes list"

definition configured_key_ids :: "intent_settings \<Rightarrow> exn + string list" where
  "configured_key_ids st =
     (let current = is_signing_key_id st in
      if current = [] \<or> current \<noteq> py_strip current
      then Inl (OtherError ''RuntimeError: On-ramp intent signing key ID is invalid'')
      else Inr (map fst (dict_of (map (\<lambda>k. (k, ())) (current # is_previous_key_ids st)))))"

definition derive_local_key :: "intent_env \<Rightarrow> string \<Rightarrow> bytes" where
  "derive_local_key env key_id = ie_sha256 env (utf8 (''privana:onramp:intent:local:'' @ key_id))"

definition raw_256_hex :: "string \<Rightarrow> bool" where
  "raw_256_hex s \<longleftrightarrow> length s = 64 \<and> (\<forall>c \<in> set s. hex_value c \<noteq> None)"

text \<open>\<open>generate_key\<close> is the daemon: a text, something else (\<open>None\<close>) or an error.\<close>

definition derive_rofl_key :: "(string \<Rightarrow> exn + string option) \<Rightarrow> string \<Rightarrow> exn + bytes" where
  "derive_rofl_key generate_key key_id =
     sum_bind (generate_key key_id) (\<lambda>key_hex.
       case key_hex of
         None \<Rightarrow> Inl (ValueError ''ROFL returned an invalid on-ramp intent key'')
       | Some h \<Rightarrow>
           if raw_256_hex h then bytes_fromhex h
           else Inl (ValueError ''ROFL returned an invalid on-ramp intent key''))"

definition initialize_keys ::
    "intent_env \<Rightarrow> intent_settings \<Rightarrow> (string \<Rightarrow> exn + string option) \<Rightarrow> bool \<Rightarrow> (key_manager, unit) py" where
  "initialize_keys env st generate_key use_rofl =
     py_bind py_get (\<lambda>m.
       if km_current m \<noteq> None then py_ret ()
       else
         py_bind (py_lift (configured_key_ids st)) (\<lambda>key_ids.
         py_bind
           (py_catch
             (py_lift (if use_rofl then sum_list_map (derive_rofl_key generate_key) key_ids
                       else Inr (map (derive_local_key env) key_ids)))
             (\<lambda>e. py_raise (OtherError ''RuntimeError: Failed to derive on-ramp intent signing keys'')))
           (\<lambda>keys. py_modify (\<lambda>m. m\<lparr>km_current := Some (hd keys), km_keys := keys\<rparr>))))"

definition key_ring :: "key_manager \<Rightarrow> exn + bytes \<times> bytes list" where
  "key_ring m =
     (case km_current m of
        None \<Rightarrow> unconfigured ''On-ramp intents are not configured''
      | Some k \<Rightarrow> if km_keys m = [] then unconfigured ''On-ramp intents are not configured'' else Inr (k, km_keys m))"

definition intent_signature :: "intent_env \<Rightarrow> string \<Rightarrow> bytes \<Rightarrow> bytes" where
  "intent_signature env payload_b64 key =
     hmac_digest (ie_sha256 env) key (utf8 (''privana:onramp:intent:v1:'' @ payload_b64))"

section \<open>Payloads\<close>

type_synonym payload = "(ustr \<times> jvalue) list"

text \<open>\<open>payload[k]\<close>, read only where the key is known to be there.\<close>

definition field :: "payload \<Rightarrow> string \<Rightarrow> jvalue" where
  "field d k = (case map_of d (unicode_of k) of None \<Rightarrow> VNull | Some v \<Rightarrow> v)"

definition PAYLOAD_FIELDS :: "string list" where
  "PAYLOAD_FIELDS = [''v'', ''p'', ''u'', ''w'', ''t'', ''c'', ''a'', ''iat'', ''exp'', ''n'']"

definition address_payload :: "intent_env \<Rightarrow> string \<Rightarrow> exn + ustr" where
  "address_payload env v =
     (if \<not> ie_is_address env v then refused ''Invalid address''
      else sum_bind (ie_checksum env v) (\<lambda>c. Inr (unicode_of (ascii_lower (removeprefix ''0x'' c)))))"

definition hex_payload :: "unicode \<Rightarrow> jvalue \<Rightarrow> nat \<Rightarrow> exn + ustr" where
  "hex_payload un v byte_length =
     (case v of
        VText t \<Rightarrow>
          let stripped = drop_prefix (unicode_of ''0x'') (text_lower un t) in
          if length stripped \<noteq> byte_length * 2 then refused ''Invalid hex''
          else if \<not> ascii stripped then refused ''Invalid hex''
          else (case bytes_fromhex (ascii_text stripped) of
                  Inl e \<Rightarrow> refused ''Invalid hex'' | Inr bs \<Rightarrow> Inr stripped)
      | _ \<Rightarrow> refused ''Invalid hex'')"

definition uint32 :: "jvalue \<Rightarrow> exn + int" where
  "uint32 v =
     (case v of
        VInt i \<Rightarrow> if i < 0 \<or> i > 0xFFFFFFFF then refused ''Invalid number'' else Inr i
      | _ \<Rightarrow> refused ''Invalid number'')"

definition asset_char :: "nat \<Rightarrow> bool" where
  "asset_char c \<longleftrightarrow> digit_code c \<or> (97 \<le> c \<and> c \<le> 122)"

definition asset_pattern :: "ustr \<Rightarrow> bool" where
  "asset_pattern code \<longleftrightarrow>
     (case code of
        [] \<Rightarrow> False
      | c # cs \<Rightarrow>
          asset_char c \<and> length cs \<le> 31
          \<and> (\<forall>d \<in> set cs. asset_char d \<or> d \<in> set (unicode_of ''._:-'')))"

definition asset_code_or_error :: "unicode \<Rightarrow> jvalue \<Rightarrow> exn + ustr" where
  "asset_code_or_error un v =
     (case v of
        VText t \<Rightarrow>
          let code = text_lower un (text_strip un t) in
          if code = [] \<or> \<not> ascii code then refused ''Invalid on-ramp asset code''
          else if length code > INTENT_MAX_ASSET_BYTES then refused ''On-ramp asset code is too large''
          else if \<not> asset_pattern code then refused ''Invalid on-ramp asset code''
          else Inr code
      | _ \<Rightarrow> refused ''Invalid on-ramp asset code'')"

text \<open>\<open>payload[k] != _hex_payload(payload[k])\<close>.\<close>

definition require_hex_field :: "unicode \<Rightarrow> payload \<Rightarrow> string \<Rightarrow> nat \<Rightarrow> exn + unit" where
  "require_hex_field un d k n =
     sum_bind (hex_payload un (field d k) n) (\<lambda>h.
       if field d k \<noteq> VText h then refused ''Invalid field'' else Inr ())"

definition validate :: "unicode \<Rightarrow> payload \<Rightarrow> exn + unit" where
  "validate un d =
     (if set (map fst d) \<noteq> set (map unicode_of PAYLOAD_FIELDS) then refused ''On-ramp intent payload is malformed''
      else if field d ''v'' \<noteq> VInt INTENT_VERSION then refused ''On-ramp intent version is unsupported''
      else if field d ''p'' \<notin> set (map (VText \<circ> unicode_of) PROVIDERS) then refused ''Unsupported on-ramp provider''
      else
        sum_bind (require_hex_field un d ''u'' 20) (\<lambda>_.
        sum_bind (require_hex_field un d ''w'' 20) (\<lambda>_.
        sum_bind (require_hex_field un d ''t'' 32) (\<lambda>_.
        sum_bind (require_hex_field un d ''n'' 8) (\<lambda>_.
        sum_bind (uint32 (field d ''c'')) (\<lambda>_.
        sum_bind (uint32 (field d ''iat'')) (\<lambda>issued_at.
        sum_bind (uint32 (field d ''exp'')) (\<lambda>expires_at.
        if expires_at < issued_at then refused ''On-ramp intent expires before it is issued''
        else
          sum_bind (asset_code_or_error un (field d ''a'')) (\<lambda>code.
          if field d ''a'' \<noteq> VText code then refused ''Invalid on-ramp asset code'' else Inr ())))))))))"

definition json_payload :: "unicode \<Rightarrow> payload \<Rightarrow> exn + bytes" where
  "json_payload un d =
     (case json_dumps un (VDict d) of
        Inl e \<Rightarrow> if is_value_error e then refused ''On-ramp intent payload is malformed'' else Inl e
      | Inr s \<Rightarrow> Inr (map of_char s))"

definition decode_payload :: "unicode \<Rightarrow> bytes \<Rightarrow> exn + payload" where
  "decode_payload un bs =
     (case json_loads un bs of
        Some (VDict d) \<Rightarrow> Inr d
      | _ \<Rightarrow> refused ''On-ramp intent payload is malformed'')"

section \<open>Tokens\<close>

definition encode_intent :: "intent_env \<Rightarrow> key_manager \<Rightarrow> payload \<Rightarrow> exn + string" where
  "encode_intent env m d =
     sum_bind (validate (ie_unicode env) d) (\<lambda>_.
     sum_bind (json_payload (ie_unicode env) d) (\<lambda>bs.
     let payload_b64 = urlsafe_b64 bs in
     sum_bind (key_ring m) (\<lambda>(current, keys).
     let signature_b64 = urlsafe_b64 (intent_signature env payload_b64 current);
         token = INTENT_PREFIX @ payload_b64 @ ''.'' @ signature_b64 in
     if length token > INTENT_MAX_LENGTH then refused ''On-ramp intent is too large'' else Inr token)))"

definition create_intent ::
    "intent_env \<Rightarrow> key_manager \<Rightarrow> int \<Rightarrow> bytes \<Rightarrow> string \<Rightarrow> string \<Rightarrow> string \<Rightarrow> string \<Rightarrow> int \<Rightarrow> string
     \<Rightarrow> exn + string \<times> payload" where
  "create_intent env m now nonce provider user_address wallet_address token_id chain_id asset_code =
     (if provider \<notin> set PROVIDERS then refused ''Unsupported on-ramp provider''
      else
        sum_bind (address_payload env user_address) (\<lambda>u.
        sum_bind (address_payload env wallet_address) (\<lambda>w.
        sum_bind (hex_payload (ie_unicode env) (VText (unicode_of token_id)) 32) (\<lambda>t.
        sum_bind (uint32 (VInt chain_id)) (\<lambda>c.
        sum_bind (asset_code_or_error (ie_unicode env) (VText (unicode_of asset_code))) (\<lambda>a.
        sum_bind (uint32 (VInt now)) (\<lambda>iat.
        sum_bind (uint32 (VInt (now + INTENT_TTL_SECONDS))) (\<lambda>expires.
        let d =
          [(unicode_of ''v'', VInt INTENT_VERSION), (unicode_of ''p'', VText (unicode_of provider)),
           (unicode_of ''u'', VText u), (unicode_of ''w'', VText w), (unicode_of ''t'', VText t),
           (unicode_of ''c'', VInt c), (unicode_of ''a'', VText a), (unicode_of ''iat'', VInt iat),
           (unicode_of ''exp'', VInt expires), (unicode_of ''n'', VText (unicode_of (bytes_hex nonce)))] in
        sum_bind (encode_intent env m d) (\<lambda>token. Inr (token, d))))))))))"

definition int_field :: "payload \<Rightarrow> string \<Rightarrow> int" where
  "int_field d k = (case field d k of VInt i \<Rightarrow> i | _ \<Rightarrow> 0)"

definition decode_intent :: "intent_env \<Rightarrow> key_manager \<Rightarrow> int \<Rightarrow> string \<Rightarrow> bool \<Rightarrow> exn + payload" where
  "decode_intent env m now token allow_expired =
     (if take (length INTENT_PREFIX) token \<noteq> INTENT_PREFIX then refused ''On-ramp intent is not a Privana intent''
      else if length token > INTENT_MAX_LENGTH then refused ''On-ramp intent is too large''
      else
        let body = removeprefix INTENT_PREFIX token;
            payload_b64 = takeWhile (\<lambda>c. c \<noteq> CHR ''.'') body;
            signature_b64 = tl (dropWhile (\<lambda>c. c \<noteq> CHR ''.'') body) in
        if length (filter (\<lambda>c. c = CHR ''.'') body) \<noteq> 1 then refused ''On-ramp intent is malformed''
        else if payload_b64 = [] \<or> signature_b64 = [] then refused ''On-ramp intent is malformed''
        else
          case b64url_decode payload_b64 of
            Inl e \<Rightarrow> refused ''On-ramp intent payload is malformed''
          | Inr payload_bytes \<Rightarrow>
              (case b64url_decode signature_b64 of
                 Inl e \<Rightarrow> refused ''On-ramp intent signature is malformed''
               | Inr provided_signature \<Rightarrow>
                   if payload_bytes = [] then refused ''On-ramp intent payload is malformed''
                   else if length provided_signature \<noteq> 32 then refused ''On-ramp intent signature is malformed''
                   else
                     sum_bind (key_ring m) (\<lambda>(current, keys).
                     if \<not> list_ex (\<lambda>key. intent_signature env payload_b64 key = provided_signature) keys
                     then refused ''On-ramp intent signature mismatch''
                     else
                       sum_bind (decode_payload (ie_unicode env) payload_bytes) (\<lambda>d.
                       sum_bind (validate (ie_unicode env) d) (\<lambda>_.
                       sum_bind (json_payload (ie_unicode env) d) (\<lambda>canonical.
                       if payload_bytes \<noteq> canonical then refused ''On-ramp intent payload is malformed''
                       else if \<not> allow_expired \<and> int_field d ''exp'' < now
                       then refused ''On-ramp intent has expired''
                       else Inr d))))))"

definition configured_provider :: "intent_settings \<Rightarrow> exn + string" where
  "configured_provider st =
     (case is_provider st of
        None \<Rightarrow> unconfigured ''On-ramp provider configuration is invalid''
      | Some p \<Rightarrow>
          if p \<notin> set PROVIDERS then unconfigured ''On-ramp provider configuration is invalid'' else Inr p)"

section \<open>Records\<close>

record onramp_record =
  or_transaction_id :: ustr
  or_provider :: ustr
  or_provider_transaction_id :: "ustr option"
  or_provider_asset_code :: ustr
  or_moonpay_transaction_id :: "ustr option"
  or_status :: string
  or_wallet_address :: string
  or_token_id :: ustr
  or_chain_id :: int
  or_moonpay_currency_code :: "ustr option"
  or_created_at :: int
  or_updated_at :: int
  or_base_currency_code :: "ustr option"
  or_base_currency_amount :: "ustr option"
  or_quote_currency_amount :: "ustr option"
  or_on_chain_tx_hash :: "ustr option"

definition text_field :: "payload \<Rightarrow> string \<Rightarrow> ustr" where
  "text_field d k = (case field d k of VText t \<Rightarrow> t | _ \<Rightarrow> [])"

text \<open>The address of a payload's field, as the code writes it: \<open>"0x" + payload[k]\<close>, checksummed.\<close>

definition address_field :: "intent_env \<Rightarrow> payload \<Rightarrow> string \<Rightarrow> exn + string" where
  "address_field env d k = ie_checksum env (''0x'' @ ascii_text (text_field d k))"

definition record_from_intent :: "intent_env \<Rightarrow> ustr \<Rightarrow> payload \<Rightarrow> exn + onramp_record" where
  "record_from_intent env transaction_id d =
     (let provider = text_field d ''p''; asset_code = text_lower (ie_unicode env) (text_field d ''a'') in
      sum_bind (address_field env d ''w'') (\<lambda>wallet.
      Inr \<lparr>or_transaction_id = transaction_id, or_provider = provider, or_provider_transaction_id = None,
           or_provider_asset_code = asset_code, or_moonpay_transaction_id = None, or_status = ''pending'',
           or_wallet_address = wallet,
           or_token_id = unicode_of ''0x'' @ text_lower (ie_unicode env) (text_field d ''t''),
           or_chain_id = int_field d ''c'',
           or_moonpay_currency_code = (if provider = unicode_of ''moonpay'' then Some asset_code else None),
           or_created_at = int_field d ''iat'', or_updated_at = int_field d ''iat'',
           or_base_currency_code = None, or_base_currency_amount = None,
           or_quote_currency_amount = None, or_on_chain_tx_hash = None\<rparr>))"

end
