(* ===== verification/Onramp_Orders.thy ===== *)
theory Onramp_Orders
  imports Onramp_Intent
begin

text \<open>
  From a provider's orders to the records a caller sees: \<^verbatim>\<open>transak_order_to_onramp_record\<close> and
  \<^verbatim>\<open>pending_records_from_transak_orders\<close> of \<^verbatim>\<open>src/services/transak.py\<close>, their MoonPay counterparts
  in \<^verbatim>\<open>src/services/onramp.py\<close>, and the checks of a caller's intents in \<^verbatim>\<open>src/api/routes.py\<close>. An
  order is a dict of JSON values, of any shape. Floats and \<open>datetime.fromisoformat\<close> are
  parameters.
\<close>

section \<open>Python values\<close>

text \<open>What the code asks of a float; \<open>fi_above\<close> compares it with \<open>_MAX_TIMESTAMP\<close>.\<close>

record float_info =
  fi_text :: ustr
  fi_finite :: bool
  fi_zero :: bool
  fi_negative :: bool
  fi_above :: bool
  fi_trunc :: int

text \<open>
  \<open>oe_iso\<close> is \<open>datetime.fromisoformat(t)\<close>, in UTC where it names no zone, as a timestamp, or
  \<open>None\<close> for the errors the code catches.
\<close>

record order_env =
  oe_intent :: intent_env
  oe_manager :: key_manager
  oe_float :: "ustr \<Rightarrow> float_info"
  oe_repr :: "jvalue \<Rightarrow> ustr"
  oe_iso :: "ustr \<Rightarrow> float_info option"

abbreviation oe_unicode :: "order_env \<Rightarrow> unicode" where
  "oe_unicode env \<equiv> ie_unicode (oe_intent env)"

definition py_str :: "order_env \<Rightarrow> jvalue \<Rightarrow> ustr" where
  "py_str env v =
     (case v of
        VNull \<Rightarrow> unicode_of ''None''
      | VBool b \<Rightarrow> unicode_of (if b then ''True'' else ''False'')
      | VInt i \<Rightarrow> unicode_of (int_text i)
      | VFloat l \<Rightarrow> fi_text (oe_float env l)
      | VText t \<Rightarrow> t
      | _ \<Rightarrow> oe_repr env v)"

definition py_true :: "order_env \<Rightarrow> jvalue \<Rightarrow> bool" where
  "py_true env v =
     (case v of
        VNull \<Rightarrow> False
      | VBool b \<Rightarrow> b
      | VInt i \<Rightarrow> i \<noteq> 0
      | VFloat l \<Rightarrow> \<not> fi_zero (oe_float env l)
      | VText t \<Rightarrow> t \<noteq> []
      | VList vs \<Rightarrow> vs \<noteq> []
      | VDict d \<Rightarrow> d \<noteq> [])"

text \<open>\<open>a or b\<close>, and \<open>str(a or "")\<close>.\<close>

definition py_or :: "order_env \<Rightarrow> jvalue \<Rightarrow> jvalue \<Rightarrow> jvalue" where
  "py_or env a b = (if py_true env a then a else b)"

definition str_or_empty :: "order_env \<Rightarrow> jvalue \<Rightarrow> ustr" where
  "str_or_empty env v = py_str env (py_or env v (VText []))"

text \<open>The length of \<open>t.encode("utf-8")\<close>; a surrogate cannot be encoded.\<close>

fun utf8_size :: "ustr \<Rightarrow> nat option" where
  "utf8_size [] = Some 0"
| "utf8_size (c # t) =
     (if 55296 \<le> c \<and> c \<le> 57343 then None
      else map_option (\<lambda>n. n + (if c < 128 then 1 else if c < 2048 then 2 else if c < 65536 then 3 else 4)) (utf8_size t))"

text \<open>\<open>Web3.is_address\<close> and \<open>to_checksum_address\<close> of a text that may not be ASCII.\<close>

definition text_address :: "order_env \<Rightarrow> ustr \<Rightarrow> exn + string option" where
  "text_address env t =
     (if ascii t \<and> ie_is_address (oe_intent env) (ascii_text t)
      then sum_bind (ie_checksum (oe_intent env) (ascii_text t)) (\<lambda>c. Inr (Some c))
      else Inr None)"

definition replace_Z :: "ustr \<Rightarrow> ustr" where
  "replace_Z t = concat (map (\<lambda>c. if c = 90 then unicode_of ''+00:00'' else [c]) t)"

text \<open>\<open>xs.sort(key=key, reverse=True)\<close>, which keeps the order of equal keys.\<close>

fun insert_desc :: "('k \<Rightarrow> 'k \<Rightarrow> bool) \<Rightarrow> ('a \<Rightarrow> 'k) \<Rightarrow> 'a \<Rightarrow> 'a list \<Rightarrow> 'a list" where
  "insert_desc le key x [] = [x]"
| "insert_desc le key x (y # ys) = (if le (key y) (key x) then x # y # ys else y # insert_desc le key x ys)"

definition sort_desc :: "('k \<Rightarrow> 'k \<Rightarrow> bool) \<Rightarrow> ('a \<Rightarrow> 'k) \<Rightarrow> 'a list \<Rightarrow> 'a list" where
  "sort_desc le key xs = foldr (insert_desc le key) xs []"

definition bump :: "string \<Rightarrow> (string \<times> nat) list \<Rightarrow> (string \<times> nat) list" where
  "bump r counts = dict_set r ((case map_of counts r of None \<Rightarrow> 0 | Some n \<Rightarrow> n) + 1) counts"

section \<open>Transak\<close>

record transak_config =
  tc_api_key :: string
  tc_api_secret :: string
  tc_api_base_url :: string
  tc_gateway_base_url :: string
  tc_referrer_domain :: string
  tc_crypto_currency_code :: string
  tc_network :: string
  tc_chain_id :: int
  tc_token_address :: string

definition canonical_asset_code :: "transak_config \<Rightarrow> string" where
  "canonical_asset_code c = ascii_lower (tc_crypto_currency_code c)"

definition canonical_network :: "transak_config \<Rightarrow> string" where
  "canonical_network c = ascii_lower (tc_network c)"

definition MAX_PROVIDER_TEXT_BYTES :: nat where "MAX_PROVIDER_TEXT_BYTES = 16 * 1024"
definition MAX_DISPLAY_VALUE_BYTES :: nat where "MAX_DISPLAY_VALUE_BYTES = 256"
definition MAX_TIMESTAMP :: int where "MAX_TIMESTAMP = 253402300799"

definition nonempty_string :: "order_env \<Rightarrow> jvalue \<Rightarrow> ustr option" where
  "nonempty_string env v =
     (case v of
        VText t \<Rightarrow>
          let stripped = text_strip (oe_unicode env) t in
          if stripped = [] then None
          else (case utf8_size stripped of
                  None \<Rightarrow> None
                | Some n \<Rightarrow> if n > MAX_PROVIDER_TEXT_BYTES then None else Some stripped)
      | _ \<Rightarrow> None)"

definition lower_string :: "order_env \<Rightarrow> jvalue \<Rightarrow> ustr option" where
  "lower_string env v = map_option (text_lower (oe_unicode env)) (nonempty_string env v)"

definition display_value :: "order_env \<Rightarrow> jvalue \<Rightarrow> ustr option" where
  "display_value env v =
     (let rendered =
        (case v of
           VInt i \<Rightarrow> Some (unicode_of (int_text i))
         | VFloat l \<Rightarrow> if fi_finite (oe_float env l) then Some (fi_text (oe_float env l)) else None
         | VText t \<Rightarrow> Some (text_strip (oe_unicode env) t)
         | _ \<Rightarrow> None) in
      case rendered of
        None \<Rightarrow> None
      | Some r \<Rightarrow>
          if r = [] then None
          else (case utf8_size r of
                  None \<Rightarrow> None | Some n \<Rightarrow> if n \<le> MAX_DISPLAY_VALUE_BYTES then Some r else None))"

definition transaction_hash_or_none :: "jvalue \<Rightarrow> ustr option" where
  "transaction_hash_or_none v =
     (case v of
        VText t \<Rightarrow>
          let candidate = (if take 2 t = unicode_of ''0x'' then t else unicode_of ''0x'' @ t) in
          if length candidate = 66 \<and> (\<forall>c \<in> set (drop 2 candidate). hex_code c \<noteq> None)
          then Some (unicode_of (ascii_lower (ascii_text candidate))) else None
      | _ \<Rightarrow> None)"

definition transak_timestamp :: "order_env \<Rightarrow> jvalue \<Rightarrow> int \<Rightarrow> int" where
  "transak_timestamp env v fallback =
     (case v of
        VInt i \<Rightarrow> if 0 \<le> i \<and> i \<le> MAX_TIMESTAMP then i else fallback
      | VFloat l \<Rightarrow>
          let f = oe_float env l in
          if \<not> fi_finite f \<or> fi_negative f \<or> fi_above f then fallback else fi_trunc f
      | VText t \<Rightarrow>
          if t = [] then fallback
          else (case oe_iso env (replace_Z t) of
                  None \<Rightarrow> fallback
                | Some f \<Rightarrow> if \<not> fi_finite f \<or> fi_negative f \<or> fi_above f then fallback else fi_trunc f)
      | _ \<Rightarrow> fallback)"

definition address_or_none :: "order_env \<Rightarrow> jvalue \<Rightarrow> exn + string option" where
  "address_or_none env v = (case v of VText t \<Rightarrow> text_address env t | _ \<Rightarrow> Inr None)"

text \<open>
  \<open>decode_intent\<close> of a text of any characters (only Latin-1 ones can be in a token), and its
  outcome inside \<open>try\<close>: a missing key ring is an error, any other refusal the reason (\<open>Inl\<close>).
\<close>

definition decode_text :: "order_env \<Rightarrow> ustr \<Rightarrow> int \<Rightarrow> bool \<Rightarrow> exn + payload" where
  "decode_text env transaction_id now allow_expired =
     (if \<forall>c \<in> set transaction_id. c < 256
      then decode_intent (oe_intent env) (oe_manager env) now (ascii_text transaction_id) allow_expired
      else refused ''On-ramp intent is malformed'')"

definition or_reason :: "string \<Rightarrow> exn + payload \<Rightarrow> exn + string + payload" where
  "or_reason reason r =
     (case r of
        Inr d \<Rightarrow> Inr (Inr d)
      | Inl e \<Rightarrow>
          (case e of
             OnRampError kind m \<Rightarrow> if kind = Unconfigured then Inl e else Inr (Inl reason)
           | _ \<Rightarrow> Inl e))"

text \<open>
  Checks of an order, one after another: the first that fails gives the reason for leaving it out
  (\<open>Inr (Inl reason)\<close>); \<open>Inr (Inr x)\<close> goes on with \<open>x\<close>, and an error (\<open>Inl\<close>) ends the request.
\<close>

definition check_bind :: "exn + string + 'a \<Rightarrow> ('a \<Rightarrow> exn + string + 'b) \<Rightarrow> exn + string + 'b" where
  "check_bind r f =
     (case r of Inl e \<Rightarrow> Inl e | Inr v \<Rightarrow> (case v of Inl reason \<Rightarrow> Inr (Inl reason) | Inr x \<Rightarrow> f x))"

definition need :: "bool \<Rightarrow> string \<Rightarrow> exn + string + unit" where
  "need b reason = (if b then Inr (Inr ()) else Inr (Inl reason))"

definition need_some :: "'a option \<Rightarrow> string \<Rightarrow> exn + string + 'a" where
  "need_some v reason = (case v of None \<Rightarrow> Inr (Inl reason) | Some x \<Rightarrow> Inr (Inr x))"

definition compute :: "exn + 'a \<Rightarrow> exn + string + 'a" where
  "compute r = (case r of Inl e \<Rightarrow> Inl e | Inr x \<Rightarrow> Inr (Inr x))"

lemma check_results:
  "check_bind r f = Inr (Inr y) \<longleftrightarrow> (\<exists>x. r = Inr (Inr x) \<and> f x = Inr (Inr y))"
  "need b reason = Inr (Inr u) \<longleftrightarrow> b"
  "need_some v reason = Inr (Inr x) \<longleftrightarrow> v = Some x"
  "compute c = Inr (Inr z) \<longleftrightarrow> c = Inr z"
  "or_reason reason p = Inr (Inr d) \<longleftrightarrow> p = Inr d"
  by (auto simp: check_bind_def need_def need_some_def compute_def or_reason_def
      split: sum.splits option.splits exn.splits if_splits)

definition transak_order_to_onramp_record ::
    "order_env \<Rightarrow> transak_config \<Rightarrow> payload \<Rightarrow> string \<Rightarrow> string \<Rightarrow> string \<Rightarrow> ustr option \<Rightarrow> exn + string + onramp_record" where
  "transak_order_to_onramp_record env cfg order expected_user_address expected_wallet_address expected_token_id
       expected_transaction_id =
     (let lower = text_lower (oe_unicode env); upper = text_upper (oe_unicode env);
          checksum = ie_checksum (oe_intent env) in
      check_bind (need_some (nonempty_string env (field order ''_id'')) ''missing_provider_transaction_id'')
        (\<lambda>provider_transaction_id.
      check_bind (need_some (nonempty_string env (field order ''partnerOrderId'')) ''missing_partner_order_id'')
        (\<lambda>transaction_id.
      check_bind (need (expected_transaction_id = None \<or> expected_transaction_id = Some transaction_id)
        ''partner_order_id_mismatch'') (\<lambda>_.
      check_bind (or_reason ''invalid_partner_order_id'' (decode_text env transaction_id 0 True)) (\<lambda>intent.
      check_bind (need (text_field intent ''p'' = unicode_of ''transak'') ''provider_mismatch'') (\<lambda>_.
      check_bind (compute (checksum expected_user_address)) (\<lambda>expected_user.
      check_bind (compute (checksum expected_wallet_address)) (\<lambda>expected_wallet.
      check_bind (compute (address_field (oe_intent env) intent ''u'')) (\<lambda>intent_user.
      check_bind (need (intent_user = expected_user) ''user_address_mismatch'') (\<lambda>_.
      check_bind (compute (address_field (oe_intent env) intent ''w'')) (\<lambda>intent_wallet.
      check_bind (need (intent_wallet = expected_wallet) ''wallet_address_mismatch'') (\<lambda>_.
      check_bind (need (int_field intent ''c'' = tc_chain_id cfg) ''chain_mismatch'') (\<lambda>_.
      check_bind (need (unicode_of ''0x'' @ lower (text_field intent ''t'') = unicode_of (ascii_lower expected_token_id))
        ''token_mismatch'') (\<lambda>_.
      check_bind (need (lower (text_field intent ''a'') = unicode_of (canonical_asset_code cfg))
        ''intent_asset_mismatch'') (\<lambda>_.
      check_bind (compute (address_or_none env (field order ''walletAddress''))) (\<lambda>wallet.
      check_bind (need (wallet = Some intent_wallet) ''transak_wallet_mismatch'') (\<lambda>_.
      check_bind (need (upper (str_or_empty env (field order ''status'')) = unicode_of ''COMPLETED'')
        ''not_completed'') (\<lambda>_.
      check_bind (need (upper (str_or_empty env (field order ''isBuyOrSell'')) = unicode_of ''BUY'') ''not_buy'') (\<lambda>_.
      check_bind (need (lower (str_or_empty env (field order ''cryptoCurrency'')) = unicode_of (canonical_asset_code cfg))
        ''order_asset_mismatch'') (\<lambda>_.
      check_bind (need (lower (str_or_empty env (field order ''network'')) = unicode_of (canonical_network cfg))
        ''network_mismatch'') (\<lambda>_.
      check_bind (need_some (transaction_hash_or_none (field order ''transactionHash'')) ''missing_on_chain_tx_hash'')
        (\<lambda>on_chain_tx_hash.
      check_bind (compute (record_from_intent (oe_intent env) transaction_id intent)) (\<lambda>r.
      let created_at = transak_timestamp env (field order ''createdAt'') (int_field intent ''iat'');
          updated_at = transak_timestamp env (field order ''updatedAt'') created_at in
      Inr (Inr (r\<lparr>or_provider_transaction_id := Some provider_transaction_id,
        or_status := ''completed'', or_wallet_address := intent_wallet,
        or_base_currency_code := lower_string env (field order ''fiatCurrency''),
        or_base_currency_amount := display_value env (field order ''fiatAmount''),
        or_quote_currency_amount := display_value env (field order ''cryptoAmount''),
        or_on_chain_tx_hash := Some on_chain_tx_hash,
        or_created_at := created_at, or_updated_at := updated_at\<rparr>)))))))))))))))))))))))))"

text \<open>The loop over the orders: records in order, reasons counted.\<close>

fun admit :: "('a \<Rightarrow> exn + string + onramp_record) \<Rightarrow> 'a list \<Rightarrow> onramp_record list \<Rightarrow> (string \<times> nat) list
    \<Rightarrow> exn + onramp_record list \<times> (string \<times> nat) list" where
  "admit f [] pending counts = Inr (pending, counts)"
| "admit f (x # xs) pending counts =
     sum_bind (f x) (\<lambda>r.
       case r of
         Inl reason \<Rightarrow> admit f xs pending (bump (if reason = [] then ''included'' else reason) counts)
       | Inr record \<Rightarrow> admit f xs (pending @ [record]) (bump ''included'' counts))"

text \<open>Tuples of \<open>updated_at\<close>, \<open>created_at\<close> and the provider's id compare part by part.\<close>

definition transak_key :: "onramp_record \<Rightarrow> int \<times> int \<times> ustr" where
  "transak_key r = (or_updated_at r, or_created_at r, case or_provider_transaction_id r of None \<Rightarrow> [] | Some i \<Rightarrow> i)"

fun transak_key_le :: "int \<times> int \<times> ustr \<Rightarrow> int \<times> int \<times> ustr \<Rightarrow> bool" where
  "transak_key_le (a, b, c) (x, y, z) \<longleftrightarrow> a < x \<or> a = x \<and> (b < y \<or> b = y \<and> key_le c z)"

definition pending_records_from_transak_orders ::
    "order_env \<Rightarrow> transak_config \<Rightarrow> payload list \<Rightarrow> string \<Rightarrow> string \<Rightarrow> string \<Rightarrow> ustr option
     \<Rightarrow> exn + onramp_record list \<times> (string \<times> nat) list" where
  "pending_records_from_transak_orders env cfg orders user wallet token_id expected_transaction_id =
     sum_bind (admit (\<lambda>order. transak_order_to_onramp_record env cfg order user wallet token_id expected_transaction_id)
         orders [] [])
       (\<lambda>(pending, counts). Inr (sort_desc transak_key_le transak_key pending, counts))"

section \<open>MoonPay\<close>

definition decode_onramp_intent :: "order_env \<Rightarrow> ustr \<Rightarrow> int \<Rightarrow> bool \<Rightarrow> exn + payload" where
  "decode_onramp_intent env transaction_id now allow_expired =
     sum_bind (decode_text env transaction_id now allow_expired)
       (\<lambda>d. if text_field d ''p'' \<noteq> unicode_of ''moonpay''
             then refused ''Signed on-ramp intent is not a MoonPay intent'' else Inr d)"

definition transaction_data :: "payload \<Rightarrow> payload" where
  "transaction_data d =
     (case field d ''data'' of
        VDict x \<Rightarrow> x
      | _ \<Rightarrow> (case field d ''transaction'' of VDict x \<Rightarrow> x | _ \<Rightarrow> d))"

definition nested :: "payload \<Rightarrow> string \<Rightarrow> string \<Rightarrow> jvalue" where
  "nested d k l = (case field d k of VDict x \<Rightarrow> field x l | _ \<Rightarrow> VNull)"

definition string_or_none :: "order_env \<Rightarrow> jvalue \<Rightarrow> ustr option" where
  "string_or_none env v = (if v = VNull then None else Some (py_str env v))"

definition currency_code :: "order_env \<Rightarrow> jvalue \<Rightarrow> ustr option" where
  "currency_code env v =
     (case v of
        VDict d \<Rightarrow> if field d ''code'' = VNull then None
                   else Some (text_lower (oe_unicode env) (py_str env (field d ''code'')))
      | VText t \<Rightarrow> Some (text_lower (oe_unicode env) t)
      | _ \<Rightarrow> None)"

definition normalize_status :: "order_env \<Rightarrow> jvalue \<Rightarrow> string" where
  "normalize_status env v =
     (let status = text_lower (oe_unicode env) (py_str env (py_or env v (VText (unicode_of ''pending'')))) in
      if status \<in> {unicode_of ''completed'', unicode_of ''complete''} then ''completed''
      else if status = unicode_of ''failed'' then ''failed''
      else if status = unicode_of ''cancelled'' then ''cancelled''
      else ''pending'')"

definition moonpay_address_or_none :: "order_env \<Rightarrow> jvalue \<Rightarrow> exn + string option" where
  "moonpay_address_or_none env v =
     (case v of VText t \<Rightarrow> if t = [] then Inr None else text_address env t | _ \<Rightarrow> Inr None)"

definition hex_or_none :: "order_env \<Rightarrow> jvalue \<Rightarrow> ustr option" where
  "hex_or_none env v =
     (case v of
        VText t \<Rightarrow>
          if t = [] then None
          else let value = text_lower (oe_unicode env) (text_strip (oe_unicode env) t) in
               Some (if take 2 value = unicode_of ''0x'' then value else unicode_of ''0x'' @ value)
      | _ \<Rightarrow> None)"

text \<open>A Python \<open>bool\<close> is an \<open>int\<close>. \<open>int(f)\<close> of a float that is not finite raises.\<close>

definition moonpay_timestamp :: "order_env \<Rightarrow> jvalue \<Rightarrow> int \<Rightarrow> exn + int" where
  "moonpay_timestamp env v fallback =
     (case v of
        VInt i \<Rightarrow> Inr i
      | VBool b \<Rightarrow> Inr (of_bool b)
      | VFloat l \<Rightarrow>
          if fi_finite (oe_float env l) then Inr (fi_trunc (oe_float env l))
          else Inl (OtherError ''cannot convert float to integer'')
      | VText t \<Rightarrow>
          if t = [] then Inr fallback
          else (case oe_iso env (replace_Z t) of None \<Rightarrow> Inr fallback | Some f \<Rightarrow> Inr (fi_trunc f))
      | _ \<Rightarrow> Inr fallback)"

text \<open>\<open>a or b\<close> for texts that may be missing: an empty text counts as missing.\<close>

definition text_or :: "ustr option \<Rightarrow> ustr option \<Rightarrow> ustr option" where
  "text_or a b = (case a of None \<Rightarrow> b | Some x \<Rightarrow> if x = [] then b else a)"

definition moonpay_transaction_to_onramp_record ::
    "order_env \<Rightarrow> payload \<Rightarrow> string \<Rightarrow> string \<Rightarrow> exn + string + onramp_record" where
  "moonpay_transaction_to_onramp_record env transaction expected_user_address expected_wallet_address =
     (let data = transaction_data transaction; checksum = ie_checksum (oe_intent env) in
      check_bind (need_some (string_or_none env (py_or env (field data ''externalTransactionId'')
          (field data ''externalId''))) ''missing_external_transaction_id'') (\<lambda>external_transaction_id.
      check_bind (need (external_transaction_id \<noteq> []) ''missing_external_transaction_id'') (\<lambda>_.
      check_bind (or_reason ''invalid_external_transaction_id''
          (decode_onramp_intent env external_transaction_id 0 True)) (\<lambda>intent.
      check_bind (compute (address_field (oe_intent env) intent ''u'')) (\<lambda>intent_user.
      check_bind (compute (checksum expected_user_address)) (\<lambda>expected_user.
      check_bind (need (intent_user = expected_user) ''user_address_mismatch'') (\<lambda>_.
      check_bind (compute (address_field (oe_intent env) intent ''w'')) (\<lambda>intent_wallet.
      check_bind (compute (checksum expected_wallet_address)) (\<lambda>expected_wallet.
      check_bind (need (intent_wallet = expected_wallet) ''wallet_address_mismatch'') (\<lambda>_.
      check_bind (compute (moonpay_address_or_none env
          (py_or env (py_or env (field data ''walletAddress'') (nested data ''wallet'' ''address''))
             (nested data ''crypto'' ''address'')))) (\<lambda>wallet_address.
      check_bind (need (wallet_address = Some intent_wallet) ''moonpay_wallet_mismatch'') (\<lambda>_.
      check_bind (need (normalize_status env (field data ''status'') = ''completed'') ''not_completed'') (\<lambda>_.
      check_bind (need_some (hex_or_none env
          (py_or env (py_or env (field data ''cryptoTransactionId'') (field data ''transactionHash''))
             (field data ''txHash''))) ''missing_on_chain_tx_hash'') (\<lambda>on_chain_tx_hash.
      let currency = text_or (currency_code env (field data ''currency'')) (currency_code env (field data ''crypto'')) in
      check_bind (need (currency = None \<or> currency = Some []
          \<or> currency = Some (text_lower (oe_unicode env) (text_field intent ''a''))) ''currency_mismatch'') (\<lambda>_.
      check_bind (compute (moonpay_timestamp env (field data ''createdAt'') (int_field intent ''iat''))) (\<lambda>created_at.
      check_bind (compute (moonpay_timestamp env (field data ''updatedAt'') created_at)) (\<lambda>updated_at.
      check_bind (compute (record_from_intent (oe_intent env) external_transaction_id intent)) (\<lambda>r.
      Inr (Inr (r\<lparr>or_moonpay_transaction_id := string_or_none env (field data ''id''),
        or_provider_transaction_id := string_or_none env (field data ''id''),
        or_status := ''completed'', or_wallet_address := intent_wallet,
        or_base_currency_code := text_or (currency_code env (field data ''baseCurrency'')) (or_base_currency_code r),
        or_base_currency_amount := text_or (string_or_none env (field data ''baseCurrencyAmount''))
          (or_base_currency_amount r),
        or_quote_currency_amount := string_or_none env (field data ''quoteCurrencyAmount''),
        or_on_chain_tx_hash := Some on_chain_tx_hash,
        or_created_at := created_at, or_updated_at := updated_at\<rparr>))))))))))))))))))))"

definition pending_records_from_moonpay_transactions ::
    "order_env \<Rightarrow> payload list \<Rightarrow> string \<Rightarrow> string \<Rightarrow> exn + onramp_record list \<times> (string \<times> nat) list" where
  "pending_records_from_moonpay_transactions env transactions expected_user_address expected_wallet_address =
     sum_bind (ie_checksum (oe_intent env) expected_user_address) (\<lambda>user.
     sum_bind (ie_checksum (oe_intent env) expected_wallet_address) (\<lambda>wallet.
     sum_bind (admit (\<lambda>t. moonpay_transaction_to_onramp_record env t user wallet) transactions [] [])
       (\<lambda>(pending, counts). Inr (sort_desc (\<le>) or_updated_at pending, counts))))"

text \<open>Transactions seen before, by the first id they have, are dropped.\<close>

fun dedupe_from :: "order_env \<Rightarrow> ustr list \<Rightarrow> payload list \<Rightarrow> payload list" where
  "dedupe_from env seen [] = []"
| "dedupe_from env seen (t # ts) =
     (let data = transaction_data t;
          key = text_or (text_or (string_or_none env (field data ''id''))
                  (string_or_none env (field data ''externalTransactionId'')))
                  (string_or_none env (field data ''cryptoTransactionId'')) in
      case key of
        None \<Rightarrow> t # dedupe_from env seen ts
      | Some k \<Rightarrow> if k \<in> set seen then dedupe_from env seen ts else t # dedupe_from env (k # seen) ts)"

definition dedupe_moonpay_transactions :: "order_env \<Rightarrow> payload list \<Rightarrow> payload list" where
  "dedupe_moonpay_transactions env ts = dedupe_from env [] ts"

end
