(* ===== verification/Transak_Client.thy ===== *)
theory Transak_Client
  imports Onramp_Orders Auth_Flow
begin

text \<open>
  \<^verbatim>\<open>src/services/transak.py\<close> but for the records of its orders (\<open>Onramp_Orders\<close>): settings, the
  attested client address and its nonces, the token cache with its lock, and the requests to the
  partner API. Times are in ticks, \<open>SECOND\<close> of them a second. The HTTP library, PyJWT,
  \<open>ipaddress\<close> and the ISO text of a date are parameters.
\<close>

section \<open>Parameters and state\<close>

record http_request =
  hq_method :: string
  hq_url :: string
  hq_headers :: "(string \<times> string) list"
  hq_params :: "(string \<times> string) list"
  hq_body :: "jvalue option"

text \<open>\<open>hr_end\<close> is the error, if any, that ends the stream of chunks.\<close>

record http_response =
  hr_status :: int
  hr_headers :: "(string \<times> string) list"
  hr_chunks :: "bytes list"
  hr_end :: "exn option"

record ip_info =
  ip_compressed :: string
  ip_v6 :: bool
  ip_mapped :: bool
  ip_global :: bool
  ip_multicast :: bool
  ip_reserved :: bool
  ip_site_local :: bool
  ip_cf_worker :: bool

record access_token =
  at_value :: string
  at_expires_at :: int

text \<open>
  \<open>tk_log\<close> is no part of the program: the tokens put in the cache with the time of each, and the
  requests sent.
\<close>

datatype transak_event = Cached access_token int | Requested http_request

record 'w transak =
  tk_world :: 'w
  tk_current :: "access_token option"
  tk_previous :: "access_token option"
  tk_previous_valid_until :: int
  tk_log :: "transak_event list"

text \<open>
  \<open>tx_others\<close> is what other tasks do to the service while a task waits for an answer or for the
  token lock. The token fields change only under the lock.
\<close>

record 'w transak_env =
  tx_orders :: order_env
  tx_now :: "'w \<Rightarrow> int \<times> 'w"
  tx_http :: "http_request \<Rightarrow> 'w \<Rightarrow> (exn + http_response) \<times> 'w"
  tx_others :: "'w transak \<Rightarrow> 'w transak"
  tx_httpx_url :: "string \<Rightarrow> (string \<times> string) option"
  tx_ip :: "string \<Rightarrow> ip_info option"
  tx_jwt :: "'w \<Rightarrow> string \<Rightarrow> string \<Rightarrow> exn + jvalue"
  tx_date_text :: "int \<Rightarrow> string"



definition now_ticks :: "'w transak_env \<Rightarrow> ('w transak, int) py" where
  "now_ticks env = (\<lambda>s. case tx_now env (tk_world s) of (t, w) \<Rightarrow> (Inr t, s\<lparr>tk_world := w\<rparr>))"

text \<open>A request; while it is under way other tasks run, unless this one holds the token lock.\<close>

definition http :: "'w transak_env \<Rightarrow> bool \<Rightarrow> http_request \<Rightarrow> ('w transak, http_response) py" where
  "http env locked q = (\<lambda>s. case tx_http env q (tk_world s) of
     (r, w) \<Rightarrow>
       let t = s\<lparr>tk_world := w, tk_log := tk_log s @ [Requested q]\<rparr> in
       (r, if locked then t else tx_others env t))"

definition take_lock :: "'w transak_env \<Rightarrow> ('w transak, unit) py" where
  "take_lock env = py_modify (tx_others env)"

definition api_error :: "string \<Rightarrow> exn" where
  "api_error m = OnRampError ProviderFailed m"

section \<open>Settings\<close>

record transak_settings =
  ts_api_key :: "string option"
  ts_api_secret :: "string option"
  ts_api_base_url :: "string option"
  ts_gateway_base_url :: "string option"
  ts_referrer_domain :: "string option"
  ts_client_ip_header :: "string option"
  ts_client_ip_mode :: "string option"
  ts_ip_attestation_secret :: "string option"
  ts_crypto_currency_code :: "string option"
  ts_network :: "string option"
  ts_chain_id :: "int option"
  ts_token_address :: "string option"

definition not_configured :: "exn + 'a" where
  "not_configured = unconfigured ''Transak on-ramp is not configured''"

definition visible :: "char \<Rightarrow> bool" where
  "visible c \<longleftrightarrow> 33 \<le> (of_char c :: nat) \<and> (of_char c :: nat) \<le> 126"

definition required_setting :: "string option \<Rightarrow> exn + string" where
  "required_setting v =
     (case v of
        None \<Rightarrow> not_configured
      | Some s \<Rightarrow>
          if s = [] \<or> s \<noteq> py_strip s \<or> \<not> list_all visible s then not_configured else Inr s)"

definition is_visible_ascii :: "string \<Rightarrow> nat \<Rightarrow> bool" where
  "is_visible_ascii s max_bytes \<longleftrightarrow> s \<noteq> [] \<and> length s \<le> max_bytes \<and> list_all visible s"

text \<open>\<open>urlparse\<close> takes the parameters of the last segment off the path.\<close>

definition url_path :: "string \<Rightarrow> string" where
  "url_path path =
     (let segment = rev (takeWhile (\<lambda>c. c \<noteq> CHR ''/'') (rev path)) in
      take (length path - length segment) path @ takeWhile (\<lambda>c. c \<noteq> CHR '';'') segment)"

definition is_https_url :: "'w transak_env \<Rightarrow> string \<Rightarrow> nat \<Rightarrow> bool \<Rightarrow> bool" where
  "is_https_url env v max_bytes base_only =
     (is_visible_ascii v max_bytes \<and>
      (case urlsplit v of
         Inl e \<Rightarrow> False
       | Inr parsed \<Rightarrow>
           (case sp_port parsed of
              Inl e \<Rightarrow> False
            | Inr port \<Rightarrow>
                (case tx_httpx_url env v of
                   None \<Rightarrow> False
                 | Some (scheme, host) \<Rightarrow>
                     sp_scheme parsed = ''https'' \<and> sp_hostname parsed \<noteq> None \<and> sp_username parsed = None
                     \<and> sp_password parsed = None \<and> scheme = ''https'' \<and> host \<noteq> []
                     \<and> (case port of None \<Rightarrow> True | Some p \<Rightarrow> 0 < p)
                     \<and> (base_only \<longrightarrow> url_path (sp_path parsed) \<in> {[], ''/''} \<and> sp_query parsed = []
                          \<and> sp_fragment parsed = [])))))"

definition https_base_url :: "'w transak_env \<Rightarrow> string option \<Rightarrow> exn + string" where
  "https_base_url env v =
     sum_bind (required_setting v) (\<lambda>s.
       let candidate = rstrip_char (CHR ''/'') s in
       if \<not> is_https_url env candidate MAX_PROVIDER_TEXT_BYTES True then not_configured else Inr candidate)"

definition lower_alnum :: "char \<Rightarrow> bool" where
  "lower_alnum c \<longleftrightarrow> is_digit c \<or> (97 \<le> (of_char c :: nat) \<and> (of_char c :: nat) \<le> 122)"

definition domain_label :: "string \<Rightarrow> bool" where
  "domain_label l \<longleftrightarrow>
     l \<noteq> [] \<and> length l \<le> 63 \<and> lower_alnum (hd l) \<and> lower_alnum (last l)
   \<and> list_all (\<lambda>c. lower_alnum c \<or> c = CHR ''-'') l"

definition referrer_domain :: "string option \<Rightarrow> exn + string" where
  "referrer_domain v =
     sum_bind (required_setting v) (\<lambda>candidate.
       let labels = py_split (CHR ''.'') candidate in
       if \<not> (length candidate \<le> 253 \<and> length labels \<ge> 2 \<and> list_all domain_label labels)
          \<or> \<not> list_ex is_alpha (last labels)
       then not_configured else Inr candidate)"

definition header_char :: "char \<Rightarrow> bool" where
  "header_char c \<longleftrightarrow> is_digit c \<or> is_alpha c \<or> c \<in> set ''!#$%&*+-.^_|~'' \<or> c = CHR 0x27 \<or> c = CHR 0x60"

definition header_name :: "string option \<Rightarrow> exn + string" where
  "header_name v =
     sum_bind (required_setting v) (\<lambda>candidate.
       if \<not> list_all header_char candidate then not_configured else Inr (ascii_lower candidate))"

definition provider_code :: "string option \<Rightarrow> exn + string" where
  "provider_code v =
     sum_bind (required_setting v) (\<lambda>candidate.
       if (is_digit (hd candidate) \<or> is_alpha (hd candidate)) \<and> length candidate \<le> 32
          \<and> list_all (\<lambda>c. is_digit c \<or> is_alpha c \<or> c \<in> set ''._:-'') candidate
       then Inr candidate else not_configured)"

text \<open>\<open>int(text, 16) == 0\<close> of a text \<open>Web3.is_address\<close> let through.\<close>

definition zero_address_text :: "string \<Rightarrow> bool" where
  "zero_address_text s \<longleftrightarrow> list_all (\<lambda>c. c \<in> set ''0xX'') s"

definition load_transak_config :: "'w transak_env \<Rightarrow> transak_settings \<Rightarrow> exn + transak_config" where
  "load_transak_config env st =
     sum_bind (required_setting (ts_api_key st)) (\<lambda>api_key.
     sum_bind (required_setting (ts_api_secret st)) (\<lambda>api_secret.
     sum_bind (https_base_url env (ts_api_base_url st)) (\<lambda>api_base_url.
     sum_bind (https_base_url env (ts_gateway_base_url st)) (\<lambda>gateway_base_url.
     sum_bind (referrer_domain (ts_referrer_domain st)) (\<lambda>domain.
     sum_bind (provider_code (ts_crypto_currency_code st)) (\<lambda>code.
     sum_bind (provider_code (ts_network st)) (\<lambda>network.
     case ts_chain_id st of
       None \<Rightarrow> not_configured
     | Some chain_id \<Rightarrow>
         if chain_id \<le> 0 \<or> chain_id > 0xFFFFFFFF then not_configured
         else
           (case ts_token_address st of
              None \<Rightarrow> not_configured
            | Some token_address \<Rightarrow>
                if \<not> ie_is_address (oe_intent (tx_orders env)) token_address \<or> zero_address_text token_address
                then not_configured
                else
                  sum_bind (ie_checksum (oe_intent (tx_orders env)) token_address) (\<lambda>address.
                  Inr \<lparr>tc_api_key = api_key, tc_api_secret = api_secret, tc_api_base_url = api_base_url,
                       tc_gateway_base_url = gateway_base_url, tc_referrer_domain = domain,
                       tc_crypto_currency_code = code, tc_network = network, tc_chain_id = chain_id,
                       tc_token_address = address\<rparr>)))))))))"

datatype ip_mode = HeaderMode string | AttestedMode string

definition IP_ATTESTATION_MIN_SECRET_LENGTH :: nat where "IP_ATTESTATION_MIN_SECRET_LENGTH = 32"

definition load_transak_session_ip_config :: "transak_settings \<Rightarrow> exn + ip_mode" where
  "load_transak_session_ip_config st =
     (let resolved =
        (case ts_client_ip_mode st of
           None \<Rightarrow> ''header''
         | Some mode \<Rightarrow> if py_strip mode = [] then ''header'' else ascii_lower (py_strip mode)) in
      if resolved = ''header'' then sum_bind (header_name (ts_client_ip_header st)) (\<lambda>h. Inr (HeaderMode h))
      else if resolved = ''attested'' then
        sum_bind (required_setting (ts_ip_attestation_secret st)) (\<lambda>candidate.
          if length candidate < IP_ATTESTATION_MIN_SECRET_LENGTH then not_configured
          else Inr (AttestedMode candidate))
      else not_configured)"

definition create_transak_intent ::
    "'w transak_env \<Rightarrow> transak_config \<Rightarrow> int \<Rightarrow> bytes \<Rightarrow> string \<Rightarrow> string \<Rightarrow> string \<Rightarrow> int \<Rightarrow> exn + onramp_record" where
  "create_transak_intent env cfg now nonce user_address wallet_address token_id chain_id =
     sum_bind (create_intent (oe_intent (tx_orders env)) (oe_manager (tx_orders env)) now nonce ''transak''
         user_address wallet_address token_id chain_id (canonical_asset_code cfg))
       (\<lambda>(transaction_id, d). record_from_intent (oe_intent (tx_orders env)) (unicode_of transaction_id) d)"

section \<open>The client's address\<close>

definition client_ip_from_values :: "'w transak_env \<Rightarrow> string list \<Rightarrow> exn + string" where
  "client_ip_from_values env candidates =
     (case candidates of
        [c] \<Rightarrow>
          let v = py_strip c in
          if v = [] \<or> CHR '','' \<in> set v then refused ''Invalid trusted client IP header''
          else (case tx_ip env v of
                  None \<Rightarrow> refused ''Invalid trusted client IP header''
                | Some ip \<Rightarrow> Inr (ip_compressed ip))
      | _ \<Rightarrow> refused ''Missing or ambiguous trusted client IP header'')"

definition IP_ATTESTATION_MAX_WINDOW_SECONDS :: int where "IP_ATTESTATION_MAX_WINDOW_SECONDS = 90"
definition IP_ATTESTATION_MAX_CLOCK_SKEW_SECONDS :: int where "IP_ATTESTATION_MAX_CLOCK_SKEW_SECONDS = 30"
definition IP_ATTESTATION_MAX_NONCES :: nat where "IP_ATTESTATION_MAX_NONCES = 10000"

text \<open>\<open>_ip_attestation_nonces\<close>: the nonces seen, with the second each claim ends.\<close>

type_synonym nonces = "(string \<times> int) list"

definition reserve_ip_attestation_nonce :: "string \<Rightarrow> int \<Rightarrow> int \<Rightarrow> (nonces, unit) py" where
  "reserve_ip_attestation_nonce nonce expires_at now =
     py_then (py_modify (List.filter (\<lambda>(n, x). now < x * SECOND)))
     (py_bind py_get (\<lambda>seen.
        if nonce \<in> fst ` set seen then py_lift (refused ''Client IP attestation was already used'')
        else if length seen \<ge> IP_ATTESTATION_MAX_NONCES
        then py_lift (refused ''Client IP attestation could not be recorded'')
        else py_modify (\<lambda>seen. seen @ [(nonce, expires_at)])))"

record attestation =
  ia_version :: int
  ia_ip :: string
  ia_issued_at :: int
  ia_expires_at :: int
  ia_nonce :: string
  ia_signature :: string

definition lower_hex :: "nat \<Rightarrow> string \<Rightarrow> bool" where
  "lower_hex n s \<longleftrightarrow> length s = n \<and> set s \<subseteq> set hex_chars"

definition attestation_message :: "'w transak_env \<Rightarrow> transak_config \<Rightarrow> string \<Rightarrow> attestation \<Rightarrow> string" where
  "attestation_message env cfg transaction_id a =
     ''v1|'' @ tc_referrer_domain cfg @ ''|'' @ bytes_hex (ie_sha256 (oe_intent (tx_orders env)) (utf8 transaction_id))
     @ ''|'' @ ia_ip a @ ''|'' @ int_text (ia_issued_at a) @ ''|'' @ int_text (ia_expires_at a) @ ''|'' @ ia_nonce a"

definition attested_ip :: "'w transak_env \<Rightarrow> string \<Rightarrow> exn + string" where
  "attested_ip env ip =
     (case tx_ip env ip of
        None \<Rightarrow> refused ''Invalid client IP attestation''
      | Some parsed \<Rightarrow>
          if ip_v6 parsed \<and> ip_mapped parsed then refused ''Client IP attestation must carry a public IP''
          else
            let canonical_ip = ascii_lower (ip_compressed parsed) in
            if ip \<noteq> canonical_ip then refused ''Client IP attestation must carry a canonical IP''
            else if \<not> ip_global parsed \<or> ip_multicast parsed \<or> ip_reserved parsed
            then refused ''Client IP attestation must carry a public IP''
            else if ip_v6 parsed \<and> ip_site_local parsed then refused ''Client IP attestation must carry a public IP''
            else if ip_v6 parsed \<and> ip_cf_worker parsed
            then refused ''Client IP attestation must come from a direct request''
            else Inr canonical_ip)"

text \<open>\<open>current\<close> is the time read (or given); the claim's own times are whole seconds.\<close>

definition check_attestation ::
    "'w transak_env \<Rightarrow> transak_config \<Rightarrow> ip_mode \<Rightarrow> string \<Rightarrow> attestation \<Rightarrow> int \<Rightarrow> exn + string" where
  "check_attestation env cfg mode transaction_id a current =
     (if ia_issued_at a \<le> 0 \<or> ia_expires_at a \<le> 0 \<or> ia_expires_at a > MAX_TIMESTAMP
      then refused ''Invalid client IP attestation''
      else if ia_issued_at a * SECOND > current + IP_ATTESTATION_MAX_CLOCK_SKEW_SECONDS * SECOND
      then refused ''Client IP attestation is not yet valid''
      else if ia_expires_at a * SECOND \<le> current then refused ''Client IP attestation has expired''
      else if ia_expires_at a \<le> ia_issued_at a then refused ''Invalid client IP attestation''
      else if ia_expires_at a - ia_issued_at a > IP_ATTESTATION_MAX_WINDOW_SECONDS
      then refused ''Client IP attestation window is too long''
      else
        case mode of
          HeaderMode h \<Rightarrow> not_configured
        | AttestedMode secret \<Rightarrow>
            if bytes_hex (hmac_digest (ie_sha256 (oe_intent (tx_orders env))) (utf8 secret)
                 (utf8 (attestation_message env cfg transaction_id a))) \<noteq> ia_signature a
            then refused ''Invalid client IP attestation''
            else attested_ip env (ia_ip a))"

definition verify_ip_attestation ::
    "'w transak_env \<Rightarrow> transak_config \<Rightarrow> ip_mode \<Rightarrow> string \<Rightarrow> attestation \<Rightarrow> int \<Rightarrow> (nonces, string) py" where
  "verify_ip_attestation env cfg mode transaction_id a current =
     (case mode of
        HeaderMode h \<Rightarrow> py_lift not_configured
      | AttestedMode secret \<Rightarrow>
          if ia_version a \<noteq> 1 then py_lift (refused ''Unsupported client IP attestation version'')
          else if \<not> lower_hex 32 (ia_nonce a) then py_lift (refused ''Invalid client IP attestation'')
          else if \<not> lower_hex 64 (ia_signature a) then py_lift (refused ''Invalid client IP attestation'')
          else if ia_ip a = [] \<or> length (utf8 (ia_ip a)) > 64 \<or> CHR ''%'' \<in> set (ia_ip a) \<or> CHR ''|'' \<in> set (ia_ip a)
          then py_lift (refused ''Invalid client IP attestation'')
          else
            py_bind (py_lift (check_attestation env cfg mode transaction_id a current)) (\<lambda>canonical_ip.
            py_then (reserve_ip_attestation_nonce (ia_nonce a) (ia_expires_at a) current)
            (py_ret canonical_ip)))"

section \<open>Answers of the partner API\<close>

text \<open>\<open>int(text)\<close>: white space around, a sign, digits with single underscores between them.\<close>

fun digit_groups :: "string \<Rightarrow> bool" where
  "digit_groups [] \<longleftrightarrow> False"
| "digit_groups [c] \<longleftrightarrow> is_digit c"
| "digit_groups (c # d # s) \<longleftrightarrow>
     is_digit c \<and> (if d = CHR ''_'' then digit_groups s else digit_groups (d # s))"

definition py_int :: "string \<Rightarrow> int option" where
  "py_int t =
     (let stripped = py_strip t;
          signed = stripped \<noteq> [] \<and> hd stripped \<in> {CHR ''+'', CHR ''-''};
          body = (if signed then tl stripped else stripped);
          digits = List.filter is_digit body in
      if \<not> digit_groups body \<or> length digits > MAX_STR_DIGITS then None
      else Some (if signed \<and> hd stripped = CHR ''-'' then - int (dec_value digits) else int (dec_value digits)))"

definition MAX_RESPONSE_BYTES :: int where "MAX_RESPONSE_BYTES = 1024 * 1024"

definition malformed_response :: exn where "malformed_response = api_error ''Transak response is malformed''"
definition too_large :: exn where "too_large = api_error ''Transak response is too large''"

text \<open>\<open>_validate_json_value\<close>: every text can be encoded, every float is finite.\<close>

fun strict_value :: "order_env \<Rightarrow> jvalue \<Rightarrow> bool" where
  "strict_value env (VText t) = (utf8_size t \<noteq> None)"
| "strict_value env (VFloat l) = (fi_finite (oe_float env l) \<and> l \<notin> unicode_of ` {''NaN'', ''Infinity'', ''-Infinity''})"
| "strict_value env (VList vs) = list_all (strict_value env) vs"
| "strict_value env (VDict d) = list_all (\<lambda>(k, v). utf8_size k \<noteq> None \<and> strict_value env v) d"
| "strict_value env v = True"

definition strict_json_loads :: "order_env \<Rightarrow> bytes \<Rightarrow> jvalue option" where
  "strict_json_loads env raw =
     (case json_loads (oe_unicode env) raw of
        None \<Rightarrow> None
      | Some v \<Rightarrow> if strict_value env v then Some v else None)"

fun read_chunks :: "bytes list \<Rightarrow> exn option \<Rightarrow> bytes \<Rightarrow> exn + bytes" where
  "read_chunks [] stop body = (case stop of None \<Rightarrow> Inr body | Some e \<Rightarrow> Inl e)"
| "read_chunks (c # cs) stop body =
     (if int (length body) + int (length c) > MAX_RESPONSE_BYTES then Inl too_large
      else read_chunks cs stop (body @ c))"

definition read_body :: "http_response \<Rightarrow> exn + bytes" where
  "read_body r =
     (case map_of (hr_headers r) ''content-length'' of
        None \<Rightarrow> read_chunks (hr_chunks r) (hr_end r) []
      | Some t \<Rightarrow>
          (case py_int t of
             None \<Rightarrow> Inl malformed_response
           | Some n \<Rightarrow>
               if n < 0 then Inl malformed_response
               else if n > MAX_RESPONSE_BYTES then Inl too_large
               else read_chunks (hr_chunks r) (hr_end r) []))"

text \<open>\<open>httpx.HTTPError\<close> becomes an API error; what is not one passes.\<close>

definition transport_error :: "exn \<Rightarrow> exn" where
  "transport_error e = (case e of ClientError m \<Rightarrow> api_error ''Transak partner API is unavailable'' | _ \<Rightarrow> e)"

record api_answer =
  aa_status :: int
  aa_payload :: jvalue
  aa_headers :: "(string \<times> string) list"

definition parse_answer :: "order_env \<Rightarrow> http_response \<Rightarrow> bytes \<Rightarrow> exn + api_answer" where
  "parse_answer env r body =
     (case (if body = [] then Some VNull else strict_json_loads env body) of
        Some v \<Rightarrow> Inr \<lparr>aa_status = hr_status r, aa_payload = v, aa_headers = hr_headers r\<rparr>
      | None \<Rightarrow>
          if hr_status r < 400 then Inl malformed_response
          else Inr \<lparr>aa_status = hr_status r, aa_payload = VNull, aa_headers = hr_headers r\<rparr>)"

definition with_accept :: "http_request \<Rightarrow> http_request" where
  "with_accept q = q\<lparr>hq_headers := (''accept'', ''application/json'') # hq_headers q\<rparr>"

definition json_request :: "'w transak_env \<Rightarrow> bool \<Rightarrow> http_request \<Rightarrow> ('w transak, api_answer) py" where
  "json_request env locked q =
     py_bind (py_try
        (py_bind (http env locked (with_accept q)) (\<lambda>r.
           py_bind (py_lift (read_body r)) (\<lambda>body. py_ret (r, body))))
        (\<lambda>e. py_raise (transport_error e)))
     (\<lambda>(r, body). py_lift (parse_answer (tx_orders env) r body))"

definition retry_after :: "string option \<Rightarrow> int option" where
  "retry_after v =
     (case v of
        None \<Rightarrow> None
      | Some t \<Rightarrow> (case py_int t of None \<Rightarrow> None | Some n \<Rightarrow> if n > 0 then Some n else None))"

definition successful_payload :: "string \<Rightarrow> api_answer \<Rightarrow> exn + jvalue" where
  "successful_payload operation a =
     (if aa_status a = 429
      then Inl (OnRampError (RateLimited (retry_after (map_of (aa_headers a) ''retry-after'')))
             (''Transak '' @ operation @ '' is rate limited''))
      else if aa_status a < 200 \<or> aa_status a \<ge> 300 then Inl (api_error (''Transak '' @ operation @ '' failed''))
      else if aa_payload a = VNull then Inl (api_error (''Transak '' @ operation @ '' response is malformed''))
      else Inr (aa_payload a))"

text \<open>\<open>payload.get(k) if isinstance(payload, dict) else None\<close>.\<close>

definition get_field :: "jvalue \<Rightarrow> string \<Rightarrow> jvalue" where
  "get_field v k = (case v of VDict d \<Rightarrow> field d k | _ \<Rightarrow> VNull)"

definition visible_text :: "ustr \<Rightarrow> nat \<Rightarrow> bool" where
  "visible_text t max_bytes \<longleftrightarrow> ascii t \<and> is_visible_ascii (ascii_text t) max_bytes"

section \<open>The token cache\<close>

definition PREVIOUS_TOKEN_OVERLAP_SECONDS :: int where "PREVIOUS_TOKEN_OVERLAP_SECONDS = 15 * 60"

definition malformed_token :: exn where
  "malformed_token = api_error ''Transak access-token response is malformed''"

definition read_token :: "jvalue \<Rightarrow> exn + access_token" where
  "read_token payload =
     (let data = get_field payload ''data'' in
      case (get_field data ''accessToken'', get_field data ''expiresAt'') of
        (VText t, VInt expires_at) \<Rightarrow>
          if t = [] \<or> \<not> visible_text t MAX_PROVIDER_TEXT_BYTES then Inl malformed_token
          else Inr \<lparr>at_value = ascii_text t, at_expires_at = expires_at\<rparr>
      | _ \<Rightarrow> Inl malformed_token)"

definition refresh_request :: "transak_config \<Rightarrow> http_request" where
  "refresh_request cfg =
     \<lparr>hq_method = ''POST'', hq_url = tc_api_base_url cfg @ ''/partners/api/v2/refresh-token'',
      hq_headers = [(''api-secret'', tc_api_secret cfg), (''x-api-key'', tc_api_key cfg)], hq_params = [],
      hq_body = Some (VDict [(unicode_of ''apiKey'', VText (unicode_of (tc_api_key cfg)))])\<rparr>"

definition store_token :: "access_token \<Rightarrow> int \<Rightarrow> 'w transak \<Rightarrow> 'w transak" where
  "store_token replacement now s =
     (let t = s\<lparr>tk_current := Some replacement, tk_log := tk_log s @ [Cached replacement now]\<rparr> in
      case tk_current s of
        None \<Rightarrow> t
      | Some previous \<Rightarrow>
          if at_value previous = at_value replacement then t
          else t\<lparr>tk_previous := Some previous,
                 tk_previous_valid_until :=
                   min ((at_expires_at previous + PREVIOUS_TOKEN_OVERLAP_SECONDS) * SECOND)
                       (now + PREVIOUS_TOKEN_OVERLAP_SECONDS * SECOND)\<rparr>)"

definition refresh_token_locked :: "'w transak_env \<Rightarrow> transak_config \<Rightarrow> ('w transak, access_token) py" where
  "refresh_token_locked env cfg =
     py_bind (json_request env True (refresh_request cfg)) (\<lambda>answer.
     py_bind (py_lift (successful_payload ''access-token refresh'' answer)) (\<lambda>payload.
     py_bind (py_lift (read_token payload)) (\<lambda>replacement.
     py_bind (now_ticks env) (\<lambda>t.
     if at_expires_at replacement \<le> int_seconds t then py_raise malformed_token
     else
       py_bind (now_ticks env) (\<lambda>now.
       py_then (py_modify (store_token replacement now))
       (py_ret replacement))))))"

text \<open>The second look under the lock is \<open>usable\<close> again, with what another task may have cached.\<close>

definition usable :: "'w transak_env \<Rightarrow> (access_token \<Rightarrow> bool) \<Rightarrow> ('w transak, access_token) py
    \<Rightarrow> ('w transak, access_token) py" where
  "usable env wanted otherwise =
     py_bind py_get (\<lambda>s.
       case tk_current s of
         None \<Rightarrow> otherwise
       | Some current \<Rightarrow>
           if \<not> wanted current then otherwise
           else
             py_bind (now_ticks env) (\<lambda>t.
               if t < at_expires_at current * SECOND then py_ret current else otherwise))"

definition access_token :: "'w transak_env \<Rightarrow> transak_config \<Rightarrow> ('w transak, access_token) py" where
  "access_token env cfg =
     usable env (\<lambda>c. True)
       (py_then (take_lock env) (usable env (\<lambda>c. True) (refresh_token_locked env cfg)))"

definition refresh_after_unauthorized ::
    "'w transak_env \<Rightarrow> access_token \<Rightarrow> transak_config \<Rightarrow> ('w transak, access_token) py" where
  "refresh_after_unauthorized env used cfg =
     py_then (take_lock env)
       (usable env (\<lambda>c. at_value c \<noteq> at_value used) (refresh_token_locked env cfg))"

text \<open>\<open>_cached_webhook_verification_tokens\<close> is \<open>webhook_tokens_locked\<close> under the lock.\<close>

definition webhook_tokens :: "int \<Rightarrow> 'w transak \<Rightarrow> string list \<times> 'w transak" where
  "webhook_tokens now s =
     (let current_tokens =
        (case tk_current s of
           None \<Rightarrow> []
         | Some c \<Rightarrow>
             if now \<le> (at_expires_at c + PREVIOUS_TOKEN_OVERLAP_SECONDS) * SECOND then [at_value c] else []);
      cleared = (if now > tk_previous_valid_until s then s\<lparr>tk_previous := None, tk_previous_valid_until := 0\<rparr> else s) in
      case tk_previous s of
        None \<Rightarrow> (current_tokens, cleared)
      | Some p \<Rightarrow>
          if now \<le> tk_previous_valid_until s \<and> at_value p \<notin> set current_tokens
          then (current_tokens @ [at_value p], s)
          else (current_tokens, cleared))"

definition webhook_tokens_locked :: "'w transak_env \<Rightarrow> ('w transak, string list) py" where
  "webhook_tokens_locked env =
     py_bind (now_ticks env) (\<lambda>now.
     py_bind py_get (\<lambda>s.
     case webhook_tokens now s of
       (tokens, t) \<Rightarrow>
         py_then (py_modify (\<lambda>_. t))
         (if tokens = [] then py_lift (unconfigured ''Transak webhook verification token is unavailable'')
          else py_ret tokens)))"

definition cached_webhook_verification_tokens :: "'w transak_env \<Rightarrow> ('w transak, string list) py" where
  "cached_webhook_verification_tokens env = py_then (take_lock env) (webhook_tokens_locked env)"

section \<open>Requests\<close>

definition with_token :: "transak_config \<Rightarrow> http_request \<Rightarrow> access_token \<Rightarrow> http_request" where
  "with_token cfg q tok =
     q\<lparr>hq_headers := [(''access-token'', at_value tok), (''x-api-key'', tc_api_key cfg)] @ hq_headers q\<rparr>"

definition is_exact_order_not_found :: "api_answer \<Rightarrow> bool" where
  "is_exact_order_not_found a \<longleftrightarrow>
     aa_status a = 400 \<and>
     get_field (get_field (aa_payload a) ''error'') ''message''
       = VText (unicode_of ''Invalid partnerOrderId or order not found'')"

definition authenticated_json_request ::
    "'w transak_env \<Rightarrow> transak_config \<Rightarrow> http_request \<Rightarrow> string \<Rightarrow> bool \<Rightarrow> ('w transak, jvalue) py" where
  "authenticated_json_request env cfg q operation exact_not_found_is_empty =
     py_bind (access_token env cfg) (\<lambda>tok.
     py_bind (json_request env False (with_token cfg q tok)) (\<lambda>first.
     py_bind
       (if aa_status first = 401
        then py_bind (refresh_after_unauthorized env tok cfg) (\<lambda>fresh.
             json_request env False (with_token cfg q fresh))
        else py_ret first) (\<lambda>answer.
     if exact_not_found_is_empty \<and> is_exact_order_not_found answer
     then py_ret (VDict [(unicode_of ''data'', VList [])])
     else py_lift (successful_payload operation answer))))"

definition ORDER_PAGE_LIMIT :: nat where "ORDER_PAGE_LIMIT = 100"
definition ORDER_MAX_PAGES :: nat where "ORDER_MAX_PAGES = 10"
definition EXACT_ORDER_WINDOW_DAYS :: int where "EXACT_ORDER_WINDOW_DAYS = 31"
definition WIDGET_SESSION_TTL_SECONDS :: int where "WIDGET_SESSION_TTL_SECONDS = 5 * 60"
definition MAX_WIDGET_URL_BYTES :: nat where "MAX_WIDGET_URL_BYTES = 8192"
definition MAX_WEBHOOK_JWT_BYTES :: int where "MAX_WEBHOOK_JWT_BYTES = 256 * 1024"

definition malformed_orders :: exn where "malformed_orders = api_error ''Transak order response is malformed''"

definition total_count :: "jvalue \<Rightarrow> exn + int option" where
  "total_count meta =
     (case meta of
        VNull \<Rightarrow> Inr None
      | VDict d \<Rightarrow>
          (case field d ''totalCount'' of
             VNull \<Rightarrow> Inr None
           | VInt n \<Rightarrow> if n < 0 then Inl malformed_orders else Inr (Some n)
           | _ \<Rightarrow> Inl malformed_orders)
      | _ \<Rightarrow> Inl malformed_orders)"

definition orders_page :: "jvalue \<Rightarrow> exn + payload list \<times> int option" where
  "orders_page payload =
     (case get_field payload ''data'' of
        VList raw_orders \<Rightarrow>
          if length raw_orders > ORDER_PAGE_LIMIT then Inl malformed_orders
          else if \<not> list_all (\<lambda>v. case v of VDict d \<Rightarrow> True | _ \<Rightarrow> False) raw_orders then Inl malformed_orders
          else sum_bind (total_count (get_field payload ''meta'')) (\<lambda>n.
            Inr (map (\<lambda>v. case v of VDict d \<Rightarrow> d | _ \<Rightarrow> []) raw_orders, n))
      | _ \<Rightarrow> Inl malformed_orders)"

definition orders_request ::
    "transak_config \<Rightarrow> (string \<times> string) list \<Rightarrow> (string \<times> string) option \<Rightarrow> nat \<Rightarrow> http_request" where
  "orders_request cfg filters date_bounds skip =
     \<lparr>hq_method = ''GET'', hq_url = tc_api_base_url cfg @ ''/partners/api/v2/orders'', hq_headers = [],
      hq_params =
        [(''limit'', nat_text ORDER_PAGE_LIMIT), (''skip'', nat_text skip),
         (''filter[productsAvailed]'', ''['' @ [CHR 0x22] @ ''BUY'' @ [CHR 0x22] @ '']''),
         (''filter[status]'', ''COMPLETED''), (''filter[sortOrder]'', ''desc'')] @ filters @
        (case date_bounds of None \<Rightarrow> [] | Some (a, b) \<Rightarrow> [(''startDate'', a), (''endDate'', b)]),
      hq_body = None\<rparr>"

text \<open>The loop \<open>for page in range(max_pages)\<close> from \<open>page\<close> on, with \<open>left\<close> pages to go.\<close>

fun get_orders_from ::
    "'w transak_env \<Rightarrow> transak_config \<Rightarrow> (string \<times> string) list \<Rightarrow> (string \<times> string) option \<Rightarrow> bool
     \<Rightarrow> nat \<Rightarrow> nat \<Rightarrow> payload list \<Rightarrow> ('w transak, payload list) py" where
  "get_orders_from env cfg filters date_bounds exact page 0 orders = py_ret orders"
| "get_orders_from env cfg filters date_bounds exact page (Suc left) orders =
     (let skip = page * ORDER_PAGE_LIMIT in
      py_bind (authenticated_json_request env cfg (orders_request cfg filters date_bounds skip)
          ''order lookup'' exact) (\<lambda>payload.
      py_bind (py_lift (orders_page payload)) (\<lambda>(page_orders, total_n).
      if length page_orders < ORDER_PAGE_LIMIT
         \<or> (case total_n of None \<Rightarrow> False | Some n \<Rightarrow> int (skip + length page_orders) \<ge> n)
      then py_ret (orders @ page_orders)
      else get_orders_from env cfg filters date_bounds exact (Suc page) left (orders @ page_orders))))"

text \<open>Both times are those of valid dates: a signed intent's time fits 32 bits.\<close>

definition exact_order_date_bounds :: "'w transak_env \<Rightarrow> int \<Rightarrow> int \<Rightarrow> string \<times> string" where
  "exact_order_date_bounds env issued_at now =
     (let start = issued_at div 86400;
          today = now div (86400 * SECOND);
          end = min today (start + EXACT_ORDER_WINDOW_DAYS) in
      (tx_date_text env start, tx_date_text env (if end < start then start else end)))"

definition get_orders_by_partner_order_id ::
    "'w transak_env \<Rightarrow> transak_config \<Rightarrow> string \<Rightarrow> int \<Rightarrow> ('w transak, payload list) py" where
  "get_orders_by_partner_order_id env cfg transaction_id issued_at =
     py_bind (now_ticks env) (\<lambda>now.
     get_orders_from env cfg [(''filter[partnerOrderId]'', transaction_id)]
       (Some (exact_order_date_bounds env issued_at now)) True 0 1 [])"

definition get_orders_by_wallet :: "'w transak_env \<Rightarrow> transak_config \<Rightarrow> string \<Rightarrow> ('w transak, payload list) py" where
  "get_orders_by_wallet env cfg wallet_address =
     py_bind (py_lift (ie_checksum (oe_intent (tx_orders env)) wallet_address)) (\<lambda>wallet.
     get_orders_from env cfg [(''filter[walletAddress]'', wallet)] None False 0 ORDER_MAX_PAGES [])"

record widget_session =
  ws_provider :: string
  ws_url :: string
  ws_expires_at :: int

definition malformed_widget :: exn where
  "malformed_widget = api_error ''Transak widget session response is malformed''"

definition read_widget_url :: "'w transak_env \<Rightarrow> jvalue \<Rightarrow> exn + string" where
  "read_widget_url env payload =
     (case get_field (get_field payload ''data'') ''widgetUrl'' of
        VText t \<Rightarrow>
          if t = [] \<or> \<not> ascii t \<or> \<not> is_https_url env (ascii_text t) MAX_WIDGET_URL_BYTES False
          then Inl malformed_widget else Inr (ascii_text t)
      | _ \<Rightarrow> Inl malformed_widget)"

definition widget_params :: "transak_config \<Rightarrow> string \<Rightarrow> string \<Rightarrow> ustr option \<Rightarrow> (ustr \<times> jvalue) list" where
  "widget_params cfg transaction_id wallet default_crypto_amount =
     map (\<lambda>(k, v). (unicode_of k, v))
       ([(''apiKey'', VText (unicode_of (tc_api_key cfg))),
         (''referrerDomain'', VText (unicode_of (tc_referrer_domain cfg))),
         (''productsAvailed'', VText (unicode_of ''BUY'')),
         (''cryptoCurrencyCode'', VText (unicode_of (tc_crypto_currency_code cfg))),
         (''network'', VText (unicode_of (tc_network cfg))),
         (''walletAddress'', VText (unicode_of wallet)),
         (''disableWalletAddressForm'', VBool True),
         (''partnerOrderId'', VText (unicode_of transaction_id))] @
        (case default_crypto_amount of None \<Rightarrow> [] | Some l \<Rightarrow> [(''defaultCryptoAmount'', VFloat l)]))"

definition session_request ::
    "transak_config \<Rightarrow> string \<Rightarrow> string \<Rightarrow> string \<Rightarrow> ustr option \<Rightarrow> http_request" where
  "session_request cfg transaction_id wallet user_ip default_crypto_amount =
     \<lparr>hq_method = ''POST'', hq_url = tc_gateway_base_url cfg @ ''/api/v2/auth/session'',
      hq_headers = [(''x-user-ip'', user_ip)], hq_params = [],
      hq_body = Some (VDict [(unicode_of ''widgetParams'',
        VDict (widget_params cfg transaction_id wallet default_crypto_amount))])\<rparr>"

definition create_widget_session ::
    "'w transak_env \<Rightarrow> transak_config \<Rightarrow> string \<Rightarrow> string \<Rightarrow> string \<Rightarrow> ustr option \<Rightarrow> ('w transak, widget_session) py" where
  "create_widget_session env cfg transaction_id wallet_address user_ip default_crypto_amount =
     py_bind (now_ticks env) (\<lambda>t.
     py_bind (py_lift (ie_checksum (oe_intent (tx_orders env)) wallet_address)) (\<lambda>wallet.
     py_bind (authenticated_json_request env cfg
         (session_request cfg transaction_id wallet user_ip default_crypto_amount)
         ''widget session creation'' False) (\<lambda>payload.
     py_bind (py_lift (read_widget_url env payload)) (\<lambda>url.
     py_ret \<lparr>ws_provider = ''transak'', ws_url = url,
             ws_expires_at = int_seconds t + WIDGET_SESSION_TTL_SECONDS\<rparr>))))"

section \<open>Webhooks\<close>

definition webhook_token :: "order_env \<Rightarrow> bytes \<Rightarrow> exn + string" where
  "webhook_token env raw_body =
     (case strict_json_loads env raw_body of
        None \<Rightarrow> refused ''Invalid Transak webhook JSON''
      | Some v \<Rightarrow>
          (case v of
             VDict d \<Rightarrow>
               (case field d ''data'' of
                  VText t \<Rightarrow>
                    if t = [] \<or> \<not> ascii t \<or> int (length t) > MAX_WEBHOOK_JWT_BYTES
                    then refused ''Invalid Transak webhook payload'' else Inr (ascii_text t)
                | _ \<Rightarrow> refused ''Invalid Transak webhook payload'')
           | _ \<Rightarrow> refused ''Invalid Transak webhook payload''))"

definition webhook_event :: "jvalue \<Rightarrow> exn + payload" where
  "webhook_event v =
     (case v of
        VDict d \<Rightarrow>
          (case (field d ''webhookData'', field d ''eventID'') of
             (VDict x, VText e) \<Rightarrow> if e = [] then refused ''Invalid Transak webhook payload'' else Inr d
           | _ \<Rightarrow> refused ''Invalid Transak webhook payload'')
      | _ \<Rightarrow> refused ''Invalid Transak webhook payload'')"

definition jwt_invalid :: "exn \<Rightarrow> bool" where
  "jwt_invalid e = (case e of JwtExpired m \<Rightarrow> True | JwtInvalid m \<Rightarrow> True | _ \<Rightarrow> False)"

fun try_tokens :: "(string \<Rightarrow> exn + jvalue) \<Rightarrow> string list \<Rightarrow> exn + payload" where
  "try_tokens decode [] = Inl (OnRampError WebhookUnverified ''Transak webhook signature mismatch'')"
| "try_tokens decode (k # ks) =
     (case decode k of
        Inl e \<Rightarrow> if jwt_invalid e then try_tokens decode ks else Inl e
      | Inr v \<Rightarrow> webhook_event v)"

definition verify_webhook :: "'w transak_env \<Rightarrow> exn + transak_config \<Rightarrow> bytes \<Rightarrow> ('w transak, payload) py" where
  "verify_webhook env loaded raw_body =
     py_bind (py_lift (webhook_token (tx_orders env) raw_body)) (\<lambda>encoded.
     py_bind (py_lift loaded) (\<lambda>cfg.
     py_bind (cached_webhook_verification_tokens env) (\<lambda>tokens.
     py_bind py_get (\<lambda>s.
     py_lift (try_tokens (tx_jwt env (tk_world s) encoded) tokens)))))"

definition short_identifier :: "jvalue \<Rightarrow> ustr option" where
  "short_identifier v =
     (case v of
        VText t \<Rightarrow>
          if t = [] \<or> \<not> visible_text t MAX_PROVIDER_TEXT_BYTES then None
          else if length t \<le> 18 then Some t
          else Some (take 10 t @ unicode_of ''...'' @ drop (length t - 6) t)
      | _ \<Rightarrow> None)"

record webhook_summary =
  wh_event_id :: "ustr option"
  wh_provider_transaction_id :: "ustr option"
  wh_status :: "ustr option"
  wh_product :: "ustr option"
  wh_has_partner_order_id :: bool
  wh_has_transaction_hash :: bool

definition transak_webhook_log_summary :: "order_env \<Rightarrow> payload \<Rightarrow> webhook_summary" where
  "transak_webhook_log_summary env d =
     (let order = (case field d ''webhookData'' of VDict x \<Rightarrow> x | _ \<Rightarrow> []) in
      \<lparr>wh_event_id = short_identifier (field d ''eventID''),
       wh_provider_transaction_id = short_identifier (py_or env (field order ''id'') (field order ''_id'')),
       wh_status = short_identifier (field order ''status''),
       wh_product = short_identifier (field order ''isBuyOrSell''),
       wh_has_partner_order_id = py_true env (field order ''partnerOrderId''),
       wh_has_transaction_hash = py_true env (field order ''transactionHash'')\<rparr>)"

end
