(* ===== verification/Moonpay_Client.thy ===== *)
theory Moonpay_Client
  imports Transak_Client
begin

text \<open>
  The MoonPay side of \<^verbatim>\<open>src/services/onramp.py\<close> (the records of its transactions are in
  \<open>Onramp_Orders\<close>): signing of widget URLs, webhooks, and transaction lookups over HTTP.
  \<open>urllib.parse.parse_qs\<close> and \<open>quote\<close> are written out; the UTF-8 decoding of escaped bytes that are
  not ASCII is the parameter \<open>mo_utf8\<close>. URLs and header texts have Latin-1 characters.
\<close>

record moonpay_settings =
  mo_api_key :: "string option"
  mo_secret_key :: "string option"
  mo_api_base_url :: string
  mo_webhook_secret_key :: "string option"
  mo_allowed_hosts :: "string list"
  mo_allowed_currency_codes :: "string list"
  mo_webhook_tolerance_seconds :: int
  mo_utf8 :: "bytes \<Rightarrow> ustr"

definition create_moonpay_intent ::
    "order_env \<Rightarrow> int \<Rightarrow> bytes \<Rightarrow> string \<Rightarrow> string \<Rightarrow> string \<Rightarrow> int \<Rightarrow> string \<Rightarrow> exn + onramp_record" where
  "create_moonpay_intent env now nonce user_address wallet_address token_id chain_id moonpay_currency_code =
     sum_bind (create_intent (oe_intent env) (oe_manager env) now nonce ''moonpay''
         user_address wallet_address token_id chain_id moonpay_currency_code)
       (\<lambda>(transaction_id, d). record_from_intent (oe_intent env) (unicode_of transaction_id) d)"

section \<open>Query strings\<close>

definition is_ascii :: "char \<Rightarrow> bool" where
  "is_ascii c \<longleftrightarrow> (of_char c :: nat) < 128"

fun unquote_to_bytes :: "string \<Rightarrow> bytes" where
  "unquote_to_bytes (c # h # l # s) =
     (if c = CHR ''%'' \<and> hex_value h \<noteq> None \<and> hex_value l \<noteq> None
      then of_nat (16 * the (hex_value h) + the (hex_value l)) # unquote_to_bytes s
      else of_char c # unquote_to_bytes (h # l # s))"
| "unquote_to_bytes s = map of_char s"

definition decode_replace :: "moonpay_settings \<Rightarrow> bytes \<Rightarrow> ustr" where
  "decode_replace st bs = (if \<forall>b \<in> set bs. b < 128 then map unat bs else mo_utf8 st bs)"

function unquote_parts :: "moonpay_settings \<Rightarrow> string \<Rightarrow> ustr" where
  "unquote_parts st [] = []"
| "unquote_parts st (c # s) =
     (if is_ascii c
      then decode_replace st (unquote_to_bytes (takeWhile is_ascii (c # s))) @ unquote_parts st (dropWhile is_ascii s)
      else of_char c # unquote_parts st s)"
  by pat_completeness auto
termination
  by (relation "measure (\<lambda>(st, s). length s)") (auto simp: length_dropWhile_le le_imp_less_Suc)

definition unquote :: "moonpay_settings \<Rightarrow> string \<Rightarrow> ustr" where
  "unquote st s = (if CHR ''%'' \<in> set s then unquote_parts st s else unicode_of s)"

definition unplus :: "string \<Rightarrow> string" where
  "unplus s = map (\<lambda>c. if c = CHR ''+'' then CHR '' '' else c) s"

text \<open>\<open>parse_qs(query, keep_blank_values=True)\<close>, as the pairs in order.\<close>

definition parse_qsl :: "moonpay_settings \<Rightarrow> string \<Rightarrow> (ustr \<times> ustr) list" where
  "parse_qsl st query =
     map (\<lambda>nv. case py_partition (CHR ''='') nv of (n, found, v) \<Rightarrow> (unquote st (unplus n), unquote st (unplus v)))
       (List.filter (\<lambda>nv. nv \<noteq> []) (py_split (CHR ''&'') query))"

definition query_values :: "(ustr \<times> ustr) list \<Rightarrow> string \<Rightarrow> ustr list" where
  "query_values params key = map snd (List.filter (\<lambda>(n, v). n = unicode_of key) params)"

definition single :: "(ustr \<times> ustr) list \<Rightarrow> string \<Rightarrow> exn + ustr option" where
  "single params key =
     (case query_values params key of
        [] \<Rightarrow> Inr None
      | [v] \<Rightarrow> Inr (Some v)
      | _ \<Rightarrow> refused (''MoonPay URL has multiple '' @ key @ '' values''))"

definition require_single :: "(ustr \<times> ustr) list \<Rightarrow> string \<Rightarrow> string \<Rightarrow> exn + unit" where
  "require_single params key expected =
     sum_bind (single params key) (\<lambda>v.
       if v \<noteq> Some (unicode_of expected) then refused (''MoonPay '' @ key @ '' is not allowed'') else Inr ())"

text \<open>A parameter that is there once and not empty.\<close>

definition single_given :: "(ustr \<times> ustr) list \<Rightarrow> string \<Rightarrow> exn + ustr" where
  "single_given params key =
     sum_bind (single params key) (\<lambda>v.
       case v of
         None \<Rightarrow> refused (''MoonPay URL is missing '' @ key)
       | Some t \<Rightarrow> if t = [] then refused (''MoonPay URL is missing '' @ key) else Inr t)"

section \<open>Widget URLs\<close>

definition sign_moonpay_url ::
    "order_env \<Rightarrow> moonpay_settings \<Rightarrow> string \<Rightarrow> string \<Rightarrow> string \<Rightarrow> ustr \<Rightarrow> ustr \<Rightarrow> exn + string" where
  "sign_moonpay_url env st url expected_wallet_address user_address expected_external_transaction_id
       expected_currency_code =
     (if \<not> given (mo_api_key st) \<or> \<not> given (mo_secret_key st)
      then unconfigured ''MoonPay URL signing is not configured''
      else
        sum_bind (urlsplit url) (\<lambda>parsed.
        if sp_scheme parsed \<noteq> ''https'' then refused ''MoonPay URL must use https''
        else if sp_hostname parsed \<notin> Some ` set (mo_allowed_hosts st) then refused ''MoonPay host is not allowed''
        else if sp_query parsed = [] then refused ''MoonPay URL is missing query parameters''
        else
          let params = parse_qsl st (sp_query parsed) in
          if query_values params ''signature'' \<noteq> [] then refused ''MoonPay URL must be unsigned''
          else
            sum_bind (require_single params ''apiKey'' (the (mo_api_key st))) (\<lambda>_.
            sum_bind (single_given params ''walletAddress'') (\<lambda>wallet_address.
            sum_bind (text_address env wallet_address) (\<lambda>wallet.
            case wallet of
              None \<Rightarrow> refused ''MoonPay walletAddress is invalid''
            | Some w \<Rightarrow>
                sum_bind (ie_checksum (oe_intent env) expected_wallet_address) (\<lambda>expected_wallet.
                if w \<noteq> expected_wallet
                then refused ''MoonPay walletAddress must be the Privana deposit address''
                else
                  sum_bind (single_given params ''externalCustomerId'') (\<lambda>external_customer_id.
                  sum_bind (ie_checksum (oe_intent env) user_address) (\<lambda>user.
                  if external_customer_id \<noteq> unicode_of user
                  then refused ''MoonPay externalCustomerId must match authenticated user''
                  else
                    sum_bind (single_given params ''externalTransactionId'') (\<lambda>external_transaction_id.
                    if external_transaction_id \<noteq> expected_external_transaction_id
                    then refused ''MoonPay externalTransactionId does not match the Privana intent''
                    else
                      sum_bind (single_given params ''currencyCode'') (\<lambda>currency_code.
                      let lower = text_lower (oe_unicode env);
                          allowed = map (\<lambda>c. lower (unicode_of c)) (mo_allowed_currency_codes st) in
                      if allowed \<noteq> [] \<and> lower currency_code \<notin> set allowed
                      then refused ''MoonPay currencyCode is not allowed''
                      else if expected_currency_code \<noteq> [] \<and> lower currency_code \<noteq> lower expected_currency_code
                      then refused ''MoonPay currencyCode does not match the Privana intent''
                      else Inr (b64encode (hmac_digest (ie_sha256 (oe_intent env)) (utf8 (the (mo_secret_key st)))
                             (utf8 (''?'' @ sp_query parsed))))))))))))))"

definition moonpay_url_external_transaction_id :: "moonpay_settings \<Rightarrow> string \<Rightarrow> exn + ustr option" where
  "moonpay_url_external_transaction_id st url =
     sum_bind (urlsplit url) (\<lambda>parsed. single (parse_qsl st (sp_query parsed)) ''externalTransactionId'')"

section \<open>Transaction lookups\<close>

definition TRANSACTION_PAGE_LIMIT :: nat where "TRANSACTION_PAGE_LIMIT = 50"
definition TRANSACTION_MAX_PAGES :: nat where "TRANSACTION_MAX_PAGES = 10"

definition only_dicts :: "jvalue list \<Rightarrow> payload list" where
  "only_dicts vs = List.map_filter (\<lambda>v. case v of VDict d \<Rightarrow> Some d | _ \<Rightarrow> None) vs"

fun first_list :: "payload \<Rightarrow> string list \<Rightarrow> payload list" where
  "first_list d [] = []"
| "first_list d (k # ks) = (case field d k of VList vs \<Rightarrow> only_dicts vs | _ \<Rightarrow> first_list d ks)"

definition extract_transaction_items :: "jvalue \<Rightarrow> payload list" where
  "extract_transaction_items v =
     (case v of
        VList vs \<Rightarrow> only_dicts vs
      | VDict d \<Rightarrow> first_list d [''transactions'', ''data'', ''items'', ''results'']
      | _ \<Rightarrow> [])"

definition moonpay_error :: "string \<Rightarrow> exn" where
  "moonpay_error m = OnRampError ProviderFailed m"

definition moonpay_response_items :: "order_env \<Rightarrow> int \<Rightarrow> bytes \<Rightarrow> exn + payload list" where
  "moonpay_response_items env status body =
     (if status = 401 then Inl (moonpay_error ''MoonPay transaction lookup is unauthorized'')
      else if status \<ge> 400
      then Inl (moonpay_error (''MoonPay transaction lookup failed with status '' @ int_text status))
      else
        (case json_loads (oe_unicode env) body of
           None \<Rightarrow> Inl (moonpay_error ''MoonPay transaction lookup returned invalid JSON'')
         | Some v \<Rightarrow> Inr (extract_transaction_items v)))"

text \<open>\<open>client.get\<close> reads the whole body.\<close>

definition moonpay_get ::
    "'w transak_env \<Rightarrow> http_request \<Rightarrow> ('w transak, payload list) py" where
  "moonpay_get env q =
     py_bind (\<lambda>s. case tx_http env q (tk_world s) of (r, w) \<Rightarrow> (r, tx_others env (s\<lparr>tk_world := w\<rparr>))) (\<lambda>r.
     case hr_end r of
       Some e \<Rightarrow> py_raise e
     | None \<Rightarrow> py_lift (moonpay_response_items (tx_orders env) (hr_status r) (concat (hr_chunks r))))"

definition moonpay_transport :: "('w transak, 'a) py \<Rightarrow> ('w transak, 'a) py" where
  "moonpay_transport m =
     py_try m (\<lambda>e. py_raise (case e of ClientError t \<Rightarrow> moonpay_error ''MoonPay transaction lookup failed'' | _ \<Rightarrow> e))"

definition moonpay_request :: "moonpay_settings \<Rightarrow> string \<Rightarrow> (string \<times> string) list \<Rightarrow> http_request" where
  "moonpay_request st path params =
     \<lparr>hq_method = ''GET'', hq_url = rstrip_char (CHR ''/'') (mo_api_base_url st) @ path,
      hq_headers = [(''Authorization'', ''Api-Key '' @ the (mo_secret_key st))], hq_params = params, hq_body = None\<rparr>"

fun fetch_pages ::
    "'w transak_env \<Rightarrow> moonpay_settings \<Rightarrow> string \<Rightarrow> nat \<Rightarrow> nat \<Rightarrow> payload list \<Rightarrow> ('w transak, payload list) py" where
  "fetch_pages env st external_customer_id page 0 transactions = py_ret transactions"
| "fetch_pages env st external_customer_id page (Suc left) transactions =
     py_bind (moonpay_get env (moonpay_request st ''/v1/transactions''
         ([(''limit'', nat_text TRANSACTION_PAGE_LIMIT), (''offset'', nat_text (page * TRANSACTION_PAGE_LIMIT))] @
          (if external_customer_id = [] then [] else [(''externalCustomerId'', external_customer_id)])))) (\<lambda>page_items.
     if length page_items < TRANSACTION_PAGE_LIMIT then py_ret (transactions @ page_items)
     else fetch_pages env st external_customer_id (Suc page) left (transactions @ page_items))"

definition lookup_unconfigured :: "exn + 'a" where
  "lookup_unconfigured = unconfigured ''MoonPay transaction lookup is not configured''"

definition fetch_moonpay_buy_transactions ::
    "'w transak_env \<Rightarrow> moonpay_settings \<Rightarrow> string \<Rightarrow> ('w transak, payload list) py" where
  "fetch_moonpay_buy_transactions env st external_customer_id =
     (if \<not> given (mo_secret_key st) then py_lift lookup_unconfigured
      else moonpay_transport (fetch_pages env st external_customer_id 0 TRANSACTION_MAX_PAGES []))"

text \<open>\<open>quote(text, safe="")\<close>.\<close>

definition quote_all :: "string \<Rightarrow> string" where
  "quote_all s = concat (map (\<lambda>b.
     let c = char_of (unat b) in
     if is_digit c \<or> is_alpha c \<or> c \<in> set ''_.-~'' then [c]
     else CHR ''%'' # map (\<lambda>d. if CHR ''a'' \<le> d then char_of (of_char d - 32 :: nat) else d) (bytes_hex [b])) (utf8 s))"

definition fetch_moonpay_buy_transactions_by_external_id ::
    "'w transak_env \<Rightarrow> moonpay_settings \<Rightarrow> string \<Rightarrow> ('w transak, payload list) py" where
  "fetch_moonpay_buy_transactions_by_external_id env st external_transaction_id =
     (if \<not> given (mo_secret_key st) then py_lift lookup_unconfigured
      else moonpay_transport (moonpay_get env
             (moonpay_request st (''/v1/transactions/ext/'' @ quote_all external_transaction_id) [])))"

section \<open>Webhooks\<close>

text \<open>The parts \<open>key=value\<close> of the header; of two with one key the last counts.\<close>

definition signature_parts :: "string \<Rightarrow> (string \<times> string) list" where
  "signature_parts header =
     rev (List.map_filter (\<lambda>piece.
       case py_partition (CHR ''='') piece of
         (key, found, value) \<Rightarrow> if key \<noteq> [] \<and> value \<noteq> [] then Some (key, value) else None)
       (py_split (CHR '','') header))"

text \<open>\<open>hmac.compare_digest\<close> raises a \<open>TypeError\<close> for a text that is not ASCII.\<close>

definition compare_digest :: "string \<Rightarrow> string \<Rightarrow> exn + bool" where
  "compare_digest expected signature =
     (if list_all is_ascii signature then Inr (expected = signature)
      else Inl (OtherError ''comparing strings with non-ASCII characters is not supported''))"

text \<open>\<open>now\<close> is \<open>int(time.time())\<close>.\<close>

definition verify_moonpay_webhook :: "order_env \<Rightarrow> moonpay_settings \<Rightarrow> int \<Rightarrow> bytes \<Rightarrow> string \<Rightarrow> exn + unit" where
  "verify_moonpay_webhook env st now raw_body signature_header =
     (if \<not> given (mo_webhook_secret_key st) then unconfigured ''MoonPay webhook verification is not configured''
      else
        (case (map_of (signature_parts signature_header) ''t'', map_of (signature_parts signature_header) ''s'') of
           (Some timestamp, Some signature) \<Rightarrow>
             (case py_int timestamp of
                None \<Rightarrow> refused ''Invalid MoonPay signature timestamp''
              | Some signed_at \<Rightarrow>
                  let tolerance = mo_webhook_tolerance_seconds st in
                  if tolerance > 0 \<and> \<bar>now - signed_at\<bar> > tolerance
                  then refused ''MoonPay signature timestamp is outside tolerance''
                  else
                    sum_bind (compare_digest
                        (bytes_hex (hmac_digest (ie_sha256 (oe_intent env)) (utf8 (the (mo_webhook_secret_key st)))
                           (utf8 timestamp @ [46] @ raw_body))) signature)
                      (\<lambda>same. if same then Inr () else refused ''MoonPay webhook signature mismatch''))
         | _ \<Rightarrow> refused ''Invalid MoonPay signature header''))"

text \<open>
  \<open>except json.JSONDecodeError\<close> does not catch the \<open>UnicodeDecodeError\<close> of bytes that are not in the
  encoding \<open>json.loads\<close> detects.
\<close>

definition parse_webhook_body :: "order_env \<Rightarrow> bytes \<Rightarrow> exn + payload" where
  "parse_webhook_body env raw_body =
     (if \<not> plain_bytes raw_body \<and> un_decode (oe_unicode env) raw_body = None
      then Inl (ValueError ''codec cannot decode bytes'')
      else
        (case json_loads (oe_unicode env) raw_body of
           None \<Rightarrow> refused ''Invalid MoonPay webhook JSON''
         | Some (VDict d) \<Rightarrow> Inr d
         | Some _ \<Rightarrow> refused ''Invalid MoonPay webhook payload''))"

record moonpay_updates =
  mu_status :: string
  mu_external_transaction_id :: "ustr option"
  mu_moonpay_transaction_id :: "ustr option"
  mu_user_address :: "string option"
  mu_wallet_address :: "string option"
  mu_base_currency_code :: "ustr option"
  mu_base_currency_amount :: "ustr option"
  mu_quote_currency_amount :: "ustr option"
  mu_on_chain_tx_hash :: "ustr option"
  mu_failure_reason :: "ustr option"
  mu_moonpay_currency_code :: "ustr option"

definition webhook_updates :: "order_env \<Rightarrow> payload \<Rightarrow> exn + ustr \<times> moonpay_updates" where
  "webhook_updates env d =
     (let data = transaction_data d;
          moonpay_transaction_id = str_or_empty env (field data ''id'');
          external_transaction_id = string_or_none env
            (py_or env (field data ''externalTransactionId'') (field d ''externalTransactionId''));
          transaction_id = (case text_or external_transaction_id (Some moonpay_transaction_id) of None \<Rightarrow> [] | Some t \<Rightarrow> t);
          status = normalize_status env (field data ''status'') in
      if transaction_id = [] then refused ''MoonPay webhook missing transaction id''
      else
        sum_bind (moonpay_address_or_none env
            (py_or env (py_or env (field data ''walletAddress'') (nested data ''wallet'' ''address''))
               (nested data ''crypto'' ''address''))) (\<lambda>wallet_address.
        sum_bind (moonpay_address_or_none env
            (py_or env (field data ''externalCustomerId'') (field d ''externalCustomerId''))) (\<lambda>user_address.
        Inr (transaction_id,
          \<lparr>mu_status = status, mu_external_transaction_id = external_transaction_id,
           mu_moonpay_transaction_id = (if moonpay_transaction_id = [] then None else Some moonpay_transaction_id),
           mu_user_address = user_address, mu_wallet_address = wallet_address,
           mu_base_currency_code = currency_code env (field data ''baseCurrency''),
           mu_base_currency_amount = string_or_none env (field data ''baseCurrencyAmount''),
           mu_quote_currency_amount = string_or_none env (field data ''quoteCurrencyAmount''),
           mu_on_chain_tx_hash = hex_or_none env (field data ''cryptoTransactionId''),
           mu_failure_reason = (if status \<in> {''failed'', ''cancelled''}
             then string_or_none env (field data ''failureReason'') else None),
           mu_moonpay_currency_code =
             (if nested data ''currency'' ''code'' = VNull then None
              else Some (text_lower (oe_unicode env) (py_str env (nested data ''currency'' ''code''))))\<rparr>))))"

end
