(* ===== verification/Onramp_Routes.thy ===== *)
theory Onramp_Routes
  imports Sweep_Record Auth_Routes Moonpay_Client
begin

text \<open>
  The on-ramp handlers of \<^verbatim>\<open>src/api/routes.py\<close>. A handler runs over the Transak client, the nonces of
  the attestations and the tables of the rate limiter; the caller (token and address) comes from
  \<open>require_resolved_private_read_auth\<close>. The reads of the accounting service are parameters: what they
  answer, and what other tasks do meanwhile. A handler's answer is its result or an \<open>HttpError\<close>; what
  the handlers only log (diagnostics, summaries) is left out.
\<close>

section \<open>State\<close>

record 'w onramp =
  oo_client :: "'w transak"
  oo_nonces :: nonces
  oo_auth :: "'w auth"

record 'w onramp_env =
  re_client :: "'w transak_env"
  re_flow :: "'w flow_env"
  re_intents :: intent_settings
  re_transak :: transak_settings
  re_moonpay :: moonpay_settings
  re_deposit_address :: "bytes \<Rightarrow> 'w \<Rightarrow> (exn + string) \<times> 'w"
  re_token_id :: "int \<Rightarrow> string \<Rightarrow> 'w \<Rightarrow> (exn + bytes) \<times> 'w"
  re_is_registered :: "bytes \<Rightarrow> 'w \<Rightarrow> (exn + bool) \<times> 'w"
  re_random :: "'w \<Rightarrow> bytes \<times> 'w"
  re_others :: "'w onramp \<Rightarrow> 'w onramp"

abbreviation re_orders :: "'w onramp_env \<Rightarrow> order_env" where
  "re_orders env \<equiv> tx_orders (re_client env)"

abbreviation re_intent :: "'w onramp_env \<Rightarrow> intent_env" where
  "re_intent env \<equiv> oe_intent (tx_orders (re_client env))"

definition on_client :: "'w onramp_env \<Rightarrow> ('w transak, 'a) py \<Rightarrow> ('w onramp, 'a) py" where
  "on_client env m = (\<lambda>s. case m (oo_client s) of (r, c) \<Rightarrow> (r, re_others env (s\<lparr>oo_client := c\<rparr>)))"

definition on_nonces :: "(nonces, 'a) py \<Rightarrow> ('w onramp, 'a) py" where
  "on_nonces m = (\<lambda>s. case m (oo_nonces s) of (r, n) \<Rightarrow> (r, s\<lparr>oo_nonces := n\<rparr>))"

definition on_auth :: "('w auth, 'a) py \<Rightarrow> ('w onramp, 'a) py" where
  "on_auth m = (\<lambda>s. case m ((oo_auth s)\<lparr>au_world := tk_world (oo_client s)\<rparr>) of
     (r, a) \<Rightarrow> (r, s\<lparr>oo_auth := a, oo_client := (oo_client s)\<lparr>tk_world := au_world a\<rparr>\<rparr>))"

text \<open>A call of the accounting service.\<close>

definition service :: "'w onramp_env \<Rightarrow> ('w \<Rightarrow> (exn + 'a) \<times> 'w) \<Rightarrow> ('w onramp, 'a) py" where
  "service env f = (\<lambda>s. case f (tk_world (oo_client s)) of
     (r, w) \<Rightarrow> (r, re_others env (s\<lparr>oo_client := (oo_client s)\<lparr>tk_world := w\<rparr>\<rparr>)))"

text \<open>\<open>time.time()\<close>, and its whole seconds.\<close>

definition current_time :: "'w onramp_env \<Rightarrow> ('w onramp, int) py" where
  "current_time env = (\<lambda>s. case tx_now (re_client env) (tk_world (oo_client s)) of
     (t, w) \<Rightarrow> (Inr t, s\<lparr>oo_client := (oo_client s)\<lparr>tk_world := w\<rparr>\<rparr>))"

definition seconds_now :: "'w onramp_env \<Rightarrow> ('w onramp, int) py" where
  "seconds_now env = py_bind (current_time env) (\<lambda>t. py_ret (int_seconds t))"

definition random_nonce :: "'w onramp_env \<Rightarrow> ('w onramp, bytes) py" where
  "random_nonce env = (\<lambda>s. case re_random env (tk_world (oo_client s)) of
     (b, w) \<Rightarrow> (Inr b, s\<lparr>oo_client := (oo_client s)\<lparr>tk_world := w\<rparr>\<rparr>))"

section \<open>Answers to errors\<close>

definition contract_answer :: "string \<Rightarrow> exn" where
  "contract_answer m =
     (if contains_text ''Siwe'' m \<or> contains_text ''InvalidSiwe'' m
      then HttpError 401 ''Invalid or expired SIWE token'' else HttpError 422 ''Contract call failed'')"

text \<open>The handlers that talk to no provider, and those that do.\<close>

definition plain_answer :: "exn \<Rightarrow> exn" where
  "plain_answer e =
     (case e of
        ContractLogic m \<Rightarrow> contract_answer m
      | OnRampError kind m \<Rightarrow> if kind = Unconfigured then HttpError 503 m else HttpError 400 m
      | _ \<Rightarrow> e)"

definition provider_answer :: "exn \<Rightarrow> exn" where
  "provider_answer e =
     (case e of
        OnRampError ProviderFailed m \<Rightarrow> HttpError 502 m
      | OnRampError (RateLimited seconds) m \<Rightarrow> HttpError 429 m
      | _ \<Rightarrow> plain_answer e)"

definition answered :: "(exn \<Rightarrow> exn) \<Rightarrow> ('s, 'a) py \<Rightarrow> ('s, 'a) py" where
  "answered f m = py_try m (\<lambda>e. py_raise (f e))"

definition is_onramp_error :: "exn \<Rightarrow> bool" where
  "is_onramp_error e = (case e of OnRampError kind m \<Rightarrow> True | _ \<Rightarrow> False)"

section \<open>Shared checks\<close>

definition deposit_address_of :: "'w onramp_env \<Rightarrow> bytes \<Rightarrow> ('w onramp, string) py" where
  "deposit_address_of env token =
     py_bind (service env (re_deposit_address env token)) (\<lambda>a. py_lift (ie_checksum (re_intent env) a))"

definition registered_transak_token_id ::
    "'w onramp_env \<Rightarrow> transak_config \<Rightarrow> string option \<Rightarrow> int option \<Rightarrow> ('w onramp, string) py" where
  "registered_transak_token_id env cfg requested_token_id requested_chain_id =
     (if requested_chain_id \<noteq> None \<and> requested_chain_id \<noteq> Some (tc_chain_id cfg)
      then py_lift (refused ''chain_id does not match the configured Transak asset'')
      else
        py_bind (service env (re_token_id env (tc_chain_id cfg) (tc_token_address cfg))) (\<lambda>token_id.
        let token_id_hex = to_hex token_id in
        if requested_token_id \<noteq> None \<and> map_option ascii_lower requested_token_id \<noteq> Some token_id_hex
        then py_lift (refused ''token_id does not match the configured Transak asset'')
        else
          py_bind (service env (re_is_registered env token_id)) (\<lambda>registered.
          if \<not> registered then py_lift (unconfigured ''The configured Transak asset is not registered'')
          else py_ret token_id_hex)))"

definition validate_transak_intent ::
    "order_env \<Rightarrow> payload \<Rightarrow> string \<Rightarrow> string \<Rightarrow> string \<Rightarrow> transak_config \<Rightarrow> exn + unit" where
  "validate_transak_intent env intent user_address deposit_address token_id cfg =
     (if text_field intent ''p'' \<noteq> unicode_of ''transak'' then refused ''Signed on-ramp intent is not a Transak intent''
      else
        sum_bind (address_field (oe_intent env) intent ''u'') (\<lambda>intent_user.
        sum_bind (ie_checksum (oe_intent env) user_address) (\<lambda>user.
        if intent_user \<noteq> user then refused ''Signed on-ramp intent does not belong to the caller''
        else
          sum_bind (address_field (oe_intent env) intent ''w'') (\<lambda>intent_wallet.
          sum_bind (ie_checksum (oe_intent env) deposit_address) (\<lambda>deposit.
          if intent_wallet \<noteq> deposit then refused ''Signed on-ramp intent does not match the deposit address''
          else if int_field intent ''c'' \<noteq> tc_chain_id cfg
          then refused ''Signed on-ramp intent does not match the configured chain''
          else if unicode_of ''0x'' @ text_lower (oe_unicode env) (text_field intent ''t'')
              \<noteq> unicode_of (ascii_lower token_id)
          then refused ''Signed on-ramp intent does not match the configured token''
          else if text_lower (oe_unicode env) (text_field intent ''a'') \<noteq> unicode_of (canonical_asset_code cfg)
          then refused ''Signed on-ramp intent does not match the configured asset''
          else Inr ())))))"

definition PENDING_MAX_INTENT_LOOKUPS :: nat where "PENDING_MAX_INTENT_LOOKUPS = 10"

text \<open>\<open>list(dict.fromkeys(xs))\<close>.\<close>

definition first_of_each :: "'a list \<Rightarrow> 'a list" where
  "first_of_each xs = rev (remdups (rev xs))"

definition owned_intent :: "order_env \<Rightarrow> string \<Rightarrow> string \<Rightarrow> ustr \<Rightarrow> exn + ustr \<times> payload" where
  "owned_intent env user deposit intent_id =
     sum_bind (decode_text env intent_id 0 True) (\<lambda>intent.
     sum_bind (address_field (oe_intent env) intent ''u'') (\<lambda>intent_user.
     if intent_user \<noteq> user then refused ''Signed on-ramp intent does not belong to the caller''
     else
       sum_bind (address_field (oe_intent env) intent ''w'') (\<lambda>intent_wallet.
       if intent_wallet \<noteq> deposit then refused ''Signed on-ramp intent does not match the deposit address''
       else Inr (intent_id, intent))))"

definition validated_onramp_pending_intents ::
    "order_env \<Rightarrow> ustr list option \<Rightarrow> string \<Rightarrow> string \<Rightarrow> exn + (ustr \<times> payload) list" where
  "validated_onramp_pending_intents env intent_ids user_address deposit_address =
     (case intent_ids of
        None \<Rightarrow> Inr []
      | Some xs \<Rightarrow>
          if xs = [] then Inr []
          else if length (first_of_each xs) > PENDING_MAX_INTENT_LOOKUPS
          then refused ''Too many externalTransactionId values''
          else
            sum_bind (ie_checksum (oe_intent env) user_address) (\<lambda>user.
            sum_bind (ie_checksum (oe_intent env) deposit_address) (\<lambda>deposit.
            sum_list_map (owned_intent env user deposit) (first_of_each xs))))"

definition row_key :: "onramp_record \<Rightarrow> ustr \<times> ustr" where
  "row_key r =
     (or_provider r, case text_or (or_provider_transaction_id r) (Some (or_transaction_id r)) of
                       None \<Rightarrow> [] | Some i \<Rightarrow> i)"

fun dedupe_rows :: "(ustr \<times> ustr) list \<Rightarrow> onramp_record list \<Rightarrow> onramp_record list" where
  "dedupe_rows seen [] = []"
| "dedupe_rows seen (r # rs) =
     (if snd (row_key r) = [] then r # dedupe_rows seen rs
      else if row_key r \<in> set seen then dedupe_rows seen rs
      else r # dedupe_rows (row_key r # seen) rs)"

definition dedupe_onramp_rows :: "onramp_record list \<Rightarrow> onramp_record list" where
  "dedupe_onramp_rows rows = sort_desc transak_key_le transak_key (dedupe_rows [] rows)"

section \<open>Intents\<close>

record intent_request =
  ci_wallet_address :: "string option"
  ci_token_id :: string
  ci_chain_id :: int
  ci_moonpay_currency_code :: "string option"

definition check_wallet :: "'w onramp_env \<Rightarrow> string option \<Rightarrow> string \<Rightarrow> exn + unit" where
  "check_wallet env wallet_address deposit_address =
     (if \<not> given wallet_address then Inr ()
      else
        sum_bind (ie_checksum (re_intent env) (the wallet_address)) (\<lambda>w.
        if w \<noteq> deposit_address then refused ''wallet_address must be the Privana deposit address'' else Inr ()))"

definition create_onramp_intent ::
    "'w onramp_env \<Rightarrow> bytes \<times> string \<Rightarrow> intent_request \<Rightarrow> ('w onramp, onramp_record) py" where
  "create_onramp_intent env auth request =
     (case auth of (token, user_address) \<Rightarrow>
      answered plain_answer
       (py_then (on_auth (enforce_onramp_user_rate_limit (re_flow env) user_address ''onramp_intent'' 20))
       (py_bind (py_lift (configured_provider (re_intents env))) (\<lambda>provider.
        py_bind (deposit_address_of env token) (\<lambda>deposit_address.
        py_then (py_lift (check_wallet env (ci_wallet_address request) deposit_address))
        (if provider = ''moonpay'' then
           (if \<not> given (ci_moonpay_currency_code request)
            then py_lift (refused ''moonpay_currency_code is required for MoonPay'')
            else
              py_bind (seconds_now env) (\<lambda>now.
              py_bind (random_nonce env) (\<lambda>nonce.
              py_lift (create_moonpay_intent (re_orders env) now nonce user_address deposit_address
                (ci_token_id request) (ci_chain_id request) (the (ci_moonpay_currency_code request))))))
         else
           py_bind (py_lift (load_transak_config (re_client env) (re_transak env))) (\<lambda>cfg.
           py_bind (registered_transak_token_id env cfg (Some (ci_token_id request)) (Some (ci_chain_id request)))
             (\<lambda>token_id.
           py_bind (seconds_now env) (\<lambda>now.
           py_bind (random_nonce env) (\<lambda>nonce.
           py_lift (create_transak_intent (re_client env) cfg now nonce user_address deposit_address
             (ci_token_id request) (ci_chain_id request))))))))))))"

section \<open>MoonPay URLs and Transak sessions\<close>

definition sign_onramp_url :: "'w onramp_env \<Rightarrow> bytes \<times> string \<Rightarrow> string \<Rightarrow> ('w onramp, string) py" where
  "sign_onramp_url env auth url =
     (case auth of (token, user_address) \<Rightarrow>
      answered (\<lambda>e. case plain_answer e of
          HttpError code m \<Rightarrow> (case e of HttpError c t \<Rightarrow> HttpError 500 ''Failed to sign MoonPay URL'' | _ \<Rightarrow> HttpError code m)
        | _ \<Rightarrow> if is_exception e then HttpError 500 ''Failed to sign MoonPay URL'' else e)
       (py_bind (py_lift (configured_provider (re_intents env))) (\<lambda>provider.
        if provider \<noteq> ''moonpay'' then py_lift (unconfigured ''MoonPay URL signing is disabled'')
        else
          py_bind (deposit_address_of env token) (\<lambda>deposit_address.
          py_bind (py_lift (moonpay_url_external_transaction_id (re_moonpay env) url)) (\<lambda>found.
          case found of
            None \<Rightarrow> py_lift (refused ''MoonPay URL is missing externalTransactionId'')
          | Some intent_id \<Rightarrow>
              if intent_id = [] then py_lift (refused ''MoonPay URL is missing externalTransactionId'')
              else
                py_bind (seconds_now env) (\<lambda>now.
                py_bind (py_lift (decode_onramp_intent (re_orders env) intent_id now False)) (\<lambda>intent.
                py_bind (py_lift (address_field (re_intent env) intent ''u'')) (\<lambda>intent_user.
                py_bind (py_lift (ie_checksum (re_intent env) user_address)) (\<lambda>user.
                if intent_user \<noteq> user
                then py_lift (refused ''MoonPay externalTransactionId does not belong to the caller'')
                else
                  py_bind (py_lift (address_field (re_intent env) intent ''w'')) (\<lambda>intent_wallet.
                  if intent_wallet \<noteq> deposit_address
                  then py_lift (refused ''MoonPay externalTransactionId does not match the deposit address'')
                  else
                    py_lift (sign_moonpay_url (re_orders env) (re_moonpay env) url deposit_address user_address
                      intent_id (text_field intent ''a''))))))))))))"

record session_payload =
  ses_transaction_id :: ustr
  ses_ip_attestation :: "attestation option"
  ses_default_crypto_amount :: "ustr option"

text \<open>\<open>headers h\<close> is \<open>request.headers.getlist(h)\<close>.\<close>

definition user_ip_of ::
    "'w onramp_env \<Rightarrow> transak_config \<Rightarrow> ip_mode \<Rightarrow> session_payload \<Rightarrow> (string \<Rightarrow> string list) \<Rightarrow> ('w onramp, string) py" where
  "user_ip_of env cfg mode request headers =
     (case mode of
        AttestedMode secret \<Rightarrow>
          (case ses_ip_attestation request of
             None \<Rightarrow> py_lift (refused ''Client IP attestation is required'')
           | Some a \<Rightarrow>
               py_bind (current_time env) (\<lambda>now.
               on_nonces (verify_ip_attestation (re_client env) cfg mode (ascii_text (ses_transaction_id request)) a now)))
      | HeaderMode h \<Rightarrow> py_lift (client_ip_from_values (re_client env) (headers h)))"

definition create_onramp_session ::
    "'w onramp_env \<Rightarrow> bytes \<times> string \<Rightarrow> session_payload \<Rightarrow> (string \<Rightarrow> string list) \<Rightarrow> ('w onramp, widget_session) py" where
  "create_onramp_session env auth request headers =
     (case auth of (token, user_address) \<Rightarrow>
      answered provider_answer
       (py_then (on_auth (enforce_onramp_user_rate_limit (re_flow env) user_address ''onramp_session'' 10))
       (py_bind (py_lift (configured_provider (re_intents env))) (\<lambda>provider.
        if provider \<noteq> ''transak'' then py_lift (unconfigured ''Transak on-ramp sessions are disabled'')
        else
          py_bind (py_lift (load_transak_config (re_client env) (re_transak env))) (\<lambda>cfg.
          py_bind (py_lift (load_transak_session_ip_config (re_transak env))) (\<lambda>mode.
          py_bind (seconds_now env) (\<lambda>now.
          py_bind (py_lift (decode_text (re_orders env) (ses_transaction_id request) now False)) (\<lambda>intent.
          py_bind (deposit_address_of env token) (\<lambda>deposit_address.
          py_bind (registered_transak_token_id env cfg None None) (\<lambda>token_id.
          py_then (py_lift (validate_transak_intent (re_orders env) intent user_address deposit_address token_id cfg))
          (py_bind (user_ip_of env cfg mode request headers) (\<lambda>user_ip.
          on_client env (create_widget_session (re_client env) cfg (ascii_text (ses_transaction_id request))
            deposit_address user_ip (ses_default_crypto_amount request))))))))))))))"

section \<open>Pending purchases\<close>

text \<open>
  What the loop over exact intents carries: the rows so far, whether a lookup succeeded, and the
  Transak configuration with its token id once they are known.
\<close>

record lookups =
  lk_rows :: "onramp_record list"
  lk_succeeded :: bool
  lk_config :: "(transak_config \<times> string) option"

text \<open>\<open>None\<close> for a lookup that failed with an \<open>OnRampError\<close>, with that error.\<close>

definition tried :: "('s, 'a) py \<Rightarrow> ('s, exn + 'a) py" where
  "tried m = py_try (py_bind m (\<lambda>x. py_ret (Inr x)))
     (\<lambda>e. if is_onramp_error e then py_ret (Inl e) else py_raise e)"

definition transak_asset :: "'w onramp_env \<Rightarrow> (transak_config \<times> string) option \<Rightarrow> ('w onramp, transak_config \<times> string) py" where
  "transak_asset env known =
     (case known of
        Some c \<Rightarrow> py_ret c
      | None \<Rightarrow>
          py_bind (py_lift (load_transak_config (re_client env) (re_transak env))) (\<lambda>cfg.
          py_bind (registered_transak_token_id env cfg None None) (\<lambda>token_id. py_ret (cfg, token_id))))"

definition moonpay_rows :: "'w onramp_env \<Rightarrow> string \<Rightarrow> string \<Rightarrow> payload list \<Rightarrow> exn + onramp_record list" where
  "moonpay_rows env user_address deposit_address transactions =
     sum_bind (pending_records_from_moonpay_transactions (re_orders env) transactions user_address deposit_address)
       (\<lambda>(rows, counts). Inr rows)"

definition transak_rows ::
    "'w onramp_env \<Rightarrow> transak_config \<Rightarrow> string \<Rightarrow> string \<Rightarrow> string \<Rightarrow> ustr option \<Rightarrow> payload list \<Rightarrow> exn + onramp_record list" where
  "transak_rows env cfg token_id user_address deposit_address expected orders =
     sum_bind (pending_records_from_transak_orders (re_orders env) cfg orders user_address deposit_address token_id expected)
       (\<lambda>(rows, counts). Inr rows)"

definition exact_moonpay :: "'w onramp_env \<Rightarrow> string \<Rightarrow> string \<Rightarrow> ustr \<Rightarrow> ('w onramp, onramp_record list) py" where
  "exact_moonpay env user_address deposit_address intent_id =
     py_bind (on_client env (fetch_moonpay_buy_transactions_by_external_id (re_client env) (re_moonpay env)
         (ascii_text intent_id))) (\<lambda>transactions.
     py_lift (moonpay_rows env user_address deposit_address transactions))"

definition exact_transak ::
    "'w onramp_env \<Rightarrow> string \<Rightarrow> string \<Rightarrow> transak_config \<times> string \<Rightarrow> ustr \<times> payload \<Rightarrow> ('w onramp, onramp_record list) py" where
  "exact_transak env user_address deposit_address asset exact =
     (case asset of (cfg, token_id) \<Rightarrow>
      case exact of (intent_id, intent) \<Rightarrow>
        py_then (py_lift (validate_transak_intent (re_orders env) intent user_address deposit_address token_id cfg))
        (py_bind (on_client env (get_orders_by_partner_order_id (re_client env) cfg (ascii_text intent_id)
            (int_field intent ''iat''))) (\<lambda>orders.
         py_lift (transak_rows env cfg token_id user_address deposit_address (Some intent_id) orders))))"

definition found_rows :: "exn + onramp_record list \<Rightarrow> lookups \<Rightarrow> lookups" where
  "found_rows r l =
     (case r of Inl e \<Rightarrow> l | Inr rows \<Rightarrow> l\<lparr>lk_rows := lk_rows l @ rows, lk_succeeded := True\<rparr>)"

fun exact_lookups :: "'w onramp_env \<Rightarrow> string \<Rightarrow> string \<Rightarrow> (ustr \<times> payload) list \<Rightarrow> lookups \<Rightarrow> ('w onramp, lookups) py" where
  "exact_lookups env user_address deposit_address [] l = py_ret l"
| "exact_lookups env user_address deposit_address ((intent_id, intent) # rest) l =
     py_bind
       (if text_field intent ''p'' = unicode_of ''moonpay'' then
          py_bind (tried (exact_moonpay env user_address deposit_address intent_id)) (\<lambda>r. py_ret (found_rows r l))
        else if text_field intent ''p'' = unicode_of ''transak'' then
          py_bind (tried (transak_asset env (lk_config l))) (\<lambda>asset.
          case asset of
            Inl e \<Rightarrow> py_ret l
          | Inr a \<Rightarrow>
              py_bind (tried (exact_transak env user_address deposit_address a (intent_id, intent))) (\<lambda>r.
              py_ret (found_rows r (l\<lparr>lk_config := Some a\<rparr>))))
        else py_ret l)
       (exact_lookups env user_address deposit_address rest)"

definition wallet_rows ::
    "'w onramp_env \<Rightarrow> string \<Rightarrow> string \<Rightarrow> string \<Rightarrow> (transak_config \<times> string) option \<Rightarrow> ('w onramp, onramp_record list) py" where
  "wallet_rows env user_address deposit_address provider known =
     (if provider = ''moonpay'' then
        py_bind (on_client env (fetch_moonpay_buy_transactions (re_client env) (re_moonpay env) user_address)) (\<lambda>ts.
        py_lift (moonpay_rows env user_address deposit_address (dedupe_moonpay_transactions (re_orders env) ts)))
      else
        py_bind (transak_asset env known) (\<lambda>(cfg, token_id).
        py_bind (on_client env (get_orders_by_wallet (re_client env) cfg deposit_address)) (\<lambda>orders.
        py_lift (transak_rows env cfg token_id user_address deposit_address None orders))))"

definition get_pending_onramps ::
    "'w onramp_env \<Rightarrow> bytes \<times> string \<Rightarrow> ustr list option \<Rightarrow> ('w onramp, onramp_record list) py" where
  "get_pending_onramps env auth external_transaction_id =
     (case auth of (token, user_address) \<Rightarrow>
      answered provider_answer
       (py_then (on_auth (enforce_onramp_user_rate_limit (re_flow env) user_address ''onramp_pending'' 20))
       (py_bind (deposit_address_of env token) (\<lambda>deposit_address.
        py_bind (py_lift (validated_onramp_pending_intents (re_orders env) external_transaction_id user_address
            deposit_address)) (\<lambda>exact_intents.
        py_bind (exact_lookups env user_address deposit_address exact_intents
            \<lparr>lk_rows = [], lk_succeeded = False, lk_config = None\<rparr>) (\<lambda>l.
        py_bind (py_lift (configured_provider (re_intents env))) (\<lambda>provider.
        py_bind (tried (wallet_rows env user_address deposit_address provider (lk_config l))) (\<lambda>wallet.
        case wallet of
          Inl e \<Rightarrow> if lk_succeeded l then py_ret (dedupe_onramp_rows (lk_rows l)) else py_raise e
        | Inr rows \<Rightarrow> py_ret (dedupe_onramp_rows (lk_rows l @ rows))))))))))"

section \<open>Webhooks\<close>

definition WEBHOOK_MAX_BODY_BYTES :: int where "WEBHOOK_MAX_BODY_BYTES = 1024 * 1024"

fun buffer_body :: "string \<Rightarrow> bytes list \<Rightarrow> bytes \<Rightarrow> exn + bytes" where
  "buffer_body detail [] buffer = Inr buffer"
| "buffer_body detail (c # cs) buffer =
     (if int (length buffer) + int (length c) > WEBHOOK_MAX_BODY_BYTES then Inl (HttpError 413 detail)
      else buffer_body detail cs (buffer @ c))"

definition moonpay_onramp_webhook ::
    "'w onramp_env \<Rightarrow> bytes list \<Rightarrow> string \<Rightarrow> ('w onramp, ustr \<times> moonpay_updates) py" where
  "moonpay_onramp_webhook env chunks signature =
     py_bind (py_lift (buffer_body ''MoonPay webhook payload is too large'' chunks [])) (\<lambda>raw_body.
     py_bind (seconds_now env) (\<lambda>now.
     py_then (answered (\<lambda>e. case e of
         OnRampError kind m \<Rightarrow> HttpError (if kind = Unconfigured then 503 else 401) m | _ \<Rightarrow> e)
       (py_lift (verify_moonpay_webhook (re_orders env) (re_moonpay env) now raw_body signature)))
     (answered (\<lambda>e. case e of
         OnRampError kind m \<Rightarrow> HttpError (if kind = Unconfigured then 503 else 400) m | _ \<Rightarrow> e)
       (py_bind (py_lift (parse_webhook_body (re_orders env) raw_body)) (\<lambda>d.
        py_lift (webhook_updates (re_orders env) d))))))"

definition transak_onramp_webhook :: "'w onramp_env \<Rightarrow> bytes list \<Rightarrow> ('w onramp, webhook_summary) py" where
  "transak_onramp_webhook env chunks =
     py_bind (py_lift (buffer_body ''Transak webhook payload is too large'' chunks [])) (\<lambda>body.
     answered (\<lambda>e. case e of
         OnRampError kind m \<Rightarrow>
           HttpError (if kind = Unconfigured then 503 else if kind = WebhookUnverified then 401 else 400) m
       | _ \<Rightarrow> e)
       (py_bind (on_client env (verify_webhook (re_client env) (load_transak_config (re_client env) (re_transak env)) body))
         (\<lambda>d. py_ret (transak_webhook_log_summary (re_orders env) d))))"

section \<open>Updates\<close>

record update_request =
  up_wallet_address :: "string option"
  up_token_id :: "string option"
  up_chain_id :: "int option"
  up_moonpay_transaction_id :: "ustr option"
  up_base_currency_code :: "ustr option"
  up_base_currency_amount :: "ustr option"
  up_quote_currency_amount :: "ustr option"
  up_on_chain_tx_hash :: "string option"
  up_deposit_tx_hash :: "string option"

record updated_record = onramp_record +
  ur_deposit_tx_hash :: "string option"
  ur_deposit_triggered_at :: "int option"

text \<open>\<open>record.update(updates)\<close>: fields that are there replace the record's.\<close>

definition given_or :: "'a option \<Rightarrow> 'a option \<Rightarrow> 'a option" where
  "given_or a b = (case a of None \<Rightarrow> b | Some x \<Rightarrow> a)"

definition apply_updates :: "onramp_record \<Rightarrow> update_request \<Rightarrow> string \<Rightarrow> updated_record" where
  "apply_updates r u deposit_address =
     \<lparr>or_transaction_id = or_transaction_id r, or_provider = or_provider r,
      or_provider_transaction_id = or_provider_transaction_id r, or_provider_asset_code = or_provider_asset_code r,
      or_moonpay_transaction_id = given_or (up_moonpay_transaction_id u) (or_moonpay_transaction_id r),
      or_status = or_status r, or_wallet_address = deposit_address,
      or_token_id = or_token_id r, or_chain_id = or_chain_id r,
      or_moonpay_currency_code = or_moonpay_currency_code r,
      or_created_at = or_created_at r, or_updated_at = or_updated_at r,
      or_base_currency_code = given_or (up_base_currency_code u) (or_base_currency_code r),
      or_base_currency_amount = given_or (up_base_currency_amount u) (or_base_currency_amount r),
      or_quote_currency_amount = given_or (up_quote_currency_amount u) (or_quote_currency_amount r),
      or_on_chain_tx_hash = given_or (map_option unicode_of (up_on_chain_tx_hash u)) (or_on_chain_tx_hash r),
      ur_deposit_tx_hash = up_deposit_tx_hash u, ur_deposit_triggered_at = None\<rparr>"

definition update_onramp ::
    "'w onramp_env \<Rightarrow> bytes \<times> string \<Rightarrow> ustr \<Rightarrow> update_request \<Rightarrow> ('w onramp, updated_record) py" where
  "update_onramp env auth transaction_id u =
     (case auth of (token, user_address) \<Rightarrow>
      answered plain_answer
       (py_bind (deposit_address_of env token) (\<lambda>deposit_address.
        py_then (py_lift (check_wallet env (up_wallet_address u) deposit_address))
        (py_bind (py_lift (ie_checksum (re_intent env) user_address)) (\<lambda>beneficiary.
        py_bind (py_lift (decode_onramp_intent (re_orders env) transaction_id 0 True)) (\<lambda>intent.
        py_bind (py_lift (address_field (re_intent env) intent ''u'')) (\<lambda>intent_user.
        if intent_user \<noteq> beneficiary
        then py_raise (HttpError 403 ''on-ramp transaction does not belong to the caller'')
        else
          py_bind (py_lift (address_field (re_intent env) intent ''w'')) (\<lambda>intent_wallet.
          if intent_wallet \<noteq> deposit_address
          then py_raise (HttpError 403 ''on-ramp transaction does not match the caller deposit address'')
          else
            py_bind (py_lift (record_from_intent (re_intent env) transaction_id intent)) (\<lambda>r.
            if up_token_id u \<noteq> None \<and> map_option unicode_of (up_token_id u) \<noteq> Some (or_token_id r)
            then py_lift (refused ''token_id does not match signed on-ramp intent'')
            else if up_chain_id u \<noteq> None \<and> up_chain_id u \<noteq> Some (or_chain_id r)
            then py_lift (refused ''chain_id does not match signed on-ramp intent'')
            else
              let updated = apply_updates r u deposit_address in
              py_bind
                (if given (up_deposit_tx_hash u)
                 then py_bind (seconds_now env) (\<lambda>t. py_ret (updated\<lparr>ur_deposit_triggered_at := Some t\<rparr>))
                 else py_ret updated) (\<lambda>updated.
              if given (up_on_chain_tx_hash u)
              then py_bind (seconds_now env) (\<lambda>t. py_ret (updated\<lparr>or_status := ''completed'', or_updated_at := t\<rparr>))
              else py_ret updated))))))))))"

end
