(* ===== verification/Request_Models.thy ===== *)
theory Request_Models
  imports Onramp_Routes Account_Writes Deposit_Processor
begin

text \<open>
  The request models of \<^verbatim>\<open>src/models/accounting.py\<close>: what their validators make of the fields of a
  body, and which bodies are refused. The pydantic package turns a \<open>ValueError\<close> of a validator, or a
  broken bound, into an answer 422 once every field has been looked at; any other exception ends
  the request with 500. A field that a model declares as \<open>int\<close> or \<open>str\<close> without a validator of its
  own is taken as the value pydantic coerced it to.
\<close>

section \<open>Values\<close>

text \<open>A JSON value as a validator sees it. A float shows as what \<open>int()\<close> makes of it.\<close>

datatype float_value = Truncated int | NotANumber | Infinite

datatype raw = RawInt int | RawBool bool | RawFloat float_value | RawText string | RawOther

definition normalise_hex :: "string \<Rightarrow> string" where
  "normalise_hex value =
     (let v = ascii_lower (py_strip value) in if take 2 v = ''0x'' then v else ''0x'' @ v)"

definition normalise_fixed_hex :: "nat \<Rightarrow> string \<Rightarrow> exn + string" where
  "normalise_fixed_hex byte_length value =
     (let v = normalise_hex value; body = drop 2 v in
      if length body \<noteq> byte_length * 2 then Inl (ValueError ''wrong number of bytes'')
      else case py_int_16 body of Inl e \<Rightarrow> Inl (ValueError ''must be hex'') | Inr n \<Rightarrow> Inr v)"

definition normalise_currency_code :: "string option \<Rightarrow> string option" where
  "normalise_currency_code value = map_option (\<lambda>v. ascii_lower (py_strip v)) value"

section \<open>Amounts\<close>

text \<open>
  \<open>decimal.Decimal(text)\<close>: sign, digits around a point, exponent; underscores are left out.
  Exponents past the limits of the library (18 digits) are refused like a malformed text.
\<close>

definition is_e :: "char \<Rightarrow> bool" where
  "is_e c \<longleftrightarrow> c = CHR ''e'' \<or> c = CHR ''E''"

definition split_sign :: "string \<Rightarrow> bool \<times> string" where
  "split_sign s = (case s of [] \<Rightarrow> (False, []) | c # cs \<Rightarrow>
     if c = CHR ''-'' then (True, cs) else if c = CHR ''+'' then (False, cs) else (False, s))"

definition signed :: "bool \<Rightarrow> nat \<Rightarrow> int" where
  "signed negative n = (if negative then - int n else int n)"

definition decimal_exponent :: "string \<Rightarrow> int option" where
  "decimal_exponent rest =
     (case rest of
        [] \<Rightarrow> Some 0
      | e # s \<Rightarrow>
          (case split_sign s of (negative, digits) \<Rightarrow>
             if digits = [] \<or> \<not> list_all is_digit digits \<or> dec_value digits > 999999999999999999 then None
             else Some (signed negative (dec_value digits))))"

definition decimal_parts :: "string \<Rightarrow> (bool \<times> nat \<times> int) option" where
  "decimal_parts text_value =
     (case split_sign (List.filter (\<lambda>c. c \<noteq> CHR ''_'') text_value) of (negative, s) \<Rightarrow>
      let mantissa = takeWhile (\<lambda>c. \<not> is_e c) s; rest = dropWhile (\<lambda>c. \<not> is_e c) s;
          whole = takeWhile (\<lambda>c. c \<noteq> CHR ''.'') mantissa;
          fraction = tl (dropWhile (\<lambda>c. c \<noteq> CHR ''.'') mantissa) in
      if whole @ fraction = [] \<or> \<not> list_all is_digit (whole @ fraction) then None
      else map_option (\<lambda>e. (negative, dec_value (whole @ fraction), e - int (length fraction))) (decimal_exponent rest))"

text \<open>\<open>int()\<close> of a decimal cuts towards zero.\<close>

definition decimal_int :: "bool \<times> nat \<times> int \<Rightarrow> int" where
  "decimal_int d =
     (case d of (negative, coefficient, e) \<Rightarrow>
        signed negative (if 0 \<le> e then coefficient * 10 ^ nat e else coefficient div 10 ^ nat (- e)))"

fun parse_int_amount :: "raw \<Rightarrow> exn + int" where
  "parse_int_amount (RawInt n) = Inr n"
| "parse_int_amount (RawBool b) = Inr (if b then 1 else 0)"
| "parse_int_amount (RawFloat f) =
     (case f of
        Truncated n \<Rightarrow> Inr n
      | NotANumber \<Rightarrow> Inl (ValueError ''cannot convert float NaN to integer'')
      | Infinite \<Rightarrow> Inl (OtherError ''OverflowError: cannot convert float infinity to integer''))"
| "parse_int_amount (RawText t) =
     (let v = py_strip t in
      if CHR ''e'' \<in> set (ascii_lower v) \<or> CHR ''.'' \<in> set v then
        (case decimal_parts v of
           None \<Rightarrow> Inl (OtherError ''decimal.InvalidOperation'') | Some d \<Rightarrow> Inr (decimal_int d))
      else (case py_int v of None \<Rightarrow> Inl (ValueError ''invalid literal for int()'') | Some n \<Rightarrow> Inr n))"
| "parse_int_amount RawOther = Inl (OtherError ''TypeError: int() argument'')"

section \<open>Fields and models\<close>

definition min_length :: "nat \<Rightarrow> string \<Rightarrow> exn + string" where
  "min_length n s = (if length s < n then Inl (ValueError ''string_too_short'') else Inr s)"

definition at_least :: "int \<Rightarrow> int \<Rightarrow> exn + int" where
  "at_least k n = (if n < k then Inl (ValueError ''greater_than_equal'') else Inr n)"

definition amount_field :: "int \<Rightarrow> raw \<Rightarrow> exn + int" where
  "amount_field least v = sum_bind (parse_int_amount v) (at_least least)"

definition hex_field :: "nat \<Rightarrow> string \<Rightarrow> exn + string" where
  "hex_field n s = sum_bind (min_length n s) (\<lambda>v. Inr (normalise_hex v))"

text \<open>
  The outcome of a model from those of its fields, in the order they are declared: the first
  exception pydantic does not collect, else 422 if it collected any, else the model.
\<close>

definition broken :: "exn + 'a \<Rightarrow> exn list" where
  "broken r = (case r of Inl e \<Rightarrow> [e] | Inr x \<Rightarrow> [])"

definition model :: "exn list \<Rightarrow> 'a \<Rightarrow> exn + 'a" where
  "model errors v =
     (case find (\<lambda>e. \<not> is_value_error e) errors of
        Some e \<Rightarrow> Inl e
      | None \<Rightarrow> if errors = [] then Inr v else Inl (HttpError 422 ''Unprocessable Entity''))"

definition lock_funds_request :: "string \<Rightarrow> string \<Rightarrow> raw \<Rightarrow> raw \<Rightarrow> int \<Rightarrow> string \<Rightarrow> exn + lock_payload" where
  "lock_funds_request service_address token_id amount expiry nonce signature =
     (let a = min_length 1 service_address; t = hex_field 4 token_id; n = amount_field 1 amount;
          x = amount_field 1 expiry; k = at_least 0 nonce; g = hex_field 0 signature in
      model (broken a @ broken t @ broken n @ broken x @ broken k @ broken g)
        \<lparr>lp_service_address = projr a, lp_token_id = projr t, lp_amount = projr n, lp_expiry = projr x,
         lp_nonce = projr k, lp_signature = projr g\<rparr>)"

definition modify_lock_request :: "int \<Rightarrow> raw \<Rightarrow> int \<Rightarrow> int \<Rightarrow> string \<Rightarrow> exn + modify_payload" where
  "modify_lock_request lock_id amount new_expiry nonce signature =
     (let i = at_least 1 lock_id; n = amount_field 0 amount; x = at_least 1 new_expiry; k = at_least 0 nonce;
          g = hex_field 0 signature in
      model (broken i @ broken n @ broken x @ broken k @ broken g)
        \<lparr>mp_lock_id = projr i, mp_amount = projr n, mp_new_expiry = projr x, mp_nonce = projr k, mp_signature = projr g\<rparr>)"

definition transfer_funds_request :: "string \<Rightarrow> string \<Rightarrow> raw \<Rightarrow> int \<Rightarrow> string \<Rightarrow> exn + transfer_payload" where
  "transfer_funds_request to_address token_id amount nonce signature =
     (let a = min_length 1 to_address; t = hex_field 4 token_id; n = amount_field 1 amount; k = at_least 0 nonce;
          g = hex_field 0 signature in
      model (broken a @ broken t @ broken n @ broken k @ broken g)
        \<lparr>tp_to_address = projr a, tp_token_id = projr t, tp_amount = projr n, tp_nonce = projr k, tp_signature = projr g\<rparr>)"

definition transfer_locked_request ::
    "string \<Rightarrow> int \<Rightarrow> string \<Rightarrow> raw \<Rightarrow> int \<Rightarrow> string \<Rightarrow> exn + transfer_locked_payload" where
  "transfer_locked_request user_address lock_id to_address amount nonce signature =
     (let u = min_length 1 user_address; i = at_least 1 lock_id; a = min_length 1 to_address; n = amount_field 1 amount;
          k = at_least 0 nonce; g = hex_field 0 signature in
      model (broken u @ broken i @ broken a @ broken n @ broken k @ broken g)
        \<lparr>tlp_user_address = projr u, tlp_lock_id = projr i, tlp_to_address = projr a, tlp_amount = projr n,
         tlp_nonce = projr k, tlp_signature = projr g\<rparr>)"

definition transfer_to_lock_request :: "string \<Rightarrow> int \<Rightarrow> raw \<Rightarrow> int \<Rightarrow> string \<Rightarrow> exn + to_lock_payload" where
  "transfer_to_lock_request user_address lock_id amount nonce signature =
     (let u = min_length 1 user_address; i = at_least 1 lock_id; n = amount_field 1 amount; k = at_least 0 nonce;
          g = hex_field 0 signature in
      model (broken u @ broken i @ broken n @ broken k @ broken g)
        \<lparr>kp_user_address = projr u, kp_lock_id = projr i, kp_amount = projr n, kp_nonce = projr k, kp_signature = projr g\<rparr>)"

definition withdraw_from_lock_request :: "string \<Rightarrow> int \<Rightarrow> raw \<Rightarrow> raw \<Rightarrow> string \<Rightarrow> exn + from_lock_payload" where
  "withdraw_from_lock_request to_address lock_id amount nonce signature =
     (let a = min_length 1 to_address; i = at_least 1 lock_id; n = amount_field 1 amount; k = amount_field 0 nonce;
          g = hex_field 0 signature in
      model (broken a @ broken i @ broken n @ broken k @ broken g)
        \<lparr>fw_to_address = projr a, fw_lock_id = projr i, fw_amount = projr n, fw_nonce = projr k, fw_signature = projr g\<rparr>)"

definition withdrawal_request :: "string \<Rightarrow> raw \<Rightarrow> raw \<Rightarrow> string \<Rightarrow> exn + withdraw_payload" where
  "withdrawal_request token_id amount nonce signature =
     (let t = hex_field 4 token_id; n = amount_field 1 amount; k = amount_field 0 nonce; g = hex_field 0 signature in
      model (broken t @ broken n @ broken k @ broken g)
        \<lparr>wr_token_id = projr t, wr_amount = projr n, wr_nonce = projr k, wr_signature = projr g\<rparr>)"

definition unlock_funds_request :: "string \<Rightarrow> int \<Rightarrow> exn + string \<times> int" where
  "unlock_funds_request user_address lock_id =
     (let i = at_least 1 lock_id in model (broken i) (user_address, projr i))"

definition MAX_TOKEN_IDS :: nat where "MAX_TOKEN_IDS = 100"

definition batch_balances_request :: "string list \<Rightarrow> exn + string list" where
  "batch_balances_request token_ids =
     (if token_ids = [] \<or> length token_ids > MAX_TOKEN_IDS then Inl (HttpError 422 ''Unprocessable Entity'')
      else Inr (map normalise_hex token_ids))"

definition deposit_check_request :: "int \<Rightarrow> string \<Rightarrow> raw \<Rightarrow> int \<Rightarrow> int \<Rightarrow> exn + claim" where
  "deposit_check_request cid tx_hash amount log_index version =
     (let n = amount_field 1 amount in
      model (broken n)
        \<lparr>cl_chain_type = ''evm'', cl_chain_id = cid, cl_tx_hash = normalise_hex tx_hash, cl_amount = projr n,
         cl_log_index = log_index, cl_version = version\<rparr>)"

definition wallet_field :: "'w a_env \<Rightarrow> string option \<Rightarrow> exn + string option" where
  "wallet_field env value =
     (case value of
        None \<Rightarrow> Inr None
      | Some v \<Rightarrow>
          if \<not> ax_is_address env v then Inl (ValueError ''Invalid wallet_address'')
          else sum_bind (ax_checksum env v) (\<lambda>a. Inr (Some a)))"

definition onramp_intent_request ::
    "'w a_env \<Rightarrow> string option \<Rightarrow> string \<Rightarrow> int \<Rightarrow> string option \<Rightarrow> exn + intent_request" where
  "onramp_intent_request env wallet_address token_id cid moonpay_currency_code =
     (let w = wallet_field env wallet_address; t = normalise_fixed_hex 32 token_id in
      model (broken w @ broken t)
        \<lparr>ci_wallet_address = projr w, ci_token_id = projr t, ci_chain_id = cid,
         ci_moonpay_currency_code = normalise_currency_code moonpay_currency_code\<rparr>)"

section \<open>What an accepted body is\<close>

lemma model_Inr: "model errors v = Inr w \<longleftrightarrow> errors = [] \<and> w = v"
  by (auto simp: model_def split: option.splits)

lemma broken_Inl: "broken (Inl e) = [e]"
  by (simp add: broken_def)

lemma at_least_Inr: "at_least k n = Inr m \<longleftrightarrow> m = n \<and> k \<le> n"
  by (auto simp: at_least_def)

lemma broken_at_least: "broken (at_least k n) = [] \<longleftrightarrow> at_least k n = Inr n \<and> k \<le> n"
  by (simp add: broken_def at_least_def)

lemma broken_amount: "broken (amount_field least v) = [] \<longleftrightarrow> (\<exists>n. amount_field least v = Inr n \<and> least \<le> n)"
  by (cases "parse_int_amount v") (auto simp: amount_field_def broken_def at_least_def)

lemmas accepted = model_Inr broken_at_least broken_amount require_positive_def

text \<open>The bounds of the models are those the service asks for again.\<close>

lemma withdrawal_request_ok:
  "withdrawal_request token_id amount nonce signature = Inr p \<Longrightarrow>
   require_positive (wr_amount p) False = Inr (wr_amount p) \<and> require_positive (wr_nonce p) True = Inr (wr_nonce p)"
  by (auto simp: withdrawal_request_def accepted Let_def)

lemma withdraw_from_lock_request_ok:
  "withdraw_from_lock_request to_address lock_id amount nonce signature = Inr p \<Longrightarrow>
   require_positive (fw_lock_id p) False = Inr (fw_lock_id p) \<and> require_positive (fw_amount p) False = Inr (fw_amount p)
   \<and> require_positive (fw_nonce p) True = Inr (fw_nonce p)"
  by (auto simp: withdraw_from_lock_request_def accepted Let_def)

lemma lock_funds_request_ok:
  "lock_funds_request service_address token_id amount expiry nonce signature = Inr p \<Longrightarrow>
   require_positive (lp_amount p) False = Inr (lp_amount p) \<and> require_positive (lp_expiry p) False = Inr (lp_expiry p)
   \<and> require_positive (lp_nonce p) True = Inr (lp_nonce p)"
  by (auto simp: lock_funds_request_def accepted Let_def)

section \<open>Amounts\<close>

lemma digits_grouped: "s \<noteq> [] \<Longrightarrow> list_all is_digit s \<Longrightarrow> digit_groups s"
proof (induction s rule: digit_groups.induct)
  case (3 c d s)
  then have "d \<noteq> CHR ''_''" by (auto simp: is_digit_def)
  then show ?case using 3 by simp
qed simp_all

lemma dropWhile_none: "\<forall>c \<in> set s. \<not> P c \<Longrightarrow> dropWhile P s = s"
  by (cases s) simp_all

lemma digit_not_space: "is_digit c \<Longrightarrow> \<not> py_space c"
  by (auto simp: is_digit_def py_space_def Let_def)

lemma strip_digits: "list_all is_digit s \<Longrightarrow> py_strip s = s"
  by (simp add: py_strip_def dropWhile_none digit_not_space list_all_iff)

lemma digits_plain:
  assumes "list_all is_digit s"
  shows "CHR ''e'' \<notin> set (ascii_lower s)" "CHR ''.'' \<notin> set s"
proof -
  have "ascii_lower s = s" using assms
    by (induction s) (auto simp: ascii_lower_def ascii_lower_char_def is_digit_def Let_def)
  then show "CHR ''e'' \<notin> set (ascii_lower s)" using assms by (auto simp: list_all_iff is_digit_def)
  show "CHR ''.'' \<notin> set s" using assms by (auto simp: list_all_iff is_digit_def)
qed

lemma py_int_digits: "s \<noteq> [] \<Longrightarrow> list_all is_digit s \<Longrightarrow> length s \<le> MAX_STR_DIGITS \<Longrightarrow> py_int s = Some (int (dec_value s))"
proof -
  assume s: "s \<noteq> []" "list_all is_digit s" "length s \<le> MAX_STR_DIGITS"
  have hd: "hd s \<notin> {CHR ''+'', CHR ''-''}" using s(1,2) by (cases s) (auto simp: is_digit_def)
  have all: "List.filter is_digit s = s" using s(2) by (simp add: filter_id_conv list_all_iff)
  show ?thesis using s hd by (simp add: py_int_def strip_digits digits_grouped all Let_def)
qed

text \<open>An amount written out in full is read as it is, however large, up to 4300 digits.\<close>

lemma amount_text_read:
  assumes "0 \<le> n" "length (int_text n) \<le> MAX_STR_DIGITS"
  shows "parse_int_amount (RawText (int_text n)) = Inr n"
proof -
  have written: "int_text n = nat_text (nat n)" using assms(1) by (simp add: int_text_def)
  have digits: "list_all is_digit (nat_text (nat n))" by (simp add: list_all_iff nat_text_digits)
  have ne: "nat_text (nat n) \<noteq> []" by (subst nat_text.simps) simp
  show ?thesis
    using py_int_digits [OF ne digits] assms
    by (simp add: written strip_digits [OF digits] digits_plain [OF digits] Let_def)
qed

lemma decimal_int_power: "0 \<le> e \<Longrightarrow> decimal_int (False, 1, e) = 10 ^ nat e"
  by (simp add: decimal_int_def signed_def)

text \<open>Eleven characters make an amount of a thousand million digits, which is computed.\<close>

lemma short_text_huge_amount: "parse_int_amount (RawText ''1e999999999'') = Inr (10 ^ nat 999999999)"
proof -
  have parts: "decimal_parts ''1e999999999'' = Some (False, 1, 999999999)"
    by (simp add: decimal_parts_def split_sign_def is_e_def decimal_exponent_def is_digit_def dec_value_def signed_def)
  have v: "py_strip ''1e999999999'' = ''1e999999999''" "CHR ''e'' \<in> set (ascii_lower ''1e999999999'')"
    by (simp_all add: py_strip_def py_space_def ascii_lower_def ascii_lower_char_def)
  have "(0 :: int) \<le> 999999999" by simp
  from decimal_int_power [OF this] show ?thesis
    by (simp only: parse_int_amount.simps Let_def v parts if_True simp_thms option.case)
qed

lemma find_skip: "\<forall>x \<in> set xs. \<not> P x \<Longrightarrow> find P (xs @ ys) = find P ys"
  by (induction xs) simp_all

text \<open>An amount that is no number at all is not refused but ends the request with an error of the server.\<close>

lemma odd_amounts_unanswered:
  assumes "v \<in> {RawText ''1.2.3'', RawFloat Infinite, RawOther}"
  shows "\<exists>m. withdrawal_request token_id v nonce signature = Inl (OtherError m)"
proof -
  have t: "parse_int_amount (RawText ''1.2.3'') = Inl (OtherError ''decimal.InvalidOperation'')" by code_simp
  have "\<exists>m. parse_int_amount v = Inl (OtherError m)"
    using assms t unfolding insert_iff by (elim disjE) (simp_all del: parse_int_amount.simps(4))
  then obtain m where m: "amount_field 1 v = Inl (OtherError m)" by (auto simp: amount_field_def)
  have "\<forall>e \<in> set (broken (hex_field 4 token_id)). is_value_error e"
    by (simp add: broken_def hex_field_def min_length_def)
  then show ?thesis using m
    by (simp add: withdrawal_request_def model_def find_skip broken_Inl Let_def)
qed

end
