(* ===== verification/Deposit_Routes.thy ===== *)
theory Deposit_Routes
  imports Deposit_Discovery Request_Models
begin

text \<open>
  The deposit handlers of \<^verbatim>\<open>src/api/routes.py\<close>: the caller's deposit address, a claim, its status,
  and the scan for deposits that were not claimed. One record puts the states of the sweep engine,
  the deposit verifier, the discovery service and the sign-in service side by side; they share the
  world.
\<close>

record ('w, 'c) deposits =
  do_app :: "'w app"
  do_cache :: 'c
  do_auth :: "'w auth"

record ('w, 'c) deposits_env =
  dq_process :: "'w p_env"
  dq_discovery :: "'w d_env"
  dq_cache :: "('w, 'c) cache_env"
  dq_flow :: "'w flow_env"
  dq_token_infos :: "(int \<times> string option) list"
  dq_is_address :: "string \<Rightarrow> bool"

definition on_app :: "('w app, 'a) py \<Rightarrow> (('w, 'c) deposits, 'a) py" where
  "on_app m = (\<lambda>s. case m (do_app s) of (r, a) \<Rightarrow> (r, s\<lparr>do_app := a\<rparr>))"

definition on_scan :: "(('w, 'c) discovery, 'a) py \<Rightarrow> (('w, 'c) deposits, 'a) py" where
  "on_scan m = (\<lambda>s. case m \<lparr>di_engine = eng (do_app s), di_cache = do_cache s\<rparr> of
     (r, d) \<Rightarrow> (r, s\<lparr>do_app := (do_app s)\<lparr>eng := di_engine d\<rparr>, do_cache := di_cache d\<rparr>))"

definition on_sign_in :: "('w auth, 'a) py \<Rightarrow> (('w, 'c) deposits, 'a) py" where
  "on_sign_in m = (\<lambda>s. case m ((do_auth s)\<lparr>au_world := world (eng (do_app s))\<rparr>) of
     (r, a) \<Rightarrow> (r, s\<lparr>do_auth := a, do_app := (do_app s)\<lparr>eng := (eng (do_app s))\<lparr>world := au_world a\<rparr>\<rparr>\<rparr>))"

definition read_deposit_address :: "('w, 'c) deposits_env \<Rightarrow> string \<Rightarrow> int \<Rightarrow> bytes \<Rightarrow> (('w, 'c) deposits, string) py" where
  "read_deposit_address env chain_type version token =
     on_app (p_await (dq_process env) (pe_deposit_address (dq_process env) chain_type version token))"

section \<open>Answers to errors\<close>

definition deposit_answer :: "string \<Rightarrow> string \<Rightarrow> ('s, 'a) py \<Rightarrow> ('s, 'a) py" where
  "deposit_answer reverted failed m =
     py_catch m (\<lambda>e.
       case e of
         ContractLogic text_of_error \<Rightarrow>
           if contains_text ''Siwe'' text_of_error \<or> contains_text ''InvalidSiwe'' text_of_error
           then py_raise (HttpError 401 ''Invalid or expired SIWE token'')
           else py_raise (HttpError 422 reverted)
       | _ \<Rightarrow> if is_value_error e then py_raise (HttpError 400 (str_exn e)) else py_raise (HttpError 500 failed))"

text \<open>The clauses of \<open>/deposits/pending\<close>.\<close>

definition discovery_answer :: "('s, 'a) py \<Rightarrow> ('s, 'a) py" where
  "discovery_answer m =
     py_catch m (\<lambda>e.
       case e of
         ContractLogic text_of_error \<Rightarrow>
           if contains_text ''Siwe'' text_of_error \<or> contains_text ''InvalidSiwe'' text_of_error
           then py_raise (HttpError 401 ''Invalid or expired SIWE token'')
           else py_raise (HttpError 422 ''Contract call failed'')
       | DiscoveryRPCError msg \<Rightarrow> py_raise (HttpError 502 ''Source-chain RPC unavailable'')
       | NotConfigured msg \<Rightarrow> py_raise (HttpError 503 ''Deposit discovery unavailable for this chain'')
       | HttpError code msg \<Rightarrow> py_raise e
       | _ \<Rightarrow> if is_value_error e then py_raise (HttpError 400 (str_exn e)) else py_raise (HttpError 500 ''Internal error''))"

section \<open>The deposit address\<close>

record deposit_address_response =
  dp_deposit_address :: string
  dp_chain_type :: string
  dp_version :: int
  dp_min_deposit :: "(string \<times> (string \<times> string) list) list"
  dp_finality_depth :: "(string \<times> int) list"

definition wei_text :: "(int \<rightharpoonup> int) \<Rightarrow> int \<Rightarrow> string" where
  "wei_text m cid = int_text (case m cid of None \<Rightarrow> 0 | Some n \<Rightarrow> n)"

definition chain_min :: "(int \<times> chain_config) list \<Rightarrow> (int \<times> string option) list \<Rightarrow> int \<Rightarrow> (string \<times> string) list" where
  "chain_min cfgs token_infos cid =
     (if list_ex (\<lambda>(c, a). c = cid \<and> \<not> given a) token_infos
      then [(''native'', wei_text (MIN_DEPOSIT_NATIVE_WEI cfgs) cid)] else [])
     @ (if list_ex (\<lambda>(c, a). c = cid \<and> given a) token_infos
        then [(''erc20'', wei_text (MIN_DEPOSIT_ERC20_WEI cfgs) cid)] else [])"

definition get_deposit_address ::
    "('w, 'c) deposits_env \<Rightarrow> string \<Rightarrow> int \<Rightarrow> private_read_auth \<Rightarrow> (('w, 'c) deposits, deposit_address_response) py" where
  "get_deposit_address env chain_type version auth =
     deposit_answer ''Contract call failed'' ''Failed to get deposit address''
       (py_bind (read_deposit_address env chain_type version (pr_token auth)) (\<lambda>a.
        py_bind py_get (\<lambda>s.
        let cfgs = configs (pe_sweep (dq_process env));
            chains = map fst (settings_chain_rpc_urls (rpc (eng (do_app s)))) in
        py_ret \<lparr>dp_deposit_address = a, dp_chain_type = chain_type, dp_version = version,
          dp_min_deposit = filter (\<lambda>(cid, m). m \<noteq> [])
            (map (\<lambda>cid. (int_text cid, chain_min cfgs (dq_token_infos env) cid)) chains),
          dp_finality_depth = map (\<lambda>cid. (int_text cid, get_finality_depth cfgs cid)) chains\<rparr>)))"

section \<open>Claims and their status\<close>

text \<open>The response and the HTTP status it goes out with.\<close>

definition check_deposit ::
    "('w, 'c) deposits_env \<Rightarrow> claim \<Rightarrow> private_read_auth \<Rightarrow> (('w, 'c) deposits, int \<times> deposit_response) py" where
  "check_deposit env payload auth =
     deposit_answer ''Deposit credit failed'' ''Internal error''
       (py_bind (on_app (process_deposit (dq_process env) payload auth)) (\<lambda>resp.
        py_ret (if dr_status resp = ''pending'' then 202 else 200, resp)))"

datatype status_response = LocalStatus deposit_response | CreditedOnChain string

definition deposit_status ::
    "('w, 'c) deposits_env \<Rightarrow> string \<Rightarrow> private_read_auth \<Rightarrow> (('w, 'c) deposits, status_response) py" where
  "deposit_status env deposit_id auth =
     (let i = normalise_hex deposit_id; sweep = pe_sweep (dq_process env) in
      py_bind (on_app (on_engine (get_deposit_status sweep i (pr_user_address auth)))) (\<lambda>local_status.
      case local_status of
        Some r \<Rightarrow> py_ret (LocalStatus r)
      | None \<Rightarrow>
          py_bind
            (py_catch
              (py_bind (py_lift (bytes_fromhex (removeprefix ''0x'' i))) (\<lambda>deposit_id_bytes.
               on_app (p_await (dq_process env) (acc_is_deposit_processed sweep deposit_id_bytes))))
              (\<lambda>e. py_raise (HttpError 500 ''Failed to check deposit status''))) (\<lambda>is_processed.
          if is_processed then py_ret (CreditedOnChain i) else py_raise (HttpError 404 ''No deposit found''))))"

section \<open>Deposits that were not claimed\<close>

definition DEPOSITS_PENDING_RATE_LIMIT :: int where "DEPOSITS_PENDING_RATE_LIMIT = 10"
definition SUPPORTED_DEPOSIT_ADDRESS_VERSIONS :: "int list" where "SUPPORTED_DEPOSIT_ADDRESS_VERSIONS = [0]"

text \<open>FastAPI answers 422 to \<open>lookback_blocks\<close> below 1.\<close>

definition get_pending_deposits ::
    "('w, 'c) deposits_env \<Rightarrow> Auth_Config.http_request \<Rightarrow> int \<Rightarrow> int \<Rightarrow> string option \<Rightarrow> int option \<Rightarrow> private_read_auth
     \<Rightarrow> (('w, 'c) deposits, discovery_result) py" where
  "get_pending_deposits env request cid version token_address lookback_blocks auth =
     (if (case lookback_blocks of Some n \<Rightarrow> n \<le> 0 | None \<Rightarrow> False) then py_raise (HttpError 422 ''lookback_blocks'')
      else
        py_then (on_sign_in (enforce_auth_rate_limit (dq_flow env) request ''deposits_pending'' DEPOSITS_PENDING_RATE_LIMIT))
        (if cid \<notin> fst ` set (configs (pe_sweep (dq_process env)))
         then py_raise (HttpError 400 ''Unsupported chain_id'')
         else if version \<notin> set SUPPORTED_DEPOSIT_ADDRESS_VERSIONS
         then py_raise (HttpError 400 ''Unsupported version'')
         else if (case token_address of None \<Rightarrow> False | Some a \<Rightarrow> \<not> dq_is_address env a)
         then py_raise (HttpError 400 ''Invalid token_address'')
         else
           discovery_answer
             (py_bind (read_deposit_address env ''evm'' version (pr_token auth)) (\<lambda>deposit_address.
              on_scan (discover_pending_deposits (dq_discovery env) (dq_cache env) deposit_address (pr_user_address auth)
                cid version token_address lookback_blocks)))))"

section \<open>What the handlers answer\<close>

lemma deposit_answer_Inr [result_simps]: "deposit_answer reverted failed m s = (Inr x, t) \<longleftrightarrow> m s = (Inr x, t)"
proof -
  obtain r u where m: "m s = (r, u)" by (cases "m s")
  show ?thesis
  proof (cases r)
    case (Inl e)
    then show ?thesis using m
      by (cases e) (simp_all add: deposit_answer_def py_catch_def py_try_def py_raise_def)
  next
    case (Inr y)
    then show ?thesis using m by (simp add: deposit_answer_def py_catch_def py_try_def)
  qed
qed

text \<open>A chain is advertised only while it has an endpoint, and only with the kinds of token it is configured for.\<close>

lemma advertised_chains:
  assumes "get_deposit_address env chain_type version auth s = (Inr r, t)"
  shows "\<exists>cids. dp_finality_depth r = map (\<lambda>cid. (int_text cid, get_finality_depth (configs (pe_sweep (dq_process env))) cid)) cids
    \<and> cids = map fst (settings_chain_rpc_urls (rpc (eng (do_app t))))
    \<and> (\<forall>(c, m) \<in> set (dp_min_deposit r). \<exists>cid \<in> set cids. c = int_text cid \<and> m \<noteq> []
         \<and> m = chain_min (configs (pe_sweep (dq_process env))) (dq_token_infos env) cid)"
  using assms
  by (auto simp: get_deposit_address_def deposit_answer_Inr py_bind_Inr py_ret_Inr py_get_def Let_def)

text \<open>A claim is answered with 202 exactly while its sweep is not over.\<close>

lemma claim_status:
  assumes "check_deposit env c auth s = (Inr (code, r), t)"
  shows "code = (if dr_status r = ''pending'' then 202 else 200)"
  using assms
  by (auto simp: check_deposit_def deposit_answer_Inr py_bind_Inr py_ret_Inr)

text \<open>
  The status of an identifier that is not hexadecimal, of which there is no record, is a failure of
  the server: the error of \<open>bytes.fromhex\<close> is caught with those of the node.
\<close>

lemma malformed_status_fails:
  assumes "on_app (on_engine (get_deposit_status (pe_sweep (dq_process env)) (normalise_hex i) (pr_user_address auth))) s = (Inr None, t)"
    and "bytes_fromhex (removeprefix ''0x'' (normalise_hex i)) = Inl (ValueError m)"
  shows "deposit_status env i auth s = (Inl (HttpError 500 ''Failed to check deposit status''), t)"
  using assms by (simp add: deposit_status_def Let_def py_bind_def py_catch_def py_try_def py_lift_def py_raise_def)

end
