(* ===== verification/Transak_Props.thy ===== *)
theory Transak_Props
  imports Transak_Client
begin

text \<open>
  The Transak client: which tokens a webhook is checked against, where the credentials are sent, how
  much of an answer is read, and that a client-address attestation is accepted once. The rows of its
  orders are in \<open>Onramp_Routes\<close>.
\<close>

section \<open>Runs of the service\<close>

text \<open>
  What the tasks of a process do to the service: a refresh or a look at the webhook tokens, under the
  lock, and a request with a token that was cached; \<open>service_request\<close> are the two kinds it sends.
\<close>

definition service_request :: "transak_config \<Rightarrow> http_request \<Rightarrow> bool" where
  "service_request cfg q \<longleftrightarrow>
     (\<exists>filters bounds skip. q = orders_request cfg filters bounds skip)
   \<or> (\<exists>transaction_id wallet ip amount. q = session_request cfg transaction_id wallet ip amount)"

definition was_cached :: "transak_event list \<Rightarrow> access_token \<Rightarrow> bool" where
  "was_cached l tok \<longleftrightarrow> (\<exists>t. Cached tok t \<in> set l)"

inductive transak_run :: "'w transak_env \<Rightarrow> transak_config \<Rightarrow> 'w transak \<Rightarrow> 'w transak \<Rightarrow> bool"
  for env :: "'w transak_env" and cfg :: transak_config where
  run_refl: "transak_run env cfg s s"
| run_world: "transak_run env cfg s t \<Longrightarrow> transak_run env cfg s (t\<lparr>tk_world := w\<rparr>)"
| run_refresh: "transak_run env cfg s t \<Longrightarrow> transak_run env cfg s (snd (refresh_token_locked env cfg t))"
| run_webhook: "transak_run env cfg s t \<Longrightarrow> transak_run env cfg s (snd (webhook_tokens_locked env t))"
| run_send: "transak_run env cfg s t \<Longrightarrow> was_cached (tk_log t) tok \<Longrightarrow> service_request cfg q
    \<Longrightarrow> transak_run env cfg s (snd (http env True (with_accept (with_token cfg q tok)) t))"

definition cooperative :: "'w transak_env \<Rightarrow> transak_config \<Rightarrow> bool" where
  "cooperative env cfg \<longleftrightarrow> (\<forall>s. transak_run env cfg s (tx_others env s))"

definition transak_init :: "'w \<Rightarrow> 'w transak" where
  "transak_init w =
     \<lparr>tk_world = w, tk_current = None, tk_previous = None, tk_previous_valid_until = 0, tk_log = []\<rparr>"

text \<open>The states of a service after any sequence of calls of its operations.\<close>

inductive used :: "'w transak_env \<Rightarrow> transak_config \<Rightarrow> 'w transak \<Rightarrow> bool"
  for env :: "'w transak_env" and cfg :: transak_config where
  used_init: "used env cfg (transak_init w)"
| used_exact: "used env cfg s \<Longrightarrow> used env cfg (snd (get_orders_by_partner_order_id env cfg transaction_id issued_at s))"
| used_wallet: "used env cfg s \<Longrightarrow> used env cfg (snd (get_orders_by_wallet env cfg wallet s))"
| used_session: "used env cfg s \<Longrightarrow>
    used env cfg (snd (create_widget_session env cfg transaction_id wallet ip amount s))"
| used_webhook: "used env cfg s \<Longrightarrow> used env cfg (snd (verify_webhook env (Inr cfg) body s))"

section \<open>What holds in every run\<close>

definition is_cached :: "transak_event \<Rightarrow> bool" where
  "is_cached e \<longleftrightarrow> (case e of Cached tok t \<Rightarrow> True | _ \<Rightarrow> False)"

lemma is_cached_simps [simp]: "is_cached (Cached tok t)" "\<not> is_cached (Requested q)"
  by (simp_all add: is_cached_def)

definition last_cached :: "transak_event list \<Rightarrow> access_token \<Rightarrow> bool" where
  "last_cached l tok \<longleftrightarrow> (\<exists>a t b. l = a @ Cached tok t # b \<and> (\<forall>e \<in> set b. \<not> is_cached e))"

text \<open>\<open>p\<close> was replaced by a token of another value, and serves until \<open>until\<close>.\<close>

definition replaced :: "transak_event list \<Rightarrow> access_token \<Rightarrow> int \<Rightarrow> bool" where
  "replaced l p until \<longleftrightarrow>
     (\<exists>a q t c. l = a @ Cached q t # c \<and> last_cached a p \<and> at_value p \<noteq> at_value q
        \<and> until = min ((at_expires_at p + PREVIOUS_TOKEN_OVERLAP_SECONDS) * SECOND)
                      (t + PREVIOUS_TOKEN_OVERLAP_SECONDS * SECOND))"

lemma last_cached_Cached [simp]: "last_cached (l @ [Cached tok t]) tok"
  unfolding last_cached_def by fastforce

lemma last_cached_Requested: "last_cached l tok \<Longrightarrow> last_cached (l @ [Requested q]) tok"
proof -
  assume "last_cached l tok"
  then obtain a t b where l: "l = a @ Cached tok t # b" "\<forall>e \<in> set b. \<not> is_cached e"
    unfolding last_cached_def by blast
  have "l @ [Requested q] = a @ Cached tok t # (b @ [Requested q])" "\<forall>e \<in> set (b @ [Requested q]). \<not> is_cached e"
    using l by simp_all
  then show ?thesis unfolding last_cached_def by blast
qed

lemma last_cached_was: "last_cached l tok \<Longrightarrow> was_cached l tok"
  unfolding last_cached_def was_cached_def by fastforce

lemma was_cached_append: "was_cached l tok \<Longrightarrow> was_cached (l @ m) tok"
  by (auto simp: was_cached_def)

lemma replaced_append: "replaced l p until \<Longrightarrow> replaced (l @ m) p until"
  unfolding replaced_def by force

text \<open>A request of the client: the refresh, or one with a token cached before.\<close>

definition proper_request :: "transak_config \<Rightarrow> transak_event list \<Rightarrow> http_request \<Rightarrow> bool" where
  "proper_request cfg sofar q \<longleftrightarrow>
     q = with_accept (refresh_request cfg)
   \<or> (\<exists>p tok. service_request cfg p \<and> was_cached sofar tok \<and> q = with_accept (with_token cfg p tok))"

definition tokens_ok :: "transak_config \<Rightarrow> 'w transak \<Rightarrow> bool" where
  "tokens_ok cfg s \<longleftrightarrow>
     (\<forall>tok. tk_current s = Some tok \<longrightarrow> last_cached (tk_log s) tok)
   \<and> (\<forall>p. tk_previous s = Some p \<longrightarrow> replaced (tk_log s) p (tk_previous_valid_until s))
   \<and> (\<forall>a q b. tk_log s = a @ Requested q # b \<longrightarrow> proper_request cfg a q)"

lemma snoc_split:
  assumes "l @ [e] = a @ x # b"
  shows "(a = l \<and> x = e) \<or> (\<exists>c. l = a @ x # c)"
  using assms by (cases b rule: rev_cases) auto

lemma tokens_ok_request:
  assumes "tokens_ok cfg s" "proper_request cfg (tk_log s) q"
  shows "tokens_ok cfg (s\<lparr>tk_world := w, tk_log := tk_log s @ [Requested q]\<rparr>)"
  using assms unfolding tokens_ok_def
  by (auto simp: last_cached_Requested replaced_append dest!: snoc_split)

lemma tokens_ok_world [simp]: "tokens_ok cfg (s\<lparr>tk_world := w\<rparr>) = tokens_ok cfg s"
  by (simp add: tokens_ok_def)

lemma tokens_ok_store: "tokens_ok cfg s \<Longrightarrow> tokens_ok cfg (store_token tok now s)"
  unfolding tokens_ok_def store_token_def Let_def
  by (auto simp: replaced_append split: option.splits dest!: snoc_split) (auto simp: replaced_def)

lemma tokens_ok_webhook: "tokens_ok cfg s \<Longrightarrow> tokens_ok cfg (snd (webhook_tokens now s))"
  unfolding tokens_ok_def webhook_tokens_def Let_def by (auto split: option.splits)

lemma tokens_ok_now [keeps_intros]: "keeps (tokens_ok cfg) (now_ticks env)"
  by (simp add: keeps_def now_ticks_def split: prod.splits)

lemma tokens_ok_http:
  assumes "tokens_ok cfg s" "proper_request cfg (tk_log s) q"
  shows "tokens_ok cfg (snd (http env True q s))"
  using tokens_ok_request [OF assms] by (simp add: http_def split: prod.splits)

lemma tokens_ok_refresh: "keeps (tokens_ok cfg) (refresh_token_locked env cfg)"
proof -
  have "keeps (tokens_ok cfg) (http env True (with_accept (refresh_request cfg)))"
    unfolding keeps_def by (auto intro!: tokens_ok_http simp: proper_request_def)
  then show ?thesis
    unfolding refresh_token_locked_def json_request_def
    by (auto intro!: keeps_intros keeps_modify tokens_ok_store split: prod.splits)
qed

lemma tokens_ok_locked: "keeps (tokens_ok cfg) (webhook_tokens_locked (env :: 'w transak_env))"
  unfolding keeps_def
proof (intro allI impI)
  fix s :: "'w transak"
  assume s: "tokens_ok cfg s"
  obtain now w where w: "tx_now env (tk_world s) = (now, w)" by fastforce
  obtain ts t where t: "webhook_tokens now (s\<lparr>tk_world := w\<rparr>) = (ts, t)" by fastforce
  have "tokens_ok cfg t" using tokens_ok_webhook [of cfg "s\<lparr>tk_world := w\<rparr>" now] s t by simp
  then show "tokens_ok cfg (snd (webhook_tokens_locked env s))"
    by (simp add: webhook_tokens_locked_def now_ticks_def w t py_bind_def py_get_def py_then_def py_modify_def
        py_lift_def unconfigured_def py_ret_def split: prod.splits)
qed

lemma tokens_ok_run: "transak_run env cfg s t \<Longrightarrow> tokens_ok cfg s \<Longrightarrow> tokens_ok cfg t"
proof (induction rule: transak_run.induct)
  case (run_refresh s t)
  then show ?case using tokens_ok_refresh [of cfg env] by (simp add: keeps_def)
next
  case (run_webhook s t)
  then show ?case using tokens_ok_locked [of cfg env] by (simp add: keeps_def)
next
  case (run_send s t tok q)
  then have "proper_request cfg (tk_log t) (with_accept (with_token cfg q tok))"
    unfolding proper_request_def by blast
  with run_send show ?case by (simp add: tokens_ok_http)
qed simp_all

lemma tokens_ok_init: "tokens_ok cfg (transak_init w)"
  by (simp add: tokens_ok_def transak_init_def)

lemma run_trans: "transak_run env cfg t u \<Longrightarrow> transak_run env cfg s t \<Longrightarrow> transak_run env cfg s u"
  by (induction rule: transak_run.induct) (auto intro: transak_run.intros)

section \<open>The operations are runs\<close>

text \<open>\<open>known\<close> are tokens a task holds; they were cached.\<close>

definition reached :: "'w transak_env \<Rightarrow> transak_config \<Rightarrow> access_token set \<Rightarrow> 'w transak \<Rightarrow> bool" where
  "reached env cfg known s \<longleftrightarrow>
     (\<exists>w. transak_run env cfg (transak_init w) s) \<and> (\<forall>tok \<in> known. was_cached (tk_log s) tok)"

definition extends :: "transak_event list \<Rightarrow> 'w transak \<Rightarrow> bool" where
  "extends l s \<longleftrightarrow> (\<exists>m. tk_log s = l @ m)"

lemma extends_now [keeps_intros]: "keeps (extends l) (now_ticks env)"
  by (simp add: keeps_def now_ticks_def extends_def split: prod.splits)

lemma extends_http [keeps_intros]: "keeps (extends l) (http env True q)"
  by (auto simp: keeps_def http_def extends_def split: prod.splits)

lemma extends_store: "extends l s \<Longrightarrow> extends l (store_token tok now s)"
  by (auto simp: extends_def store_token_def Let_def split: option.splits)

lemma log_grows: "transak_run env cfg s t \<Longrightarrow> \<exists>l. tk_log t = tk_log s @ l"
proof (induction rule: transak_run.induct)
  case (run_refresh s t)
  have "keeps (extends (tk_log t)) (refresh_token_locked env cfg)"
    unfolding refresh_token_locked_def json_request_def
    by (auto intro!: keeps_intros keeps_modify extends_store split: prod.splits)
  then have "extends (tk_log t) (snd (refresh_token_locked env cfg t))" by (simp add: keeps_def extends_def)
  with run_refresh show ?case by (auto simp: extends_def)
next
  case (run_webhook s t)
  have "keeps (\<lambda>u. tk_log u = tk_log t) (webhook_tokens_locked env)"
    unfolding webhook_tokens_locked_def now_ticks_def webhook_tokens_def Let_def keeps_def
    by (simp add: py_bind_def py_get_def py_then_def py_modify_def py_lift_def unconfigured_def py_ret_def
        split: prod.splits option.splits)
  with run_webhook show ?case by (simp add: keeps_def)
next
  case (run_send s t tok q)
  then show ?case by (auto simp: http_def split: prod.splits)
qed simp_all

lemma reached_ok: "reached env cfg known s \<Longrightarrow> tokens_ok cfg s"
proof -
  assume "reached env cfg known s"
  then obtain w where "transak_run env cfg (transak_init w) s" unfolding reached_def by (elim conjE exE)
  then show ?thesis by (rule tokens_ok_run) (rule tokens_ok_init)
qed

lemma reached_more:
  assumes "reached env cfg known s" "transak_run env cfg s t"
  shows "reached env cfg known t"
proof -
  obtain w where "transak_run env cfg (transak_init w) s" using assms(1) unfolding reached_def by (elim conjE exE)
  then have "transak_run env cfg (transak_init w) t" by (rule run_trans [OF assms(2)])
  moreover obtain l where "tk_log t = tk_log s @ l" using log_grows [OF assms(2)] by (elim exE)
  ultimately show ?thesis using assms(1) unfolding reached_def by (auto intro: was_cached_append)
qed

lemma reached_now [keeps_intros]: "keeps (reached env cfg known) (now_ticks env)"
  unfolding keeps_def
proof (intro allI impI)
  fix s :: "'a transak"
  assume "reached env cfg known s"
  then have "\<And>w. reached env cfg known (s\<lparr>tk_world := w\<rparr>)" by (rule reached_more [OF _ run_world [OF run_refl]])
  then show "reached env cfg known (snd (now_ticks env s))" by (simp add: now_ticks_def split: prod.splits)
qed

lemma reached_lock: "cooperative env cfg \<Longrightarrow> keeps (reached env cfg known) (take_lock env)"
  unfolding keeps_def take_lock_def py_modify_def cooperative_def by (auto elim!: reached_more)

lemma reached_refresh: "keeps (reached env cfg known) (refresh_token_locked env cfg)"
  unfolding keeps_def by (meson reached_more run_refl run_refresh)

lemma reached_locked: "keeps (reached env cfg known) (webhook_tokens_locked env)"
  unfolding keeps_def by (meson reached_more run_refl run_webhook)

lemma http_unlocked:
  "snd (http env False q s) = tx_others env (snd (http env True q s))"
  by (simp add: http_def Let_def split: prod.splits)

lemma reached_http:
  assumes "cooperative env cfg" "tok \<in> known" "service_request cfg q"
  shows "keeps (reached env cfg known) (http env False (with_accept (with_token cfg q tok)))"
  unfolding keeps_def
proof (intro allI impI)
  fix s
  assume s: "reached env cfg known s"
  then have "was_cached (tk_log s) tok" using assms(2) unfolding reached_def by blast
  then have "reached env cfg known (snd (http env True (with_accept (with_token cfg q tok)) s))"
    using reached_more [OF s run_send [OF run_refl _ assms(3)]] by blast
  then show "reached env cfg known (snd (http env False (with_accept (with_token cfg q tok)) s))"
    unfolding http_unlocked using assms(1) reached_more unfolding cooperative_def by blast
qed

lemma reached_request:
  "cooperative env cfg \<Longrightarrow> tok \<in> known \<Longrightarrow> service_request cfg q
   \<Longrightarrow> keeps (reached env cfg known) (json_request env False (with_token cfg q tok))"
  unfolding json_request_def by (auto intro!: keeps_intros reached_http split: prod.splits)

lemma keeps_bind_token:
  assumes "keeps (reached env cfg known) m"
    and "\<And>s tok t. reached env cfg known s \<Longrightarrow> m s = (Inr tok, t) \<Longrightarrow> was_cached (tk_log t) tok"
    and "\<And>tok. keeps (reached env cfg (insert tok known)) (f tok)"
  shows "keeps (reached env cfg known) (py_bind m f)"
  unfolding keeps_def
proof (intro allI impI)
  fix s
  assume s: "reached env cfg known s"
  obtain r t where m: "m s = (r, t)" by fastforce
  have t: "reached env cfg known t" by (rule keepsD [OF assms(1) s m])
  show "reached env cfg known (snd (py_bind m f s))"
  proof (cases r)
    case (Inr tok)
    then have "reached env cfg (insert tok known) t" using t assms(2) [OF s] m unfolding reached_def by blast
    then have "reached env cfg (insert tok known) (snd (f tok t))" using assms(3) unfolding keeps_def by blast
    then show ?thesis using m Inr by (simp add: py_bind_def reached_def)
  qed (use t m in \<open>simp add: py_bind_def\<close>)
qed

lemma usable_cases:
  "usable env wanted otherwise s = (Inr tok, t) \<Longrightarrow>
     (tk_current s = Some tok \<and> tk_log t = tk_log s) \<or> (\<exists>w. otherwise (s\<lparr>tk_world := w\<rparr>) = (Inr tok, t)) \<or> otherwise s = (Inr tok, t)"
  unfolding usable_def
  by (auto simp: py_bind_def py_get_def py_ret_def now_ticks_def split: option.splits if_splits prod.splits)

lemma keeps_usable: "keeps (reached env cfg known) otherwise \<Longrightarrow> keeps (reached env cfg known) (usable env wanted otherwise)"
  unfolding usable_def by (auto intro!: keeps_intros split: option.splits)

lemma store_token_log [simp]: "tk_log (store_token tok now s) = tk_log s @ [Cached tok now]"
  by (simp add: store_token_def Let_def split: option.splits)

lemma refreshed_cached: "refresh_token_locked env cfg s = (Inr tok, t) \<Longrightarrow> was_cached (tk_log t) tok"
  unfolding refresh_token_locked_def
  by (auto simp: result_simps store_token_log was_cached_def split: if_splits)

lemma current_cached: "reached env cfg known s \<Longrightarrow> tk_current s = Some tok \<Longrightarrow> was_cached (tk_log s) tok"
  using reached_ok last_cached_was unfolding tokens_ok_def by blast

lemma usable_cached:
  assumes "reached env cfg known s" "usable env wanted otherwise s = (Inr tok, t)"
    and "\<And>u. reached env cfg known u \<Longrightarrow> otherwise u = (Inr tok, t) \<Longrightarrow> was_cached (tk_log t) tok"
  shows "was_cached (tk_log t) tok"
  using usable_cases [OF assms(2)] current_cached [OF assms(1)] assms(3)
    reached_more [OF assms(1) run_world [OF run_refl]] assms(1) by metis

lemma locked_usable_cached:
  assumes "cooperative env cfg" "reached env cfg known s"
    "py_then (take_lock env) (usable env wanted (refresh_token_locked env cfg)) s = (Inr tok, t)"
  shows "was_cached (tk_log t) tok"
proof -
  obtain u where u: "u = tx_others env s" "usable env wanted (refresh_token_locked env cfg) u = (Inr tok, t)"
    using assms(3) by (auto simp: py_then_def py_bind_def take_lock_def py_modify_def)
  have "reached env cfg known u" using reached_more assms(1,2) u(1) unfolding cooperative_def by blast
  from usable_cached [OF this u(2)] show ?thesis using refreshed_cached by blast
qed

lemma access_token_cached:
  assumes "cooperative env cfg" "reached env cfg known s" "access_token env cfg s = (Inr tok, t)"
  shows "was_cached (tk_log t) tok"
  using usable_cached [OF assms(2) assms(3) [unfolded access_token_def]] locked_usable_cached [OF assms(1)] by blast

lemma reached_access:
  "cooperative env cfg \<Longrightarrow> keeps (reached env cfg known) (access_token env cfg)"
  unfolding access_token_def by (intro keeps_usable keeps_intros reached_lock reached_refresh)

lemma reached_unauthorized:
  "cooperative env cfg \<Longrightarrow> keeps (reached env cfg known) (refresh_after_unauthorized env rejected cfg)"
  unfolding refresh_after_unauthorized_def by (intro keeps_usable keeps_intros reached_lock reached_refresh)

lemma reached_authenticated:
  assumes "cooperative env cfg" "service_request cfg q"
  shows "keeps (reached env cfg known) (authenticated_json_request env cfg q operation exact)"
  unfolding authenticated_json_request_def
proof (rule keeps_bind_token)
  fix tok
  have "keeps (reached env cfg (insert tok known)) (py_bind (refresh_after_unauthorized env tok cfg) (\<lambda>fresh.
             json_request env False (with_token cfg q fresh)))"
  proof (rule keeps_bind_token)
    show "\<And>s fresh t. reached env cfg (insert tok known) s \<Longrightarrow> refresh_after_unauthorized env tok cfg s = (Inr fresh, t)
        \<Longrightarrow> was_cached (tk_log t) fresh"
      unfolding refresh_after_unauthorized_def using locked_usable_cached [OF assms(1)] by blast
  qed (auto intro!: reached_unauthorized reached_request assms)
  then show "keeps (reached env cfg (insert tok known)) (py_bind (json_request env False (with_token cfg q tok)) (\<lambda>first.
     py_bind
       (if aa_status first = 401
        then py_bind (refresh_after_unauthorized env tok cfg) (\<lambda>fresh.
             json_request env False (with_token cfg q fresh))
        else py_ret first) (\<lambda>answer.
     if exact \<and> is_exact_order_not_found answer
     then py_ret (VDict [(unicode_of ''data'', VList [])])
     else py_lift (successful_payload operation answer))))"
    by (auto intro!: keeps_intros reached_request assms)
qed (use access_token_cached [OF assms(1)] in \<open>auto intro!: reached_access assms(1)\<close>)

lemma reached_orders:
  "cooperative env cfg \<Longrightarrow>
   keeps (reached env cfg known) (get_orders_from env cfg filters date_bounds exact page left orders)"
proof (induction left arbitrary: page orders)
  case (Suc left)
  have "service_request cfg (orders_request cfg filters date_bounds skip)" for skip
    unfolding service_request_def by blast
  with Suc show ?case
    by (auto simp: Let_def intro!: keeps_intros reached_authenticated split: prod.splits)
qed (auto intro!: keeps_intros)

lemma reached_session: "cooperative env cfg \<Longrightarrow>
    keeps (reached env cfg known) (create_widget_session env cfg transaction_id wallet ip amount)"
proof -
  assume "cooperative env cfg"
  moreover have "service_request cfg (session_request cfg transaction_id w ip amount)" for w
    unfolding service_request_def by blast
  ultimately show ?thesis
    unfolding create_widget_session_def by (auto intro!: keeps_intros reached_authenticated)
qed

lemma reached_verify: "cooperative env cfg \<Longrightarrow> keeps (reached env cfg known) (verify_webhook env loaded body)"
  unfolding verify_webhook_def cached_webhook_verification_tokens_def
  by (intro keeps_intros reached_lock reached_locked)

lemma used_reached: "used env cfg s \<Longrightarrow> cooperative env cfg \<Longrightarrow> reached env cfg {} s"
proof (induction rule: used.induct)
  case (used_init w)
  then show ?case unfolding reached_def using run_refl by blast
next
  case (used_exact s transaction_id issued_at)
  have "keeps (reached env cfg {}) (get_orders_by_partner_order_id env cfg transaction_id issued_at)"
    unfolding get_orders_by_partner_order_id_def by (intro keeps_intros reached_orders used_exact)
  with used_exact show ?case by (simp add: keeps_def)
next
  case (used_wallet s wallet)
  have "keeps (reached env cfg {}) (get_orders_by_wallet env cfg wallet)"
    unfolding get_orders_by_wallet_def by (intro keeps_intros reached_orders used_wallet)
  with used_wallet show ?case by (simp add: keeps_def)
next
  case (used_session s)
  then show ?case using reached_session [OF used_session.prems] unfolding keeps_def by blast
next
  case (used_webhook s)
  then show ?case using reached_verify [OF used_webhook.prems] unfolding keeps_def by blast
qed

section \<open>Webhooks and credentials\<close>

lemma try_tokens_Inr: "try_tokens decode ks = Inr d \<Longrightarrow> \<exists>k \<in> set ks. decode k = Inr (VDict d)"
  by (induction ks)
    (auto simp: webhook_event_def refused_def Let_def split: sum.splits if_splits jvalue.splits)

lemma webhook_tokens_origin:
  assumes "k \<in> set (fst (webhook_tokens now s))"
  shows "\<exists>tok. at_value tok = k \<and>
     ((tk_current s = Some tok \<and> now \<le> (at_expires_at tok + PREVIOUS_TOKEN_OVERLAP_SECONDS) * SECOND)
      \<or> (tk_previous s = Some tok \<and> now \<le> tk_previous_valid_until s))"
  using assms unfolding webhook_tokens_def Let_def by (auto split: option.splits if_splits)

lemma webhook_tokens_log [simp]: "tk_log (snd (webhook_tokens now s)) = tk_log s"
  unfolding webhook_tokens_def Let_def by (auto split: option.splits)

text \<open>
  C34. A webhook is accepted only if its JWT verifies under the token cached last, up to fifteen
  minutes past its expiry, or under the token it replaced, up to fifteen minutes past the replacement
  and its own expiry; and the check mints no token and sends nothing.
\<close>

theorem webhook_token_fresh:
  assumes "cooperative env cfg" "used env cfg s" "verify_webhook env (Inr cfg) raw s = (Inr d, t)"
  shows "\<exists>encoded tok now. webhook_token (tx_orders env) raw = Inr encoded
     \<and> tx_jwt env (tk_world t) encoded (at_value tok) = Inr (VDict d)
     \<and> now = fst (tx_now env (tk_world (tx_others env s)))
     \<and> tk_log t = tk_log (tx_others env s)
     \<and> ((last_cached (tk_log t) tok \<and> now \<le> (at_expires_at tok + PREVIOUS_TOKEN_OVERLAP_SECONDS) * SECOND)
        \<or> (\<exists>until. replaced (tk_log t) tok until \<and> now \<le> until))"
proof -
  define u where "u = tx_others env s"
  obtain now w where w: "tx_now env (tk_world u) = (now, w)" by fastforce
  define v where "v = u\<lparr>tk_world := w\<rparr>"
  obtain ts t' where v: "webhook_tokens now v = (ts, t')" by fastforce
  obtain encoded where e: "webhook_token (tx_orders env) raw = Inr encoded"
    "try_tokens (tx_jwt env (tk_world t) encoded) ts = Inr d" "t = t'"
    using assms(3) w v
    by (auto simp: verify_webhook_def cached_webhook_verification_tokens_def webhook_tokens_locked_def result_simps
        take_lock_def now_ticks_def py_get_def u_def [symmetric] v_def [symmetric] unconfigured_def split: prod.splits if_splits)
  obtain k where k: "k \<in> set ts" "tx_jwt env (tk_world t) encoded k = Inr (VDict d)"
    using try_tokens_Inr [OF e(2)] by blast
  have "tokens_ok cfg s" by (rule reached_ok [OF used_reached [OF assms(2,1)]])
  then have "tokens_ok cfg v" unfolding v_def u_def tokens_ok_world
    using assms(1) tokens_ok_run unfolding cooperative_def by blast
  moreover have log: "tk_log t = tk_log v" using e(3) v webhook_tokens_log [of now v] by simp
  ultimately obtain tok where "at_value tok = k"
    "(last_cached (tk_log t) tok \<and> now \<le> (at_expires_at tok + PREVIOUS_TOKEN_OVERLAP_SECONDS) * SECOND)
        \<or> (\<exists>until. replaced (tk_log t) tok until \<and> now \<le> until)"
    using webhook_tokens_origin [of k now v] k(1) v unfolding tokens_ok_def by auto
  then show ?thesis using e(1) k(2) w log unfolding v_def u_def by (auto simp: v_def)
qed

text \<open>
  C35. The API secret is sent only to the refresh endpoint; an access token only to the order and session
  endpoints of the configured hosts, and only one the refresh endpoint gave before.
\<close>

theorem credentials_confined:
  assumes "cooperative env cfg" "used env cfg s" "tk_log s = pre @ Requested q # post"
  shows "(\<forall>v. (''api-secret'', v) \<in> set (hq_headers q)
            \<longrightarrow> hq_url q = tc_api_base_url cfg @ ''/partners/api/v2/refresh-token'')
    \<and> (\<forall>v. (''access-token'', v) \<in> set (hq_headers q)
            \<longrightarrow> hq_url q \<in> {tc_api_base_url cfg @ ''/partners/api/v2/orders'', tc_gateway_base_url cfg @ ''/api/v2/auth/session''}
              \<and> (\<exists>tok t. Cached tok t \<in> set pre \<and> v = at_value tok))"
proof -
  have "proper_request cfg pre q"
    using reached_ok [OF used_reached [OF assms(2,1)]] assms(3) unfolding tokens_ok_def by blast
  then show ?thesis
    unfolding proper_request_def service_request_def was_cached_def
    by (auto simp: with_accept_def with_token_def refresh_request_def orders_request_def session_request_def)
qed

section \<open>Attestations\<close>

fun attest_all :: "'w transak_env \<Rightarrow> transak_config \<Rightarrow> ip_mode \<Rightarrow> (string \<times> attestation \<times> int) list \<Rightarrow> nonces
    \<Rightarrow> (exn + string) list \<times> nonces" where
  "attest_all env cfg mode [] seen = ([], seen)"
| "attest_all env cfg mode ((transaction_id, a, now) # calls) seen =
     (case verify_ip_attestation env cfg mode transaction_id a now seen of
        (r, seen') \<Rightarrow> (case attest_all env cfg mode calls seen' of (rs, last_seen) \<Rightarrow> (r # rs, last_seen)))"

lemma verify_cases:
  assumes "verify_ip_attestation env cfg mode transaction_id a now seen = (r, seen')"
  obtains (early) e where "r = Inl e" "seen' = seen"
  | (late) ip where "check_attestation env cfg mode transaction_id a now = Inr ip"
      "py_then (reserve_ip_attestation_nonce (ia_nonce a) (ia_expires_at a) now) (py_ret ip) seen = (r, seen')"
proof (cases "r = Inl (case r of Inl e \<Rightarrow> e) \<and> seen' = seen")
  case False
  show ?thesis
    by (rule late [of "case check_attestation env cfg mode transaction_id a now of Inr ip \<Rightarrow> ip"])
      (use assms False in \<open>auto simp: verify_ip_attestation_def py_lift_def py_bind_def refused_def not_configured_def
        unconfigured_def split: ip_mode.splits if_splits sum.splits\<close>)
qed (use early in blast)

lemma reserve_cases:
  assumes "py_then (reserve_ip_attestation_nonce n x now) (py_ret ip) seen = (r, seen')"
  defines "kept \<equiv> List.filter (\<lambda>(n, x). now < x * SECOND) seen"
  shows "(\<exists>e. r = Inl e \<and> seen' = kept)
    \<or> (r = Inr ip \<and> seen' = kept @ [(n, x)] \<and> n \<notin> fst ` set kept \<and> length kept < IP_ATTESTATION_MAX_NONCES)"
  using assms
  by (auto simp: reserve_ip_attestation_nonce_def py_then_def py_bind_def py_modify_def py_get_def py_lift_def
      py_ret_def refused_def not_le split: if_splits)

lemma seen_stays:
  assumes "verify_ip_attestation env cfg mode transaction_id a now seen = (r, seen')" "(n, x) \<in> set seen" "now < x * SECOND"
  shows "(n, x) \<in> set seen' \<and> (ia_nonce a = n \<longrightarrow> (\<forall>ip. r \<noteq> Inr ip))"
  using assms(1)
proof (cases rule: verify_cases)
  case (late ip)
  have "(n, x) \<in> set (List.filter (\<lambda>(n, x). now < x * SECOND) seen)" using assms(2,3) by simp
  then show ?thesis using reserve_cases [OF late(2)] by force
qed (use assms in auto)

lemma seen_refuses:
  "attest_all env cfg mode calls seen = (rs, seen') \<Longrightarrow> (n, x) \<in> set seen \<Longrightarrow> sorted (map (snd \<circ> snd) calls)
   \<Longrightarrow> k < length calls \<Longrightarrow> snd (snd (calls ! k)) < x * SECOND \<Longrightarrow> ia_nonce (fst (snd (calls ! k))) = n
   \<Longrightarrow> rs ! k \<noteq> Inr ip"
proof (induction calls arbitrary: seen rs k)
  case (Cons c calls)
  obtain transaction_id a now where c: "c = (transaction_id, a, now)" by (cases c) auto
  obtain r mid where r: "verify_ip_attestation env cfg mode transaction_id a now seen = (r, mid)" by fastforce
  obtain qs where q: "attest_all env cfg mode calls mid = (qs, seen')" "rs = r # qs"
    using Cons.prems(1) r by (auto simp: c split: prod.splits)
  have "now \<le> snd (snd ((c # calls) ! k))"
    using Cons.prems(3,4) by (cases k) (auto simp: c)
  then have "now < x * SECOND" using Cons.prems(5) by simp
  note s = seen_stays [OF r Cons.prems(2) this]
  show ?case
  proof (cases k)
    case 0
    then show ?thesis using s Cons.prems(6) by (simp add: c q(2))
  next
    case (Suc i)
    then show ?thesis
      using Cons.IH [OF q(1) conjunct1 [OF s], of i] Cons.prems(3-6) by (simp add: q(2))
  qed
qed simp

lemma accepted_seen:
  assumes "verify_ip_attestation env cfg mode transaction_id a now seen = (Inr ip, seen')"
  shows "(ia_nonce a, ia_expires_at a) \<in> set seen'"
  using assms by (cases rule: verify_cases) (use reserve_cases in force)+

lemma accepted_twice:
  "attest_all env cfg mode calls seen = (rs, seen') \<Longrightarrow> sorted (map (snd \<circ> snd) calls)
   \<Longrightarrow> i < j \<Longrightarrow> j < length calls \<Longrightarrow> rs ! i = Inr ip \<Longrightarrow> rs ! j = Inr ip'
   \<Longrightarrow> ia_nonce (fst (snd (calls ! i))) = ia_nonce (fst (snd (calls ! j)))
   \<Longrightarrow> ia_expires_at (fst (snd (calls ! i))) * SECOND \<le> snd (snd (calls ! j))"
proof (induction calls arbitrary: seen rs i j)
  case (Cons c calls)
  obtain transaction_id a now where c: "c = (transaction_id, a, now)" by (cases c) auto
  obtain r mid where r: "verify_ip_attestation env cfg mode transaction_id a now seen = (r, mid)" by fastforce
  obtain qs where q: "attest_all env cfg mode calls mid = (qs, seen')" "rs = r # qs"
    using Cons.prems(1) r by (auto simp: c split: prod.splits)
  obtain k where k: "j = Suc k" using Cons.prems(3) by (cases j) auto
  show ?case
  proof (cases i)
    case 0
    then have "(ia_nonce a, ia_expires_at a) \<in> set mid"
      using accepted_seen r Cons.prems(5) by (simp add: q(2))
    note no = seen_refuses [OF q(1) this, of k ip']
    have "sorted (map (snd \<circ> snd) calls)" using Cons.prems(2) by (simp add: comp_def)
    moreover have "k < length calls" "qs ! k = Inr ip'" "ia_nonce (fst (snd (calls ! k))) = ia_nonce a"
      using Cons.prems(2,4,6,7) 0 by (simp_all add: c k q(2))
    ultimately have "\<not> snd (snd (calls ! k)) < ia_expires_at a * SECOND" using no by blast
    then show ?thesis by (simp add: c k 0)
  next
    case (Suc h)
    then show ?thesis using Cons.IH [OF q(1), of h k] Cons.prems by (simp add: q(2) k)
  qed
qed simp

lemma attested_size:
  "attest_all env cfg mode calls seen = (rs, seen') \<Longrightarrow> length seen \<le> IP_ATTESTATION_MAX_NONCES
   \<Longrightarrow> length seen' \<le> IP_ATTESTATION_MAX_NONCES"
proof (induction calls arbitrary: seen rs)
  case (Cons c calls)
  obtain transaction_id a now where c: "c = (transaction_id, a, now)" by (cases c) auto
  obtain r mid where r: "verify_ip_attestation env cfg mode transaction_id a now seen = (r, mid)" by fastforce
  obtain qs where q: "attest_all env cfg mode calls mid = (qs, seen')"
    using Cons.prems(1) r by (auto simp: c split: prod.splits)
  have "length mid \<le> IP_ATTESTATION_MAX_NONCES"
    using r
  proof (cases rule: verify_cases)
    case (late ip)
    have "length (List.filter (\<lambda>(n, x). now < x * SECOND) seen) \<le> IP_ATTESTATION_MAX_NONCES"
      using length_filter_le Cons.prems(2) by (rule le_trans)
    with reserve_cases [OF late(2)] show ?thesis by auto
  qed (use Cons.prems(2) in simp)
  then show ?case by (rule Cons.IH [OF q])
qed simp

lemma accepted_expiry:
  assumes "verify_ip_attestation env cfg mode transaction_id a now seen = (Inr ip, seen')"
  shows "now < ia_expires_at a * SECOND"
  using assms
proof (cases rule: verify_cases)
  case (late ip')
  then show ?thesis
    by (auto simp: check_attestation_def refused_def split: if_splits)
qed simp

lemma attested_result:
  "attest_all env cfg mode calls seen = (rs, seen') \<Longrightarrow> k < length calls
   \<Longrightarrow> \<exists>u v. verify_ip_attestation env cfg mode (fst (calls ! k)) (fst (snd (calls ! k))) (snd (snd (calls ! k))) u = (rs ! k, v)"
proof (induction calls arbitrary: seen rs k)
  case (Cons c calls)
  obtain transaction_id a now where c: "c = (transaction_id, a, now)" by (cases c) auto
  obtain r mid where r: "verify_ip_attestation env cfg mode transaction_id a now seen = (r, mid)" by fastforce
  obtain qs where q: "attest_all env cfg mode calls mid = (qs, seen')" "rs = r # qs"
    using Cons.prems(1) r by (auto simp: c split: prod.splits)
  show ?case
  proof (cases k)
    case (Suc i)
    then show ?thesis using Cons.IH [OF q(1), of i] Cons.prems(2) by (simp add: q(2))
  qed (use r in \<open>auto simp: c q(2)\<close>)
qed simp

text \<open>
  C36. However often clients present attestations, at times that do not go back, one is accepted at most
  once; and the table of nonces never grows past its bound.
\<close>

theorem attestation_once:
  assumes "attest_all env cfg mode calls [] = (rs, seen)" "sorted (map (snd \<circ> snd) calls)"
    "i < length calls" "j < length calls" "rs ! i = Inr ip" "rs ! j = Inr ip'"
    "fst (snd (calls ! i)) = fst (snd (calls ! j))"
  shows "i = j \<and> length seen \<le> 10000"
proof -
  have "\<not> k < l" if k: "k < length calls" "l < length calls" "rs ! k = Inr x" "rs ! l = Inr y"
    "fst (snd (calls ! k)) = fst (snd (calls ! l))" for k l x y
  proof
    assume "k < l"
    have "ia_expires_at (fst (snd (calls ! k))) * SECOND \<le> snd (snd (calls ! l))"
      by (rule accepted_twice [OF assms(1,2) \<open>k < l\<close> k(2-4)]) (simp add: k(5))
    moreover have "snd (snd (calls ! l)) < ia_expires_at (fst (snd (calls ! l))) * SECOND"
      using attested_result [OF assms(1) k(2)] accepted_expiry k(4) by fastforce
    ultimately show False by (simp add: k(5))
  qed
  from this [of i j] this [of j i] assms(3-7) have "i = j" by (metis linorder_less_linear)
  with attested_size [OF assms(1)] show ?thesis by (simp add: IP_ATTESTATION_MAX_NONCES_def)
qed

text \<open>
  C37. An accepted attestation carries the edge's signature over this deployment's domain, the hash of
  this intent, the address and its window; it is valid now and for at most ninety seconds, and its
  address is the canonical text of a public one.
\<close>

theorem attestation_accepted_sound:
  assumes "verify_ip_attestation env cfg mode transaction_id a now seen = (Inr ip, seen')"
  shows "\<exists>secret info. mode = AttestedMode secret
     \<and> ia_signature a = bytes_hex (hmac_digest (ie_sha256 (oe_intent (tx_orders env))) (utf8 secret)
          (utf8 (attestation_message env cfg transaction_id a)))
     \<and> ia_issued_at a * SECOND \<le> now + 30 * SECOND \<and> now < ia_expires_at a * SECOND
     \<and> ia_issued_at a < ia_expires_at a \<and> ia_expires_at a \<le> ia_issued_at a + 90
     \<and> ip = ia_ip a \<and> tx_ip env ip = Some info \<and> ip = ascii_lower (ip_compressed info)
     \<and> ip_global info \<and> \<not> ip_multicast info \<and> \<not> ip_reserved info \<and> \<not> (ip_v6 info \<and> (ip_mapped info \<or> ip_cf_worker info))"
proof -
  obtain secret where m: "mode = AttestedMode secret"
    using assms by (cases mode) (auto simp: verify_ip_attestation_def py_lift_def not_configured_def unconfigured_def)
  have c: "check_attestation env cfg mode transaction_id a now = Inr ip"
    using assms by (auto simp: verify_ip_attestation_def m result_simps refused_def split: if_splits)
  have "attested_ip env (ia_ip a) = Inr ip"
    using c by (auto simp: check_attestation_def m refused_def split: if_splits)
  then show ?thesis
    using c by (auto simp: check_attestation_def attested_ip_def m refused_def Let_def
        IP_ATTESTATION_MAX_CLOCK_SKEW_SECONDS_def IP_ATTESTATION_MAX_WINDOW_SECONDS_def split: if_splits option.splits)
qed

end
