(* ===== verification/Intent_Props.thy ===== *)
theory Intent_Props
  imports Onramp_Intent
begin

text \<open>
  Signed intents: what is accepted was signed with a key of the ring and is the one canonical
  token of its payload and key; what was created is accepted until it expires; and how long a
  token can get.
\<close>

section \<open>What is accepted\<close>

lemma refused_Inr [simp]: "refused m \<noteq> Inr x" "unconfigured m \<noteq> Inr x"
  by (simp_all add: refused_def unconfigured_def)

lemma takeWhile_cut:
  assumes "c \<in> set s"
  shows "s = takeWhile (\<lambda>d. d \<noteq> c) s @ c # tl (dropWhile (\<lambda>d. d \<noteq> c) s)"
  using assms by (induction s) auto

lemma one_dot:
  assumes "length (filter (\<lambda>c. c = CHR ''.'') body) = 1"
  shows "body = takeWhile (\<lambda>c. c \<noteq> CHR ''.'') body @ CHR ''.'' # tl (dropWhile (\<lambda>c. c \<noteq> CHR ''.'') body)"
proof (rule takeWhile_cut)
  show "CHR ''.'' \<in> set body"
  proof (rule ccontr)
    assume "CHR ''.'' \<notin> set body"
    then have "filter (\<lambda>c. c = CHR ''.'') body = []" by (auto simp: filter_empty_conv)
    then show False using assms by simp
  qed
qed

lemma removeprefix_take: "take (length p) s = p \<Longrightarrow> s = p @ removeprefix p s"
  by (metis append_take_drop_id removeprefix_append)

lemma sum_bind_InrD: "sum_bind m f = Inr y \<Longrightarrow> \<exists>x. m = Inr x \<and> f x = Inr y"
  by (cases m) auto

lemma decode_intent_Inr:
  assumes "decode_intent env m now token allow_expired = Inr d"
  obtains bs current keys key where "key_ring m = Inr (current, keys)" "key \<in> set keys"
    "token = INTENT_PREFIX @ urlsafe_b64 bs @ ''.'' @ urlsafe_b64 (intent_signature env (urlsafe_b64 bs) key)"
    "decode_payload (ie_unicode env) bs = Inr d" "validate (ie_unicode env) d = Inr ()"
    "json_payload (ie_unicode env) d = Inr bs" "allow_expired \<or> now \<le> int_field d ''exp''"
    "length token \<le> INTENT_MAX_LENGTH"
proof -
  define body where "body = removeprefix INTENT_PREFIX token"
  define pb where "pb = takeWhile (\<lambda>c. c \<noteq> CHR ''.'') body"
  define sb where "sb = tl (dropWhile (\<lambda>c. c \<noteq> CHR ''.'') body)"
  note dec = assms [unfolded decode_intent_def Let_def, folded body_def, folded pb_def, folded sb_def]
  have pre: "take (length INTENT_PREFIX) token = INTENT_PREFIX" "length token \<le> INTENT_MAX_LENGTH"
    "length (filter (\<lambda>c. c = CHR ''.'') body) = 1" "pb \<noteq> []" "sb \<noteq> []"
    using dec by (auto split: if_splits)
  obtain bs sig where b: "b64url_decode pb = Inr bs" "b64url_decode sb = Inr sig"
    using dec pre by (auto split: sum.splits)
  obtain current keys where k: "key_ring m = Inr (current, keys)"
    using dec pre b by (auto split: if_splits dest!: sum_bind_InrD)
  obtain key where key: "key \<in> set keys" "intent_signature env pb key = sig"
    using dec pre b k by (auto simp: list_ex_iff split: if_splits)
  have rest: "decode_payload (ie_unicode env) bs = Inr d" "validate (ie_unicode env) d = Inr ()"
    "json_payload (ie_unicode env) d = Inr bs" "allow_expired \<or> now \<le> int_field d ''exp''"
    using dec pre b k by (auto split: if_splits dest!: sum_bind_InrD)
  have "token = INTENT_PREFIX @ pb @ ''.'' @ sb"
    using removeprefix_take [OF pre(1)] one_dot [OF pre(3)] unfolding body_def pb_def sb_def by simp
  moreover have "pb = urlsafe_b64 bs" "sb = urlsafe_b64 sig" using b b64url_decode_Inr by auto
  ultimately show thesis using that [OF k key(1) _ rest pre(2)] key(2) by simp
qed


section \<open>The JSON of a payload\<close>

definition intent_payload ::
    "ustr \<Rightarrow> ustr \<Rightarrow> ustr \<Rightarrow> ustr \<Rightarrow> int \<Rightarrow> ustr \<Rightarrow> int \<Rightarrow> int \<Rightarrow> ustr \<Rightarrow> payload" where
  "intent_payload p u w t c a iat expires n =
     [(unicode_of ''v'', VInt 1), (unicode_of ''p'', VText p), (unicode_of ''u'', VText u),
      (unicode_of ''w'', VText w), (unicode_of ''t'', VText t), (unicode_of ''c'', VInt c),
      (unicode_of ''a'', VText a), (unicode_of ''iat'', VInt iat), (unicode_of ''exp'', VInt expires),
      (unicode_of ''n'', VText n)]"

definition sorted_payload ::
    "ustr \<Rightarrow> ustr \<Rightarrow> ustr \<Rightarrow> ustr \<Rightarrow> int \<Rightarrow> ustr \<Rightarrow> int \<Rightarrow> int \<Rightarrow> ustr \<Rightarrow> payload" where
  "sorted_payload p u w t c a iat expires n =
     [(unicode_of ''a'', VText a), (unicode_of ''c'', VInt c), (unicode_of ''exp'', VInt expires),
      (unicode_of ''iat'', VInt iat), (unicode_of ''n'', VText n), (unicode_of ''p'', VText p),
      (unicode_of ''t'', VText t), (unicode_of ''u'', VText u), (unicode_of ''v'', VInt 1),
      (unicode_of ''w'', VText w)]"

definition payload_texts ::
    "ustr \<Rightarrow> ustr \<Rightarrow> ustr \<Rightarrow> ustr \<Rightarrow> int \<Rightarrow> ustr \<Rightarrow> int \<Rightarrow> int \<Rightarrow> ustr \<Rightarrow> string list" where
  "payload_texts p u w t c a iat expires n =
     [string_text a, int_text c, int_text expires, int_text iat, string_text n, string_text p, string_text t,
      string_text u, int_text 1, string_text w]"

definition payload_json ::
    "ustr \<Rightarrow> ustr \<Rightarrow> ustr \<Rightarrow> ustr \<Rightarrow> int \<Rightarrow> ustr \<Rightarrow> int \<Rightarrow> int \<Rightarrow> ustr \<Rightarrow> string" where
  "payload_json p u w t c a iat expires n =
     ''{'' @ comma_join (map member_text
         (zip (map fst (sorted_payload p u w t c a iat expires n)) (payload_texts p u w t c a iat expires n))) @ ''}''"

lemma dumps_payload:
  "json_dumps un (VDict (intent_payload p u w t c a iat expires n)) = Inr (payload_json p u w t c a iat expires n)"
  "json_dumps un (VDict (sorted_payload p u w t c a iat expires n)) = Inr (payload_json p u w t c a iat expires n)"
  by (simp_all add: intent_payload_def sorted_payload_def payload_texts_def payload_json_def member_text_def
      sort_by_key_def)

lemma payload_fields [simp]:
  "field (intent_payload p u w t c a iat expires n) ''v'' = VInt 1"
  "field (intent_payload p u w t c a iat expires n) ''p'' = VText p"
  "field (intent_payload p u w t c a iat expires n) ''u'' = VText u"
  "field (intent_payload p u w t c a iat expires n) ''w'' = VText w"
  "field (intent_payload p u w t c a iat expires n) ''t'' = VText t"
  "field (intent_payload p u w t c a iat expires n) ''c'' = VInt c"
  "field (intent_payload p u w t c a iat expires n) ''a'' = VText a"
  "field (intent_payload p u w t c a iat expires n) ''iat'' = VInt iat"
  "field (intent_payload p u w t c a iat expires n) ''exp'' = VInt expires"
  "field (intent_payload p u w t c a iat expires n) ''n'' = VText n"
  by (simp_all add: field_def intent_payload_def)

lemma map_of_payload:
  "map_of (sorted_payload p u w t c a iat expires n) = map_of (intent_payload p u w t c a iat expires n)"
  by (rule ext) (simp add: intent_payload_def sorted_payload_def)

lemma same_fields: "map_of d = map_of d' \<Longrightarrow> field d k = field d' k"
  by (simp add: field_def)

lemma same_validate:
  assumes "map_of d = map_of d'"
  shows "validate un d = validate un d'"
proof -
  have "set (map fst d) = set (map fst d')" using assms dom_map_of_conv_image_fst by (metis set_map)
  then show ?thesis unfolding validate_def require_hex_field_def same_fields [OF assms] by (rule arg_cong)
qed

text \<open>ASCII texts.\<close>

definition ascii_chars :: "string \<Rightarrow> bool" where
  "ascii_chars s \<longleftrightarrow> (\<forall>c \<in> set s. 0 < (of_char c :: nat) \<and> (of_char c :: nat) < 128)"

lemma ascii_chars_simps [simp]:
  "ascii_chars []" "ascii_chars (c # s) \<longleftrightarrow> 0 < (of_char c :: nat) \<and> (of_char c :: nat) < 128 \<and> ascii_chars s"
  "ascii_chars (s @ t) \<longleftrightarrow> ascii_chars s \<and> ascii_chars t"
  by (auto simp: ascii_chars_def)

lemma ascii_hex_digit: "0 < (of_char (hex_digit (n mod 16)) :: nat) \<and> (of_char (hex_digit (n mod 16)) :: nat) < 128"
  using below_16_cases [of "n mod 16"] by (auto simp: hex_digit_def hex_chars_def)

lemma ascii_hex_text4: "ascii_chars (hex_text4 n)"
  unfolding hex_text4_def list.map ascii_chars_simps using ascii_hex_digit ascii_chars_simps(1) by blast

lemma ascii_escaped: "ascii_chars (escaped c)"
  using ascii_hex_text4 by (auto simp: escaped_def)

lemma ascii_string_text: "ascii_chars (string_text t)"
  by (induction t) (auto simp: string_text_def ascii_escaped)

lemma ascii_int_text: "ascii_chars (int_text i)"
proof -
  have "ascii_chars (nat_text k)" for k
    using nat_code_digits [of k] by (auto simp: ascii_chars_def unicode_of_def digit_code_def)
  then show ?thesis by (simp add: int_text_def)
qed

lemma ascii_payload_json: "ascii_chars (payload_json p u w t c a iat expires n)"
  by (simp add: payload_json_def sorted_payload_def payload_texts_def member_text_def ascii_string_text ascii_int_text)

lemma loads_ascii:
  assumes "ascii_chars s" shows "json_loads un (map of_char s) = json_parse (unicode_of s)"
proof -
  have u: "unat (of_char c :: u8) = of_char c" if "c \<in> set s" for c
    by (simp flip: of_nat_of_char [where 'a = "u8"] add: unsigned_of_nat take_bit_nat_eq_self nat_of_char_less_256)
  have "map unat (map of_char s :: bytes) = unicode_of s"
    using u by (simp add: unicode_of_def)
  moreover have "plain_bytes (map of_char s)"
    using assms u by (auto simp: plain_bytes_def ascii_chars_def word_less_nat_alt)
  ultimately show ?thesis by (simp add: json_loads_def)
qed


lemma scan_object:
  "scan_value (Suc n) (123 # 34 # x) = map_option (\<lambda>(kvs, p). (VDict (dict_of kvs), p)) (scan_members n (34 # x))"
  by (simp add: skip_space_visible del: scan_members.simps)

lemma parse_payload:
  assumes "ascii p" "ascii u" "ascii w" "ascii t" "ascii a" "ascii n" "0 \<le> c" "0 \<le> iat" "0 \<le> expires"
  shows "json_parse (unicode_of (payload_json p u w t c a iat expires n)) =
    Some (VDict (sorted_payload p u w t c a iat expires n))"
proof -
  let ?d = "sorted_payload p u w t c a iat expires n" and ?ts = "payload_texts p u w t c a iat expires n"
  let ?inner = "unicode_of (comma_join (map member_text (zip (map fst ?d) ?ts)))"
  have whole: "unicode_of (payload_json p u w t c a iat expires n) = 123 # ?inner @ [125]"
    by (simp add: payload_json_def)
  have "list_all (\<lambda>(k, v). ascii k \<and> flat v) ?d"
    using assms by (simp add: sorted_payload_def) (simp add: ascii_def)
  moreover have "map (\<lambda>(k, v). json_dumps \<lparr>un_decode = \<lambda>b. None, un_lower = id, un_upper = id, un_strip = id,
      un_float = \<lambda>l. Inr []\<rparr> v) ?d = map Inr ?ts"
    by (simp add: sorted_payload_def payload_texts_def)
  moreover have long: "10 < length (?inner @ [125])"
    by (simp add: sorted_payload_def payload_texts_def member_text_def string_text_def)
  ultimately have "scan_members (Suc (length (?inner @ [125]))) (?inner @ 125 # []) = Some (?d, [])"
    by (intro scan_written_members) (simp_all add: sorted_payload_def)
  moreover obtain x where x: "?inner @ [125] = 34 # x"
    by (simp add: sorted_payload_def payload_texts_def member_text_def string_text_def)
  moreover have "skip_space (34 # x) = 34 # x" "skip_space (123 # 34 # x) = 123 # 34 # x"
    by (simp_all add: skip_space_visible)
  moreover have "dict_of ?d = ?d" by (simp add: dict_of_def sorted_payload_def)
  ultimately show ?thesis
    unfolding json_parse_def whole
    by (simp add: scan_object skip_space_def [of "[]"] del: scan_value.simps scan_members.simps)
qed

section \<open>What is created\<close>

lemma ascii_unicode: "ascii_chars s \<Longrightarrow> ascii (unicode_of s)"
  by (auto simp: ascii_def unicode_of_def ascii_chars_def)

lemma hex_payload_ascii: "hex_payload un v n = Inr h \<Longrightarrow> ascii h \<and> length h = 2 * n"
  by (auto simp: hex_payload_def Let_def split: jvalue.splits if_splits sum.splits)

lemma asset_code_ascii: "asset_code_or_error un v = Inr h \<Longrightarrow> ascii h \<and> length h \<le> 32"
  by (auto simp: asset_code_or_error_def Let_def INTENT_MAX_ASSET_BYTES_def split: jvalue.splits if_splits)

lemma uint32_Inr: "uint32 v = Inr i \<longleftrightarrow> v = VInt i \<and> 0 \<le> i \<and> i \<le> 0xFFFFFFFF"
  by (auto simp: uint32_def split: jvalue.splits if_splits)

lemma create_intent_Inr:
  assumes "create_intent env m now nonce provider user wallet token_id chain_id asset = Inr (token, d)"
  obtains u w t a where "provider \<in> set PROVIDERS" "address_payload env user = Inr u" "address_payload env wallet = Inr w"
    "hex_payload (ie_unicode env) (VText (unicode_of token_id)) 32 = Inr t"
    "asset_code_or_error (ie_unicode env) (VText (unicode_of asset)) = Inr a"
    "0 \<le> chain_id" "chain_id \<le> 0xFFFFFFFF" "0 \<le> now" "now + INTENT_TTL_SECONDS \<le> 0xFFFFFFFF"
    "d = intent_payload (unicode_of provider) u w t chain_id a now (now + INTENT_TTL_SECONDS) (unicode_of (bytes_hex nonce))"
    "encode_intent env m d = Inr token"
proof -
  have p: "provider \<in> set PROVIDERS" using assms by (auto simp: create_intent_def split: if_splits)
  note c = assms [unfolded create_intent_def, simplified p]
  obtain u where u: "address_payload env user = Inr u" using c by (cases "address_payload env user") auto
  obtain w where w: "address_payload env wallet = Inr w" using c u by (cases "address_payload env wallet") auto
  obtain t where t: "hex_payload (ie_unicode env) (VText (unicode_of token_id)) 32 = Inr t"
    using c u w by (cases "hex_payload (ie_unicode env) (VText (unicode_of token_id)) 32") auto
  obtain ch where ch: "uint32 (VInt chain_id) = Inr ch" using c u w t by (cases "uint32 (VInt chain_id)") auto
  obtain a where a: "asset_code_or_error (ie_unicode env) (VText (unicode_of asset)) = Inr a"
    using c u w t ch by (cases "asset_code_or_error (ie_unicode env) (VText (unicode_of asset))") auto
  obtain i where i: "uint32 (VInt now) = Inr i" using c u w t ch a by (cases "uint32 (VInt now)") auto
  obtain x where x: "uint32 (VInt (now + INTENT_TTL_SECONDS)) = Inr x"
    using c u w t ch a i by (cases "uint32 (VInt (now + INTENT_TTL_SECONDS))") auto
  have n: "0 \<le> chain_id" "chain_id \<le> 0xFFFFFFFF" "ch = chain_id" "0 \<le> now" "i = now"
    "now + INTENT_TTL_SECONDS \<le> 0xFFFFFFFF" "x = now + INTENT_TTL_SECONDS"
    using ch i x by (auto simp: uint32_Inr)
  let ?d = "intent_payload (unicode_of provider) u w t chain_id a now (now + INTENT_TTL_SECONDS) (unicode_of (bytes_hex nonce))"
  have "sum_bind (encode_intent env m ?d) (\<lambda>token. Inr (token, ?d)) = Inr (token, d)"
    using c u w t ch a i x n(3,5,7) by (simp add: Let_def intent_payload_def INTENT_VERSION_def)
  then have "encode_intent env m ?d = Inr token" "d = ?d" by (auto dest: sum_bind_InrD)
  then show thesis using that [OF p u w t a n(1,2,4,6)] by simp
qed


section \<open>Tokens and their parts\<close>

definition sha256_law :: "intent_env \<Rightarrow> bool" where
  "sha256_law env \<longleftrightarrow> (\<forall>m. length (ie_sha256 env m) = 32)"

definition intent_token :: "intent_env \<Rightarrow> bytes \<Rightarrow> bytes \<Rightarrow> string" where
  "intent_token env bs key =
     INTENT_PREFIX @ urlsafe_b64 bs @ ''.'' @ urlsafe_b64 (intent_signature env (urlsafe_b64 bs) key)"

lemma length_signature: "sha256_law env \<Longrightarrow> length (intent_signature env b key) = 32"
  by (simp add: intent_signature_def hmac_digest_def sha256_law_def Let_def)

lemma no_dot: "CHR ''.'' \<notin> set (urlsafe_b64 bs)"
proof -
  have "CHR ''.'' \<notin> set b64_chars" by (simp add: b64_chars_def)
  then show ?thesis using urlsafe_b64_range by blast
qed

lemma decode_intent_token:
  assumes sha: "sha256_law env" and ring: "key_ring m = Inr (current, keys)" "key \<in> set keys"
    and short: "length (intent_token env bs key) \<le> INTENT_MAX_LENGTH"
    and d: "bs \<noteq> []" "decode_payload (ie_unicode env) bs = Inr d" "validate (ie_unicode env) d = Inr ()"
      "json_payload (ie_unicode env) d = Inr bs"
    and live: "allow_expired \<or> now \<le> int_field d ''exp''"
  shows "decode_intent env m now (intent_token env bs key) allow_expired = Inr d"
proof -
  let ?b = "urlsafe_b64 bs" and ?sig = "intent_signature env (urlsafe_b64 bs) key"
  let ?body = "?b @ CHR ''.'' # urlsafe_b64 ?sig"
  have sig: "length ?sig = 32" "?sig \<noteq> []" using length_signature [OF sha, of ?b key] by auto
  have no: "\<forall>c \<in> set ?b. c \<noteq> CHR ''.''" "\<forall>c \<in> set (urlsafe_b64 ?sig). c \<noteq> CHR ''.''" using no_dot by metis+
  then have f: "filter (\<lambda>c. c = CHR ''.'') ?b = []" "filter (\<lambda>c. c = CHR ''.'') (urlsafe_b64 ?sig) = []"
    by (auto simp: filter_empty_conv)
  have cut: "takeWhile (\<lambda>c. c \<noteq> CHR ''.'') ?body = ?b" "dropWhile (\<lambda>c. c \<noteq> CHR ''.'') ?body = CHR ''.'' # urlsafe_b64 ?sig"
    using no(1) by (simp_all add: takeWhile_append dropWhile_append)
  have tok: "intent_token env bs key = INTENT_PREFIX @ ?body" by (simp add: intent_token_def)
  have pre: "removeprefix INTENT_PREFIX (INTENT_PREFIX @ ?body) = ?body"
    "take (length INTENT_PREFIX) (INTENT_PREFIX @ ?body) = INTENT_PREFIX" by simp_all
  have "list_ex (\<lambda>k. intent_signature env ?b k = ?sig) keys" using ring(2) by (auto simp: list_ex_iff)
  then show ?thesis
    using short ring(1) d live sig b64url_decode_encode [OF d(1)] b64url_decode_encode [OF sig(2)] f
    unfolding decode_intent_def tok pre cut Let_def
    by (auto simp: urlsafe_b64_Nil)
qed

lemma encode_intent_Inr:
  assumes "encode_intent env m d = Inr token"
  obtains bs current keys where "validate (ie_unicode env) d = Inr ()" "json_payload (ie_unicode env) d = Inr bs"
    "key_ring m = Inr (current, keys)" "token = intent_token env bs current" "length token \<le> INTENT_MAX_LENGTH"
proof -
  note e = assms [unfolded encode_intent_def]
  have v: "validate (ie_unicode env) d = Inr ()" using e by (cases "validate (ie_unicode env) d") auto
  obtain bs where b: "json_payload (ie_unicode env) d = Inr bs" using e v by (cases "json_payload (ie_unicode env) d") auto
  obtain current keys where k: "key_ring m = Inr (current, keys)" using e v b by (cases "key_ring m") (auto simp: Let_def)
  show thesis
    using that [OF v b k] e v b k by (auto simp: Let_def intent_token_def split: if_splits)
qed

text \<open>A checksummed address is \<open>0x\<close> and forty hex digits.\<close>

definition checksum_hex :: "intent_env \<Rightarrow> bool" where
  "checksum_hex env \<longleftrightarrow>
     (\<forall>v c. ie_checksum env v = Inr c \<longrightarrow>
        (\<exists>h. c = ''0x'' @ h \<and> length h = 40 \<and> (\<forall>x \<in> set h. hex_value x \<noteq> None)))"

lemma hex_value_ascii_lower: "hex_value x \<noteq> None \<Longrightarrow> ascii_lower_char x \<in> set hex_chars"
proof -
  assume "hex_value x \<noteq> None"
  moreover have "\<forall>x :: char. hex_value x \<noteq> None \<longrightarrow> ascii_lower_char x \<in> set hex_chars"
    unfolding hex_value_def ascii_lower_char_def hex_chars_def by code_simp
  ultimately show ?thesis by blast
qed


lemma address_payload_Inr:
  assumes "checksum_hex env" "address_payload env v = Inr u"
  shows "ascii u" "length u = 40" "\<forall>c \<in> set u. c \<in> set (unicode_of hex_chars)"
proof -
  obtain c where c: "ie_checksum env v = Inr c" "u = unicode_of (ascii_lower (removeprefix ''0x'' c))"
    using assms(2) by (auto simp: address_payload_def split: if_splits dest!: sum_bind_InrD)
  then obtain h where h: "c = ''0x'' @ h" "length h = 40" "\<forall>x \<in> set h. hex_value x \<noteq> None"
    using assms(1) unfolding checksum_hex_def by blast
  have u: "u = unicode_of (map ascii_lower_char h)" using c(2) h(1) by (simp add: ascii_lower_def)
  have hex: "\<forall>x \<in> set (map ascii_lower_char h). x \<in> set hex_chars" using h(3) hex_value_ascii_lower by auto
  have "\<forall>x \<in> set hex_chars. 0 < (of_char x :: nat) \<and> (of_char x :: nat) < 128" by (simp add: hex_chars_def)
  then show "ascii u" using hex unfolding u by (intro ascii_unicode) (auto simp: ascii_chars_def)
  show "length u = 40" using h(2) u by simp
  show "\<forall>c \<in> set u. c \<in> set (unicode_of hex_chars)" using hex unfolding u by (auto simp: unicode_of_def)
qed

lemma ascii_provider: "p \<in> set PROVIDERS \<Longrightarrow> ascii (unicode_of p)"
  by (auto simp: PROVIDERS_def ascii_def)

lemma ascii_bytes_hex: "ascii (unicode_of (bytes_hex bs))"
proof -
  have "\<forall>x \<in> set hex_chars. 0 < (of_char x :: nat) \<and> (of_char x :: nat) < 128" by (simp add: hex_chars_def)
  then show ?thesis using bytes_hex_range [of bs] by (intro ascii_unicode) (auto simp: ascii_chars_def)
qed

section \<open>Lengths\<close>

definition plain_code :: "nat \<Rightarrow> bool" where
  "plain_code c \<longleftrightarrow> 32 \<le> c \<and> c \<le> 126 \<and> c \<noteq> 34 \<and> c \<noteq> 92"

lemma length_string_text: "\<forall>c \<in> set t. plain_code c \<Longrightarrow> length (string_text t) = length t + 2"
  by (induction t) (auto simp: string_text_def escaped_def plain_code_def)

lemma length_nat_text: "n < 10 ^ Suc k \<Longrightarrow> length (nat_text n) \<le> Suc k"
proof (induction k arbitrary: n)
  case (Suc k)
  have "n div 10 < 10 ^ Suc k" using Suc.prems by (simp add: less_mult_imp_div_less mult.commute)
  then show ?case using Suc.IH [of "n div 10"] by (simp add: nat_text.simps [of n])
qed (simp add: nat_text.simps)

lemma length_int_text: "0 \<le> i \<Longrightarrow> i \<le> 0xFFFFFFFF \<Longrightarrow> length (int_text i) \<le> 10"
  using length_nat_text [of "nat i" 9] by (simp add: int_text_def)

lemma length_urlsafe: "length (urlsafe_b64 bs) \<le> (4 * length bs + 2) div 3"
proof (induction bs rule: urlsafe_b64.induct)
  case (4 a b c rest)
  then show ?case by simp
qed simp_all

lemma plain_hex: "c \<in> set (unicode_of hex_chars) \<Longrightarrow> plain_code c"
  by (auto simp: hex_chars_def plain_code_def)

lemma plain_asset:
  assumes "asset_code_or_error un v = Inr a" shows "\<forall>c \<in> set a. plain_code c"
proof -
  have "asset_pattern a" using assms
    by (auto simp: asset_code_or_error_def Let_def split: jvalue.splits if_splits)
  then show ?thesis by (auto simp: asset_pattern_def asset_char_def digit_code_def plain_code_def split: list.splits)
qed


lemma length_payload_json:
  assumes plain: "\<forall>c \<in> set p. plain_code c" "\<forall>c \<in> set u. plain_code c" "\<forall>c \<in> set w. plain_code c"
      "\<forall>c \<in> set t. plain_code c" "\<forall>c \<in> set a. plain_code c" "\<forall>c \<in> set n. plain_code c"
    and len: "length p \<le> 7" "length u = 40" "length w = 40" "length t = 64" "length a \<le> 32" "length n = 16"
    and num: "0 \<le> c" "c \<le> 0xFFFFFFFF" "0 \<le> iat" "iat \<le> 0xFFFFFFFF" "0 \<le> expires" "expires \<le> 0xFFFFFFFF"
  shows "length (payload_json p u w t c a iat expires n) \<le> 297"
proof -
  have k: "length (string_text [97]) = 3" "length (string_text [99]) = 3" "length (string_text [101, 120, 112]) = 5"
    "length (string_text [105, 97, 116]) = 5" "length (string_text [110]) = 3" "length (string_text [112]) = 3"
    "length (string_text [116]) = 3" "length (string_text [117]) = 3" "length (string_text [118]) = 3"
    "length (string_text [119]) = 3"
    by (simp_all add: string_text_def escaped_def)
  have one: "length (int_text 1) = 1" by (simp add: int_text_def nat_text.simps)
  note t = plain [THEN length_string_text] and i = length_int_text [OF num(1,2)] length_int_text [OF num(3,4)]
    length_int_text [OF num(5,6)]
  have "length (payload_json p u w t c a iat expires n) = 56 + length (string_text a) + length (string_text n)
      + length (string_text p) + length (string_text t) + length (string_text u) + length (string_text w)
      + length (int_text c) + length (int_text iat) + length (int_text expires)"
    using one by (simp add: payload_json_def sorted_payload_def payload_texts_def member_text_def k)
  then show ?thesis unfolding t using i len by linarith
qed

lemma length_token:
  assumes "length bs \<le> 297" "sha256_law env"
  shows "length (intent_token env bs key) \<le> 448"
proof -
  have "length (urlsafe_b64 bs) \<le> (4 * 297 + 2) div 3"
    using length_urlsafe [of bs] assms(1) by (meson add_le_mono1 div_le_mono le_trans mult_le_mono2)
  moreover have "length (urlsafe_b64 (intent_signature env (urlsafe_b64 bs) key)) \<le> 43"
    using length_urlsafe [of "intent_signature env (urlsafe_b64 bs) key"] length_signature [OF assms(2)] by simp
  ultimately show ?thesis by (simp add: intent_token_def INTENT_PREFIX_def)
qed

section \<open>Creation succeeds\<close>

lemma fromhex_hex_text:
  "set h \<subseteq> set hex_chars \<Longrightarrow> length h = 2 * n \<Longrightarrow> \<exists>bs. bytes_fromhex h = Inr bs"
proof (induction n arbitrary: h)
  case (Suc n)
  then obtain c d r where h: "h = c # d # r" by (auto simp: length_Suc_conv)
  have digit: "\<forall>x \<in> set hex_chars. \<not> ascii_space x \<and> hex_value x \<noteq> None"
    by (simp add: hex_chars_def ascii_space_def hex_value_def)
  obtain bs where "bytes_fromhex r = Inr bs" using Suc.IH [of r] Suc.prems h by auto
  moreover have "c \<in> set hex_chars" "d \<in> set hex_chars" using Suc.prems(1) h by auto
  ultimately show ?case using digit h by (auto split: option.splits)
qed simp

lemma ascii_hex_text: "set h \<subseteq> set hex_chars \<Longrightarrow> ascii (unicode_of h)"
proof (rule ascii_unicode)
  assume "set h \<subseteq> set hex_chars"
  moreover have "\<forall>x \<in> set hex_chars. 0 < (of_char x :: nat) \<and> (of_char x :: nat) < 128" by (simp add: hex_chars_def)
  ultimately show "ascii_chars h" by (auto simp: ascii_chars_def)
qed

lemma ascii_text_unicode [simp]: "ascii_text (unicode_of s) = s"
  by (simp add: ascii_text_def unicode_of_def comp_def)

lemma drop_prefix_unicode: "drop_prefix (unicode_of p) (unicode_of s) = unicode_of (removeprefix p s)"
proof -
  have inj: "unicode_of x = unicode_of y \<longleftrightarrow> x = y" for x y by (metis ascii_text_unicode)
  have "take (length p) (unicode_of s) = unicode_of (take (length p) s)" by (simp add: unicode_of_def take_map)
  moreover have "drop (length p) (unicode_of s) = unicode_of (drop (length p) s)" by (simp add: unicode_of_def drop_map)
  moreover have "removeprefix p s = (if take (length p) s = p then drop (length p) s else s)"
    by (cases p; cases s) auto
  ultimately show ?thesis by (simp add: drop_prefix_def inj)
qed

lemma ascii_lower_0x: "set h \<subseteq> set hex_chars \<Longrightarrow> ascii_lower (''0x'' @ h) = ''0x'' @ h"
proof -
  assume "set h \<subseteq> set hex_chars"
  moreover have "ascii_lower ''0x'' = ''0x''" by code_simp
  ultimately show ?thesis by (simp only: ascii_lower_append ascii_lower_hex)
qed

lemma hex_payload_hex:
  assumes "v = h \<or> v = ''0x'' @ h" "set h \<subseteq> set hex_chars" "length h = 2 * n"
  shows "hex_payload un (VText (unicode_of v)) n = Inr (unicode_of h)"
proof -
  obtain bs where bs: "bytes_fromhex h = Inr bs" using fromhex_hex_text [OF assms(2,3)] by blast
  have "ascii (unicode_of h)" using ascii_hex_text [OF assms(2)] .
  then have "ascii (unicode_of v)" using assms(1) by (auto simp: ascii_def)
  moreover have "removeprefix ''0x'' (ascii_lower v) = h"
    using assms(1) ascii_lower_0x [OF assms(2)] ascii_lower_hex [OF assms(2)] removeprefix_hex [OF assms(2)]
    by (metis removeprefix_append)
  ultimately have "drop_prefix (unicode_of ''0x'') (text_lower un (unicode_of v)) = unicode_of h"
    unfolding text_lower_def by (simp only: if_True ascii_text_unicode drop_prefix_unicode)
  then show ?thesis
    unfolding hex_payload_def jvalue.case Let_def using bs assms(3) \<open>ascii (unicode_of h)\<close> by simp
qed

lemma address_payload_hex:
  assumes "checksum_hex env" "address_payload env v = Inr u"
  shows "\<exists>h. u = unicode_of h \<and> set h \<subseteq> set hex_chars \<and> length h = 40"
proof -
  obtain c where c: "ie_checksum env v = Inr c" "u = unicode_of (ascii_lower (removeprefix ''0x'' c))"
    using assms(2) by (auto simp: address_payload_def split: if_splits dest!: sum_bind_InrD)
  then obtain h where h: "c = ''0x'' @ h" "length h = 40" "\<forall>x \<in> set h. hex_value x \<noteq> None"
    using assms(1) unfolding checksum_hex_def by blast
  then have "u = unicode_of (ascii_lower h)" "set (ascii_lower h) \<subseteq> set hex_chars"
    using c(2) hex_value_ascii_lower by (auto simp: ascii_lower_def)
  then show ?thesis using h(2) by (intro exI [of _ "ascii_lower h"]) simp
qed

lemma plain_hex_text: "set h \<subseteq> set hex_chars \<Longrightarrow> \<forall>c \<in> set (unicode_of h). plain_code c"
  using plain_hex by (auto simp: unicode_of_def)

lemma validate_payload:
  assumes "p \<in> set PROVIDERS"
    and "hex_payload un (VText u) 20 = Inr u" "hex_payload un (VText w) 20 = Inr w"
    and "hex_payload un (VText t) 32 = Inr t" "hex_payload un (VText n) 8 = Inr n"
    and "asset_code_or_error un (VText a) = Inr a"
    and "0 \<le> c" "c \<le> 0xFFFFFFFF" "0 \<le> iat" "iat \<le> expires" "expires \<le> 0xFFFFFFFF"
  shows "validate un (intent_payload (unicode_of p) u w t c a iat expires n) = Inr ()"
proof -
  have "set (map fst (intent_payload (unicode_of p) u w t c a iat expires n)) = set (map unicode_of PAYLOAD_FIELDS)"
    by (auto simp: intent_payload_def PAYLOAD_FIELDS_def)
  moreover have "uint32 (VInt c) = Inr c" "uint32 (VInt iat) = Inr iat" "uint32 (VInt expires) = Inr expires"
    using assms(7-) by (simp_all add: uint32_Inr)
  ultimately show ?thesis
    using assms by (simp add: validate_def require_hex_field_def INTENT_VERSION_def)
qed

text \<open>An asset code that was normalized is accepted as it is.\<close>

lemma asset_code_idem:
  assumes "asset_code_or_error un v = Inr a" shows "asset_code_or_error un (VText a) = Inr a"
proof -
  have a: "a \<noteq> []" "ascii a" "length a \<le> 32" "asset_pattern a" using assms
    by (auto simp: asset_code_or_error_def Let_def INTENT_MAX_ASSET_BYTES_def split: jvalue.splits if_splits)
  have c: "asset_char c \<or> c \<in> set (unicode_of ''._:-'')" if "c \<in> set a" for c
    using a(4) that by (auto simp: asset_pattern_def split: list.splits)
  have sp: "\<not> py_space (char_of c)" and low: "ascii_lower_char (char_of c) = char_of c" if "c \<in> set a" for c
    using c [OF that] by (auto simp: asset_char_def digit_code_def py_space_def ascii_lower_char_def Let_def)
  have "dropWhile py_space (map char_of a) = map char_of a"
    using sp a(1) by (cases a) auto
  moreover have "dropWhile py_space (rev (map char_of a)) = rev (map char_of a)"
    using sp a(1) by (cases "rev a") (auto simp: rev_map)
  moreover have "map (\<lambda>x. x mod 256) a = a" using a(2) by (intro map_idI) (auto simp: ascii_def)
  ultimately have "text_strip un a = a"
    using a(2) by (simp add: text_strip_def py_strip_def ascii_text_def unicode_of_def comp_def)
  moreover have "text_lower un a = a"
    using a(2) low by (auto simp: text_lower_def ascii_lower_def ascii_text_def unicode_of_def comp_def ascii_def intro!: map_idI)
  ultimately show ?thesis using a by (simp add: asset_code_or_error_def INTENT_MAX_ASSET_BYTES_def)
qed


text \<open>What valid inputs become, and how long the token is.\<close>

lemma create_intent_valid:
  assumes laws: "sha256_law env" "checksum_hex env" and ring: "key_ring m = Inr (current, keys)"
    and p: "provider \<in> set PROVIDERS" and u: "address_payload env user = Inr u" and w: "address_payload env wallet = Inr w"
    and t: "set h \<subseteq> set hex_chars" "length h = 64" and a: "asset_code_or_error (ie_unicode env) (VText (unicode_of asset)) = Inr a"
    and n: "0 \<le> chain_id" "chain_id < 2 ^ 32" "0 \<le> now" "now + INTENT_TTL_SECONDS < 2 ^ 32" "length nonce = 8"
  shows "\<exists>token d. create_intent env m now nonce provider user wallet (''0x'' @ h) chain_id asset = Inr (token, d)
     \<and> length token \<le> 448"
proof -
  let ?un = "ie_unicode env" and ?n = "unicode_of (bytes_hex nonce)"
  let ?d = "intent_payload (unicode_of provider) u w (unicode_of h) chain_id a now (now + INTENT_TTL_SECONDS) ?n"
  obtain hu hw where hu: "u = unicode_of hu" "set hu \<subseteq> set hex_chars" "length hu = 40"
    and hw: "w = unicode_of hw" "set hw \<subseteq> set hex_chars" "length hw = 40"
    using address_payload_hex [OF laws(2) u] address_payload_hex [OF laws(2) w] by blast
  have pl: "\<forall>c \<in> set (unicode_of provider). plain_code c" "length (unicode_of provider) \<le> 7"
    using p by (auto simp: PROVIDERS_def plain_code_def)
  have hex: "hex_payload ?un (VText u) 20 = Inr u" "hex_payload ?un (VText w) 20 = Inr w"
    "hex_payload ?un (VText (unicode_of (''0x'' @ h))) 32 = Inr (unicode_of h)"
    "hex_payload ?un (VText (unicode_of h)) 32 = Inr (unicode_of h)" "hex_payload ?un (VText ?n) 8 = Inr ?n"
    using hu hw t n(5) bytes_hex_range [of nonce]
      hex_payload_hex [of hu hu 20 ?un] hex_payload_hex [of hw hw 20 ?un] hex_payload_hex [of "''0x'' @ h" h 32 ?un]
      hex_payload_hex [of h h 32 ?un] hex_payload_hex [of "bytes_hex nonce" "bytes_hex nonce" 8 ?un]
    by (simp_all del: unicode_of_simps(2,3))
  have ttl: "0 \<le> now + INTENT_TTL_SECONDS" "now \<le> now + INTENT_TTL_SECONDS" using n(3) by (simp_all add: INTENT_TTL_SECONDS_def)
  have v: "validate ?un ?d = Inr ()"
    using n ttl by (intro validate_payload p hex asset_code_idem [OF a]) simp_all
  define bs :: bytes where "bs = map of_char
    (payload_json (unicode_of provider) u w (unicode_of h) chain_id a now (now + INTENT_TTL_SECONDS) ?n)"
  have j: "json_payload ?un ?d = Inr bs" by (simp add: json_payload_def dumps_payload bs_def del: json_dumps.simps)
  have "length bs \<le> 297"
    unfolding bs_def length_map
    using pl hu hw t n ttl asset_code_ascii [OF a] plain_asset [OF a] plain_hex_text bytes_hex_range [of nonce]
    by (intro length_payload_json) auto
  then have len: "length (intent_token env bs current) \<le> 448" using length_token [OF _ laws(1)] by blast
  then have enc: "encode_intent env m ?d = Inr (intent_token env bs current)"
    using v j ring by (simp add: encode_intent_def Let_def intent_token_def INTENT_MAX_LENGTH_def)
  have "uint32 (VInt chain_id) = Inr chain_id" "uint32 (VInt now) = Inr now"
    "uint32 (VInt (now + INTENT_TTL_SECONDS)) = Inr (now + INTENT_TTL_SECONDS)"
    using n ttl by (simp_all add: uint32_Inr)
  then have "create_intent env m now nonce provider user wallet (''0x'' @ h) chain_id asset =
      sum_bind (encode_intent env m ?d) (\<lambda>token. Inr (token, ?d))"
    using p u w hex(3) a by (simp add: create_intent_def Let_def intent_payload_def INTENT_VERSION_def del: unicode_of_simps)
  then show ?thesis using enc len by simp
qed


section \<open>Properties\<close>


lemma created_decodes:
  assumes laws: "sha256_law env" "checksum_hex env"
    and made: "create_intent env m now nonce provider user wallet token_id chain_id asset = Inr (token, d)"
    and ring: "key_ring m = Inr (current, keys)" "key_ring m' = Inr (current', keys')" "current \<in> set keys'"
    and live: "allow_expired \<or> later \<le> now + INTENT_TTL_SECONDS"
  shows "\<exists>d'. decode_intent env m' later token allow_expired = Inr d' \<and> map_of d' = map_of d"
proof -
  obtain u w t a where c: "provider \<in> set PROVIDERS" "address_payload env user = Inr u" "address_payload env wallet = Inr w"
    "hex_payload (ie_unicode env) (VText (unicode_of token_id)) 32 = Inr t"
    "asset_code_or_error (ie_unicode env) (VText (unicode_of asset)) = Inr a"
    "0 \<le> chain_id" "0 \<le> now"
    and d: "d = intent_payload (unicode_of provider) u w t chain_id a now (now + INTENT_TTL_SECONDS) (unicode_of (bytes_hex nonce))"
    and enc: "encode_intent env m d = Inr token"
    using create_intent_Inr [OF made] by metis
  obtain bs where e: "validate (ie_unicode env) d = Inr ()" "json_payload (ie_unicode env) d = Inr bs"
    "token = intent_token env bs current" "length token \<le> INTENT_MAX_LENGTH"
    using encode_intent_Inr [OF enc] ring(1) by (metis Inr_inject Pair_inject)
  let ?text = "payload_json (unicode_of provider) u w t chain_id a now (now + INTENT_TTL_SECONDS) (unicode_of (bytes_hex nonce))"
  let ?d = "sorted_payload (unicode_of provider) u w t chain_id a now (now + INTENT_TTL_SECONDS) (unicode_of (bytes_hex nonce))"
  have bs: "bs = map of_char ?text" using e(2) unfolding d by (simp add: json_payload_def dumps_payload del: json_dumps.simps)
  have asc: "ascii u" "ascii w" "ascii t" "ascii a"
    using address_payload_Inr(1) [OF laws(2)] c hex_payload_ascii asset_code_ascii by blast+
  have pos: "0 \<le> now + INTENT_TTL_SECONDS" using c(7) by (simp add: INTENT_TTL_SECONDS_def)
  have same: "map_of ?d = map_of d" unfolding d by (rule map_of_payload)
  have "decode_payload (ie_unicode env) bs = Inr ?d"
    using parse_payload [OF ascii_provider [OF c(1)] asc ascii_bytes_hex c(6,7) pos]
    by (simp add: decode_payload_def bs loads_ascii ascii_payload_json)
  moreover have "validate (ie_unicode env) ?d = Inr ()" using same_validate [OF same] e(1) by simp
  moreover have "json_payload (ie_unicode env) ?d = Inr bs"
    unfolding bs by (simp add: json_payload_def dumps_payload del: json_dumps.simps)
  moreover have "bs \<noteq> []" by (simp add: bs payload_json_def)
  moreover have "allow_expired \<or> later \<le> int_field ?d ''exp''"
    using live same_fields [OF same, of "''exp''"] by (simp add: int_field_def d)
  ultimately show ?thesis
    using decode_intent_token [OF laws(1) ring(2,3)] e(3,4) same by metis
qed

definition demo_intents :: intent_env where
  "demo_intents =
     \<lparr>ie_unicode = \<lparr>un_decode = \<lambda>b. None, un_lower = id, un_upper = id, un_strip = id, un_float = \<lambda>l. Inr []\<rparr>,
      ie_is_address = \<lambda>v. True, ie_checksum = \<lambda>v. Inr (''0x'' @ replicate 40 (CHR ''A'')),
      ie_sha256 = \<lambda>m. replicate 32 (if m = [] then 0 else hd m)\<rparr>"

definition demo_manager :: key_manager where
  "demo_manager = \<lparr>km_current = Some [1], km_keys = [[1], [2]]\<rparr>"

definition demo_create :: "exn + string \<times> payload" where
  "demo_create =
     create_intent demo_intents demo_manager 1000 (replicate 8 7) ''transak'' ''me'' ''it'' (''0x'' @ replicate 64 (CHR ''b''))
       8453 ''usdc''"

lemma demo_laws: "sha256_law demo_intents" "checksum_hex demo_intents"
  by (simp_all add: sha256_law_def checksum_hex_def demo_intents_def hex_value_def)

lemma demo_ring: "key_ring demo_manager = Inr ([1], [[1], [2]])"
  by (simp add: key_ring_def demo_manager_def)

lemma demo_inputs:
  "address_payload demo_intents v = Inr (unicode_of (replicate 40 (CHR ''a'')))"
  "asset_code_or_error (ie_unicode demo_intents) (VText (unicode_of ''usdc'')) = Inr (unicode_of ''usdc'')"
proof -
  have "ascii_lower (removeprefix ''0x'' (''0x'' @ replicate 40 (CHR ''A''))) = replicate 40 (CHR ''a'')" by code_simp
  then show "address_payload demo_intents v = Inr (unicode_of (replicate 40 (CHR ''a'')))"
    by (simp add: address_payload_def demo_intents_def)
  show "asset_code_or_error (ie_unicode demo_intents) (VText (unicode_of ''usdc'')) = Inr (unicode_of ''usdc'')"
    by code_simp
qed

lemma demo_token_id: "set (replicate 64 (CHR ''b'')) \<subseteq> set hex_chars" "length (replicate 64 (CHR ''b'')) = 64"
  by (simp_all add: hex_chars_def)

lemma demo_created: "\<exists>token d. demo_create = Inr (token, d)"
  using create_intent_valid [OF demo_laws demo_ring _ demo_inputs(1) demo_inputs(1) demo_token_id demo_inputs(2),
      of "''transak''" 8453 1000 "replicate 8 7" "''me''" "''it''"]
  unfolding demo_create_def by (auto simp: PROVIDERS_def INTENT_TTL_SECONDS_def)


text \<open>
  C29. An intent that was created is accepted until it expires (and after, where that is allowed),
  by every process whose key ring still holds the key it was signed with, and decodes to the
  payload it was created from.
\<close>

theorem created_intent_accepted:
  assumes "sha256_law env" "checksum_hex env"
    and "create_intent env m now nonce provider user wallet token_id chain_id asset = Inr (token, d)"
    and "key_ring m = Inr (current, keys)" "key_ring m' = Inr (current', keys')" "current \<in> set keys'"
    and "allow_expired \<or> later \<le> now + INTENT_TTL_SECONDS"
  shows "\<exists>d'. decode_intent env m' later token allow_expired = Inr d' \<and> map_of d' = map_of d"
  using assms by (rule created_decodes)


lemma created_intent_accepted_witness:
  "\<exists>token d d'. demo_create = Inr (token, d) \<and> decode_intent demo_intents demo_manager 87400 token False = Inr d'
     \<and> field d' ''c'' = VInt 8453"
proof -
  obtain token d where c: "demo_create = Inr (token, d)" using demo_created by blast
  note c' = c [unfolded demo_create_def]
  have "field d ''c'' = VInt 8453" using create_intent_Inr [OF c'] payload_fields(6) by metis
  moreover obtain d' where "decode_intent demo_intents demo_manager 87400 token False = Inr d'" "map_of d' = map_of d"
    using created_intent_accepted [OF demo_laws c' demo_ring demo_ring, of False 87400] by (auto simp: INTENT_TTL_SECONDS_def)
  ultimately show ?thesis using c same_fields by metis
qed

text \<open>
  From valid inputs (a configured provider, addresses web3 accepts, a token id of 32 bytes,
  a valid asset, 32-bit numbers) an intent is always created, and its token is at most 448
  characters long, below the 512 a decoder accepts.
\<close>

theorem create_intent_bounded:
  assumes "sha256_law env" "checksum_hex env" "key_ring m = Inr (current, keys)"
    and "provider \<in> set PROVIDERS" "address_payload env user = Inr u" "address_payload env wallet = Inr w"
    and "set h \<subseteq> set hex_chars" "length h = 64"
    and "asset_code_or_error (ie_unicode env) (VText (unicode_of asset)) = Inr a"
    and "0 \<le> chain_id" "chain_id < 2 ^ 32" "0 \<le> now" "now + INTENT_TTL_SECONDS < 2 ^ 32" "length nonce = 8"
  shows "\<exists>token d. create_intent env m now nonce provider user wallet (''0x'' @ h) chain_id asset = Inr (token, d)
     \<and> length token \<le> 448"
  using assms by (rule create_intent_valid)

lemma create_intent_bounded_witness:
  "\<exists>token d. create_intent demo_intents demo_manager 1000 (replicate 8 7) ''moonpay'' ''me'' ''it''
     (''0x'' @ replicate 64 (CHR ''b'')) 8453 ''usdc'' = Inr (token, d) \<and> length token \<le> 448"
  by (rule create_intent_bounded [OF demo_laws demo_ring _ demo_inputs(1) demo_inputs(1) demo_token_id demo_inputs(2)])
    (simp_all add: PROVIDERS_def INTENT_TTL_SECONDS_def)

text \<open>
  A token id of one byte behind 62 tab characters passes the check for 32 bytes: the length is
  that of the text, and \<open>bytes.fromhex\<close> skips white space.
\<close>

theorem token_id_padding:
  "hex_payload un (VText (unicode_of (''0x'' @ replicate 62 (CHR 0x09) @ ''ab''))) 32 =
     Inr (unicode_of (replicate 62 (CHR 0x09) @ ''ab''))
   \<and> bytes_fromhex (replicate 62 (CHR 0x09) @ ''ab'') = Inr [0xab]"
proof -
  have b: "bytes_fromhex (replicate 62 (CHR 0x09) @ ''ab'') = Inr [0xab]" by code_simp
  have l: "ascii_lower (''0x'' @ replicate 62 (CHR 0x09) @ ''ab'') = ''0x'' @ replicate 62 (CHR 0x09) @ ''ab''" by code_simp
  have "ascii (unicode_of (''0x'' @ replicate 62 (CHR 0x09) @ ''ab''))"
    "ascii (unicode_of (replicate 62 (CHR 0x09) @ ''ab''))" by code_simp+
  moreover from this(1) have "drop_prefix (unicode_of ''0x'') (text_lower un (unicode_of (''0x'' @ replicate 62 (CHR 0x09) @ ''ab''))) =
      unicode_of (replicate 62 (CHR 0x09) @ ''ab'')"
    unfolding text_lower_def by (simp only: if_True ascii_text_unicode drop_prefix_unicode l removeprefix_append)
  ultimately show ?thesis
    unfolding hex_payload_def jvalue.case Let_def using b by (simp del: unicode_of_simps(2,3))
qed

end
