(* ===== verification/Transak_Example.thy ===== *)
theory Transak_Example
  imports Transak_Props Intent_Props
begin

text \<open>A concrete partner API and edge for the properties of \<open>Transak_Props\<close>.\<close>

text \<open>The texts \<open>{"data":{"accessToken":"tk","expiresAt":100}}\<close>, \<open>{"data":[]}\<close>, \<open>{"data":"jwt"}\<close>.\<close>

definition token_codes :: ustr where
  "token_codes = [123, 34, 100, 97, 116, 97, 34, 58, 123, 34, 97, 99, 99, 101, 115, 115, 84, 111, 107, 101, 110, 34, 58, 34, 116, 107, 34, 44, 34, 101, 120, 112, 105, 114, 101, 115, 65, 116, 34, 58, 49, 48, 48, 125, 125]"

definition page_codes :: ustr where "page_codes = [123, 34, 100, 97, 116, 97, 34, 58, 91, 93, 125]"
definition hook_codes :: ustr where "hook_codes = [123, 34, 100, 97, 116, 97, 34, 58, 34, 106, 119, 116, 34, 125]"

lemma loads_codes:
  assumes "\<forall>c \<in> set cs. 0 < c \<and> c < 128"
  shows "json_loads un (map of_nat cs) = json_parse cs"
proof -
  have "plain_bytes (map of_nat cs)"
    using assms by (auto simp: plain_bytes_def word_less_nat_alt word_of_nat_less_iff unat_of_nat)
  moreover have "map unat (map (of_nat :: nat \<Rightarrow> u8) cs) = cs"
    using assms by (auto intro!: map_idI simp: unat_of_nat)
  ultimately show ?thesis by (simp add: json_loads_def del: map_map)
qed

definition token_payload :: jvalue where
  "token_payload = VDict [(unicode_of ''data'',
     VDict [(unicode_of ''accessToken'', VText (unicode_of ''tk'')), (unicode_of ''expiresAt'', VInt 100)])]"

definition page_payload :: jvalue where "page_payload = VDict [(unicode_of ''data'', VList [])]"

lemma parse_codes:
  "json_parse token_codes = Some token_payload"
  "json_parse page_codes = Some page_payload"
  "json_parse hook_codes = Some (VDict [(unicode_of ''data'', VText (unicode_of ''jwt''))])"
  by (simp_all add: json_parse_def skip_space_def scan_string.simps token_codes_def page_codes_def hook_codes_def
      token_payload_def page_payload_def constants_def scan_number_def digit_code_def dict_of_def digits_value_def
      after_exponent_def after_fraction_def)

lemma small_codes:
  "\<forall>c \<in> set token_codes. 0 < c \<and> c < 128" "\<forall>c \<in> set page_codes. 0 < c \<and> c < 128"
  "\<forall>c \<in> set hook_codes. 0 < c \<and> c < 128"
  by (simp_all add: token_codes_def page_codes_def hook_codes_def)

definition demo_orders :: order_env where
  "demo_orders = \<lparr>oe_intent = demo_intents, oe_manager = demo_manager,
     oe_float = \<lambda>t. \<lparr>fi_text = t, fi_finite = True, fi_zero = False, fi_negative = False, fi_above = False, fi_trunc = 0\<rparr>,
     oe_repr = \<lambda>v. [], oe_iso = \<lambda>t. None\<rparr>"

definition demo_tc :: transak_config where
  "demo_tc = \<lparr>tc_api_key = ''key'', tc_api_secret = ''shh'', tc_api_base_url = ''https://api'',
     tc_gateway_base_url = ''https://gw'', tc_referrer_domain = ''app.example'', tc_crypto_currency_code = ''USDC'',
     tc_network = ''base'', tc_chain_id = 8453, tc_token_address = ''it''\<rparr>"

definition demo_answer :: "http_request \<Rightarrow> bytes" where
  "demo_answer r = map of_nat (if hq_method r = ''POST'' then token_codes else page_codes)"

definition demo_event :: payload where
  "demo_event = [(unicode_of ''webhookData'', VDict []), (unicode_of ''eventID'', VText (unicode_of ''e1''))]"

text \<open>The world is the time; the JWTs verify under the token \<open>tk\<close>.\<close>

definition demo_api :: "int transak_env" where
  "demo_api = \<lparr>tx_orders = demo_orders, tx_now = \<lambda>w. (w, w),
     tx_http = \<lambda>r w. (Inr \<lparr>hr_status = 200, hr_headers = [], hr_chunks = [demo_answer r], hr_end = None\<rparr>, w),
     tx_others = \<lambda>s. s, tx_httpx_url = \<lambda>u. None,
     tx_ip = \<lambda>t. Some \<lparr>ip_compressed = t, ip_v6 = False, ip_mapped = False, ip_global = True, ip_multicast = False,
       ip_reserved = False, ip_site_local = False, ip_cf_worker = False\<rparr>,
     tx_jwt = \<lambda>w encoded key. if key = ''tk'' then Inr (VDict demo_event) else Inl (JwtInvalid ''signature''),
     tx_date_text = \<lambda>d. []\<rparr>"

lemma demo_cooperative: "cooperative demo_api demo_tc"
  by (simp add: cooperative_def demo_api_def run_refl)

definition demo_used :: "int transak" where
  "demo_used = snd (get_orders_by_wallet demo_api demo_tc ''me'' (transak_init (10 * SECOND)))"

lemma demo_was_used: "used demo_api demo_tc demo_used"
  unfolding demo_used_def by (intro used_wallet used_init)


lemma demo_parse:
  "strict_json_loads demo_orders (map of_nat token_codes) = Some token_payload"
  "strict_json_loads demo_orders (map of_nat page_codes) = Some page_payload"
  "strict_json_loads demo_orders (map of_nat hook_codes) = Some (VDict [(unicode_of ''data'', VText (unicode_of ''jwt''))])"
  by (simp_all add: strict_json_loads_def loads_codes small_codes parse_codes token_payload_def page_payload_def
      utf8_size.simps unicode_of_def)

lemma demo_http:
  "http demo_api locked r s =
     (Inr \<lparr>hr_status = 200, hr_headers = [], hr_chunks = [demo_answer r], hr_end = None\<rparr>,
      s\<lparr>tk_log := tk_log s @ [Requested r]\<rparr>)"
  by (simp add: http_def demo_api_def Let_def)

lemma demo_body:
  "read_body \<lparr>hr_status = 200, hr_headers = [], hr_chunks = [demo_answer r], hr_end = None\<rparr> = Inr (demo_answer r)"
  by (simp add: read_body_def MAX_RESPONSE_BYTES_def demo_answer_def token_codes_def page_codes_def)

lemma demo_parsed:
  "parse_answer demo_orders \<lparr>hr_status = 200, hr_headers = [], hr_chunks = [demo_answer r], hr_end = None\<rparr> (demo_answer r) =
     Inr \<lparr>aa_status = 200, aa_payload = (if hq_method r = ''POST'' then token_payload else page_payload), aa_headers = []\<rparr>"
proof -
  have "demo_answer r \<noteq> []" by (simp add: demo_answer_def token_codes_def page_codes_def)
  moreover have "strict_json_loads demo_orders (demo_answer r) =
      Some (if hq_method r = ''POST'' then token_payload else page_payload)"
    unfolding demo_answer_def by (cases "hq_method r = ''POST''") (simp_all only: simp_thms if_True if_False demo_parse)
  ultimately show ?thesis by (simp add: parse_answer_def)
qed

lemma demo_env: "tx_orders demo_api = demo_orders" "tx_others demo_api s = s" "tx_now demo_api w = (w, w)"
  "tx_jwt demo_api w encoded key = (if key = ''tk'' then Inr (VDict demo_event) else Inl (JwtInvalid ''signature''))"
  by (simp_all add: demo_api_def)

lemma demo_request:
  "json_request demo_api locked r s =
     (Inr \<lparr>aa_status = 200, aa_payload = (if hq_method r = ''POST'' then token_payload else page_payload), aa_headers = []\<rparr>,
      s\<lparr>tk_log := tk_log s @ [Requested (with_accept r)]\<rparr>)"
proof -
  have m: "hq_method (with_accept r) = hq_method r" by (simp add: with_accept_def)
  show ?thesis
    by (simp add: json_request_def demo_http demo_body demo_env py_bind_def py_try_def py_lift_def py_ret_def
        demo_parsed m)
qed

lemma demo_refresh: "refresh_token_locked demo_api demo_tc (transak_init 10000000) =
   (Inr \<lparr>at_value = ''tk'', at_expires_at = 100\<rparr>,
    \<lparr>tk_world = 10000000, tk_current = Some \<lparr>at_value = ''tk'', at_expires_at = 100\<rparr>, tk_previous = None,
     tk_previous_valid_until = 0,
     tk_log = [Requested (with_accept (refresh_request demo_tc)), Cached \<lparr>at_value = ''tk'', at_expires_at = 100\<rparr> 10000000]\<rparr>)"
proof -
  have m: "hq_method (refresh_request demo_tc) = ''POST''" by (simp add: refresh_request_def)
  have t: "read_token token_payload = Inr \<lparr>at_value = ''tk'', at_expires_at = 100\<rparr>" by code_simp
  have n: "now_ticks demo_api u = (Inr (tk_world u), u)" for u by (simp add: now_ticks_def demo_api_def)
  have p: "token_payload \<noteq> VNull" by (simp add: token_payload_def)
  show ?thesis
    by (simp add: refresh_token_locked_def demo_request m py_bind_def py_lift_def successful_payload_def t n p
        int_seconds_def SECOND_def py_then_def py_modify_def py_ret_def store_token_def transak_init_def)
qed


definition demo_token :: access_token where "demo_token = \<lparr>at_value = ''tk'', at_expires_at = 100\<rparr>"

definition demo_wallet :: string where "demo_wallet = ''0x'' @ replicate 40 (CHR ''A'')"

definition demo_lookup :: http_request where
  "demo_lookup = with_accept (with_token demo_tc (orders_request demo_tc [(''filter[walletAddress]'', demo_wallet)] None 0) demo_token)"

lemma demo_access: "access_token demo_api demo_tc (transak_init 10000000) = refresh_token_locked demo_api demo_tc (transak_init 10000000)"
  by (simp add: access_token_def usable_def py_bind_def py_get_def transak_init_def py_then_def take_lock_def
      py_modify_def demo_env)

lemma demo_used_state: "demo_used =
    \<lparr>tk_world = 10000000, tk_current = Some demo_token, tk_previous = None, tk_previous_valid_until = 0,
     tk_log = [Requested (with_accept (refresh_request demo_tc)), Cached demo_token 10000000, Requested demo_lookup]\<rparr>"
proof -
  have c: "ie_checksum (oe_intent demo_orders) v = Inr demo_wallet" for v
    by (simp add: demo_orders_def demo_intents_def demo_wallet_def)
  have m: "hq_method (with_token demo_tc (orders_request demo_tc fs b n) tok) \<noteq> ''POST''" for fs b n tok
    by (simp add: with_token_def orders_request_def)
  have o: "orders_page page_payload = Inr ([], None)" by code_simp
  have p: "page_payload \<noteq> VNull" by (simp add: page_payload_def)
  have i: "transak_init (10 * SECOND) = transak_init 10000000" by (simp add: SECOND_def)
  show ?thesis
    by (simp add: demo_used_def i get_orders_by_wallet_def demo_env c py_bind_def py_lift_def ORDER_MAX_PAGES_def
        get_orders_from.simps numeral_eq_Suc Let_def authenticated_json_request_def demo_access demo_refresh demo_request m
        successful_payload_def p o py_ret_def ORDER_PAGE_LIMIT_def demo_token_def demo_lookup_def)
qed

lemma demo_hook: "verify_webhook demo_api (Inr demo_tc) (map of_nat hook_codes) demo_used = (Inr demo_event, demo_used)"
proof -
  have h: "webhook_token demo_orders (map of_nat hook_codes) = Inr ''jwt''"
    by (simp add: webhook_token_def demo_parse field_def MAX_WEBHOOK_JWT_BYTES_def) (code_simp)
  have e: "webhook_event (VDict demo_event) = Inr demo_event" by code_simp
  have t: "webhook_tokens 10000000 demo_used = ([''tk''], demo_used\<lparr>tk_previous := None, tk_previous_valid_until := 0\<rparr>)"
    by (simp add: webhook_tokens_def demo_used_state demo_token_def PREVIOUS_TOKEN_OVERLAP_SECONDS_def SECOND_def)
  have s: "demo_used\<lparr>tk_previous := None, tk_previous_valid_until := 0\<rparr> = demo_used" by (simp add: demo_used_state)
  have w: "tk_world demo_used = 10000000" "demo_used\<lparr>tk_world := 10000000\<rparr> = demo_used" by (simp_all add: demo_used_state)
  show ?thesis
    by (simp add: verify_webhook_def demo_env h py_bind_def py_lift_def cached_webhook_verification_tokens_def py_then_def
        take_lock_def py_modify_def webhook_tokens_locked_def now_ticks_def w py_get_def t s py_ret_def e)
qed

lemma webhook_token_fresh_witness:
  "\<exists>encoded tok. webhook_token demo_orders (map of_nat hook_codes) = Inr encoded
     \<and> tx_jwt demo_api 10000000 encoded (at_value tok) = Inr (VDict demo_event) \<and> last_cached (tk_log demo_used) tok"
proof -
  have w: "tk_world demo_used = 10000000" "tk_previous demo_used = None" by (simp_all add: demo_used_state)
  have n: "\<not> replaced (tk_log demo_used) tok until" for tok until
    by (auto simp: replaced_def last_cached_def demo_used_state Cons_eq_append_conv)
  show ?thesis
    using webhook_token_fresh [OF demo_cooperative demo_was_used demo_hook] n unfolding w demo_env by blast
qed

lemma credentials_confined_witness:
  "(''access-token'', ''tk'') \<in> set (hq_headers demo_lookup)
   \<and> hq_url demo_lookup \<in> {''https://api/partners/api/v2/orders'', ''https://gw/api/v2/auth/session''}"
proof -
  have h: "(''access-token'', ''tk'') \<in> set (hq_headers demo_lookup)"
    by (simp add: demo_lookup_def with_accept_def with_token_def demo_token_def)
  have "tk_log demo_used = [Requested (with_accept (refresh_request demo_tc)), Cached demo_token 10000000] @ Requested demo_lookup # []"
    by (simp add: demo_used_state)
  from credentials_confined [OF demo_cooperative demo_was_used this] h show ?thesis by (simp add: demo_tc_def)
qed


section \<open>An attestation\<close>

definition demo_blank :: attestation where
  "demo_blank = \<lparr>ia_version = 1, ia_ip = ''8.8.8.8'', ia_issued_at = 10, ia_expires_at = 60,
     ia_nonce = replicate 32 (CHR ''a''), ia_signature = []\<rparr>"

definition demo_att :: attestation where
  "demo_att = demo_blank\<lparr>ia_signature := bytes_hex (hmac_digest (ie_sha256 demo_intents) (utf8 ''secret'')
     (utf8 (attestation_message demo_api demo_tc ''intent'' demo_blank)))\<rparr>"

lemma demo_att_simps [simp]:
  "ia_version demo_att = 1" "ia_ip demo_att = ''8.8.8.8''" "ia_issued_at demo_att = 10" "ia_expires_at demo_att = 60"
  "ia_nonce demo_att = replicate 32 (CHR ''a'')"
  by (simp_all add: demo_att_def demo_blank_def)

lemma demo_signature:
  "ia_signature demo_att = bytes_hex (hmac_digest (ie_sha256 (oe_intent demo_orders)) (utf8 ''secret'')
     (utf8 (attestation_message demo_api demo_tc ''intent'' demo_att)))"
  by (simp add: demo_att_def attestation_message_def demo_orders_def)

lemma demo_signature_hex: "lower_hex 64 (ia_signature demo_att)"
proof -
  have "length (hmac_digest (ie_sha256 demo_intents) k m) = 32" for k m
    by (simp add: hmac_digest_def demo_intents_def Let_def)
  then show ?thesis
    by (simp add: lower_hex_def demo_att_def bytes_hex_range)
qed

lemma demo_checked:
  assumes "10 * SECOND \<le> now" "now < 60 * SECOND"
  shows "check_attestation demo_api demo_tc (AttestedMode ''secret'') ''intent'' demo_att now = Inr ''8.8.8.8''"
proof -
  have i: "attested_ip demo_api ''8.8.8.8'' = Inr ''8.8.8.8''"
    by (simp add: attested_ip_def demo_api_def Let_def) (code_simp)
  show ?thesis
    using assms by (simp add: check_attestation_def i demo_signature [symmetric] demo_env MAX_TIMESTAMP_def
        IP_ATTESTATION_MAX_CLOCK_SKEW_SECONDS_def IP_ATTESTATION_MAX_WINDOW_SECONDS_def SECOND_def)
qed

lemma demo_verified:
  assumes "10 * SECOND \<le> now" "now < 60 * SECOND"
  shows "verify_ip_attestation demo_api demo_tc (AttestedMode ''secret'') ''intent'' demo_att now seen =
     py_then (reserve_ip_attestation_nonce (ia_nonce demo_att) 60 now) (py_ret ''8.8.8.8'') seen"
proof -
  have "lower_hex 32 (ia_nonce demo_att)" by (simp add: lower_hex_def hex_chars_def)
  moreover have "length (utf8 ''8.8.8.8'') = 7" by code_simp
  ultimately show ?thesis
    by (simp add: verify_ip_attestation_def demo_signature_hex demo_checked [OF assms] py_bind_def py_lift_def)
qed

lemma demo_reserved:
  "reserve_ip_attestation_nonce n 60 20000000 [] = (Inr (), [(n, 60)])"
  "reserve_ip_attestation_nonce n 60 30000000 [(n, 60)] = (refused ''Client IP attestation was already used'', [(n, 60)])"
  by (force simp: reserve_ip_attestation_nonce_def py_then_def py_bind_def py_modify_def py_get_def py_lift_def
      SECOND_def IP_ATTESTATION_MAX_NONCES_def)+

lemma demo_attested:
  "attest_all demo_api demo_tc (AttestedMode ''secret'') [(''intent'', demo_att, 20000000), (''intent'', demo_att, 30000000)] []
   = ([Inr ''8.8.8.8'', refused ''Client IP attestation was already used''], [(ia_nonce demo_att, 60)])"
  using demo_verified [of 20000000 "[]"] demo_verified [of 30000000 "[(ia_nonce demo_att, 60)]"]
  by (simp add: SECOND_def demo_reserved py_then_def py_bind_def py_ret_def refused_def)

lemma attestation_once_witness:
  "0 = (0 :: nat) \<and> length [(ia_nonce demo_att, 60 :: int)] \<le> 10000"
  by (rule attestation_once [OF demo_attested, of 0 0 "''8.8.8.8''" "''8.8.8.8''"]) simp_all

lemma attestation_accepted_sound_witness:
  "20000000 < ia_expires_at demo_att * SECOND \<and> ia_ip demo_att = ''8.8.8.8''"
proof -
  have "verify_ip_attestation demo_api demo_tc (AttestedMode ''secret'') ''intent'' demo_att 20000000 [] =
     (Inr ''8.8.8.8'', [(ia_nonce demo_att, 60)])"
    using demo_verified [of 20000000 "[]"] by (simp add: SECOND_def demo_reserved py_then_def py_bind_def py_ret_def)
  from attestation_accepted_sound [OF this] show ?thesis by auto
qed

end
