(* ===== verification/Onramp_Props.thy ===== *)
theory Onramp_Props
  imports Onramp_Routes Transak_Example
begin

text \<open>
  What the on-ramp handlers promise: which purchases a caller is shown, which widget URLs are signed,
  for whom a widget session is opened, and when a webhook counts.
\<close>

section \<open>Rows\<close>

text \<open>
  A row of the caller: its transaction id is a signed intent of this user and deposit address, from
  which the row has its provider, wallet, chain and token, and it names a transaction on the chain.
\<close>

definition backed :: "order_env \<Rightarrow> string \<Rightarrow> string \<Rightarrow> onramp_record \<Rightarrow> bool" where
  "backed env user wallet r \<longleftrightarrow>
     (\<exists>intent. decode_text env (or_transaction_id r) 0 True = Inr intent
        \<and> address_field (oe_intent env) intent ''u'' = Inr user
        \<and> address_field (oe_intent env) intent ''w'' = Inr wallet
        \<and> or_provider r = text_field intent ''p'' \<and> or_wallet_address r = wallet
        \<and> or_chain_id r = int_field intent ''c''
        \<and> or_token_id r = unicode_of ''0x'' @ text_lower (oe_unicode env) (text_field intent ''t'')
        \<and> or_provider_asset_code r = text_lower (oe_unicode env) (text_field intent ''a''))
   \<and> or_status r = ''completed'' \<and> or_on_chain_tx_hash r \<noteq> None"

text \<open>A Transak row: of the one asset the deployment is configured for.\<close>

definition of_asset :: "transak_config \<Rightarrow> string \<Rightarrow> onramp_record \<Rightarrow> bool" where
  "of_asset cfg token_id r \<longleftrightarrow>
     or_provider r = unicode_of ''transak'' \<and> or_chain_id r = tc_chain_id cfg
   \<and> or_token_id r = unicode_of (ascii_lower token_id) \<and> or_provider_asset_code r = unicode_of (canonical_asset_code cfg)"

text \<open>The order of a Transak row is a completed purchase of it.\<close>

definition completed_buy :: "order_env \<Rightarrow> transak_config \<Rightarrow> payload \<Rightarrow> onramp_record \<Rightarrow> bool" where
  "completed_buy env cfg order r \<longleftrightarrow>
     nonempty_string env (field order ''partnerOrderId'') = Some (or_transaction_id r)
   \<and> nonempty_string env (field order ''_id'') = or_provider_transaction_id r
   \<and> text_upper (oe_unicode env) (str_or_empty env (field order ''status'')) = unicode_of ''COMPLETED''
   \<and> text_upper (oe_unicode env) (str_or_empty env (field order ''isBuyOrSell'')) = unicode_of ''BUY''
   \<and> transaction_hash_or_none (field order ''transactionHash'') = or_on_chain_tx_hash r"

lemma sum_bind_eq_Inr: "sum_bind r f = Inr y \<longleftrightarrow> (\<exists>x. r = Inr x \<and> f x = Inr y)"
  by (cases r) (auto simp: sum_bind_def)

lemma record_fields:
  "record_from_intent env transaction_id d = Inr r \<Longrightarrow>
     or_transaction_id r = transaction_id \<and> or_provider r = text_field d ''p'' \<and> or_chain_id r = int_field d ''c''
   \<and> or_token_id r = unicode_of ''0x'' @ text_lower (ie_unicode env) (text_field d ''t'')
   \<and> or_provider_asset_code r = text_lower (ie_unicode env) (text_field d ''a'')"
  by (auto simp: record_from_intent_def Let_def sum_bind_eq_Inr)

lemma transak_row:
  assumes "transak_order_to_onramp_record env cfg order user_address wallet_address token_id expected = Inr (Inr r)"
    and "ie_checksum (oe_intent env) user_address = Inr user" "ie_checksum (oe_intent env) wallet_address = Inr wallet"
  shows "backed env user wallet r \<and> of_asset cfg token_id r \<and> completed_buy env cfg order r
     \<and> (expected \<noteq> None \<longrightarrow> expected = Some (or_transaction_id r))"
  using assms unfolding transak_order_to_onramp_record_def Let_def check_results
  by (auto simp: backed_def of_asset_def completed_buy_def simp del: unicode_of_simps dest!: record_fields)

text \<open>A MoonPay row.\<close>

definition completed_moonpay :: "order_env \<Rightarrow> payload \<Rightarrow> onramp_record \<Rightarrow> bool" where
  "completed_moonpay env transaction r \<longleftrightarrow>
     or_provider r = unicode_of ''moonpay''
   \<and> normalize_status env (field (transaction_data transaction) ''status'') = ''completed''
   \<and> string_or_none env (field (transaction_data transaction) ''id'') = or_provider_transaction_id r"

lemma moonpay_intent: "decode_onramp_intent env t now x = Inr intent \<Longrightarrow>
    decode_text env t now x = Inr intent \<and> text_field intent ''p'' = unicode_of ''moonpay''"
  by (auto simp: decode_onramp_intent_def sum_bind_eq_Inr refused_def split: if_splits)

lemma moonpay_row:
  assumes "moonpay_transaction_to_onramp_record env transaction user_address wallet_address = Inr (Inr r)"
    and "ie_checksum (oe_intent env) user_address = Inr user" "ie_checksum (oe_intent env) wallet_address = Inr wallet"
  shows "backed env user wallet r \<and> completed_moonpay env transaction r"
  using assms unfolding moonpay_transaction_to_onramp_record_def Let_def check_results
  by (auto simp: backed_def completed_moonpay_def simp del: unicode_of_simps dest!: moonpay_intent record_fields)

section \<open>Lists of rows\<close>

lemma admit_rows:
  "admit f xs pending counts = Inr (rows, counts') \<Longrightarrow>
     \<exists>new. rows = pending @ new \<and> (\<forall>r \<in> set new. \<exists>x \<in> set xs. f x = Inr (Inr r))"
proof (induction xs arbitrary: pending counts)
  case (Cons x xs)
  from Cons.prems consider (out) reason where "f x = Inr (Inl reason)"
      "admit f xs pending (bump (if reason = [] then ''included'' else reason) counts) = Inr (rows, counts')"
    | (row) r where "f x = Inr (Inr r)" "admit f xs (pending @ [r]) (bump ''included'' counts) = Inr (rows, counts')"
    by (cases "f x"; cases "projr (f x)") auto
  then show ?case
  proof cases
    case out
    from Cons.IH [OF out(2)] show ?thesis by force
  next
    case row
    from Cons.IH [OF row(2)] row(1) show ?thesis by force
  qed
qed simp

lemma set_insert_desc [simp]: "set (insert_desc le key x ys) = insert x (set ys)"
  by (induction ys) auto

lemma set_sort_desc [simp]: "set (sort_desc le key xs) = set xs"
  unfolding sort_desc_def by (induction xs) auto

text \<open>Each key is at most the one before it.\<close>

definition descending :: "('k \<Rightarrow> 'k \<Rightarrow> bool) \<Rightarrow> ('a \<Rightarrow> 'k) \<Rightarrow> 'a list \<Rightarrow> bool" where
  "descending le key xs \<longleftrightarrow> sorted_wrt (\<lambda>x y. le (key y) (key x)) xs"

lemma insert_desc_sorted:
  assumes "\<And>a b. le a b \<or> le b a" "\<And>a b c. le a b \<Longrightarrow> le b c \<Longrightarrow> le a c"
  shows "descending le key ys \<Longrightarrow> descending le key (insert_desc le key x ys)"
  unfolding descending_def
proof (induction ys)
  case (Cons y ys)
  then show ?case using assms by (auto simp: dest: assms(2))
qed simp

lemma sort_desc_sorted:
  assumes "\<And>a b. le a b \<or> le b a" "\<And>a b c. le a b \<Longrightarrow> le b c \<Longrightarrow> le a c"
  shows "descending le key (sort_desc le key xs)"
  unfolding sort_desc_def
  by (induction xs) (auto simp: insert_desc_sorted [OF assms] descending_def [of _ _ "[]"])

lemma key_le_total: "key_le s t \<or> key_le t s"
  by (induction s t rule: key_le.induct) auto

lemma key_le_trans: "key_le s t \<Longrightarrow> key_le t u \<Longrightarrow> key_le s u"
proof (induction s t arbitrary: u rule: key_le.induct)
  case (3 c s d t)
  then show ?case by (cases u) (auto split: if_splits)
qed (auto elim: key_le.elims)

lemma transak_key_le_total: "transak_key_le a b \<or> transak_key_le b a"
  using key_le_total by (cases a; cases b) (auto simp: not_less_iff_gr_or_eq)

lemma transak_key_le_trans: "transak_key_le a b \<Longrightarrow> transak_key_le b c \<Longrightarrow> transak_key_le a c"
  using key_le_trans by (cases a; cases b; cases c) auto

lemma dedupe_rows_keys:
  "distinct (map row_key (List.filter (\<lambda>r. snd (row_key r) \<noteq> []) (dedupe_rows seen rows)))
   \<and> set (dedupe_rows seen rows) \<subseteq> set rows
   \<and> (\<forall>r \<in> set (dedupe_rows seen rows). snd (row_key r) \<noteq> [] \<longrightarrow> row_key r \<notin> set seen)"
proof (induction rows arbitrary: seen)
  case (Cons r rs)
  show ?case using Cons [of seen] Cons [of "row_key r # seen"] by (auto simp: image_iff)
qed simp

section \<open>Pending purchases\<close>

text \<open>\<open>Web3.to_checksum_address\<close> of a checksummed address is that address.\<close>

definition checksum_law :: "intent_env \<Rightarrow> bool" where
  "checksum_law env \<longleftrightarrow> (\<forall>a c. ie_checksum env a = Inr c \<longrightarrow> ie_checksum env c = Inr c)"

text \<open>It is one function, though the model has it as a parameter of the sign-in and of the on-ramp.\<close>

definition web3_law :: "'w onramp_env \<Rightarrow> bool" where
  "web3_law env \<longleftrightarrow>
     checksum_law (re_intent env) \<and> je_checksum (fe_jwt (re_flow env)) = ie_checksum (re_intent env)"

text \<open>The row is the caller's, and a Transak row is of the configured asset.\<close>

definition row_ok :: "'w onramp_env \<Rightarrow> string \<Rightarrow> string \<Rightarrow> onramp_record \<Rightarrow> bool" where
  "row_ok env user wallet r \<longleftrightarrow>
     backed (re_orders env) user wallet r
   \<and> (or_provider r = unicode_of ''moonpay''
      \<or> (\<exists>cfg token_id. load_transak_config (re_client env) (re_transak env) = Inr cfg \<and> of_asset cfg token_id r))"

lemma answered_Inr [result_simps]: "answered f m s = (Inr x, t) \<longleftrightarrow> m s = (Inr x, t)"
  by (auto simp: answered_def result_simps)

lemma tried_Inr: "tried m s = (Inr (Inr x), t) \<Longrightarrow> m s = (Inr x, t)"
  by (auto simp: tried_def result_simps split: if_splits)

lemma on_client_Inr: "on_client env m s = (Inr x, t) \<Longrightarrow> \<exists>c. m (oo_client s) = (Inr x, c)"
  by (auto simp: on_client_def split: prod.splits)

lemma moonpay_rows_ok:
  assumes "moonpay_rows env user_address wallet_address ts = Inr rows" "checksum_law (re_intent env)"
    "ie_checksum (re_intent env) user_address = Inr user" "ie_checksum (re_intent env) wallet_address = Inr wallet"
    "r \<in> set rows"
  shows "row_ok env user wallet r"
proof -
  obtain pending counts where a: "admit (\<lambda>t. moonpay_transaction_to_onramp_record (re_orders env) t user wallet) ts [] []
      = Inr (pending, counts)" "rows = sort_desc (\<le>) or_updated_at pending"
    using assms(1,3,4)
    by (auto simp: moonpay_rows_def pending_records_from_moonpay_transactions_def sum_bind_eq_Inr)
  then obtain x where "moonpay_transaction_to_onramp_record (re_orders env) x user wallet = Inr (Inr r)"
    using admit_rows [OF a(1)] assms(5) by auto
  moreover have "ie_checksum (re_intent env) user = Inr user" "ie_checksum (re_intent env) wallet = Inr wallet"
    using assms(2-4) unfolding checksum_law_def by blast+
  ultimately show ?thesis
    using moonpay_row [of "re_orders env" x user wallet r] by (auto simp: row_ok_def completed_moonpay_def)
qed

lemma transak_rows_ok:
  assumes "transak_rows env cfg token_id user_address wallet_address expected orders = Inr rows"
    "load_transak_config (re_client env) (re_transak env) = Inr cfg"
    "ie_checksum (re_intent env) user_address = Inr user" "ie_checksum (re_intent env) wallet_address = Inr wallet"
    "r \<in> set rows"
  shows "row_ok env user wallet r"
proof -
  obtain pending counts where a: "admit (\<lambda>order. transak_order_to_onramp_record (re_orders env) cfg order user_address
      wallet_address token_id expected) orders [] [] = Inr (pending, counts)"
    "rows = sort_desc transak_key_le transak_key pending"
    using assms(1)
    by (auto simp: transak_rows_def pending_records_from_transak_orders_def sum_bind_eq_Inr)
  then obtain x where "transak_order_to_onramp_record (re_orders env) cfg x user_address wallet_address token_id expected
      = Inr (Inr r)"
    using admit_rows [OF a(1)] assms(5) by auto
  from transak_row [OF this assms(3,4)] assms(2) show ?thesis unfolding row_ok_def by blast
qed

lemma transak_asset_ok:
  assumes "transak_asset env known s = (Inr (cfg, token_id), t)"
    and "\<forall>c i. known = Some (c, i) \<longrightarrow> load_transak_config (re_client env) (re_transak env) = Inr c"
  shows "load_transak_config (re_client env) (re_transak env) = Inr cfg"
  using assms by (auto simp: transak_asset_def result_simps split: option.splits)

definition lookups_ok :: "'w onramp_env \<Rightarrow> string \<Rightarrow> string \<Rightarrow> lookups \<Rightarrow> bool" where
  "lookups_ok env user wallet l \<longleftrightarrow>
     (\<forall>r \<in> set (lk_rows l). row_ok env user wallet r)
   \<and> (\<forall>c i. lk_config l = Some (c, i) \<longrightarrow> load_transak_config (re_client env) (re_transak env) = Inr c)"

lemma found_ok:
  "lookups_ok env user wallet l \<Longrightarrow> (\<And>rows x. r = Inr rows \<Longrightarrow> x \<in> set rows \<Longrightarrow> row_ok env user wallet x)
   \<Longrightarrow> lookups_ok env user wallet (found_rows r l)"
  by (auto simp: lookups_ok_def found_rows_def split: sum.splits)

definition caller_is :: "'w onramp_env \<Rightarrow> string \<Rightarrow> string \<Rightarrow> string \<Rightarrow> string \<Rightarrow> bool" where
  "caller_is env user_address deposit user wallet \<longleftrightarrow>
     checksum_law (re_intent env) \<and> ie_checksum (re_intent env) user_address = Inr user
   \<and> ie_checksum (re_intent env) deposit = Inr wallet"

lemma exact_moonpay_ok:
  "caller_is env user_address deposit user wallet \<Longrightarrow> tried (exact_moonpay env user_address deposit intent_id) s = (Inr (Inr rows), t) \<Longrightarrow> r \<in> set rows
   \<Longrightarrow> row_ok env user wallet r"
  by (drule tried_Inr) (auto simp: exact_moonpay_def result_simps caller_is_def intro: moonpay_rows_ok)

lemma exact_transak_ok:
  "caller_is env user_address deposit user wallet \<Longrightarrow> tried (exact_transak env user_address deposit (cfg, token_id) exact) s = (Inr (Inr rows), t) \<Longrightarrow> r \<in> set rows
   \<Longrightarrow> load_transak_config (re_client env) (re_transak env) = Inr cfg \<Longrightarrow> row_ok env user wallet r"
  by (drule tried_Inr)
    (auto simp: exact_transak_def result_simps caller_is_def split: prod.splits intro: transak_rows_ok)

lemma exact_lookups_ok:
  "caller_is env user_address deposit user wallet \<Longrightarrow> exact_lookups env user_address deposit exact l s = (Inr l', t) \<Longrightarrow> lookups_ok env user wallet l
   \<Longrightarrow> lookups_ok env user wallet l'"
proof (induction exact arbitrary: l s)
  case (Cons e exact)
  obtain intent_id intent where e: "e = (intent_id, intent)" by fastforce
  have step: "lookups_ok env user wallet m"
    if m: "(if text_field intent ''p'' = unicode_of ''moonpay'' then
          py_bind (tried (exact_moonpay env user_address deposit intent_id)) (\<lambda>r. py_ret (found_rows r l))
        else if text_field intent ''p'' = unicode_of ''transak'' then
          py_bind (tried (transak_asset env (lk_config l))) (\<lambda>asset.
          case asset of
            Inl e \<Rightarrow> py_ret l
          | Inr a \<Rightarrow>
              py_bind (tried (exact_transak env user_address deposit a (intent_id, intent))) (\<lambda>r.
              py_ret (found_rows r (l\<lparr>lk_config := Some a\<rparr>))))
        else py_ret l) s = (Inr m, u)" for m u
  proof (cases "text_field intent ''p'' = unicode_of ''moonpay''")
    case True
    with m Cons.prems(3) show ?thesis
      by (auto simp: result_simps simp del: unicode_of_simps intro!: found_ok dest: exact_moonpay_ok [OF Cons.prems(1)])
  next
    case other: False
    show ?thesis
    proof (cases "text_field intent ''p'' = unicode_of ''transak''")
      case True
      obtain asset v where a: "tried (transak_asset env (lk_config l)) s = (Inr asset, v)"
        and r: "(case asset of
            Inl e \<Rightarrow> py_ret l
          | Inr a \<Rightarrow>
              py_bind (tried (exact_transak env user_address deposit a (intent_id, intent))) (\<lambda>r.
              py_ret (found_rows r (l\<lparr>lk_config := Some a\<rparr>)))) v = (Inr m, u)"
        using m other True by (auto simp: result_simps simp del: unicode_of_simps)
      show ?thesis
      proof (cases asset)
        case (Inr b)
        obtain cfg token_id where b: "b = (cfg, token_id)" by fastforce
        have c: "load_transak_config (re_client env) (re_transak env) = Inr cfg"
          using transak_asset_ok tried_Inr a Cons.prems(3) unfolding Inr b lookups_ok_def by metis
        have "lookups_ok env user wallet (l\<lparr>lk_config := Some b\<rparr>)"
          using Cons.prems(3) c by (auto simp: lookups_ok_def b)
        then show ?thesis
          using r c by (auto simp: Inr b result_simps intro!: found_ok dest: exact_transak_ok [OF Cons.prems(1)])
      qed (use r Cons.prems(3) in \<open>auto simp: result_simps\<close>)
    qed (use m other Cons.prems(3) in \<open>auto simp: result_simps\<close>)
  qed
  from Cons.prems(2) show ?case unfolding e exact_lookups.simps py_bind_Inr using step Cons.IH [OF Cons.prems(1)] by blast
qed (simp add: result_simps)

lemma wallet_rows_ok:
  assumes "caller_is env user_address deposit user wallet"
    and "tried (wallet_rows env user_address deposit provider known) s = (Inr (Inr rows), t)" "r \<in> set rows"
    and "\<forall>c i. known = Some (c, i) \<longrightarrow> load_transak_config (re_client env) (re_transak env) = Inr c"
  shows "row_ok env user wallet r"
  using tried_Inr [OF assms(2)] assms(1,3) transak_asset_ok [OF _ assms(4)]
  by (auto simp: wallet_rows_def result_simps caller_is_def split: if_splits prod.splits
      intro: moonpay_rows_ok transak_rows_ok)

lemma dedupe_ok: "r \<in> set (dedupe_onramp_rows rows) \<Longrightarrow> r \<in> set rows"
  using dedupe_rows_keys [of "[]" rows] by (auto simp: dedupe_onramp_rows_def)

lemma limited:
  assumes "get_pending_onramps env (token, user_address) ids s = (Inr rows, t)" "web3_law env"
  shows "\<exists>user. ie_checksum (re_intent env) user_address = Inr user"
proof -
  obtain u v where "on_auth (enforce_onramp_user_rate_limit (re_flow env) user_address ''onramp_pending'' 20) u = (Inr (), v)"
    using assms(1) unfolding get_pending_onramps_def prod.case answered_Inr py_then_Inr by auto
  then obtain x where "je_checksum (fe_jwt (re_flow env)) user_address = Inr x"
    by (auto simp: on_auth_def enforce_onramp_user_rate_limit_def py_bind_def py_lift_def split: prod.splits sum.splits)
  then show ?thesis using assms(2) by (auto simp: web3_law_def)
qed


section \<open>Signed URLs\<close>

lemma single_given_Inr: "single_given params key = Inr v \<longleftrightarrow> query_values params key = [v] \<and> v \<noteq> []"
  by (auto simp: single_given_def single_def sum_bind_eq_Inr refused_def split: list.splits option.splits if_splits)

lemma single_Inr: "single params key = Inr (Some v) \<longleftrightarrow> query_values params key = [v]"
  by (auto simp: single_def refused_def split: list.splits)

text \<open>
  What a signed URL says: an allowed host, this deployment's key, one wallet, one customer, one
  intent, one currency, and no signature.
\<close>

definition url_names :: "'w onramp_env \<Rightarrow> split_result \<Rightarrow> string \<Rightarrow> string \<Rightarrow> ustr \<Rightarrow> ustr \<Rightarrow> bool" where
  "url_names env parsed wallet user intent_id asset \<longleftrightarrow>
     (let params = parse_qsl (re_moonpay env) (sp_query parsed); lower = text_lower (oe_unicode (re_orders env)) in
      sp_scheme parsed = ''https'' \<and> sp_hostname parsed \<in> Some ` set (mo_allowed_hosts (re_moonpay env))
    \<and> query_values params ''signature'' = []
    \<and> query_values params ''apiKey'' = [unicode_of (the (mo_api_key (re_moonpay env)))]
    \<and> (\<exists>w. query_values params ''walletAddress'' = [w] \<and> text_address (re_orders env) w = Inr (Some wallet))
    \<and> query_values params ''externalCustomerId'' = [unicode_of user]
    \<and> query_values params ''externalTransactionId'' = [intent_id]
    \<and> (\<exists>c. query_values params ''currencyCode'' = [c] \<and> (asset \<noteq> [] \<longrightarrow> lower c = lower asset)))"

lemma signed_url:
  assumes "sign_moonpay_url (re_orders env) (re_moonpay env) url wallet_address user_address intent_id asset = Inr sig"
    and "ie_checksum (re_intent env) wallet_address = Inr wallet" "ie_checksum (re_intent env) user_address = Inr user"
  shows "\<exists>parsed. urlsplit url = Inr parsed \<and> url_names env parsed wallet user intent_id asset
     \<and> sig = b64encode (hmac_digest (ie_sha256 (re_intent env)) (utf8 (the (mo_secret_key (re_moonpay env))))
                (utf8 (''?'' @ sp_query parsed)))"
  using assms unfolding sign_moonpay_url_def Let_def url_names_def
  by (auto simp: sum_bind_eq_Inr single_given_Inr single_Inr require_single_def refused_def unconfigured_def
      split: if_splits option.splits)


section \<open>Sessions\<close>

text \<open>What the session's client address rests on.\<close>

definition ip_vouched :: "'w onramp_env \<Rightarrow> transak_config \<Rightarrow> session_payload \<Rightarrow> (string \<Rightarrow> string list) \<Rightarrow> string \<Rightarrow> bool" where
  "ip_vouched env cfg request headers ip \<longleftrightarrow>
     (\<exists>mode. load_transak_session_ip_config (re_transak env) = Inr mode
        \<and> (case mode of
             HeaderMode h \<Rightarrow> client_ip_from_values (re_client env) (headers h) = Inr ip
           | AttestedMode secret \<Rightarrow>
               (\<exists>a now seen seen'. ses_ip_attestation request = Some a
                  \<and> verify_ip_attestation (re_client env) cfg mode (ascii_text (ses_transaction_id request)) a now seen
                      = (Inr ip, seen'))))"

lemma user_ip_vouched:
  assumes "user_ip_of env cfg mode request headers s = (Inr ip, t)"
    "load_transak_session_ip_config (re_transak env) = Inr mode"
  shows "ip_vouched env cfg request headers ip"
proof (cases mode)
  case (HeaderMode h)
  then show ?thesis using assms by (auto simp: ip_vouched_def user_ip_of_def result_simps)
next
  case (AttestedMode secret)
  then obtain a where a: "ses_ip_attestation request = Some a"
    using assms(1) by (cases "ses_ip_attestation request") (auto simp: user_ip_of_def result_simps refused_def)
  obtain now u where "on_nonces (verify_ip_attestation (re_client env) cfg mode (ascii_text (ses_transaction_id request)) a now) u
      = (Inr ip, t)"
    using assms(1) unfolding AttestedMode by (auto simp: user_ip_of_def a result_simps)
  then show ?thesis
    using assms(2) a unfolding ip_vouched_def AttestedMode on_nonces_def by (auto split: prod.splits)
qed

lemma widget_url: "read_widget_url env payload = Inr url \<Longrightarrow> is_https_url env url MAX_WIDGET_URL_BYTES False"
  by (cases "get_field (get_field payload ''data'') ''widgetUrl''") (auto simp: read_widget_url_def split: if_splits)


section \<open>MoonPay webhooks\<close>

lemma buffered: "buffer_body detail chunks buffer = Inr body \<Longrightarrow> int (length buffer) \<le> WEBHOOK_MAX_BODY_BYTES
    \<Longrightarrow> body = buffer @ concat chunks \<and> int (length body) \<le> WEBHOOK_MAX_BODY_BYTES"
proof (induction chunks arbitrary: buffer)
  case (Cons a chunks)
  then have "buffer_body detail chunks (buffer @ a) = Inr body" "int (length (buffer @ a)) \<le> WEBHOOK_MAX_BODY_BYTES"
    by (auto split: if_splits)
  from Cons.IH [OF this] show ?case unfolding concat.simps append_assoc .
qed simp

text \<open>
  C33. A MoonPay webhook counts only if it is at most a mebibyte long and its header carries the MAC of
  its time and body under the webhook key, of a time within the tolerance.
\<close>

theorem moonpay_webhook_authentic:
  assumes "moonpay_onramp_webhook env chunks header s = (Inr r, t)"
  shows "length (concat chunks) \<le> 1048576
     \<and> (\<exists>secret timestamp signed_at now. mo_webhook_secret_key (re_moonpay env) = Some secret
          \<and> map_of (signature_parts header) ''t'' = Some timestamp \<and> py_int timestamp = Some signed_at
          \<and> map_of (signature_parts header) ''s'' =
              Some (bytes_hex (hmac_digest (ie_sha256 (re_intent env)) (utf8 secret)
                (utf8 timestamp @ [46] @ concat chunks)))
          \<and> (mo_webhook_tolerance_seconds (re_moonpay env) > 0
             \<longrightarrow> \<bar>now - signed_at\<bar> \<le> mo_webhook_tolerance_seconds (re_moonpay env))
          \<and> now = int_seconds (fst (tx_now (re_client env) (tk_world (oo_client s)))))"
proof -
  obtain body now u where b: "buffer_body ''MoonPay webhook payload is too large'' chunks [] = Inr body"
    and now: "seconds_now env s = (Inr now, u)"
    and v: "verify_moonpay_webhook (re_orders env) (re_moonpay env) now body header = Inr ()"
    using assms unfolding moonpay_onramp_webhook_def by (auto simp: result_simps)
  have body: "body = concat chunks"
    using buffered [OF b] by (auto simp: WEBHOOK_MAX_BODY_BYTES_def)
  have "int (length body) \<le> WEBHOOK_MAX_BODY_BYTES"
    by (rule conjunct2 [OF buffered [OF b]]) (simp add: WEBHOOK_MAX_BODY_BYTES_def)
  then have l: "length (concat chunks) \<le> 1048576" unfolding body WEBHOOK_MAX_BODY_BYTES_def by linarith
  have n: "now = int_seconds (fst (tx_now (re_client env) (tk_world (oo_client s))))"
    using now by (auto simp: seconds_now_def current_time_def result_simps split: prod.splits)
  have "given (mo_webhook_secret_key (re_moonpay env))"
    using v by (auto simp: verify_moonpay_webhook_def unconfigured_def split: if_splits)
  then obtain secret where k: "mo_webhook_secret_key (re_moonpay env) = Some secret"
    by (cases "mo_webhook_secret_key (re_moonpay env)") (auto simp: given_def)
  then show ?thesis
    using v n l unfolding verify_moonpay_webhook_def k body Let_def
    by (auto simp: compare_digest_def sum_bind_eq_Inr refused_def unconfigured_def split: if_splits option.splits)
qed

text \<open>
  A signature that is not ASCII ends in the \<open>TypeError\<close> of \<open>hmac.compare_digest\<close>, which the handler
  does not catch: the answer is not a 401.
\<close>

lemma non_ascii_signature_unanswered:
  assumes "given (mo_webhook_secret_key (re_moonpay env))" "mo_webhook_tolerance_seconds (re_moonpay env) = 0"
  shows "\<exists>m. fst (moonpay_onramp_webhook env [] (''t=1,s='' @ [CHR 0xE9]) s) = Inl (OtherError m)"
proof -
  define header where "header = ''t=1,s='' @ [CHR 0xE9]"
  have p: "signature_parts header = [(''s'', [CHR 0xE9]), (''t'', ''1'')]" unfolding header_def by code_simp
  have t: "py_int ''1'' = Some 1" by code_simp
  have a: "\<not> list_all is_ascii [CHR 0xE9]" by (simp add: is_ascii_def)
  obtain now u where n: "seconds_now env s = (Inr now, u)"
    by (cases "tx_now (re_client env) (tk_world (oo_client s))")
      (simp add: seconds_now_def current_time_def py_bind_def py_ret_def)
  have "\<exists>m. fst (moonpay_onramp_webhook env [] header s) = Inl (OtherError m)"
    using assms a unfolding moonpay_onramp_webhook_def
    by (simp add: py_bind_def py_then_def py_lift_def n py_ret_def answered_def py_try_def
        py_raise_def verify_moonpay_webhook_def p t compare_digest_def)
  then show ?thesis unfolding header_def .
qed

end
