(* ===== verification/Auth_Limits.thy ===== *)
theory Auth_Limits
  imports Auth_Stores
begin

text \<open>
  What the fixed-window counter of \<^verbatim>\<open>src/auth/rate_limiter.py\<close> guarantees. The transactions of all
  workers on one key are one sequence of \<open>hit\<close>s; each reads the clock first and then may wait
  for the table.
\<close>

section \<open>Windows\<close>

text \<open>The counter values written for a key, oldest first.\<close>

definition counters :: "ckey \<Rightarrow> event list \<Rightarrow> (int \<times> int) list" where
  "counters k log = List.map_filter (\<lambda>e. case e of
      CSet k' (Limit l) x \<Rightarrow> if k' = k then Some (li_count l, li_reset_at l) else None | _ \<Rightarrow> None) log"

text \<open>
  A counter value follows another when it counts on in the same window, up to the limit, or
  starts a window that ends at least \<open>gap\<close> later.
\<close>

definition counts_on :: "int \<Rightarrow> int \<Rightarrow> (int \<times> int) option \<Rightarrow> int \<times> int \<Rightarrow> bool" where
  "counts_on limit gap p e \<longleftrightarrow>
     (case p of
        None \<Rightarrow> fst e = 1
      | Some q \<Rightarrow> (fst e = fst q + 1 \<and> fst e \<le> limit \<and> snd e = snd q)
               \<or> (fst e = 1 \<and> snd q + gap \<le> snd e))"

fun windows_ok :: "int \<Rightarrow> int \<Rightarrow> (int \<times> int) option \<Rightarrow> (int \<times> int) list \<Rightarrow> bool" where
  "windows_ok limit gap p [] = True"
| "windows_ok limit gap p (e # es) = (counts_on limit gap p e \<and> windows_ok limit gap (Some e) es)"

definition latest :: "(int \<times> int) option \<Rightarrow> (int \<times> int) list \<Rightarrow> (int \<times> int) option" where
  "latest p es = (if es = [] then p else Some (List.last es))"

lemma latest_simps [simp]: "latest p [] = p" "latest p (e # es) = latest (Some e) es" "latest p (es @ [e]) = Some e"
  by (simp_all add: latest_def)

lemma windows_ok_snoc:
  "windows_ok limit gap p (es @ [e]) \<longleftrightarrow> windows_ok limit gap p es \<and> counts_on limit gap (latest p es) e"
  by (induction es arbitrary: p) auto

text \<open>Any stretch of \<open>gap\<close> contains the end of one window only, so at most \<open>limit\<close> values.\<close>

lemma windows_from:
  assumes "windows_ok limit gap (Some (c, r)) es" and "1 \<le> c" and "c \<le> limit" and "0 < gap"
  shows "int (length (List.filter (\<lambda>e. a \<le> snd e \<and> snd e < a + gap) es))
    \<le> (if r < a then limit else if r < a + gap then limit - c else 0)"
  using assms
proof (induction es arbitrary: c r)
  case Nil
  then show ?case by simp
next
  case (Cons e es)
  obtain c' r' where e: "e = (c', r')" by (cases e)
  have step: "(c' = c + 1 \<and> c' \<le> limit \<and> r' = r) \<or> (c' = 1 \<and> r + gap \<le> r')"
    and rest: "windows_ok limit gap (Some (c', r')) es"
    using Cons.prems(1) by (auto simp: e counts_on_def)
  then have "1 \<le> c'" "c' \<le> limit" using Cons.prems by auto
  from Cons.IH [OF rest this Cons.prems(4)] show ?case
    using step Cons.prems by (auto simp: e split: if_splits)
qed

lemma windows_bound:
  assumes "windows_ok limit gap None es" and "1 \<le> limit" and "0 < gap"
  shows "int (length (List.filter (\<lambda>e. a \<le> snd e \<and> snd e < a + gap) es)) \<le> limit"
proof (cases es)
  case (Cons e es')
  obtain c r where e: "e = (c, r)" by (cases e)
  have c: "c = 1" and rest: "windows_ok limit gap (Some (c, r)) es'"
    using assms(1) by (auto simp: Cons e counts_on_def)
  have b: "int (length (List.filter (\<lambda>e. a \<le> snd e \<and> snd e < a + gap) es'))
      \<le> (if r < a then limit else if r < a + gap then limit - c else 0)"
    using rest by (rule windows_from) (use c assms in auto)
  show ?thesis
  proof (cases "a \<le> r \<and> r < a + gap")
    case True
    then show ?thesis using b c by (simp add: Cons e)
  next
    case False
    then show ?thesis using b assms(2) by (auto simp: Cons e split: if_splits)
  qed
qed (use assms in simp)

section \<open>One hit\<close>

text \<open>
  What is relied on: only \<open>hit\<close>s touch the key, a set happens no earlier than the clock was read,
  and the wait for the table is at most \<open>delay\<close>.
\<close>

fun touches :: "ckey \<Rightarrow> event \<Rightarrow> bool" where
  "touches k (CSet k' v x) = (k' = k)"
| "touches k (CPop k' v t) = (k' = k)"
| "touches k (CDelete k' b t) = (k' = k)"
| "touches k e = False"

definition timely :: "'w store_env \<Rightarrow> ckey \<Rightarrow> int \<Rightarrow> bool" where
  "timely env k delay \<longleftrightarrow>
     (\<forall>w es w'. dk_others (se_disk env) w = (es, w') \<longrightarrow>
        (\<forall>e \<in> set es. \<not> touches k e)
      \<and> dk_now (se_disk env) w' \<le> se_clock env w + delay
      \<and> (\<forall>r w''. dk_get (se_disk env) k w' = (r, w'') \<longrightarrow> se_clock env w \<le> dk_now (se_disk env) w''))"

text \<open>The table agrees with the last counter value and keeps it until a second before its window ends.\<close>

definition tracked :: "table \<Rightarrow> ckey \<Rightarrow> event list \<Rightarrow> bool" where
  "tracked m k log \<longleftrightarrow>
     (case latest None (counters k log) of
        None \<Rightarrow> after m log k = None
      | Some (c, r) \<Rightarrow> \<exists>x. after m log k = Some (Limit \<lparr>li_count = c, li_reset_at = r\<rparr>, x) \<and> r - SECOND < x)"

lemma counters_append [simp]: "counters k (a @ b) = counters k a @ counters k b"
  by (simp add: counters_def map_filter_def)

lemma counters_single:
  "counters k [CSet k (Limit l) x] = [(li_count l, li_reset_at l)]"
  "counters k [CGet k' v t] = []" "counters k [] = []"
  by (simp_all add: counters_def map_filter_simps)

lemma untouched:
  assumes "\<forall>e \<in> set es. \<not> touches k e"
  shows "counters k es = []" and "after m es k = m k"
proof -
  show "counters k es = []"
    using assms by (induction es) (auto simp: counters_def map_filter_simps split: event.splits cell.splits)
  show "after m es k = m k"
    using assms
  proof (induction es arbitrary: m)
    case (Cons e es)
    have "event_step e m k = m k"
      using Cons.prems by (cases "(e, m)" rule: event_step.cases) auto
    then show ?case using Cons by simp
  qed simp
qed

lemma tracked_quiet: "\<forall>e \<in> set es. \<not> touches k e \<Longrightarrow> tracked m k log \<Longrightarrow> tracked m k (log @ es)"
  by (auto simp: tracked_def untouched after_append split: option.splits)

lemma tracked_get: "tracked m k log \<Longrightarrow> tracked m k (log @ [CGet k v t])"
proof -
  have "event_step (CGet k v t) m' = m'" for m' :: table by simp
  then show "tracked m k log \<Longrightarrow> tracked m k (log @ [CGet k v t])"
    by (auto simp: tracked_def counters_single after_append split: option.splits)
qed

lemma floor_seconds: "0 < y \<Longrightarrow> y - SECOND < max 1 (y div SECOND) * SECOND"
proof -
  assume "0 < y"
  have "y - SECOND < y div SECOND * SECOND"
    using pos_mod_bound [of SECOND y] div_mult_mod_eq [of y SECOND] by (simp add: SECOND_def)
  also have "\<dots> \<le> max 1 (y div SECOND) * SECOND"
    by (rule mult_right_mono) (simp_all add: SECOND_def)
  finally show ?thesis .
qed

text \<open>A write that keeps the entry until a second before its window ends.\<close>

lemma write_counter:
  assumes run: "py_then (locked_set (se_disk env) k (Limit l) ttl) (py_ret None) u = (r, t)"
    and ttl: "li_reset_at l - SECOND < now + ttl" and now: "now \<le> dk_now (se_disk env) (au_world u)"
    and tr: "tracked m k (au_log u)"
  shows "tracked m k (au_log t)
    \<and> (r = Inr None \<longrightarrow> counters k (au_log t) = counters k (au_log u) @ [(li_count l, li_reset_at l)])
    \<and> (r \<noteq> Inr None \<longrightarrow> counters k (au_log t) = counters k (au_log u))"
proof -
  obtain q w where q: "dk_set (se_disk env) k (Limit l) ttl (au_world u) = (q, w)" by fastforce
  show ?thesis
  proof (cases q)
    case (Inl e)
    then show ?thesis
      using run tr by (auto simp: py_then_def py_bind_def locked_set_def atomic_call_def q)
  next
    case (Inr x)
    then have t: "r = Inr None"
      "au_log t = au_log u @ [CSet k (Limit l) (dk_now (se_disk env) (au_world u) + ttl)]"
      using run by (auto simp: py_then_def py_bind_def py_ret_def locked_set_def atomic_call_def q)
    have c: "counters k (au_log t) = counters k (au_log u) @ [(li_count l, li_reset_at l)]"
      by (simp only: t(2) counters_append [of k "au_log u"] counters_single)
    moreover have "tracked m k (au_log t)"
      unfolding tracked_def c using ttl now by (simp add: t after_append)
    ultimately show ?thesis using t by simp
  qed
qed

text \<open>What is read is the last value, unless that is gone by then.\<close>

lemma read_counter:
  assumes tr: "tracked m k log"
    and seen: "fits (after m log) (CGet k v now)" "keeps_entries (after m log) (CGet k v now)"
  shows "(limit_of v = None
        \<and> (latest None (counters k log) = None
           \<or> (\<exists>c r. latest None (counters k log) = Some (c, r) \<and> r - SECOND < now)))
    \<or> (\<exists>l. limit_of v = Some l \<and> latest None (counters k log) = Some (li_count l, li_reset_at l))"
proof (cases "latest None (counters k log)")
  case None
  then have "after m log k = None" using tr by (simp add: tracked_def)
  then have "v = None" using seen by (cases v) (auto simp: live_def)
  then show ?thesis using None by (simp add: limit_of_def)
next
  case (Some p)
  obtain c r where p: "p = (c, r)" by (cases p)
  obtain x where x: "after m log k = Some (Limit \<lparr>li_count = c, li_reset_at = r\<rparr>, x)" "r - SECOND < x"
    using tr Some p by (auto simp: tracked_def)
  show ?thesis
  proof (cases v)
    case None
    then have "x \<le> now" using seen x by (auto simp: live_def split: if_splits)
    then show ?thesis using None Some p x by (auto simp: limit_of_def)
  next
    case val: (Some val)
    then have "val = Limit \<lparr>li_count = c, li_reset_at = r\<rparr>"
      using seen x by (auto simp: live_def split: if_splits)
    then show ?thesis using val Some p by (simp add: limit_of_def)
  qed
qed

text \<open>A step of the counter: it adds nothing unless it lets the request through.\<close>

definition steps_to :: "int \<Rightarrow> int \<Rightarrow> table \<Rightarrow> ckey \<Rightarrow> event list \<Rightarrow> exn + int option \<Rightarrow> event list \<Rightarrow> bool" where
  "steps_to limit gap m k log r log' \<longleftrightarrow>
     tracked m k log'
   \<and> (r \<noteq> Inr None \<longrightarrow> counters k log' = counters k log)
   \<and> (r = Inr None \<longrightarrow> (\<exists>e. counters k log' = counters k log @ [e]
        \<and> counts_on limit gap (latest None (counters k log)) e))"

lemma start_window_step:
  assumes run: "start_window env k now window u = (r, t)"
    and gone: "\<forall>c x. latest None (counters k (au_log u)) = Some (c, x) \<longrightarrow> x - SECOND \<le> now + delay"
    and now: "now \<le> dk_now (se_disk env) (au_world u)" and tr: "tracked m k (au_log u)"
  shows "steps_to limit ((window - 1) * SECOND - delay) m k (au_log u) r (au_log t)"
proof -
  have "counts_on limit ((window - 1) * SECOND - delay) (latest None (counters k (au_log u))) (1, now + window * SECOND)"
    using gone by (auto simp: counts_on_def algebra_simps split: option.split)
  then show ?thesis
    using write_counter [OF run [unfolded start_window_def] _ now tr]
    by (auto simp: steps_to_def SECOND_def)
qed

lemma count_hit_step:
  assumes run: "count_hit env k limit window now v u = (r, t)"
    and seen: "limit_of v = None
        \<and> (\<forall>c x. latest None (counters k (au_log u)) = Some (c, x) \<longrightarrow> x - SECOND \<le> now + delay)
      \<or> (\<exists>l. limit_of v = Some l \<and> latest None (counters k (au_log u)) = Some (li_count l, li_reset_at l))"
    and now: "now \<le> dk_now (se_disk env) (au_world u)" and tr: "tracked m k (au_log u)" and delay: "0 \<le> delay"
  shows "steps_to limit ((window - 1) * SECOND - delay) m k (au_log u) r (au_log t)"
proof (cases "limit_of v")
  case None
  then show ?thesis
    using start_window_step [OF _ _ now tr] run seen by (auto simp: count_hit_def)
next
  case (Some l)
  then have le: "latest None (counters k (au_log u)) = Some (li_count l, li_reset_at l)"
    using seen by auto
  consider "li_reset_at l \<le> now" | "now < li_reset_at l" "limit \<le> li_count l"
    | "now < li_reset_at l" "li_count l < limit" by linarith
  then show ?thesis
  proof cases
    case 1
    then show ?thesis
      using start_window_step [OF _ _ now tr] run Some le delay by (auto simp: count_hit_def SECOND_def)
  next
    case 2
    then show ?thesis
      using run Some tr by (auto simp: count_hit_def py_ret_def steps_to_def)
  next
    case 3
    then have ttl: "li_reset_at l - SECOND < now + max 1 ((li_reset_at l - now) div SECOND) * SECOND"
      using floor_seconds [of "li_reset_at l - now"] by simp
    have "counts_on limit ((window - 1) * SECOND - delay) (latest None (counters k (au_log u))) (li_count l + 1, li_reset_at l)"
      using 3 le by (simp add: counts_on_def)
    then show ?thesis
      using write_counter [of env k "\<lparr>li_count = li_count l + 1, li_reset_at = li_reset_at l\<rparr>" _ u r t now m]
        ttl run Some 3 now tr
      by (auto simp: steps_to_def count_hit_def)
  qed
qed

lemma hit_step:
  assumes run: "hit env bucket key limit window s = (r, t)" and k: "k = limit_key bucket key"
    and pos: "0 < limit" "0 < window" and env: "timely env k delay" and delay: "0 \<le> delay"
    and laws: "legal m (au_log t)" "lossless m (au_log t)" and inv: "tracked m k (au_log s)"
  shows "steps_to limit ((window - 1) * SECOND - delay) m k (au_log s) r (au_log t)"
proof -
  let ?d = "se_disk env" and ?now = "se_clock env (au_world s)"
  obtain es w1 where o: "dk_others ?d (au_world s) = (es, w1)" by fastforce
  obtain q w2 where g: "dk_get ?d k w1 = (q, w2)" by fastforce
  have quiet: "\<forall>e \<in> set es. \<not> touches k e" and wait: "dk_now ?d w1 \<le> ?now + delay"
    and order: "?now \<le> dk_now ?d w2"
    using env o g by (auto simp: timely_def)
  have tr: "tracked m k (au_log s @ es)" by (rule tracked_quiet [OF quiet inv])
  have c: "counters k (au_log s @ es) = counters k (au_log s)" by (simp add: untouched [OF quiet])
  show ?thesis
  proof (cases q)
    case (Inl e)
    then have "au_log t = au_log s @ es" "r = Inl e"
      using run pos by (auto simp: hit_def time_time_def reading_def py_bind_def py_then_def others_def o
          locked_get_def atomic_call_def g k [symmetric])
    then show ?thesis using tr c by (simp add: steps_to_def)
  next
    case (Inr v)
    let ?u = "s\<lparr>au_world := w2, au_log := au_log s @ es @ [CGet k v (dk_now ?d w1)]\<rparr>"
    have body: "count_hit env k limit window ?now v ?u = (r, t)"
      using run pos by (simp add: hit_def time_time_def reading_def py_bind_def py_then_def others_def o
          locked_get_def atomic_call_def g Inr k [symmetric])
    have tu: "tracked m k (au_log ?u)"
      using tracked_get [OF tr, of v "dk_now ?d w1"] by simp
    have cu: "counters k (au_log ?u) = counters k (au_log s)"
      by (simp add: counters_single untouched [OF quiet])
    obtain more where "au_log t = au_log ?u @ more"
      using grows [OF grows_count_hit body] by blast
    then have "fits (after m (au_log s @ es)) (CGet k v (dk_now ?d w1))"
      "keeps_entries (after m (au_log s @ es)) (CGet k v (dk_now ?d w1))"
      using laws by (auto simp: legal_append lossless_append after_append)
    from read_counter [OF tr this] have "steps_to limit ((window - 1) * SECOND - delay) m k (au_log ?u) r (au_log t)"
      using count_hit_step [OF body _ _ tu delay] wait order unfolding c cu by fastforce
    then show ?thesis unfolding steps_to_def cu .
  qed
qed

section \<open>A run of hits\<close>

fun hits :: "'w store_env \<Rightarrow> string \<Rightarrow> string \<Rightarrow> int \<Rightarrow> int \<Rightarrow> nat \<Rightarrow> 'w auth \<Rightarrow> (exn + int option) list \<times> 'w auth" where
  "hits env bucket key limit window 0 s = ([], s)"
| "hits env bucket key limit window (Suc n) s =
     (case hit env bucket key limit window s of (r, t) \<Rightarrow>
      case hits env bucket key limit window n t of (rs, u) \<Rightarrow> (r # rs, u))"

lemma hits_grow: "hits env bucket key limit window n s = (rs, t) \<Longrightarrow> \<exists>es. au_log t = au_log s @ es"
proof (induction n arbitrary: s rs)
  case (Suc n)
  obtain r u where h: "hit env bucket key limit window s = (r, u)" by fastforce
  obtain rs' where rest: "hits env bucket key limit window n u = (rs', t)"
    using Suc.prems by (auto simp: h split: prod.splits)
  show ?case using Suc.IH [OF rest] grows [OF grows_hit h] by auto
qed simp

lemma hits_steps:
  assumes "hits env bucket key limit window n s = (rs, t)" and "k = limit_key bucket key"
    and "0 < limit" "0 < window" "timely env k delay" "0 \<le> delay"
    and "legal m (au_log t)" "lossless m (au_log t)" and "tracked m k (au_log s)"
    and "windows_ok limit ((window - 1) * SECOND - delay) None (counters k (au_log s))"
  shows "windows_ok limit ((window - 1) * SECOND - delay) None (counters k (au_log t))
    \<and> length (counters k (au_log t)) = length (counters k (au_log s)) + length (List.filter (\<lambda>r. r = Inr None) rs)"
  using assms
proof (induction n arbitrary: s rs)
  case (Suc n)
  obtain r u where h: "hit env bucket key limit window s = (r, u)" by fastforce
  obtain rs' where rest: "hits env bucket key limit window n u = (rs', t)" and rs: "rs = r # rs'"
    using Suc.prems(1) by (auto simp: h split: prod.splits)
  obtain es where "au_log t = au_log u @ es" using hits_grow [OF rest] by blast
  then have laws: "legal m (au_log u)" "lossless m (au_log u)"
    using Suc.prems(7,8) by (auto simp: legal_append lossless_append)
  note step = hit_step [OF h Suc.prems(2-6) laws Suc.prems(9), unfolded steps_to_def]
  have "windows_ok limit ((window - 1) * SECOND - delay) None (counters k (au_log u))"
    using step Suc.prems(10) by (cases "r = Inr None") (auto simp: windows_ok_snoc)
  from Suc.IH [OF rest Suc.prems(2-8) _ this] show ?case
    using step by (cases "r = Inr None") (auto simp: rs)
qed simp


end
