(* ===== verification/Auth_Props.thy ===== *)
theory Auth_Props
  imports Auth_Routes
begin

text \<open>
  What the sign-in handlers guarantee: which checks stand behind every credential they hand out,
  and that a nonce, an authorization code and a refresh token are each taken only once, whatever
  the workers do in between.
\<close>

section \<open>The handlers only add to the history\<close>

lemma grows_stores [grows_intros]:
  "keeps (since_log l) (time_time env)"
  "keeps (since_log l) (fresh f)"
  "keeps (since_log l) (store_refresh_token env jti a x)"
  "keeps (since_log l) (is_refresh_token_valid env jti)"
  "keeps (since_log l) (delete_refresh_token env jti)"
  "keeps (since_log l) (consume_refresh_token env jti)"
  "keeps (since_log l) (is_nonce_valid env n)"
  "keeps (since_log l) (create_code env rec)"
  "keeps (since_log l) (get_code env c)"
  "keeps (since_log l) (consume_code env c)"
  unfolding time_time_def fresh_def store_refresh_token_def is_refresh_token_valid_def
    delete_refresh_token_def consume_refresh_token_def is_nonce_valid_def create_code_def get_code_def
    consume_code_def
  by (intro keeps_intros grows_intros)+

lemma grows_nonces [grows_intros]:
  "keeps (since_log l) (consume_nonce env n)"
  "keeps (since_log l) (new_nonce env c)"
  "keeps (since_log l) (generate_nonce env c)"
  unfolding consume_nonce_def generate_nonce_def new_nonce_def Let_def
  by (auto intro!: keeps_intros grows_intros split: option.split)

lemma grows_revoke [grows_intros]: "keeps (since_log l) (revoke_keys env a ks n)"
  by (induction ks arbitrary: n) (auto intro!: keeps_intros grows_intros)

lemma grows_tokens [grows_intros]:
  "keeps (since_log l) (create_token env' a)"
  "keeps (since_log l) (create_id_token env' a aud)"
  "keeps (since_log l) (create_refresh_token env' a)"
  "keeps (since_log l) (verify_token env' tok aud')"
  unfolding create_token_def create_id_token_def create_refresh_token_def verify_token_def Let_def
  by (intro keeps_intros grows_intros)+

lemma grows_verify [grows_intros]:
  "keeps (since_log l) (get_access_token_payload env' tok)"
  "keeps (since_log l) (verify_refresh_token env' tok)"
  "keeps (since_log l) (refresh_tokens env' tok)"
  "keeps (since_log l) (revoke_refresh_token env' tok)"
  "keeps (since_log l) (revoke_all_refresh_tokens env' a)"
  unfolding get_access_token_payload_def verify_refresh_token_def refresh_tokens_def
    revoke_refresh_token_def revoke_all_refresh_tokens_def revoke_all_refresh_tokens_for_address_def
  by (auto intro!: keeps_intros grows_intros split: option.split)

lemma grows_user [grows_intros]:
  "keeps (since_log l) (access_token_payload env' c)"
  "keeps (since_log l) (get_current_user env' c)"
  unfolding get_current_user_def access_token_payload_def
  by (auto intro!: keeps_intros grows_intros split: option.split)

lemma grows_identify [grows_intros]: "keeps (since_log l) (identify env cs msg)"
  unfolding identify_def Let_def by (intro keeps_intros grows_intros)

lemma grows_authenticate [grows_intros]: "keeps (since_log l) (authenticate_siwe_message env m sg)"
  unfolding authenticate_siwe_message_def Let_def
  by (intro keeps_intros grows_intros; simp split: prod.split; intro conjI allI impI keeps_intros grows_intros)

lemma grows_siwe_as_http [grows_intros]: "keeps P m \<Longrightarrow> keeps P (siwe_as_http m)"
  unfolding siwe_as_http_def by (auto intro!: keeps_intros split: exn.split)

lemma grows_guards [grows_intros]:
  "keeps (since_log l) (rate_limit_retry_after env rq b n)"
  "keeps (since_log l) (browser_origin env rq d)"
  "keeps (since_log l) (enforce_browser_auth_origin env rq)"
  unfolding rate_limit_retry_after_def browser_origin_def enforce_browser_auth_origin_def
  by (intro keeps_intros grows_intros)+

lemma grows_enforce [grows_intros]: "keeps (since_log l) (enforce_auth_rate_limit env rq b n)"
  unfolding enforce_auth_rate_limit_def by (auto intro!: keeps_intros grows_intros split: option.split)

lemma grows_issue [grows_intros]: "keeps (since_log l) (issue_tokens env a aud)"
  unfolding issue_tokens_def by (intro keeps_intros grows_intros)

lemma grows_redeem [grows_intros]: "keeps (since_log l) (redeem_code env p c u og)"
  unfolding redeem_code_def
  by (auto intro!: keeps_intros grows_intros split: option.split sum.split)

lemma grows_handlers [grows_intros]:
  "keeps (since_log l) (authorize_code env ap rq)"
  "keeps (since_log l) (exchange_code env tp rq)"
  "keeps (since_log l) (get_siwe_nonce env a rq)"
  "keeps (since_log l) (siwe_login env m sg rq)"
  "keeps (since_log l) (refresh env tok)"
  "keeps (since_log l) (logout env lo cr)"
  unfolding authorize_code_def exchange_code_def get_siwe_nonce_def siwe_login_def refresh_def logout_def Let_def
  by (auto intro!: keeps_intros grows_intros split: option.split sum.split prod.split)

section \<open>What a returned call has done\<close>

lemma consume_code_Inr:
  assumes "consume_code env c s = (Inr (Some rec), t)"
  obtains es now where "au_log t = au_log s @ es @ [CPop (code_key c) (Some (Code rec)) now]"
proof -
  obtain v where "cache_pop (se_disk env) (code_key c) s = (Inr v, t)" "code_of v = Inr (Some rec)"
    using assms by (auto simp: consume_code_def result_simps)
  moreover have "v = Some (Code rec)"
    using \<open>code_of v = _\<close> by (auto simp: code_of_def split: option.splits cell.splits)
  ultimately show thesis using that by (auto elim: cache_pop_Inr)
qed

lemma get_code_Inr:
  assumes "get_code env c s = (Inr (Some rec), t)"
  obtains es now where "au_log t = au_log s @ es @ [CGet (code_key c) (Some (Code rec)) now]"
proof -
  obtain v where "cache_get (se_disk env) (code_key c) s = (Inr v, t)" "code_of v = Inr (Some rec)"
    using assms by (auto simp: get_code_def result_simps)
  moreover have "v = Some (Code rec)"
    using \<open>code_of v = _\<close> by (auto simp: code_of_def split: option.splits cell.splits)
  ultimately show thesis using that by (auto elim: cache_get_Inr)
qed

lemma text_of_Inr: "text_of v = Inr (Some x) \<longleftrightarrow> v = Some (Text x)" "text_of v = Inr None \<longleftrightarrow> v = None"
  by (auto simp: text_of_def split: option.splits cell.splits)

lemma consume_refresh_Inr:
  assumes "consume_refresh_token env j s = (Inr (Some a), t)"
  obtains es now where "au_log t = au_log s @ es @ [CPop (refresh_key j) (Some (Text a)) now]"
proof -
  have "cache_pop (se_disk env) (refresh_key j) s = (Inr (Some (Text a)), t)"
    using assms by (auto simp: consume_refresh_token_def result_simps text_of_Inr)
  then show thesis using that by (auto elim: cache_pop_Inr)
qed

lemma consume_nonce_Inr:
  assumes "consume_nonce env n s = (Inr True, t)"
  obtains es now c more where "au_log t = au_log s @ es @ CPop (nonce_key n) (Some (Text c)) now # more"
proof -
  obtain c u where p: "cache_pop (se_disk env) (nonce_key n) s = (Inr (Some (Text c)), u)"
    and r: "py_then (if c \<noteq> [] then py_then (cache_delete (se_disk env) (client_key c)) (py_ret ()) else py_ret ())
       (py_ret True) u = (Inr True, t)"
    using assms by (auto simp: consume_nonce_def py_bind_Inr py_lift_Inr py_ret_Inr text_of_Inr split: option.splits)
  have "keeps (since_log (au_log u)) (py_then (if c \<noteq> [] then py_then (cache_delete (se_disk env) (client_key c)) (py_ret ()) else py_ret ())
       (py_ret True))"
    by (intro keeps_intros grows_intros)
  from grows [OF this r] obtain more where "au_log t = au_log u @ more" by blast
  then show thesis using that p by (auto elim!: cache_pop_Inr)
qed

lemma is_nonce_valid_Inr:
  assumes "is_nonce_valid env n s = (Inr b, t)"
  obtains es now where "au_log t = au_log s @ es @ [CHas (nonce_key n) b now]"
  using cache_contains_Inr [OF assms [unfolded is_nonce_valid_def]] .

lemma create_token_Inr:
  assumes "create_token env a s = (Inr tok, t)"
  shows "\<exists>x. je_checksum env a = Inr x \<and> t = s
    \<and> je_encode env (new_claims env x (je_audience env) TOKEN_TYPE_ACCESS None (se_clock (je_stores env) (au_world s))
        (je_expiry_hours env * 3600)) = Inr tok"
  using assms by (auto simp: create_token_def result_simps time_time_def reading_def)

lemma create_id_token_Inr:
  assumes "create_id_token env a aud s = (Inr tok, t)"
  shows "\<exists>x. je_checksum env a = Inr x \<and> t = s
    \<and> je_encode env (new_claims env x aud TOKEN_TYPE_ID None (se_clock (je_stores env) (au_world s))
        (je_expiry_hours env * 3600)) = Inr tok"
  using assms by (auto simp: create_id_token_def result_simps time_time_def reading_def)

lemma create_refresh_token_Inr:
  assumes "create_refresh_token env a s = (Inr tok, t)"
  shows "\<exists>x jti es expires. je_checksum env a = Inr x
    \<and> je_encode env (new_claims env x (je_audience env) TOKEN_TYPE_REFRESH (Some jti)
        (se_clock (je_stores env) (au_world s)) (je_refresh_expiry_days env * 24 * 3600)) = Inr tok
    \<and> au_log t = au_log s @ es @ [CSet (refresh_key jti) (Text x) expires]"
proof -
  let ?now = "se_clock (je_stores env) (au_world s)" and ?life = "je_refresh_expiry_days env * 24 * 3600"
  obtain x u jti v where x: "je_checksum env a = Inr x"
    and f: "fresh (se_token_urlsafe (je_stores env)) s = (Inr jti, u)"
    and e: "je_encode env (new_claims env x (je_audience env) TOKEN_TYPE_REFRESH (Some jti) ?now ?life) = Inr tok"
    and st: "store_refresh_token (je_stores env) jti x (?now + ?life * SECOND) u = (Inr v, t)"
    using assms unfolding create_refresh_token_def Let_def by (auto simp: result_simps time_time_def reading_def)
  have "au_log u = au_log s"
    using f by (auto simp: fresh_def outside_def split: prod.splits)
  moreover obtain ttl where "cache_set (se_disk (je_stores env)) (refresh_key jti) (Text x) ttl u = (Inr v, t)"
    using st by (auto simp: store_refresh_token_def result_simps time_time_def reading_def)
  ultimately show ?thesis
    using x e by (auto elim!: cache_set_Inr)
qed

text \<open>What the issued tokens are.\<close>

definition issued :: "'w jwt_env \<Rightarrow> string \<Rightarrow> string \<Rightarrow> string option \<Rightarrow> string \<Rightarrow> string \<Rightarrow> bool" where
  "issued env kind audience jti address token \<longleftrightarrow>
     (\<exists>now lifetime. je_encode env (new_claims env address audience kind jti now lifetime) = Inr token)"

lemma issue_tokens_Inr:
  assumes "issue_tokens env a aud s = (Inr g, t)"
  shows "\<exists>x jti es expires. je_checksum (fe_jwt env) a = Inr x \<and> tg_address g = a
    \<and> issued (fe_jwt env) TOKEN_TYPE_ACCESS (je_audience (fe_jwt env)) None x (tg_access_token g)
    \<and> issued (fe_jwt env) TOKEN_TYPE_ID aud None x (tg_id_token g)
    \<and> issued (fe_jwt env) TOKEN_TYPE_REFRESH (je_audience (fe_jwt env)) (Some jti) x (tg_refresh_token g)
    \<and> au_log t = au_log s @ es @ [CSet (refresh_key jti) (Text x) expires]"
proof -
  obtain a1 s1 a2 s2 a3 where t: "create_token (fe_jwt env) a s = (Inr a1, s1)"
    "create_id_token (fe_jwt env) a aud s1 = (Inr a2, s2)"
    "create_refresh_token (fe_jwt env) a s2 = (Inr a3, t)"
    and g: "tg_access_token g = a1" "tg_id_token g = a2" "tg_refresh_token g = a3" "tg_address g = a"
    using assms by (auto simp: issue_tokens_def result_simps)
  show ?thesis
    using create_token_Inr [OF t(1)] create_id_token_Inr [OF t(2)] create_refresh_token_Inr [OF t(3)] g
    unfolding issued_def by (auto; blast)
qed


section \<open>Exchanging a code\<close>

lemma redeem_code_granted:
  assumes "redeem_code env p client uri og s = (Inr (Granted g o'), t)"
  obtains rec taken u v where "get_code (stores env) (tq_code p) s = (Inr (Some rec), u)"
    "co_client_id rec = tq_client_id p" "co_redirect_uri rec = uri"
    "verify_pkce (fe_sha256 env) (tq_code_verifier p) (co_code_challenge rec) (co_code_challenge_method rec) = Inr True"
    "consume_code (stores env) (tq_code p) u = (Inr (Some taken), v)"
    "issue_tokens env (co_user_address rec) (ac_audience client) v = (Inr g, t)" "o' = og"
proof -
  obtain found u where f: "get_code (stores env) (tq_code p) s = (Inr found, u)"
    and rest: "(case found of
       None \<Rightarrow> py_ret (AuthError 400 ''invalid_grant'' None None)
     | Some rec \<Rightarrow>
         if co_client_id rec \<noteq> tq_client_id p then py_ret (AuthError 400 ''invalid_client'' None None)
         else if co_redirect_uri rec \<noteq> uri
         then py_ret (AuthError 400 ''invalid_redirect_uri'' og None)
         else
           case verify_pkce (fe_sha256 env) (tq_code_verifier p) (co_code_challenge rec)
                  (co_code_challenge_method rec) of
             Inl e \<Rightarrow> if is_value_error e then py_ret (AuthError 400 ''invalid_grant'' og None) else py_raise e
           | Inr pkce_ok \<Rightarrow>
               if \<not> pkce_ok then py_ret (AuthError 400 ''invalid_grant'' og None)
               else
                 py_bind (consume_code (stores env) (tq_code p)) (\<lambda>consumed.
                 if consumed = None then py_ret (AuthError 400 ''invalid_grant'' og None)
                 else
                   py_bind (issue_tokens env (co_user_address rec) (ac_audience client)) (\<lambda>grant.
                   py_ret (Granted grant og)))) u = (Inr (Granted g o'), t)"
    using assms by (auto simp: redeem_code_def py_bind_Inr)
  obtain rec where rec: "found = Some rec" using rest by (cases found) (auto simp: py_ret_Inr)
  have c: "co_client_id rec = tq_client_id p" "co_redirect_uri rec = uri"
    using rest by (auto simp: rec py_ret_Inr split: if_splits)
  have ok: "verify_pkce (fe_sha256 env) (tq_code_verifier p) (co_code_challenge rec) (co_code_challenge_method rec) = Inr True"
    using rest c by (auto simp: rec py_ret_Inr py_raise_Inr split: if_splits sum.splits)
  then show thesis
    using rest c that [OF f [unfolded rec] c ok] by (auto simp: rec result_simps split: if_splits)
qed

lemma verify_pkce_True:
  "verify_pkce sha v ch m = Inr True \<Longrightarrow> m = ''S256'' \<and> urlsafe_b64 (sha (map of_char v)) = ch"
  by (auto simp: verify_pkce_def split: if_splits)

lemma exchange_code_granted:
  assumes "exchange_code env p rq s = (Inr (Granted g o'), t)"
  obtains client uri ro w where "get_client (fe_clients env) (tq_client_id p) = Some client"
    "normalize_redirect_uri (tq_redirect_uri p) = Inr uri" "uri \<in> set (ac_redirect_uris client)"
    "redirect_origin uri = Inr ro" "request_origin rq = None \<or> request_origin rq = Some ro"
    "\<exists>es. au_log w = au_log s @ es"
    "redeem_code env p client uri (if request_origin rq = Some ro then request_origin rq else None) w = (Inr (Granted g o'), t)"
proof -
  obtain client where cl: "get_client (fe_clients env) (tq_client_id p) = Some client"
    using assms by (auto simp: exchange_code_def py_ret_Inr split: option.splits)
  note a = assms [unfolded exchange_code_def cl option.case Let_def]
  have v: "validate_redirect_uri (fe_clients env) (tq_client_id p) (tq_redirect_uri p)"
    using a by (auto simp: py_ret_Inr split: if_splits)
  then obtain uri where uri: "normalize_redirect_uri (tq_redirect_uri p) = Inr uri" "uri \<in> set (ac_redirect_uris client)"
    by (auto simp: validate_redirect_uri_def cl split: sum.splits)
  obtain ro where ro: "redirect_origin uri = Inr ro"
    using a v by (auto simp: py_ret_Inr py_bind_Inr py_lift_Inr uri split: if_splits)
  have og: "request_origin rq = None \<or> request_origin rq = Some ro"
    using a v by (auto simp: py_ret_Inr py_bind_Inr py_lift_Inr uri ro split: if_splits)
  obtain ra w where h: "rate_limit_retry_after env rq ''auth_token_exchange'' (as_auth_token_rate_limit (fe_settings env)) s = (Inr ra, w)"
    and rest: "(if ra \<noteq> None then py_ret (AuthError 429 ''rate_limited'' (if request_origin rq = Some ro then request_origin rq else None) ra)
      else redeem_code env p client uri (if request_origin rq = Some ro then request_origin rq else None)) w = (Inr (Granted g o'), t)"
    using a v og by (auto simp: py_ret_Inr py_bind_Inr py_lift_Inr uri ro split: if_splits)
  have "redeem_code env p client uri (if request_origin rq = Some ro then request_origin rq else None) w = (Inr (Granted g o'), t)"
    using rest by (cases "ra = None") (auto simp: py_ret_Inr)
  moreover have "\<exists>es. au_log w = au_log s @ es"
    using grows [OF grows_guards(1) h] .
  ultimately show thesis using that cl uri ro og by blast
qed

text \<open>
  C19. A token exchange that grants credentials (on any legal history of the tables): the client is
  registered and the redirect URI is one of its registered ones; the authorization code was live
  when it was read, was issued to this client for this redirect URI with an S256 challenge that
  the verifier answers, and was taken out of the table before anything was issued; the three
  tokens are issued to the address the code was made for, the id token for the client's audience,
  and the refresh token is on record for that address. The origin let through is the redirect
  URI's own.
\<close>

theorem exchange_code_sound:
  assumes "exchange_code env payload request s = (Inr (Granted g origin), t)"
    and "legal m (au_log t)"
  shows "\<exists>client uri rec addr jti looked now between taken now' rest.
      get_client (fe_clients env) (tq_client_id payload) = Some client
    \<and> normalize_redirect_uri (tq_redirect_uri payload) = Inr uri \<and> uri \<in> set (ac_redirect_uris client)
    \<and> (origin = None \<or> (origin = request_origin request \<and> redirect_origin uri = Inr (the origin)))
    \<and> au_log t = au_log s @ looked @ CGet (code_key (tq_code payload)) (Some (Code rec)) now
                   # between @ CPop (code_key (tq_code payload)) (Some taken) now' # rest
    \<and> live (after m (au_log s @ looked)) (code_key (tq_code payload)) now = Some (Code rec)
    \<and> co_client_id rec = tq_client_id payload \<and> co_redirect_uri rec = uri
    \<and> co_code_challenge_method rec = ''S256''
    \<and> urlsafe_b64 (fe_sha256 env (map of_char (tq_code_verifier payload))) = co_code_challenge rec
    \<and> je_checksum (fe_jwt env) (co_user_address rec) = Inr addr \<and> tg_address g = co_user_address rec
    \<and> issued (fe_jwt env) TOKEN_TYPE_ACCESS (je_audience (fe_jwt env)) None addr (tg_access_token g)
    \<and> issued (fe_jwt env) TOKEN_TYPE_ID (ac_audience client) None addr (tg_id_token g)
    \<and> issued (fe_jwt env) TOKEN_TYPE_REFRESH (je_audience (fe_jwt env)) (Some jti) addr (tg_refresh_token g)
    \<and> (\<exists>x. CSet (refresh_key jti) (Text addr) x \<in> set rest)"
proof -
  obtain client uri ro w where c: "get_client (fe_clients env) (tq_client_id payload) = Some client"
    "normalize_redirect_uri (tq_redirect_uri payload) = Inr uri" "uri \<in> set (ac_redirect_uris client)"
    and ro: "redirect_origin uri = Inr ro" "request_origin request = None \<or> request_origin request = Some ro"
    and w: "\<exists>es. au_log w = au_log s @ es"
    and red: "redeem_code env payload client uri
        (if request_origin request = Some ro then request_origin request else None) w = (Inr (Granted g origin), t)"
    using exchange_code_granted [OF assms(1)] .
  obtain rec taken u v where r: "get_code (stores env) (tq_code payload) w = (Inr (Some rec), u)"
    "co_client_id rec = tq_client_id payload" "co_redirect_uri rec = uri"
    "verify_pkce (fe_sha256 env) (tq_code_verifier payload) (co_code_challenge rec) (co_code_challenge_method rec) = Inr True"
    "consume_code (stores env) (tq_code payload) u = (Inr (Some taken), v)"
    "issue_tokens env (co_user_address rec) (ac_audience client) v = (Inr g, t)"
    "origin = (if request_origin request = Some ro then request_origin request else None)"
    using redeem_code_granted [OF red] by metis
  obtain es0 where l0: "au_log w = au_log s @ es0" using w by blast
  obtain es1 now where l1: "au_log u = au_log w @ es1 @ [CGet (code_key (tq_code payload)) (Some (Code rec)) now]"
    using get_code_Inr [OF r(1)] .
  obtain es2 now' where l2: "au_log v = au_log u @ es2 @ [CPop (code_key (tq_code payload)) (Some (Code taken)) now']"
    using consume_code_Inr [OF r(5)] .
  obtain addr jti es3 x where tok: "je_checksum (fe_jwt env) (co_user_address rec) = Inr addr" "tg_address g = co_user_address rec"
    "issued (fe_jwt env) TOKEN_TYPE_ACCESS (je_audience (fe_jwt env)) None addr (tg_access_token g)"
    "issued (fe_jwt env) TOKEN_TYPE_ID (ac_audience client) None addr (tg_id_token g)"
    "issued (fe_jwt env) TOKEN_TYPE_REFRESH (je_audience (fe_jwt env)) (Some jti) addr (tg_refresh_token g)"
    and l3: "au_log t = au_log v @ es3 @ [CSet (refresh_key jti) (Text addr) x]"
    using issue_tokens_Inr [OF r(6)] by blast
  have l: "au_log t = au_log s @ (es0 @ es1) @ CGet (code_key (tq_code payload)) (Some (Code rec)) now
      # es2 @ CPop (code_key (tq_code payload)) (Some (Code taken)) now' # (es3 @ [CSet (refresh_key jti) (Text addr) x])"
    by (simp add: l0 l1 l2 l3)
  have "live (after m (au_log s @ es0 @ es1)) (code_key (tq_code payload)) now = Some (Code rec)"
    using assms(2) unfolding l by (simp add: legal_append after_append)
  moreover have "origin = None \<or> (origin = request_origin request \<and> redirect_origin uri = Inr (the origin))"
    using r(7) ro by auto
  moreover have "CSet (refresh_key jti) (Text addr) x \<in> set (es3 @ [CSet (refresh_key jti) (Text addr) x])" by simp
  ultimately show ?thesis
    using c l r(2,3) verify_pkce_True [OF r(4)] tok by blast
qed


section \<open>Authenticating a message\<close>

definition text_or_empty :: "string option \<Rightarrow> string" where
  "text_or_empty x = (case x of None \<Rightarrow> [] | Some t \<Rightarrow> t)"

lemma identify_Inr:
  assumes "identify env configs msg s = (Inr (cfg, nonce, address), t)"
  shows "\<exists>digits es now. cfg \<in> set configs \<and> sc_domain cfg = ascii_lower (py_strip (text_or_empty (sm_domain msg)))
    \<and> sm_nonce msg = Some nonce \<and> nonce \<noteq> []
    \<and> je_checksum (fe_jwt env) (sm_address msg) = Inr address
    \<and> search_chain (text_or_empty (sm_statement msg)) = Some digits
    \<and> int (dec_value digits) = as_sapphire_chain_id (fe_settings env)
    \<and> au_log t = au_log s @ es @ [CHas (nonce_key nonce) True now]"
proof -
  let ?d = "ascii_lower (py_strip (text_or_empty (sm_domain msg)))"
  note a = assms [unfolded identify_def Let_def text_or_empty_def [symmetric]]
  obtain c where c: "List.find (\<lambda>cfg. sc_domain cfg = ?d) configs = Some c"
    using a by (auto simp: result_simps split: option.splits)
  then have cc: "c \<in> set configs" "sc_domain c = ?d"
    by (auto simp: find_Some_iff)
  obtain n where n: "sm_nonce msg = Some n" "n \<noteq> []"
    using a c by (auto simp: result_simps given_def split: option.splits if_splits)
  then have g: "given (sm_nonce msg)" by (simp add: given_def)
  obtain addr where addr: "je_checksum (fe_jwt env) (sm_address msg) = Inr addr"
    using a c g by (auto simp: result_simps split: sum.splits)
  obtain b u where b: "is_nonce_valid (stores env) n s = (Inr b, u)"
    using a c g by (auto simp: addr n py_bind_Inr py_lift_Inr)
  then have rest: "(if \<not> b
           then py_raise (SiweAuth ''Invalid or expired nonce. Request a new nonce from /auth/nonce'' 400)
           else
             case search_chain (text_or_empty (sm_statement msg)) of
               None \<Rightarrow> py_raise (SiweAuth ''Destination chain in statement not defined'' 400)
             | Some digits \<Rightarrow>
                 py_bind (py_lift (py_int_10 digits)) (\<lambda>chain.
                 if chain \<noteq> as_sapphire_chain_id (fe_settings env)
                 then py_raise (SiweAuth ''Destination chain not supported'' 400)
                 else py_ret (c, the (sm_nonce msg), addr))) u = (Inr (cfg, nonce, address), t)"
    using a c g by (simp split del: if_split add: addr n py_bind_def py_lift_def)
  obtain digits where d: "search_chain (text_or_empty (sm_statement msg)) = Some digits"
    using rest by (auto simp: result_simps split: if_splits option.splits)
  have "b" "int (dec_value digits) = as_sapphire_chain_id (fe_settings env)" "t = u"
    "cfg = c" "nonce = n" "address = addr"
    using rest n by (auto simp: d result_simps py_int_10_def split: if_splits)
  then show ?thesis
    using cc n addr d is_nonce_valid_Inr [OF b] by metis
qed

lemma check_times_Inr:
  assumes "check_times env msg now = Inr v"
  shows "\<exists>issued_text issued_at expiry_text. sm_issued_at msg = Some issued_text
    \<and> siwe_time env ''SIWE message issued_at is invalid'' issued_text = Inr issued_at
    \<and> abs (now - issued_at) \<le> TOLERANCE_SECONDS
    \<and> sm_expiration_time msg = Some expiry_text
    \<and> siwe_time env ''SIWE message expiration_time is invalid'' expiry_text = Inr v
    \<and> now \<le> v \<and> v \<le> now + as_auth_token_validity_seconds (fe_settings env) + TOLERANCE_SECONDS"
  using assms by (auto simp: check_times_def sum_bind_def given_def split: if_splits sum.splits option.splits)

lemma authenticate_run:
  assumes "authenticate_siwe_message env text signature s = (Inr r, t)"
  obtains configs msg cfg nonce u token where
    "siwe_configs env = Inr configs" "fe_parse env text = Inr msg"
    "identify env configs msg s = (Inr (cfg, nonce, sw_address r), u)"
    "fe_verify env msg signature (sc_domain cfg) nonce (au_world u) = Inr ()"
    "check_times env msg (se_clock (stores env) (au_world u) div SECOND) = Inr (sw_valid_until r)"
    "create_and_encrypt (fe_mint env) (sc_domain cfg) (sw_address r) (sw_valid_until r) (sw_statement r) (sw_resources r)
      = Inr (sw_token_bytes r)"
    "consume_nonce (stores env) nonce u = (Inr True, t)" "sw_statement r = text_or_empty (sm_statement msg)"
    "sw_token_hex r = ''0x'' @ bytes_hex (sw_token_bytes r)"
proof -
  note a = assms [unfolded authenticate_siwe_message_def Let_def text_or_empty_def [symmetric]]
  obtain configs where configs: "siwe_configs env = Inr configs"
    using a by (auto simp: result_simps split: sum.splits)
  obtain msg where msg: "fe_parse env text = Inr msg"
    using a by (auto simp: configs result_simps split: sum.splits)
  obtain cfg nonce address u where id: "identify env configs msg s = (Inr (cfg, nonce, address), u)"
    and b: "py_bind (reading (fe_verify env msg signature (sc_domain cfg) nonce)) (\<lambda>verified.
      case verified of
        Inl x \<Rightarrow> py_raise (siwe_refusal x)
      | Inr u \<Rightarrow>
         py_bind (time_time (stores env)) (\<lambda>time.
         py_bind (py_lift (check_times env msg (time div SECOND))) (\<lambda>valid_until.
         py_bind (py_lift (case create_and_encrypt (fe_mint env) (sc_domain cfg) address valid_until
              (text_or_empty (sm_statement msg)) (case sm_resources msg of None \<Rightarrow> [] | Some r \<Rightarrow> r) of
             Inl e \<Rightarrow> Inl (if is_exception e then SiweAuth ''Failed to generate auth token'' 500 else e)
           | Inr b \<Rightarrow> Inr b)) (\<lambda>token.
         py_bind (consume_nonce (stores env) nonce) (\<lambda>consumed.
         if \<not> consumed then py_raise (SiweAuth ''Nonce already used. Request a new nonce from /auth/nonce'' 400)
         else
           py_ret \<lparr>sw_address = address, sw_valid_until = valid_until, sw_statement = text_or_empty (sm_statement msg),
                   sw_resources = (case sm_resources msg of None \<Rightarrow> [] | Some r \<Rightarrow> r), sw_token_bytes = token,
                   sw_token_hex = ''0x'' @ bytes_hex token\<rparr>))))) u = (Inr r, t)"
    using a by (auto simp: configs msg py_bind_Inr [where m = "py_lift _"] py_bind_Inr [where m = "identify _ _ _"]
        py_lift_Inr)
  have ver: "fe_verify env msg signature (sc_domain cfg) nonce (au_world u) = Inr ()"
    using b by (auto simp: py_bind_Inr reading_def py_raise_Inr split: sum.splits)
  let ?time = "se_clock (stores env) (au_world u)"
  let ?mint = "\<lambda>v. create_and_encrypt (fe_mint env) (sc_domain cfg) address v
              (text_or_empty (sm_statement msg)) (case sm_resources msg of None \<Rightarrow> [] | Some r \<Rightarrow> r)"
  obtain valid_until where times: "check_times env msg (?time div SECOND) = Inr valid_until"
    using b ver by (auto simp: py_bind_Inr py_lift_Inr reading_def time_time_def)
  obtain token where mint: "?mint valid_until = Inr token"
    using b ver times by (cases "?mint valid_until") (auto simp: py_bind_Inr py_lift_Inr reading_def time_time_def)
  obtain consumed w where con': "consume_nonce (stores env) nonce u = (Inr consumed, w)"
    using b ver times mint by (auto simp: py_bind_Inr py_lift_Inr reading_def time_time_def)
  then have con: "consume_nonce (stores env) nonce u = (Inr True, t)"
    and r: "r = \<lparr>sw_address = address, sw_valid_until = valid_until, sw_statement = text_or_empty (sm_statement msg),
                   sw_resources = (case sm_resources msg of None \<Rightarrow> [] | Some r \<Rightarrow> r), sw_token_bytes = token,
                   sw_token_hex = ''0x'' @ bytes_hex token\<rparr>"
    using b ver times mint by (auto simp: result_simps reading_def time_time_def split: if_splits)
  show thesis
    using that configs msg id ver times mint con r by simp
qed


section \<open>One use of every credential\<close>

text \<open>
  A service whose requests may spend a key: whenever one does, a counter of that key goes up, and no
  request takes it down.
\<close>

locale spending =
  fixes handle :: "'q \<Rightarrow> 's \<Rightarrow> 'r \<times> 's"
    and spends :: "'q \<Rightarrow> 's \<Rightarrow> 'r \<Rightarrow> 'k option"
    and taken :: "'k \<Rightarrow> 's \<Rightarrow> nat"
  assumes spends_taken: "handle q s = (r, t) \<Longrightarrow> spends q s r = Some k \<Longrightarrow> taken k s < taken k t"
    and taken_mono: "handle q s = (r, t) \<Longrightarrow> taken k s \<le> taken k t"

text \<open>The keys spent by a sequence of requests.\<close>

fun serve :: "('q \<Rightarrow> 's \<Rightarrow> 'r \<times> 's) \<Rightarrow> ('q \<Rightarrow> 's \<Rightarrow> 'r \<Rightarrow> 'k option) \<Rightarrow> 'q list \<Rightarrow> 's \<Rightarrow> 'k list \<times> 's" where
  "serve handle spends [] s = ([], s)"
| "serve handle spends (q # qs) s =
     (case handle q s of (r, t) \<Rightarrow>
      case serve handle spends qs t of (ks, u) \<Rightarrow>
        ((case spends q s r of None \<Rightarrow> ks | Some k \<Rightarrow> k # ks), u))"

context spending
begin

lemma spent_le: "serve handle spends qs s = (ks, t) \<Longrightarrow> count_list ks k + taken k s \<le> taken k t"
proof (induction qs arbitrary: s ks)
  case (Cons q qs)
  obtain r u where h: "handle q s = (r, u)" by fastforce
  obtain ks' where rest: "serve handle spends qs u = (ks', t)"
    and ks: "ks = (case spends q s r of None \<Rightarrow> ks' | Some k \<Rightarrow> k # ks')"
    using Cons.prems by (auto simp: h split: prod.splits)
  have "count_list ks' k + taken k u \<le> taken k t" using Cons.IH [OF rest] .
  then show ?case
    using spends_taken [OF h, of k] taken_mono [OF h, of k] ks
    by (cases "spends q s r") auto
qed simp

end

datatype auth_req =
    NonceReq string http_request
  | LoginReq string string http_request
  | AuthorizeReq authorize_code_request http_request
  | ExchangeReq token_exchange_request http_request
  | RefreshReq string
  | LogoutReq "logout_request option" "string option"

datatype auth_ans =
    NonceAns nonce_response
  | LoginAns login_response
  | CodeAns string
  | TokenAns token_response
  | RefreshAns refresh_response
  | LogoutAns int

definition answering :: "('a \<Rightarrow> auth_ans) \<Rightarrow> ('w auth, 'a) py \<Rightarrow> 'w auth \<Rightarrow> (exn + auth_ans) \<times> 'w auth" where
  "answering f m s = (case m s of (Inl e, t) \<Rightarrow> (Inl e, t) | (Inr x, t) \<Rightarrow> (Inr (f x), t))"

fun handle_request :: "'w flow_env \<Rightarrow> auth_req \<Rightarrow> 'w auth \<Rightarrow> (exn + auth_ans) \<times> 'w auth" where
  "handle_request env (NonceReq a rq) = answering NonceAns (get_siwe_nonce env a rq)"
| "handle_request env (LoginReq m sg rq) = answering LoginAns (siwe_login env m sg rq)"
| "handle_request env (AuthorizeReq p rq) = answering CodeAns (authorize_code env p rq)"
| "handle_request env (ExchangeReq p rq) = answering TokenAns (exchange_code env p rq)"
| "handle_request env (RefreshReq tok) = answering RefreshAns (refresh env tok)"
| "handle_request env (LogoutReq p c) = answering LogoutAns (logout env p c)"

text \<open>The credential a successful request has used up.\<close>

definition message_nonce :: "'w flow_env \<Rightarrow> string \<Rightarrow> ckey option" where
  "message_nonce env m = (case fe_parse env m of Inl e \<Rightarrow> None | Inr msg \<Rightarrow> map_option nonce_key (sm_nonce msg))"

definition refresh_jti :: "'w flow_env \<Rightarrow> string \<Rightarrow> 'w \<Rightarrow> ckey option" where
  "refresh_jti env tok w =
     (case je_decode (fe_jwt env) tok (je_issuer (fe_jwt env)) (je_audience (fe_jwt env)) w of
        Inl e \<Rightarrow> None | Inr c \<Rightarrow> map_option refresh_key (jc_jti c))"

fun spends :: "'w flow_env \<Rightarrow> auth_req \<Rightarrow> 'w auth \<Rightarrow> exn + auth_ans \<Rightarrow> ckey option" where
  "spends env (LoginReq m sg rq) s (Inr (LoginAns a)) = message_nonce env m"
| "spends env (AuthorizeReq p rq) s (Inr (CodeAns a)) = message_nonce env (aq_siwe_message p)"
| "spends env (ExchangeReq p rq) s (Inr (TokenAns (Granted g og))) = Some (code_key (tq_code p))"
| "spends env (RefreshReq tok) s (Inr (RefreshAns a)) = refresh_jti env tok (au_world s)"
| "spends env _ s _ = None"

text \<open>Each of the four successes contains a successful removal.\<close>

lemma takes_pop: "takes k (a @ b @ CPop k (Some v) now # c) = Suc (takes k (a @ b @ c))"
  by (simp add: takes_def)

lemma grows_takes: "\<exists>es. au_log t = au_log s @ es \<Longrightarrow> takes k (au_log s) \<le> takes k (au_log t)"
  by auto

lemma authenticate_takes:
  assumes "authenticate_siwe_message env txt sg s = (Inr r, t)"
  shows "\<exists>k. message_nonce env txt = Some k \<and> takes k (au_log s) < takes k (au_log t)"
proof -
  obtain configs msg cfg nonce u token where msg: "fe_parse env txt = Inr msg"
    and id: "identify env configs msg s = (Inr (cfg, nonce, sw_address r), u)"
    and con: "consume_nonce (stores env) nonce u = (Inr True, t)"
    using authenticate_run [OF assms] .
  have n: "sm_nonce msg = Some nonce" and "\<exists>es. au_log u = au_log s @ es"
    using identify_Inr [OF id] by auto
  moreover obtain es now c more where "au_log t = au_log u @ es @ CPop (nonce_key nonce) (Some (Text c)) now # more"
    using consume_nonce_Inr [OF con] by metis
  ultimately show ?thesis
    by (auto simp: message_nonce_def msg takes_pop takes_def)
qed

lemma redeem_takes:
  assumes "redeem_code env p client uri og s = (Inr (Granted g o'), t)"
  shows "takes (code_key (tq_code p)) (au_log s) < takes (code_key (tq_code p)) (au_log t)"
proof -
  obtain rec taken u v where r: "get_code (stores env) (tq_code p) s = (Inr (Some rec), u)"
    "consume_code (stores env) (tq_code p) u = (Inr (Some taken), v)"
    "issue_tokens env (co_user_address rec) (ac_audience client) v = (Inr g, t)"
    using redeem_code_granted [OF assms] by metis
  obtain es now where l: "au_log v = au_log u @ es @ [CPop (code_key (tq_code p)) (Some (Code taken)) now]"
    using consume_code_Inr [OF r(2)] .
  show ?thesis
    using grows [OF grows_stores(9) r(1)] grows [OF grows_issue r(3)] l by (auto simp: takes_def)
qed

lemma grows_two:
  "keeps (since_log l) (py_bind (create_token e a) (\<lambda>x. py_bind (create_refresh_token e a) (\<lambda>y. py_ret (f x y))))"
  by (intro keeps_intros grows_intros)

lemma refresh_takes:
  assumes "refresh_tokens (fe_jwt env) tok s = (Inr p, t)"
  shows "\<exists>k. refresh_jti env tok (au_world s) = Some k \<and> takes k (au_log s) < takes k (au_log t)"
proof -
  let ?j = "fe_jwt env"
  obtain c where c: "je_decode ?j tok (je_issuer ?j) (je_audience ?j) (au_world s) = Inr c"
    and rest: "(if jc_type c \<noteq> Some TOKEN_TYPE_REFRESH then py_raise (ValueError ''Expected refresh token'')
     else if \<not> given (jc_jti c) then py_raise (ValueError ''Refresh token missing 'jti' claim'')
     else
       py_bind (consume_refresh_token (je_stores ?j) (the (jc_jti c))) (\<lambda>address.
       case address of
         None \<Rightarrow> py_raise (ValueError ''Refresh token has been revoked'')
       | Some a \<Rightarrow>
           py_bind (create_token ?j a) (\<lambda>new_access_token.
           py_bind (create_refresh_token ?j a) (\<lambda>new_refresh_token.
           py_ret (new_access_token, new_refresh_token))))) s = (Inr p, t)"
    using assms by (auto simp: refresh_tokens_def verify_token_def py_bind_Inr py_lift_Inr reading_def given_def)
  obtain jti where jti: "jc_jti c = Some jti"
    using rest by (auto simp: py_raise_Inr given_def split: if_splits option.splits)
  obtain a u where con: "consume_refresh_token (je_stores ?j) jti s = (Inr (Some a), u)"
    and iss: "py_bind (create_token ?j a) (\<lambda>x. py_bind (create_refresh_token ?j a) (\<lambda>y. py_ret (x, y))) u = (Inr p, t)"
    using rest by (auto simp: jti py_raise_Inr py_bind_Inr [where m = "consume_refresh_token _ _"] split: if_splits option.splits)
  from grows [OF grows_two iss] obtain es' where "au_log t = au_log u @ es'" by blast
  moreover obtain es now where "au_log u = au_log s @ es @ [CPop (refresh_key jti) (Some (Text a)) now]"
    using consume_refresh_Inr [OF con] .
  ultimately show ?thesis
    by (auto simp: refresh_jti_def c jti takes_def)
qed

lemma siwe_as_http_Inr: "siwe_as_http m s = (Inr x, t) \<longleftrightarrow> m s = (Inr x, t)"
proof -
  have "(case e of SiweAuth d c \<Rightarrow> py_raise (HttpError c d) | _ \<Rightarrow> py_raise e) u \<noteq> (Inr x, t)" for e u
    by (cases e) (auto simp: py_raise_def)
  then show ?thesis by (auto simp: siwe_as_http_def py_try_Inr)
qed

lemma answering_Inr: "answering f m s = (Inr a, t) \<longleftrightarrow> (\<exists>x. m s = (Inr x, t) \<and> a = f x)"
  by (auto simp: answering_def split: prod.splits sum.splits)

lemma answering_grows:
  "answering f m s = (r, t) \<Longrightarrow> keeps (since_log (au_log s)) m \<Longrightarrow> \<exists>es. au_log t = au_log s @ es"
  using grows [of s m] by (auto simp: answering_def split: prod.splits sum.splits)

lemma handle_grows: "handle_request env q s = (r, t) \<Longrightarrow> \<exists>es. au_log t = au_log s @ es"
  by (cases q) (auto intro: grows_handlers elim!: answering_grows)

lemma login_takes:
  assumes "siwe_login env m sg rq s = (Inr a, t)" and "message_nonce env m = Some k"
  shows "takes k (au_log s) < takes k (au_log t)"
proof -
  obtain u0 s1 u1 s2 r s3 where e: "enforce_browser_auth_origin env rq s = (Inr u0, s1)"
    "enforce_auth_rate_limit env rq ''siwe_login'' (as_auth_login_rate_limit (fe_settings env)) s1 = (Inr u1, s2)"
    and auth: "authenticate_siwe_message env m sg s2 = (Inr r, s3)"
    and rest: "py_bind (create_token (fe_jwt env) (sw_address r)) (\<lambda>access_token.
      py_bind (create_refresh_token (fe_jwt env) (sw_address r)) (\<lambda>refresh_token.
      py_ret \<lparr>lr_siwe_token = sw_token_hex r, lr_jwt_access_token = access_token,
              lr_jwt_refresh_token = refresh_token, lr_address = sw_address r,
              lr_jwt_expires_in = access_token_expiry_seconds (fe_jwt env),
              lr_jwt_refresh_expires_in = refresh_token_expiry_seconds (fe_jwt env)\<rparr>)) s3 = (Inr a, t)"
    using assms(1) unfolding siwe_login_def
    by (simp only: py_then_Inr py_bind_Inr [where m = "siwe_as_http _"] siwe_as_http_Inr) blast
  have "\<exists>es. au_log s1 = au_log s @ es" "\<exists>es. au_log s2 = au_log s1 @ es"
    using grows [OF grows_guards(3) e(1)] grows [OF grows_enforce e(2)] by auto
  moreover have "\<exists>es. au_log t = au_log s3 @ es"
    by (rule grows [OF grows_two rest])
  ultimately show ?thesis
    using authenticate_takes [OF auth] assms(2) by auto
qed

lemma authorize_takes:
  assumes "authorize_code env p rq s = (Inr c, t)" and "message_nonce env (aq_siwe_message p) = Some k"
  shows "takes k (au_log s) < takes k (au_log t)"
proof -
  obtain u0 s1 ra s2 where e: "browser_origin env rq
      ''Browser authorization requests must originate from a configured auth origin'' s = (Inr u0, s1)"
    "rate_limit_retry_after env rq ''auth_authorize'' (as_auth_authorize_rate_limit (fe_settings env)) s1 = (Inr ra, s2)"
    and rest: "(if ra \<noteq> None
     then py_raise (HttpError 429 ''Too many authorization attempts. Please retry later.'')
     else if get_client (fe_clients env) (aq_client_id p) = None
     then py_raise (HttpError 400 ''unknown_client'')
     else if \<not> validate_redirect_uri (fe_clients env) (aq_client_id p) (aq_redirect_uri p)
     then py_raise (HttpError 400 ''invalid_redirect_uri'')
     else if aq_code_challenge_method p \<noteq> ''S256''
     then py_raise (HttpError 400 ''invalid_code_challenge_method'')
     else
       py_bind (siwe_as_http (authenticate_siwe_message env (aq_siwe_message p) (aq_signature p)))
         (\<lambda>auth_result.
       py_bind (py_lift (normalize_redirect_uri (aq_redirect_uri p))) (\<lambda>normalized_redirect_uri.
       create_code (stores env)
         \<lparr>co_user_address = sw_address auth_result, co_client_id = aq_client_id p,
          co_redirect_uri = normalized_redirect_uri, co_code_challenge = aq_code_challenge p,
          co_code_challenge_method = aq_code_challenge_method p\<rparr>))) s2 = (Inr c, t)"
    using assms(1) unfolding authorize_code_def
    by (simp only: py_then_Inr py_bind_Inr [where m = "rate_limit_retry_after _ _ _ _"]) blast
  obtain r s3 uri where auth: "authenticate_siwe_message env (aq_siwe_message p) (aq_signature p) s2 = (Inr r, s3)"
    and cr: "create_code (stores env) \<lparr>co_user_address = sw_address r, co_client_id = aq_client_id p,
          co_redirect_uri = uri, co_code_challenge = aq_code_challenge p,
          co_code_challenge_method = aq_code_challenge_method p\<rparr> s3 = (Inr c, t)"
    using rest by (auto simp: result_simps siwe_as_http_Inr split: if_splits)
  have "\<exists>es. au_log s1 = au_log s @ es" "\<exists>es. au_log s2 = au_log s1 @ es" "\<exists>es. au_log t = au_log s3 @ es"
    using grows [OF grows_guards(2) e(1)] grows [OF grows_guards(1) e(2)] grows [OF grows_stores(8) cr] by auto
  then show ?thesis
    using authenticate_takes [OF auth] assms(2) by auto
qed

lemma exchange_takes:
  assumes "exchange_code env p rq s = (Inr (Granted g og), t)"
  shows "takes (code_key (tq_code p)) (au_log s) < takes (code_key (tq_code p)) (au_log t)"
proof -
  obtain client uri ro w where "\<exists>es. au_log w = au_log s @ es"
    "redeem_code env p client uri (if request_origin rq = Some ro then request_origin rq else None) w = (Inr (Granted g og), t)"
    using exchange_code_granted [OF assms] .
  then show ?thesis
    using redeem_takes by fastforce
qed

lemma refresh_response_takes:
  assumes "refresh env tok s = (Inr a, t)" and "refresh_jti env tok (au_world s) = Some k"
  shows "takes k (au_log s) < takes k (au_log t)"
proof -
  obtain x where "refresh_tokens (fe_jwt env) tok s = (Inr x, t)"
    using assms(1) by (auto simp: refresh_def py_catch_Inr py_bind_Inr py_ret_Inr py_raise_Inr split: if_splits)
  then show ?thesis
    using refresh_takes assms(2) by fastforce
qed

lemma handle_spends:
  assumes h: "handle_request env q s = (r, t)" and sp: "spends env q s r = Some k"
  shows "takes k (au_log s) < takes k (au_log t)"
proof -
  consider (login) m sg rq a where "q = LoginReq m sg rq" "r = Inr (LoginAns a)" "message_nonce env m = Some k"
    | (authorize) p rq c where "q = AuthorizeReq p rq" "r = Inr (CodeAns c)" "message_nonce env (aq_siwe_message p) = Some k"
    | (exchange) p rq g og where "q = ExchangeReq p rq" "r = Inr (TokenAns (Granted g og))" "k = code_key (tq_code p)"
    | (refresh) tok a where "q = RefreshReq tok" "r = Inr (RefreshAns a)" "refresh_jti env tok (au_world s) = Some k"
    using sp by (cases "(env, q, s, r)" rule: spends.cases) auto
  then show ?thesis
    using h by cases (auto simp: answering_Inr intro: login_takes authorize_takes exchange_takes refresh_response_takes)
qed

interpretation credentials: spending "handle_request env" "spends env" "\<lambda>k s. takes k (au_log s)"
  by unfold_locales (auto intro: handle_spends dest: handle_grows)

text \<open>
  C21. Every credential is used at most as often as it was put on record. Over any sequence of
  requests to the service (nonces, logins, authorizations, exchanges, refreshes, logouts), with other workers
  acting on the tables between any two of its calls: the successes that spent a nonce, an
  authorization code or a refresh token, together with its uses before, are at most the writes of its entry.
\<close>

theorem credentials_spent_once:
  assumes "serve (handle_request env) (spends env) qs s = (ks, t)" and "legal m (au_log t)"
  shows "count_list ks k + takes k (au_log s) \<le> writes k (au_log t) + (if m k = None then 0 else 1)"
  using credentials.spent_le [OF assms(1), of k] takes_le_writes [OF assms(2), of k] by simp

end
