(* ===== verification/Auth_Credentials.thy ===== *)
theory Auth_Credentials
  imports Auth_Props
begin

text \<open>
  What the issued credentials are good for: JWTs are accepted for their own kind only, the
  encrypted private-read token comes back as the address it was minted for, and one request the
  handlers leave unanswered.
\<close>

section \<open>What a token is good for\<close>

text \<open>
  What the code relies on of PyJWT: a decoded payload is the encoded one, has the issuer and the audience
  asked for, and a token between its times is decoded. Times are compared in whole seconds.
\<close>

definition jwt_laws :: "'w jwt_env \<Rightarrow> bool" where
  "jwt_laws env \<longleftrightarrow>
     (\<forall>c tok iss aud w c'. je_encode env c = Inr tok \<longrightarrow> je_decode env tok iss aud w = Inr c' \<longrightarrow>
        c' = c \<and> jc_iss c = iss \<and> jc_aud c = aud)
   \<and> (\<forall>c tok w x. je_encode env c = Inr tok \<longrightarrow>
        jc_iat c \<le> se_clock (je_stores env) w div SECOND \<longrightarrow> jc_nbf c \<le> se_clock (je_stores env) w div SECOND \<longrightarrow>
        jc_exp c = Some x \<longrightarrow> se_clock (je_stores env) w div SECOND < x \<longrightarrow>
        je_decode env tok (jc_iss c) (jc_aud c) w = Inr c)"

text \<open>A checksummed address is its own checksum and is not empty.\<close>

definition checksum_laws :: "(string \<Rightarrow> exn + string) \<Rightarrow> bool" where
  "checksum_laws checksum \<longleftrightarrow> (\<forall>a x. checksum a = Inr x \<longrightarrow> checksum x = Inr x \<and> x \<noteq> [])"

lemma jwt_accepts:
  assumes "jwt_laws env" and "je_encode env c = Inr tok"
    and "jc_iat c \<le> se_clock (je_stores env) w div SECOND" "jc_nbf c \<le> se_clock (je_stores env) w div SECOND"
    and "jc_exp c = Some x" "se_clock (je_stores env) w div SECOND < x"
  shows "je_decode env tok (jc_iss c) (jc_aud c) w = Inr c"
  using assms unfolding jwt_laws_def by blast

lemma verify_issued:
  assumes "jwt_laws env" and "issued env kind audience jti x tok" and "verify_token env tok a s = (Inr c, t)"
  shows "t = s \<and> jc_type c = Some kind \<and> jc_sub c = Some x \<and> jc_jti c = jti
    \<and> audience = (if given a then the a else je_audience env)"
proof -
  obtain now life where e: "je_encode env (new_claims env x audience kind jti now life) = Inr tok"
    using assms(2) by (auto simp: issued_def)
  have d: "je_decode env tok (je_issuer env) (if given a then the a else je_audience env) (au_world s) = Inr c" "t = s"
    using assms(3) by (auto simp: verify_token_def result_simps reading_def)
  have "c = new_claims env x audience kind jti now life \<and> jc_aud (new_claims env x audience kind jti now life) = (if given a then the a else je_audience env)"
    using assms(1) e d(1) unfolding jwt_laws_def by blast
  then show ?thesis using d(2) by (simp add: new_claims_def)
qed

lemma access_payload_Inr:
  "get_current_user env cr s = (Inr y, t) \<longleftrightarrow>
    (\<exists>tok p. cr = Some tok \<and> get_access_token_payload env tok s = (Inr p, t) \<and> y = the (jc_sub p))"
  by (auto simp: get_current_user_def access_token_payload_def result_simps split: option.split)

text \<open>
  C24. A token the service has issued is accepted only for what it was issued for: as a bearer token
  only if it is an access token for the API's audience, and then it stands for its subject; as an identity token only
  under its client's audience; for a rotation only if it is a refresh token with its id. And an
  access token made now is accepted, for the checksummed address it was made for, at any time
  before its expiry.
\<close>

theorem token_kinds:
  assumes laws: "jwt_laws env" "checksum_laws (je_checksum env)"
    and tok: "issued env kind audience jti x tok" and x: "je_checksum env x = Inr x"
  shows "(get_current_user env (Some tok) s = (Inr y, t) \<longrightarrow> kind = TOKEN_TYPE_ACCESS \<and> audience = je_audience env \<and> y = x)
    \<and> (verify_id_token env tok a s = (Inr y, t) \<longrightarrow>
         kind = TOKEN_TYPE_ID \<and> audience = (if a = [] then je_audience env else a) \<and> y = x)
    \<and> (refresh_tokens env tok s = (Inr p, t) \<longrightarrow> kind = TOKEN_TYPE_REFRESH \<and> audience = je_audience env \<and> given jti)
    \<and> (create_token env addr s = (Inr tok', t) \<longrightarrow>
         (\<exists>z. je_checksum env addr = Inr z \<and>
            (\<forall>u. se_clock (je_stores env) (au_world s) \<le> se_clock (je_stores env) (au_world u) \<longrightarrow>
               se_clock (je_stores env) (au_world u) div SECOND
                 < (se_clock (je_stores env) (au_world s) + je_expiry_hours env * 3600 * SECOND) div SECOND \<longrightarrow>
               get_current_user env (Some tok') u = (Inr z, u))))"
proof (intro conjI impI)
  assume "get_current_user env (Some tok) s = (Inr y, t)"
  then obtain p where p: "get_access_token_payload env tok s = (Inr p, t)" "y = the (jc_sub p)"
    by (auto simp: access_payload_Inr)
  then obtain c where c: "verify_token env tok None s = (Inr c, s)" "jc_type c = Some TOKEN_TYPE_ACCESS"
    "je_checksum env (the (jc_sub c)) = Inr y"
    using verify_issued [OF laws(1) tok]
    by (fastforce simp: get_access_token_payload_def result_simps split: if_splits)
  then show "kind = TOKEN_TYPE_ACCESS" "audience = je_audience env" "y = x"
    using verify_issued [OF laws(1) tok c(1)] x by (auto simp: given_def)
next
  assume v: "verify_id_token env tok a s = (Inr y, t)"
  then obtain c where c: "verify_token env tok (Some a) s = (Inr c, s)" "jc_type c = Some TOKEN_TYPE_ID"
    "je_checksum env (the (jc_sub c)) = Inr y"
    using verify_issued [OF laws(1) tok]
    by (fastforce simp: verify_id_token_def result_simps split: if_splits)
  then show "kind = TOKEN_TYPE_ID" "audience = (if a = [] then je_audience env else a)" "y = x"
    using verify_issued [OF laws(1) tok c(1)] x by (auto simp: given_def split: if_splits)
next
  assume "refresh_tokens env tok s = (Inr p, t)"
  then obtain c where c: "verify_token env tok None s = (Inr c, s)" "jc_type c = Some TOKEN_TYPE_REFRESH" "given (jc_jti c)"
    using verify_issued [OF laws(1) tok]
    by (fastforce simp: refresh_tokens_def py_bind_Inr py_raise_Inr split: if_splits)
  then show "kind = TOKEN_TYPE_REFRESH" "audience = je_audience env" "given jti"
    using verify_issued [OF laws(1) tok c(1)] by (auto simp: given_def)
next
  assume made: "create_token env addr s = (Inr tok', t)"
  let ?now = "se_clock (je_stores env) (au_world s)"
  from create_token_Inr [OF made] obtain z where z: "je_checksum env addr = Inr z"
    and e: "je_encode env (new_claims env z (je_audience env) TOKEN_TYPE_ACCESS None ?now (je_expiry_hours env * 3600)) = Inr tok'"
    by blast
  have "get_current_user env (Some tok') u = (Inr z, u)"
    if le: "?now \<le> se_clock (je_stores env) (au_world u)"
      and lt: "se_clock (je_stores env) (au_world u) div SECOND < (?now + je_expiry_hours env * 3600 * SECOND) div SECOND" for u
  proof -
    let ?c = "new_claims env z (je_audience env) TOKEN_TYPE_ACCESS None ?now (je_expiry_hours env * 3600)"
    have "?now div SECOND \<le> se_clock (je_stores env) (au_world u) div SECOND"
      using le by (simp add: SECOND_def zdiv_mono1)
    then have "je_decode env tok' (jc_iss ?c) (jc_aud ?c) (au_world u) = Inr ?c"
      using lt by (intro jwt_accepts [OF laws(1) e]) (simp_all add: new_claims_def)
    then have "verify_token env tok' None u = (Inr ?c, u)"
      by (simp add: verify_token_def py_bind_def reading_def py_lift_def new_claims_def given_def)
    moreover have "je_checksum env z = Inr z" "z \<noteq> []" using laws(2) z by (auto simp: checksum_laws_def)
    ultimately show ?thesis
      by (simp add: get_current_user_def access_token_payload_def get_access_token_payload_def py_bind_def py_try_def
          py_lift_def py_ret_def new_claims_def given_def)
  qed
  then show "\<exists>z. je_checksum env addr = Inr z \<and>
      (\<forall>u. ?now \<le> se_clock (je_stores env) (au_world u) \<longrightarrow>
         se_clock (je_stores env) (au_world u) div SECOND < (?now + je_expiry_hours env * 3600 * SECOND) div SECOND \<longrightarrow>
         get_current_user env (Some tok') u = (Inr z, u))"
    using z by blast
qed

text \<open>What the code relies on of the cipher, the ABI coder and the address functions.\<close>

definition mint_laws :: "mint_env \<Rightarrow> bool" where
  "mint_laws env \<longleftrightarrow>
     (\<forall>a b x. me_checksum env a = Inr b \<longrightarrow> me_to_bytes env b = Inr x \<longrightarrow> me_checksum env (''0x'' @ bytes_hex x) = Inr b)
   \<and> (\<forall>d b v st rs e. me_abi_encode env (d, b, v, st, rs) = Inr e \<longrightarrow>
        me_abi_decode env e = Inr (d, ''0x'' @ bytes_hex b, v, st, rs))
   \<and> (\<forall>key nonce ad p. length (me_seal env key nonce ad p) = length p + TAG_SIZE
        \<and> me_open env key nonce ad (me_seal env key nonce ad p) = Some p)"

lemma decode_minted:
  assumes laws: "mint_laws env"
    and mint: "create_and_encrypt env domain addr valid_until statement resources = Inr ct"
  obtains a where "me_checksum env addr = Inr a"
    "decode_auth_token env ct validate_expiry now =
      (if validate_expiry \<and> valid_until < now div SECOND then Inl (ValueError ''Auth token has expired'')
       else Inr \<lparr>at_domain = domain, at_user_addr = a, at_valid_until = valid_until,
                 at_statement = statement, at_resources = resources\<rparr>)"
proof -
  obtain a x e where a: "me_checksum env addr = Inr a" and x: "me_to_bytes env a = Inr x"
    and e: "me_abi_encode env (domain, x, valid_until, statement, resources) = Inr e"
    and key: "aead_key env = Inr (me_enc_key env)"
    and ct: "ct = me_seal env (me_enc_key env) ZERO_NONCE [] e"
    using mint by (auto simp: create_and_encrypt_def create_auth_token_def encrypt_auth_token_def to_abi_encoded_def
        aead_encrypt_def aead_key_def sum_bind_def split: sum.splits if_splits)
  have "length ZERO_NONCE = NONCE_SIZE" by (simp add: ZERO_NONCE_def)
  then have "aead_decrypt env (me_enc_key env) ZERO_NONCE ct [] = Inr e"
    using laws by (simp add: aead_decrypt_def ct mint_laws_def)
  moreover have "me_abi_decode env e = Inr (domain, ''0x'' @ bytes_hex x, valid_until, statement, resources)"
    using laws e unfolding mint_laws_def by blast
  moreover have "me_checksum env (''0x'' @ bytes_hex x) = Inr a"
    using laws a x unfolding mint_laws_def by blast
  ultimately have "decode_auth_token env ct validate_expiry now =
      (if validate_expiry \<and> valid_until < now div SECOND then Inl (ValueError ''Auth token has expired'')
       else Inr \<lparr>at_domain = domain, at_user_addr = a, at_valid_until = valid_until,
                 at_statement = statement, at_resources = resources\<rparr>)"
    by (simp add: decode_auth_token_def key create_auth_token_def)
  then show thesis using that a by blast
qed

text \<open>
  C25. The token a login returns, sent back in its hex form, authenticates its holder: the caller is the
  checksummed address of the signed message, on the rate-limited routes until the token's
  expiry (after it the answer is 401), on the private reads at any time, where the contract checks it.
\<close>

theorem siwe_token_roundtrip:
  assumes "mint_laws (fe_mint env)"
    and "create_and_encrypt (fe_mint env) domain addr valid_until statement resources = Inr ct" and "ct \<noteq> []"
    and "hexbytes (''0x'' @ bytes_hex ct) = Inr ct"
  shows "\<exists>a. me_checksum (fe_mint env) addr = Inr a
    \<and> require_private_read_auth env hexbytes None None (Some (''0x'' @ bytes_hex ct)) s = (Inr (ct, a), s)
    \<and> require_caller env hexbytes None None (Some (''0x'' @ bytes_hex ct)) s =
        (if valid_until < se_clock (stores env) (au_world s) div SECOND
         then Inl (HttpError 401 ''Invalid or expired SIWE token'') else Inr a, s)"
proof -
  obtain a where a: "me_checksum (fe_mint env) addr = Inr a" using decode_minted [OF assms(1,2)] by metis
  have d: "decode_auth_token (fe_mint env) ct ve now =
      (if ve \<and> valid_until < now div SECOND then Inl (ValueError ''Auth token has expired'')
       else Inr \<lparr>at_domain = domain, at_user_addr = a, at_valid_until = valid_until,
                 at_statement = statement, at_resources = resources\<rparr>)" for ve now
    using decode_minted [OF assms(1,2), of ve now] a by fastforce
  show ?thesis
    using assms(4) a
    by (simp add: require_private_read_auth_def require_caller_def authenticate_caller_def given_def d py_bind_def
        py_lift_def py_ret_def py_raise_def time_time_def reading_def)
qed

text \<open>
  C26. A logout whose refresh token does not verify (expired, malformed, signed with another key) is not
  answered at all: the library's exception goes through the handler, which catches \<open>ValueError\<close>
  only, although \<open>revoke_refresh_token\<close> itself takes such a token for one that is not there.
\<close>

theorem logout_not_answered:
  assumes "get_current_user (fe_jwt env) credentials s = (Inr user, u)"
    and "je_decode (fe_jwt env) tok (je_issuer (fe_jwt env)) (je_audience (fe_jwt env)) (au_world u) = Inl e"
    and "is_jwt_error e" and "tok \<noteq> []"
  shows "logout env (Some \<lparr>lo_refresh_token = Some tok, lo_revoke_all = False\<rparr>) credentials s = (Inl e, u)
    \<and> revoke_refresh_token (fe_jwt env) tok u = (Inr False, u)"
proof -
  have nv: "\<not> is_value_error e" using assms(3) by (cases e) auto
  have v: "verify_token (fe_jwt env) tok None u = (Inl e, u)"
    using assms(2) by (simp add: verify_token_def py_bind_def reading_def py_lift_def given_def)
  show ?thesis
    using assms(1,3,4) nv
    by (simp add: logout_def revoke_refresh_token_def verify_refresh_token_def py_bind_def py_try_def py_raise_def py_ret_def v given_def)
qed

end
