(* ===== verification/Auth_Example.thy ===== *)
theory Auth_Example
  imports Auth_Limits Auth_Credentials
begin

text \<open>
  A concrete environment for the sign-in service, on which its theorems with hypotheses are applied:
  a disk cache that does what its documentation says, one registered client, one message, one
  address, and a clock that stands still.
\<close>

record demo_auth =
  da_now :: int
  da_table :: "(ckey \<times> cell \<times> int) list"

definition demo_disk :: "demo_auth disk" where
  "demo_disk =
     \<lparr>dk_now = da_now,
      dk_others = (\<lambda>w. ([], w)),
      dk_get = (\<lambda>k w. (Inr (live (map_of (da_table w)) k (da_now w)), w)),
      dk_set = (\<lambda>k v ttl w. (Inr (), w\<lparr>da_table := (k, v, da_now w + ttl) # da_table w\<rparr>)),
      dk_contains = (\<lambda>k w. (Inr (live (map_of (da_table w)) k (da_now w) \<noteq> None), w)),
      dk_pop = (\<lambda>k w. (Inr (live (map_of (da_table w)) k (da_now w)),
                  w\<lparr>da_table := List.filter (\<lambda>e. fst e \<noteq> k) (da_table w)\<rparr>)),
      dk_delete = (\<lambda>k w. (Inr (live (map_of (da_table w)) k (da_now w) \<noteq> None),
                  w\<lparr>da_table := List.filter (\<lambda>e. fst e \<noteq> k) (da_table w)\<rparr>)),
      dk_keys = (\<lambda>st w. (Inr (map (snd \<circ> fst) (List.filter (\<lambda>e. fst (fst e) = st) (da_table w))), w))\<rparr>"

definition demo_stores :: "demo_auth store_env" where
  "demo_stores =
     \<lparr>se_disk = demo_disk, se_clock = da_now,
      se_token_urlsafe = (\<lambda>w. (''j'', w)), se_token_hex = (\<lambda>w. (''n'', w)),
      se_nonce_expiry_seconds = 300, se_code_ttl_seconds = 60\<rparr>"

definition demo_address :: string where
  "demo_address = ''0x'' @ bytes_hex (replicate 20 1)"

definition demo_checksum :: "string \<Rightarrow> exn + string" where
  "demo_checksum a = (if a = demo_address then Inr a else Inl (ValueError ''not an address''))"

text \<open>Tokens made at time 1000, valid for an hour or a day.\<close>

definition demo_claims :: "string \<Rightarrow> string \<Rightarrow> string option \<Rightarrow> int \<Rightarrow> claims" where
  "demo_claims kind audience jti expires =
     \<lparr>jc_sub = Some demo_address, jc_iss = ''privana'', jc_aud = audience, jc_iat = 1000, jc_nbf = 1000,
      jc_exp = Some expires, jc_type = Some kind, jc_jti = jti\<rparr>"

definition demo_tokens :: "(string \<times> claims) list" where
  "demo_tokens =
     [(''A'', demo_claims ''access'' ''api'' None 4600), (''I'', demo_claims ''id'' ''app'' None 4600),
      (''R'', demo_claims ''refresh'' ''api'' (Some ''j'') 87400)]"

definition demo_jwt :: "demo_auth jwt_env" where
  "demo_jwt =
     \<lparr>je_stores = demo_stores,
      je_encode = (\<lambda>c. case List.find (\<lambda>p. snd p = c) demo_tokens of
         None \<Rightarrow> Inl (OtherError ''no such token'') | Some p \<Rightarrow> Inr (fst p)),
      je_decode = (\<lambda>tok iss aud w. case map_of demo_tokens tok of
         None \<Rightarrow> Inl (JwtInvalid ''Not enough segments'')
       | Some c \<Rightarrow>
           if jc_iss c \<noteq> iss \<or> jc_aud c \<noteq> aud then Inl (JwtInvalid ''Invalid audience'')
           else if da_now w div SECOND < 1000 then Inl (JwtInvalid ''The token is not yet valid'')
           else if the (jc_exp c) \<le> da_now w div SECOND then Inl (JwtExpired ''Signature has expired'')
           else Inr c),
      je_checksum = demo_checksum,
      je_expiry_hours = 1, je_refresh_expiry_days = 1, je_issuer = ''privana'', je_audience = ''api''\<rparr>"

definition demo_mint :: mint_env where
  "demo_mint =
     \<lparr>me_enc_key = replicate 32 0,
      me_seal = (\<lambda>key nonce ad p. p @ replicate 16 0),
      me_open = (\<lambda>key nonce ad c. Some (take (length c - 16) c)),
      me_to_bytes = (\<lambda>a. if a = demo_address then Inr (replicate 20 1) else Inl (ValueError ''not hex'')),
      me_abi_encode = (\<lambda>x. if x = (''app.example'', replicate 20 1, 2000, ''Sign in to Privana on chain 7'', [])
         then Inr [1] else Inl (OtherError ''EncodingError'')),
      me_abi_decode = (\<lambda>b. Inr (''app.example'', demo_address, 2000, ''Sign in to Privana on chain 7'', [])),
      me_checksum = demo_checksum\<rparr>"

definition demo_settings :: auth_settings where
  "demo_settings =
     \<lparr>as_environment = ''production'', as_siwe_domains = [''app.example''], as_sapphire_chain_id = 7,
      as_auth_token_validity_seconds = 3600, as_trust_x_forwarded_for = False,
      as_auth_rate_limit_window_seconds = 60, as_auth_nonce_rate_limit = 10, as_auth_login_rate_limit = 10,
      as_auth_authorize_rate_limit = 10, as_auth_token_rate_limit = 10, as_rate_limit_exempt = []\<rparr>"

definition demo_message :: siwe_message where
  "demo_message =
     \<lparr>sm_domain = Some ''app.example'', sm_address = demo_address, sm_nonce = Some ''n'',
      sm_statement = Some ''Sign in to Privana on chain 7'', sm_issued_at = Some ''i'',
      sm_expiration_time = Some ''e'', sm_resources = None\<rparr>"

definition demo_clients :: registry where
  "demo_clients = [(''app'', \<lparr>ac_client_id = ''app'', ac_display_name = ''App'', ac_audience = ''app'',
     ac_redirect_uris = [''https://app.example/cb'']\<rparr>)]"

definition demo_flow :: "demo_auth flow_env" where
  "demo_flow =
     \<lparr>fe_jwt = demo_jwt, fe_mint = demo_mint, fe_settings = demo_settings, fe_clients = demo_clients,
      fe_parse = (\<lambda>m. if m = ''msg'' then Inr demo_message else Inl (ValueError ''bad message'')),
      fe_verify = (\<lambda>msg sg domain nonce w. if sg = ''sig'' then Inr () else Inl InvalidSignature),
      fe_fromisoformat = (\<lambda>t. if t = ''i'' then Inr 1000 else if t = ''e'' then Inr 2000 else Inl (ValueError ''bad time'')),
      fe_timestamp = (\<lambda>d. Inr (d * SECOND)),
      fe_sha256 = (\<lambda>b. take 3 b)\<rparr>"

definition demo_request :: http_request where
  "demo_request = \<lparr>rq_headers = [], rq_client_host = Some ''10.0.0.1''\<rparr>"

definition demo_start :: "demo_auth auth" where
  "demo_start = \<lparr>au_world = \<lparr>da_now = 1000 * SECOND, da_table = []\<rparr>, au_log = []\<rparr>"

definition demo_exchange :: token_exchange_request where
  "demo_exchange =
     \<lparr>tq_grant_type = ''authorization_code'', tq_code = ''j'', tq_code_verifier = ''abcdefgh'',
      tq_client_id = ''app'', tq_redirect_uri = ''https://app.example/cb''\<rparr>"

definition demo_authorize :: authorize_code_request where
  "demo_authorize =
     \<lparr>aq_siwe_message = ''msg'', aq_signature = ''sig'', aq_client_id = ''app'',
      aq_redirect_uri = ''https://app.example/cb'', aq_code_challenge = ''YWJj'', aq_code_challenge_method = ''S256''\<rparr>"

text \<open>A nonce, an authorization, its exchange, and a rotation of the refresh token.\<close>

definition demo_requests :: "auth_req list" where
  "demo_requests =
     [NonceReq demo_address demo_request, AuthorizeReq demo_authorize demo_request,
      ExchangeReq demo_exchange demo_request, RefreshReq ''R'']"

definition demo_run :: "ckey list \<times> demo_auth auth" where
  "demo_run = serve (handle_request demo_flow) (spends demo_flow) demo_requests demo_start"

lemma demo_spent: "fst demo_run = [nonce_key ''n'', code_key ''j'', refresh_key ''j'']"
  by code_simp

lemma demo_legal: "legal (\<lambda>k. None) (au_log (snd demo_run))"
  by code_simp

theorem credentials_spent_once_witness:
  "count_list (fst demo_run) (code_key ''j'') = 1
   \<and> count_list (fst demo_run) (code_key ''j'') \<le> writes (code_key ''j'') (au_log (snd demo_run))"
proof -
  have run: "serve (handle_request demo_flow) (spends demo_flow) demo_requests demo_start = (fst demo_run, snd demo_run)"
    by (simp add: demo_run_def)
  have "count_list (fst demo_run) (code_key ''j'') = 1"
    unfolding demo_spent by (simp add: nonce_key_def code_key_def refresh_key_def)
  then show ?thesis
    using credentials_spent_once [OF run demo_legal, of "code_key ''j''"] by simp
qed


definition demo_nonced :: "demo_auth auth" where
  "demo_nonced = snd (serve (handle_request demo_flow) (spends demo_flow) (take 1 demo_requests) demo_start)"

definition demo_authorized :: "demo_auth auth" where
  "demo_authorized = snd (serve (handle_request demo_flow) (spends demo_flow) (take 2 demo_requests) demo_start)"

definition demo_grant :: token_grant where
  "demo_grant = \<lparr>tg_access_token = ''A'', tg_id_token = ''I'', tg_refresh_token = ''R'', tg_expires_in = 3600,
     tg_refresh_expires_in = 86400, tg_address = demo_address\<rparr>"

lemma demo_exchanged:
  "fst (exchange_code demo_flow demo_exchange demo_request demo_authorized) = Inr (Granted demo_grant None)"
  by code_simp

lemma demo_exchanged_legal:
  "legal (\<lambda>k. None) (au_log (snd (exchange_code demo_flow demo_exchange demo_request demo_authorized)))"
  by code_simp

theorem exchange_code_sound_witness:
  "\<exists>rec now. CGet (code_key ''j'') (Some (Code rec)) now
      \<in> set (au_log (snd (exchange_code demo_flow demo_exchange demo_request demo_authorized)))
    \<and> urlsafe_b64 (fe_sha256 demo_flow (map of_char ''abcdefgh'')) = co_code_challenge rec
    \<and> tg_address demo_grant = co_user_address rec"
proof -
  have run: "exchange_code demo_flow demo_exchange demo_request demo_authorized =
      (Inr (Granted demo_grant None), snd (exchange_code demo_flow demo_exchange demo_request demo_authorized))"
    using demo_exchanged by (metis prod.collapse)
  have e: "tq_code demo_exchange = ''j''" "tq_code_verifier demo_exchange = ''abcdefgh''"
    by (simp_all add: demo_exchange_def)
  let ?t = "snd (exchange_code demo_flow demo_exchange demo_request demo_authorized)"
  from exchange_code_sound [OF run demo_exchanged_legal, unfolded e] show ?thesis
  proof (elim exE conjE)
    fix rec looked now between taken now' rest
    assume "au_log ?t = au_log demo_authorized @ looked @ CGet (code_key ''j'') (Some (Code rec)) now
        # between @ CPop (code_key ''j'') (Some taken) now' # rest"
      and "urlsafe_b64 (fe_sha256 demo_flow (map of_char ''abcdefgh'')) = co_code_challenge rec"
      and "tg_address demo_grant = co_user_address rec"
    then show ?thesis by (intro exI [of _ rec] exI [of _ now]) simp
  qed
qed

definition demo_signed :: "(exn + authenticated_siwe) \<times> demo_auth auth" where
  "demo_signed = authenticate_siwe_message demo_flow ''msg'' ''sig'' demo_nonced"

definition demo_result :: authenticated_siwe where
  "demo_result = \<lparr>sw_address = demo_address, sw_valid_until = 2000,
     sw_statement = ''Sign in to Privana on chain 7'', sw_resources = [],
     sw_token_bytes = 1 # replicate 16 0, sw_token_hex = ''0x'' @ bytes_hex (1 # replicate 16 0)\<rparr>"

lemma demo_signed_result: "fst demo_signed = Inr demo_result"
  by code_simp

lemma demo_signed_legal: "legal (\<lambda>k. None) (au_log (snd demo_signed))"
  by code_simp


definition demo_hits :: "(exn + int option) list \<times> demo_auth auth" where
  "demo_hits = hits demo_stores ''login'' ''10.0.0.1'' 2 60 3 demo_start"

lemma demo_hits_result: "fst demo_hits = [Inr None, Inr None, Inr (Some 60)]"
  by code_simp

lemma demo_hits_laws:
  "legal (\<lambda>k. None) (au_log (snd demo_hits))" "lossless (\<lambda>k. None) (au_log (snd demo_hits))"
  by code_simp+


lemma demo_tokens_all:
  "\<forall>p \<in> set demo_tokens. map_of demo_tokens (fst p) = Some (snd p) \<and> jc_iat (snd p) = 1000 \<and> jc_exp (snd p) \<noteq> None"
  by (simp add: demo_tokens_def demo_claims_def)

lemma demo_encode:
  assumes "je_encode demo_jwt c = Inr tok"
  shows "map_of demo_tokens tok = Some c \<and> jc_iat c = 1000 \<and> jc_exp c \<noteq> None"
proof -
  from assms obtain p where p: "List.find (\<lambda>p. snd p = c) demo_tokens = Some p" "tok = fst p"
    by (auto simp: demo_jwt_def split: option.splits)
  then have "p \<in> set demo_tokens" "snd p = c" by (auto simp: find_Some_iff)
  with p demo_tokens_all show ?thesis by auto
qed

lemma demo_jwt_laws: "jwt_laws demo_jwt"
proof -
  have "c' = c \<and> jc_iss c = iss \<and> jc_aud c = aud"
    if "je_encode demo_jwt c = Inr tok" "je_decode demo_jwt tok iss aud w = Inr c'" for c tok iss aud w c'
    using demo_encode [OF that(1)] that(2) by (auto simp: demo_jwt_def split: if_splits)
  moreover have "je_decode demo_jwt tok (jc_iss c) (jc_aud c) w = Inr c"
    if "je_encode demo_jwt c = Inr tok" "jc_iat c \<le> se_clock (je_stores demo_jwt) w div SECOND"
      "jc_exp c = Some x" "se_clock (je_stores demo_jwt) w div SECOND < x" for c tok w x
    using demo_encode [OF that(1)] that(2-) by (simp add: demo_jwt_def demo_stores_def)
  ultimately show ?thesis unfolding jwt_laws_def by blast
qed

lemma demo_checksum_laws: "checksum_laws (je_checksum demo_jwt)"
  by (auto simp: checksum_laws_def demo_jwt_def demo_checksum_def demo_address_def)

theorem token_kinds_witness:
  "\<exists>t. create_token demo_jwt demo_address demo_start = (Inr ''A'', t)
    \<and> get_current_user demo_jwt (Some ''A'') demo_start = (Inr demo_address, demo_start)
    \<and> get_current_user demo_jwt (Some ''R'') demo_start \<noteq> (Inr demo_address, demo_start)"
proof -
  have e: "je_encode demo_jwt (new_claims demo_jwt demo_address ''api'' ''refresh'' (Some ''j'') (1000 * SECOND) 86400) = Inr ''R''"
    by (simp add: demo_jwt_def new_claims_def demo_tokens_def demo_claims_def SECOND_def)
  then have r: "issued demo_jwt ''refresh'' ''api'' (Some ''j'') demo_address ''R''"
    by (auto simp: issued_def)
  have x: "je_checksum demo_jwt demo_address = Inr demo_address"
    by (simp add: demo_jwt_def demo_checksum_def)
  have c: "create_token demo_jwt demo_address demo_start = (Inr ''A'', demo_start)"
    by code_simp
  note k = token_kinds [OF demo_jwt_laws demo_checksum_laws r x]
  have "get_current_user demo_jwt (Some ''A'') demo_start = (Inr demo_address, demo_start)"
    using k [of demo_start _ demo_start _ _ demo_address "''A''"] c x
    by (auto simp: demo_start_def demo_jwt_def demo_stores_def SECOND_def)
  moreover have "get_current_user demo_jwt (Some ''R'') demo_start \<noteq> (Inr demo_address, demo_start)"
    using k [of demo_start demo_address demo_start] by (auto simp: TOKEN_TYPE_ACCESS_def)
  ultimately show ?thesis using c by blast
qed

lemma demo_mint_laws: "mint_laws demo_mint"
  by (auto simp: mint_laws_def demo_mint_def demo_checksum_def demo_address_def TAG_SIZE_def split: if_splits)

theorem siwe_token_roundtrip_witness:
  "require_caller demo_flow (\<lambda>s. bytes_fromhex (drop 2 s)) None None
     (Some (''0x'' @ bytes_hex (1 # replicate 16 0))) demo_start = (Inr demo_address, demo_start)"
proof -
  have m: "mint_laws (fe_mint demo_flow)" using demo_mint_laws by (simp add: demo_flow_def)
  have c: "create_and_encrypt (fe_mint demo_flow) ''app.example'' demo_address 2000
      ''Sign in to Privana on chain 7'' [] = Inr (1 # replicate 16 0)"
    by code_simp
  have h: "bytes_fromhex (drop 2 (''0x'' @ bytes_hex (1 # replicate 16 0))) = Inr (1 # replicate 16 0)"
    by simp
  obtain a where "me_checksum (fe_mint demo_flow) demo_address = Inr a"
    "require_caller demo_flow (\<lambda>s. bytes_fromhex (drop 2 s)) None None
       (Some (''0x'' @ bytes_hex (1 # replicate 16 0))) demo_start =
      (if 2000 < se_clock (stores demo_flow) (au_world demo_start) div SECOND
         then Inl (HttpError 401 ''Invalid or expired SIWE token'') else Inr a, demo_start)"
    using siwe_token_roundtrip [where hexbytes = "\<lambda>s. bytes_fromhex (drop 2 s)", OF m c _ h, of demo_start] by auto
  moreover have "me_checksum (fe_mint demo_flow) demo_address = Inr demo_address"
    by (simp add: demo_flow_def demo_mint_def demo_checksum_def)
  moreover have "se_clock (stores demo_flow) (au_world demo_start) div SECOND = 1000"
    by (simp add: stores_def demo_flow_def demo_jwt_def demo_stores_def demo_start_def SECOND_def)
  ultimately show ?thesis by simp
qed

theorem logout_not_answered_witness:
  "logout demo_flow (Some \<lparr>lo_refresh_token = Some ''stale'', lo_revoke_all = False\<rparr>) (Some ''A'') demo_start
     = (Inl (JwtInvalid ''Not enough segments''), demo_start)"
proof -
  have u: "get_current_user (fe_jwt demo_flow) (Some ''A'') demo_start = (Inr demo_address, demo_start)"
    by code_simp
  have d: "je_decode (fe_jwt demo_flow) ''stale'' (je_issuer (fe_jwt demo_flow)) (je_audience (fe_jwt demo_flow))
      (au_world demo_start) = Inl (JwtInvalid ''Not enough segments'')"
    by code_simp
  show ?thesis using logout_not_answered [OF u d] by simp
qed

end
