(* ===== verification/Onramp_Example.thy ===== *)
theory Onramp_Example
  imports Onramp_Props Transak_Example Auth_Example
begin

text \<open>
  A deployment for the properties of \<open>Onramp_Props\<close>: the tables of \<open>Auth_Example\<close>, the intents of
  \<open>Intent_Props\<close>, and a MoonPay that knows one purchase.
\<close>

section \<open>Intents\<close>

definition made :: "string \<Rightarrow> exn + string \<times> payload" where
  "made p =
     create_intent demo_intents demo_manager 1000 (replicate 8 7) p ''me'' ''it'' (''0x'' @ replicate 64 (CHR ''b''))
       8453 ''usdc''"

definition made_token :: "string \<Rightarrow> string" where "made_token p = fst (projr (made p))"

abbreviation moon_token :: string where "moon_token \<equiv> made_token ''moonpay''"

lemma made_created: "p \<in> set PROVIDERS \<Longrightarrow> \<exists>d. made p = Inr (made_token p, d)"
  using create_intent_valid [OF demo_laws demo_ring _ demo_inputs(1) demo_inputs(1) demo_token_id demo_inputs(2),
      of p 8453 1000 "replicate 8 7" "''me''" "''it''"]
  unfolding made_def made_token_def by (auto simp: INTENT_TTL_SECONDS_def)

lemma token_chars: "set (intent_token env bs key) \<subseteq> insert (CHR ''.'') (set b64_chars)"
proof -
  have "set INTENT_PREFIX \<subseteq> insert (CHR ''.'') (set b64_chars)" by code_simp
  then show ?thesis unfolding intent_token_def using urlsafe_b64_range by fastforce
qed

lemma made_chars:
  assumes p: "p \<in> set PROVIDERS" shows "set (made_token p) \<subseteq> insert (CHR ''.'') (set b64_chars)"
proof -
  obtain d where "made p = Inr (made_token p, d)" using made_created [OF p] by blast
  from create_intent_Inr [OF this [unfolded made_def]] obtain d where
    "encode_intent demo_intents demo_manager d = Inr (made_token p)" by metis
  then obtain bs key where "made_token p = intent_token demo_intents bs key"
    using encode_intent_Inr by metis
  then show ?thesis using token_chars by metis
qed

lemma made_given:
  assumes p: "p \<in> set PROVIDERS" shows "made_token p \<noteq> []"
proof -
  obtain d where "made p = Inr (made_token p, d)" using made_created [OF p] by blast
  from create_intent_Inr [OF this [unfolded made_def]] obtain d where
    "encode_intent demo_intents demo_manager d = Inr (made_token p)" by metis
  then obtain bs key where "made_token p = intent_token demo_intents bs key"
    using encode_intent_Inr by metis
  then show ?thesis unfolding intent_token_def INTENT_PREFIX_def by (metis append_is_Nil_conv list.discI)
qed

text \<open>The fields of the intent, whenever and however it is decoded.\<close>

lemma made_decoded:
  assumes p: "p \<in> set PROVIDERS" and "allow_expired \<or> later \<le> 87400"
  shows "\<exists>d. decode_intent demo_intents demo_manager later (made_token p) allow_expired = Inr d
     \<and> field d ''p'' = VText (unicode_of p) \<and> field d ''u'' = VText (unicode_of (replicate 40 (CHR ''a'')))
     \<and> field d ''w'' = VText (unicode_of (replicate 40 (CHR ''a''))) \<and> field d ''a'' = VText (unicode_of ''usdc'')
     \<and> field d ''t'' = VText (unicode_of (replicate 64 (CHR ''b''))) \<and> field d ''c'' = VInt 8453 \<and> field d ''iat'' = VInt 1000"
proof -
  obtain d where c: "made p = Inr (made_token p, d)" using made_created [OF p] by blast
  note c' = c [unfolded made_def]
  obtain d' where d': "decode_intent demo_intents demo_manager later (made_token p) allow_expired = Inr d'" "map_of d' = map_of d"
    using created_decodes [OF demo_laws c' demo_ring demo_ring] assms(2) by (auto simp: INTENT_TTL_SECONDS_def)
  obtain t where t: "hex_payload (ie_unicode demo_intents) (VText (unicode_of (''0x'' @ replicate 64 (CHR ''b'')))) 32 = Inr t"
    and d: "d = intent_payload (unicode_of p) (unicode_of (replicate 40 (CHR ''a'')))
        (unicode_of (replicate 40 (CHR ''a''))) t 8453 (unicode_of ''usdc'') 1000 (1000 + INTENT_TTL_SECONDS)
        (unicode_of (bytes_hex (replicate 8 7)))"
    using create_intent_Inr [OF c'] demo_inputs by (metis Inr_inject)
  have "hex_payload (ie_unicode demo_intents) (VText (unicode_of (''0x'' @ replicate 64 (CHR ''b'')))) 32
      = Inr (unicode_of (replicate 64 (CHR ''b'')))" by code_simp
  then have "t = unicode_of (replicate 64 (CHR ''b''))" using t by (simp del: unicode_of_simps replicate_Suc)
  then have "field d ''t'' = VText (unicode_of (replicate 64 (CHR ''b'')))" unfolding d by (simp only: payload_fields)
  moreover have "field d' x = field d x" for x using same_fields [OF d'(2)] .
  moreover have "field d ''p'' = VText (unicode_of p)" "field d ''u'' = VText (unicode_of (replicate 40 (CHR ''a'')))"
    "field d ''w'' = VText (unicode_of (replicate 40 (CHR ''a'')))" "field d ''a'' = VText (unicode_of ''usdc'')"
    "field d ''c'' = VInt 8453" "field d ''iat'' = VInt 1000"
    unfolding d by (simp_all only: payload_fields)
  ultimately show ?thesis using d'(1) by (intro exI [of _ d']) simp
qed

lemma moon_token_chars: "set moon_token \<subseteq> insert (CHR ''.'') (set b64_chars)"
  and moon_token_given: "moon_token \<noteq> []"
  by (rule made_chars made_given, simp add: PROVIDERS_def)+

section \<open>A purchase at MoonPay\<close>

definition moon_pairs :: "(string \<times> string) list" where
  "moon_pairs = [(''id'', ''m1''), (''externalTransactionId'', moon_token), (''walletAddress'', demo_wallet),
     (''status'', ''completed''), (''cryptoTransactionId'', ''0xab'')]"

definition moon_transaction :: payload where
  "moon_transaction = map (\<lambda>(k, v). (unicode_of k, VText (unicode_of v))) moon_pairs"

definition moon_text :: string where
  "moon_text = ''[{'' @ comma_join (map (\<lambda>(k, v). member_text (unicode_of k, string_text (unicode_of v))) moon_pairs) @ ''}]''"

lemma ascii_token: "ascii_chars moon_token"
proof -
  have "ascii_chars (CHR ''.'' # b64_chars)" by code_simp
  then show ?thesis using moon_token_chars by (auto simp: ascii_chars_def)
qed

lemma moon_pairs_ascii: "\<forall>(k, v) \<in> set moon_pairs. ascii_chars k \<and> ascii_chars v"
  using ascii_token by (simp add: moon_pairs_def demo_wallet_def) (simp add: ascii_chars_def)

lemma moon_parsed: "json_parse (unicode_of moon_text) = Some (VList [VDict moon_transaction])"
proof -
  let ?ts = "map (\<lambda>(k, v). string_text (unicode_of v)) moon_pairs"
  let ?inner = "unicode_of (comma_join (map member_text (zip (map fst moon_transaction) ?ts)))"
  have z: "map (\<lambda>(k, v). member_text (unicode_of k, string_text (unicode_of v))) moon_pairs
      = map member_text (zip (map fst moon_transaction) ?ts)"
    by (simp add: moon_pairs_def moon_transaction_def)
  have whole: "unicode_of moon_text = 91 # 123 # ?inner @ 125 # [93]"
    unfolding moon_text_def z by simp
  have "scan_members n (?inner @ 125 # [93]) = Some (moon_transaction, [93])" if "5 < n" for n
  proof (rule scan_written_members)
    show "list_all (\<lambda>(k, v). ascii k \<and> flat v) moon_transaction"
      using moon_pairs_ascii ascii_unicode by (auto simp: list_all_iff moon_transaction_def)
    show "map (\<lambda>(k, v). json_dumps (ie_unicode demo_intents) v) moon_transaction = map Inr ?ts"
      by (simp add: moon_transaction_def moon_pairs_def)
  qed (use that in \<open>simp_all add: moon_transaction_def moon_pairs_def\<close>)
  note scanned = this
  have long: "10 < length ?inner"
    by (simp add: moon_transaction_def moon_pairs_def member_text_def string_text_def)
  obtain x where x: "?inner @ 125 # [93] = 34 # x"
    by (simp add: moon_transaction_def moon_pairs_def member_text_def string_text_def)
  then have l: "length ?inner + 1 = length x" by (drule_tac arg_cong [of _ _ length]) simp
  obtain k where k: "length x = k" "5 < k" using long l by auto
  have "scan_members (Suc k) (34 # x) = Some (moon_transaction, [93])" using scanned [of "Suc k"] k(2) x by simp
  then have "scan_value (Suc (Suc k)) (123 # 34 # x) = Some (VDict (dict_of moon_transaction), [93])"
    unfolding scan_object by simp
  moreover have "dict_of moon_transaction = moon_transaction"
    by (simp add: dict_of_def moon_transaction_def moon_pairs_def)
  ultimately have "scan_items (Suc (Suc (Suc k))) (123 # 34 # x) = Some ([VDict moon_transaction], [])"
    by (simp add: skip_space_visible del: scan_value.simps)
  then have "scan_value (Suc (Suc (Suc (Suc k)))) (91 # 123 # 34 # x) = Some (VList [VDict moon_transaction], [])"
    by (simp add: skip_space_visible del: scan_items.simps)
  then show ?thesis
    unfolding json_parse_def whole x by (simp add: k(1) skip_space_visible skip_space_def [of "[]"] del: scan_value.simps)
qed

lemma moon_loads: "json_loads un (map of_char moon_text) = Some (VList [VDict moon_transaction])"
proof -
  have "ascii_chars (comma_join ms)" if "\<forall>m \<in> set ms. ascii_chars m" for ms
    using that by (induction ms rule: comma_join.induct) auto
  moreover have "ascii_chars (member_text (k, string_text v))" for k v by (simp add: member_text_def ascii_string_text)
  ultimately have "ascii_chars (comma_join (map (\<lambda>(k, v). member_text (unicode_of k, string_text (unicode_of v))) moon_pairs))"
    by (auto split: prod.splits)
  then have "ascii_chars moon_text" by (simp add: moon_text_def)
  then show ?thesis using loads_ascii moon_parsed by simp
qed

lemma moon_fields:
  "field moon_transaction ''id'' = VText (unicode_of ''m1'')"
  "field moon_transaction ''externalTransactionId'' = VText (unicode_of moon_token)"
  "field moon_transaction ''walletAddress'' = VText (unicode_of demo_wallet)"
  "field moon_transaction ''status'' = VText (unicode_of ''completed'')"
  "field moon_transaction ''cryptoTransactionId'' = VText (unicode_of ''0xab'')"
  by (simp_all add: field_def moon_transaction_def moon_pairs_def)

lemma moon_absent: "k \<notin> set (map fst moon_pairs) \<Longrightarrow> field moon_transaction k = VNull"
proof -
  have inj: "unicode_of k = unicode_of l \<longleftrightarrow> k = l" for k l
    by (simp add: unicode_of_def inj_map_eq_map inj_def)
  have "map_of (map (\<lambda>(k, v). (unicode_of k, VText (unicode_of v))) ps) (unicode_of k) = None"
    if "k \<notin> set (map fst ps)" for ps :: "(string \<times> string) list"
    using that by (induction ps) (auto simp: inj)
  then show "k \<notin> set (map fst moon_pairs) \<Longrightarrow> field moon_transaction k = VNull"
    unfolding field_def moon_transaction_def by simp
qed

definition demo_moonpay :: moonpay_settings where
  "demo_moonpay =
     \<lparr>mo_api_key = Some ''key'', mo_secret_key = Some ''shh'', mo_api_base_url = ''https://api.moonpay'',
      mo_webhook_secret_key = Some ''hook'', mo_allowed_hosts = [''buy.moonpay''], mo_allowed_currency_codes = [],
      mo_webhook_tolerance_seconds = 300, mo_utf8 = \<lambda>b. []\<rparr>"

definition demo_transak :: transak_settings where
  "demo_transak =
     \<lparr>ts_api_key = Some ''key'', ts_api_secret = Some ''shh'', ts_api_base_url = Some ''https://api'',
      ts_gateway_base_url = Some ''https://gw'', ts_referrer_domain = Some ''app.example'',
      ts_client_ip_header = Some ''x-ip'', ts_client_ip_mode = None, ts_ip_attestation_secret = None,
      ts_crypto_currency_code = Some ''USDC'', ts_network = Some ''base'', ts_chain_id = Some 8453,
      ts_token_address = Some ''it''\<rparr>"

text \<open>A disk that holds nothing; a window of no seconds, which lifts the limit of requests.\<close>

definition shop_flow :: "int flow_env" where
  "shop_flow =
     \<lparr>fe_jwt = \<lparr>je_stores = \<lparr>se_disk = \<lparr>dk_now = id, dk_others = \<lambda>w. ([], w), dk_get = \<lambda>k w. (Inr None, w),
          dk_set = \<lambda>k v ttl w. (Inr (), w), dk_contains = \<lambda>k w. (Inr False, w), dk_pop = \<lambda>k w. (Inr None, w),
          dk_delete = \<lambda>k w. (Inr False, w), dk_keys = \<lambda>st w. (Inr [], w)\<rparr>, se_clock = id,
        se_token_urlsafe = \<lambda>w. (''j'', w), se_token_hex = \<lambda>w. (''n'', w), se_nonce_expiry_seconds = 300,
        se_code_ttl_seconds = 60\<rparr>, je_encode = \<lambda>c. Inr ''A'', je_decode = \<lambda>tok iss aud w. Inl (JwtInvalid ''none''),
        je_checksum = ie_checksum demo_intents, je_expiry_hours = 1, je_refresh_expiry_days = 1, je_issuer = ''privana'',
        je_audience = ''api''\<rparr>,
      fe_mint = demo_mint, fe_settings = demo_settings\<lparr>as_auth_rate_limit_window_seconds := 0\<rparr>, fe_clients = [],
      fe_parse = \<lambda>m. Inr demo_message, fe_verify = \<lambda>msg sg domain nonce w. Inr (), fe_fromisoformat = \<lambda>t. Inr 1000,
      fe_timestamp = \<lambda>d. Inr d, fe_sha256 = \<lambda>b. b\<rparr>"

text \<open>The text \<open>{"data":{"accessToken":"tk","expiresAt":9999}}\<close>.\<close>

definition lasting_codes :: ustr where
  "lasting_codes = [123, 34, 100, 97, 116, 97, 34, 58, 123, 34, 97, 99, 99, 101, 115, 115, 84, 111, 107, 101, 110, 34, 58, 34, 116, 107, 34, 44, 34, 101, 120, 112, 105, 114, 101, 115, 65, 116, 34, 58, 57, 57, 57, 57, 125, 125]"

definition shop :: "string \<Rightarrow> bytes \<Rightarrow> int onramp_env" where
  "shop provider answer =
     \<lparr>re_client = demo_api\<lparr>tx_httpx_url := \<lambda>u. Some (''https'', ''h''),
        tx_http := \<lambda>r w. (Inr \<lparr>hr_status = 200, hr_headers = [],
          hr_chunks = [if hq_url r = ''https://api/partners/api/v2/refresh-token'' then map of_nat lasting_codes else answer],
          hr_end = None\<rparr>, w)\<rparr>,
      re_flow = shop_flow, re_intents = \<lparr>is_signing_key_id = ''k'', is_previous_key_ids = [], is_provider = Some provider\<rparr>, re_transak = demo_transak,
      re_moonpay = demo_moonpay, re_deposit_address = \<lambda>tok w. (Inr ''0xd'', w),
      re_token_id = \<lambda>c a w. (Inr (replicate 32 0xBB), w), re_is_registered = \<lambda>i w. (Inr True, w),
      re_random = \<lambda>w. (replicate 8 7, w), re_others = \<lambda>s. s\<rparr>"

definition shop_start :: "int onramp" where
  "shop_start = \<lparr>oo_client = transak_init 2000000000, oo_nonces = [], oo_auth = \<lparr>au_world = 0, au_log = []\<rparr>\<rparr>"

lemma shop_orders: "tx_orders (re_client (shop provider answer)) = demo_orders"
  by (simp add: shop_def demo_api_def)

lemma ascii_wallet: "ascii (unicode_of demo_wallet)"
  by (rule ascii_unicode) (code_simp)

lemma ascii_back: "ascii_text (unicode_of s) = s"
  by (induction s) (simp_all add: ascii_text_def)

lemma demo_checks:
  "ie_checksum (oe_intent demo_orders) v = Inr demo_wallet" "ie_checksum demo_intents v = Inr demo_wallet"
  "ie_is_address (oe_intent demo_orders) v" "ie_unicode (oe_intent demo_orders) = ie_unicode demo_intents"
  "text_address demo_orders (unicode_of demo_wallet) = Inr (Some demo_wallet)"
  unfolding text_address_def ascii_back using ascii_wallet by (simp_all add: demo_orders_def demo_intents_def demo_wallet_def)

lemma moon_text_decoded:
  "\<exists>d. decode_text demo_orders (unicode_of moon_token) 0 True = Inr d
     \<and> decode_onramp_intent demo_orders (unicode_of moon_token) 0 True = Inr d
     \<and> field d ''p'' = VText (unicode_of ''moonpay'') \<and> field d ''a'' = VText (unicode_of ''usdc'')
     \<and> field d ''iat'' = VInt 1000 \<and> field d ''c'' = VInt 8453"
proof -
  obtain d where d: "decode_intent demo_intents demo_manager 0 moon_token True = Inr d"
    "field d ''p'' = VText (unicode_of ''moonpay'')" "field d ''a'' = VText (unicode_of ''usdc'')"
    "field d ''iat'' = VInt 1000" "field d ''c'' = VInt 8453"
    using made_decoded [of "''moonpay''" True 0] by (auto simp: PROVIDERS_def)
  have "\<forall>c \<in> set (unicode_of moon_token). c < 256" by (simp add: unicode_of_def)
  then have "decode_text demo_orders (unicode_of moon_token) 0 True = Inr d"
    using d(1) by (simp add: decode_text_def ascii_back demo_orders_def)
  then show ?thesis using d by (intro exI [of _ d]) (simp add: decode_onramp_intent_def text_field_def del: unicode_of_simps)
qed

lemma moon_row:
  "\<exists>r. moonpay_transaction_to_onramp_record demo_orders moon_transaction demo_wallet demo_wallet = Inr (Inr r)
     \<and> or_transaction_id r = unicode_of moon_token"
proof -
  obtain d where d: "decode_onramp_intent demo_orders (unicode_of moon_token) 0 True = Inr d"
    "field d ''p'' = VText (unicode_of ''moonpay'')" "field d ''a'' = VText (unicode_of ''usdc'')"
    "field d ''iat'' = VInt 1000" "field d ''c'' = VInt 8453"
    using moon_text_decoded by blast
  have t: "transaction_data moon_transaction = moon_transaction"
    by (simp add: transaction_data_def moon_absent moon_pairs_def)
  have s: "normalize_status demo_orders (VText (unicode_of ''completed'')) = ''completed''" by code_simp
  have h: "hex_or_none demo_orders (VText (unicode_of ''0xab'')) = Some (unicode_of ''0xab'')" by code_simp
  have ne: "unicode_of moon_token \<noteq> []" using moon_token_given by (simp add: unicode_of_def)
  have w: "unicode_of demo_wallet \<noteq> []" "unicode_of ''0xab'' \<noteq> []" "unicode_of ''usdc'' \<noteq> []" by (simp_all add: demo_wallet_def)
  have st: "py_or demo_orders (VText u) v = (if u = [] then v else VText u)" "py_or demo_orders VNull v = v" for u v
    by (simp_all add: py_or_def py_true_def)
  have a: "moonpay_address_or_none demo_orders (VText (unicode_of demo_wallet)) = Inr (Some demo_wallet)"
    using w by (simp add: moonpay_address_or_none_def demo_checks)
  have n: "nested moon_transaction k l = VNull" if "k \<notin> set (map fst moon_pairs)" for k l
    using moon_absent [OF that] by (simp add: nested_def)
  have i: "int_field d ''iat'' = 1000" by (simp add: int_field_def d)
  show ?thesis
    unfolding moonpay_transaction_to_onramp_record_def t moon_fields Let_def
    by (simp add: moon_absent n moon_pairs_def demo_checks d(1) address_field_def s h st ne w a i currency_code_def
        text_or_def string_or_none_def py_str_def check_bind_def need_def need_some_def or_reason_def compute_def
        moonpay_timestamp_def record_from_intent_def Let_def del: unicode_of_simps)
qed

section \<open>Purchases shown\<close>

lemma shop_law: "web3_law (shop provider answer)"
  by (simp add: web3_law_def checksum_law_def shop_def shop_flow_def demo_api_def demo_orders_def demo_intents_def)

lemma shop_parts:
  "re_intents (shop provider answer) = \<lparr>is_signing_key_id = ''k'', is_previous_key_ids = [], is_provider = Some provider\<rparr>"
  "re_moonpay (shop provider answer) = demo_moonpay" "re_others (shop provider answer) s = s"
  "re_transak (shop provider answer) = demo_transak"
  by (simp_all add: shop_def)

lemma shop_limit:
  "on_auth (enforce_onramp_user_rate_limit (re_flow (shop provider answer)) user bucket limit) s
     = (Inr (), s\<lparr>oo_auth := (oo_auth s)\<lparr>au_world := tk_world (oo_client s)\<rparr>\<rparr>)"
  by (simp add: on_auth_def enforce_onramp_user_rate_limit_def shop_def shop_flow_def py_bind_def py_lift_def
      hit_def demo_settings_def py_ret_def demo_checks)

lemma shop_deposit: "deposit_address_of (shop provider answer) token s = (Inr demo_wallet, s)"
  by (simp add: deposit_address_of_def service_def shop_def py_bind_def py_lift_def demo_api_def demo_checks)

lemma moon_fetched:
  "fetch_moonpay_buy_transactions (re_client (shop provider (map of_char moon_text))) demo_moonpay user c = (Inr [moon_transaction], c)"
proof -
  have i: "moonpay_response_items demo_orders 200 (map of_char moon_text) = Inr [moon_transaction]"
    by (simp add: moonpay_response_items_def moon_loads extract_transaction_items_def only_dicts_def map_filter_simps)
  have u: "hq_url (moonpay_request demo_moonpay ''/v1/transactions'' ps) \<noteq> ''https://api/partners/api/v2/refresh-token''" for ps
    by (simp add: moonpay_request_def demo_moonpay_def rstrip_char_def)
  show ?thesis
    by (simp add: fetch_moonpay_buy_transactions_def demo_moonpay_def [THEN arg_cong, of mo_secret_key] given_def
        moonpay_transport_def py_try_def TRANSACTION_MAX_PAGES_def numeral_eq_Suc py_bind_def moonpay_get_def shop_def demo_api_def u i 
        py_lift_def TRANSACTION_PAGE_LIMIT_def py_ret_def)
qed

lemma moon_pending:
  "\<exists>r t. get_pending_onramps (shop ''moonpay'' (map of_char moon_text)) ([], ''me'') None shop_start = (Inr [r], t)
     \<and> or_transaction_id r = unicode_of moon_token"
proof -
  obtain r where r: "moonpay_transaction_to_onramp_record demo_orders moon_transaction demo_wallet demo_wallet = Inr (Inr r)"
    "or_transaction_id r = unicode_of moon_token" using moon_row by blast
  have d: "dedupe_moonpay_transactions demo_orders [moon_transaction] = [moon_transaction]"
    by (simp add: dedupe_moonpay_transactions_def Let_def split: option.splits)
  have rows: "moonpay_rows (shop ''moonpay'' (map of_char moon_text)) ''me'' demo_wallet [moon_transaction] = Inr [r]"
    by (simp add: moonpay_rows_def shop_orders pending_records_from_moonpay_transactions_def demo_checks r
        sort_desc_def)
  have one: "dedupe_onramp_rows [r] = [r]"
    by (simp add: dedupe_onramp_rows_def sort_desc_def)
  have c: "on_client (shop ''moonpay'' (map of_char moon_text)) (fetch_moonpay_buy_transactions (re_client (shop ''moonpay'' (map of_char moon_text)))
      demo_moonpay ''me'') s = (Inr [moon_transaction], s)" for s
    by (simp add: on_client_def moon_fetched shop_parts)
  have p: "configured_provider \<lparr>is_signing_key_id = ''k'', is_previous_key_ids = [], is_provider = Some ''moonpay''\<rparr> = Inr ''moonpay''"
    by code_simp
  show ?thesis
    using r(2)
    by (simp add: get_pending_onramps_def answered_def py_try_def py_then_def py_bind_def shop_limit shop_deposit py_lift_def
        validated_onramp_pending_intents_def py_ret_def shop_parts p tried_def wallet_rows_def c shop_orders d rows one)
qed


section \<open>A webhook\<close>

text \<open>The text \<open>{"data":{"id":"m1"}}\<close>.\<close>

definition paid_codes :: ustr where
  "paid_codes = [123, 34, 100, 97, 116, 97, 34, 58, 123, 34, 105, 100, 34, 58, 34, 109, 49, 34, 125, 125]"

definition paid_header :: string where
  "paid_header = ''t=1000,s='' @ bytes_hex (hmac_digest (ie_sha256 demo_intents) (utf8 ''hook'') (utf8 ''1000'' @ [46] @ map of_nat paid_codes))"

lemma py_split_first: "c \<notin> set a \<Longrightarrow> py_split c (a @ c # b) = a # py_split c b"
  by (induction a) auto

lemma paid_parts: "signature_parts paid_header =
    [(''s'', bytes_hex (hmac_digest (ie_sha256 demo_intents) (utf8 ''hook'') (utf8 ''1000'' @ [46] @ map of_nat paid_codes))), (''t'', ''1000'')]"
proof -
  define mac where "mac = bytes_hex (hmac_digest (ie_sha256 demo_intents) (utf8 ''hook'') (utf8 ''1000'' @ [46] @ map of_nat paid_codes))"
  have "length (hmac_digest (ie_sha256 demo_intents) k b) = 32" for k b
    by (simp add: hmac_digest_def demo_intents_def Let_def)
  then have "length mac = 64" by (simp add: mac_def)
  then have "mac \<noteq> []" by fastforce
  moreover have "set mac \<subseteq> set hex_chars" unfolding mac_def by (rule bytes_hex_range)
  ultimately have m: "set mac \<subseteq> set hex_chars" "mac \<noteq> []" by simp_all
  then have "CHR '','' \<notin> set mac" by (auto simp: hex_chars_def)
  then have s: "py_split (CHR '','') (''t=1000,s='' @ mac) = [''t=1000'', ''s='' @ mac]"
    using py_split_first [of "CHR '',''" "''t=1000''" "''s='' @ mac"] py_split_none [of "CHR '',''" "''s='' @ mac"] by simp
  have p: "py_partition (CHR ''='') (''s='' @ mac) = (''s'', True, mac)" "py_partition (CHR ''='') ''t=1000'' = (''t'', True, ''1000'')"
    using partition_first [of "CHR ''=''" "''s''" mac] partition_first [of "CHR ''=''" "''t''" "''1000''"] by simp_all
  show ?thesis
    unfolding signature_parts_def paid_header_def mac_def [symmetric] s using m(2)
    by (simp add: map_filter_simps p [simplified])
qed

lemma paid_parsed: "json_loads un (map of_nat paid_codes) =
    Some (VDict [(unicode_of ''data'', VDict [(unicode_of ''id'', VText (unicode_of ''m1''))])])"
proof -
  have "json_parse paid_codes = Some (VDict [(unicode_of ''data'', VDict [(unicode_of ''id'', VText (unicode_of ''m1''))])])"
    by (simp add: json_parse_def skip_space_def scan_string.simps paid_codes_def dict_of_def)
  moreover have "\<forall>c \<in> set paid_codes. 0 < c \<and> c < 128" by (simp add: paid_codes_def)
  ultimately show ?thesis by (simp add: loads_codes)
qed

definition paid_start :: "int onramp" where
  "paid_start = shop_start\<lparr>oo_client := transak_init 1200000000\<rparr>"

lemma paid:
  "\<exists>r. moonpay_onramp_webhook (shop ''moonpay'' []) [map of_nat paid_codes] paid_header paid_start = (Inr r, paid_start)"
proof -
  let ?body = "map of_nat paid_codes :: bytes"
  have l: "\<not> WEBHOOK_MAX_BODY_BYTES < int (length paid_codes)" by (simp add: paid_codes_def WEBHOOK_MAX_BODY_BYTES_def)
  have n: "seconds_now (shop ''moonpay'' []) paid_start = (Inr 1200, paid_start)"
    by (simp add: seconds_now_def current_time_def shop_def demo_api_def paid_start_def transak_init_def py_bind_def
        py_ret_def int_seconds_def SECOND_def)
  have i: "py_int ''1000'' = Some 1000" by code_simp
  have a: "list_all is_ascii (bytes_hex bs)" for bs
  proof -
    have "list_all is_ascii hex_chars" by code_simp
    then show ?thesis using bytes_hex_range [of bs] by (auto simp: list_all_iff)
  qed
  have v: "verify_moonpay_webhook demo_orders demo_moonpay 1200 ?body paid_header = Inr ()"
    by (simp add: verify_moonpay_webhook_def paid_parts i compare_digest_def a) (simp add: demo_moonpay_def given_def demo_orders_def compare_digest_def a)
  have p: "parse_webhook_body demo_orders ?body = Inr [(unicode_of ''data'', VDict [(unicode_of ''id'', VText (unicode_of ''m1''))])]"
    by (simp add: parse_webhook_body_def paid_parsed plain_bytes_def) (simp add: paid_codes_def)
  have u: "\<exists>r. webhook_updates demo_orders [(unicode_of ''data'', VDict [(unicode_of ''id'', VText (unicode_of ''m1''))])] = Inr r"
    by (simp add: webhook_updates_def Let_def field_def transaction_data_def str_or_empty_def py_or_def py_true_def
        string_or_none_def nested_def moonpay_address_or_none_def text_or_def py_str_def)
  show ?thesis using u
    by (auto simp: moonpay_onramp_webhook_def l n py_bind_def py_then_def py_lift_def answered_def py_try_def shop_orders
        shop_parts v p)
qed

lemma moonpay_webhook_authentic_witness:
  "\<exists>r. moonpay_onramp_webhook (shop ''moonpay'' []) [map of_nat paid_codes] paid_header paid_start = (Inr r, paid_start)
     \<and> map_of (signature_parts paid_header) ''s'' = Some (bytes_hex (hmac_digest (ie_sha256 demo_intents) (utf8 ''hook'')
         (utf8 ''1000'' @ [46] @ map of_nat paid_codes)))"
proof -
  obtain r where r: "moonpay_onramp_webhook (shop ''moonpay'' []) [map of_nat paid_codes] paid_header paid_start = (Inr r, paid_start)"
    using paid by blast
  have t: "map_of (signature_parts paid_header) ''t'' = Some ''1000''" by (simp add: paid_parts)
  have k: "mo_webhook_secret_key demo_moonpay = Some ''hook''" by (simp add: demo_moonpay_def)
  have o: "ie_sha256 (oe_intent demo_orders) = ie_sha256 demo_intents" by (simp add: demo_orders_def)
  from moonpay_webhook_authentic [OF r] show ?thesis
    using r by (auto simp: t shop_parts shop_orders k o simp del: append.simps)
qed

section \<open>A signed URL\<close>

text \<open>The address of the URL; the currency code is \<open>usdc\<close>.\<close>

definition shop_pairs :: "(string \<times> string) list" where
  "shop_pairs = [(''apiKey'', ''key''), (''walletAddress'', demo_wallet), (''externalCustomerId'', demo_wallet),
     (''currencyCode'', ''usdc''), (''externalTransactionId'', moon_token)]"

fun amp_join :: "string list \<Rightarrow> string" where
  "amp_join [] = []"
| "amp_join [t] = t"
| "amp_join (t # ts) = t @ ''&'' @ amp_join ts"

definition shop_parsed :: split_result where
  "shop_parsed = \<lparr>sp_scheme = ''https'', sp_netloc = ''buy.moonpay'', sp_path = ''/'',
     sp_query = amp_join (map (\<lambda>(k, v). k @ ''='' @ v) shop_pairs), sp_fragment = []\<rparr>"

definition plain_param :: "string \<Rightarrow> bool" where
  "plain_param t \<longleftrightarrow> set t \<inter> set ''&=%+#'' = {} \<and> list_all clean_char t"

lemma shop_plain: "(k, v) \<in> set shop_pairs \<Longrightarrow> plain_param k \<and> plain_param v"
proof -
  have "list_all (\<lambda>c. plain_param [c]) (CHR ''.'' # b64_chars)" by code_simp
  then have "plain_param moon_token"
    using moon_token_chars unfolding plain_param_def list_all_iff by fastforce
  moreover have "plain_param demo_wallet" by code_simp
  moreover have "plain_param ''apiKey''" "plain_param ''key''" "plain_param ''walletAddress''" "plain_param ''usdc''"
    "plain_param ''externalCustomerId''" "plain_param ''currencyCode''" "plain_param ''externalTransactionId''"
    by code_simp+
  ultimately show "(k, v) \<in> set shop_pairs \<Longrightarrow> plain_param k \<and> plain_param v" unfolding shop_pairs_def by auto
qed

lemma amp_split: "\<forall>t \<in> set ts. CHR ''&'' \<notin> set t \<Longrightarrow> ts \<noteq> [] \<Longrightarrow> py_split (CHR ''&'') (amp_join ts) = ts"
  by (induction ts rule: amp_join.induct) (auto simp: py_split_none py_split_first)

lemma param_split:
  "plain_param k \<Longrightarrow> py_partition (CHR ''='') (k @ CHR ''='' # v) = (k, True, v)"
  by (intro partition_first) (auto simp: plain_param_def)

lemma param_text:
  assumes "plain_param k" shows "unquote st (unplus k) = unicode_of k"
proof -
  have "unplus k = k" unfolding unplus_def using assms by (intro map_idI) (auto simp: plain_param_def)
  then show ?thesis using assms by (auto simp: unquote_def plain_param_def)
qed

lemma shop_params: "parse_qsl st (sp_query shop_parsed) = map (\<lambda>(k, v). (unicode_of k, unicode_of v)) shop_pairs"
proof -
  let ?ts = "map (\<lambda>(k, v). k @ ''='' @ v) shop_pairs"
  have "py_split (CHR ''&'') (amp_join ?ts) = ?ts"
    using shop_plain by (intro amp_split) (fastforce simp: plain_param_def, simp add: shop_pairs_def)
  moreover have "List.filter (\<lambda>t. t \<noteq> []) ?ts = ?ts" by (auto simp: filter_id_conv)
  ultimately show ?thesis
    by (auto simp: parse_qsl_def shop_parsed_def param_split param_text dest!: shop_plain)
qed

lemma shop_proper: "proper_parts shop_parsed"
proof -
  have clean: "list_all clean_char (k @ ''='' @ v)" "CHR ''#'' \<notin> set (k @ ''='' @ v)" if "(k, v) \<in> set shop_pairs" for k v
    using shop_plain [OF that] by (auto simp: plain_param_def clean_char_def)
  have joined: "list_all clean_char (amp_join ts) \<and> CHR ''#'' \<notin> set (amp_join ts)"
    if "\<And>t. t \<in> set ts \<Longrightarrow> list_all clean_char t \<and> CHR ''#'' \<notin> set t" for ts
    using that by (induction ts rule: amp_join.induct) (auto simp: clean_char_def)
  have "list_all clean_char t \<and> CHR ''#'' \<notin> set t" if "t \<in> set (map (\<lambda>(k, v). k @ ''='' @ v) shop_pairs)" for t
    using that clean by (auto simp del: append.simps)
  then have "list_all clean_char (amp_join (map (\<lambda>(k, v). k @ ''='' @ v) shop_pairs))
      \<and> CHR ''#'' \<notin> set (amp_join (map (\<lambda>(k, v). k @ ''='' @ v) shop_pairs))" by (rule joined)
  then have "list_all clean_char (sp_query shop_parsed) \<and> CHR ''#'' \<notin> set (sp_query shop_parsed)"
    unfolding shop_parsed_def by simp
  moreover have "netloc_ok ''buy.moonpay'' \<and> (\<forall>c \<in> set ''buy.moonpay''. \<not> netloc_end c \<and> clean_char c)" by code_simp
  ultimately show ?thesis by (auto simp: proper_parts_def shop_parsed_def clean_char_def)
qed

lemma shop_signed:
  "\<exists>sig. sign_moonpay_url demo_orders demo_moonpay (urlunsplit shop_parsed) demo_wallet ''me'' (unicode_of moon_token)
     (unicode_of ''usdc'') = Inr sig"
proof -
  have h: "sp_hostname shop_parsed = Some ''buy.moonpay''" 
  proof -
    have "fst (hostinfo ''buy.moonpay'') = ''buy.moonpay''" "py_partition (CHR ''%'') ''buy.moonpay'' = (''buy.moonpay'', False, [])"
      "ascii_lower ''buy.moonpay'' = ''buy.moonpay''" by code_simp+
    then show ?thesis by (simp add: sp_hostname_def shop_parsed_def)
  qed
  have q: "sp_query shop_parsed \<noteq> []" by (simp add: shop_parsed_def shop_pairs_def)
  have s: "sp_scheme shop_parsed = ''https''" by (simp add: shop_parsed_def)
  have inj: "unicode_of a = unicode_of b \<longleftrightarrow> a = b" for a b
    by (simp add: unicode_of_def inj_map_eq_map inj_def)
  define ps where "ps = map (\<lambda>(k, v). (unicode_of k, unicode_of v)) shop_pairs"
  have v: "query_values ps ''signature'' = []" "query_values ps ''apiKey'' = [unicode_of ''key'']"
    "query_values ps ''walletAddress'' = [unicode_of demo_wallet]"
    "query_values ps ''externalCustomerId'' = [unicode_of demo_wallet]"
    "query_values ps ''currencyCode'' = [unicode_of ''usdc'']"
    "query_values ps ''externalTransactionId'' = [unicode_of moon_token]"
    by (simp_all add: query_values_def ps_def shop_pairs_def inj del: unicode_of_simps)
  have m: "mo_api_key demo_moonpay = Some ''key''" "mo_secret_key demo_moonpay = Some ''shh''"
    "mo_allowed_hosts demo_moonpay = [''buy.moonpay'']" "mo_allowed_currency_codes demo_moonpay = []"
    by (simp_all add: demo_moonpay_def)
  have ne: "unicode_of moon_token \<noteq> []" using moon_token_given by (simp add: unicode_of_def)
  have w: "unicode_of demo_wallet \<noteq> []" "unicode_of ''usdc'' \<noteq> []" by (simp_all add: demo_wallet_def)
  show ?thesis
    by (simp add: m given_def sign_moonpay_url_def urlsplit_urlunsplit shop_proper s h q Let_def shop_params [folded ps_def] v demo_checks
      require_single_def single_def single_given_def ne w del: unicode_of_simps)
qed

lemma shop_now: "oo_client s = transak_init 2000000000 \<Longrightarrow> seconds_now (shop provider answer) s = (Inr 2000, s)"
  by (simp add: seconds_now_def current_time_def shop_def demo_api_def transak_init_def py_bind_def
      py_ret_def int_seconds_def SECOND_def)

lemma made_text_decoded:
  assumes "p \<in> set PROVIDERS"
  shows "\<exists>d. decode_text demo_orders (unicode_of (made_token p)) 2000 False = Inr d
     \<and> field d ''p'' = VText (unicode_of p) \<and> field d ''a'' = VText (unicode_of ''usdc'')
     \<and> field d ''t'' = VText (unicode_of (replicate 64 (CHR ''b''))) \<and> field d ''c'' = VInt 8453"
proof -
  have "\<forall>c \<in> set (unicode_of (made_token p)). c < 256" by (simp add: unicode_of_def)
  then show ?thesis
    using made_decoded [OF assms, of False 2000] by (auto simp: decode_text_def ascii_back demo_orders_def)
qed

lemma shop_url:
  "\<exists>sig. sign_onramp_url (shop ''moonpay'' []) ([], ''me'') (urlunsplit shop_parsed) shop_start = (Inr sig, shop_start)"
proof -
  obtain d where d: "decode_text demo_orders (unicode_of moon_token) 2000 False = Inr d"
    "field d ''p'' = VText (unicode_of ''moonpay'')" "field d ''a'' = VText (unicode_of ''usdc'')"
    using made_text_decoded [of "''moonpay''"] by (auto simp: PROVIDERS_def)
  have o: "decode_onramp_intent demo_orders (unicode_of moon_token) 2000 False = Inr d"
    using d by (simp add: decode_onramp_intent_def text_field_def del: unicode_of_simps)
  have inj: "unicode_of a = unicode_of b \<longleftrightarrow> a = b" for a b
    by (simp add: unicode_of_def inj_map_eq_map inj_def)
  have i: "moonpay_url_external_transaction_id demo_moonpay (urlunsplit shop_parsed) = Inr (Some (unicode_of moon_token))"
    by (simp add: moonpay_url_external_transaction_id_def urlsplit_urlunsplit shop_proper shop_params single_def
        query_values_def shop_pairs_def inj del: unicode_of_simps)
  obtain sig where sig: "sign_moonpay_url demo_orders demo_moonpay (urlunsplit shop_parsed) demo_wallet ''me''
     (unicode_of moon_token) (unicode_of ''usdc'') = Inr sig" using shop_signed by blast
  have a: "address_field (oe_intent demo_orders) d k = Inr demo_wallet" for k by (simp add: address_field_def demo_checks)
  have p: "configured_provider \<lparr>is_signing_key_id = ''k'', is_previous_key_ids = [], is_provider = Some ''moonpay''\<rparr> = Inr ''moonpay''"
    by code_simp
  have ne: "unicode_of moon_token \<noteq> []" using moon_token_given by (simp add: unicode_of_def)
  have t: "text_field d ''a'' = unicode_of ''usdc''" by (simp add: text_field_def d)
  have c: "oo_client shop_start = transak_init 2000000000" by (simp add: shop_start_def)
  show ?thesis
    by (simp add: c sign_onramp_url_def answered_def py_try_def py_bind_def py_lift_def shop_parts p shop_deposit i ne
        shop_now shop_orders o a demo_checks t sig del: unicode_of_simps)
qed


section \<open>A session\<close>

text \<open>The text \<open>{"data":{"widgetUrl":"https://w"}}\<close>.\<close>

definition widget_codes :: ustr where
  "widget_codes = [123, 34, 100, 97, 116, 97, 34, 58, 123, 34, 119, 105, 100, 103, 101, 116, 85, 114, 108, 34, 58, 34, 104, 116, 116, 112, 115, 58, 47, 47, 119, 34, 125, 125]"

definition widget_payload :: jvalue where
  "widget_payload = VDict [(unicode_of ''data'', VDict [(unicode_of ''widgetUrl'', VText (unicode_of ''https://w''))])]"

definition lasting_payload :: jvalue where
  "lasting_payload = VDict [(unicode_of ''data'',
     VDict [(unicode_of ''accessToken'', VText (unicode_of ''tk'')), (unicode_of ''expiresAt'', VInt 9999)])]"

lemma session_parse:
  "strict_json_loads demo_orders (map of_nat lasting_codes) = Some lasting_payload"
  "strict_json_loads demo_orders (map of_nat widget_codes) = Some widget_payload"
proof -
  have "json_parse lasting_codes = Some lasting_payload" "json_parse widget_codes = Some widget_payload"
    by (simp_all add: json_parse_def skip_space_def scan_string.simps lasting_codes_def widget_codes_def
      lasting_payload_def widget_payload_def constants_def scan_number_def digit_code_def dict_of_def digits_value_def
      after_exponent_def after_fraction_def)
  moreover have "\<forall>c \<in> set lasting_codes. 0 < c \<and> c < 128" "\<forall>c \<in> set widget_codes. 0 < c \<and> c < 128"
    by (simp_all add: lasting_codes_def widget_codes_def)
  ultimately show "strict_json_loads demo_orders (map of_nat lasting_codes) = Some lasting_payload"
    "strict_json_loads demo_orders (map of_nat widget_codes) = Some widget_payload"
    by (simp_all add: strict_json_loads_def loads_codes lasting_payload_def widget_payload_def utf8_size.simps unicode_of_def)
qed

abbreviation ride :: "int onramp_env" where "ride \<equiv> shop ''transak'' (map of_nat widget_codes)"

lemma ride_request:
  "json_request (re_client ride) locked r s =
     (Inr \<lparr>aa_status = 200, aa_payload = (if hq_url r = ''https://api/partners/api/v2/refresh-token'' then lasting_payload
        else widget_payload), aa_headers = []\<rparr>,
      s\<lparr>tk_log := tk_log s @ [Requested (with_accept r)]\<rparr>)"
proof -
  let ?body = "if hq_url r = ''https://api/partners/api/v2/refresh-token'' then map of_nat lasting_codes else map of_nat widget_codes :: bytes"
  let ?r = "\<lparr>hr_status = 200, hr_headers = [], hr_chunks = [?body], hr_end = None\<rparr>"
  have h: "http (re_client ride) locked (with_accept r) s = (Inr ?r, s\<lparr>tk_log := tk_log s @ [Requested (with_accept r)]\<rparr>)"
    by (simp add: http_def shop_def demo_api_def Let_def with_accept_def)
  have b: "read_body ?r = Inr ?body"
    by (simp add: read_body_def MAX_RESPONSE_BYTES_def lasting_codes_def widget_codes_def)
  have "?body \<noteq> []" by (simp add: lasting_codes_def widget_codes_def)
  then have "parse_answer demo_orders ?r ?body = Inr \<lparr>aa_status = 200,
      aa_payload = (if hq_url r = ''https://api/partners/api/v2/refresh-token'' then lasting_payload else widget_payload), aa_headers = []\<rparr>"
    by (simp add: parse_answer_def session_parse)
  then show ?thesis
    by (simp only: json_request_def h b py_bind_def py_try_def py_lift_def py_ret_def prod.case sum.case shop_orders)
qed

definition ride_tc :: transak_config where
  "ride_tc = \<lparr>tc_api_key = ''key'', tc_api_secret = ''shh'', tc_api_base_url = ''https://api'',
     tc_gateway_base_url = ''https://gw'', tc_referrer_domain = ''app.example'', tc_crypto_currency_code = ''USDC'',
     tc_network = ''base'', tc_chain_id = 8453, tc_token_address = demo_wallet\<rparr>"

lemma ride_url: "is_https_url (re_client ride) ''https://api'' MAX_PROVIDER_TEXT_BYTES True"
  "is_https_url (re_client ride) ''https://gw'' MAX_PROVIDER_TEXT_BYTES True"
  "is_https_url (re_client ride) ''https://w'' MAX_WIDGET_URL_BYTES False"
proof -
  have x: "tx_httpx_url (re_client ride) u = Some (''https'', ''h'')" for u by (simp add: shop_def)
  have u: "urlsplit ''https://api'' = Inr \<lparr>sp_scheme = ''https'', sp_netloc = ''api'', sp_path = [], sp_query = [], sp_fragment = []\<rparr>"
    "urlsplit ''https://gw'' = Inr \<lparr>sp_scheme = ''https'', sp_netloc = ''gw'', sp_path = [], sp_query = [], sp_fragment = []\<rparr>"
    "urlsplit ''https://w'' = Inr \<lparr>sp_scheme = ''https'', sp_netloc = ''w'', sp_path = [], sp_query = [], sp_fragment = []\<rparr>"
    by code_simp+
  have v: "is_visible_ascii ''https://api'' MAX_PROVIDER_TEXT_BYTES" "is_visible_ascii ''https://gw'' MAX_PROVIDER_TEXT_BYTES"
    "is_visible_ascii ''https://w'' MAX_WIDGET_URL_BYTES" by code_simp+
  have h: "hostinfo ''api'' = (''api'', None)" "hostinfo ''gw'' = (''gw'', None)" "hostinfo ''w'' = (''w'', None)"
    "py_rpartition (CHR ''@'') ''api'' = ([], False, ''api'')" "py_rpartition (CHR ''@'') ''gw'' = ([], False, ''gw'')"
    "py_rpartition (CHR ''@'') ''w'' = ([], False, ''w'')" "url_path [] = []" by code_simp+
  show "is_https_url (re_client ride) ''https://api'' MAX_PROVIDER_TEXT_BYTES True"
    "is_https_url (re_client ride) ''https://gw'' MAX_PROVIDER_TEXT_BYTES True"
    "is_https_url (re_client ride) ''https://w'' MAX_WIDGET_URL_BYTES False"
    by (simp_all add: is_https_url_def x u v h sp_port_def sp_hostname_def sp_username_def sp_password_def split: prod.splits)
qed

lemma ride_config: "load_transak_config (re_client ride) demo_transak = Inr ride_tc"
proof -
  have p: "required_setting (Some ''key'') = Inr ''key''" "required_setting (Some ''shh'') = Inr ''shh''"
    "required_setting (Some ''https://api'') = Inr ''https://api''" "required_setting (Some ''https://gw'') = Inr ''https://gw''"
    "rstrip_char (CHR ''/'') ''https://api'' = ''https://api''" "rstrip_char (CHR ''/'') ''https://gw'' = ''https://gw''"
    "referrer_domain (Some ''app.example'') = Inr ''app.example''" "provider_code (Some ''USDC'') = Inr ''USDC''"
    "provider_code (Some ''base'') = Inr ''base''" by code_simp+
  show ?thesis
    by (simp add: load_transak_config_def demo_transak_def p https_base_url_def ride_url shop_orders demo_checks
        zero_address_text_def ride_tc_def)
qed

definition ride_asked :: session_payload where
  "ride_asked = \<lparr>ses_transaction_id = unicode_of (made_token ''transak''), ses_ip_attestation = None,
     ses_default_crypto_amount = None\<rparr>"

lemma ride_opened:
  "\<exists>session t. create_onramp_session ride ([], ''me'') ride_asked (\<lambda>h. [''8.8.8.8'']) shop_start = (Inr session, t)
     \<and> ws_url session = ''https://w''"
proof -
  obtain d where d: "decode_text demo_orders (unicode_of (made_token ''transak'')) 2000 False = Inr d"
    "field d ''p'' = VText (unicode_of ''transak'')" "field d ''a'' = VText (unicode_of ''usdc'')"
    "field d ''t'' = VText (unicode_of (replicate 64 (CHR ''b'')))" "field d ''c'' = VInt 8453"
    using made_text_decoded [of "''transak''"] by (auto simp: PROVIDERS_def)
  have p: "configured_provider \<lparr>is_signing_key_id = ''k'', is_previous_key_ids = [], is_provider = Some ''transak''\<rparr> = Inr ''transak''"
    by code_simp
  have ip: "load_transak_session_ip_config demo_transak = Inr (HeaderMode ''x-ip'')" by code_simp
  have a: "address_field (oe_intent demo_orders) d k = Inr demo_wallet" for k by (simp add: address_field_def demo_checks)
  define token_id where "token_id = to_hex (replicate 32 0xBB)"
  have r: "registered_transak_token_id ride ride_tc None None s = (Inr token_id, s)" for s
    by (simp add: registered_transak_token_id_def service_def shop_def py_bind_def py_ret_def token_id_def)
  have t: "token_id = ''0x'' @ replicate 64 (CHR ''b'')" "unicode_of (ascii_lower token_id) = unicode_of ''0x'' @ unicode_of (replicate 64 (CHR ''b''))"
    unfolding token_id_def by code_simp+
  have "text_lower un (unicode_of ''usdc'') = unicode_of ''usdc''" 
    "text_lower un (unicode_of (replicate 64 (CHR ''b''))) = unicode_of (replicate 64 (CHR ''b''))"
    "ascii_lower ''USDC'' = ''usdc''" for un
    by code_simp+
  then have low: "text_lower (oe_unicode demo_orders) (unicode_of ''usdc'') = unicode_of (canonical_asset_code ride_tc)"
    "text_lower (oe_unicode demo_orders) (unicode_of (replicate 64 (CHR ''b''))) = unicode_of (replicate 64 (CHR ''b''))"
    "tc_chain_id ride_tc = 8453"
    by (simp_all add: canonical_asset_code_def ride_tc_def del: unicode_of_simps)
  have v: "validate_transak_intent demo_orders d ''me'' demo_wallet token_id ride_tc = Inr ()"
    by (simp add: validate_transak_intent_def text_field_def int_field_def d a demo_checks low [unfolded demo_checks] t(2) del: unicode_of_simps)
  have u: "user_ip_of ride ride_tc (HeaderMode ''x-ip'') ride_asked (\<lambda>h. [''8.8.8.8'']) s = (Inr ''8.8.8.8'', s)" for s
  proof -
    have "py_strip ''8.8.8.8'' = ''8.8.8.8''" by code_simp
    then show ?thesis
      by (simp add: user_ip_of_def client_ip_from_values_def py_lift_def Let_def shop_def demo_api_def)
  qed
  have w: "\<exists>session c. create_widget_session (re_client ride) ride_tc x demo_wallet ''8.8.8.8'' None (transak_init 2000000000)
      = (Inr session, c) \<and> ws_url session = ''https://w''" for x
  proof -
    have n: "now_ticks (re_client ride) c = (Inr (tk_world c), c)" for c by (simp add: now_ticks_def shop_def demo_api_def)
    have q: "hq_url (refresh_request ride_tc) = ''https://api/partners/api/v2/refresh-token''"
      by (simp add: refresh_request_def ride_tc_def)
    have e: "read_token lasting_payload = Inr \<lparr>at_value = ''tk'', at_expires_at = 9999\<rparr>" by code_simp
    have ne: "lasting_payload \<noteq> VNull" "widget_payload \<noteq> VNull" "unicode_of ''https://w'' \<noteq> []" by (simp_all add: lasting_payload_def widget_payload_def)
    have m: "get_field (get_field widget_payload ''data'') ''widgetUrl'' = VText (unicode_of ''https://w'')" by code_simp
    have asc: "ascii (unicode_of ''https://w'')" by code_simp
    have o: "tx_others (re_client ride) c = c" for c by (simp add: shop_def demo_api_def)
    obtain c where f: "refresh_token_locked (re_client ride) ride_tc (transak_init 2000000000)
        = (Inr \<lparr>at_value = ''tk'', at_expires_at = 9999\<rparr>, c)"
      by (simp add: refresh_token_locked_def ride_request q py_bind_def py_lift_def successful_payload_def n e ne
        int_seconds_def SECOND_def py_then_def py_modify_def py_ret_def store_token_def transak_init_def)
    have s: "access_token (re_client ride) ride_tc (transak_init 2000000000) = (Inr \<lparr>at_value = ''tk'', at_expires_at = 9999\<rparr>, c)"
      using f by (simp add: access_token_def usable_def py_bind_def py_get_def transak_init_def py_then_def take_lock_def
        py_modify_def o)
    have g: "hq_url (with_token ride_tc (session_request ride_tc x demo_wallet ''8.8.8.8'' None) tok) \<noteq> ''https://api/partners/api/v2/refresh-token''" for tok
      by (simp add: with_token_def session_request_def ride_tc_def)
    show ?thesis
      by (simp add: create_widget_session_def n py_bind_def py_lift_def shop_orders demo_checks authenticated_json_request_def
        s ride_request g py_ret_def successful_payload_def ne read_widget_url_def m asc ascii_back ride_url del: unicode_of_simps)
  qed
  obtain session c where c: "create_widget_session (re_client ride) ride_tc (made_token ''transak'') demo_wallet ''8.8.8.8'' None
      (transak_init 2000000000) = (Inr session, c)" "ws_url session = ''https://w''" using w by blast
  have i: "oo_client shop_start = transak_init 2000000000" by (simp add: shop_start_def)
  have r': "ses_transaction_id ride_asked = unicode_of (made_token ''transak'')" "ses_default_crypto_amount ride_asked = None"
    by (simp_all add: ride_asked_def)
  show ?thesis
    by (simp add: create_onramp_session_def answered_def py_try_def py_then_def py_bind_def shop_limit shop_deposit py_lift_def
        shop_parts p ip ride_config shop_now i r' shop_orders d(1) r v u ascii_back on_client_def c)
qed


end
